(* ===== verification/Prelude.thy ===== *)
theory Prelude
  imports Main "HOL-Library.State_Monad" "HOL-Library.AList" "HOL-Library.Char_ord"
    "HOL-Library.List_Lexorder" "HOL-Library.Sublist"
begin

text \<open>
  The shared prelude of the development: how Go values are represented, the pieces of the Go
  standard library the operator uses (\<open>strings\<close>, \<open>errors\<close>, \<open>sort\<close>), the interaction
  monad in which the controllers talk to the API server, and the generic lemmas and interfaces
  (locales) the components share.

  \<^item> A Go \<open>error\<close> is \<open>go_err option\<close> (\<open>None\<close> is nil); a result \<open>(T, error)\<close> is
    \<open>go_err + T\<close>; a nil-able pointer is an \<open>option\<close>; a slice whose nil-ness the code can observe
    is \<open>'a slice\<close>.
  \<^item> A Go map is an association list. Its order stands for the (unspecified) iteration order, so a
    theorem for every list is a theorem for every iteration order.
  \<^item> A Go string is a list of characters (one character for one code point).
\<close>

named_theorems go_str \<open>unfolding rules of the string operations\<close>
named_theorems emits_intros \<open>composition rules for the calls a program may issue\<close>
named_theorems io_runs \<open>running the primitive interactions\<close>

section \<open>Go values\<close>

type_synonym 'a slice = "'a list option"
type_synonym labels = "(string \<times> string) list"
type_synonym nsn = "string \<times> string"  \<comment> \<open>types.NamespacedName: namespace, name\<close>

definition elems :: "'a slice \<Rightarrow> 'a list" where
  "elems s = (case s of None \<Rightarrow> [] | Some xs \<Rightarrow> xs)"

lemma elems_simps [simp]: "elems None = []" "elems (Some xs) = xs"
  by (simp_all add: elems_def)

text \<open>Reading a missing key of a Go map yields the zero value.\<close>

definition lookup_default :: "'v \<Rightarrow> ('k \<times> 'v) list \<Rightarrow> 'k \<Rightarrow> 'v" where
  "lookup_default d m k = (case map_of m k of None \<Rightarrow> d | Some v \<Rightarrow> v)"

lemma lookup_default_Nil [simp]: "lookup_default d [] k = d"
  by (simp add: lookup_default_def)

abbreviation label_of :: "labels \<Rightarrow> string \<Rightarrow> string" where
  "label_of \<equiv> lookup_default []"

definition has_key :: "('k \<times> 'v) list \<Rightarrow> 'k \<Rightarrow> bool" where
  "has_key m k = (map_of m k \<noteq> None)"

lemma has_key_update [simp]: "has_key (AList.update k v m) k' \<longleftrightarrow> k' = k \<or> has_key m k'"
  by (auto simp: has_key_def update_conv')

lemma has_key_delete [simp]: "has_key (AList.delete k m) k' \<longleftrightarrow> k' \<noteq> k \<and> has_key m k'"
  by (auto simp: has_key_def delete_conv')

lemma has_key_dom: "has_key m k \<longleftrightarrow> k \<in> fst ` set m"
  by (auto simp: has_key_def map_of_eq_None_iff)

lemma label_of_update [simp]:
  "label_of (AList.update k v m) k' = (if k' = k then v else label_of m k')"
  by (simp add: lookup_default_def update_conv')

text \<open>The conversion \<open>int32(n)\<close> of a wider integer keeps the low 32 bits.\<close>

definition go_int32 :: "int \<Rightarrow> int" where
  "go_int32 n = (n + 2 ^ 31) mod 2 ^ 32 - 2 ^ 31"

lemma go_int32_id: "- (2 ^ 31) \<le> n \<Longrightarrow> n < 2 ^ 31 \<Longrightarrow> go_int32 n = n"
  by (simp add: go_int32_def)

lemma go_int32_bounds: "- (2 ^ 31) \<le> go_int32 n \<and> go_int32 n < 2 ^ 31"
  by (simp add: go_int32_def)

section \<open>Errors\<close>

text \<open>
  \<open>Errorf\<close> is \<^verbatim>\<open>fmt.Errorf("...%v", err)\<close>: the cause survives only as text. \<open>Wrapf\<close> is
  \<^verbatim>\<open>fmt.Errorf("...%w", err)\<close>: the cause stays in the error chain that \<open>errors.Is\<close>,
  \<open>errors.As\<close> and \<open>apierrors.IsNotFound\<close> walk. \<open>Panic\<close> marks a run-time panic (a nil
  dereference or an index out of range), which no caller of the operator recovers from.
\<close>

datatype api_error = NotFound | AlreadyExists | Conflict | OtherApi string

datatype go_err =
    ApiErr api_error
  | ErrNoMatchingKernelMapping
  | ErrNoMatchingBuildSignResource
  | NewErr string
  | Errorf string go_err
  | Wrapf string go_err
  | Joined "go_err list"
  | Panic string

fun errors_Is :: "go_err \<Rightarrow> go_err \<Rightarrow> bool" where
  "errors_Is (Wrapf s e) t = (Wrapf s e = t \<or> errors_Is e t)"
| "errors_Is (Joined es) t = (Joined es = t \<or> (\<exists>e\<in>set es. errors_Is e t))"
| "errors_Is e t = (e = t)"

definition IsNotFound :: "go_err \<Rightarrow> bool" where
  "IsNotFound e = errors_Is e (ApiErr NotFound)"

definition IsAlreadyExists :: "go_err \<Rightarrow> bool" where
  "IsAlreadyExists e = errors_Is e (ApiErr AlreadyExists)"

fun is_panic :: "go_err \<Rightarrow> bool" where
  "is_panic (Panic _) = True"
| "is_panic _ = False"

definition IgnoreNotFound :: "go_err option \<Rightarrow> go_err option" where
  "IgnoreNotFound e = (case e of None \<Rightarrow> None | Some x \<Rightarrow> if IsNotFound x then None else Some x)"

text \<open>\<open>errors.Join\<close>: nil when every argument is nil.\<close>

definition errors_Join :: "go_err option list \<Rightarrow> go_err option" where
  "errors_Join es = (case List.map_filter id es of [] \<Rightarrow> None | xs \<Rightarrow> Some (Joined xs))"

lemma errors_Join_None [simp]: "errors_Join es = None \<longleftrightarrow> (\<forall>e\<in>set es. e = None)"
  by (induction es) (auto simp: errors_Join_def List.map_filter_def split: list.splits)

lemma errors_Join_Nil [simp]: "errors_Join [] = None"
  by simp

section \<open>Strings\<close>

definition HasPrefix :: "string \<Rightarrow> string \<Rightarrow> bool" where
  [go_str]: "HasPrefix s p = (take (length p) s = p)"

definition HasSuffix :: "string \<Rightarrow> string \<Rightarrow> bool" where
  [go_str]: "HasSuffix s p = (length p \<le> length s \<and> drop (length s - length p) s = p)"

definition TrimSuffix :: "string \<Rightarrow> string \<Rightarrow> string" where
  [go_str]: "TrimSuffix s p = (if HasSuffix s p then take (length s - length p) s else s)"

definition Contains_char :: "string \<Rightarrow> char \<Rightarrow> bool" where
  "Contains_char s c = (c \<in> set s)"

lemma HasPrefix_append [simp]: "HasPrefix (p @ s) p"
  by (simp add: HasPrefix_def)

lemma HasPrefix_iff: "HasPrefix s p \<longleftrightarrow> (\<exists>t. s = p @ t)"
  by (metis HasPrefix_def append_take_drop_id append_eq_conv_conj)

lemma HasSuffix_append [simp]: "HasSuffix (s @ p) p"
  by (simp add: HasSuffix_def)

lemma HasSuffix_iff: "HasSuffix s p \<longleftrightarrow> (\<exists>t. s = t @ p)"
proof
  assume "HasSuffix s p"
  then have "s = take (length s - length p) s @ p"
    by (metis HasSuffix_def append_take_drop_id)
  then show "\<exists>t. s = t @ p" ..
qed auto

lemma TrimSuffix_append [simp]: "TrimSuffix (s @ p) p = s"
  by (simp add: TrimSuffix_def)

lemma TrimSuffix_no_suffix: "\<not> HasSuffix s p \<Longrightarrow> TrimSuffix s p = s"
  by (simp add: TrimSuffix_def)

text \<open>
  \<open>strings.Split\<close> with a one-character separator and \<open>Regexp.Split(s, -1)\<close> with a
  one-character class: the maximal pieces between the separator characters, at least one.
\<close>

fun split_by :: "(char \<Rightarrow> bool) \<Rightarrow> string \<Rightarrow> string list" where
  "split_by P [] = [[]]"
| "split_by P (c # cs) =
     (if P c then [] # split_by P cs
      else (case split_by P cs of [] \<Rightarrow> [[c]] | w # ws \<Rightarrow> (c # w) # ws))"

fun join_with :: "string \<Rightarrow> string list \<Rightarrow> string" where
  "join_with sep [] = []"
| "join_with sep [w] = w"
| "join_with sep (w # v # ws) = w @ sep @ join_with sep (v # ws)"

lemma split_by_neq_Nil [simp]: "split_by P s \<noteq> []"
  by (induction s) (auto split: list.splits)

lemma split_by_pieces: "w \<in> set (split_by P s) \<Longrightarrow> c \<in> set w \<Longrightarrow> \<not> P c \<and> c \<in> set s"
proof (induction s arbitrary: w)
  case Nil
  then show ?case by simp
next
  case (Cons x xs)
  then show ?case
    by (cases "split_by P xs") (fastforce split: if_splits)+
qed

lemma split_by_no_sep: "\<forall>c\<in>set s. \<not> P c \<Longrightarrow> split_by P s = [s]"
  by (induction s) auto

lemma split_by_append_sep:
  "P c \<Longrightarrow> split_by P (s @ c # t) = split_by P s @ split_by P t"
  by (induction s) (auto split: list.splits)

lemma split_by_join: "join_with [c] (split_by (\<lambda>x. x = c) s) = s"
proof (induction s)
  case Nil
  show ?case by simp
next
  case (Cons x xs)
  obtain w ws where *: "split_by (\<lambda>x. x = c) xs = w # ws"
    by (meson neq_Nil_conv split_by_neq_Nil)
  with Cons show ?case
    by (cases ws) auto
qed

lemma length_split_by: "length (split_by P s) = Suc (length (filter P s))"
  by (induction s) (auto split: list.splits)

text \<open>The separator-free first piece, as a regular expression \<open>[^.]+\<close> followed by a dot takes it.\<close>

definition break_at :: "char \<Rightarrow> string \<Rightarrow> (string \<times> string) option" where
  "break_at c s = (case dropWhile (\<lambda>x. x \<noteq> c) s of [] \<Rightarrow> None
                   | _ # t \<Rightarrow> Some (takeWhile (\<lambda>x. x \<noteq> c) s, t))"

lemma break_at_append: "c \<notin> set a \<Longrightarrow> break_at c (a @ c # t) = Some (a, t)"
proof -
  assume c: "c \<notin> set a"
  then have "dropWhile (\<lambda>x. x \<noteq> c) (a @ c # t) = c # t"
    by (induction a) auto
  moreover from c have "takeWhile (\<lambda>x. x \<noteq> c) (a @ c # t) = a"
    by (induction a) auto
  ultimately show ?thesis by (simp add: break_at_def)
qed

lemma break_at_SomeD: "break_at c s = Some (a, t) \<Longrightarrow> s = a @ c # t \<and> c \<notin> set a"
proof -
  assume "break_at c s = Some (a, t)"
  then obtain x where d: "dropWhile (\<lambda>x. x \<noteq> c) s = x # t" and a: "a = takeWhile (\<lambda>x. x \<noteq> c) s"
    by (auto simp: break_at_def split: list.splits)
  from d have "x = c" by (metis (mono_tags) hd_dropWhile list.discI list.sel(1))
  moreover have "c \<notin> set a" unfolding a by (metis (mono_tags) set_takeWhileD)
  ultimately show ?thesis using d a by (metis takeWhile_dropWhile_id)
qed

text \<open>\<open>fmt.Sprintf("%d", n)\<close> for unsigned numbers.\<close>

fun fmt_d :: "nat \<Rightarrow> string" where
  "fmt_d n = (if n < 10 then [char_of (48 + n)] else fmt_d (n div 10) @ [char_of (48 + n mod 10)])"

declare fmt_d.simps [simp del]

fun parse_d :: "string \<Rightarrow> nat \<Rightarrow> nat" where
  "parse_d [] acc = acc"
| "parse_d (c # cs) acc = parse_d cs (10 * acc + (of_char c - 48))"

lemma parse_d_append: "parse_d (s @ t) acc = parse_d t (parse_d s acc)"
  by (induction s arbitrary: acc) auto

lemma parse_fmt_d: "parse_d (fmt_d n) 0 = n"
proof (induction n rule: fmt_d.induct)
  case (1 n)
  have digit: "\<And>m. m < 10 \<Longrightarrow> (of_char (char_of (48 + m) :: char) :: nat) = 48 + m"
    by (simp add: of_char_of)
  show ?case
  proof (cases "n < 10")
    case True
    then show ?thesis by (simp add: fmt_d.simps [of n] digit)
  next
    case False
    with 1 have "parse_d (fmt_d (n div 10)) 0 = n div 10" by simp
    with False show ?thesis
      by (simp add: fmt_d.simps [of n] parse_d_append digit)
  qed
qed

lemma fmt_d_inject [simp]: "fmt_d m = fmt_d n \<longleftrightarrow> m = n"
  by (metis parse_fmt_d)

section \<open>Keyed slices\<close>

text \<open>
  The shape of most status updates of the operator: find the first element with a key, overwrite
  it in place, append when there is none.
\<close>

fun upsert :: "('a \<Rightarrow> bool) \<Rightarrow> 'a \<Rightarrow> 'a list \<Rightarrow> 'a list" where
  "upsert P v [] = [v]"
| "upsert P v (x # xs) = (if P x then v # xs else x # upsert P v xs)"

lemma find_upsert: "P v \<Longrightarrow> find P (upsert P v xs) = Some v"
  by (induction xs) auto

lemma find_upsert_other:
  "(\<And>x. P x \<Longrightarrow> \<not> Q x) \<Longrightarrow> \<not> Q v \<Longrightarrow> find Q (upsert P v xs) = find Q xs"
  by (induction xs) auto

lemma find_upsert_key:
  "find (\<lambda>x. key x = k) (upsert (\<lambda>x. key x = key v) v xs) =
     (if k = key v then Some v else find (\<lambda>x. key x = k) xs)"
  by (induction xs) auto

lemma set_upsert: "set (upsert P v xs) \<subseteq> insert v (set xs)"
  by (induction xs) auto

lemma upsert_keys:
  assumes "\<And>x. P x \<longleftrightarrow> key x = key v"
  shows "map key (upsert P v xs) = (if key v \<in> key ` set xs then map key xs else map key xs @ [key v])"
  using assms by (induction xs) auto

lemma distinct_upsert:
  assumes "\<And>x. P x \<longleftrightarrow> key x = key v" and "distinct (map key xs)"
  shows "distinct (map key (upsert P v xs))"
  using assms(2) by (auto simp: upsert_keys [where P = P, OF assms(1)])

lemma find_Some_filter: "find P xs = (case filter P xs of [] \<Rightarrow> None | x # _ \<Rightarrow> Some x)"
  by (induction xs) auto

lemma find_set: "find P xs = Some x \<Longrightarrow> x \<in> set xs \<and> P x"
  by (auto simp: find_Some_iff)

lemma map_sum_Inr_iff: "map_sum f g r = Inr y \<longleftrightarrow> (\<exists>x. r = Inr x \<and> y = g x)"
  by (cases r) auto

lemma find_filter_other: "(\<And>x. Q x \<Longrightarrow> P x) \<Longrightarrow> find Q (filter P xs) = find Q xs"
  by (induction xs) auto

lemma find_None_filter: "(\<And>x. P x \<Longrightarrow> \<not> Q x) \<Longrightarrow> find Q (filter P xs) = None"
  by (induction xs) auto

text \<open>
  The interface those stores offer their clients: what a lookup returns after a set, and after a
  run of sets.
\<close>

locale keyed_store =
  fixes get :: "'s \<Rightarrow> 'k \<Rightarrow> 'v option"
    and put :: "'i \<Rightarrow> 's \<Rightarrow> 's"
    and key :: "'i \<Rightarrow> 'k"
    and val :: "'i \<Rightarrow> 'v"
  assumes get_put: "get (put i s) (key i) = Some (val i)"
    and get_put_other: "k \<noteq> key i \<Longrightarrow> get (put i s) k = get s k"
begin

lemma get_put_if: "get (put i s) k = (if k = key i then Some (val i) else get s k)"
  by (simp add: get_put get_put_other)

text \<open>The refinement to a finite map: a set is a map update.\<close>

lemma put_refines_update: "get (put i s) = (get s)(key i \<mapsto> val i)"
  by (rule ext) (simp add: get_put_if)

text \<open>After a run of sets a key holds the last value written to it.\<close>

lemma get_fold_put:
  "get (fold put is s) k =
     (case find (\<lambda>i. key i = k) (rev is) of None \<Rightarrow> get s k | Some i \<Rightarrow> Some (val i))"
proof (induction "is" rule: rev_induct)
  case Nil
  show ?case by simp
next
  case (snoc i js)
  then show ?case by (simp add: get_put_if)
qed

lemma get_fold_put_notin: "k \<notin> key ` set is \<Longrightarrow> get (fold put is s) k = get s k"
proof -
  assume "k \<notin> key ` set is"
  then have "find (\<lambda>i. key i = k) (rev is) = None"
    by (auto simp: find_None_iff)
  then show ?thesis by (simp add: get_fold_put)
qed

lemma put_put_get: "key i \<noteq> key j \<Longrightarrow> get (put i (put j s)) = get (put j (put i s))"
  by (rule ext) (simp add: get_put_if)

lemma put_last_wins: "key i = key j \<Longrightarrow> get (put i (put j s)) = get (put i s)"
  by (rule ext) (simp add: get_put_if)

end

section \<open>Talking to the API server\<close>

text \<open>
  A controller is a program in the state monad over the history of the requests it has issued,
  oldest first. The server is a parameter of the model: a function from the history and the
  request to the answer, so it may be stateful, fail at any point and change between two reads.
  \<open>emits P m\<close> says that \<open>m\<close> only appends requests that satisfy \<open>P\<close>.
\<close>

type_synonym ('c, 'a) io = "('c list, 'a) state"

definition issue :: "'c \<Rightarrow> ('c list \<Rightarrow> 'a) \<Rightarrow> ('c, 'a) io" where
  "issue c ans = State (\<lambda>h. (ans h, h @ [c]))"

lemma run_issue [simp, io_runs]: "run_state (issue c ans) h = (ans h, h @ [c])"
  by (simp add: issue_def)

definition emits :: "('c \<Rightarrow> bool) \<Rightarrow> ('c, 'a) io \<Rightarrow> bool" where
  "emits P m = (\<forall>h. \<exists>t. snd (run_state m h) = h @ t \<and> (\<forall>c\<in>set t. P c))"

definition calls :: "('c, 'a) io \<Rightarrow> 'c list \<Rightarrow> 'c list" where
  "calls m h = drop (length h) (snd (run_state m h))"

definition result :: "('c, 'a) io \<Rightarrow> 'c list \<Rightarrow> 'a" where
  "result m h = fst (run_state m h)"

lemma emits_return [emits_intros]: "emits P (State_Monad.return x)"
  by (simp add: emits_def)

lemma emits_issue [emits_intros]: "P c \<Longrightarrow> emits P (issue c ans)"
  by (simp add: emits_def)

lemma emits_bind [emits_intros]:
  assumes "emits P m" and "\<And>x. emits P (f x)"
  shows "emits P (State_Monad.bind m f)"
  unfolding emits_def
proof
  fix h
  obtain x h' where r: "run_state m h = (x, h')" by fastforce
  with assms(1) obtain t where t: "h' = h @ t" "\<forall>c\<in>set t. P c"
    by (metis emits_def snd_conv)
  from assms(2) [of x] obtain u where u: "snd (run_state (f x) h') = h' @ u" "\<forall>c\<in>set u. P c"
    unfolding emits_def by blast
  with r t show "\<exists>t. snd (run_state (State_Monad.bind m f) h) = h @ t \<and> (\<forall>c\<in>set t. P c)"
    by (intro exI [of _ "t @ u"]) auto
qed

lemma emits_mono: "emits P m \<Longrightarrow> (\<And>c. P c \<Longrightarrow> Q c) \<Longrightarrow> emits Q m"
  unfolding emits_def by meson

lemma emits_if [emits_intros]:
  "(b \<Longrightarrow> emits P m) \<Longrightarrow> (\<not> b \<Longrightarrow> emits P n) \<Longrightarrow> emits P (if b then m else n)"
  by simp

lemma emits_case_sum [emits_intros]:
  "(\<And>e. r = Inl e \<Longrightarrow> emits P (f e)) \<Longrightarrow> (\<And>x. r = Inr x \<Longrightarrow> emits P (g x)) \<Longrightarrow>
     emits P (case r of Inl e \<Rightarrow> f e | Inr x \<Rightarrow> g x)"
  by (cases r) auto

lemma emits_case_option [emits_intros]:
  "(r = None \<Longrightarrow> emits P m) \<Longrightarrow> (\<And>x. r = Some x \<Longrightarrow> emits P (g x)) \<Longrightarrow>
     emits P (case r of None \<Rightarrow> m | Some x \<Rightarrow> g x)"
  by (cases r) auto

lemma emits_case_prod [emits_intros]:
  "(\<And>x y. r = (x, y) \<Longrightarrow> emits P (f x y)) \<Longrightarrow> emits P (case r of (x, y) \<Rightarrow> f x y)"
  by (cases r) auto

lemma emits_traverse [emits_intros]:
  assumes "\<And>x. x \<in> set xs \<Longrightarrow> emits P (f x)"
  shows "emits P (State_Monad.traverse_list f xs)"
  using assms by (induction xs) (auto intro!: emits_intros)

lemma emits_history: "emits P m \<Longrightarrow> snd (run_state m h) = h @ calls m h"
  by (metis append_eq_conv_conj calls_def emits_def)

lemma emits_calls: "emits P m \<Longrightarrow> c \<in> set (calls m h) \<Longrightarrow> P c"
  by (metis append_eq_conv_conj calls_def emits_def)

lemma emits_run:
  assumes "emits P m" and "run_state m h = (x, h')"
  obtains t where "h' = h @ t" and "\<And>c. c \<in> set t \<Longrightarrow> P c"
  using assms by (metis emits_def snd_conv)

lemma calls_after:
  assumes "run_state m h = run_state m' (h @ t)" "emits P m'"
  shows "calls m h = t @ calls m' (h @ t)"
  unfolding calls_def [of m] assms(1) emits_history [OF assms(2)] by simp

lemma calls_bind:
  assumes "emits P m" "\<And>x. emits Q (f x)"
  shows "calls (State_Monad.bind m f) h = calls m h @ calls (f (fst (run_state m h))) (h @ calls m h)"
proof (rule calls_after [OF _ assms(2)])
  show "run_state (State_Monad.bind m f) h = run_state (f (fst (run_state m h))) (h @ calls m h)"
    using emits_history [OF assms(1)] by (simp add: split_beta)
qed

text \<open>
  \<open>does P Q m\<close> adds what is known of the result: the rules are those of a Hoare logic in which \<open>P\<close> is an
  invariant of the requests.
\<close>

definition does :: "('c \<Rightarrow> bool) \<Rightarrow> ('a \<Rightarrow> bool) \<Rightarrow> ('c, 'a) io \<Rightarrow> bool" where
  "does P Q m \<longleftrightarrow> emits P m \<and> (\<forall>h. Q (fst (run_state m h)))"

named_theorems does_intros \<open>composition rules for the requests and the result of a program\<close>

lemma does_return [does_intros]: "Q x \<Longrightarrow> does P Q (State_Monad.return x)"
  by (simp add: does_def emits_return)

lemma does_issue [does_intros]: "P c \<Longrightarrow> (\<And>h. Q (ans h)) \<Longrightarrow> does P Q (issue c ans)"
  by (simp add: does_def emits_issue)

lemma does_bind:
  assumes m: "does P Q m" and f: "\<And>x. Q x \<Longrightarrow> does P R (f x)"
  shows "does P R (State_Monad.bind m f)"
  unfolding does_def
proof (intro conjI allI)
  show "emits P (State_Monad.bind m f)"
    unfolding emits_def
  proof
    fix h
    let ?x = "fst (run_state m h)"
    from m have "does P R (f ?x)" by (intro f) (simp add: does_def)
    then have e: "emits P (f ?x)" by (simp add: does_def)
    obtain t where t: "snd (run_state m h) = h @ t" "\<forall>c\<in>set t. P c"
      using m unfolding does_def emits_def by blast
    obtain u where u: "snd (run_state (f ?x) (h @ t)) = (h @ t) @ u" "\<forall>c\<in>set u. P c"
      using e unfolding emits_def by blast
    show "\<exists>t. snd (run_state (State_Monad.bind m f) h) = h @ t \<and> (\<forall>c\<in>set t. P c)"
      using t u by (intro exI [of _ "t @ u"]) (auto simp: split_beta)
  qed
  fix h
  from m have "does P R (f (fst (run_state m h)))" by (intro f) (simp add: does_def)
  then show "R (fst (run_state (State_Monad.bind m f) h))" by (simp add: does_def split_beta)
qed

lemma does_if [does_intros]:
  "(b \<Longrightarrow> does P Q m) \<Longrightarrow> (\<not> b \<Longrightarrow> does P Q n) \<Longrightarrow> does P Q (if b then m else n)"
  by simp

lemma does_case_sum [does_intros]:
  "(\<And>e. r = Inl e \<Longrightarrow> does P Q (f e)) \<Longrightarrow> (\<And>x. r = Inr x \<Longrightarrow> does P Q (g x)) \<Longrightarrow>
     does P Q (case r of Inl e \<Rightarrow> f e | Inr x \<Rightarrow> g x)"
  by (cases r) auto

lemma does_case_option [does_intros]:
  "(r = None \<Longrightarrow> does P Q m) \<Longrightarrow> (\<And>x. r = Some x \<Longrightarrow> does P Q (g x)) \<Longrightarrow>
     does P Q (case r of None \<Rightarrow> m | Some x \<Rightarrow> g x)"
  by (cases r) auto

lemma does_case_prod [does_intros]:
  "(\<And>x y. r = (x, y) \<Longrightarrow> does P Q (f x y)) \<Longrightarrow> does P Q (case r of (x, y) \<Rightarrow> f x y)"
  by (cases r) simp

lemma does_emits: "does P Q m \<Longrightarrow> emits P m"
  by (simp add: does_def)

lemma emits_does: "emits P m \<Longrightarrow> does P (\<lambda>_. True) m"
  by (simp add: does_def)

lemma does_result: "does P Q m \<Longrightarrow> Q (fst (run_state m h))"
  by (simp add: does_def)

lemma does_mono: "does P Q m \<Longrightarrow> (\<And>c. P c \<Longrightarrow> P' c) \<Longrightarrow> (\<And>x. Q x \<Longrightarrow> Q' x) \<Longrightarrow> does P' Q' m"
  unfolding does_def using emits_mono by blast

lemma does_calls: "does P Q m \<Longrightarrow> c \<in> set (calls m h) \<Longrightarrow> P c"
  by (metis does_emits emits_calls)

section \<open>Reachable states\<close>

text \<open>A property that every step of a system keeps holds in every state it reaches.\<close>

locale step_invariant =
  fixes step :: "'s \<Rightarrow> 's \<Rightarrow> bool" and inv :: "'s \<Rightarrow> bool"
  assumes step_keeps: "step s s' \<Longrightarrow> inv s \<Longrightarrow> inv s'"
begin

lemma reachable: "step\<^sup>*\<^sup>* s s' \<Longrightarrow> inv s \<Longrightarrow> inv s'"
  by (induction rule: rtranclp_induct) (auto intro: step_keeps)

end

text \<open>
  Steps that also do some work and do not stop before a goal is reached: every run comes to rest, and only there.
\<close>

locale converging_steps = step_invariant step inv
  for step :: "'s \<Rightarrow> 's \<Rightarrow> bool" and inv :: "'s \<Rightarrow> bool" +
  fixes work :: "'s \<Rightarrow> nat" and goal :: "'s \<Rightarrow> bool"
  assumes step_works: "step s s' \<Longrightarrow> work s' < work s"
    and rests_only_at_goal: "inv s \<Longrightarrow> (\<And>s'. \<not> step s s') \<Longrightarrow> goal s"
begin

lemma no_endless_run: "wf {(s', s). step s s'}"
  by (rule wf_subset [OF wf_measure [of work]]) (auto dest: step_works)

lemma comes_to_rest: "\<exists>s'. step\<^sup>*\<^sup>* s s' \<and> (\<forall>t. \<not> step s' t)"
proof (induction "work s" arbitrary: s rule: less_induct)
  case less
  show ?case
  proof (cases "\<exists>t. step s t")
    case True
    then obtain t where t: "step s t" ..
    from less [OF step_works [OF t]] t show ?thesis by (meson converse_rtranclp_into_rtranclp)
  qed blast
qed

lemma reaches_goal: "inv s \<Longrightarrow> \<exists>s'. step\<^sup>*\<^sup>* s s' \<and> goal s'"
  using comes_to_rest [of s] reachable rests_only_at_goal by blast

end

end
