(* ===== verification/Api_Types.thy ===== *)
theory Api_Types
  imports Prelude
begin

text \<open>
  The data model: the custom resources of \<^verbatim>\<open>api/v1beta1\<close> as records with the source's
  fields, the merged \<open>ModuleLoaderData\<close> of \<^verbatim>\<open>internal/api\<close>, and of the Kubernetes
  objects (Pod, Node, ...) the fields the operator reads or writes. A \<open>LocalObjectReference\<close> is
  the name it holds, \<open>DeletionTimestamp\<close> is whether it is set, an owner is the reference to it.
\<close>

section \<open>Kubernetes objects\<close>

record toleration =
  tol_key :: string
  tol_operator :: string
  tol_value :: string
  tol_effect :: string
  tol_seconds :: "int option"

record taint =
  taint_key :: string
  taint_value :: string
  taint_effect :: string

record owner_ref =
  own_kind :: string
  own_namespace :: string
  own_name :: string
  own_uid :: string

record node =
  node_name :: string
  node_uid :: string
  node_labels :: labels
  node_taints :: "taint list"
  node_kernel_version :: string
  node_boot_id :: string
  node_conditions :: "(string \<times> string) list"
  node_spec_rest :: string  \<comment> \<open>the rest of the spec, only compared\<close>
  node_info_rest :: string  \<comment> \<open>the rest of the node information, only compared\<close>

datatype volume_source =
    HostPath string "string option"
  | DownwardAPI "(string \<times> string) list"       \<comment> \<open>file path, annotation field path\<close>
  | EmptyDir
  | SecretVolume string "(string \<times> string) list" \<comment> \<open>secret, key to path\<close>
  | ConfigMapVolume string "(string \<times> string) list"
  | OtherVolume string

record volume =
  vol_name :: string
  vol_source :: volume_source

record volume_mount =
  vm_name :: string
  vm_path :: string
  vm_sub_path :: string
  vm_read_only :: bool

record security_context =
  sc_privileged :: "bool option"
  sc_capabilities :: "string list"
  sc_selinux_type :: "string option"
  sc_run_as_user :: "int option"

record container =
  c_name :: string
  c_image :: string
  c_pull_policy :: string
  c_command :: "string list"
  c_args :: "string list"
  c_mounts :: "volume_mount list"
  c_requests :: labels
  c_limits :: labels
  c_security :: "security_context option"

datatype pod_phase = PodPending | PodRunning | PodSucceeded | PodFailed | PodUnknown | PodPhaseUnset

record container_status =
  cs_name :: string
  cs_restart_count :: int
  cs_waiting :: "string option"  \<comment> \<open>the reason, when the state is Waiting\<close>

record pod =
  pod_name :: string
  pod_generate_name :: string
  pod_namespace :: string
  pod_labels :: labels
  pod_annotations :: "labels option"
  pod_finalizers :: "string list"
  pod_deleting :: bool
  pod_owner :: "owner_ref option"
  pod_init_containers :: "container list"
  pod_containers :: "container list"
  pod_node_name :: string
  pod_restart_policy :: string
  pod_service_account :: string
  pod_pull_secrets :: "string slice"
  pod_volumes :: "volume list"
  pod_tolerations :: "toleration list"
  pod_node_selector :: labels
  pod_phase :: pod_phase
  pod_container_statuses :: "container_status slice"
  pod_conditions :: "(string \<times> string) list"
  pod_other_owners :: "owner_ref list"  \<comment> \<open>the owners other than the controller\<close>
  pod_created :: string
  pod_deleted_at :: int  \<comment> \<open>the deletion timestamp in nanoseconds, when set\<close>

definition empty_container :: container where
  "empty_container = \<lparr>c_name = [], c_image = [], c_pull_policy = [], c_command = [], c_args = [],
     c_mounts = [], c_requests = [], c_limits = [], c_security = None\<rparr>"

definition empty_pod :: pod where
  "empty_pod = \<lparr>pod_name = [], pod_generate_name = [], pod_namespace = [], pod_labels = [],
     pod_annotations = None, pod_finalizers = [], pod_deleting = False, pod_owner = None,
     pod_init_containers = [], pod_containers = [], pod_node_name = [], pod_restart_policy = [],
     pod_service_account = [], pod_pull_secrets = None, pod_volumes = [], pod_tolerations = [],
     pod_node_selector = [], pod_phase = PodPhaseUnset, pod_container_statuses = None,
     pod_conditions = [], pod_other_owners = [], pod_created = [], pod_deleted_at = 0\<rparr>"

abbreviation pod_nsn :: "pod \<Rightarrow> nsn" where
  "pod_nsn p \<equiv> (pod_namespace p, pod_name p)"

section \<open>The Module resource\<close>

record build_arg =
  ba_name :: string
  ba_value :: string

record tls_options =
  tls_insecure :: bool
  tls_skip_verify :: bool

record kaniko_params =
  kp_tag :: string

record build =
  bld_args :: "build_arg list"
  bld_dockerfile_cm :: "string option"
  bld_base_tls :: tls_options
  bld_secrets :: "string list"
  bld_kaniko :: "kaniko_params option"
  bld_selector :: labels

record sign =
  sgn_unsigned_image :: string
  sgn_unsigned_tls :: tls_options
  sgn_key_secret :: "string option"
  sgn_cert_secret :: "string option"
  sgn_files :: "string list"

record kernel_mapping =
  km_build :: "build option"
  km_sign :: "sign option"
  km_image :: string
  km_literal :: string
  km_registry_tls :: "tls_options option"
  km_regexp :: string
  km_intree_one :: string
  km_intree :: "string slice"

record modprobe_args =
  mpa_load :: "string slice"
  mpa_unload :: "string slice"

record modprobe_spec =
  mp_module_name :: string
  mp_parameters :: "string slice"
  mp_dir_name :: string
  mp_args :: "modprobe_args option"
  mp_raw_args :: "modprobe_args option"
  mp_firmware_path :: string
  mp_modprobed_dir :: string
  mp_loading_order :: "string slice"

record loader_container =
  lc_build :: "build option"
  lc_sign :: "sign option"
  lc_version :: string
  lc_image :: string
  lc_pull_policy :: string
  lc_mappings :: "kernel_mapping list"
  lc_modprobe :: modprobe_spec
  lc_registry_tls :: tls_options
  lc_intree_one :: string
  lc_intree :: "string slice"

record module_loader =
  ml_container :: loader_container
  ml_service_account :: string

record env_var =
  ev_name :: string
  ev_value :: string
  ev_field_path :: "string option"  \<comment> \<open>the value of a field of the pod\<close>

text \<open>A probe of the user, which is only passed on, or a gRPC probe made by the operator: port, service,
  initial delay, period, timeout and failure threshold.\<close>

datatype probe = UserProbe string | GrpcProbe int string int int int int

record common_container =
  cc_command :: "string list"
  cc_args :: "string list"
  cc_env :: "env_var list"
  cc_image :: string
  cc_pull_policy :: string
  cc_resources :: labels
  cc_mounts :: "volume_mount list"
  cc_startup_probe :: "probe option"
  cc_liveness_probe :: "probe option"
  cc_security :: "security_context option"

record device_plugin =
  dp_container :: common_container
  dp_init :: "common_container option"
  dp_service_account :: string
  dp_volumes :: "volume list"
  dp_automount :: "bool option"

record device_class =
  dc_name :: string
  dc_selectors :: "string list"
  dc_config :: "string list"

record dra =
  dra_container :: common_container
  dra_init :: "common_container option"
  dra_service_account :: string
  dra_volumes :: "volume list"
  dra_automount :: "bool option"
  dra_driver_name :: string
  dra_classes :: "device_class list"

record module_spec =
  ms_device_plugin :: "device_plugin option"
  ms_dra :: "dra option"
  ms_loader :: "module_loader option"
  ms_repo_secret :: "string option"
  ms_selector :: labels
  ms_tolerations :: "toleration list"
  ms_rebuild_trigger :: "int option"

record ds_status =
  dss_matching :: int
  dss_desired :: int
  dss_available :: int

record module_status =
  mst_device_plugin :: ds_status
  mst_dra :: ds_status
  mst_loader :: ds_status
  mst_rebuild_trigger :: "int option"

record kmodule =
  mod_name :: string
  mod_namespace :: string
  mod_uid :: string
  mod_deleting :: bool
  mod_finalizers :: "string list"
  mod_spec :: module_spec
  mod_status :: module_status

definition module_owner :: "kmodule \<Rightarrow> owner_ref" where
  "module_owner m = \<lparr>own_kind = ''Module'', own_namespace = mod_namespace m, own_name = mod_name m,
     own_uid = mod_uid m\<rparr>"

text \<open>Zero values of the nested structures.\<close>

definition no_tls :: tls_options where
  "no_tls = \<lparr>tls_insecure = False, tls_skip_verify = False\<rparr>"

definition empty_mapping :: kernel_mapping where
  "empty_mapping = \<lparr>km_build = None, km_sign = None, km_image = [], km_literal = [],
     km_registry_tls = None, km_regexp = [], km_intree_one = [], km_intree = None\<rparr>"

definition empty_modprobe :: modprobe_spec where
  "empty_modprobe = \<lparr>mp_module_name = [], mp_parameters = None, mp_dir_name = [], mp_args = None,
     mp_raw_args = None, mp_firmware_path = [], mp_modprobed_dir = [], mp_loading_order = None\<rparr>"

definition empty_loader_container :: loader_container where
  "empty_loader_container = \<lparr>lc_build = None, lc_sign = None, lc_version = [], lc_image = [],
     lc_pull_policy = [], lc_mappings = [], lc_modprobe = empty_modprobe, lc_registry_tls = no_tls,
     lc_intree_one = [], lc_intree = None\<rparr>"

definition empty_module_spec :: module_spec where
  "empty_module_spec = \<lparr>ms_device_plugin = None, ms_dra = None, ms_loader = None,
     ms_repo_secret = None, ms_selector = [], ms_tolerations = [], ms_rebuild_trigger = None\<rparr>"

definition zero_ds :: ds_status where
  "zero_ds = \<lparr>dss_matching = 0, dss_desired = 0, dss_available = 0\<rparr>"

definition new_module :: "string \<Rightarrow> string \<Rightarrow> module_spec \<Rightarrow> kmodule" where
  "new_module ns name spec = \<lparr>mod_name = name, mod_namespace = ns, mod_uid = [], mod_deleting = False,
     mod_finalizers = [], mod_spec = spec,
     mod_status = \<lparr>mst_device_plugin = zero_ds, mst_dra = zero_ds, mst_loader = zero_ds,
       mst_rebuild_trigger = None\<rparr>\<rparr>"

section \<open>DaemonSets and device classes\<close>

record ds_container =
  dsc_name :: string
  dsc_image :: string
  dsc_pull_policy :: string
  dsc_command :: "string list"
  dsc_args :: "string list"
  dsc_env :: "env_var list"
  dsc_resources :: labels
  dsc_security :: "security_context option"
  dsc_mounts :: "volume_mount list"
  dsc_liveness_probe :: "probe option"
  dsc_startup_probe :: "probe option"

record ds_pod_spec =
  dps_init_containers :: "ds_container list"
  dps_containers :: "ds_container list"
  dps_priority_class :: string
  dps_host_network :: bool
  dps_pull_secrets :: "string list"
  dps_node_selector :: labels
  dps_service_account :: string
  dps_volumes :: "volume list"
  dps_tolerations :: "toleration list"
  dps_automount :: "bool option"

record ds_spec =
  dsp_selector :: labels
  dsp_labels :: labels
  dsp_finalizers :: "string list"
  dsp_pod :: ds_pod_spec

record daemonset =
  ds_name :: string
  ds_generate_name :: string
  ds_namespace :: string
  ds_labels :: labels
  ds_owner :: "owner_ref option"
  ds_spec :: ds_spec
  ds_desired :: int
  ds_available :: int

definition empty_ds_pod_spec :: ds_pod_spec where
  "empty_ds_pod_spec = \<lparr>dps_init_containers = [], dps_containers = [], dps_priority_class = [], dps_host_network = False,
     dps_pull_secrets = [], dps_node_selector = [], dps_service_account = [], dps_volumes = [], dps_tolerations = [],
     dps_automount = None\<rparr>"

definition new_daemonset :: "string \<Rightarrow> string \<Rightarrow> daemonset" where
  "new_daemonset ns gen = \<lparr>ds_name = [], ds_generate_name = gen, ds_namespace = ns, ds_labels = [], ds_owner = None,
     ds_spec = \<lparr>dsp_selector = [], dsp_labels = [], dsp_finalizers = [], dsp_pod = empty_ds_pod_spec\<rparr>,
     ds_desired = 0, ds_available = 0\<rparr>"

record device_class_obj =
  dco_name :: string
  dco_labels :: labels
  dco_selectors :: "string list"
  dco_config :: "string list"

record cluster_claim =
  ccl_name :: string
  ccl_value :: string

section \<open>The hub\<close>

record managed_cluster =
  mcl_name :: string
  mcl_labels :: labels
  mcl_claims :: "cluster_claim list"

record managed_cluster_module =
  mcm_name :: string
  mcm_uid :: string
  mcm_module_spec :: module_spec
  mcm_spoke_namespace :: string
  mcm_selector :: labels
  mcm_number_desired :: int
  mcm_number_applied :: int
  mcm_number_degraded :: int

definition mcm_owner :: "managed_cluster_module \<Rightarrow> owner_ref" where
  "mcm_owner m = \<lparr>own_kind = ''ManagedClusterModule'', own_namespace = [], own_name = mcm_name m, own_uid = mcm_uid m\<rparr>"

record manifest_config =
  mwc_group :: string
  mwc_resource :: string
  mwc_name :: string
  mwc_namespace :: string
  mwc_json_paths :: "(string \<times> string) list"

record manifest_work =
  mw_name :: string
  mw_namespace :: string
  mw_labels :: labels
  mw_owner :: "owner_ref option"
  mw_manifests :: "kmodule list"
  mw_configs :: "manifest_config list"
  mw_conditions :: "(string \<times> string) list"  \<comment> \<open>type and status\<close>

section \<open>PreflightValidation\<close>

record pv_module_status =
  pvs_name :: string
  pvs_namespace :: string
  pvs_status :: string
  pvs_reason :: string
  pvs_stage :: string
  pvs_transition :: int

record preflight_validation =
  pv_name :: string
  pv_namespace :: string
  pv_uid :: string
  pv_deleting :: bool
  pv_kernel_version :: string
  pv_push :: bool
  pv_modules :: "pv_module_status list"

definition pv_owner_of :: "preflight_validation \<Rightarrow> owner_ref" where
  "pv_owner_of pv = \<lparr>own_kind = ''PreflightValidation'', own_namespace = pv_namespace pv, own_name = pv_name pv,
     own_uid = pv_uid pv\<rparr>"

section \<open>ModuleLoaderData\<close>

record mld =
  mld_kernel_version :: string
  mld_kernel_normalized :: string
  mld_repo_secret :: "string option"
  mld_selector :: labels
  mld_name :: string
  mld_namespace :: string
  mld_service_account :: string
  mld_build :: "build option"
  mld_sign :: "sign option"
  mld_version :: string
  mld_image :: string
  mld_pull_policy :: string
  mld_modprobe :: modprobe_spec
  mld_registry_tls :: "tls_options option"
  mld_intree :: "string slice"
  mld_owner :: "owner_ref option"
  mld_tolerations :: "toleration list"

section \<open>NodeModulesConfig\<close>

record module_config =
  cfg_kernel_version :: string
  cfg_image :: string
  cfg_pull_policy :: string
  cfg_insecure_pull :: bool
  cfg_intree :: "string slice"
  cfg_intree_one :: string
  cfg_modprobe :: modprobe_spec

record module_item =
  mi_repo_secret :: "string option"
  mi_name :: string
  mi_namespace :: string
  mi_service_account :: string
  mi_tolerations :: "toleration list"
  mi_version :: string

record node_module_spec =
  nms_item :: module_item
  nms_config :: module_config

record node_module_status =
  nst_item :: module_item
  nst_config :: module_config
  nst_boot_id :: string

record nmc =
  nmc_name :: string
  nmc_uid :: string
  nmc_labels :: labels
  nmc_owners :: "owner_ref list"
  nmc_spec :: "node_module_spec list"
  nmc_status :: "node_module_status list"

abbreviation item_nsn :: "module_item \<Rightarrow> nsn" where
  "item_nsn i \<equiv> (mi_namespace i, mi_name i)"

abbreviation spec_nsn :: "node_module_spec \<Rightarrow> nsn" where
  "spec_nsn s \<equiv> item_nsn (nms_item s)"

abbreviation status_nsn :: "node_module_status \<Rightarrow> nsn" where
  "status_nsn s \<equiv> item_nsn (nst_item s)"

definition empty_config :: module_config where
  "empty_config = \<lparr>cfg_kernel_version = [], cfg_image = [], cfg_pull_policy = [],
     cfg_insecure_pull = False, cfg_intree = None, cfg_intree_one = [],
     cfg_modprobe = empty_modprobe\<rparr>"

definition empty_item :: "string \<Rightarrow> string \<Rightarrow> module_item" where
  "empty_item ns name = \<lparr>mi_repo_secret = None, mi_name = name, mi_namespace = ns,
     mi_service_account = [], mi_tolerations = [], mi_version = []\<rparr>"

section \<open>ModuleImagesConfig and ModuleBuildSignConfig\<close>

text \<open>The string type \<open>ImageState\<close>; its zero value \<^verbatim>\<open>""\<close> is \<open>ImageStateUnset\<close>.\<close>

datatype image_state = ImageExists | ImageDoesNotExist | ImageNeedsBuilding | ImageNeedsSigning
  | ImageStateUnset

record image_spec =
  is_image :: string
  is_kernel_version :: string
  is_build :: "build option"
  is_sign :: "sign option"
  is_skip_wait :: bool
  is_registry_tls :: "tls_options option"
  is_dir_name :: string

record mic_spec =
  ics_images :: "image_spec list"
  ics_repo_secret :: "string option"
  ics_pull_policy :: string
  ics_push :: bool
  ics_rebuild_trigger :: "int option"
  ics_tolerations :: "toleration list"

record module_image_state =
  mis_image :: string
  mis_status :: image_state

record mic =
  mic_name :: string
  mic_namespace :: string
  mic_uid :: string
  mic_deleting :: bool
  mic_owner :: "owner_ref option"
  mic_spec :: mic_spec
  mic_states :: "module_image_state list"
  mic_status_trigger :: "int option"

definition mic_owner_of :: "mic \<Rightarrow> owner_ref" where
  "mic_owner_of m = \<lparr>own_kind = ''ModuleImagesConfig'', own_namespace = mic_namespace m,
     own_name = mic_name m, own_uid = mic_uid m\<rparr>"

datatype action = BuildImage | SignImage

text \<open>\<open>BuildOrSignStatus\<close>; \<open>ActionUnset\<close> is the zero value \<^verbatim>\<open>""\<close>.\<close>

datatype action_status = ActionSuccess | ActionFailure | ActionUnset

fun action_string :: "action \<Rightarrow> string" where
  "action_string BuildImage = ''BuildImage''"
| "action_string SignImage = ''SignImage''"

record build_sign_spec =
  bss_spec :: image_spec
  bss_action :: action

record build_sign_state =
  bst_image :: string
  bst_status :: action_status
  bst_action :: action

record mbsc =
  mbsc_name :: string
  mbsc_namespace :: string
  mbsc_uid :: string
  mbsc_deleting :: bool
  mbsc_owner :: "owner_ref option"
  mbsc_images :: "build_sign_spec list"
  mbsc_repo_secret :: "string option"
  mbsc_push :: bool
  mbsc_tolerations :: "toleration list"
  mbsc_status :: "build_sign_state list"

definition mbsc_owner_of :: "mbsc \<Rightarrow> owner_ref" where
  "mbsc_owner_of m = \<lparr>own_kind = ''ModuleBuildSignConfig'', own_namespace = mbsc_namespace m,
     own_name = mbsc_name m, own_uid = mbsc_uid m\<rparr>"

end
