(* ===== verification/Kernel_Version.thy ===== *)
theory Kernel_Version
  imports Prelude
begin

text \<open>
  Kernel version strings: \<^verbatim>\<open>internal/kernel/kernel.go\<close> (normalisation for labels and image
  tags, DNS-safe form for resource names) and \<^verbatim>\<open>internal/utils/replaceStrings.go\<close> (the kernel
  components as template variables, and the substitution of templates). The template engine
  (github.com/a8m/envsubst) is a parameter \<open>envsubst\<close> from the variables and a template to an
  error or the expanded text.
\<close>

section \<open>Normalisation\<close>

definition replaceInvalidChar :: "char \<Rightarrow> char" where
  "replaceInvalidChar r =
     (if (r < CHR ''A'' \<or> r > CHR ''Z'') \<and> (r < CHR ''a'' \<or> r > CHR ''z'') \<and>
         (r < CHR ''0'' \<or> r > CHR ''9'') \<and> r \<noteq> CHR ''-'' \<and> r \<noteq> CHR ''.'' \<and> r \<noteq> CHR ''_''
      then CHR ''_'' else r)"

definition NormalizeVersion :: "string \<Rightarrow> string" where
  "NormalizeVersion version = map replaceInvalidChar version"

text \<open>\<open>strings.ToLower\<close> on the ASCII text a normalised version is.\<close>

definition to_lower :: "char \<Rightarrow> char" where
  "to_lower c = (if CHR ''A'' \<le> c \<and> c \<le> CHR ''Z'' then char_of (of_char c + (32::nat)) else c)"

definition dash_replacer :: "char \<Rightarrow> char" where
  "dash_replacer c = (if c = CHR ''_'' \<or> c = CHR ''.'' then CHR ''-'' else c)"

definition Trim_char :: "char \<Rightarrow> string \<Rightarrow> string" where
  "Trim_char c s = rev (dropWhile (\<lambda>x. x = c) (rev (dropWhile (\<lambda>x. x = c) s)))"

definition DNSSafeKernelVersion :: "string \<Rightarrow> string" where
  "DNSSafeKernelVersion version =
     Trim_char (CHR ''-'') (map dash_replacer (map to_lower (NormalizeVersion version)))"

definition kernel_char :: "char \<Rightarrow> bool" where
  "kernel_char c \<longleftrightarrow> (CHR ''A'' \<le> c \<and> c \<le> CHR ''Z'') \<or> (CHR ''a'' \<le> c \<and> c \<le> CHR ''z'') \<or>
     (CHR ''0'' \<le> c \<and> c \<le> CHR ''9'') \<or> c = CHR ''-'' \<or> c = CHR ''.'' \<or> c = CHR ''_''"

definition dns_char :: "char \<Rightarrow> bool" where
  "dns_char c \<longleftrightarrow> (CHR ''a'' \<le> c \<and> c \<le> CHR ''z'') \<or> (CHR ''0'' \<le> c \<and> c \<le> CHR ''9'') \<or> c = CHR ''-''"

lemma kernel_char_underscore [simp]: "kernel_char (CHR ''_'')"
  by (simp add: kernel_char_def)

lemma replaceInvalidChar_eq: "replaceInvalidChar c = (if kernel_char c then c else CHR ''_'')"
  by (auto simp: replaceInvalidChar_def kernel_char_def not_less)

lemma kernel_char_replace [simp]: "kernel_char (replaceInvalidChar c)"
  by (simp add: replaceInvalidChar_eq)

lemma Trim_char_set: "set (Trim_char c s) \<subseteq> set s"
proof
  fix x assume "x \<in> set (Trim_char c s)"
  then have "x \<in> set (dropWhile (\<lambda>x. x = c) s)"
    by (auto simp: Trim_char_def dest: set_dropWhileD)
  then show "x \<in> set s" by (auto dest: set_dropWhileD)
qed

lemma hd_dropWhile_neq: "dropWhile P xs \<noteq> [] \<Longrightarrow> \<not> P (hd (dropWhile P xs))"
  by (induction xs) auto

lemma Trim_char_last: "Trim_char c s \<noteq> [] \<Longrightarrow> last (Trim_char c s) \<noteq> c"
  using hd_dropWhile_neq [of "\<lambda>x. x = c"] by (auto simp: Trim_char_def last_rev)

lemma Trim_char_hd: "Trim_char c s \<noteq> [] \<Longrightarrow> hd (Trim_char c s) \<noteq> c"
proof -
  define d where "d = dropWhile (\<lambda>x. x = c) s"
  have split: "d = rev (dropWhile (\<lambda>x. x = c) (rev d)) @ rev (takeWhile (\<lambda>x. x = c) (rev d))"
    by (metis rev_append rev_rev_ident takeWhile_dropWhile_id)
  assume "Trim_char c s \<noteq> []"
  then have ne: "rev (dropWhile (\<lambda>x. x = c) (rev d)) \<noteq> []"
    by (simp add: Trim_char_def d_def)
  then have "hd d = hd (Trim_char c s)"
    by (metis Trim_char_def d_def hd_append2 split)
  moreover from ne split have "d \<noteq> []" by auto
  then have "hd d \<noteq> c" using hd_dropWhile_neq [of "\<lambda>x. x = c" s] by (simp add: d_def)
  ultimately show ?thesis by simp
qed

lemma to_lower_bounds:
  "CHR ''A'' \<le> c \<Longrightarrow> c \<le> CHR ''Z'' \<Longrightarrow> CHR ''a'' \<le> to_lower c \<and> to_lower c \<le> CHR ''z''"
  by (simp add: to_lower_def less_eq_char_def of_char_of)

lemma dns_char_lowered: "kernel_char c \<Longrightarrow> dns_char (dash_replacer (to_lower c))"
proof -
  assume c: "kernel_char c"
  show ?thesis
  proof (cases "CHR ''A'' \<le> c \<and> c \<le> CHR ''Z''")
    case True
    then show ?thesis using to_lower_bounds [of c] by (auto simp: dns_char_def dash_replacer_def)
  next
    case False
    then have "to_lower c = c" unfolding to_lower_def by (rule if_not_P)
    with False c show ?thesis by (auto simp: dns_char_def dash_replacer_def kernel_char_def)
  qed
qed

section \<open>Kernel components and templates\<close>

definition kernel_sep :: "char \<Rightarrow> bool" where
  "kernel_sep c \<longleftrightarrow> c = CHR ''.'' \<or> c = CHR '','' \<or> c = CHR ''-''"

definition KernelComponentsAsEnvVars :: "string \<Rightarrow> go_err + string list" where
  "KernelComponentsAsEnvVars kver =
     (let osConfigFieldsList = split_by kernel_sep kver in
      if length osConfigFieldsList < 3
      then Inl (NewErr ''invalid kver version: expected at least three components (major.minor.patch)'')
      else Inr [''KERNEL_FULL_VERSION='' @ kver,
                ''KERNEL_VERSION='' @ kver,
                ''KERNEL_XYZ='' @ join_with ''.'' (take 3 osConfigFieldsList),
                ''KERNEL_X='' @ osConfigFieldsList ! 0,
                ''KERNEL_Y='' @ osConfigFieldsList ! 1,
                ''KERNEL_Z='' @ osConfigFieldsList ! 2])"

fun ReplaceInTemplates ::
  "(string list \<Rightarrow> string \<Rightarrow> go_err + string) \<Rightarrow> string list \<Rightarrow> string list \<Rightarrow> go_err + string list" where
  "ReplaceInTemplates envsubst envvars [] = Inr []"
| "ReplaceInTemplates envsubst envvars (v # templates) =
     (case envsubst envvars v of
        Inl e \<Rightarrow> Inl (Errorf ''failed to substitute'' e)
      | Inr r \<Rightarrow> (case ReplaceInTemplates envsubst envvars templates of
                    Inl e \<Rightarrow> Inl e
                  | Inr rs \<Rightarrow> Inr (r # rs)))"

lemma ReplaceInTemplates_Inr:
  "ReplaceInTemplates envsubst envvars ts = Inr rs \<longleftrightarrow>
     list_all2 (\<lambda>t r. envsubst envvars t = Inr r) ts rs"
proof (induction ts arbitrary: rs)
  case Nil
  show ?case by auto
next
  case (Cons t ts)
  show ?case
    by (cases rs) (auto simp: Cons.IH [symmetric] split: sum.splits)
qed

lemma ReplaceInTemplates_length:
  "ReplaceInTemplates envsubst envvars ts = Inr rs \<Longrightarrow> length rs = length ts"
  by (simp add: ReplaceInTemplates_Inr list_all2_lengthD)

lemma ReplaceInTemplates_single:
  "ReplaceInTemplates envsubst envvars [t] = Inr rs \<Longrightarrow> \<exists>r. rs = [r] \<and> envsubst envvars t = Inr r"
  by (auto simp del: ReplaceInTemplates.simps simp: ReplaceInTemplates_Inr list_all2_Cons1)

lemma KernelComponents_Inl:
  "(\<exists>e. KernelComponentsAsEnvVars k = Inl e) \<longleftrightarrow> length (filter kernel_sep k) < 2"
  by (auto simp: KernelComponentsAsEnvVars_def Let_def length_split_by)

section \<open>Properties\<close>

text \<open>
  A DNS-safe kernel version only has lower-case letters, digits and dashes, and neither starts
  nor ends with a dash, so a resource name that ends with it is a valid DNS label end. This holds
  for every kernel version string.
\<close>

theorem dns_safe_kernel_version:
  "(\<forall>c\<in>set (DNSSafeKernelVersion v). dns_char c) \<and>
   (DNSSafeKernelVersion v = [] \<or>
    hd (DNSSafeKernelVersion v) \<noteq> CHR ''-'' \<and> last (DNSSafeKernelVersion v) \<noteq> CHR ''-'')"
proof
  show "\<forall>c\<in>set (DNSSafeKernelVersion v). dns_char c"
  proof
    fix c assume "c \<in> set (DNSSafeKernelVersion v)"
    then have "c \<in> set (map dash_replacer (map to_lower (NormalizeVersion v)))"
      unfolding DNSSafeKernelVersion_def using Trim_char_set by blast
    then show "dns_char c" by (auto simp: NormalizeVersion_def intro!: dns_char_lowered)
  qed
  show "DNSSafeKernelVersion v = [] \<or>
    hd (DNSSafeKernelVersion v) \<noteq> CHR ''-'' \<and> last (DNSSafeKernelVersion v) \<noteq> CHR ''-''"
    unfolding DNSSafeKernelVersion_def using Trim_char_hd Trim_char_last by blast
qed

theorem dns_safe_kernel_version_witness:
  "DNSSafeKernelVersion ''5.14.0-70_X+'' = ''5-14-0-70-x'' \<and>
   list_all dns_char (DNSSafeKernelVersion ''5.14.0-70_X+'')"
proof -
  have "DNSSafeKernelVersion ''5.14.0-70_X+'' = ''5-14-0-70-x''" by code_simp
  then show ?thesis
    using dns_safe_kernel_version [of "''5.14.0-70_X+''"] by (simp add: list_all_iff)
qed

text \<open>
  Normalisation is idempotent, keeps the length, leaves every allowed character where it is and
  yields only characters a label value or an image tag may hold.
\<close>

theorem normalize_version_spec:
  "NormalizeVersion (NormalizeVersion v) = NormalizeVersion v \<and>
   length (NormalizeVersion v) = length v \<and>
   list_all kernel_char (NormalizeVersion v) \<and>
   (NormalizeVersion v = v) = list_all kernel_char v"
proof -
  have idem: "NormalizeVersion (NormalizeVersion v) = NormalizeVersion v"
    by (simp add: NormalizeVersion_def replaceInvalidChar_eq)
  have all: "list_all kernel_char (NormalizeVersion v)"
    by (simp add: NormalizeVersion_def list_all_iff)
  have "(NormalizeVersion v = v) = list_all kernel_char v"
  proof
    assume "NormalizeVersion v = v"
    with all show "list_all kernel_char v" by simp
  next
    assume "list_all kernel_char v"
    then show "NormalizeVersion v = v"
      by (simp add: NormalizeVersion_def list_all_iff map_idI replaceInvalidChar_eq)
  qed
  with idem all show ?thesis by (simp add: NormalizeVersion_def)
qed

end
