(* ===== verification/Labels.thy ===== *)
theory Labels
  imports Prelude
begin

text \<open>
  The label vocabulary of the operator: \<^verbatim>\<open>internal/constants/constants.go\<close>, the
  configured / in-use labels of a NodeModulesConfig (\<^verbatim>\<open>internal/nmc/labels.go\<close>) and the
  node labels of \<^verbatim>\<open>internal/utils/kmmlabels.go\<close>. Labels carry a module's namespace and name
  and other controllers read them back, so the families are interpretations of one codec
  interface, \<open>label_codec\<close>.

  The regular expressions of the source all have the form
  \<^verbatim>\<open>^prefix([a-zA-Z0-9-]+)\.([a-zA-Z0-9-\.]+)suffix$\<close>. The first group holds no dot, so it
  ends at the first dot behind the prefix, and the match is unique; \<open>match_label\<close> computes it.
  \<open>labels.NewRequirement\<close> (k8s.io/apimachinery) is the parameter \<open>requirement\<close>: an error, or
  the test that a label set meets it.
\<close>

section \<open>Constants\<close>

definition ModuleNameLabel :: string where
  "ModuleNameLabel = ''kmm.node.kubernetes.io/module.name''"
definition ModuleNamespaceLabel :: string where
  "ModuleNamespaceLabel = ''kmm.node.kubernetes.io/module.namespace''"
definition NodeLabelerFinalizer :: string where
  "NodeLabelerFinalizer = ''kmm.node.kubernetes.io/node-labeler''"
definition TargetKernelTarget :: string where
  "TargetKernelTarget = ''kmm.node.kubernetes.io/target-kernel''"
definition ResourceType :: string where
  "ResourceType = ''kmm.node.kubernetes.io/resource-type''"
definition ResourceHashAnnotation :: string where
  "ResourceHashAnnotation = ''kmm.node.kubernetes.io/last-hash''"
definition KernelLabel :: string where
  "KernelLabel = ''kmm.node.kubernetes.io/kernel-version.full''"
definition DaemonSetRole :: string where
  "DaemonSetRole = ''kmm.node.kubernetes.io/role''"
definition WorkerPodVersionLabelPrefix :: string where
  "WorkerPodVersionLabelPrefix = ''beta.kmm.node.kubernetes.io/version-worker-pod''"
definition SchedulePodVersionLabelPrefix :: string where
  "SchedulePodVersionLabelPrefix = ''beta.kmm.node.kubernetes.io/version-schedule-pod''"
definition ModuleVersionLabelPrefix :: string where
  "ModuleVersionLabelPrefix = ''kmm.node.kubernetes.io/version-module''"
definition GCDelayFinalizer :: string where
  "GCDelayFinalizer = ''kmm.node.kubernetes.io/gc-delay''"
definition ModuleFinalizer :: string where
  "ModuleFinalizer = ''kmm.node.kubernetes.io/module-finalizer''"
definition JobEventFinalizer :: string where
  "JobEventFinalizer = ''kmm.node.kubernetes.io/job-event-finalizer''"
definition NamespaceLabelKey :: string where
  "NamespaceLabelKey = ''kmm.node.k8s.io/contains-modules''"
definition DRAFinalizer :: string where
  "DRAFinalizer = ''kmm.node.kubernetes.io/dra-finalizer''"
definition DevicePluginFinalizer :: string where
  "DevicePluginFinalizer = ''kmm.node.kubernetes.io/device-plugin-finalizer''"
definition ManagedClusterModuleNameLabel :: string where
  "ManagedClusterModuleNameLabel = ''kmm.node.kubernetes.io/managedclustermodule.name''"
definition KernelVersionsClusterClaimName :: string where
  "KernelVersionsClusterClaimName = ''kernel-versions.kmm.node.kubernetes.io''"
definition ModuleLoaderRoleLabelValue :: string where
  "ModuleLoaderRoleLabelValue = ''module-loader''"
definition DevicePluginRoleLabelValue :: string where
  "DevicePluginRoleLabelValue = ''device-plugin''"
definition DRARoleLabelValue :: string where
  "DRARoleLabelValue = ''dra''"
definition MinKubeMajorForDRA :: int where
  "MinKubeMajorForDRA = 1"
definition MinKubeMinorForDRA :: int where
  "MinKubeMinorForDRA = 34"
definition DockerfileCMKey :: string where
  "DockerfileCMKey = ''dockerfile''"
definition PublicSignDataKey :: string where
  "PublicSignDataKey = ''cert''"
definition PrivateSignDataKey :: string where
  "PrivateSignDataKey = ''key''"

lemmas label_consts = ModuleNameLabel_def ModuleNamespaceLabel_def NodeLabelerFinalizer_def
  TargetKernelTarget_def ResourceType_def ResourceHashAnnotation_def KernelLabel_def
  DaemonSetRole_def WorkerPodVersionLabelPrefix_def SchedulePodVersionLabelPrefix_def
  ModuleVersionLabelPrefix_def GCDelayFinalizer_def ModuleFinalizer_def JobEventFinalizer_def

section \<open>Matching the label expressions\<close>

definition ns_char :: "char \<Rightarrow> bool" where
  "ns_char c \<longleftrightarrow> (CHR ''a'' \<le> c \<and> c \<le> CHR ''z'') \<or> (CHR ''A'' \<le> c \<and> c \<le> CHR ''Z'') \<or>
     (CHR ''0'' \<le> c \<and> c \<le> CHR ''9'') \<or> c = CHR ''-''"

definition name_char :: "char \<Rightarrow> bool" where
  "name_char c \<longleftrightarrow> ns_char c \<or> c = CHR ''.''"

definition valid_ns :: "string \<Rightarrow> bool" where
  "valid_ns ns \<longleftrightarrow> ns \<noteq> [] \<and> list_all ns_char ns"

definition valid_name :: "string \<Rightarrow> bool" where
  "valid_name n \<longleftrightarrow> n \<noteq> [] \<and> list_all name_char n"

definition match_label :: "string \<Rightarrow> string \<Rightarrow> string \<Rightarrow> (string \<times> string) option" where
  "match_label pre suf s =
     (if \<not> HasPrefix s pre then None
      else case break_at (CHR ''.'') (drop (length pre) s) of
             None \<Rightarrow> None
           | Some (ns, rest) \<Rightarrow>
               if valid_ns ns \<and> HasSuffix rest suf \<and> valid_name (TrimSuffix rest suf)
               then Some (ns, TrimSuffix rest suf) else None)"

definition mk_label :: "string \<Rightarrow> string \<Rightarrow> string \<Rightarrow> string \<Rightarrow> string" where
  "mk_label pre suf ns name = pre @ ns @ ''.'' @ name @ suf"

lemma valid_ns_no_dot: "valid_ns ns \<Longrightarrow> CHR ''.'' \<notin> set ns"
  by (auto simp: valid_ns_def list_all_iff ns_char_def)

lemma match_mk_label:
  "valid_ns ns \<Longrightarrow> valid_name name \<Longrightarrow> match_label pre suf (mk_label pre suf ns name) = Some (ns, name)"
  by (simp add: match_label_def mk_label_def break_at_append valid_ns_no_dot)

lemma match_label_SomeD:
  assumes "match_label pre suf s = Some (ns, name)"
  shows "s = mk_label pre suf ns name \<and> valid_ns ns \<and> valid_name name"
proof -
  from assms obtain rest where p: "HasPrefix s pre"
    and b: "break_at (CHR ''.'') (drop (length pre) s) = Some (ns, rest)"
    and v: "valid_ns ns" "HasSuffix rest suf" "valid_name (TrimSuffix rest suf)"
    and n: "name = TrimSuffix rest suf"
    by (auto simp: match_label_def split: if_splits option.splits)
  from v(2) n have "rest = name @ suf" by (auto simp: HasSuffix_iff)
  moreover from break_at_SomeD [OF b] have "drop (length pre) s = ns @ CHR ''.'' # rest" by simp
  moreover from p have "s = pre @ drop (length pre) s" by (auto simp: HasPrefix_iff)
  ultimately show ?thesis using v n by (simp add: mk_label_def)
qed

lemma mk_label_inject:
  assumes "valid_ns ns" "valid_ns ns'" "mk_label pre suf ns name = mk_label pre suf ns' name'"
  shows "ns = ns' \<and> name = name'"
proof -
  from assms(3) have "break_at (CHR ''.'') (ns @ CHR ''.'' # name @ suf) =
                      break_at (CHR ''.'') (ns' @ CHR ''.'' # name' @ suf)"
    unfolding mk_label_def by (metis append_Cons append_Nil same_append_eq)
  with assms(1,2) show ?thesis by (simp add: break_at_append valid_ns_no_dot)
qed

text \<open>
  The interface of a label family: the encoder, the recogniser with its capture groups, and the
  modules whose label is recognised.
\<close>

locale label_codec =
  fixes enc :: "string \<Rightarrow> string \<Rightarrow> string"
    and dec :: "string \<Rightarrow> bool \<times> string \<times> string"
    and valid :: "string \<Rightarrow> string \<Rightarrow> bool"
  assumes dec_enc: "valid ns name \<Longrightarrow> dec (enc ns name) = (True, ns, name)"
    and dec_sound: "dec s = (True, ns, name) \<Longrightarrow> s = enc ns name \<and> valid ns name"
begin

lemma dec_iff: "dec s = (True, ns, name) \<longleftrightarrow> s = enc ns name \<and> valid ns name"
  using dec_enc dec_sound by blast

lemma enc_inj:
  assumes "valid ns name" "valid ns' name'" "enc ns name = enc ns' name'"
  shows "ns = ns' \<and> name = name'"
  using assms dec_enc by (metis Pair_inject)

text \<open>
  Reading every key of a label map with the recogniser recovers exactly the recorded modules.
\<close>

lemma recorded_modules:
  "{(ns, name). \<exists>k\<in>fst ` set ls. dec k = (True, ns, name)} =
         {(ns, name). valid ns name \<and> enc ns name \<in> fst ` set ls}"
  by (auto simp: dec_iff)

end

section \<open>Labels of a NodeModulesConfig (\<^verbatim>\<open>internal/nmc/labels.go\<close>)\<close>

definition as_groups :: "(string \<times> string) option \<Rightarrow> bool \<times> string \<times> string" where
  "as_groups m = (case m of None \<Rightarrow> (False, [], []) | Some (ns, name) \<Rightarrow> (True, ns, name))"

lemma as_groups_iff [simp]: "as_groups m = (True, ns, name) \<longleftrightarrow> m = Some (ns, name)"
  by (auto simp: as_groups_def split: option.splits)

definition IsModuleConfiguredLabel :: "string \<Rightarrow> bool \<times> string \<times> string" where
  "IsModuleConfiguredLabel s = as_groups (match_label ''beta.kmm.node.kubernetes.io/'' ''.module-configured'' s)"

definition IsModuleInUseLabel :: "string \<Rightarrow> bool \<times> string \<times> string" where
  "IsModuleInUseLabel s = as_groups (match_label ''beta.kmm.node.kubernetes.io/'' ''.module-in-use'' s)"

definition ModuleConfiguredLabel :: "string \<Rightarrow> string \<Rightarrow> string" where
  "ModuleConfiguredLabel namespace name =
     ''beta.kmm.node.kubernetes.io/'' @ namespace @ ''.'' @ name @ ''.module-configured''"

definition ModuleInUseLabel :: "string \<Rightarrow> string \<Rightarrow> string" where
  "ModuleInUseLabel namespace name =
     ''beta.kmm.node.kubernetes.io/'' @ namespace @ ''.'' @ name @ ''.module-in-use''"

abbreviation valid_nsn :: "string \<Rightarrow> string \<Rightarrow> bool" where
  "valid_nsn ns name \<equiv> valid_ns ns \<and> valid_name name"

lemma nmc_label_mk:
  "ModuleConfiguredLabel ns name = mk_label ''beta.kmm.node.kubernetes.io/'' ''.module-configured'' ns name"
  "ModuleInUseLabel ns name = mk_label ''beta.kmm.node.kubernetes.io/'' ''.module-in-use'' ns name"
  by (simp_all add: ModuleConfiguredLabel_def ModuleInUseLabel_def mk_label_def)

interpretation configured: label_codec ModuleConfiguredLabel IsModuleConfiguredLabel valid_nsn
  by unfold_locales
    (auto simp: IsModuleConfiguredLabel_def nmc_label_mk match_mk_label dest: match_label_SomeD)

interpretation in_use: label_codec ModuleInUseLabel IsModuleInUseLabel valid_nsn
  by unfold_locales
    (auto simp: IsModuleInUseLabel_def nmc_label_mk match_mk_label dest: match_label_SomeD)

section \<open>Node labels (\<^verbatim>\<open>internal/utils/kmmlabels.go\<close>)\<close>

definition GetModuleVersionLabelName :: "string \<Rightarrow> string \<Rightarrow> string" where
  "GetModuleVersionLabelName namespace name = ModuleVersionLabelPrefix @ ''.'' @ namespace @ ''.'' @ name"

definition GetWorkerPodVersionLabelName :: "string \<Rightarrow> string \<Rightarrow> string" where
  "GetWorkerPodVersionLabelName namespace name = WorkerPodVersionLabelPrefix @ ''.'' @ namespace @ ''.'' @ name"

definition GetSchedulePodVersionLabelName :: "string \<Rightarrow> string \<Rightarrow> string" where
  "GetSchedulePodVersionLabelName namespace name =
     SchedulePodVersionLabelPrefix @ ''.'' @ namespace @ ''.'' @ name"

definition GetNamespaceNameFromVersionLabel :: "string \<Rightarrow> go_err + string \<times> string" where
  "GetNamespaceNameFromVersionLabel label =
     (let parts = split_by (\<lambda>c. c = CHR ''.'') label in
      if length parts < 2 then Inl (NewErr ''label is in incorrect format'')
      else Inr (parts ! (length parts - 2), parts ! (length parts - 1)))"

definition IsModuleVersionLabel :: "string \<Rightarrow> bool" where
  "IsModuleVersionLabel label = HasPrefix label ModuleVersionLabelPrefix"

definition IsWorkerPodVersionLabel :: "string \<Rightarrow> bool" where
  "IsWorkerPodVersionLabel label = HasPrefix label WorkerPodVersionLabelPrefix"

definition IsSchedulePodVersionLabel :: "string \<Rightarrow> bool" where
  "IsSchedulePodVersionLabel label = HasPrefix label SchedulePodVersionLabelPrefix"

definition IsVersionLabel :: "string \<Rightarrow> bool" where
  "IsVersionLabel label \<longleftrightarrow> IsModuleVersionLabel label \<or> IsWorkerPodVersionLabel label \<or>
     IsSchedulePodVersionLabel label"

definition GetNodesVersionLabels :: "labels \<Rightarrow> labels" where
  "GetNodesVersionLabels nodeLabels = filter (\<lambda>(label, v). IsVersionLabel label) nodeLabels"

definition GetNodeWorkerPodVersionLabel :: "labels \<Rightarrow> string \<Rightarrow> string \<Rightarrow> string \<times> bool" where
  "GetNodeWorkerPodVersionLabel nodeLabels namespace name =
     (case map_of nodeLabels (GetWorkerPodVersionLabelName namespace name) of
        None \<Rightarrow> ([], False)
      | Some labelValue \<Rightarrow> (labelValue, True))"

definition GetKernelModuleReadyNodeLabel :: "string \<Rightarrow> string \<Rightarrow> string" where
  "GetKernelModuleReadyNodeLabel namespace moduleName =
     ''kmm.node.kubernetes.io/'' @ namespace @ ''.'' @ moduleName @ ''.ready''"

definition GetKernelModuleVersionReadyNodeLabel :: "string \<Rightarrow> string \<Rightarrow> string" where
  "GetKernelModuleVersionReadyNodeLabel namespace moduleName =
     ''kmm.node.kubernetes.io/'' @ namespace @ ''.'' @ moduleName @ ''.version.ready''"

definition GetDevicePluginNodeLabel :: "string \<Rightarrow> string \<Rightarrow> string" where
  "GetDevicePluginNodeLabel namespace moduleName =
     ''kmm.node.kubernetes.io/'' @ namespace @ ''.'' @ moduleName @ ''.device-plugin-ready''"

definition GetDRATargetNodeLabel :: "string \<Rightarrow> string \<Rightarrow> string" where
  "GetDRATargetNodeLabel namespace moduleName =
     ''kmm.node.kubernetes.io/'' @ namespace @ ''.'' @ moduleName @ ''.dra-target''"

definition GetDRANodeLabel :: "string \<Rightarrow> string \<Rightarrow> string" where
  "GetDRANodeLabel namespace moduleName =
     ''kmm.node.kubernetes.io/'' @ namespace @ ''.'' @ moduleName @ ''.dra-ready''"

definition GetDevicePluginTargetNodeLabel :: "string \<Rightarrow> string \<Rightarrow> string" where
  "GetDevicePluginTargetNodeLabel namespace moduleName =
     ''kmm.node.kubernetes.io/'' @ namespace @ ''.'' @ moduleName @ ''.device-plugin-target''"

definition IsDeprecatedKernelModuleReadyNodeLabel :: "string \<Rightarrow> bool" where
  "IsDeprecatedKernelModuleReadyNodeLabel label \<longleftrightarrow>
     HasPrefix label ''kmm.node.kubernetes.io/'' \<and>
     HasSuffix (drop (length ''kmm.node.kubernetes.io/'') label) ''.ready'' \<and>
     valid_ns (TrimSuffix (drop (length ''kmm.node.kubernetes.io/'') label) ''.ready'')"

definition IsKernelModuleVersionReadyNodeLabel :: "string \<Rightarrow> bool" where
  "IsKernelModuleVersionReadyNodeLabel label \<longleftrightarrow>
     match_label ''kmm.node.kubernetes.io/'' ''.version.ready'' label \<noteq> None"

definition IsKernelModuleReadyNodeLabel :: "string \<Rightarrow> bool \<times> string \<times> string" where
  "IsKernelModuleReadyNodeLabel label =
     (if IsDeprecatedKernelModuleReadyNodeLabel label then (False, [], [])
      else if IsKernelModuleVersionReadyNodeLabel label then (False, [], [])
      else as_groups (match_label ''kmm.node.kubernetes.io/'' ''.ready'' label))"

text \<open>A selector built by adding one requirement per selector label; an object meets all of them.\<close>

fun IsObjectSelectedByLabels ::
  "(string \<Rightarrow> string \<Rightarrow> go_err + (labels \<Rightarrow> bool)) \<Rightarrow> labels \<Rightarrow> labels \<Rightarrow> go_err + bool" where
  "IsObjectSelectedByLabels requirement objectLabels [] = Inr True"
| "IsObjectSelectedByLabels requirement objectLabels ((k, v) # selectorLabels) =
     (case requirement k v of
        Inl e \<Rightarrow> Inl (Errorf ''failed to create new label requirements'' e)
      | Inr r \<Rightarrow> (case IsObjectSelectedByLabels requirement objectLabels selectorLabels of
                    Inl e \<Rightarrow> Inl e
                  | Inr b \<Rightarrow> Inr (r objectLabels \<and> b)))"

lemma IsObjectSelectedByLabels_Inr:
  "IsObjectSelectedByLabels requirement ol sl = Inr b \<Longrightarrow>
     b = (\<forall>(k, v)\<in>set sl. \<exists>r. requirement k v = Inr r \<and> r ol)"
  by (induction sl arbitrary: b) (auto split: sum.splits)

text \<open>
  The ready label of a module whose name ends in \<open>.version\<close> is taken for the version-ready label of
  the module without that ending; every other ready label reads back.
\<close>

definition ready_nsn :: "string \<Rightarrow> string \<Rightarrow> bool" where
  "ready_nsn ns name \<longleftrightarrow> valid_nsn ns name \<and>
     \<not> (HasSuffix name ''.version'' \<and> TrimSuffix name ''.version'' \<noteq> [])"

lemma ready_label_mk:
  "GetKernelModuleReadyNodeLabel ns name = mk_label ''kmm.node.kubernetes.io/'' ''.ready'' ns name"
  "GetKernelModuleVersionReadyNodeLabel ns name =
     mk_label ''kmm.node.kubernetes.io/'' ''.version.ready'' ns name"
  by (simp_all add: GetKernelModuleReadyNodeLabel_def GetKernelModuleVersionReadyNodeLabel_def mk_label_def)

lemma ready_not_deprecated:
  "\<not> IsDeprecatedKernelModuleReadyNodeLabel (mk_label ''kmm.node.kubernetes.io/'' ''.ready'' ns name)"
proof -
  have "drop (length ''kmm.node.kubernetes.io/'') (mk_label ''kmm.node.kubernetes.io/'' ''.ready'' ns name)
        = (ns @ ''.'' @ name) @ ''.ready''" by (simp add: mk_label_def)
  moreover have "\<not> valid_ns (ns @ ''.'' @ name)" using valid_ns_no_dot by fastforce
  ultimately show ?thesis
    unfolding IsDeprecatedKernelModuleReadyNodeLabel_def by (metis TrimSuffix_append)
qed

lemma version_ready_iff:
  assumes "valid_nsn ns name"
  shows "IsKernelModuleVersionReadyNodeLabel (mk_label ''kmm.node.kubernetes.io/'' ''.ready'' ns name)
         \<longleftrightarrow> \<not> ready_nsn ns name"
proof
  assume "IsKernelModuleVersionReadyNodeLabel (mk_label ''kmm.node.kubernetes.io/'' ''.ready'' ns name)"
  then obtain ns' n' where
    "match_label ''kmm.node.kubernetes.io/'' ''.version.ready''
       (mk_label ''kmm.node.kubernetes.io/'' ''.ready'' ns name) = Some (ns', n')"
    by (auto simp: IsKernelModuleVersionReadyNodeLabel_def)
  from match_label_SomeD [OF this]
  have eq: "mk_label ''kmm.node.kubernetes.io/'' ''.ready'' ns name =
            mk_label ''kmm.node.kubernetes.io/'' ''.ready'' ns' (n' @ ''.version'')"
    and v: "valid_ns ns'" "valid_name n'"
    by (simp_all add: mk_label_def)
  from mk_label_inject [OF _ v(1) eq] assms have "name = n' @ ''.version''" by blast
  with v show "\<not> ready_nsn ns name" by (auto simp: ready_nsn_def valid_name_def)
next
  assume "\<not> ready_nsn ns name"
  with assms have "HasSuffix name ''.version''" and t: "TrimSuffix name ''.version'' \<noteq> []"
    unfolding ready_nsn_def by blast+
  then obtain n' where n': "name = n' @ ''.version''" unfolding HasSuffix_iff by blast
  with t assms have "valid_name n'" by (simp add: valid_name_def)
  moreover have "mk_label ''kmm.node.kubernetes.io/'' ''.ready'' ns name =
                 mk_label ''kmm.node.kubernetes.io/'' ''.version.ready'' ns n'"
    by (simp add: mk_label_def n')
  ultimately show "IsKernelModuleVersionReadyNodeLabel (mk_label ''kmm.node.kubernetes.io/'' ''.ready'' ns name)"
    using assms match_mk_label unfolding IsKernelModuleVersionReadyNodeLabel_def by simp
qed

interpretation ready: label_codec GetKernelModuleReadyNodeLabel IsKernelModuleReadyNodeLabel ready_nsn
proof
  fix ns name assume v: "ready_nsn ns name"
  then have "valid_nsn ns name" by (simp add: ready_nsn_def)
  with v show "IsKernelModuleReadyNodeLabel (GetKernelModuleReadyNodeLabel ns name) = (True, ns, name)"
    by (simp add: IsKernelModuleReadyNodeLabel_def ready_label_mk ready_not_deprecated
        version_ready_iff match_mk_label)
next
  fix s ns name assume "IsKernelModuleReadyNodeLabel s = (True, ns, name)"
  then have "match_label ''kmm.node.kubernetes.io/'' ''.ready'' s = Some (ns, name)"
    and nv: "\<not> IsKernelModuleVersionReadyNodeLabel s"
    by (auto simp: IsKernelModuleReadyNodeLabel_def split: if_splits)
  from match_label_SomeD [OF this(1)] nv
  show "s = GetKernelModuleReadyNodeLabel ns name \<and> ready_nsn ns name"
    by (auto simp: ready_label_mk version_ready_iff)
qed

subsection \<open>Version labels\<close>

lemma version_label_split:
  assumes "CHR ''.'' \<notin> set ns" "CHR ''.'' \<notin> set name"
  shows "split_by (\<lambda>c. c = CHR ''.'') (p @ ''.'' @ ns @ ''.'' @ name) =
         split_by (\<lambda>c. c = CHR ''.'') p @ [ns, name]"
proof -
  have "split_by (\<lambda>c. c = CHR ''.'') w = [w]" if "CHR ''.'' \<notin> set w" for w
    by (rule split_by_no_sep) (use that in auto)
  with assms have "split_by (\<lambda>c. c = CHR ''.'') (ns @ ''.'' @ name) = [ns, name]"
    by (simp add: split_by_append_sep)
  then show ?thesis by (simp add: split_by_append_sep)
qed

lemma version_label_decode:
  assumes "CHR ''.'' \<notin> set ns" "CHR ''.'' \<notin> set name"
  shows "GetNamespaceNameFromVersionLabel (p @ ''.'' @ ns @ ''.'' @ name) = Inr (ns, name)"
  unfolding GetNamespaceNameFromVersionLabel_def version_label_split [OF assms]
  by (simp add: Let_def nth_append)

lemma version_label_inject:
  assumes "valid_ns ns" "valid_ns ns'"
    and "p @ ''.'' @ ns @ ''.'' @ name = p @ ''.'' @ ns' @ ''.'' @ name'"
  shows "ns = ns' \<and> name = name'"
  using mk_label_inject [OF assms(1,2), of "p @ ''.''" "[]"] assms(3) by (simp add: mk_label_def)

lemmas version_label_names = GetModuleVersionLabelName_def GetWorkerPodVersionLabelName_def
  GetSchedulePodVersionLabelName_def

text \<open>The three families of version labels do not overlap.\<close>

lemma version_prefix_distinct:
  "HasPrefix s ModuleVersionLabelPrefix \<Longrightarrow> \<not> HasPrefix s WorkerPodVersionLabelPrefix"
  "HasPrefix s ModuleVersionLabelPrefix \<Longrightarrow> \<not> HasPrefix s SchedulePodVersionLabelPrefix"
  "HasPrefix s WorkerPodVersionLabelPrefix \<Longrightarrow> \<not> HasPrefix s SchedulePodVersionLabelPrefix"
  by (auto simp: HasPrefix_iff label_consts)

lemma version_label_kinds [simp]:
  "IsModuleVersionLabel (GetModuleVersionLabelName ns n)"
  "IsWorkerPodVersionLabel (GetWorkerPodVersionLabelName ns n)"
  "IsSchedulePodVersionLabel (GetSchedulePodVersionLabelName ns n)"
  by (simp_all add: version_label_names IsModuleVersionLabel_def IsWorkerPodVersionLabel_def
      IsSchedulePodVersionLabel_def)

lemma version_labels_differ [simp]:
  "GetModuleVersionLabelName ns n \<noteq> GetWorkerPodVersionLabelName ns' n'"
  "GetModuleVersionLabelName ns n \<noteq> GetSchedulePodVersionLabelName ns' n'"
  "GetWorkerPodVersionLabelName ns n \<noteq> GetSchedulePodVersionLabelName ns' n'"
  by (simp_all add: version_label_names label_consts)

section \<open>Properties\<close>

text \<open>
  The labels with which a NodeModulesConfig records the modules configured and in use are
  recognised exactly when they are the label of a namespace and a name of the allowed characters,
  and the recogniser returns those two. So the controllers that read the labels back see exactly the
  modules that were recorded, also for module names that hold dots.
\<close>

theorem nmc_labels_read_back:
  "(IsModuleConfiguredLabel s = (True, ns, name)) = (s = ModuleConfiguredLabel ns name \<and> valid_nsn ns name) \<and>
   (IsModuleInUseLabel s = (True, ns, name)) = (s = ModuleInUseLabel ns name \<and> valid_nsn ns name) \<and>
   {(a, b). \<exists>k\<in>fst ` set ls. IsModuleInUseLabel k = (True, a, b)} =
     {(a, b). valid_nsn a b \<and> ModuleInUseLabel a b \<in> fst ` set ls}"
  using configured.dec_iff in_use.dec_iff in_use.recorded_modules [of ls] by simp

text \<open>
  A node's ready label is recognised exactly when it is the label of a module whose name does
  not end in \<open>.version\<close>; the ready label of a module named \<open>m.version\<close> is the very
  version-ready label of the module \<open>m\<close> and is never recognised.
\<close>

theorem ready_labels_read_back:
  "(IsKernelModuleReadyNodeLabel s = (True, ns, name)) =
     (s = GetKernelModuleReadyNodeLabel ns name \<and> ready_nsn ns name) \<and>
   GetKernelModuleReadyNodeLabel ns (name @ ''.version'') = GetKernelModuleVersionReadyNodeLabel ns name"
  using ready.dec_iff [of s ns name] by (simp add: ready_label_mk mk_label_def)

text \<open>
  The namespace and name of a version label read back for modules whose name holds no dot, in
  each of the three families, and the families are disjoint.
\<close>

theorem version_labels_read_back:
  assumes "CHR ''.'' \<notin> set ns" "CHR ''.'' \<notin> set name"
  shows "GetNamespaceNameFromVersionLabel (GetModuleVersionLabelName ns name) = Inr (ns, name) \<and>
    GetNamespaceNameFromVersionLabel (GetWorkerPodVersionLabelName ns name) = Inr (ns, name) \<and>
    GetNamespaceNameFromVersionLabel (GetSchedulePodVersionLabelName ns name) = Inr (ns, name) \<and>
    \<not> (IsModuleVersionLabel s \<and> IsWorkerPodVersionLabel s) \<and>
    \<not> (IsModuleVersionLabel s \<and> IsSchedulePodVersionLabel s) \<and>
    \<not> (IsWorkerPodVersionLabel s \<and> IsSchedulePodVersionLabel s)"
  using version_prefix_distinct version_label_decode [OF assms]
  unfolding version_label_names IsModuleVersionLabel_def IsWorkerPodVersionLabel_def
    IsSchedulePodVersionLabel_def by blast

theorem version_labels_read_back_witness:
  "GetNamespaceNameFromVersionLabel (GetModuleVersionLabelName ''kmm'' ''simple-kmod'') =
     Inr (''kmm'', ''simple-kmod'')"
  using version_labels_read_back [of "''kmm''" "''simple-kmod''"] by simp

text \<open>
  The version labels of a module whose name holds a dot read back as another module: the last
  part of the name becomes the name and the part before it the namespace.
\<close>

theorem dotted_version_label_misread:
  assumes "CHR ''.'' \<notin> set a" "CHR ''.'' \<notin> set b" "a \<noteq> ns"
  shows "GetNamespaceNameFromVersionLabel (GetModuleVersionLabelName ns (a @ ''.'' @ b)) = Inr (a, b) \<and>
    GetNamespaceNameFromVersionLabel (GetModuleVersionLabelName ns (a @ ''.'' @ b)) \<noteq> Inr (ns, a @ ''.'' @ b)"
proof -
  have "GetModuleVersionLabelName ns (a @ ''.'' @ b) = (ModuleVersionLabelPrefix @ ''.'' @ ns) @ ''.'' @ a @ ''.'' @ b"
    by (simp add: GetModuleVersionLabelName_def)
  then have "GetNamespaceNameFromVersionLabel (GetModuleVersionLabelName ns (a @ ''.'' @ b)) = Inr (a, b)"
    by (simp only: version_label_decode [OF assms(1,2)])
  with assms(3) show ?thesis by simp
qed

end
