(* ===== verification/Client.thy ===== *)
theory Client
  imports Api_Types Labels
begin

text \<open>
  The cluster and the libraries as the controllers see them.

  \<^item> \<open>call\<close>: every request a controller issues (reads, writes, recorded events). A patch carries the
    object it was computed from and the modified object.
  \<^item> \<open>server\<close>: the API server, a parameter of the model: one answer function per kind of read and one
    for the writes. Each takes the history of the requests so far, so answers may change and fail at any point.
  \<^item> \<open>library\<close>: the third-party functions the operator calls (regular expressions, templates, YAML,
    hashing, taints, owner references, label requirements), again parameters.
  \<^item> The operations of \<^verbatim>\<open>internal/meta\<close> on labels and annotations, the finalizer
    operations and \<open>CreateOrPatch\<close> of controller-runtime's \<^verbatim>\<open>controllerutil\<close> as documented.
\<close>

section \<open>Requests\<close>

record pod_query =
  pq_namespace :: "string option"
  pq_match :: labels
  pq_has :: "string list"
  pq_node :: "string option"
  pq_in :: "(string \<times> string list) list"

record namespace_obj =
  nso_name :: string
  nso_labels :: labels

datatype daemon_call =
    Get_DaemonSet nsn
  | List_DaemonSets labels string
  | Create_DaemonSet daemonset
  | Patch_DaemonSet daemonset daemonset
  | Delete_DaemonSet daemonset
  | Get_DeviceClass string
  | List_DeviceClasses labels
  | Create_DeviceClass device_class_obj
  | Patch_DeviceClass device_class_obj device_class_obj
  | Delete_DeviceClass device_class_obj

datatype other_call =
    List_Nodes_With string
  | Get_ClusterClaim string
  | Create_ClusterClaim cluster_claim
  | Patch_ClusterClaim cluster_claim cluster_claim
  | List_Preflights
  | Patch_Preflight_Status preflight_validation preflight_validation
  | Get_Owner string nsn  \<comment> \<open>kind; the namespace is empty for a cluster-scoped owner\<close>
  | Now
  | Job_Event owner_ref labels string string string  \<comment> \<open>annotations, type, reason, message\<close>
  | Metric string "string list" int  \<comment> \<open>gauge, label values, value\<close>

datatype hub_call =
    List_ManagedClusters labels
  | Get_ManifestWork nsn
  | List_ManifestWorks labels
  | List_MCMs
  | Create_ManifestWork manifest_work
  | Patch_ManifestWork manifest_work manifest_work
  | Delete_ManifestWork manifest_work
  | Patch_MCM_Status managed_cluster_module managed_cluster_module

datatype call =
    Get_Node string
  | Get_NMC string
  | Get_Pod nsn
  | Get_Module nsn
  | Get_MIC nsn
  | Get_MBSC nsn
  | Get_ConfigMap nsn
  | Get_Secret nsn
  | Get_Namespace string
  | List_Nodes labels
  | List_Pods pod_query
  | List_NMCs labels
  | List_Modules "string option"
  | Create_Pod pod
  | Patch_Pod pod pod
  | Delete_Pod pod
  | Patch_Node node node
  | Create_NMC nmc
  | Patch_NMC nmc nmc
  | Patch_NMC_Status nmc nmc
  | Create_MIC mic
  | Patch_MIC mic mic
  | Patch_MIC_Status mic mic
  | Create_MBSC mbsc
  | Patch_MBSC mbsc mbsc
  | Patch_MBSC_Status mbsc mbsc
  | Delete_MBSC nsn
  | Patch_Module kmodule kmodule
  | Update_Module_Status kmodule
  | Patch_Module_Status kmodule kmodule
  | Patch_Namespace namespace_obj namespace_obj
  | Event string string nsn  \<comment> \<open>reason, object name, module\<close>
  | Daemon daemon_call
  | Other other_call
  | Hub hub_call

fun hub_read :: "hub_call \<Rightarrow> bool" where
  "hub_read (List_ManagedClusters _) = True"
| "hub_read (Get_ManifestWork _) = True"
| "hub_read (List_ManifestWorks _) = True"
| "hub_read List_MCMs = True"
| "hub_read _ = False"

fun daemon_read :: "daemon_call \<Rightarrow> bool" where
  "daemon_read (Get_DaemonSet _) = True"
| "daemon_read (List_DaemonSets _ _) = True"
| "daemon_read (Get_DeviceClass _) = True"
| "daemon_read (List_DeviceClasses _) = True"
| "daemon_read _ = False"

fun other_read :: "other_call \<Rightarrow> bool" where
  "other_read (List_Nodes_With _) = True"
| "other_read (Get_ClusterClaim _) = True"
| "other_read List_Preflights = True"
| "other_read (Get_Owner _ _) = True"
| "other_read Now = True"
| "other_read _ = False"

fun is_read :: "call \<Rightarrow> bool" where
  "is_read (Get_Node _) = True"
| "is_read (Get_NMC _) = True"
| "is_read (Get_Pod _) = True"
| "is_read (Get_Module _) = True"
| "is_read (Get_MIC _) = True"
| "is_read (Get_MBSC _) = True"
| "is_read (Get_ConfigMap _) = True"
| "is_read (Get_Secret _) = True"
| "is_read (Get_Namespace _) = True"
| "is_read (List_Nodes _) = True"
| "is_read (List_Pods _) = True"
| "is_read (List_NMCs _) = True"
| "is_read (List_Modules _) = True"
| "is_read (Daemon c) = daemon_read c"
| "is_read (Other c) = other_read c"
| "is_read (Hub c) = hub_read c"
| "is_read _ = False"

abbreviation is_write :: "call \<Rightarrow> bool" where
  "is_write c \<equiv> \<not> is_read c"

type_synonym 'a cio = "(call, 'a) io"

record server =
  s_node :: "call list \<Rightarrow> string \<Rightarrow> go_err + node"
  s_nmc :: "call list \<Rightarrow> string \<Rightarrow> go_err + nmc"
  s_pod :: "call list \<Rightarrow> nsn \<Rightarrow> go_err + pod"
  s_module :: "call list \<Rightarrow> nsn \<Rightarrow> go_err + kmodule"
  s_mic :: "call list \<Rightarrow> nsn \<Rightarrow> go_err + mic"
  s_mbsc :: "call list \<Rightarrow> nsn \<Rightarrow> go_err + mbsc"
  s_configmap :: "call list \<Rightarrow> nsn \<Rightarrow> go_err + labels"
  s_secret :: "call list \<Rightarrow> nsn \<Rightarrow> go_err + labels"
  s_namespace :: "call list \<Rightarrow> string \<Rightarrow> go_err + namespace_obj"
  s_nodes :: "call list \<Rightarrow> labels \<Rightarrow> go_err + node list"
  s_pods :: "call list \<Rightarrow> pod_query \<Rightarrow> go_err + pod list"
  s_nmcs :: "call list \<Rightarrow> labels \<Rightarrow> go_err + nmc list"
  s_modules :: "call list \<Rightarrow> string option \<Rightarrow> go_err + kmodule list"
  s_daemonset :: "call list \<Rightarrow> nsn \<Rightarrow> go_err + daemonset"
  s_deviceclass :: "call list \<Rightarrow> string \<Rightarrow> go_err + device_class_obj"
  s_clusterclaim :: "call list \<Rightarrow> string \<Rightarrow> go_err + cluster_claim"
  s_owner :: "call list \<Rightarrow> string \<Rightarrow> nsn \<Rightarrow> go_err option"
  s_nodes_with :: "call list \<Rightarrow> string \<Rightarrow> go_err + node list"
  s_daemonsets :: "call list \<Rightarrow> labels \<Rightarrow> string \<Rightarrow> go_err + daemonset list"
  s_deviceclasses :: "call list \<Rightarrow> labels \<Rightarrow> go_err + device_class_obj list"
  s_preflights :: "call list \<Rightarrow> go_err + preflight_validation list"
  s_now :: "call list \<Rightarrow> int"
  s_managedclusters :: "call list \<Rightarrow> labels \<Rightarrow> go_err + managed_cluster list"
  s_manifestwork :: "call list \<Rightarrow> nsn \<Rightarrow> go_err + manifest_work"
  s_manifestworks :: "call list \<Rightarrow> labels \<Rightarrow> go_err + manifest_work list"
  s_mcms :: "call list \<Rightarrow> go_err + managed_cluster_module list"
  s_write :: "call list \<Rightarrow> call \<Rightarrow> go_err option"

text \<open>The requests.\<close>

definition get_node :: "server \<Rightarrow> string \<Rightarrow> (go_err + node) cio" where
  "get_node s n = issue (Get_Node n) (\<lambda>h. s_node s h n)"
definition get_nmc :: "server \<Rightarrow> string \<Rightarrow> (go_err + nmc) cio" where
  "get_nmc s n = issue (Get_NMC n) (\<lambda>h. s_nmc s h n)"
definition get_pod :: "server \<Rightarrow> nsn \<Rightarrow> (go_err + pod) cio" where
  "get_pod s n = issue (Get_Pod n) (\<lambda>h. s_pod s h n)"
definition get_module :: "server \<Rightarrow> nsn \<Rightarrow> (go_err + kmodule) cio" where
  "get_module s n = issue (Get_Module n) (\<lambda>h. s_module s h n)"
definition get_mic :: "server \<Rightarrow> nsn \<Rightarrow> (go_err + mic) cio" where
  "get_mic s n = issue (Get_MIC n) (\<lambda>h. s_mic s h n)"
definition get_mbsc :: "server \<Rightarrow> nsn \<Rightarrow> (go_err + mbsc) cio" where
  "get_mbsc s n = issue (Get_MBSC n) (\<lambda>h. s_mbsc s h n)"
definition get_configmap :: "server \<Rightarrow> nsn \<Rightarrow> (go_err + labels) cio" where
  "get_configmap s n = issue (Get_ConfigMap n) (\<lambda>h. s_configmap s h n)"
definition get_secret :: "server \<Rightarrow> nsn \<Rightarrow> (go_err + labels) cio" where
  "get_secret s n = issue (Get_Secret n) (\<lambda>h. s_secret s h n)"
definition get_namespace :: "server \<Rightarrow> string \<Rightarrow> (go_err + namespace_obj) cio" where
  "get_namespace s n = issue (Get_Namespace n) (\<lambda>h. s_namespace s h n)"
definition list_nodes :: "server \<Rightarrow> labels \<Rightarrow> (go_err + node list) cio" where
  "list_nodes s q = issue (List_Nodes q) (\<lambda>h. s_nodes s h q)"
definition list_pods :: "server \<Rightarrow> pod_query \<Rightarrow> (go_err + pod list) cio" where
  "list_pods s q = issue (List_Pods q) (\<lambda>h. s_pods s h q)"
definition list_nmcs :: "server \<Rightarrow> labels \<Rightarrow> (go_err + nmc list) cio" where
  "list_nmcs s q = issue (List_NMCs q) (\<lambda>h. s_nmcs s h q)"
definition list_modules :: "server \<Rightarrow> string option \<Rightarrow> (go_err + kmodule list) cio" where
  "list_modules s q = issue (List_Modules q) (\<lambda>h. s_modules s h q)"
definition get_daemonset :: "server \<Rightarrow> nsn \<Rightarrow> (go_err + daemonset) cio" where
  "get_daemonset s n = issue (Daemon (Get_DaemonSet n)) (\<lambda>h. s_daemonset s h n)"
definition get_deviceclass :: "server \<Rightarrow> string \<Rightarrow> (go_err + device_class_obj) cio" where
  "get_deviceclass s n = issue (Daemon (Get_DeviceClass n)) (\<lambda>h. s_deviceclass s h n)"
definition get_clusterclaim :: "server \<Rightarrow> string \<Rightarrow> (go_err + cluster_claim) cio" where
  "get_clusterclaim s n = issue (Other (Get_ClusterClaim n)) (\<lambda>h. s_clusterclaim s h n)"
definition get_owner :: "server \<Rightarrow> string \<Rightarrow> nsn \<Rightarrow> (go_err option) cio" where
  "get_owner s kind n = issue (Other (Get_Owner kind n)) (\<lambda>h. s_owner s h kind n)"
definition list_nodes_with :: "server \<Rightarrow> string \<Rightarrow> (go_err + node list) cio" where
  "list_nodes_with s l = issue (Other (List_Nodes_With l)) (\<lambda>h. s_nodes_with s h l)"
definition list_daemonsets :: "server \<Rightarrow> labels \<Rightarrow> string \<Rightarrow> (go_err + daemonset list) cio" where
  "list_daemonsets s q ns = issue (Daemon (List_DaemonSets q ns)) (\<lambda>h. s_daemonsets s h q ns)"
definition list_deviceclasses :: "server \<Rightarrow> labels \<Rightarrow> (go_err + device_class_obj list) cio" where
  "list_deviceclasses s q = issue (Daemon (List_DeviceClasses q)) (\<lambda>h. s_deviceclasses s h q)"
definition list_preflights :: "server \<Rightarrow> (go_err + preflight_validation list) cio" where
  "list_preflights s = issue (Other List_Preflights) (\<lambda>h. s_preflights s h)"
definition time_now :: "server \<Rightarrow> int cio" where
  "time_now s = issue (Other Now) (\<lambda>h. s_now s h)"
definition list_managedclusters :: "server \<Rightarrow> labels \<Rightarrow> (go_err + managed_cluster list) cio" where
  "list_managedclusters s q = issue (Hub (List_ManagedClusters q)) (\<lambda>h. s_managedclusters s h q)"
definition get_manifestwork :: "server \<Rightarrow> nsn \<Rightarrow> (go_err + manifest_work) cio" where
  "get_manifestwork s n = issue (Hub (Get_ManifestWork n)) (\<lambda>h. s_manifestwork s h n)"
definition list_manifestworks :: "server \<Rightarrow> labels \<Rightarrow> (go_err + manifest_work list) cio" where
  "list_manifestworks s q = issue (Hub (List_ManifestWorks q)) (\<lambda>h. s_manifestworks s h q)"
definition list_mcms :: "server \<Rightarrow> (go_err + managed_cluster_module list) cio" where
  "list_mcms s = issue (Hub List_MCMs) (\<lambda>h. s_mcms s h)"
definition do_write :: "server \<Rightarrow> call \<Rightarrow> (go_err option) cio" where
  "do_write s c = issue c (\<lambda>h. s_write s h c)"
definition record_event :: "call \<Rightarrow> unit cio" where
  "record_event e = issue e (\<lambda>h. ())"

lemmas request_defs = get_node_def get_nmc_def get_pod_def get_module_def get_mic_def get_mbsc_def
  get_configmap_def get_secret_def get_namespace_def list_nodes_def list_pods_def list_nmcs_def
  list_modules_def get_daemonset_def get_deviceclass_def get_clusterclaim_def get_owner_def list_nodes_with_def
  list_daemonsets_def list_deviceclasses_def list_preflights_def time_now_def
  list_managedclusters_def get_manifestwork_def list_manifestworks_def list_mcms_def do_write_def record_event_def

lemma emits_requests [emits_intros]:
  "P (Get_Node n) \<Longrightarrow> emits P (get_node s n)"
  "P (Get_NMC n) \<Longrightarrow> emits P (get_nmc s n)"
  "P (Get_Pod k) \<Longrightarrow> emits P (get_pod s k)"
  "P (Get_Module k) \<Longrightarrow> emits P (get_module s k)"
  "P (Get_MIC k) \<Longrightarrow> emits P (get_mic s k)"
  "P (Get_MBSC k) \<Longrightarrow> emits P (get_mbsc s k)"
  "P (Get_ConfigMap k) \<Longrightarrow> emits P (get_configmap s k)"
  "P (Get_Secret k) \<Longrightarrow> emits P (get_secret s k)"
  "P (Get_Namespace n) \<Longrightarrow> emits P (get_namespace s n)"
  "P (List_Nodes ls) \<Longrightarrow> emits P (list_nodes s ls)"
  "P (List_Pods q) \<Longrightarrow> emits P (list_pods s q)"
  "P (List_NMCs ls) \<Longrightarrow> emits P (list_nmcs s ls)"
  "P (List_Modules ns) \<Longrightarrow> emits P (list_modules s ns)"
  "P (Daemon (Get_DaemonSet k)) \<Longrightarrow> emits P (get_daemonset s k)"
  "P (Daemon (Get_DeviceClass n)) \<Longrightarrow> emits P (get_deviceclass s n)"
  "P (Other (Get_ClusterClaim n)) \<Longrightarrow> emits P (get_clusterclaim s n)"
  "P (Other (Get_Owner kind k)) \<Longrightarrow> emits P (get_owner s kind k)"
  "P (Other (List_Nodes_With l)) \<Longrightarrow> emits P (list_nodes_with s l)"
  "P (Daemon (List_DaemonSets ls n)) \<Longrightarrow> emits P (list_daemonsets s ls n)"
  "P (Daemon (List_DeviceClasses ls)) \<Longrightarrow> emits P (list_deviceclasses s ls)"
  "P (Other List_Preflights) \<Longrightarrow> emits P (list_preflights s)"
  "P (Other Now) \<Longrightarrow> emits P (time_now s)"
  "P (Hub (List_ManagedClusters ls)) \<Longrightarrow> emits P (list_managedclusters s ls)"
  "P (Hub (Get_ManifestWork k)) \<Longrightarrow> emits P (get_manifestwork s k)"
  "P (Hub (List_ManifestWorks ls)) \<Longrightarrow> emits P (list_manifestworks s ls)"
  "P (Hub List_MCMs) \<Longrightarrow> emits P (list_mcms s)"
  "P c \<Longrightarrow> emits P (do_write s c)"
  "P c \<Longrightarrow> emits P (record_event c)"
  by (simp_all add: request_defs emits_issue)

text \<open>A read returns what the server answers at some point of the run.\<close>

lemma does_requests [does_intros]:
  "P (Get_NMC n) \<Longrightarrow> does P (\<lambda>r. \<exists>h. r = s_nmc s h n) (get_nmc s n)"
  "P (Get_MIC k) \<Longrightarrow> does P (\<lambda>r. \<exists>h. r = s_mic s h k) (get_mic s k)"
  "P (Get_MBSC k) \<Longrightarrow> does P (\<lambda>r. \<exists>h. r = s_mbsc s h k) (get_mbsc s k)"
  "P (List_Pods q) \<Longrightarrow> does P (\<lambda>r. \<exists>h. r = s_pods s h q) (list_pods s q)"
  "P (List_NMCs ls) \<Longrightarrow> does P (\<lambda>r. \<exists>h. r = s_nmcs s h ls) (list_nmcs s ls)"
  "P c \<Longrightarrow> does P (\<lambda>r. \<exists>h. r = s_write s h c) (do_write s c)"
  "P (List_Nodes ls) \<Longrightarrow> does P (\<lambda>r. \<exists>h. r = s_nodes s h ls) (list_nodes s ls)"
  "P (Daemon (List_DaemonSets ls n)) \<Longrightarrow> does P (\<lambda>r. \<exists>h. r = s_daemonsets s h ls n) (list_daemonsets s ls n)"
  "P (Daemon (List_DeviceClasses ls)) \<Longrightarrow> does P (\<lambda>r. \<exists>h. r = s_deviceclasses s h ls) (list_deviceclasses s ls)"
  "P (Hub (List_ManifestWorks ls)) \<Longrightarrow> does P (\<lambda>r. \<exists>h. r = s_manifestworks s h ls) (list_manifestworks s ls)"
  by (auto simp: request_defs intro!: does_issue)

text \<open>The writes of a run, in order.\<close>

definition writes :: "'a cio \<Rightarrow> call list \<Rightarrow> call list" where
  "writes m h = filter is_write (calls m h)"

section \<open>Libraries\<close>

record library =
  l_MatchString :: "string \<Rightarrow> string \<Rightarrow> go_err + bool"
  l_envsubst :: "string list \<Rightarrow> string \<Rightarrow> go_err + string"
  l_requirement :: "string \<Rightarrow> string \<Rightarrow> go_err + (labels \<Rightarrow> bool)"
  l_requirement_in :: "string \<Rightarrow> string list \<Rightarrow> go_err option"
  l_IsPodReady :: "pod \<Rightarrow> bool"
  l_ToleratesTaint :: "toleration \<Rightarrow> taint \<Rightarrow> bool"
  l_SetControllerReference :: "owner_ref \<Rightarrow> owner_ref option \<Rightarrow> go_err + owner_ref option"
  l_SetOwnerReference :: "owner_ref \<Rightarrow> owner_ref list \<Rightarrow> go_err + owner_ref list"
  l_Marshal_config :: "module_config \<Rightarrow> go_err + string"
  l_Marshal_tolerations :: "toleration list \<Rightarrow> go_err + string"
  l_UnmarshalStrict_config :: "string \<Rightarrow> module_config \<Rightarrow> go_err option \<times> module_config"
  l_UnmarshalStrict_tolerations :: "string \<Rightarrow> toleration list \<Rightarrow> go_err option \<times> toleration list"
  l_Hash_pod :: "pod \<Rightarrow> go_err + nat"
  l_Hash_build :: "pod \<Rightarrow> string \<Rightarrow> go_err + nat"
  l_Hash_sign :: "pod \<Rightarrow> string \<Rightarrow> string \<Rightarrow> string \<Rightarrow> go_err + nat"

section \<open>Objects\<close>

text \<open>\<^verbatim>\<open>internal/meta\<close>; deleting from a nil map does nothing, as on the empty list.\<close>

definition SetAnnotation :: "string \<Rightarrow> string \<Rightarrow> labels option \<Rightarrow> labels option" where
  "SetAnnotation key val ann = Some (AList.update key val (case ann of None \<Rightarrow> [] | Some a \<Rightarrow> a))"

definition HasLabel :: "string \<Rightarrow> labels \<Rightarrow> bool" where
  "HasLabel key ls = has_key ls key"

definition RemoveLabel :: "string \<Rightarrow> labels \<Rightarrow> labels" where
  "RemoveLabel key ls = AList.delete key ls"

definition SetLabel :: "string \<Rightarrow> string \<Rightarrow> labels \<Rightarrow> labels" where
  "SetLabel key val ls = AList.update key val ls"

definition annotation :: "pod \<Rightarrow> string \<Rightarrow> string" where
  "annotation p k = (case pod_annotations p of None \<Rightarrow> [] | Some a \<Rightarrow> label_of a k)"

lemma map_of_SetLabel [simp]: "map_of (SetLabel k v ls) = (map_of ls)(k \<mapsto> v)"
  by (simp add: SetLabel_def update_conv')

lemma map_of_RemoveLabel [simp]: "map_of (RemoveLabel k ls) = (map_of ls)(k := None)"
  by (simp add: RemoveLabel_def delete_conv')

lemma has_key_SetLabel [simp]: "has_key (SetLabel k v ls) k' \<longleftrightarrow> k' = k \<or> has_key ls k'"
  by (simp add: SetLabel_def)

lemma has_key_RemoveLabel [simp]: "has_key (RemoveLabel k ls) k' \<longleftrightarrow> k' \<noteq> k \<and> has_key ls k'"
  by (simp add: RemoveLabel_def)

text \<open>\<open>controllerutil\<close>: finalizers; removing reports whether there was one to remove.\<close>

definition AddFinalizer :: "string \<Rightarrow> string list \<Rightarrow> string list" where
  "AddFinalizer f fs = (if f \<in> set fs then fs else fs @ [f])"

definition RemoveFinalizer :: "string \<Rightarrow> string list \<Rightarrow> bool \<times> string list" where
  "RemoveFinalizer f fs = (f \<in> set fs, filter (\<lambda>x. x \<noteq> f) fs)"

definition IsControlledBy :: "pod \<Rightarrow> owner_ref \<Rightarrow> bool" where
  "IsControlledBy p ow = (case pod_owner p of None \<Rightarrow> False | Some r \<Rightarrow> own_uid r = own_uid ow)"

text \<open>
  \<open>controllerutil.CreateOrPatch\<close>: read the object; mutate and create it when it does not exist;
  otherwise mutate it and patch it when that changed it.
\<close>

definition CreateOrPatch ::
  "server \<Rightarrow> (go_err + 'a) cio \<Rightarrow> 'a \<Rightarrow> ('a \<Rightarrow> go_err + 'a) \<Rightarrow> ('a \<Rightarrow> call) \<Rightarrow> ('a \<Rightarrow> 'a \<Rightarrow> call) \<Rightarrow>
   (go_err option) cio" where
  "CreateOrPatch srv get skeleton mutate create patch = do {
     r \<leftarrow> get;
     case r of
       Inl e \<Rightarrow>
         if IsNotFound e then
           (case mutate skeleton of
              Inl e' \<Rightarrow> State_Monad.return (Some e')
            | Inr obj \<Rightarrow> do_write srv (create obj))
         else State_Monad.return (Some e)
     | Inr before \<Rightarrow>
         (case mutate before of
            Inl e' \<Rightarrow> State_Monad.return (Some e')
          | Inr obj \<Rightarrow> if obj = before then State_Monad.return None else do_write srv (patch before obj))
   }"

lemma emits_CreateOrPatch [emits_intros]:
  assumes "emits P get" and "\<And>obj. mutate skeleton = Inr obj \<Longrightarrow> P (create obj)"
    and "\<And>b obj. mutate b = Inr obj \<Longrightarrow> P (patch b obj)"
  shows "emits P (CreateOrPatch srv get skeleton mutate create patch)"
  unfolding CreateOrPatch_def by (intro emits_intros assms) auto

text \<open>
  Running an action for each element and collecting the errors, which is how the controllers loop;
  a panic ends the run.
\<close>

fun collect_errors :: "('x \<Rightarrow> (go_err option) cio) \<Rightarrow> 'x list \<Rightarrow> (go_err option list) cio" where
  "collect_errors f [] = State_Monad.return []"
| "collect_errors f (x # xs) = do {
     e \<leftarrow> f x;
     if (case e of None \<Rightarrow> False | Some er \<Rightarrow> is_panic er) then State_Monad.return [e]
     else do { es \<leftarrow> collect_errors f xs; State_Monad.return (e # es) }
   }"

lemma emits_collect_errors [emits_intros]:
  "(\<And>x. x \<in> set xs \<Longrightarrow> emits P (f x)) \<Longrightarrow> emits P (collect_errors f xs)"
  by (induction xs) (auto intro!: emits_intros)

text \<open>Joining keeps a panic a panic.\<close>

definition join_errors :: "go_err option list \<Rightarrow> go_err option" where
  "join_errors es =
     (case find (\<lambda>e. case e of None \<Rightarrow> False | Some er \<Rightarrow> is_panic er) es of
        Some p \<Rightarrow> p
      | None \<Rightarrow> errors_Join es)"

lemma join_errors_None [simp]: "join_errors es = None \<longleftrightarrow> (\<forall>e\<in>set es. e = None)"
proof -
  have "\<exists>x\<in>set es. x = e \<and> e \<noteq> None"
    if "find (\<lambda>e. case e of None \<Rightarrow> False | Some er \<Rightarrow> is_panic er) es = Some e" for e
    using that by (induction es) (auto split: if_splits option.splits)
  then show ?thesis unfolding join_errors_def by (force split: option.splits)
qed

text \<open>Wrapping an error with \<^verbatim>\<open>%v\<close>; a panic passes through.\<close>

definition errorf :: "string \<Rightarrow> go_err \<Rightarrow> go_err" where
  "errorf s e = (if is_panic e then e else Errorf s e)"

definition errorf_opt :: "string \<Rightarrow> go_err option \<Rightarrow> go_err option" where
  "errorf_opt s e = map_option (errorf s) e"

lemma errorf_opt_None [simp]: "errorf_opt s e = None \<longleftrightarrow> e = None"
  by (simp add: errorf_opt_def)

lemma not_IsNotFound_errorf [simp]: "\<not> IsNotFound (errorf s e)"
  by (cases e) (auto simp: errorf_def IsNotFound_def)

text \<open>Sequencing of fallible pure code, with the error of a step wrapped on the way out.\<close>

definition and_then :: "go_err + 'a \<Rightarrow> ('a \<Rightarrow> go_err + 'b) \<Rightarrow> go_err + 'b" where
  "and_then r f = (case r of Inl e \<Rightarrow> Inl e | Inr x \<Rightarrow> f x)"

definition or_wrap :: "string \<Rightarrow> go_err + 'a \<Rightarrow> go_err + 'a" where
  "or_wrap s r = map_sum (errorf s) id r"

lemma and_then_Inr: "and_then r f = Inr y \<longleftrightarrow> (\<exists>x. r = Inr x \<and> f x = Inr y)"
  by (cases r) (auto simp: and_then_def)

lemma and_then_simps [simp]: "and_then (Inr x) f = f x" "and_then (Inl e) f = Inl e"
  by (simp_all add: and_then_def)

lemma or_wrap_Inr [simp]: "or_wrap s r = Inr x \<longleftrightarrow> r = Inr x"
  by (cases r) (auto simp: or_wrap_def)

lemma or_wrap_simps [simp]: "or_wrap s (Inr x) = Inr x" "or_wrap s (Inl e) = Inl (errorf s e)"
  by (simp_all add: or_wrap_def)

section \<open>A concrete cluster\<close>

text \<open>
  The empty cluster: nothing exists, every write succeeds; and simple libraries. Concrete instances of
  the parameters, from which examples are made by changing an answer.
\<close>

definition empty_cluster :: server where
  "empty_cluster = \<lparr>s_node = (\<lambda>h n. Inl (ApiErr NotFound)), s_nmc = (\<lambda>h n. Inl (ApiErr NotFound)),
     s_pod = (\<lambda>h n. Inl (ApiErr NotFound)), s_module = (\<lambda>h n. Inl (ApiErr NotFound)),
     s_mic = (\<lambda>h n. Inl (ApiErr NotFound)), s_mbsc = (\<lambda>h n. Inl (ApiErr NotFound)),
     s_configmap = (\<lambda>h n. Inl (ApiErr NotFound)), s_secret = (\<lambda>h n. Inl (ApiErr NotFound)),
     s_namespace = (\<lambda>h n. Inl (ApiErr NotFound)), s_nodes = (\<lambda>h q. Inr []), s_pods = (\<lambda>h q. Inr []),
     s_nmcs = (\<lambda>h q. Inr []), s_modules = (\<lambda>h q. Inr []),
     s_daemonset = (\<lambda>h n. Inl (ApiErr NotFound)), s_deviceclass = (\<lambda>h n. Inl (ApiErr NotFound)),
     s_clusterclaim = (\<lambda>h n. Inl (ApiErr NotFound)), s_owner = (\<lambda>h k n. Some (ApiErr NotFound)),
     s_nodes_with = (\<lambda>h l. Inr []), s_daemonsets = (\<lambda>h q n. Inr []), s_deviceclasses = (\<lambda>h q. Inr []),
     s_preflights = (\<lambda>h. Inr []), s_now = (\<lambda>h. 0),
     s_managedclusters = (\<lambda>h q. Inr []), s_manifestwork = (\<lambda>h n. Inl (ApiErr NotFound)), s_manifestworks = (\<lambda>h q. Inr []),
     s_mcms = (\<lambda>h. Inr []), s_write = (\<lambda>h c. None)\<rparr>"

definition plain_library :: library where
  "plain_library = \<lparr>l_MatchString = (\<lambda>re s. Inr (HasPrefix s re)), l_envsubst = (\<lambda>vars t. Inr t),
     l_requirement = (\<lambda>k v. Inr (\<lambda>ls. map_of ls k = Some v)),
     l_requirement_in = (\<lambda>k vs. None),
     l_IsPodReady = (\<lambda>p. map_of (pod_conditions p) ''Ready'' = Some ''True''),
     l_ToleratesTaint = (\<lambda>tol t. tol_key tol = taint_key t),
     l_SetControllerReference = (\<lambda>ow cur. Inr (Some ow)),
     l_SetOwnerReference = (\<lambda>ow owners. Inr (if ow \<in> set owners then owners else owners @ [ow])),
     l_Marshal_config = (\<lambda>c. Inr (cfg_image c)), l_Marshal_tolerations = (\<lambda>ts. Inr ''tolerations''),
     l_UnmarshalStrict_config = (\<lambda>s c. (None, c\<lparr>cfg_image := s\<rparr>)),
     l_UnmarshalStrict_tolerations = (\<lambda>s ts. (None, ts)),
     l_Hash_pod = (\<lambda>p. Inr (length (pod_volumes p))), l_Hash_build = (\<lambda>p s. Inr (length s)),
     l_Hash_sign = (\<lambda>p a b c. Inr (length a + length b + length c))\<rparr>"

end
