(* ===== verification/Kernel_Mapper.thy ===== *)
theory Kernel_Mapper
  imports Api_Types Kernel_Version
begin

text \<open>
  From a Module and a kernel version to the merged \<open>ModuleLoaderData\<close>:
  \<^verbatim>\<open>internal/module/kernelmapper.go\<close>, \<^verbatim>\<open>buildargoverrider.go\<close> and
  \<^verbatim>\<open>helper.go\<close>. \<open>regexp.MatchString\<close> is the parameter \<open>MatchString\<close> (an error when the
  pattern does not compile) and the template engine the parameter \<open>envsubst\<close>.
\<close>

section \<open>\<^verbatim>\<open>helper.go\<close>\<close>

definition exists_toleration :: "string \<Rightarrow> toleration" where
  "exists_toleration k = \<lparr>tol_key = k, tol_operator = ''Exists'', tol_value = [],
     tol_effect = ''NoSchedule'', tol_seconds = None\<rparr>"

definition InternalTolerations :: "toleration list" where
  "InternalTolerations = map exists_toleration
     [''node.kubernetes.io/disk-pressure'', ''node.kubernetes.io/memory-pressure'',
      ''node.kubernetes.io/pid-pressure'']"

definition AppendToTag :: "string \<Rightarrow> string \<Rightarrow> string" where
  "AppendToTag name tag =
     (let separator = (if Contains_char name (CHR '':'') then ''_'' else '':'')
      in name @ separator @ tag)"

definition ShouldBeBuilt :: "mld \<Rightarrow> bool" where
  "ShouldBeBuilt d = (mld_build d \<noteq> None)"

section \<open>\<^verbatim>\<open>buildargoverrider.go\<close>\<close>

definition overridesMap :: "build_arg list \<Rightarrow> (string \<times> build_arg) list" where
  "overridesMap overrides = fold (\<lambda>ov m. AList.update (ba_name ov) ov m) overrides []"

text \<open>The loop over \<open>args\<close>: every argument that has an override is replaced in place.\<close>

fun override_loop ::
  "(string \<times> build_arg) list \<Rightarrow> build_arg list \<Rightarrow> string list \<Rightarrow> build_arg list \<times> string list" where
  "override_loop m [] unused = ([], unused)"
| "override_loop m (a # args) unused =
     (case map_of m (ba_name a) of
        Some ov \<Rightarrow> (let (r, u) = override_loop m args (removeAll (ba_name a) unused) in (ov # r, u))
      | None \<Rightarrow> (let (r, u) = override_loop m args unused in (a # r, u)))"

definition ApplyBuildArgOverrides :: "build_arg list \<Rightarrow> build_arg list \<Rightarrow> build_arg list" where
  "ApplyBuildArgOverrides args overrides =
     (let m = overridesMap overrides;
          (args', unused) = override_loop m args (map fst m)
      in args' @ map (\<lambda>n. lookup_default \<lparr>ba_name = [], ba_value = []\<rparr> m n) (sort unused))"

section \<open>\<^verbatim>\<open>kernelmapper.go\<close>\<close>

fun findKernelMapping ::
  "(string \<Rightarrow> string \<Rightarrow> go_err + bool) \<Rightarrow> kernel_mapping list \<Rightarrow> string \<Rightarrow> go_err + kernel_mapping" where
  "findKernelMapping MatchString [] kernelVersion = Inl ErrNoMatchingKernelMapping"
| "findKernelMapping MatchString (m # mappings) kernelVersion =
     (if km_literal m \<noteq> [] \<and> km_literal m = kernelVersion then Inr m
      else if km_regexp m = [] then findKernelMapping MatchString mappings kernelVersion
      else case MatchString (km_regexp m) kernelVersion of
             Inl e \<Rightarrow> Inl (Errorf ''could not match regexp against kernel'' e)
           | Inr matches \<Rightarrow>
               if matches then Inr m else findKernelMapping MatchString mappings kernelVersion)"

definition getRelevantBuild :: "build option \<Rightarrow> build option \<Rightarrow> build option" where
  "getRelevantBuild moduleBuild mappingBuild =
     (case moduleBuild of
        None \<Rightarrow> mappingBuild
      | Some mb \<Rightarrow>
          (case mappingBuild of
             None \<Rightarrow> Some mb
           | Some kb \<Rightarrow>
               Some (mb\<lparr>bld_dockerfile_cm := (if bld_dockerfile_cm kb \<noteq> None then bld_dockerfile_cm kb
                                              else bld_dockerfile_cm mb),
                        bld_args := ApplyBuildArgOverrides (bld_args mb) (bld_args kb),
                        bld_secrets := bld_secrets mb @ bld_secrets kb\<rparr>)))"

definition merge_sign :: "sign \<Rightarrow> sign \<Rightarrow> sign" where
  "merge_sign ms ks =
     ms\<lparr>sgn_unsigned_image := (if sgn_unsigned_image ks \<noteq> [] then sgn_unsigned_image ks
                                else sgn_unsigned_image ms),
        sgn_key_secret := (if sgn_key_secret ks \<noteq> None then sgn_key_secret ks else sgn_key_secret ms),
        sgn_cert_secret := (if sgn_cert_secret ks \<noteq> None then sgn_cert_secret ks else sgn_cert_secret ms),
        sgn_files := sgn_files ms @ sgn_files ks\<rparr>"

text \<open>
  A nil configuration is dereferenced when both arguments are nil; the caller rules that out. The
  replaced slices are read back as the source does, \<open>unsignedImage[0]\<close>.
\<close>

definition getRelevantSign ::
  "(string list \<Rightarrow> string \<Rightarrow> go_err + string) \<Rightarrow> sign option \<Rightarrow> sign option \<Rightarrow> string \<Rightarrow> go_err + sign" where
  "getRelevantSign envsubst moduleSign mappingSign kernelVersion =
     (case (case moduleSign of
              None \<Rightarrow> mappingSign
            | Some ms \<Rightarrow> (case mappingSign of None \<Rightarrow> Some ms | Some ks \<Rightarrow> Some (merge_sign ms ks))) of
        None \<Rightarrow> Inl (Panic ''nil pointer dereference'')
      | Some signConfig \<Rightarrow>
          (case KernelComponentsAsEnvVars (NormalizeVersion kernelVersion) of
             Inl e \<Rightarrow> Inl (Errorf ''failed to get kernel componnents as env variables'' e)
           | Inr osConfigEnvVars \<Rightarrow>
               (case ReplaceInTemplates envsubst osConfigEnvVars [sgn_unsigned_image signConfig] of
                  Inl e \<Rightarrow> Inl e
                | Inr unsignedImage \<Rightarrow>
                    (case ReplaceInTemplates envsubst osConfigEnvVars (sgn_files signConfig) of
                       Inl e \<Rightarrow> Inl e
                     | Inr filesToSign \<Rightarrow>
                         Inr (signConfig\<lparr>sgn_unsigned_image := unsignedImage ! 0,
                                         sgn_files := filesToSign\<rparr>)))))"

text \<open>
  \<open>InTreeModulesToRemove\<close>: the mapping's list when it is not nil, else the container's; the
  deprecated single-module field, mapping before container, takes precedence over both.
\<close>

definition relevant_intree :: "kernel_mapping \<Rightarrow> loader_container \<Rightarrow> string slice" where
  "relevant_intree mapping c =
     (let ms = (if km_intree mapping \<noteq> None then km_intree mapping else lc_intree c);
          one = (if km_intree_one mapping \<noteq> [] then km_intree_one mapping else lc_intree_one c)
      in if one \<noteq> [] then Some [one] else ms)"

definition prepareModuleLoaderData ::
  "(string list \<Rightarrow> string \<Rightarrow> go_err + string) \<Rightarrow> kernel_mapping \<Rightarrow> kmodule \<Rightarrow> string \<Rightarrow> go_err + mld" where
  "prepareModuleLoaderData envsubst mapping modu kernelVersion =
     (case ms_loader (mod_spec modu) of
        None \<Rightarrow> Inl (Panic ''nil pointer dereference'')
      | Some ml \<Rightarrow>
          let c = ml_container ml in
          (case (if km_sign mapping \<noteq> None \<or> lc_sign c \<noteq> None
                 then map_sum (Errorf ''failed to get the relevant Sign configuration'') Some
                        (getRelevantSign envsubst (lc_sign c) (km_sign mapping) kernelVersion)
                 else Inr None) of
             Inl e \<Rightarrow> Inl e
           | Inr sign_cfg \<Rightarrow>
               Inr \<lparr>mld_kernel_version = kernelVersion,
                    mld_kernel_normalized = NormalizeVersion kernelVersion,
                    mld_repo_secret = ms_repo_secret (mod_spec modu),
                    mld_selector = ms_selector (mod_spec modu),
                    mld_name = mod_name modu,
                    mld_namespace = mod_namespace modu,
                    mld_service_account = ml_service_account ml,
                    mld_build = (if km_build mapping \<noteq> None \<or> lc_build c \<noteq> None
                                 then getRelevantBuild (lc_build c) (km_build mapping) else None),
                    mld_sign = sign_cfg,
                    mld_version = lc_version c,
                    mld_image = (if km_image mapping = [] then lc_image c else km_image mapping),
                    mld_pull_policy = lc_pull_policy c,
                    mld_modprobe = lc_modprobe c,
                    mld_registry_tls = (if km_registry_tls mapping = None then Some (lc_registry_tls c)
                                        else km_registry_tls mapping),
                    mld_intree = relevant_intree mapping c,
                    mld_owner = Some (module_owner modu),
                    mld_tolerations = ms_tolerations (mod_spec modu) @ InternalTolerations\<rparr>))"

definition replaceTemplates ::
  "(string list \<Rightarrow> string \<Rightarrow> go_err + string) \<Rightarrow> mld \<Rightarrow> go_err + mld" where
  "replaceTemplates envsubst d =
     (case KernelComponentsAsEnvVars (mld_kernel_normalized d) of
        Inl e \<Rightarrow> Inl (Errorf ''failed to get kernel componnents as env variables'' e)
      | Inr vars \<Rightarrow>
          (case ReplaceInTemplates envsubst
                  (vars @ [''MOD_NAME='' @ mld_name d, ''MOD_NAMESPACE='' @ mld_namespace d]) [mld_image d] of
             Inl e \<Rightarrow> Inl (Errorf ''failed to substitute templates in the ContainerImage field'' e)
           | Inr replacedContainerImage \<Rightarrow> Inr (d\<lparr>mld_image := replacedContainerImage ! 0\<rparr>)))"

text \<open>A panic is not an error value, so it is not wrapped.\<close>

definition GetModuleLoaderDataForKernel ::
  "(string \<Rightarrow> string \<Rightarrow> go_err + bool) \<Rightarrow> (string list \<Rightarrow> string \<Rightarrow> go_err + string) \<Rightarrow>
   kmodule \<Rightarrow> string \<Rightarrow> go_err + mld" where
  "GetModuleLoaderDataForKernel MatchString envsubst modu kernelVersion =
     (case ms_loader (mod_spec modu) of
        None \<Rightarrow> Inl (Panic ''nil pointer dereference'')
      | Some ml \<Rightarrow>
          (case findKernelMapping MatchString (lc_mappings (ml_container ml)) kernelVersion of
             Inl e \<Rightarrow> Inl (Wrapf ''failed to find mapping for kernel'' e)
           | Inr foundMapping \<Rightarrow>
               (case prepareModuleLoaderData envsubst foundMapping modu kernelVersion of
                  Inl e \<Rightarrow> Inl (Errorf ''failed to prepare module loader data for kernel'' e)
                | Inr d \<Rightarrow>
                    map_sum (Errorf ''failed to replace templates in module loader data for kernel'') id
                      (replaceTemplates envsubst d))))"

section \<open>The reference behaviour\<close>

text \<open>The mapping test of one loop iteration, and the last override of a name.\<close>

definition mapping_matches ::
  "(string \<Rightarrow> string \<Rightarrow> go_err + bool) \<Rightarrow> string \<Rightarrow> kernel_mapping \<Rightarrow> go_err + bool" where
  "mapping_matches MatchString kernelVersion m =
     (if km_literal m \<noteq> [] \<and> km_literal m = kernelVersion then Inr True
      else if km_regexp m = [] then Inr False
      else MatchString (km_regexp m) kernelVersion)"

definition last_override :: "build_arg list \<Rightarrow> string \<Rightarrow> build_arg option" where
  "last_override overrides n = find (\<lambda>ov. ba_name ov = n) (rev overrides)"

lemma findKernelMapping_step:
  "findKernelMapping MatchString (m # ms) kv =
     (case mapping_matches MatchString kv m of
        Inl e \<Rightarrow> Inl (Errorf ''could not match regexp against kernel'' e)
      | Inr True \<Rightarrow> Inr m
      | Inr False \<Rightarrow> findKernelMapping MatchString ms kv)"
  by (auto simp: mapping_matches_def split: sum.splits)

lemma findKernelMapping_Inr:
  "findKernelMapping MatchString ms kv = Inr m \<longleftrightarrow>
     (\<exists>pre suf. ms = pre @ m # suf \<and> mapping_matches MatchString kv m = Inr True \<and>
        (\<forall>x\<in>set pre. mapping_matches MatchString kv x = Inr False))"
proof (induction ms)
  case Nil
  show ?case by simp
next
  case (Cons a ms)
  consider (err) e where "mapping_matches MatchString kv a = Inl e"
    | (yes) "mapping_matches MatchString kv a = Inr True"
    | (no) "mapping_matches MatchString kv a = Inr False"
    by (metis (full_types) sum.exhaust)
  then show ?case
  proof cases
    case err
    then show ?thesis
      by (auto simp del: findKernelMapping.simps simp: findKernelMapping_step Cons_eq_append_conv)
  next
    case yes
    then show ?thesis
      by (auto simp del: findKernelMapping.simps simp: findKernelMapping_step Cons_eq_append_conv)
  next
    case no
    then have eq: "findKernelMapping MatchString (a # ms) kv = findKernelMapping MatchString ms kv"
      by (simp only: findKernelMapping_step sum.case bool.case)
    have neq: "mapping_matches MatchString kv m = Inr True \<Longrightarrow> m \<noteq> a" using no by auto
    show ?thesis unfolding eq Cons
    proof (intro iffI; elim exE conjE)
      fix pre suf assume "ms = pre @ m # suf" "mapping_matches MatchString kv m = Inr True"
        "\<forall>x\<in>set pre. mapping_matches MatchString kv x = Inr False"
      with no show "\<exists>pre suf. a # ms = pre @ m # suf \<and> mapping_matches MatchString kv m = Inr True \<and>
          (\<forall>x\<in>set pre. mapping_matches MatchString kv x = Inr False)"
        by (intro exI [of _ "a # pre"] exI [of _ suf]) simp
    next
      fix pre suf assume *: "a # ms = pre @ m # suf" "mapping_matches MatchString kv m = Inr True"
        "\<forall>x\<in>set pre. mapping_matches MatchString kv x = Inr False"
      then obtain pre' where "pre = a # pre'" using neq by (cases pre) auto
      with * show "\<exists>pre suf. ms = pre @ m # suf \<and> mapping_matches MatchString kv m = Inr True \<and>
          (\<forall>x\<in>set pre. mapping_matches MatchString kv x = Inr False)"
        by (intro exI [of _ pre'] exI [of _ suf]) simp
    qed
  qed
qed

lemma findKernelMapping_no_match:
  "findKernelMapping MatchString ms kv = Inl ErrNoMatchingKernelMapping \<longleftrightarrow>
     (\<forall>m\<in>set ms. mapping_matches MatchString kv m = Inr False)"
  by (induction ms) (auto simp del: findKernelMapping.simps(2) simp: findKernelMapping_step
      split: sum.splits bool.splits)

lemma findKernelMapping_chain:
  "findKernelMapping MatchString ms kv = Inl e \<Longrightarrow>
     errors_Is e ErrNoMatchingKernelMapping = (e = ErrNoMatchingKernelMapping)"
  by (induction ms) (auto simp del: findKernelMapping.simps(2) simp: findKernelMapping_step
      split: sum.splits bool.splits)

lemma getRelevantSign_no_panic:
  "ms \<noteq> None \<or> ks \<noteq> None \<Longrightarrow> getRelevantSign envsubst ms ks kv = Inl e \<Longrightarrow>
     (\<exists>m x. e = Errorf m x) "
proof -
  have "ReplaceInTemplates envsubst vars ts = Inl e \<Longrightarrow> \<exists>m x. e = Errorf m x" for vars ts
    by (induction ts) (auto split: sum.splits)
  moreover assume "ms \<noteq> None \<or> ks \<noteq> None" "getRelevantSign envsubst ms ks kv = Inl e"
  ultimately show ?thesis
    by (auto simp del: ReplaceInTemplates.simps simp: getRelevantSign_def split: option.splits sum.splits)
qed

subsection \<open>Overriding build arguments\<close>

lemma overridesMap_snoc:
  "overridesMap (os @ [ov]) = AList.update (ba_name ov) ov (overridesMap os)"
  by (simp add: overridesMap_def)

lemma map_of_overridesMap: "map_of (overridesMap os) n = last_override os n"
  by (induction os rule: rev_induct)
    (auto simp: overridesMap_snoc last_override_def update_conv', simp add: overridesMap_def)

lemma distinct_overridesMap: "distinct (map fst (overridesMap os))"
  by (induction os rule: rev_induct)
    (auto simp: overridesMap_snoc distinct_update, simp add: overridesMap_def)

lemma keys_overridesMap: "fst ` set (overridesMap os) = ba_name ` set os"
  by (induction os rule: rev_induct)
    (auto simp: overridesMap_snoc dom_update, auto simp: overridesMap_def)

lemma last_override_None: "last_override os n = None \<longleftrightarrow> n \<notin> ba_name ` set os"
  by (auto simp: last_override_def find_None_iff)

lemma override_loop_eq:
  "override_loop m args unused =
     (map (\<lambda>a. case map_of m (ba_name a) of None \<Rightarrow> a | Some ov \<Rightarrow> ov) args,
      filter (\<lambda>n. n \<notin> {ba_name a |a. a \<in> set args \<and> map_of m (ba_name a) \<noteq> None}) unused)"
proof (induction m args unused rule: override_loop.induct)
  case (1 m unused)
  show ?case by simp
next
  case (2 m a args unused)
  then show ?case
    by (auto split: option.splits simp: removeAll_filter_not_eq intro!: filter_cong)
qed

lemma sort_distinct_eq: "distinct xs \<Longrightarrow> sort xs = sorted_list_of_set (set xs)"
  by (metis sorted_list_of_set_sort_remdups distinct_remdups_id)

lemma prepare_Inr:
  assumes "ms_loader (mod_spec modu) = Some ml"
    and "prepareModuleLoaderData envsubst mapping modu kv = Inr d"
  shows "mld_kernel_version d = kv \<and> mld_kernel_normalized d = NormalizeVersion kv \<and>
    mld_name d = mod_name modu \<and> mld_namespace d = mod_namespace modu \<and>
    mld_build d = getRelevantBuild (lc_build (ml_container ml)) (km_build mapping) \<and>
    (mld_sign d = None) = (km_sign mapping = None \<and> lc_sign (ml_container ml) = None) \<and>
    mld_image d = (if km_image mapping = [] then lc_image (ml_container ml) else km_image mapping) \<and>
    mld_intree d = relevant_intree mapping (ml_container ml) \<and>
    mld_tolerations d = ms_tolerations (mod_spec modu) @ InternalTolerations"
proof -
  let ?c = "ml_container ml"
  let ?s = "if km_sign mapping \<noteq> None \<or> lc_sign ?c \<noteq> None
            then map_sum (Errorf ''failed to get the relevant Sign configuration'') Some
                   (getRelevantSign envsubst (lc_sign ?c) (km_sign mapping) kv)
            else Inr None"
  have b: "(if km_build mapping \<noteq> None \<or> lc_build ?c \<noteq> None
            then getRelevantBuild (lc_build ?c) (km_build mapping) else None) =
           getRelevantBuild (lc_build ?c) (km_build mapping)"
    by (simp add: getRelevantBuild_def)
  from assms obtain sc where sc: "?s = Inr sc"
    unfolding prepareModuleLoaderData_def Let_def by (cases ?s) simp_all
  moreover from sc have "(sc = None) = (km_sign mapping = None \<and> lc_sign ?c = None)"
    by (cases "getRelevantSign envsubst (lc_sign ?c) (km_sign mapping) kv") (auto split: if_splits)
  moreover from assms show ?thesis
    unfolding prepareModuleLoaderData_def Let_def b option.case sc sum.case
    using calculation by (auto simp: getRelevantBuild_def)
qed

lemma replaceTemplates_Inr:
  assumes "replaceTemplates envsubst d = Inr d'"
  shows "\<exists>vars img. KernelComponentsAsEnvVars (mld_kernel_normalized d) = Inr vars \<and>
    envsubst (vars @ [''MOD_NAME='' @ mld_name d, ''MOD_NAMESPACE='' @ mld_namespace d]) (mld_image d) = Inr img \<and>
    d' = d\<lparr>mld_image := img\<rparr>"
  using assms
  by (auto simp del: ReplaceInTemplates.simps simp: replaceTemplates_def split: sum.splits
      dest!: ReplaceInTemplates_single)

lemma GetMLD_Inr:
  assumes "GetModuleLoaderDataForKernel MatchString envsubst modu kv = Inr d"
  obtains ml m d0 where "ms_loader (mod_spec modu) = Some ml"
    and "findKernelMapping MatchString (lc_mappings (ml_container ml)) kv = Inr m"
    and "prepareModuleLoaderData envsubst m modu kv = Inr d0"
    and "replaceTemplates envsubst d0 = Inr d"
proof -
  from assms obtain ml where ml: "ms_loader (mod_spec modu) = Some ml"
    by (auto simp: GetModuleLoaderDataForKernel_def split: option.splits)
  moreover from assms ml obtain m where
    m: "findKernelMapping MatchString (lc_mappings (ml_container ml)) kv = Inr m"
    by (auto simp: GetModuleLoaderDataForKernel_def split: sum.splits)
  moreover from assms ml m obtain d0 where d0: "prepareModuleLoaderData envsubst m modu kv = Inr d0"
    by (auto simp: GetModuleLoaderDataForKernel_def split: sum.splits)
  moreover from assms ml m d0 have "replaceTemplates envsubst d0 = Inr d"
    by (cases "replaceTemplates envsubst d0") (simp_all add: GetModuleLoaderDataForKernel_def)
  ultimately show thesis using that by blast
qed

lemma GetMLD_names:
  assumes "GetModuleLoaderDataForKernel MatchString envsubst modu kv = Inr d"
  shows "mld_name d = mod_name modu \<and> mld_namespace d = mod_namespace modu \<and> mld_kernel_version d = kv"
  using GetMLD_Inr [OF assms] prepare_Inr replaceTemplates_Inr
  by (metis mld.select_convs mld.surjective mld.update_convs(11))

text \<open>
  A Module with one mapping per kernel flavour, a prefix matcher for the regular expressions and a
  substitution of the kernel variable; used to exercise the properties.
\<close>

definition two_flavours :: kmodule where
  "two_flavours = new_module ''kmm'' ''mymod''
     (empty_module_spec\<lparr>ms_loader := Some \<lparr>ml_container = empty_loader_container
         \<lparr>lc_image := ''reg/all:$K'',
          lc_mappings := [empty_mapping\<lparr>km_literal := ''5.14.0'', km_image := ''reg/a:$K''\<rparr>,
                          empty_mapping\<lparr>km_regexp := ''6.''\<rparr>]\<rparr>, ml_service_account = []\<rparr>\<rparr>)"

definition prefix_match :: "string \<Rightarrow> string \<Rightarrow> go_err + bool" where
  "prefix_match re s = Inr (HasPrefix s re)"

definition subst_kernel :: "string list \<Rightarrow> string \<Rightarrow> go_err + string" where
  "subst_kernel vars t =
     (if HasSuffix t ''$K'' \<and> vars \<noteq> [] then Inr (TrimSuffix t ''$K'' @ drop 20 (hd vars)) else Inr t)"

lemma ApplyBuildArgOverrides_eq:
  "ApplyBuildArgOverrides args overrides =
     map (\<lambda>a. case last_override overrides (ba_name a) of None \<Rightarrow> a | Some ov \<Rightarrow> ov) args @
     map (\<lambda>n. the (last_override overrides n))
       (sorted_list_of_set (ba_name ` set overrides - ba_name ` set args))"
proof -
  let ?m = "overridesMap overrides"
  let ?u = "filter (\<lambda>n. n \<notin> {ba_name a |a. a \<in> set args \<and> map_of ?m (ba_name a) \<noteq> None}) (map fst ?m)"
  have "set ?u = ba_name ` set overrides - ba_name ` set args"
    using keys_overridesMap [of overrides]
    by (auto simp: map_of_overridesMap last_override_None) (metis imageI)
  then have "sort ?u = sorted_list_of_set (ba_name ` set overrides - ba_name ` set args)"
    by (simp add: sort_distinct_eq distinct_overridesMap del: set_filter)
  moreover have "lookup_default \<lparr>ba_name = [], ba_value = []\<rparr> ?m n = the (last_override overrides n)"
    if "n \<in> ba_name ` set overrides" for n
    using that by (cases "last_override overrides n")
      (auto simp: lookup_default_def map_of_overridesMap last_override_None)
  ultimately show ?thesis
    unfolding ApplyBuildArgOverrides_def Let_def override_loop_eq prod.case
    by (simp add: map_of_overridesMap)
qed

section \<open>Properties\<close>

text \<open>
  Merging the build arguments of a mapping into those of the Module. Every argument keeps its
  place and takes the last override of its name; the overrides that name no argument follow, sorted
  by name, one per name.
\<close>

theorem build_arg_overrides_spec:
  "ApplyBuildArgOverrides args overrides =
     map (\<lambda>a. case last_override overrides (ba_name a) of None \<Rightarrow> a | Some ov \<Rightarrow> ov) args @
     map (\<lambda>n. the (last_override overrides n))
       (sorted_list_of_set (ba_name ` set overrides - ba_name ` set args))"
  by (rule ApplyBuildArgOverrides_eq)



text \<open>
  The controllers take \<open>ErrNoMatchingKernelMapping\<close> in the error chain to mean that the module
  does not target the kernel. The chain holds it exactly when no mapping matches: a bad regular
  expression, a bad kernel version or a bad template is never mistaken for it.
\<close>

theorem no_matching_mapping_error:
  assumes "ms_loader (mod_spec modu) = Some ml"
  shows "(\<exists>e. GetModuleLoaderDataForKernel MatchString envsubst modu kv = Inl e \<and>
            errors_Is e ErrNoMatchingKernelMapping) =
         (\<forall>m\<in>set (lc_mappings (ml_container ml)). mapping_matches MatchString kv m = Inr False)"
proof (cases "findKernelMapping MatchString (lc_mappings (ml_container ml)) kv")
  case (Inl e)
  then have "GetModuleLoaderDataForKernel MatchString envsubst modu kv =
      Inl (Wrapf ''failed to find mapping for kernel'' e)"
    using assms by (simp add: GetModuleLoaderDataForKernel_def)
  then show ?thesis
    using Inl findKernelMapping_chain [OF Inl] by (simp flip: findKernelMapping_no_match)
next
  case (Inr m)
  then have "\<not> (\<forall>m\<in>set (lc_mappings (ml_container ml)). mapping_matches MatchString kv m = Inr False)"
    by (simp flip: findKernelMapping_no_match)
  moreover have "\<not> errors_Is e ErrNoMatchingKernelMapping"
    if "GetModuleLoaderDataForKernel MatchString envsubst modu kv = Inl e" for e
    using that assms Inr
    by (cases "prepareModuleLoaderData envsubst m modu kv";
        cases "replaceTemplates envsubst (projr (prepareModuleLoaderData envsubst m modu kv))")
      (auto simp: GetModuleLoaderDataForKernel_def)
  ultimately show ?thesis by blast
qed

theorem no_matching_mapping_error_witness:
  "\<exists>e. GetModuleLoaderDataForKernel prefix_match subst_kernel two_flavours ''4.18.0'' = Inl e \<and>
     errors_Is e ErrNoMatchingKernelMapping"
proof -
  have "\<exists>ml. ms_loader (mod_spec two_flavours) = Some ml \<and>
     (\<forall>m\<in>set (lc_mappings (ml_container ml)). mapping_matches prefix_match ''4.18.0'' m = Inr False)"
    by (simp add: two_flavours_def new_module_def empty_module_spec_def empty_loader_container_def
        empty_mapping_def mapping_matches_def prefix_match_def HasPrefix_def)
  then show ?thesis using no_matching_mapping_error by blast
qed

end
