(* ===== verification/Nmc.thy ===== *)
theory Nmc
  imports Client
begin

text \<open>
  The NodeModulesConfig store, \<^verbatim>\<open>internal/nmc/helper.go\<close>: the module entries of the spec
  and of the status of a NodeModulesConfig, keyed by namespace and name. The operations mutate the
  object in place; here they return the updated object.
\<close>

section \<open>Operations\<close>

definition Get :: "server \<Rightarrow> string \<Rightarrow> (go_err + nmc) cio" where
  "Get srv name = do {
     r \<leftarrow> get_nmc srv name;
     State_Monad.return (case r of
       Inl e \<Rightarrow> if IsNotFound e then Inl e else Inl (Errorf ''failed to get NodeModulesConfig'' e)
     | Inr n \<Rightarrow> Inr n)
   }"

text \<open>The entry and its index; \<open>(nil, 0)\<close> when there is none.\<close>

fun spec_entry_from :: "nat \<Rightarrow> node_module_spec list \<Rightarrow> string \<Rightarrow> string \<Rightarrow> node_module_spec option \<times> nat" where
  "spec_entry_from i [] modNamespace modName = (None, 0)"
| "spec_entry_from i (m # ms) modNamespace modName =
     (if mi_namespace (nms_item m) = modNamespace \<and> mi_name (nms_item m) = modName then (Some m, i)
      else spec_entry_from (Suc i) ms modNamespace modName)"

definition GetModuleSpecEntry :: "nmc \<Rightarrow> string \<Rightarrow> string \<Rightarrow> node_module_spec option \<times> nat" where
  "GetModuleSpecEntry n modNamespace modName = spec_entry_from 0 (nmc_spec n) modNamespace modName"

definition SetModuleConfig :: "nmc \<Rightarrow> mld \<Rightarrow> module_config \<Rightarrow> nmc" where
  "SetModuleConfig n d moduleConfig =
     (let saName = (if mld_service_account d = [] then ''default'' else mld_service_account d);
          fill = (\<lambda>e. e\<lparr>nms_config := moduleConfig,
                        nms_item := (nms_item e)\<lparr>mi_repo_secret := mld_repo_secret d,
                                                 mi_service_account := saName,
                                                 mi_tolerations := mld_tolerations d,
                                                 mi_version := mld_version d\<rparr>\<rparr>)
      in case GetModuleSpecEntry n (mld_namespace d) (mld_name d) of
           (None, _) \<Rightarrow>
             n\<lparr>nmc_spec := nmc_spec n @
                [fill \<lparr>nms_item = empty_item (mld_namespace d) (mld_name d), nms_config = empty_config\<rparr>]\<rparr>
         | (Some e, i) \<Rightarrow> n\<lparr>nmc_spec := (nmc_spec n)[i := fill e]\<rparr>)"

definition RemoveModuleConfig :: "nmc \<Rightarrow> string \<Rightarrow> string \<Rightarrow> nmc" where
  "RemoveModuleConfig n namespace name =
     (case GetModuleSpecEntry n namespace name of
        (None, _) \<Rightarrow> n
      | (Some _, index) \<Rightarrow> n\<lparr>nmc_spec := take index (nmc_spec n) @ drop (index + 1) (nmc_spec n)\<rparr>)"

fun FindModuleStatus :: "node_module_status list \<Rightarrow> string \<Rightarrow> string \<Rightarrow> node_module_status option" where
  "FindModuleStatus [] moduleNamespace moduleName = None"
| "FindModuleStatus (s # statuses) moduleNamespace moduleName =
     (if mi_namespace (nst_item s) = moduleNamespace \<and> mi_name (nst_item s) = moduleName then Some s
      else FindModuleStatus statuses moduleNamespace moduleName)"

definition GetModuleStatusEntry :: "nmc \<Rightarrow> string \<Rightarrow> string \<Rightarrow> node_module_status option" where
  "GetModuleStatusEntry n modNamespace modName =
     find (\<lambda>s. mi_namespace (nst_item s) = modNamespace \<and> mi_name (nst_item s) = modName) (nmc_status n)"

definition RemoveModuleStatus :: "node_module_status list \<Rightarrow> string \<Rightarrow> string \<Rightarrow> node_module_status list" where
  "RemoveModuleStatus statuses modNamespace modName =
     filter (\<lambda>s. mi_namespace (nst_item s) \<noteq> modNamespace \<or> mi_name (nst_item s) \<noteq> modName) statuses"

text \<open>\<open>*s = status\<close> overwrites the first entry of the module in place.\<close>

definition SetModuleStatus :: "node_module_status \<Rightarrow> node_module_status list \<Rightarrow> node_module_status list" where
  "SetModuleStatus status statuses =
     (if FindModuleStatus statuses (mi_namespace (nst_item status)) (mi_name (nst_item status)) \<noteq> None
      then upsert (\<lambda>s. status_nsn s = status_nsn status) status statuses
      else statuses @ [status])"

section \<open>The stores as maps\<close>

lemma FindModuleStatus_find: "FindModuleStatus sts ns name = find (\<lambda>s. status_nsn s = (ns, name)) sts"
  by (induction sts) auto

lemma GetModuleStatusEntry_find: "GetModuleStatusEntry n ns name = FindModuleStatus (nmc_status n) ns name"
  by (simp add: GetModuleStatusEntry_def FindModuleStatus_find)

lemma find_upsert_absent: "find P xs = None \<Longrightarrow> xs @ [v] = upsert P v xs"
  by (induction xs) (auto split: if_splits)

lemma SetModuleStatus_upsert:
  "SetModuleStatus st sts = upsert (\<lambda>s. status_nsn s = status_nsn st) st sts"
  by (simp add: SetModuleStatus_def FindModuleStatus_find find_upsert_absent)

lemma spec_entry_from_find:
  "fst (spec_entry_from i ms ns name) = find (\<lambda>m. spec_nsn m = (ns, name)) ms"
  by (induction ms arbitrary: i) auto

lemma spec_entry_from_Some:
  "spec_entry_from i ms ns name = (Some e, j) \<Longrightarrow>
     i \<le> j \<and> j - i < length ms \<and> ms ! (j - i) = e \<and> spec_nsn e = (ns, name) \<and>
     (\<forall>m\<in>set (take (j - i) ms). spec_nsn m \<noteq> (ns, name))"
proof (induction ms arbitrary: i)
  case Nil
  then show ?case by simp
next
  case (Cons m ms)
  show ?case
  proof (cases "spec_nsn m = (ns, name)")
    case True
    with Cons.prems show ?thesis by auto
  next
    case False
    with Cons.prems have "spec_entry_from (Suc i) ms ns name = (Some e, j)" by (auto split: if_splits)
    note IH = Cons.IH [OF this]
    then obtain k where k: "j = Suc i + k" by (auto simp: le_iff_add)
    from IH False show ?thesis unfolding k by auto
  qed
qed

lemma list_update_upsert:
  "i < length xs \<Longrightarrow> P (xs ! i) \<Longrightarrow> \<forall>x\<in>set (take i xs). \<not> P x \<Longrightarrow> xs[i := v] = upsert P v xs"
proof (induction xs arbitrary: i)
  case Nil
  then show ?case by simp
next
  case (Cons x xs)
  then show ?case by (cases i) auto
qed

text \<open>The entry a module's data and configuration make.\<close>

definition spec_entry :: "mld \<times> module_config \<Rightarrow> node_module_spec" where
  "spec_entry dc =
     \<lparr>nms_item = \<lparr>mi_repo_secret = mld_repo_secret (fst dc), mi_name = mld_name (fst dc),
        mi_namespace = mld_namespace (fst dc),
        mi_service_account = (if mld_service_account (fst dc) = [] then ''default''
                              else mld_service_account (fst dc)),
        mi_tolerations = mld_tolerations (fst dc), mi_version = mld_version (fst dc)\<rparr>,
      nms_config = snd dc\<rparr>"

lemma spec_entry_simps [simp]:
  "mi_name (nms_item (spec_entry (d, c))) = mld_name d"
  "mi_namespace (nms_item (spec_entry (d, c))) = mld_namespace d"
  "nms_config (spec_entry (d, c)) = c"
  by (simp_all add: spec_entry_def)

lemma SetModuleConfig_upsert:
  "SetModuleConfig n d c =
     n\<lparr>nmc_spec := upsert (\<lambda>m. spec_nsn m = (mld_namespace d, mld_name d)) (spec_entry (d, c)) (nmc_spec n)\<rparr>"
proof (cases "GetModuleSpecEntry n (mld_namespace d) (mld_name d)")
  case (Pair e j)
  let ?P = "\<lambda>m. spec_nsn m = (mld_namespace d, mld_name d)"
  show ?thesis
  proof (cases e)
    case None
    with Pair have "find ?P (nmc_spec n) = None"
      by (metis GetModuleSpecEntry_def fst_conv spec_entry_from_find)
    with Pair None show ?thesis
      by (simp add: SetModuleConfig_def spec_entry_def empty_item_def flip: find_upsert_absent)
  next
    case (Some x)
    with Pair have "spec_entry_from 0 (nmc_spec n) (mld_namespace d) (mld_name d) = (Some x, j)"
      by (simp add: GetModuleSpecEntry_def)
    from spec_entry_from_Some [OF this]
    have j: "j < length (nmc_spec n)" "nmc_spec n ! j = x" "?P x" "\<forall>m\<in>set (take j (nmc_spec n)). \<not> ?P m"
      by auto
    then have "(nmc_spec n)[j := spec_entry (d, c)] = upsert ?P (spec_entry (d, c)) (nmc_spec n)"
      by (intro list_update_upsert) auto
    moreover have "x\<lparr>nms_config := c,
         nms_item := (nms_item x)\<lparr>mi_repo_secret := mld_repo_secret d,
           mi_service_account := (if mld_service_account d = [] then ''default'' else mld_service_account d),
           mi_tolerations := mld_tolerations d, mi_version := mld_version d\<rparr>\<rparr> = spec_entry (d, c)"
      using j(3) by (cases x; cases "nms_item x") (auto simp: spec_entry_def)
    ultimately show ?thesis
      using Pair Some unfolding SetModuleConfig_def Let_def by simp
  qed
qed

lemma GetModuleSpecEntry_find:
  "fst (GetModuleSpecEntry n ns name) = find (\<lambda>m. spec_nsn m = (ns, name)) (nmc_spec n)"
  by (simp add: GetModuleSpecEntry_def spec_entry_from_find)

lemma find_SetModuleStatus:
  "FindModuleStatus (SetModuleStatus st sts) ns name =
     (if (ns, name) = status_nsn st then Some st else FindModuleStatus sts ns name)"
  unfolding FindModuleStatus_find SetModuleStatus_upsert by (rule find_upsert_key)

lemma find_SetModuleConfig:
  "fst (GetModuleSpecEntry (SetModuleConfig n d c) ns name) =
     (if (ns, name) = (mld_namespace d, mld_name d) then Some (spec_entry (d, c))
      else fst (GetModuleSpecEntry n ns name))"
proof -
  have "find (\<lambda>m. spec_nsn m = (ns, name))
          (upsert (\<lambda>m. spec_nsn m = spec_nsn (spec_entry (d, c))) (spec_entry (d, c)) (nmc_spec n)) =
        (if (ns, name) = spec_nsn (spec_entry (d, c)) then Some (spec_entry (d, c))
         else find (\<lambda>m. spec_nsn m = (ns, name)) (nmc_spec n))"
    by (rule find_upsert_key)
  then show ?thesis by (simp add: GetModuleSpecEntry_find SetModuleConfig_upsert)
qed

interpretation statuses: keyed_store "\<lambda>sts k. FindModuleStatus sts (fst k) (snd k)" SetModuleStatus
  status_nsn "\<lambda>s. s"
  by unfold_locales (auto simp: find_SetModuleStatus)

interpretation specs: keyed_store "\<lambda>n k. fst (GetModuleSpecEntry n (fst k) (snd k))"
  "\<lambda>dc n. SetModuleConfig n (fst dc) (snd dc)" "\<lambda>dc. (mld_namespace (fst dc), mld_name (fst dc))" spec_entry
  by unfold_locales (auto simp: find_SetModuleConfig)

section \<open>Well-formed objects\<close>

text \<open>One entry per module, in the spec and in the status.\<close>

definition nmc_wf :: "nmc \<Rightarrow> bool" where
  "nmc_wf n \<longleftrightarrow> distinct (map spec_nsn (nmc_spec n)) \<and> distinct (map status_nsn (nmc_status n))"

lemma distinct_SetModuleStatus:
  "distinct (map status_nsn sts) \<Longrightarrow> distinct (map status_nsn (SetModuleStatus st sts))"
  unfolding SetModuleStatus_upsert by (rule distinct_upsert) auto

lemma distinct_RemoveModuleStatus:
  "distinct (map status_nsn sts) \<Longrightarrow> distinct (map status_nsn (RemoveModuleStatus sts ns name))"
  by (simp add: RemoveModuleStatus_def distinct_map_filter)

lemma FindModuleStatus_Remove:
  "FindModuleStatus (RemoveModuleStatus sts ns name) ns' name' =
     (if (ns', name') = (ns, name) then None else FindModuleStatus sts ns' name')"
  by (auto simp: FindModuleStatus_find RemoveModuleStatus_def intro!: find_None_filter find_filter_other)

lemma distinct_SetModuleConfig:
  "distinct (map spec_nsn (nmc_spec n)) \<Longrightarrow> distinct (map spec_nsn (nmc_spec (SetModuleConfig n d c)))"
  unfolding SetModuleConfig_upsert
  by (simp, rule distinct_upsert) auto

lemma RemoveModuleConfig_cases:
  obtains "RemoveModuleConfig n ns name = n" "find (\<lambda>m. spec_nsn m = (ns, name)) (nmc_spec n) = None"
  | pre e suf where "nmc_spec n = pre @ e # suf" "spec_nsn e = (ns, name)"
      "\<forall>m\<in>set pre. spec_nsn m \<noteq> (ns, name)" "RemoveModuleConfig n ns name = n\<lparr>nmc_spec := pre @ suf\<rparr>"
proof (cases "GetModuleSpecEntry n ns name")
  case (Pair e j)
  show ?thesis
  proof (cases e)
    case None
    with Pair show ?thesis
      using that(1) GetModuleSpecEntry_find [of n ns name] by (simp add: RemoveModuleConfig_def)
  next
    case (Some x)
    with Pair have "spec_entry_from 0 (nmc_spec n) ns name = (Some x, j)"
      by (simp add: GetModuleSpecEntry_def)
    from spec_entry_from_Some [OF this] Pair Some show ?thesis
      using that(2) [of "take j (nmc_spec n)" x "drop (j + 1) (nmc_spec n)"]
      by (auto simp: RemoveModuleConfig_def id_take_nth_drop)
  qed
qed

lemma nmc_spec_Remove_subset: "set (nmc_spec (RemoveModuleConfig n ns name)) \<subseteq> set (nmc_spec n)"
  by (rule RemoveModuleConfig_cases [of n ns name]) auto

lemma nmc_status_Remove [simp]: "nmc_status (RemoveModuleConfig n ns name) = nmc_status n"
  by (rule RemoveModuleConfig_cases [of n ns name]) auto

lemma nmc_status_Set [simp]: "nmc_status (SetModuleConfig n d c) = nmc_status n"
  by (simp add: SetModuleConfig_upsert)

lemma distinct_RemoveModuleConfig:
  "distinct (map spec_nsn (nmc_spec n)) \<Longrightarrow>
     distinct (map spec_nsn (nmc_spec (RemoveModuleConfig n ns name)))"
  by (rule RemoveModuleConfig_cases [of n ns name]) auto

text \<open>A node with one module configured and loaded; used to exercise the properties.\<close>

definition loaded_config :: module_config where
  "loaded_config = empty_config\<lparr>cfg_kernel_version := ''6.1.7'', cfg_image := ''reg/mymod:6.1.7''\<rparr>"

definition one_module_nmc :: nmc where
  "one_module_nmc = \<lparr>nmc_name = ''node1'', nmc_uid = ''u1'',
     nmc_labels = [(ModuleInUseLabel ''kmm'' ''mymod'', [])], nmc_owners = [],
     nmc_spec = [\<lparr>nms_item = empty_item ''kmm'' ''mymod'', nms_config = loaded_config\<rparr>],
     nmc_status = [\<lparr>nst_item = empty_item ''kmm'' ''mymod'', nst_config = loaded_config,
                    nst_boot_id = ''b1''\<rparr>]\<rparr>"

lemma one_module_nmc_wf: "nmc_wf one_module_nmc"
  by (simp add: nmc_wf_def one_module_nmc_def)

section \<open>Properties\<close>

text \<open>
  C39: the spec and the status of a NodeModulesConfig behave as maps from a module's namespace and
  name to its entry: setting an entry updates exactly that key, and removing one (of an object with
  one entry per module) removes exactly that key.
\<close>

theorem nmc_stores_refine_maps:
  assumes "nmc_wf n"
  shows "(\<lambda>k. fst (GetModuleSpecEntry (SetModuleConfig n d c) (fst k) (snd k))) =
      (\<lambda>k. fst (GetModuleSpecEntry n (fst k) (snd k)))((mld_namespace d, mld_name d) \<mapsto> spec_entry (d, c)) \<and>
    (\<lambda>k. fst (GetModuleSpecEntry (RemoveModuleConfig n ns name) (fst k) (snd k))) =
      (\<lambda>k. fst (GetModuleSpecEntry n (fst k) (snd k)))((ns, name) := None) \<and>
    (\<lambda>k. FindModuleStatus (SetModuleStatus st (nmc_status n)) (fst k) (snd k)) =
      (\<lambda>k. FindModuleStatus (nmc_status n) (fst k) (snd k))(status_nsn st \<mapsto> st) \<and>
    (\<lambda>k. FindModuleStatus (RemoveModuleStatus (nmc_status n) ns name) (fst k) (snd k)) =
      (\<lambda>k. FindModuleStatus (nmc_status n) (fst k) (snd k))((ns, name) := None)"
proof (intro conjI)
  show "(\<lambda>k. fst (GetModuleSpecEntry (SetModuleConfig n d c) (fst k) (snd k))) =
      (\<lambda>k. fst (GetModuleSpecEntry n (fst k) (snd k)))((mld_namespace d, mld_name d) \<mapsto> spec_entry (d, c))"
    using specs.put_refines_update [where i = "(d, c)" and s = n] by simp
  show "(\<lambda>k. fst (GetModuleSpecEntry (RemoveModuleConfig n ns name) (fst k) (snd k))) =
      (\<lambda>k. fst (GetModuleSpecEntry n (fst k) (snd k)))((ns, name) := None)"
  proof (rule RemoveModuleConfig_cases [of n ns name])
    assume "RemoveModuleConfig n ns name = n" "find (\<lambda>m. spec_nsn m = (ns, name)) (nmc_spec n) = None"
    then show ?thesis by (auto simp: GetModuleSpecEntry_find)
  next
    fix pre e suf assume *: "nmc_spec n = pre @ e # suf" "spec_nsn e = (ns, name)"
      "\<forall>m\<in>set pre. spec_nsn m \<noteq> (ns, name)" "RemoveModuleConfig n ns name = n\<lparr>nmc_spec := pre @ suf\<rparr>"
    have "distinct (map spec_nsn (pre @ e # suf))" using assms *(1) by (simp add: nmc_wf_def)
    then have "spec_nsn e \<notin> spec_nsn ` set (pre @ suf)" unfolding distinct_map by force
    then have "\<forall>m\<in>set (pre @ suf). spec_nsn m \<noteq> (ns, name)" unfolding *(2) by blast
    then have "find (\<lambda>m. spec_nsn m = (ns, name)) (pre @ suf) = None" by (auto simp: find_None_iff)
    moreover have "find (\<lambda>m. spec_nsn m = k) (pre @ suf) = find (\<lambda>m. spec_nsn m = k) (pre @ e # suf)"
      if "k \<noteq> (ns, name)" for k using that *(2) by (induction pre) auto
    ultimately show ?thesis using * by (auto simp: GetModuleSpecEntry_find)
  qed
  show "(\<lambda>k. FindModuleStatus (SetModuleStatus st (nmc_status n)) (fst k) (snd k)) =
      (\<lambda>k. FindModuleStatus (nmc_status n) (fst k) (snd k))(status_nsn st \<mapsto> st)"
    by (rule statuses.put_refines_update)
  show "(\<lambda>k. FindModuleStatus (RemoveModuleStatus (nmc_status n) ns name) (fst k) (snd k)) =
      (\<lambda>k. FindModuleStatus (nmc_status n) (fst k) (snd k))((ns, name) := None)"
    by (rule ext) (simp add: FindModuleStatus_Remove)
qed

theorem nmc_stores_refine_maps_witness:
  "nmc_wf one_module_nmc \<and>
   fst (GetModuleSpecEntry (RemoveModuleConfig one_module_nmc ''kmm'' ''mymod'') ''kmm'' ''mymod'') = None \<and>
   fst (GetModuleSpecEntry one_module_nmc ''kmm'' ''mymod'') \<noteq> None"
proof -
  have "(\<lambda>k. fst (GetModuleSpecEntry (RemoveModuleConfig one_module_nmc ''kmm'' ''mymod'') (fst k) (snd k))) =
        (\<lambda>k. fst (GetModuleSpecEntry one_module_nmc (fst k) (snd k)))((''kmm'', ''mymod'') := None)"
    using nmc_stores_refine_maps [OF one_module_nmc_wf] by blast
  from fun_cong [OF this, of "(''kmm'', ''mymod'')"] show ?thesis
    by (simp add: one_module_nmc_wf) (simp add: one_module_nmc_def GetModuleSpecEntry_def empty_item_def)
qed

text \<open>
  Every operation on the entries keeps one entry per module, in the spec and in the status.
\<close>

theorem nmc_operations_keep_wf:
  assumes "nmc_wf n"
  shows "nmc_wf (SetModuleConfig n d c) \<and> nmc_wf (RemoveModuleConfig n ns name) \<and>
    nmc_wf (n\<lparr>nmc_status := SetModuleStatus st (nmc_status n)\<rparr>) \<and>
    nmc_wf (n\<lparr>nmc_status := RemoveModuleStatus (nmc_status n) ns name\<rparr>)"
  using assms
  by (simp add: nmc_wf_def distinct_SetModuleConfig distinct_RemoveModuleConfig
      distinct_SetModuleStatus distinct_RemoveModuleStatus)

end
