(* ===== verification/Node_Api.thy ===== *)
theory Node_Api
  imports Client Kernel_Mapper
begin

text \<open>
  Nodes, \<^verbatim>\<open>internal/node/node.go\<close>: which nodes a module is scheduled on, their labels,
  and the detection of a reboot. \<open>ToleratesTaint\<close> of the Kubernetes API is a parameter. An operation
  that mutates the node it is given returns the node too.
\<close>

section \<open>Operations\<close>

definition IsNodeSchedulable :: "library \<Rightarrow> node \<Rightarrow> toleration list \<Rightarrow> bool" where
  "IsNodeSchedulable lib node tolerations =
     (let tolerations' = tolerations @ InternalTolerations in
      list_all (\<lambda>taint.
        \<not> (\<not> list_ex (\<lambda>tol. l_ToleratesTaint lib tol taint) tolerations' \<and>
           (taint_effect taint = ''NoSchedule'' \<or> taint_effect taint = ''NoExecute'')))
        (node_taints node))"

definition GetAllNodesBySelector :: "server \<Rightarrow> labels \<Rightarrow> (go_err + node list) cio" where
  "GetAllNodesBySelector srv selector = do {
     r \<leftarrow> list_nodes srv selector;
     State_Monad.return (map_sum (Errorf ''could not list nodes'') id r)
   }"

definition GetSchedulableNodesBySelector ::
  "library \<Rightarrow> server \<Rightarrow> labels \<Rightarrow> toleration list \<Rightarrow> (go_err + node list) cio" where
  "GetSchedulableNodesBySelector lib srv selector tolerations = do {
     r \<leftarrow> GetAllNodesBySelector srv selector;
     State_Monad.return (case r of
       Inl e \<Rightarrow> Inl (Errorf ''could not get all nodes by selector'' e)
     | Inr allNodes \<Rightarrow> Inr (filter (\<lambda>n. IsNodeSchedulable lib n tolerations) allNodes))
   }"

definition GetNumTargetedNodes ::
  "library \<Rightarrow> server \<Rightarrow> labels \<Rightarrow> toleration list \<Rightarrow> (go_err + nat) cio" where
  "GetNumTargetedNodes lib srv selector tolerations = do {
     r \<leftarrow> GetSchedulableNodesBySelector lib srv selector tolerations;
     State_Monad.return (map_sum (Errorf ''could not list nodes'') length r)
   }"

definition addLabels :: "labels \<Rightarrow> node \<Rightarrow> node" where
  "addLabels ls node = fold (\<lambda>(label, v) n. n\<lparr>node_labels := SetLabel label v (node_labels n)\<rparr>) ls node"

definition removeLabels :: "labels \<Rightarrow> node \<Rightarrow> node" where
  "removeLabels ls node = fold (\<lambda>(label, v) n. n\<lparr>node_labels := RemoveLabel label (node_labels n)\<rparr>) ls node"

text \<open>\<open>maps.Equal\<close>\<close>

definition maps_Equal :: "('k \<times> 'v) list \<Rightarrow> ('k \<times> 'v) list \<Rightarrow> bool" where
  "maps_Equal a b = list_all (\<lambda>k. map_of a k = map_of b k) (map fst a @ map fst b)"

definition UpdateLabels :: "server \<Rightarrow> node \<Rightarrow> labels \<Rightarrow> labels \<Rightarrow> (go_err option \<times> node) cio" where
  "UpdateLabels srv node toBeAdded toBeRemoved =
     (let original = node;
          node' = removeLabels toBeRemoved (addLabels toBeAdded node)
      in if maps_Equal (node_labels node') (node_labels original) then State_Monad.return (None, node')
         else do {
           e \<leftarrow> do_write srv (Patch_Node original node');
           State_Monad.return (map_option (Errorf ''could not patch node'') e, node')
         })"

definition IsNodeRebooted :: "node \<Rightarrow> string \<Rightarrow> bool" where
  "IsNodeRebooted node statusBootId =
     list_ex (\<lambda>(t, s). t = ''Ready'' \<and> s = ''True'' \<and> statusBootId \<noteq> node_boot_id node) (node_conditions node)"

section \<open>Lemmas\<close>

lemma maps_Equal_iff: "maps_Equal a b \<longleftrightarrow> map_of a = map_of b"
proof
  assume "maps_Equal a b"
  then have "map_of a k = map_of b k" for k
    by (cases "k \<in> fst ` set a \<union> fst ` set b")
      (auto simp: maps_Equal_def list_all_iff map_of_eq_None_iff [symmetric])
  then show "map_of a = map_of b" by blast
qed (simp add: maps_Equal_def list_all_iff)

lemma map_of_addLabels:
  "distinct (map fst ls) \<Longrightarrow> map_of (node_labels (addLabels ls n)) = map_of (node_labels n) ++ map_of ls"
proof (induction ls arbitrary: n)
  case Nil
  then show ?case by (simp add: addLabels_def)
next
  case (Cons a ls)
  obtain k v where a: "a = (k, v)" by force
  have "addLabels (a # ls) n = addLabels ls (n\<lparr>node_labels := SetLabel k v (node_labels n)\<rparr>)"
    by (simp add: addLabels_def a)
  with Cons a show ?case
    by (auto simp: map_add_def map_of_eq_None_iff fun_eq_iff image_iff split: option.splits)
qed

lemma map_of_removeLabels:
  "map_of (node_labels (removeLabels ls n)) = map_of (node_labels n) |` (- fst ` set ls)"
proof (induction ls arbitrary: n)
  case Nil
  then show ?case by (simp add: removeLabels_def)
next
  case (Cons a ls)
  obtain k v where a: "a = (k, v)" by force
  have "removeLabels (a # ls) n = removeLabels ls (n\<lparr>node_labels := RemoveLabel k (node_labels n)\<rparr>)"
    by (simp add: removeLabels_def a)
  with Cons a show ?case by (auto simp: restrict_map_def fun_eq_iff)
qed

lemma emits_UpdateLabels [emits_intros]:
  "(\<And>n'. P (Patch_Node n n')) \<Longrightarrow> emits P (UpdateLabels srv n add rem)"
  unfolding UpdateLabels_def Let_def by (intro emits_intros) auto

lemma emits_schedulable [emits_intros]:
  "P (List_Nodes sel) \<Longrightarrow> emits P (GetSchedulableNodesBySelector lib srv sel tols)"
  unfolding GetSchedulableNodesBySelector_def GetAllNodesBySelector_def by (intro emits_intros) auto

section \<open>Properties\<close>

text \<open>
  After updating the labels of a node, the labels to be removed are gone, every other label to be
  added has its new value and the rest are untouched. The node is patched exactly when this changes a
  label, with one request, from the node as it was; the error is that of the request.
\<close>

theorem update_labels_spec:
  assumes "distinct (map fst toBeAdded)"
  shows "let r = run_state (UpdateLabels srv n toBeAdded toBeRemoved) h;
             want = (map_of (node_labels n) ++ map_of toBeAdded) |` (- fst ` set toBeRemoved)
         in map_of (node_labels (snd (fst r))) = want \<and>
            (if want = map_of (node_labels n) then snd r = h \<and> fst (fst r) = None
             else snd r = h @ [Patch_Node n (snd (fst r))] \<and>
                  (fst (fst r) = None) = (s_write srv h (Patch_Node n (snd (fst r))) = None))"
proof -
  let ?n = "removeLabels toBeRemoved (addLabels toBeAdded n)"
  let ?want = "(map_of (node_labels n) ++ map_of toBeAdded) |` (- fst ` set toBeRemoved)"
  have w: "map_of (node_labels ?n) = ?want"
    by (simp add: map_of_removeLabels map_of_addLabels [OF assms])
  show ?thesis
  proof (cases "?want = map_of (node_labels n)")
    case True
    then show ?thesis using w by (simp add: UpdateLabels_def maps_Equal_iff Let_def)
  next
    case False
    then have "\<not> maps_Equal (node_labels ?n) (node_labels n)" using w by (simp add: maps_Equal_iff)
    then show ?thesis using w False
      by (simp add: UpdateLabels_def Let_def do_write_def)
  qed
qed

theorem update_labels_spec_witness:
  "distinct (map fst [(''a'', ''1'')]) \<and>
   (let n = \<lparr>node_name = ''n'', node_uid = [], node_labels = [(''b'', ''2'')], node_taints = [], node_kernel_version = [],
             node_boot_id = [], node_conditions = [], node_spec_rest = [], node_info_rest = []\<rparr>;
        r = run_state (UpdateLabels empty_cluster n [(''a'', ''1'')] [(''b'', [])]) []
    in map_of (node_labels (snd (fst r))) = [''a'' \<mapsto> ''1''])"
  using update_labels_spec [of "[(''a'', ''1'')]" empty_cluster
      "\<lparr>node_name = ''n'', node_uid = [], node_labels = [(''b'', ''2'')], node_taints = [], node_kernel_version = [],
        node_boot_id = [], node_conditions = [], node_spec_rest = [], node_info_rest = []\<rparr>" "[(''b'', [])]" "[]"]
  by (auto simp: Let_def restrict_map_def)

end
