(* ===== verification/Paths.thy ===== *)
theory Paths
  imports Prelude
begin

text \<open>
  \<open>filepath.Clean\<close> and \<open>filepath.Join\<close> of the Go standard library on Unix, which the worker pods
  and the admission webhook use: the lexical simplification of a slash-separated path. \<open>clean_step\<close>
  is one component of Go's loop; the stack of the components kept so far is in reverse.
\<close>

section \<open>Definitions\<close>

definition path_comps :: "string \<Rightarrow> string list" where
  "path_comps p = split_by (\<lambda>c. c = CHR ''/'') p"

definition rooted :: "string \<Rightarrow> bool" where
  "rooted p = HasPrefix p ''/''"

definition clean_step :: "bool \<Rightarrow> string \<Rightarrow> string list \<Rightarrow> string list" where
  "clean_step r c stack =
     (if c = [] \<or> c = ''.'' then stack
      else if c = ''..'' then
        (case stack of
           [] \<Rightarrow> if r then [] else [''..'']
         | d # ds \<Rightarrow> if d = ''..'' then ''..'' # stack else ds)
      else c # stack)"

definition clean_comps :: "bool \<Rightarrow> string list \<Rightarrow> string list" where
  "clean_comps r cs = rev (fold (clean_step r) cs [])"

definition path_Clean :: "string \<Rightarrow> string" where
  "path_Clean p =
     (let cs = clean_comps (rooted p) (path_comps p) in
      if rooted p then ''/'' @ join_with ''/'' cs
      else if cs = [] then ''.'' else join_with ''/'' cs)"

definition path_Join :: "string list \<Rightarrow> string" where
  "path_Join es = (case dropWhile (\<lambda>e. e = []) es of [] \<Rightarrow> [] | es' \<Rightarrow> path_Clean (join_with ''/'' es'))"

section \<open>Cleaned paths\<close>

text \<open>A component a cleaned rooted path may have.\<close>

definition plain_comp :: "string \<Rightarrow> bool" where
  "plain_comp c \<longleftrightarrow> c \<noteq> [] \<and> c \<noteq> ''.'' \<and> c \<noteq> ''..'' \<and> CHR ''/'' \<notin> set c"

lemma path_comps_no_slash: "c \<in> set (path_comps p) \<Longrightarrow> CHR ''/'' \<notin> set c"
  using split_by_pieces [of c "\<lambda>c. c = CHR ''/''" p] by (auto simp: path_comps_def)

lemma clean_step_plain:
  "list_all plain_comp stack \<Longrightarrow> CHR ''/'' \<notin> set c \<Longrightarrow> list_all plain_comp (clean_step True c stack)"
  by (cases stack) (auto simp: clean_step_def plain_comp_def)

lemma clean_comps_plain:
  "(\<And>c. c \<in> set cs \<Longrightarrow> CHR ''/'' \<notin> set c) \<Longrightarrow> list_all plain_comp (clean_comps True cs)"
proof -
  assume cs: "\<And>c. c \<in> set cs \<Longrightarrow> CHR ''/'' \<notin> set c"
  have "list_all plain_comp (fold (clean_step True) cs stack)" if "list_all plain_comp stack" for stack
    using that cs by (induction cs arbitrary: stack) (auto simp: clean_step_plain)
  then show ?thesis by (simp add: clean_comps_def list_all_rev)
qed

lemma clean_comps_id: "list_all plain_comp cs \<Longrightarrow> clean_comps True cs = cs"
proof -
  have "list_all plain_comp cs \<Longrightarrow> fold (clean_step True) cs stack = rev cs @ stack" for stack
    by (induction cs arbitrary: stack) (auto simp: clean_step_def plain_comp_def)
  then show "list_all plain_comp cs \<Longrightarrow> ?thesis" by (simp add: clean_comps_def)
qed

lemma path_comps_join:
  assumes "list_all plain_comp cs" and "cs \<noteq> []"
  shows "path_comps (join_with ''/'' cs) = cs"
  using assms
proof (induction "''/''" cs rule: join_with.induct)
  case (2 w)
  then have "\<forall>c\<in>set w. c \<noteq> CHR ''/''" by (auto simp: plain_comp_def)
  then show ?case by (simp add: path_comps_def split_by_no_sep)
next
  case (3 w v ws)
  then have "\<forall>c\<in>set w. c \<noteq> CHR ''/''" by (auto simp: plain_comp_def)
  with 3 show ?case by (simp add: path_comps_def split_by_append_sep split_by_no_sep)
qed simp

lemma path_comps_rooted: "path_comps (''/'' @ p) = [] # path_comps p"
  by (simp add: path_comps_def)

lemma clean_comps_skip: "clean_comps r ([] # cs) = clean_comps r cs"
  by (simp add: clean_comps_def clean_step_def)

text \<open>The components of a cleaned rooted path are exactly the ones the cleaning computed.\<close>

lemma path_Clean_rooted:
  "rooted p \<Longrightarrow> path_Clean p = ''/'' @ join_with ''/'' (clean_comps True (path_comps p))"
  by (simp add: path_Clean_def)

lemma clean_comps_Clean:
  assumes "rooted p"
  shows "clean_comps True (path_comps (path_Clean p)) = clean_comps True (path_comps p)"
proof -
  let ?cs = "clean_comps True (path_comps p)"
  have plain: "list_all plain_comp ?cs"
    by (rule clean_comps_plain) (rule path_comps_no_slash)
  show ?thesis
  proof (cases "?cs = []")
    case True
    then show ?thesis
      using assms path_comps_rooted [of "[]"]
      by (simp add: path_Clean_rooted clean_comps_skip) (simp add: clean_comps_def clean_step_def path_comps_def)
  next
    case False
    have "path_comps (path_Clean p) = [] # ?cs"
      by (simp only: path_Clean_rooted [OF assms] path_comps_rooted path_comps_join [OF plain False])
    then show ?thesis using plain by (simp add: clean_comps_skip clean_comps_id)
  qed
qed

lemma rooted_Clean: "rooted p \<Longrightarrow> rooted (path_Clean p)"
  by (simp add: path_Clean_rooted rooted_def HasPrefix_def)

lemma path_Clean_idem: "rooted p \<Longrightarrow> path_Clean (path_Clean p) = path_Clean p"
  using path_Clean_rooted [OF rooted_Clean, of p] clean_comps_Clean [of p] path_Clean_rooted [of p] by simp

section \<open>Joining in steps\<close>

lemma path_comps_join_with: "xs \<noteq> [] \<Longrightarrow> path_comps (join_with ''/'' xs) = concat (map path_comps xs)"
  by (induction "''/''" xs rule: join_with.induct) (simp_all add: path_comps_def split_by_append_sep)

lemma clean_comps_append: "clean_comps r (cs @ ds) = rev (fold (clean_step r) ds (rev (clean_comps r cs)))"
  by (simp add: clean_comps_def)

lemma rooted_join: "rooted a \<Longrightarrow> rooted (join_with ''/'' (a # es))"
  by (cases es) (auto simp: rooted_def HasPrefix_iff)

text \<open>A rooted path can be joined in two steps.\<close>

lemma path_Join_assoc:
  assumes a: "rooted a"
  shows "path_Join (path_Join (a # ds) # es) = path_Join (a # ds @ es)"
proof -
  have ne: "a \<noteq> []" using a by (auto simp: rooted_def HasPrefix_def)
  let ?p = "join_with ''/'' (a # ds)"
  have p: "path_Join (a # ds) = path_Clean ?p" using ne by (simp add: path_Join_def)
  have r: "rooted ?p" "rooted (path_Clean ?p)" using rooted_join [OF a] rooted_Clean by blast+
  then have ne': "path_Clean ?p \<noteq> []" by (auto simp: rooted_def HasPrefix_def)
  have c: "clean_comps True (path_comps (join_with ''/'' (q # es))) =
      rev (fold (clean_step True) (concat (map path_comps es)) (rev (clean_comps True (path_comps q))))" for q
    by (simp add: path_comps_join_with clean_comps_append)
  have "path_Join (path_Clean ?p # es) = ''/'' @ join_with ''/'' (clean_comps True (path_comps (join_with ''/'' (path_Clean ?p # es))))"
    using ne' path_Clean_rooted [OF rooted_join [OF r(2)]] by (simp add: path_Join_def)
  also have "\<dots> = ''/'' @ join_with ''/'' (clean_comps True (path_comps (join_with ''/'' (a # ds @ es))))"
    unfolding c clean_comps_Clean [OF r(1)]
    by (simp add: path_comps_join_with clean_comps_append)
  also have "\<dots> = path_Join (a # ds @ es)"
    using ne path_Clean_rooted [OF rooted_join [OF a]] by (simp add: path_Join_def)
  finally show ?thesis by (simp add: p)
qed

end
