(* ===== verification/Worker_Pod.thy ===== *)
theory Worker_Pod
  imports Nmc Paths Kernel_Mapper
begin

text \<open>
  The worker pods that load and unload kernel modules on a node:
  \<^verbatim>\<open>internal/pod/workerpodmanager.go\<close>, \<^verbatim>\<open>internal/pod/common.go\<close> and the embedded
  script \<^verbatim>\<open>scripts/copy-modprobed-dir.sh\<close>. The templates are pure functions of the module
  entry and the worker configuration; the pod manager's requests are programs over the API server.
  YAML, hashing and owner references are library parameters.
\<close>

section \<open>Constants and configuration\<close>

definition NodeModulesConfigFinalizer :: string where
  "NodeModulesConfigFinalizer = ''kmm.node.kubernetes.io/nodemodulesconfig-reconciler''"
definition WorkerContainerName :: string where "WorkerContainerName = ''worker''"
definition initContainerName :: string where "initContainerName = ''image-extractor''"
definition volMountPointConfig :: string where "volMountPointConfig = ''/etc/kmm-worker''"
definition configFileName :: string where "configFileName = ''config.yaml''"
definition configFullPath :: string where "configFullPath = volMountPointConfig @ ''/'' @ configFileName"
definition sharedFilesDir :: string where "sharedFilesDir = ''/tmp''"
definition modulesOrderKey :: string where
  "modulesOrderKey = ''kmm.node.kubernetes.io/modules-order''"
definition workerActionLoad :: string where "workerActionLoad = ''Load''"
definition workerActionUnload :: string where "workerActionUnload = ''Unload''"
definition actionLabelKey :: string where
  "actionLabelKey = ''kmm.node.kubernetes.io/worker-action''"
definition configAnnotationKey :: string where
  "configAnnotationKey = ''kmm.node.kubernetes.io/worker-config''"
definition hashAnnotationKey :: string where
  "hashAnnotationKey = ''kmm.node.kubernetes.io/worker-hash''"
definition tolerationsAnnotationKey :: string where
  "tolerationsAnnotationKey = ''kmm.node.kubernetes.io/worker-tolerations''"
definition moduleVersionAnnotationKey :: string where
  "moduleVersionAnnotationKey = ''kmm.node.kubernetes.io/worker-module-version''"

lemmas worker_consts = NodeModulesConfigFinalizer_def WorkerContainerName_def initContainerName_def
  actionLabelKey_def workerActionLoad_def workerActionUnload_def configAnnotationKey_def
  hashAnnotationKey_def tolerationsAnnotationKey_def moduleVersionAnnotationKey_def modulesOrderKey_def

record worker_cfg =
  wc_run_as_user :: "int option"
  wc_selinux_type :: string
  wc_firmware_host_path :: "string option"

record worker_mgr =
  wpm_cfg :: worker_cfg
  wpm_image :: string

definition nl :: string where "nl = [CHR 0x0A]"

section \<open>Shell text\<close>

definition quote_char :: "char \<Rightarrow> string" where
  "quote_char c = (if c = CHR 0x27 then [CHR 0x27, CHR 0x5C, CHR 0x27, CHR 0x27] else [c])"

text \<open>\<open>strings.ReplaceAll(s, "'", `'\''`)\<close> between two quotes.\<close>

definition shellSingleQuote :: "string \<Rightarrow> string" where
  "shellSingleQuote s = [CHR 0x27] @ concat (map quote_char s) @ [CHR 0x27]"

text \<open>The embedded script: the lines between the two assignments that \<open>fmt.Sprintf\<close> fills in.\<close>

definition modprobed_script_body :: "string list" where
  \<open>modprobed_script_body =
    [''if [ ! -d "$src" ]; then'',
     ''  echo "modprobedDir $src is missing or not a directory" >&2'',
     ''  exit 1'',
     ''fi'',
     ''found=0'',
     ''for p in "$src"/* "$src"/.*; do'',
     ''  b=${p##*/}'',
     ''  if [ "$b" = "." ] || [ "$b" = ".." ]; then'',
     ''    continue'',
     ''  fi'',
     ''  if [ ! -e "$p" ]; then'',
     ''    continue'',
     ''  fi'',
     ''  if [ -d "$p" ]; then'',
     ''    echo "modprobedDir $src contains a subdirectory" >&2'',
     ''    exit 1'',
     ''  fi'',
     ''  if [ -f "$p" ]; then'',
     ''    found=1'',
     ''  fi'',
     ''done'',
     ''if [ "$found" -eq 0 ]; then'',
     ''  echo "modprobedDir $src contains no regular files" >&2'',
     ''  exit 1'',
     ''fi'',
     ''mkdir -p "$dst" || exit 1'',
     ''for p in "$src"/* "$src"/.*; do'',
     ''  b=${p##*/}'',
     ''  if [ "$b" = "." ] || [ "$b" = ".." ]; then'',
     ''    continue'',
     ''  fi'',
     ''  if [ -f "$p" ]; then'',
     ''    cp "$p" "$dst/" || exit 1'',
     ''  fi'',
     ''done'']\<close>

definition copyModprobedDirScript :: "string \<Rightarrow> string \<Rightarrow> string" where
  "copyModprobedDirScript src dst =
     ''src='' @ src @ nl @ ''dst='' @ dst @ nl @ concat (map (\<lambda>l. l @ nl) modprobed_script_body)"

fun getModulesOrderAnnotationValue :: "string list \<Rightarrow> string" where
  "getModulesOrderAnnotationValue (a # b # ms) =
     ''softdep '' @ a @ '' pre: '' @ b @ nl @ getModulesOrderAnnotationValue (b # ms)"
| "getModulesOrderAnnotationValue _ = []"

section \<open>Pod edits\<close>

text \<open>
  \<open>podcmd.FindContainerByName\<close> returns a pointer to the container with the name, through which the
  callers edit it.
\<close>

fun edit_first :: "('a \<Rightarrow> bool) \<Rightarrow> ('a \<Rightarrow> 'a) \<Rightarrow> 'a list \<Rightarrow> 'a list option" where
  "edit_first P f [] = None"
| "edit_first P f (x # xs) = (if P x then Some (f x # xs) else map_option (\<lambda>r. x # r) (edit_first P f xs))"

definition edit_container :: "string \<Rightarrow> (container \<Rightarrow> container) \<Rightarrow> string \<Rightarrow> pod \<Rightarrow> go_err + pod" where
  "edit_container name f msg p =
     (case edit_first (\<lambda>c. c_name c = name) f (pod_containers p) of
        Some cs \<Rightarrow> Inr (p\<lparr>pod_containers := cs\<rparr>)
      | None \<Rightarrow>
          (case edit_first (\<lambda>c. c_name c = name) f (pod_init_containers p) of
             Some cs \<Rightarrow> Inr (p\<lparr>pod_init_containers := cs\<rparr>)
           | None \<Rightarrow> Inl (NewErr msg)))"

definition find_container :: "string \<Rightarrow> pod \<Rightarrow> container option" where
  "find_container name p = find (\<lambda>c. c_name c = name) (pod_containers p @ pod_init_containers p)"

text \<open>\<open>container.Args[0] = container.Args[0] + copyCommand\<close>\<close>

definition append_to_arg0 :: "pod \<Rightarrow> string \<Rightarrow> go_err + pod" where
  "append_to_arg0 p s =
     (case find_container initContainerName p of
        None \<Rightarrow> Inl (NewErr ''could not find the init container'')
      | Some c \<Rightarrow>
          (case c_args c of
             [] \<Rightarrow> Inl (Panic ''index out of range'')
           | a # as \<Rightarrow> edit_container initContainerName (\<lambda>c. c\<lparr>c_args := (a @ s) # as\<rparr>)
                         ''could not find the init container'' p))"

definition addCopyCommand :: "pod \<Rightarrow> string \<Rightarrow> string \<Rightarrow> go_err + pod" where
  "addCopyCommand p src dst =
     append_to_arg0 p (nl @ ''mkdir -p '' @ dst @ '';'' @ nl @ ''cp -R '' @ src @ '' '' @ dst @ '';'' @ nl)"

definition addModprobedDirCopyCommand :: "pod \<Rightarrow> string \<Rightarrow> go_err + pod" where
  "addModprobedDirCopyCommand p modprobedDir =
     (let dst = path_Join [sharedFilesDir, modprobedDir] in
      append_to_arg0 p (nl @ copyModprobedDirScript (shellSingleQuote modprobedDir) (shellSingleQuote dst)))"

definition setFirmwareVolume :: "pod \<Rightarrow> string option \<Rightarrow> go_err + pod" where
  "setFirmwareVolume p firmwareHostPath =
     and_then
       (case firmwareHostPath of
          None \<Rightarrow> and_then (edit_container WorkerContainerName id ''could not find the worker container'' p)
                    (\<lambda>_. Inl (NewErr ''hostFirmwarePath must be set''))
        | Some path \<Rightarrow>
            edit_container WorkerContainerName
              (\<lambda>c. c\<lparr>c_mounts := c_mounts c @ [\<lparr>vm_name = ''lib-firmware'', vm_path = path,
                                               vm_sub_path = [], vm_read_only = False\<rparr>]\<rparr>)
              ''could not find the worker container'' p)
       (\<lambda>p'. Inr (p'\<lparr>pod_volumes := pod_volumes p' @
          [\<lparr>vol_name = ''lib-firmware'',
            vol_source = HostPath (case firmwareHostPath of None \<Rightarrow> [] | Some x \<Rightarrow> x)
                           (Some ''DirectoryOrCreate'')\<rparr>]\<rparr>))"

definition setWorkerSecurityContext :: "pod \<Rightarrow> worker_cfg \<Rightarrow> bool \<Rightarrow> go_err + pod" where
  "setWorkerSecurityContext p workerCfg privileged =
     edit_container WorkerContainerName
       (\<lambda>c. c\<lparr>c_security := Some
          (if privileged
           then \<lparr>sc_privileged = Some True, sc_capabilities = [], sc_selinux_type = None,
                 sc_run_as_user = wc_run_as_user workerCfg\<rparr>
           else \<lparr>sc_privileged = None, sc_capabilities = [''SYS_MODULE''],
                 sc_selinux_type = Some (wc_selinux_type workerCfg),
                 sc_run_as_user = wc_run_as_user workerCfg\<rparr>)\<rparr>)
       ''could not find the worker container'' p"

definition setWorkerContainerArgs :: "pod \<Rightarrow> string list \<Rightarrow> go_err + pod" where
  "setWorkerContainerArgs p args =
     edit_container WorkerContainerName (\<lambda>c. c\<lparr>c_args := args\<rparr>) ''could not find the worker container'' p"

definition set_annotation :: "pod \<Rightarrow> string \<Rightarrow> string \<Rightarrow> pod" where
  "set_annotation p k v = p\<lparr>pod_annotations := SetAnnotation k v (pod_annotations p)\<rparr>"

definition setWorkerSofdepConfig :: "pod \<Rightarrow> string list \<Rightarrow> go_err + pod" where
  "setWorkerSofdepConfig p modulesLoadingOrder =
     (let p1 = set_annotation p modulesOrderKey (getModulesOrderAnnotationValue modulesLoadingOrder);
          p2 = p1\<lparr>pod_volumes := pod_volumes p1 @
                 [\<lparr>vol_name = ''modules-order'',
                   vol_source = DownwardAPI [(''softdep.conf'', modulesOrderKey)]\<rparr>]\<rparr>
      in edit_container WorkerContainerName
           (\<lambda>c. c\<lparr>c_mounts := c_mounts c @ [\<lparr>vm_name = ''modules-order'',
                   vm_path = ''/etc/modprobe.d/softdep.conf'', vm_sub_path = ''softdep.conf'',
                   vm_read_only = True\<rparr>]\<rparr>)
           ''could not find the worker container'' p2)"

definition setWorkerConfigAnnotation :: "library \<Rightarrow> pod \<Rightarrow> module_config \<Rightarrow> go_err + pod" where
  "setWorkerConfigAnnotation lib p cfg =
     and_then (or_wrap ''could not marshal the ModuleConfig to YAML'' (l_Marshal_config lib cfg))
       (\<lambda>b. Inr (set_annotation p configAnnotationKey b))"

definition setWorkerTolerationsAnnotation :: "library \<Rightarrow> pod \<Rightarrow> toleration list \<Rightarrow> go_err + pod" where
  "setWorkerTolerationsAnnotation lib p tolerations =
     (if tolerations = [] then Inr p
      else and_then (or_wrap ''could not marshal the Tolerations to YAML'' (l_Marshal_tolerations lib tolerations))
             (\<lambda>b. Inr (set_annotation p tolerationsAnnotationKey b)))"

definition setWorkerModuleVersionAnnotation :: "pod \<Rightarrow> string \<Rightarrow> pod" where
  "setWorkerModuleVersionAnnotation p moduleVersion =
     (if moduleVersion = [] then p else set_annotation p moduleVersionAnnotationKey moduleVersion)"

text \<open>The assignment to a nil annotation map panics.\<close>

definition setHashAnnotation :: "library \<Rightarrow> pod \<Rightarrow> go_err + pod" where
  "setHashAnnotation lib p =
     and_then (or_wrap ''could not hash the pod template'' (l_Hash_pod lib p))
       (\<lambda>hash. case pod_annotations p of
                 None \<Rightarrow> Inl (Panic ''assignment to entry in nil map'')
               | Some _ \<Rightarrow> Inr (set_annotation p hashAnnotationKey (fmt_d hash)))"

section \<open>Templates\<close>

definition WorkerPodName :: "string \<Rightarrow> string \<Rightarrow> string" where
  "WorkerPodName nodeName moduleName = ''kmm-worker-'' @ nodeName @ ''-'' @ moduleName"

definition nmc_owner :: "nmc \<Rightarrow> owner_ref" where
  "nmc_owner n = \<lparr>own_kind = ''NodeModulesConfig'', own_namespace = [], own_name = nmc_name n,
     own_uid = nmc_uid n\<rparr>"

definition worker_requests :: labels where
  "worker_requests = [(''cpu'', ''0.5''), (''memory'', ''64Mi'')]"

definition worker_limits :: labels where
  "worker_limits = [(''cpu'', ''1''), (''memory'', ''128Mi'')]"

definition ro_mount :: "string \<Rightarrow> string \<Rightarrow> volume_mount" where
  "ro_mount name path = \<lparr>vm_name = name, vm_path = path, vm_sub_path = [], vm_read_only = True\<rparr>"

definition worker_pod_skeleton :: "worker_mgr \<Rightarrow> nmc \<Rightarrow> module_item \<Rightarrow> module_config \<Rightarrow> pod" where
  "worker_pod_skeleton wpm n item moduleConfig =
     empty_pod
       \<lparr>pod_namespace := mi_namespace item,
        pod_name := WorkerPodName (nmc_name n) (mi_name item),
        pod_labels := [(''app.kubernetes.io/name'', ''kmm''), (''app.kubernetes.io/component'', ''worker''),
                       (''app.kubernetes.io/part-of'', ''kmm''), (ModuleNameLabel, mi_name item)],
        pod_init_containers :=
          [empty_container
             \<lparr>c_name := initContainerName, c_image := cfg_image moduleConfig,
              c_pull_policy := cfg_pull_policy moduleConfig, c_command := [''/bin/sh'', ''-c''],
              c_args := [[]],
              c_mounts := [\<lparr>vm_name = ''tmp'', vm_path = sharedFilesDir, vm_sub_path = [], vm_read_only = False\<rparr>],
              c_requests := worker_requests, c_limits := worker_limits\<rparr>],
        pod_containers :=
          [empty_container
             \<lparr>c_name := WorkerContainerName, c_image := wpm_image wpm,
              c_mounts := [ro_mount ''config'' volMountPointConfig, ro_mount ''lib-modules'' ''/lib/modules'',
                           ro_mount ''lib-modules'' ''/host/lib/modules'', ro_mount ''tmp'' sharedFilesDir],
              c_requests := worker_requests, c_limits := worker_limits\<rparr>],
        pod_node_name := nmc_name n,
        pod_restart_policy := ''OnFailure'',
        pod_service_account := mi_service_account item,
        pod_pull_secrets := map_option (\<lambda>s. [s]) (mi_repo_secret item),
        pod_volumes :=
          [\<lparr>vol_name = ''config'', vol_source = DownwardAPI [(configFileName, configAnnotationKey)]\<rparr>,
           \<lparr>vol_name = ''lib-modules'', vol_source = HostPath ''/lib/modules'' (Some ''Directory'')\<rparr>,
           \<lparr>vol_name = ''tmp'', vol_source = EmptyDir\<rparr>],
        pod_tolerations := mi_tolerations item\<rparr>"

definition baseWorkerPod ::
  "worker_mgr \<Rightarrow> library \<Rightarrow> nmc \<Rightarrow> module_item \<Rightarrow> module_config \<Rightarrow> go_err + pod" where
  "baseWorkerPod wpm lib n item moduleConfig =
     (let p = worker_pod_skeleton wpm n item moduleConfig;
          dir = mp_dir_name (cfg_modprobe moduleConfig)
      in and_then (or_wrap ''could not set the owner as controller''
                     (l_SetControllerReference lib (nmc_owner n) (pod_owner p)))
           (\<lambda>ow. and_then
              (or_wrap ''could not add the copy command to the init container''
                (addCopyCommand (p\<lparr>pod_owner := ow\<rparr>)
                   (path_Join [dir, ''lib'', ''modules'', cfg_kernel_version moduleConfig])
                   (path_Join [sharedFilesDir, dir, ''lib'', ''modules''])))
              (\<lambda>p'. Inr (p'\<lparr>pod_finalizers := AddFinalizer NodeModulesConfigFinalizer (pod_finalizers p')\<rparr>))))"

text \<open>The firmware branch the two templates share: the extra arguments, the copy command and the volume.\<close>

definition add_firmware :: "worker_mgr \<Rightarrow> module_config \<Rightarrow> string \<Rightarrow> pod \<Rightarrow> go_err + string list \<times> pod" where
  "add_firmware wpm cfg msg p =
     (let fw = mp_firmware_path (cfg_modprobe cfg) in
      if fw = [] then Inr ([], p)
      else case wc_firmware_host_path (wpm_cfg wpm) of
             None \<Rightarrow> Inl (NewErr msg)
           | Some hostPath \<Rightarrow>
               and_then (or_wrap ''could not add the copy command to the init container''
                           (addCopyCommand p (path_Join [fw, ''*'']) (path_Join [sharedFilesDir, fw])))
                 (\<lambda>p1. and_then (or_wrap ''could not map host volume needed for firmware''
                                   (setFirmwareVolume p1 (Some hostPath)))
                    (\<lambda>p2. Inr ([''--firmware-path'', hostPath], p2))))"

definition add_modprobed_dir :: "module_config \<Rightarrow> pod \<Rightarrow> go_err + pod" where
  "add_modprobed_dir cfg p =
     (if mp_modprobed_dir (cfg_modprobe cfg) = [] then Inr p
      else or_wrap ''could not add the modprobedDir copy command to the init container''
             (addModprobedDirCopyCommand p (mp_modprobed_dir (cfg_modprobe cfg))))"

definition LoaderPodTemplate :: "worker_mgr \<Rightarrow> library \<Rightarrow> nmc \<Rightarrow> node_module_spec \<Rightarrow> go_err + pod" where
  "LoaderPodTemplate wpm lib n nms =
     (let cfg = nms_config nms; mp = cfg_modprobe cfg in
      and_then (or_wrap ''could not create the base Pod'' (baseWorkerPod wpm lib n (nms_item nms) cfg)) (\<lambda>p0.
      and_then (if elems (mp_loading_order mp) = [] then Inr p0
                else or_wrap ''could not set software dependency for mulitple modules''
                       (setWorkerSofdepConfig p0 (elems (mp_loading_order mp)))) (\<lambda>p1.
      and_then (add_firmware wpm cfg ''firmwareHostPath wasn't set, while the Module requires firmware loading'' p1) (\<lambda>(fwargs, p2).
      and_then (add_modprobed_dir cfg p2) (\<lambda>p3.
      and_then (or_wrap ''could not set worker config'' (setWorkerConfigAnnotation lib p3 cfg)) (\<lambda>p4.
      and_then (or_wrap ''could not set worker tolerations''
                 (setWorkerTolerationsAnnotation lib p4 (mi_tolerations (nms_item nms)))) (\<lambda>p5.
      and_then (or_wrap ''could not set the worker Pod as privileged''
                 (setWorkerSecurityContext (setWorkerModuleVersionAnnotation p5 (mi_version (nms_item nms)))
                    (wpm_cfg wpm) (mp_firmware_path mp \<noteq> [] \<or> mp_modprobed_dir mp \<noteq> []))) (\<lambda>p6.
      and_then (or_wrap ''could not set worker container args''
                 (setWorkerContainerArgs p6 ([''kmod'', ''load'', configFullPath] @ fwargs))) (\<lambda>p7.
      setHashAnnotation lib (p7\<lparr>pod_labels := SetLabel actionLabelKey workerActionLoad (pod_labels p7)\<rparr>))))))))))"

definition UnloaderPodTemplate :: "worker_mgr \<Rightarrow> library \<Rightarrow> nmc \<Rightarrow> node_module_status \<Rightarrow> go_err + pod" where
  "UnloaderPodTemplate wpm lib n nms =
     (let cfg = nst_config nms; mp = cfg_modprobe cfg in
      and_then (or_wrap ''could not create the base Pod'' (baseWorkerPod wpm lib n (nst_item nms) cfg)) (\<lambda>p0.
      and_then (or_wrap ''could not set worker config'' (setWorkerConfigAnnotation lib p0 cfg)) (\<lambda>p1.
      and_then (or_wrap ''could not set worker tolerations''
                 (setWorkerTolerationsAnnotation lib p1 (mi_tolerations (nst_item nms)))) (\<lambda>p2.
      and_then (or_wrap ''could not set the worker Pod's security context''
                 (setWorkerSecurityContext p2 (wpm_cfg wpm) (mp_modprobed_dir mp \<noteq> []))) (\<lambda>p3.
      and_then (add_firmware wpm cfg ''firmwareHostPath was not set while the Module requires firmware unloading'' p3) (\<lambda>(fwargs, p4).
      and_then (add_modprobed_dir cfg p4) (\<lambda>p5.
      and_then (or_wrap ''could not set worker container args''
                 (setWorkerContainerArgs p5 ([''kmod'', ''unload'', configFullPath] @ fwargs))) (\<lambda>p6.
      setHashAnnotation lib (p6\<lparr>pod_labels := SetLabel actionLabelKey workerActionUnload (pod_labels p6)\<rparr>)))))))))"

section \<open>Reading pods\<close>

definition IsLoaderPod :: "pod option \<Rightarrow> bool" where
  "IsLoaderPod p = (case p of None \<Rightarrow> False | Some q \<Rightarrow> label_of (pod_labels q) actionLabelKey = workerActionLoad)"

definition IsUnloaderPod :: "pod option \<Rightarrow> bool" where
  "IsUnloaderPod p = (case p of None \<Rightarrow> False | Some q \<Rightarrow> label_of (pod_labels q) actionLabelKey = workerActionUnload)"

definition GetConfigAnnotation :: "pod option \<Rightarrow> string" where
  "GetConfigAnnotation p = (case p of None \<Rightarrow> [] | Some q \<Rightarrow> annotation q configAnnotationKey)"

definition GetTolerationsAnnotation :: "pod option \<Rightarrow> string" where
  "GetTolerationsAnnotation p = (case p of None \<Rightarrow> [] | Some q \<Rightarrow> annotation q tolerationsAnnotationKey)"

definition GetModuleVersionAnnotation :: "pod option \<Rightarrow> string" where
  "GetModuleVersionAnnotation p = (case p of None \<Rightarrow> [] | Some q \<Rightarrow> annotation q moduleVersionAnnotationKey)"

definition HashAnnotationDiffer :: "pod option \<Rightarrow> pod option \<Rightarrow> bool" where
  "HashAnnotationDiffer p1 p2 =
     (case (p1, p2) of
        (None, None) \<Rightarrow> False
      | (Some a, Some b) \<Rightarrow> annotation a hashAnnotationKey \<noteq> annotation b hashAnnotationKey
      | _ \<Rightarrow> True)"

section \<open>Requests\<close>

definition deletePod :: "server \<Rightarrow> pod \<Rightarrow> (go_err option) cio" where
  "deletePod srv p =
     (if pod_deleting p then State_Monad.return None
      else do {
        e \<leftarrow> do_write srv (Delete_Pod p);
        State_Monad.return (map_option (Errorf ''failed to delete pull pod'') (IgnoreNotFound e))
      })"

definition CreateLoaderPod ::
  "worker_mgr \<Rightarrow> library \<Rightarrow> server \<Rightarrow> nmc \<Rightarrow> node_module_spec \<Rightarrow> (go_err option) cio" where
  "CreateLoaderPod wpm lib srv n nms =
     (case LoaderPodTemplate wpm lib n nms of
        Inl e \<Rightarrow> State_Monad.return (Some (errorf ''could not get loader Pod template'' e))
      | Inr p \<Rightarrow> do_write srv (Create_Pod p))"

definition CreateUnloaderPod ::
  "worker_mgr \<Rightarrow> library \<Rightarrow> server \<Rightarrow> nmc \<Rightarrow> node_module_status \<Rightarrow> (go_err option) cio" where
  "CreateUnloaderPod wpm lib srv n nms =
     (case UnloaderPodTemplate wpm lib n nms of
        Inl e \<Rightarrow> State_Monad.return (Some (errorf ''could not create the Pod template'' e))
      | Inr p \<Rightarrow> do_write srv (Create_Pod p))"

definition DeletePod :: "server \<Rightarrow> pod \<Rightarrow> (go_err option) cio" where
  "DeletePod srv p =
     (let p' = p\<lparr>pod_finalizers := snd (RemoveFinalizer NodeModulesConfigFinalizer (pod_finalizers p))\<rparr>
      in do {
        e \<leftarrow> do_write srv (Patch_Pod p p');
        case e of
          Some er \<Rightarrow> State_Monad.return (Some (Errorf ''could not patch Pod'' er))
        | None \<Rightarrow> deletePod srv p'
      })"

definition GetWorkerPod :: "server \<Rightarrow> string \<Rightarrow> string \<Rightarrow> (go_err + pod option) cio" where
  "GetWorkerPod srv podName namespace = do {
     r \<leftarrow> get_pod srv (namespace, podName);
     State_Monad.return (case r of
       Inl e \<Rightarrow> if IsNotFound e then Inr None else Inl (Errorf ''could not get pod'' e)
     | Inr p \<Rightarrow> Inr (Some p))
   }"

definition ListWorkerPodsOnNode :: "server \<Rightarrow> string \<Rightarrow> (go_err + pod list) cio" where
  "ListWorkerPodsOnNode srv nodeName = do {
     r \<leftarrow> list_pods srv \<lparr>pq_namespace = None, pq_match = [], pq_has = [actionLabelKey], pq_node = Some nodeName, pq_in = []\<rparr>;
     State_Monad.return (map_sum (Errorf ''could not list worker pods for node'') id r)
   }"

section \<open>The shape the templates keep\<close>

text \<open>
  One init container with an argument to extend, one worker container, and every mount backed by a
  volume of the pod.
\<close>

definition mounts_backed :: "pod \<Rightarrow> bool" where
  "mounts_backed p \<longleftrightarrow> (\<forall>c\<in>set (pod_containers p @ pod_init_containers p). \<forall>m\<in>set (c_mounts c).
     vm_name m \<in> vol_name ` set (pod_volumes p))"

definition worker_shape :: "pod \<Rightarrow> bool" where
  "worker_shape p \<longleftrightarrow> map c_name (pod_init_containers p) = [initContainerName] \<and>
     map c_name (pod_containers p) = [WorkerContainerName] \<and>
     c_args (hd (pod_init_containers p)) \<noteq> [] \<and> mounts_backed p \<and> distinct (map vol_name (pod_volumes p))"

text \<open>An edit that only touches containers, volumes and annotations.\<close>

definition same_identity :: "pod \<Rightarrow> pod \<Rightarrow> bool" where
  "same_identity p q \<longleftrightarrow> pod_namespace q = pod_namespace p \<and> pod_name q = pod_name p \<and>
     pod_labels q = pod_labels p \<and> pod_finalizers q = pod_finalizers p \<and> pod_owner q = pod_owner p \<and>
     pod_node_name q = pod_node_name p \<and> pod_service_account q = pod_service_account p \<and>
     pod_pull_secrets q = pod_pull_secrets p \<and> pod_tolerations q = pod_tolerations p"

lemma same_identity_refl [simp]: "same_identity p p"
  by (simp add: same_identity_def)

lemma same_identity_trans: "same_identity p q \<Longrightarrow> same_identity q r \<Longrightarrow> same_identity p r"
  by (simp add: same_identity_def)

lemma container_names_differ [simp]: "WorkerContainerName \<noteq> initContainerName"
  by (simp add: worker_consts)

lemma worker_shapeE:
  assumes "worker_shape p"
  obtains ic wc a as where "pod_init_containers p = [ic]" "pod_containers p = [wc]"
    "c_name ic = initContainerName" "c_name wc = WorkerContainerName" "c_args ic = a # as"
  using assms by (auto simp: worker_shape_def map_eq_Cons_conv neq_Nil_conv)

lemma edit_worker:
  assumes "worker_shape p" "edit_container WorkerContainerName f msg p = Inr q"
  obtains wc where "pod_containers p = [wc]" "c_name wc = WorkerContainerName"
    "q = p\<lparr>pod_containers := [f wc]\<rparr>"
  using assms by (elim worker_shapeE) (auto simp: edit_container_def)

lemma edit_init:
  assumes "worker_shape p" "append_to_arg0 p s = Inr q"
  obtains ic wc a as where "pod_init_containers p = [ic]" "pod_containers p = [wc]"
    "c_name ic = initContainerName" "c_args ic = a # as"
    "q = p\<lparr>pod_init_containers := [ic\<lparr>c_args := (a @ s) # as\<rparr>]\<rparr>"
  using assms
  by (elim worker_shapeE) (auto simp: append_to_arg0_def find_container_def edit_container_def)

lemma append_to_arg0_shape:
  assumes "worker_shape p" "append_to_arg0 p s = Inr q"
  shows "worker_shape q \<and> same_identity p q \<and> pod_annotations q = pod_annotations p \<and>
    pod_volumes q = pod_volumes p \<and> pod_containers q = pod_containers p"
proof (rule edit_init [OF assms])
  fix ic wc a as
  assume *: "pod_init_containers p = [ic]" "pod_containers p = [wc]" "c_name ic = initContainerName"
    "c_args ic = a # as" "q = p\<lparr>pod_init_containers := [ic\<lparr>c_args := (a @ s) # as\<rparr>]\<rparr>"
  with assms(1) show ?thesis by (simp add: worker_shape_def mounts_backed_def same_identity_def)
qed

lemma edit_worker_shape:
  assumes "worker_shape p" "edit_container WorkerContainerName f msg p = Inr q"
    and "\<And>c. c_name (f c) = c_name c" "\<And>c. c_mounts (f c) = c_mounts c"
  shows "worker_shape q \<and> same_identity p q \<and> pod_annotations q = pod_annotations p \<and>
    pod_volumes q = pod_volumes p"
proof (rule edit_worker [OF assms(1,2)])
  fix wc assume "pod_containers p = [wc]" "c_name wc = WorkerContainerName" "q = p\<lparr>pod_containers := [f wc]\<rparr>"
  with assms(1) show ?thesis
    by (simp add: worker_shape_def mounts_backed_def same_identity_def assms(3,4))
qed

lemma annotation_set [simp]:
  "annotation (set_annotation p k v) k' = (if k' = k then v else annotation p k')"
  by (cases "pod_annotations p") (simp_all add: annotation_def set_annotation_def SetAnnotation_def lookup_default_def update_conv')

lemma set_annotation_shape [simp]:
  "worker_shape (set_annotation p k v) = worker_shape p"
  "same_identity p (set_annotation p k v)"
  "pod_volumes (set_annotation p k v) = pod_volumes p"
  "pod_containers (set_annotation p k v) = pod_containers p"
  "pod_annotations (set_annotation p k v) \<noteq> None"
  by (simp_all add: set_annotation_def worker_shape_def mounts_backed_def same_identity_def SetAnnotation_def)

lemma addCopyCommand_shape:
  "worker_shape p \<Longrightarrow> addCopyCommand p src dst = Inr q \<Longrightarrow>
     worker_shape q \<and> same_identity p q \<and> pod_annotations q = pod_annotations p \<and>
     pod_volumes q = pod_volumes p \<and> pod_containers q = pod_containers p"
  unfolding addCopyCommand_def by (rule append_to_arg0_shape)

lemma add_modprobed_dir_shape:
  "worker_shape p \<Longrightarrow> add_modprobed_dir cfg p = Inr q \<Longrightarrow>
     worker_shape q \<and> same_identity p q \<and> pod_annotations q = pod_annotations p \<and>
     pod_volumes q = pod_volumes p \<and> pod_containers q = pod_containers p"
  using append_to_arg0_shape
  by (auto simp: add_modprobed_dir_def addModprobedDirCopyCommand_def Let_def split: if_splits)

lemma add_volume_mount_shape:
  assumes "worker_shape p" "vm_name m \<notin> vol_name ` set (pod_volumes p)" "vol_name v = vm_name m"
    and "pod_containers p = [wc]"
  shows "worker_shape (p\<lparr>pod_containers := [wc\<lparr>c_mounts := c_mounts wc @ [m]\<rparr>],
           pod_volumes := pod_volumes p @ [v]\<rparr>)"
  using assms by (auto simp: worker_shape_def mounts_backed_def)

lemma pod_update_commute:
  "p\<lparr>pod_volumes := v, pod_containers := c\<rparr> = p\<lparr>pod_containers := c, pod_volumes := v\<rparr>"
  by simp

lemma softdep_shape:
  assumes "worker_shape p" "''modules-order'' \<notin> vol_name ` set (pod_volumes p)"
    and "setWorkerSofdepConfig p ord = Inr q"
  shows "worker_shape q \<and> same_identity p q \<and>
    map vol_name (pod_volumes q) = map vol_name (pod_volumes p) @ [''modules-order''] \<and>
    (\<forall>k. k \<noteq> modulesOrderKey \<longrightarrow> annotation q k = annotation p k)"
proof -
  obtain ic wc a as where wc: "pod_init_containers p = [ic]" "pod_containers p = [wc]"
    "c_name ic = initContainerName" "c_name wc = WorkerContainerName" "c_args ic = a # as"
    by (rule worker_shapeE [OF assms(1)])
  let ?p = "set_annotation p modulesOrderKey (getModulesOrderAnnotationValue ord)"
  let ?m = "\<lparr>vm_name = ''modules-order'', vm_path = ''/etc/modprobe.d/softdep.conf'',
             vm_sub_path = ''softdep.conf'', vm_read_only = True\<rparr>"
  let ?v = "\<lparr>vol_name = ''modules-order'', vol_source = DownwardAPI [(''softdep.conf'', modulesOrderKey)]\<rparr>"
  from assms(3) wc have q: "q = ?p\<lparr>pod_containers := [wc\<lparr>c_mounts := c_mounts wc @ [?m]\<rparr>],
      pod_volumes := pod_volumes ?p @ [?v]\<rparr>"
    by (simp add: setWorkerSofdepConfig_def edit_container_def Let_def pod_update_commute)
  have "worker_shape q"
    unfolding q by (rule add_volume_mount_shape) (use assms wc in auto)
  moreover have "\<forall>k. k \<noteq> modulesOrderKey \<longrightarrow> annotation q k = annotation p k"
    using annotation_set [of p modulesOrderKey "getModulesOrderAnnotationValue ord"]
    by (simp add: q annotation_def)
  ultimately show ?thesis
    by (simp add: q) (simp add: same_identity_def set_annotation_def)
qed

lemma firmware_shape:
  assumes "worker_shape p" "''lib-firmware'' \<notin> vol_name ` set (pod_volumes p)"
    and "add_firmware wpm cfg msg p = Inr (args, q)"
  shows "worker_shape q \<and> same_identity p q \<and> pod_annotations q = pod_annotations p \<and>
    map c_security (pod_containers q) = map c_security (pod_containers p)"
proof (cases "mp_firmware_path (cfg_modprobe cfg) = []")
  case True
  with assms show ?thesis by (simp add: add_firmware_def)
next
  case False
  with assms(3) obtain path p1 where path: "wc_firmware_host_path (wpm_cfg wpm) = Some path"
    and p1: "addCopyCommand p (path_Join [mp_firmware_path (cfg_modprobe cfg), ''*''])
               (path_Join [sharedFilesDir, mp_firmware_path (cfg_modprobe cfg)]) = Inr p1"
    and q: "setFirmwareVolume p1 (Some path) = Inr q"
    by (auto simp: add_firmware_def Let_def and_then_Inr split: option.splits)
  from addCopyCommand_shape [OF assms(1) p1] have s1: "worker_shape p1" "same_identity p p1"
    "pod_annotations p1 = pod_annotations p" "pod_volumes p1 = pod_volumes p" "pod_containers p1 = pod_containers p"
    by auto
  obtain ic wc a as where wc: "pod_init_containers p1 = [ic]" "pod_containers p1 = [wc]"
    "c_name ic = initContainerName" "c_name wc = WorkerContainerName" "c_args ic = a # as"
    by (rule worker_shapeE [OF s1(1)])
  let ?m = "\<lparr>vm_name = ''lib-firmware'', vm_path = path, vm_sub_path = [], vm_read_only = False\<rparr>"
  let ?v = "\<lparr>vol_name = ''lib-firmware'', vol_source = HostPath path (Some ''DirectoryOrCreate'')\<rparr>"
  from q wc have qe: "q = p1\<lparr>pod_containers := [wc\<lparr>c_mounts := c_mounts wc @ [?m]\<rparr>],
      pod_volumes := pod_volumes p1 @ [?v]\<rparr>"
    by (simp add: setFirmwareVolume_def edit_container_def)
  have "worker_shape q"
    unfolding qe by (rule add_volume_mount_shape) (use assms s1 wc in auto)
  moreover have "same_identity p q" using s1(2) by (simp add: qe same_identity_def)
  moreover have "map c_security (pod_containers q) = map c_security (pod_containers p)"
    using wc(2) unfolding s1(5) by (simp add: qe)
  moreover have "pod_annotations q = pod_annotations p" using s1(3) by (simp add: qe)
  ultimately show ?thesis by blast
qed

lemma skeleton_shape: "worker_shape (worker_pod_skeleton wpm n item cfg)"
  by (simp add: worker_shape_def worker_pod_skeleton_def mounts_backed_def ro_mount_def empty_container_def)

lemma base_shape:
  assumes "baseWorkerPod wpm lib n item cfg = Inr p"
  shows "worker_shape p \<and> map vol_name (pod_volumes p) = [''config'', ''lib-modules'', ''tmp''] \<and>
    pod_namespace p = mi_namespace item \<and> pod_name p = WorkerPodName (nmc_name n) (mi_name item) \<and>
    pod_node_name p = nmc_name n \<and> pod_labels p = pod_labels (worker_pod_skeleton wpm n item cfg) \<and>
    pod_finalizers p = [NodeModulesConfigFinalizer] \<and> pod_tolerations p = mi_tolerations item \<and>
    pod_service_account p = mi_service_account item \<and>
    pod_pull_secrets p = map_option (\<lambda>s. [s]) (mi_repo_secret item) \<and> pod_annotations p = None \<and>
    l_SetControllerReference lib (nmc_owner n) None = Inr (pod_owner p)"
proof -
  let ?s = "worker_pod_skeleton wpm n item cfg"
  from assms obtain ow p' where
    o: "l_SetControllerReference lib (nmc_owner n) None = Inr ow" and
    c: "addCopyCommand (?s\<lparr>pod_owner := ow\<rparr>)
          (path_Join [mp_dir_name (cfg_modprobe cfg), ''lib'', ''modules'', cfg_kernel_version cfg])
          (path_Join [sharedFilesDir, mp_dir_name (cfg_modprobe cfg), ''lib'', ''modules'']) = Inr p'"
    and p: "p = p'\<lparr>pod_finalizers := AddFinalizer NodeModulesConfigFinalizer (pod_finalizers p')\<rparr>"
    by (auto simp: baseWorkerPod_def Let_def and_then_Inr worker_pod_skeleton_def empty_pod_def)
  have "worker_shape (?s\<lparr>pod_owner := ow\<rparr>)"
    using skeleton_shape [of wpm n item cfg] by (simp add: worker_shape_def mounts_backed_def)
  from addCopyCommand_shape [OF this c] have "worker_shape p'" and i: "same_identity (?s\<lparr>pod_owner := ow\<rparr>) p'"
    and v: "pod_volumes p' = pod_volumes ?s" and an: "pod_annotations p' = pod_annotations ?s" by auto
  then have "worker_shape p" by (simp add: p worker_shape_def mounts_backed_def)
  moreover have "map vol_name (pod_volumes p) = [''config'', ''lib-modules'', ''tmp'']"
    by (simp add: p v worker_pod_skeleton_def)
  moreover have "pod_finalizers p = [NodeModulesConfigFinalizer]"
    using i by (simp add: p same_identity_def AddFinalizer_def worker_pod_skeleton_def empty_pod_def)
  moreover have "pod_annotations p = None"
    using an by (simp add: p worker_pod_skeleton_def empty_pod_def)
  ultimately show ?thesis using i o
    by (auto simp: p same_identity_def worker_pod_skeleton_def)
qed

lemma security_shape:
  assumes "worker_shape p" "setWorkerSecurityContext p cfg pr = Inr q"
  shows "worker_shape q \<and> same_identity p q \<and> pod_annotations q = pod_annotations p \<and>
    pod_volumes q = pod_volumes p \<and>
    (\<exists>c sc. pod_containers q = [c] \<and> c_security c = Some sc \<and> (sc_privileged sc = Some True) = pr)"
proof -
  note e = assms(2) [unfolded setWorkerSecurityContext_def]
  have "\<exists>c sc. pod_containers q = [c] \<and> c_security c = Some sc \<and> (sc_privileged sc = Some True) = pr"
    by (rule edit_worker [OF assms(1) e]) auto
  then show ?thesis using edit_worker_shape [OF assms(1) e] by simp
qed

lemma args_shape:
  assumes "worker_shape p" "setWorkerContainerArgs p args = Inr q"
  shows "worker_shape q \<and> same_identity p q \<and> pod_annotations q = pod_annotations p \<and>
    pod_volumes q = pod_volumes p \<and> map c_args (pod_containers q) = [args] \<and>
    map c_security (pod_containers q) = map c_security (pod_containers p)"
proof -
  note e = assms(2) [unfolded setWorkerContainerArgs_def]
  have "map c_args (pod_containers q) = [args] \<and>
      map c_security (pod_containers q) = map c_security (pod_containers p)"
    by (rule edit_worker [OF assms(1) e]) auto
  then show ?thesis using edit_worker_shape [OF assms(1) e] by simp
qed

lemma annotation_keys_distinct [simp]:
  "configAnnotationKey \<noteq> hashAnnotationKey" "configAnnotationKey \<noteq> tolerationsAnnotationKey"
  "configAnnotationKey \<noteq> moduleVersionAnnotationKey" "configAnnotationKey \<noteq> modulesOrderKey"
  "hashAnnotationKey \<noteq> moduleVersionAnnotationKey" "hashAnnotationKey \<noteq> tolerationsAnnotationKey"
  "tolerationsAnnotationKey \<noteq> moduleVersionAnnotationKey"
  by (simp_all add: worker_consts)

lemmas annotation_keys_distinct_sym [simp] = annotation_keys_distinct [THEN not_sym]

lemma annotation_cong: "pod_annotations p = pod_annotations q \<Longrightarrow> annotation p k = annotation q k"
  by (simp add: annotation_def)

text \<open>The last steps of both templates: label and hash.\<close>

lemma label_hash_shape:
  assumes "worker_shape p" "setHashAnnotation lib (p\<lparr>pod_labels := SetLabel actionLabelKey a (pod_labels p)\<rparr>) = Inr q"
  shows "worker_shape q \<and> pod_labels q = SetLabel actionLabelKey a (pod_labels p) \<and>
    pod_namespace q = pod_namespace p \<and> pod_name q = pod_name p \<and> pod_finalizers q = pod_finalizers p \<and>
    pod_node_name q = pod_node_name p \<and> pod_service_account q = pod_service_account p \<and>
    pod_pull_secrets q = pod_pull_secrets p \<and> pod_containers q = pod_containers p \<and> pod_owner q = pod_owner p \<and>
    (\<forall>k. k \<noteq> hashAnnotationKey \<longrightarrow> annotation q k = annotation p k)"
proof -
  let ?p = "p\<lparr>pod_labels := SetLabel actionLabelKey a (pod_labels p)\<rparr>"
  from assms(2) obtain h where q: "q = set_annotation ?p hashAnnotationKey (fmt_d h)"
    by (auto simp: setHashAnnotation_def and_then_Inr split: option.splits)
  have "worker_shape q" using assms(1) by (simp add: q worker_shape_def mounts_backed_def set_annotation_def)
  moreover have "\<forall>k. k \<noteq> hashAnnotationKey \<longrightarrow> annotation q k = annotation p k"
    by (simp add: q annotation_cong [of ?p p])
  moreover have "same_identity ?p q" by (simp add: q)
  ultimately show ?thesis by (simp add: q same_identity_def)
qed

text \<open>What a template guarantees: the identity of the pod, its owner, labels, finalizer and configuration.\<close>

definition worker_pod_for ::
  "library \<Rightarrow> nmc \<Rightarrow> module_item \<Rightarrow> module_config \<Rightarrow> string \<Rightarrow> pod \<Rightarrow> bool" where
  "worker_pod_for lib n item cfg act p \<longleftrightarrow>
     pod_nsn p = (mi_namespace item, WorkerPodName (nmc_name n) (mi_name item)) \<and>
     pod_node_name p = nmc_name n \<and> label_of (pod_labels p) ModuleNameLabel = mi_name item \<and>
     label_of (pod_labels p) actionLabelKey = act \<and> pod_finalizers p = [NodeModulesConfigFinalizer] \<and>
     l_Marshal_config lib cfg = Inr (GetConfigAnnotation (Some p)) \<and>
     pod_service_account p = mi_service_account item \<and>
     pod_pull_secrets p = map_option (\<lambda>s. [s]) (mi_repo_secret item) \<and>
     mounts_backed p \<and> distinct (map vol_name (pod_volumes p)) \<and>
     l_SetControllerReference lib (nmc_owner n) None = Inr (pod_owner p) \<and> label_of (pod_labels p) ResourceType = []"

lemma tolerations_shape:
  assumes "setWorkerTolerationsAnnotation lib p ts = Inr q"
  shows "(q = p \<and> ts = []) \<or> (\<exists>b. q = set_annotation p tolerationsAnnotationKey b \<and> l_Marshal_tolerations lib ts = Inr b)"
  using assms by (auto simp: setWorkerTolerationsAnnotation_def and_then_Inr split: if_splits)

lemma config_shape:
  "setWorkerConfigAnnotation lib p cfg = Inr q \<Longrightarrow>
     \<exists>b. l_Marshal_config lib cfg = Inr b \<and> q = set_annotation p configAnnotationKey b"
  by (auto simp: setWorkerConfigAnnotation_def and_then_Inr)

lemma module_label_kept:
  "label_of (SetLabel actionLabelKey a (pod_labels (worker_pod_skeleton wpm n item cfg))) ModuleNameLabel = mi_name item"
  by (simp add: worker_pod_skeleton_def SetLabel_def) (simp add: lookup_default_def label_consts worker_consts)

lemma no_resource_type:
  "label_of (SetLabel actionLabelKey a (pod_labels (worker_pod_skeleton wpm n item cfg))) ResourceType = []"
  by (simp add: worker_pod_skeleton_def SetLabel_def) (simp add: lookup_default_def label_consts worker_consts)

lemma base_to_config:
  assumes base: "baseWorkerPod wpm lib n item cfg = Inr p0"
    and soft: "p1 = p0 \<or> setWorkerSofdepConfig p0 ord = Inr p1"
  shows "worker_shape p1 \<and> same_identity p0 p1 \<and> ''lib-firmware'' \<notin> vol_name ` set (pod_volumes p1) \<and>
    (\<forall>k. k \<noteq> modulesOrderKey \<longrightarrow> annotation p1 k = [])"
proof -
  from base_shape [OF base] have b: "worker_shape p0"
    "map vol_name (pod_volumes p0) = [''config'', ''lib-modules'', ''tmp'']" "\<And>k. annotation p0 k = []"
    by (auto simp: annotation_def)
  then have v: "vol_name ` set (pod_volumes p0) = set [''config'', ''lib-modules'', ''tmp'']"
    by (metis list.set_map)
  from soft show ?thesis
  proof
    assume "p1 = p0"
    with b v show ?thesis by simp
  next
    assume "setWorkerSofdepConfig p0 ord = Inr p1"
    from softdep_shape [OF b(1) _ this] v have s: "worker_shape p1" "same_identity p0 p1"
      "map vol_name (pod_volumes p1) = [''config'', ''lib-modules'', ''tmp'', ''modules-order'']"
      "\<forall>k. k \<noteq> modulesOrderKey \<longrightarrow> annotation p1 k = []"
      by (simp_all add: b)
    from s(3) have "vol_name ` set (pod_volumes p1) = set [''config'', ''lib-modules'', ''tmp'', ''modules-order'']"
      by (metis list.set_map)
    with s show ?thesis by simp
  qed
qed

lemma worker_pod_forI:
  assumes base: "baseWorkerPod wpm lib n item cfg = Inr p0"
    and id: "same_identity p0 p" and shape: "worker_shape p"
    and ann: "annotation p configAnnotationKey = b" and m: "l_Marshal_config lib cfg = Inr b"
    and last: "setHashAnnotation lib (p\<lparr>pod_labels := SetLabel actionLabelKey a (pod_labels p)\<rparr>) = Inr q"
  shows "worker_pod_for lib n item cfg a q"
proof -
  note L = label_hash_shape [OF shape last]
  note B = base_shape [OF base]
  have "label_of (SetLabel actionLabelKey a (pod_labels p)) ModuleNameLabel = mi_name item"
    using B id module_label_kept by (simp add: same_identity_def)
  moreover have "label_of (SetLabel actionLabelKey a (pod_labels p)) actionLabelKey = a"
    by (simp add: SetLabel_def)
  moreover have "GetConfigAnnotation (Some q) = b" using L ann by (simp add: GetConfigAnnotation_def)
  moreover have "label_of (SetLabel actionLabelKey a (pod_labels p)) ResourceType = []"
    using B id no_resource_type by (simp add: same_identity_def)
  ultimately show ?thesis
    using L B id m by (simp add: worker_pod_for_def same_identity_def worker_shape_def)
qed

text \<open>The steps of a template that succeeded.\<close>

lemma loader_templateE:
  assumes "LoaderPodTemplate wpm lib n nms = Inr p"
  obtains p0 p1 r p3 p4 p5 p6 p7 msg where
    "baseWorkerPod wpm lib n (nms_item nms) (nms_config nms) = Inr p0"
    "p1 = p0 \<or> setWorkerSofdepConfig p0 (elems (mp_loading_order (cfg_modprobe (nms_config nms)))) = Inr p1"
    "add_firmware wpm (nms_config nms) msg p1 = Inr (fst r, snd r)"
    "add_modprobed_dir (nms_config nms) (snd r) = Inr p3"
    "setWorkerConfigAnnotation lib p3 (nms_config nms) = Inr p4"
    "setWorkerTolerationsAnnotation lib p4 (mi_tolerations (nms_item nms)) = Inr p5"
    "setWorkerSecurityContext (setWorkerModuleVersionAnnotation p5 (mi_version (nms_item nms))) (wpm_cfg wpm)
       (mp_firmware_path (cfg_modprobe (nms_config nms)) \<noteq> [] \<or> mp_modprobed_dir (cfg_modprobe (nms_config nms)) \<noteq> []) = Inr p6"
    "setWorkerContainerArgs p6 ([''kmod'', ''load'', configFullPath] @ fst r) = Inr p7"
    "setHashAnnotation lib (p7\<lparr>pod_labels := SetLabel actionLabelKey workerActionLoad (pod_labels p7)\<rparr>) = Inr p"
proof -
  let ?ord = "elems (mp_loading_order (cfg_modprobe (nms_config nms)))"
  have soft: "(if ?ord = [] then Inr p0 else or_wrap msg0 (setWorkerSofdepConfig p0 ?ord)) = Inr p1 \<Longrightarrow>
      p1 = p0 \<or> setWorkerSofdepConfig p0 ?ord = Inr p1" for p0 p1 msg0 by (auto split: if_splits)
  from assms show thesis
    unfolding LoaderPodTemplate_def Let_def case_prod_beta and_then_Inr or_wrap_Inr
    by (elim exE conjE) (rule that, assumption, rule soft, assumption, unfold prod.collapse, assumption+)
qed

lemma unloader_templateE:
  assumes "UnloaderPodTemplate wpm lib n nms = Inr p"
  obtains p0 p1 p2 p3 r p5 p6 msg where
    "baseWorkerPod wpm lib n (nst_item nms) (nst_config nms) = Inr p0"
    "setWorkerConfigAnnotation lib p0 (nst_config nms) = Inr p1"
    "setWorkerTolerationsAnnotation lib p1 (mi_tolerations (nst_item nms)) = Inr p2"
    "setWorkerSecurityContext p2 (wpm_cfg wpm) (mp_modprobed_dir (cfg_modprobe (nst_config nms)) \<noteq> []) = Inr p3"
    "add_firmware wpm (nst_config nms) msg p3 = Inr (fst r, snd r)"
    "add_modprobed_dir (nst_config nms) (snd r) = Inr p5"
    "setWorkerContainerArgs p5 ([''kmod'', ''unload'', configFullPath] @ fst r) = Inr p6"
    "setHashAnnotation lib (p6\<lparr>pod_labels := SetLabel actionLabelKey workerActionUnload (pod_labels p6)\<rparr>) = Inr p"
  using assms unfolding UnloaderPodTemplate_def Let_def case_prod_beta and_then_Inr or_wrap_Inr
  by (elim exE conjE) (rule that, unfold prod.collapse, assumption+)

lemma loader_template:
  assumes "LoaderPodTemplate wpm lib n nms = Inr p"
  shows "worker_pod_for lib n (nms_item nms) (nms_config nms) workerActionLoad p \<and>
    (\<exists>c sc. pod_containers p = [c] \<and> c_security c = Some sc \<and>
       (sc_privileged sc = Some True) = (mp_firmware_path (cfg_modprobe (nms_config nms)) \<noteq> [] \<or>
          mp_modprobed_dir (cfg_modprobe (nms_config nms)) \<noteq> [])) \<and>
    GetModuleVersionAnnotation (Some p) = mi_version (nms_item nms)"
proof -
  let ?cfg = "nms_config nms" and ?item = "nms_item nms"
  let ?mp = "cfg_modprobe ?cfg"
  let ?ord = "elems (mp_loading_order ?mp)"
  let ?pr = "mp_firmware_path ?mp \<noteq> [] \<or> mp_modprobed_dir ?mp \<noteq> []"
  obtain p0 p1 r p3 p4 p5 p6 p7 msg where
    base: "baseWorkerPod wpm lib n ?item ?cfg = Inr p0"
    and soft: "p1 = p0 \<or> setWorkerSofdepConfig p0 ?ord = Inr p1"
    and fw: "add_firmware wpm ?cfg msg p1 = Inr (fst r, snd r)"
    and dir: "add_modprobed_dir ?cfg (snd r) = Inr p3"
    and cfg: "setWorkerConfigAnnotation lib p3 ?cfg = Inr p4"
    and tol: "setWorkerTolerationsAnnotation lib p4 (mi_tolerations ?item) = Inr p5"
    and sec: "setWorkerSecurityContext (setWorkerModuleVersionAnnotation p5 (mi_version ?item)) (wpm_cfg wpm) ?pr = Inr p6"
    and args: "setWorkerContainerArgs p6 ([''kmod'', ''load'', configFullPath] @ fst r) = Inr p7"
    and last: "setHashAnnotation lib (p7\<lparr>pod_labels := SetLabel actionLabelKey workerActionLoad (pod_labels p7)\<rparr>) = Inr p"
    by (rule loader_templateE [OF assms])
  note s1 = base_to_config [OF base soft]
  then have s2: "worker_shape (snd r)" "same_identity p0 (snd r)" "pod_annotations (snd r) = pod_annotations p1"
    using firmware_shape [OF _ _ fw] same_identity_trans by blast+
  then have s3: "worker_shape p3" "same_identity p0 p3" "pod_annotations p3 = pod_annotations p1"
    using add_modprobed_dir_shape [OF _ dir] same_identity_trans by (simp, blast, simp)
  obtain b where b: "l_Marshal_config lib ?cfg = Inr b" "p4 = set_annotation p3 configAnnotationKey b"
    using config_shape [OF cfg] by blast
  let ?p5 = "setWorkerModuleVersionAnnotation p5 (mi_version ?item)"
  have "annotation p3 moduleVersionAnnotationKey = []"
    using s1 annotation_cong [OF s3(3)] by (simp add: worker_consts)
  then have s5: "worker_shape ?p5" "same_identity p0 ?p5" "annotation ?p5 configAnnotationKey = b"
    "annotation ?p5 moduleVersionAnnotationKey = mi_version ?item"
    using tolerations_shape [OF tol] s3 b same_identity_trans [OF _ set_annotation_shape(2)]
    by (auto simp: setWorkerModuleVersionAnnotation_def)
  from security_shape [OF s5(1) sec] have s6: "worker_shape p6" "same_identity ?p5 p6"
    "pod_annotations p6 = pod_annotations ?p5"
    "\<exists>c sc. pod_containers p6 = [c] \<and> c_security c = Some sc \<and> (sc_privileged sc = Some True) = ?pr" by blast+
  from args_shape [OF s6(1) args] have a7: "worker_shape p7" "same_identity p6 p7"
    "pod_annotations p7 = pod_annotations p6"
    "map c_security (pod_containers p7) = map c_security (pod_containers p6)" by blast+
  have i7: "same_identity p0 p7"
    by (rule same_identity_trans [OF same_identity_trans [OF s5(2) s6(2)] a7(2)])
  have an7: "annotation p7 k = annotation ?p5 k" for k
    by (rule annotation_cong) (simp add: a7 s6)
  note s8 = label_hash_shape [OF a7(1) last]
  have "worker_pod_for lib n ?item ?cfg workerActionLoad p"
    by (rule worker_pod_forI [OF base i7 a7(1) _ b(1) last]) (simp add: an7 s5)
  moreover have "\<exists>c sc. pod_containers p = [c] \<and> c_security c = Some sc \<and> (sc_privileged sc = Some True) = ?pr"
    using s6(4) a7(4) s8 by auto
  ultimately show ?thesis using an7 s5(4) s8 by (simp add: GetModuleVersionAnnotation_def)
qed

lemma unloader_template:
  assumes "UnloaderPodTemplate wpm lib n nms = Inr p"
  shows "worker_pod_for lib n (nst_item nms) (nst_config nms) workerActionUnload p \<and>
    (\<exists>c sc. pod_containers p = [c] \<and> c_security c = Some sc \<and>
       (sc_privileged sc = Some True) = (mp_modprobed_dir (cfg_modprobe (nst_config nms)) \<noteq> []))"
proof -
  let ?cfg = "nst_config nms" and ?item = "nst_item nms"
  let ?pr = "mp_modprobed_dir (cfg_modprobe ?cfg) \<noteq> []"
  obtain p0 p1 p2 p3 r p5 p6 msg where
    base: "baseWorkerPod wpm lib n ?item ?cfg = Inr p0"
    and cfg: "setWorkerConfigAnnotation lib p0 ?cfg = Inr p1"
    and tol: "setWorkerTolerationsAnnotation lib p1 (mi_tolerations ?item) = Inr p2"
    and sec: "setWorkerSecurityContext p2 (wpm_cfg wpm) ?pr = Inr p3"
    and fw: "add_firmware wpm ?cfg msg p3 = Inr (fst r, snd r)"
    and dir: "add_modprobed_dir ?cfg (snd r) = Inr p5"
    and args: "setWorkerContainerArgs p5 ([''kmod'', ''unload'', configFullPath] @ fst r) = Inr p6"
    and last: "setHashAnnotation lib (p6\<lparr>pod_labels := SetLabel actionLabelKey workerActionUnload (pod_labels p6)\<rparr>) = Inr p"
    by (rule unloader_templateE [OF assms])
  from base_to_config [OF base disjI1 [OF refl]]
  have s0: "worker_shape p0" "''lib-firmware'' \<notin> vol_name ` set (pod_volumes p0)" by auto
  obtain b where b: "l_Marshal_config lib ?cfg = Inr b" "p1 = set_annotation p0 configAnnotationKey b"
    using config_shape [OF cfg] by blast
  have s2: "worker_shape p2" "same_identity p0 p2" "annotation p2 configAnnotationKey = b" "pod_volumes p2 = pod_volumes p0"
    using tolerations_shape [OF tol] s0 b same_identity_trans [OF _ set_annotation_shape(2)] by auto
  from security_shape [OF s2(1) sec] have s3: "worker_shape p3" "same_identity p2 p3"
    "pod_annotations p3 = pod_annotations p2" "pod_volumes p3 = pod_volumes p2"
    "\<exists>c sc. pod_containers p3 = [c] \<and> c_security c = Some sc \<and> (sc_privileged sc = Some True) = ?pr" by blast+
  from s0 s2 s3 have "''lib-firmware'' \<notin> vol_name ` set (pod_volumes p3)" by simp
  from firmware_shape [OF s3(1) this fw] have s4: "worker_shape (snd r)" "same_identity p3 (snd r)"
    "pod_annotations (snd r) = pod_annotations p3"
    "map c_security (pod_containers (snd r)) = map c_security (pod_containers p3)" by blast+
  from add_modprobed_dir_shape [OF s4(1) dir] have s5: "worker_shape p5" "same_identity (snd r) p5"
    "pod_annotations p5 = pod_annotations (snd r)" "pod_containers p5 = pod_containers (snd r)" by blast+
  from args_shape [OF s5(1) args] have s6: "worker_shape p6" "same_identity p5 p6"
    "pod_annotations p6 = pod_annotations p5"
    "map c_security (pod_containers p6) = map c_security (pod_containers p5)" by blast+
  have i6: "same_identity p0 p6"
    using s2(2) s3(2) s4(2) s5(2) s6(2) by (blast intro: same_identity_trans)
  have "annotation p6 configAnnotationKey = b"
    using annotation_cong [of p6 p2] s2(3) by (simp add: s3 s4 s5 s6)
  from worker_pod_forI [OF base i6 s6(1) this b(1) last]
  have "worker_pod_for lib n ?item ?cfg workerActionUnload p" .
  moreover have "\<exists>c sc. pod_containers p = [c] \<and> c_security c = Some sc \<and> (sc_privileged sc = Some True) = ?pr"
  proof -
    have "map c_security (pod_containers p) = map c_security (pod_containers p3)"
      using label_hash_shape [OF s6(1) last] s4(4) s5(4) s6(4) by simp
    with s3(5) show ?thesis by auto
  qed
  ultimately show ?thesis by blast
qed

section \<open>Reading single-quoted shell text\<close>

text \<open>
  How \<^verbatim>\<open>/bin/sh\<close> reads a word made of single-quoted pieces and backslash escapes (POSIX
  2.2.1 and 2.2.2): inside single quotes every character stands for itself. Any other character of the
  word that the shell could expand is refused.
\<close>

definition sh_plain :: "char \<Rightarrow> bool" where
  "sh_plain c \<longleftrightarrow> (CHR ''a'' \<le> c \<and> c \<le> CHR ''z'') \<or> (CHR ''A'' \<le> c \<and> c \<le> CHR ''Z'') \<or>
     (CHR ''0'' \<le> c \<and> c \<le> CHR ''9'') \<or> c = CHR ''/'' \<or> c = CHR ''.'' \<or> c = CHR ''-'' \<or> c = CHR ''_''"

fun sh_word :: "bool \<Rightarrow> string \<Rightarrow> string option" where
  "sh_word True [] = None"
| "sh_word True (c # cs) =
     (if c = CHR 0x27 then sh_word False cs else map_option (\<lambda>w. c # w) (sh_word True cs))"
| "sh_word False [] = Some []"
| "sh_word False (c # cs) =
     (if c = CHR 0x27 then sh_word True cs
      else if c = CHR 0x5C then (case cs of [] \<Rightarrow> None | d # ds \<Rightarrow> map_option (\<lambda>w. d # w) (sh_word False ds))
      else if sh_plain c then map_option (\<lambda>w. c # w) (sh_word False cs) else None)"

lemma sh_word_quoted: "sh_word True (concat (map quote_char s) @ [CHR 0x27]) = Some s"
  by (induction s) (auto simp: quote_char_def)

section \<open>Lemmas for the clients\<close>

lemma worker_actions_differ [simp]: "workerActionLoad \<noteq> workerActionUnload"
  by (simp add: worker_consts)

lemma worker_pod_for_kind:
  "worker_pod_for lib n item cfg workerActionLoad p \<Longrightarrow> IsLoaderPod (Some p) \<and> \<not> IsUnloaderPod (Some p)"
  "worker_pod_for lib n item cfg workerActionUnload p \<Longrightarrow> IsUnloaderPod (Some p) \<and> \<not> IsLoaderPod (Some p)"
  by (auto simp: worker_pod_for_def IsLoaderPod_def IsUnloaderPod_def dest: sym)

lemma emits_worker_requests [emits_intros]:
  "(\<And>p. LoaderPodTemplate wpm lib n spec = Inr p \<Longrightarrow> P (Create_Pod p)) \<Longrightarrow> emits P (CreateLoaderPod wpm lib srv n spec)"
  "(\<And>p. UnloaderPodTemplate wpm lib n st = Inr p \<Longrightarrow> P (Create_Pod p)) \<Longrightarrow> emits P (CreateUnloaderPod wpm lib srv n st)"
  "P (Get_Pod (ns, name)) \<Longrightarrow> emits P (GetWorkerPod srv name ns)"
  "(\<And>q. P (List_Pods q)) \<Longrightarrow> emits P (ListWorkerPodsOnNode srv node)"
  unfolding CreateLoaderPod_def CreateUnloaderPod_def GetWorkerPod_def ListWorkerPodsOnNode_def
  by (auto intro!: emits_intros)

definition without_nmc_finalizer :: "pod \<Rightarrow> pod" where
  "without_nmc_finalizer p =
     p\<lparr>pod_finalizers := snd (RemoveFinalizer NodeModulesConfigFinalizer (pod_finalizers p))\<rparr>"

lemma DeletePod_run:
  "run_state (DeletePod srv p) h =
     (let p' = without_nmc_finalizer p; h1 = h @ [Patch_Pod p p'] in
      case s_write srv h (Patch_Pod p p') of
        Some e \<Rightarrow> (Some (Errorf ''could not patch Pod'' e), h1)
      | None \<Rightarrow>
          if pod_deleting p then (None, h1)
          else (map_option (Errorf ''failed to delete pull pod'')
                  (IgnoreNotFound (s_write srv h1 (Delete_Pod p'))), h1 @ [Delete_Pod p']))"
  by (simp add: DeletePod_def deletePod_def without_nmc_finalizer_def do_write_def Let_def split: option.splits)

lemma emits_DeletePod [emits_intros]:
  "P (Patch_Pod p (without_nmc_finalizer p)) \<Longrightarrow> P (Delete_Pod (without_nmc_finalizer p)) \<Longrightarrow> emits P (DeletePod srv p)"
  unfolding emits_def by (auto simp: DeletePod_run Let_def split: option.splits)

lemma DeletePod_no_panic: "run_state (DeletePod srv p) h = (Some e, h') \<Longrightarrow> \<not> is_panic e"
  by (auto simp: DeletePod_run Let_def split: option.splits if_splits)

section \<open>Properties\<close>


definition sample_mgr :: worker_mgr where
  "sample_mgr = \<lparr>wpm_cfg = \<lparr>wc_run_as_user = Some 0, wc_selinux_type = ''spc_t'',
     wc_firmware_host_path = Some ''/var/lib/firmware''\<rparr>, wpm_image = ''reg/worker''\<rparr>"

definition sample_spec :: node_module_spec where
  "sample_spec = \<lparr>nms_item = (empty_item ''kmm'' ''mymod'')\<lparr>mi_version := ''v1''\<rparr>,
     nms_config = loaded_config\<lparr>cfg_modprobe := empty_modprobe
       \<lparr>mp_dir_name := ''/opt'', mp_firmware_path := ''/firmware'', mp_loading_order := Some [''a'', ''b'']\<rparr>\<rparr>\<rparr>"


text \<open>
  An unloader pod is made the same way from the configuration recorded in the status, with the
  unload action; it is privileged exactly when modprobe.d files are needed.
\<close>

theorem unloader_pod_spec:
  assumes "UnloaderPodTemplate wpm lib n nms = Inr p"
  shows "worker_pod_for lib n (nst_item nms) (nst_config nms) workerActionUnload p \<and>
    IsUnloaderPod (Some p) \<and> \<not> IsLoaderPod (Some p) \<and>
    (\<exists>c sc. pod_containers p = [c] \<and> c_security c = Some sc \<and>
       (sc_privileged sc = Some True) = (mp_modprobed_dir (cfg_modprobe (nst_config nms)) \<noteq> []))"
  using unloader_template [OF assms] worker_pod_for_kind(2) by blast

text \<open>
  The text \<open>shellSingleQuote\<close> makes of any string is read back by the shell as that string,
  literally, whatever characters it holds; so a directory name in a Module cannot inject a command into
  the init container's script.
\<close>

theorem shell_single_quote_literal: "sh_word False (shellSingleQuote s) = Some s"
  by (simp add: shellSingleQuote_def sh_word_quoted)

text \<open>
  Deleting a worker pod first removes the operator's finalizer with a patch; the delete request
  follows only when that patch succeeded and the pod is not being deleted already; nothing else is
  requested, and a pod that is gone is no error.
\<close>

theorem delete_worker_pod_protocol:
  "let p' = without_nmc_finalizer p; r = run_state (DeletePod srv p) h in
   snd r = h @ Patch_Pod p p' #
     (if s_write srv h (Patch_Pod p p') = None \<and> \<not> pod_deleting p then [Delete_Pod p'] else []) \<and>
   NodeModulesConfigFinalizer \<notin> set (pod_finalizers p') \<and>
   (fst r = None) = (s_write srv h (Patch_Pod p p') = None \<and>
      (pod_deleting p \<or> IgnoreNotFound (s_write srv (h @ [Patch_Pod p p']) (Delete_Pod p')) = None))"
  by (auto simp: DeletePod_run Let_def without_nmc_finalizer_def RemoveFinalizer_def split: option.splits)

end
