(* ===== verification/Nmc_Reconciler.thy ===== *)
theory Nmc_Reconciler
  imports Nmc Node_Api Worker_Pod
begin

text \<open>
  The controller that drives the modules of one node, \<^verbatim>\<open>internal/controllers/nmc_reconciler.go\<close>:
  it records the outcome of finished worker pods in the status of the NodeModulesConfig, creates loader
  and unloader pods for the difference between spec and status, garbage-collects labels and pods, and
  keeps the ready labels of the node. Operations that mutate the NodeModulesConfig or the node return
  them. Iterating over a Go map is iterating over its association list.
\<close>

section \<open>Preparing the node's labels\<close>

definition getNodeKernelModuleReadyLabels :: "node \<Rightarrow> nsn list" where
  "getNodeKernelModuleReadyLabels node =
     remdups (List.map_filter (\<lambda>(label, v). case IsKernelModuleReadyNodeLabel label of
        (ok, namespace, name) \<Rightarrow> if ok then Some (namespace, name) else None) (node_labels node))"

definition getDeprecatedKernelModuleReadyLabels :: "node \<Rightarrow> labels" where
  "getDeprecatedKernelModuleReadyLabels node =
     filter (\<lambda>(key, val). IsDeprecatedKernelModuleReadyNodeLabel key) (node_labels node)"

definition getSpecLabelsAndTheirConfigs :: "nmc \<Rightarrow> (nsn \<times> module_config) list" where
  "getSpecLabelsAndTheirConfigs n = fold (\<lambda>m l. AList.update (spec_nsn m) (nms_config m) l) (nmc_spec n) []"

definition getStatusLabelsAndTheirConfigs :: "nmc \<Rightarrow> (nsn \<times> module_config) list" where
  "getStatusLabelsAndTheirConfigs n = fold (\<lambda>m l. AList.update (status_nsn m) (nst_config m) l) (nmc_status n) []"

definition getStatusVersions :: "nmc \<Rightarrow> (nsn \<times> string) list" where
  "getStatusVersions n =
     fold (\<lambda>m l. if mi_version (nst_item m) \<noteq> [] then AList.update (status_nsn m) (mi_version (nst_item m)) l else l)
       (nmc_status n) []"

definition removeOrphanedLabels ::
  "nsn list \<Rightarrow> (nsn \<times> module_config) list \<Rightarrow> (nsn \<times> module_config) list \<Rightarrow> nsn list" where
  "removeOrphanedLabels nodeModuleReadyLabels specLabels statusLabels =
     filter (\<lambda>k. \<not> has_key specLabels k \<and> \<not> has_key statusLabels k) nodeModuleReadyLabels"

definition addEqualLabels ::
  "nsn list \<Rightarrow> (nsn \<times> module_config) list \<Rightarrow> (nsn \<times> module_config) list \<Rightarrow> nsn list" where
  "addEqualLabels nodeModuleReadyLabels specLabels statusLabels =
     map fst (filter (\<lambda>(k, specConfig). map_of statusLabels k = Some specConfig \<and> k \<notin> set nodeModuleReadyLabels)
       specLabels)"

definition unloaded_labels :: "labels \<Rightarrow> nsn list \<Rightarrow> labels" where
  "unloaded_labels deprecated ks =
     fold (\<lambda>(ns, name) l. AList.update (GetKernelModuleVersionReadyNodeLabel ns name) []
                            (AList.update (GetKernelModuleReadyNodeLabel ns name) [] l)) ks deprecated"

definition loaded_labels :: "(nsn \<times> string) list \<Rightarrow> nsn list \<Rightarrow> labels" where
  "loaded_labels statusVersions ks =
     fold (\<lambda>(ns, name) l.
         let l' = AList.update (GetKernelModuleReadyNodeLabel ns name) [] l in
         case map_of statusVersions (ns, name) of
           None \<Rightarrow> l'
         | Some version \<Rightarrow> AList.update (GetKernelModuleVersionReadyNodeLabel ns name) version l') ks []"

definition UpdateNodeLabels :: "server \<Rightarrow> nmc \<Rightarrow> node \<Rightarrow> ((go_err + nsn list \<times> nsn list) \<times> node) cio" where
  "UpdateNodeLabels srv n node =
     (let nodeModuleReadyLabels = getNodeKernelModuleReadyLabels node;
          deprecated = getDeprecatedKernelModuleReadyLabels node;
          specLabels = getSpecLabelsAndTheirConfigs n;
          statusLabels = getStatusLabelsAndTheirConfigs n;
          statusVersions = getStatusVersions n;
          toBeRemoved = removeOrphanedLabels nodeModuleReadyLabels specLabels statusLabels;
          toBeLoaded = addEqualLabels nodeModuleReadyLabels specLabels statusLabels
      in do {
        r \<leftarrow> UpdateLabels srv node (loaded_labels statusVersions toBeLoaded) (unloaded_labels deprecated toBeRemoved);
        State_Monad.return
          (case fst r of
             Some e \<Rightarrow> (Inl (Errorf ''could not update labels on the node'' e), snd r)
           | None \<Rightarrow> (Inr (toBeLoaded, toBeRemoved), snd r))
      })"

definition RecordEvents :: "node \<Rightarrow> nsn list \<Rightarrow> nsn list \<Rightarrow> unit cio" where
  "RecordEvents node loadedModules unloadedModules = do {
     _ \<leftarrow> State_Monad.traverse_list (\<lambda>k. record_event (Event ''ModuleLoaded'' (node_name node) k)) loadedModules;
     _ \<leftarrow> State_Monad.traverse_list (\<lambda>k. record_event (Event ''ModuleUnloaded'' (node_name node) k)) unloadedModules;
     State_Monad.return ()
   }"

section \<open>Garbage collection\<close>

text \<open>The body of the loop for a pod of a module the NodeModulesConfig does not know: two errors at most.\<close>

definition gc_worker_pod :: "server \<Rightarrow> pod \<Rightarrow> (go_err option) cio" where
  "gc_worker_pod srv p =
     (let rf = RemoveFinalizer NodeModulesConfigFinalizer (pod_finalizers p); p' = p\<lparr>pod_finalizers := snd rf\<rparr>
      in do {
        e1 \<leftarrow> (if fst rf then do_write srv (Patch_Pod p p') else State_Monad.return None);
        e2 \<leftarrow> DeletePod srv p';
        State_Monad.return (errors_Join [map_option (Errorf ''could not patch Pod'') e1,
                                         map_option (Errorf ''could not delete pod'') e2])
      })"

definition GarbageCollectWorkerPods :: "server \<Rightarrow> nmc \<Rightarrow> (go_err option) cio" where
  "GarbageCollectWorkerPods srv n = do {
     r \<leftarrow> ListWorkerPodsOnNode srv (nmc_name n);
     case r of
       Inl e \<Rightarrow> State_Monad.return (Some (Errorf ''could not list worker Pods'' e))
     | Inr podsList \<Rightarrow>
         (let modulePresentInNMC = map (mi_name \<circ> nms_item) (nmc_spec n) @ map (mi_name \<circ> nst_item) (nmc_status n)
          in do {
            es \<leftarrow> collect_errors (gc_worker_pod srv)
                   (filter (\<lambda>p. label_of (pod_labels p) ModuleNameLabel \<notin> set modulePresentInNMC) podsList);
            State_Monad.return (join_errors es)
          })
   }"

text \<open>The set of labels to keep has, for every worker pod, the label of the \<^emph>\<open>pod name\<close> and the module name.\<close>

definition desired_in_use :: "nmc \<Rightarrow> pod list \<Rightarrow> string list" where
  "desired_in_use n podList =
     map (\<lambda>s. ModuleInUseLabel (mi_namespace (nms_item s)) (mi_name (nms_item s))) (nmc_spec n) @
     map (\<lambda>s. ModuleInUseLabel (mi_namespace (nst_item s)) (mi_name (nst_item s))) (nmc_status n) @
     map (\<lambda>p. ModuleInUseLabel (pod_name p) (label_of (pod_labels p) ModuleNameLabel)) podList"

definition GarbageCollectInUseLabels :: "server \<Rightarrow> nmc \<Rightarrow> (go_err option \<times> nmc) cio" where
  "GarbageCollectInUseLabels srv n = do {
     r \<leftarrow> ListWorkerPodsOnNode srv (nmc_name n);
     case r of
       Inl e \<Rightarrow> State_Monad.return (Some (Errorf ''could not list worker Pods'' e), n)
     | Inr podList \<Rightarrow>
         (let labelSet = filter (\<lambda>k. fst (IsModuleInUseLabel k)) (map fst (nmc_labels n));
              diff = filter (\<lambda>k. k \<notin> set (desired_in_use n podList)) labelSet
          in if diff \<noteq> [] then
               (let n' = n\<lparr>nmc_labels := filter (\<lambda>(k, v). k \<notin> set diff) (nmc_labels n)\<rparr>
                in do { e \<leftarrow> do_write srv (Patch_NMC n n'); State_Monad.return (e, n') })
             else State_Monad.return (None, n))
   }"

definition RemovePodFinalizers :: "server \<Rightarrow> string \<Rightarrow> (go_err option) cio" where
  "RemovePodFinalizers srv nodeName = do {
     r \<leftarrow> ListWorkerPodsOnNode srv nodeName;
     case r of
       Inl e \<Rightarrow> State_Monad.return (Some (Errorf ''could not delete orphan worker Pods on node'' e))
     | Inr pods \<Rightarrow> do {
         es \<leftarrow> collect_errors (\<lambda>p.
                (let rf = RemoveFinalizer NodeModulesConfigFinalizer (pod_finalizers p)
                 in if fst rf then do {
                      e \<leftarrow> do_write srv (Patch_Pod p (p\<lparr>pod_finalizers := snd rf\<rparr>));
                      State_Monad.return (map_option (Errorf ''could not patch Pod'') e)
                    } else State_Monad.return None)) pods;
         State_Monad.return (join_errors es)
       }
   }"

section \<open>Processing one module\<close>

definition GetContainerStatus :: "container_status list \<Rightarrow> string \<Rightarrow> container_status" where
  "GetContainerStatus sts name =
     (case find (\<lambda>s. cs_name s = name) sts of
        Some s \<Rightarrow> s
      | None \<Rightarrow> \<lparr>cs_name = [], cs_restart_count = 0, cs_waiting = None\<rparr>)"

definition not_restarted :: "pod \<Rightarrow> bool" where
  "not_restarted p \<longleftrightarrow>
     cs_restart_count (GetContainerStatus (elems (pod_container_statuses p)) WorkerContainerName) = 0"

definition ProcessModuleSpec ::
  "worker_mgr \<Rightarrow> library \<Rightarrow> server \<Rightarrow> nmc \<Rightarrow> node_module_spec \<Rightarrow> node_module_status option \<Rightarrow> node \<Rightarrow>
   (go_err option) cio" where
  "ProcessModuleSpec wpm lib srv n spec status node = do {
     r \<leftarrow> GetWorkerPod srv (WorkerPodName (nmc_name n) (mi_name (nms_item spec))) (mi_namespace (nms_item spec));
     case r of
       Inl e \<Rightarrow> State_Monad.return (Some (Errorf ''could not get the worker Pod'' e))
     | Inr None \<Rightarrow>
         (case status of
            None \<Rightarrow> CreateLoaderPod wpm lib srv n spec
          | Some st \<Rightarrow>
              if nms_config spec \<noteq> nst_config st then
                (if cfg_kernel_version (nms_config spec) = cfg_kernel_version (nst_config st)
                 then CreateUnloaderPod wpm lib srv n st
                 else CreateLoaderPod wpm lib srv n spec)
              else if IsNodeRebooted node (nst_boot_id st) then CreateLoaderPod wpm lib srv n spec
              else State_Monad.return None)
     | Inr (Some p) \<Rightarrow>
         if \<not> IsLoaderPod (Some p) then State_Monad.return None
         else if not_restarted p then State_Monad.return None
         else
           (case LoaderPodTemplate wpm lib n spec of
              Inl e \<Rightarrow> State_Monad.return (Some (errorf ''could not create the Pod template'' e))
            | Inr podTemplate \<Rightarrow>
                if HashAnnotationDiffer (Some podTemplate) (Some p) then DeletePod srv p
                else State_Monad.return None)
   }"

definition ProcessUnconfiguredModuleStatus ::
  "worker_mgr \<Rightarrow> library \<Rightarrow> server \<Rightarrow> nmc \<Rightarrow> node_module_status \<Rightarrow> node \<Rightarrow> (go_err option \<times> nmc) cio" where
  "ProcessUnconfiguredModuleStatus wpm lib srv n status node =
     (if IsNodeRebooted node (nst_boot_id status) then
        (let n' = n\<lparr>nmc_status := RemoveModuleStatus (nmc_status n) (mi_namespace (nst_item status))
                                   (mi_name (nst_item status))\<rparr>
         in do { e \<leftarrow> do_write srv (Patch_NMC_Status n n'); State_Monad.return (e, n') })
      else do {
        r \<leftarrow> GetWorkerPod srv (WorkerPodName (nmc_name n) (mi_name (nst_item status))) (mi_namespace (nst_item status));
        e \<leftarrow> (case r of
          Inl e \<Rightarrow> State_Monad.return (Some (Errorf ''error while getting the worker Pod'' e))
        | Inr None \<Rightarrow> CreateUnloaderPod wpm lib srv n status
        | Inr (Some p) \<Rightarrow>
            if IsLoaderPod (Some p) then DeletePod srv p
            else if not_restarted p then State_Monad.return None
            else
              (case UnloaderPodTemplate wpm lib n status of
                 Inl e \<Rightarrow> State_Monad.return (Some (errorf ''could not create the Pod template'' e))
               | Inr podTemplate \<Rightarrow>
                   if HashAnnotationDiffer (Some podTemplate) (Some p) then DeletePod srv p
                   else State_Monad.return None));
        State_Monad.return (e, n)
      })"

section \<open>Recording the outcome of worker pods\<close>

text \<open>
  The state of the loop over the pods: the status entries of the object, the errors and the pods to
  delete. \<open>FindModuleStatus\<close> returns a pointer into the slice, and the YAML decoder writes through it,
  so a decoded value is in the slice even when a later step of the iteration fails; \<open>write_back\<close> is that
  assignment. A fresh status is not in the slice until \<open>SetModuleStatus\<close>.
\<close>

type_synonym sync_state = "node_module_status list \<times> go_err option list \<times> pod list"

definition write_back :: "bool \<Rightarrow> node_module_status \<Rightarrow> node_module_status list \<Rightarrow> node_module_status list" where
  "write_back found st sts = (if found then SetModuleStatus st sts else sts)"

abbreviation pod_module :: "pod \<Rightarrow> nsn" where
  "pod_module p \<equiv> (pod_namespace p, label_of (pod_labels p) ModuleNameLabel)"

abbreviation find_status :: "node_module_status list \<Rightarrow> nsn \<Rightarrow> node_module_status option" where
  "find_status sts k \<equiv> FindModuleStatus sts (fst k) (snd k)"

text \<open>The status entry a finished loader pod is recorded in, before the pod's data goes in.\<close>

definition status_for :: "node_module_status list \<Rightarrow> pod \<Rightarrow> node_module_status" where
  "status_for sts p =
     (case find_status sts (pod_module p) of Some st \<Rightarrow> st
      | None \<Rightarrow> \<lparr>nst_item = empty_item (pod_namespace p) (label_of (pod_labels p) ModuleNameLabel),
                 nst_config = empty_config, nst_boot_id = []\<rparr>)"

definition sync_succeeded_loader :: "library \<Rightarrow> node \<Rightarrow> pod \<Rightarrow> sync_state \<Rightarrow> go_err + sync_state" where
  "sync_succeeded_loader lib node p s =
     (case s of (sts, errs, dels) \<Rightarrow>
        let found = (find_status sts (pod_module p) \<noteq> None);
            status = status_for sts p;
            (e1, cfg) = l_UnmarshalStrict_config lib (GetConfigAnnotation (Some p)) (nst_config status);
            status1 = status\<lparr>nst_config := cfg\<rparr>;
            sts1 = write_back found status1 sts
        in case e1 of
             Some e \<Rightarrow> Inr (sts1, errs @ [Some (Errorf ''could not unmarshal the ModuleConfig from YAML'' e)], dels)
           | None \<Rightarrow>
               let (e2, tols) = l_UnmarshalStrict_tolerations lib (GetTolerationsAnnotation (Some p))
                                  (mi_tolerations (nst_item status1));
                   status2 = status1\<lparr>nst_item := (nst_item status1)\<lparr>mi_tolerations := tols\<rparr>\<rparr>;
                   sts2 = write_back found status2 sts1
               in case e2 of
                    Some e \<Rightarrow> Inr (sts2, errs @ [Some (Errorf ''could not unmarshal the ModuleConfig from YAML'' e)], dels)
                  | None \<Rightarrow>
                      (case pod_pull_secrets p of
                         Some [] \<Rightarrow> Inl (Panic ''index out of range'')
                       | secrets \<Rightarrow>
                           let repo = (case secrets of Some (x # _) \<Rightarrow> Some x | _ \<Rightarrow> mi_repo_secret (nst_item status2));
                               status3 = status2
                                 \<lparr>nst_item := (nst_item status2)
                                    \<lparr>mi_repo_secret := repo, mi_service_account := pod_service_account p,
                                     mi_version := GetModuleVersionAnnotation (Some p)\<rparr>,
                                  nst_boot_id := node_boot_id node\<rparr>
                           in Inr (SetModuleStatus status3 sts2, errs, dels @ [p])))"

definition sync_pod :: "library \<Rightarrow> nsn list \<Rightarrow> node \<Rightarrow> pod \<Rightarrow> sync_state \<Rightarrow> go_err + sync_state" where
  "sync_pod lib specEntries node p s =
     (case s of (sts, errs, dels) \<Rightarrow>
        let modNamespace = pod_namespace p;
            modName = label_of (pod_labels p) ModuleNameLabel
        in case pod_phase p of
             PodRunning \<Rightarrow>
               if (modNamespace, modName) \<notin> set specEntries \<and> FindModuleStatus sts modNamespace modName = None
               then Inr (sts, errs, dels @ [p]) else Inr (sts, errs, dels)
           | PodFailed \<Rightarrow> Inr (sts, errs, dels @ [p])
           | PodSucceeded \<Rightarrow>
               if IsUnloaderPod (Some p)
               then Inr (RemoveModuleStatus sts modNamespace modName, errs, dels @ [p])
               else sync_succeeded_loader lib node p (sts, errs, dels)
           | _ \<Rightarrow> Inr (sts, errs, dels))"

fun sync_pods :: "library \<Rightarrow> nsn list \<Rightarrow> node \<Rightarrow> pod list \<Rightarrow> sync_state \<Rightarrow> go_err + sync_state" where
  "sync_pods lib specEntries node [] s = Inr s"
| "sync_pods lib specEntries node (p # ps) s =
     and_then (sync_pod lib specEntries node p s) (sync_pods lib specEntries node ps)"

definition SyncStatus :: "library \<Rightarrow> server \<Rightarrow> nmc \<Rightarrow> node \<Rightarrow> (go_err option \<times> nmc) cio" where
  "SyncStatus lib srv n node = do {
     r \<leftarrow> ListWorkerPodsOnNode srv (nmc_name n);
     case r of
       Inl e \<Rightarrow> State_Monad.return (Some (Errorf ''could not list worker pods for NodeModulesConfig'' e), n)
     | Inr pods \<Rightarrow>
         if pods = [] then State_Monad.return (None, n)
         else
           (case sync_pods lib (map spec_nsn (nmc_spec n)) node pods (nmc_status n, [], []) of
              Inl panic \<Rightarrow> State_Monad.return (Some panic, n)
            | Inr (sts, errs, podsToDelete) \<Rightarrow>
                (let n' = n\<lparr>nmc_status := sts\<rparr>
                 in do {
                   err \<leftarrow> do_write srv (Patch_NMC_Status n n');
                   case join_errors (errs @ [err]) of
                     Some e \<Rightarrow> State_Monad.return
                       (Some (Errorf ''encountered errors while reconciling NMC status'' e), n')
                   | None \<Rightarrow> do {
                       es \<leftarrow> collect_errors (DeletePod srv) podsToDelete;
                       State_Monad.return (join_errors es, n')
                     }
                 }))
   }"

section \<open>Reconcile\<close>

definition module_key :: "nsn \<Rightarrow> string" where
  "module_key k = fst k @ ''/'' @ snd k"

definition status_map :: "nmc \<Rightarrow> (string \<times> node_module_status) list" where
  "status_map n = fold (\<lambda>st m. AList.update (module_key (status_nsn st)) st m) (nmc_status n) []"

text \<open>
  The loop over the spec: the remaining statuses, the errors and the ready labels to remove of the
  modules the node cannot schedule.
\<close>

fun process_specs ::
  "worker_mgr \<Rightarrow> library \<Rightarrow> server \<Rightarrow> nmc \<Rightarrow> node \<Rightarrow> node_module_spec list \<Rightarrow>
   (string \<times> node_module_status) list \<Rightarrow> go_err option list \<Rightarrow> labels \<Rightarrow>
   (((string \<times> node_module_status) list \<times> go_err option list \<times> labels)) cio" where
  "process_specs wpm lib srv n node [] statusMap errs toRemove = State_Monad.return (statusMap, errs, toRemove)"
| "process_specs wpm lib srv n node (m # ms) statusMap errs toRemove =
     (let key = module_key (spec_nsn m); ns = mi_namespace (nms_item m); name = mi_name (nms_item m)
      in if \<not> IsNodeSchedulable lib node (mi_tolerations (nms_item m)) then
           process_specs wpm lib srv n node ms (AList.delete key statusMap) errs
             (AList.update (GetKernelModuleVersionReadyNodeLabel ns name) []
                (AList.update (GetKernelModuleReadyNodeLabel ns name) [] toRemove))
         else do {
           e \<leftarrow> ProcessModuleSpec wpm lib srv n m (map_of statusMap key) node;
           process_specs wpm lib srv n node ms (AList.delete key statusMap)
             (errs @ [errorf_opt ''error processing Module'' e]) toRemove
         })"

fun process_orphans ::
  "worker_mgr \<Rightarrow> library \<Rightarrow> server \<Rightarrow> nmc \<Rightarrow> node \<Rightarrow> (string \<times> node_module_status) list \<Rightarrow>
   go_err option list \<Rightarrow> (nmc \<times> go_err option list) cio" where
  "process_orphans wpm lib srv n node [] errs = State_Monad.return (n, errs)"
| "process_orphans wpm lib srv n node ((k, st) # rest) errs = do {
     r \<leftarrow> ProcessUnconfiguredModuleStatus wpm lib srv n st node;
     process_orphans wpm lib srv (snd r) node rest
       (errs @ [errorf_opt ''error processing orphan status for Module'' (fst r)])
   }"

definition reconcile_tail ::
  "server \<Rightarrow> nmc \<Rightarrow> node \<Rightarrow> go_err option list \<Rightarrow> (go_err option) cio" where
  "reconcile_tail srv n node errs = do {
     r1 \<leftarrow> GarbageCollectInUseLabels srv n;
     e2 \<leftarrow> GarbageCollectWorkerPods srv (snd r1);
     r3 \<leftarrow> UpdateNodeLabels srv (snd r1) node;
     e3 \<leftarrow> (case fst r3 of
              Inl e \<Rightarrow> State_Monad.return (Some (errorf ''could not update node's labels'' e))
            | Inr (loaded, unloaded) \<Rightarrow> do {
                _ \<leftarrow> RecordEvents (snd r3) loaded unloaded;
                State_Monad.return None
              });
     State_Monad.return (join_errors (errs @ [errorf_opt ''failed to GC in-use labels'' (fst r1),
       errorf_opt ''failed to GC orphan worker pods'' e2, e3]))
   }"

definition NMC_Reconcile :: "worker_mgr \<Rightarrow> library \<Rightarrow> server \<Rightarrow> string \<Rightarrow> (go_err option) cio" where
  "NMC_Reconcile wpm lib srv name = do {
     r \<leftarrow> get_nmc srv name;
     case r of
       Inl e \<Rightarrow>
         if IsNotFound e then do {
           e' \<leftarrow> RemovePodFinalizers srv name;
           State_Monad.return (errorf_opt ''could not clear all Pod finalizers'' e')
         } else State_Monad.return (Some (Errorf ''could not get NodeModuleState'' e))
     | Inr n0 \<Rightarrow> do {
         rn \<leftarrow> get_node srv (nmc_name n0);
         case rn of
           Inl e \<Rightarrow> State_Monad.return (Some (Errorf ''could not get node'' e))
         | Inr node \<Rightarrow> do {
             rs \<leftarrow> SyncStatus lib srv n0 node;
             case fst rs of
               Some e \<Rightarrow> State_Monad.return (Some (errorf ''could not reconcile status'' e))
             | None \<Rightarrow> do {
                 q \<leftarrow> process_specs wpm lib srv (snd rs) node (nmc_spec (snd rs)) (status_map (snd rs)) [] [];
                 o' \<leftarrow> process_orphans wpm lib srv (snd rs) node (fst q) (fst (snd q));
                 if snd (snd q) \<noteq> [] then do {
                   u \<leftarrow> UpdateLabels srv node [] (snd (snd q));
                   State_Monad.return (errorf_opt ''could remove node labels'' (fst u))
                 } else reconcile_tail srv (fst o') node (snd o')
               }
           }
       }
   }"

section \<open>Lemmas on processing one module\<close>

lemma run_GetWorkerPod:
  "run_state (GetWorkerPod srv name ns) h =
     ((case s_pod srv h (ns, name) of
         Inl e \<Rightarrow> if IsNotFound e then Inr None else Inl (Errorf ''could not get pod'' e)
       | Inr p \<Rightarrow> Inr (Some p)), h @ [Get_Pod (ns, name)])"
  by (simp add: GetWorkerPod_def get_pod_def)

lemma run_ListWorkerPodsOnNode:
  "run_state (ListWorkerPodsOnNode srv name) h =
     (let q = \<lparr>pq_namespace = None, pq_match = [], pq_has = [actionLabelKey], pq_node = Some name, pq_in = []\<rparr> in
      (map_sum (Errorf ''could not list worker pods for node'') id (s_pods srv h q), h @ [List_Pods q]))"
  by (simp add: ListWorkerPodsOnNode_def list_pods_def Let_def)

text \<open>The worker pod the server shows for a module on a node.\<close>

definition worker_pod_shown :: "server \<Rightarrow> call list \<Rightarrow> nmc \<Rightarrow> module_item \<Rightarrow> go_err + pod" where
  "worker_pod_shown srv h n item = s_pod srv h (mi_namespace item, WorkerPodName (nmc_name n) (mi_name item))"

lemma ProcessModuleSpec_absent:
  assumes "worker_pod_shown srv h n (nms_item spec) = Inl e" "IsNotFound e"
  shows "run_state (ProcessModuleSpec wpm lib srv n spec status node) h =
    (let h1 = h @ [Get_Pod (mi_namespace (nms_item spec), WorkerPodName (nmc_name n) (mi_name (nms_item spec)))] in
     case status of
       None \<Rightarrow> run_state (CreateLoaderPod wpm lib srv n spec) h1
     | Some st \<Rightarrow>
         if nms_config spec = nst_config st \<and> \<not> IsNodeRebooted node (nst_boot_id st) then (None, h1)
         else if nms_config spec \<noteq> nst_config st \<and>
                 cfg_kernel_version (nms_config spec) = cfg_kernel_version (nst_config st)
         then run_state (CreateUnloaderPod wpm lib srv n st) h1
         else run_state (CreateLoaderPod wpm lib srv n spec) h1)"
  using assms
  by (auto simp: ProcessModuleSpec_def run_GetWorkerPod worker_pod_shown_def Let_def split: option.splits)

lemma ProcessModuleSpec_present:
  assumes "worker_pod_shown srv h n (nms_item spec) = Inr p"
  shows "run_state (ProcessModuleSpec wpm lib srv n spec status node) h =
    (let h1 = h @ [Get_Pod (mi_namespace (nms_item spec), WorkerPodName (nmc_name n) (mi_name (nms_item spec)))] in
     if \<not> IsLoaderPod (Some p) \<or> not_restarted p then (None, h1)
     else case LoaderPodTemplate wpm lib n spec of
            Inl e \<Rightarrow> (Some (errorf ''could not create the Pod template'' e), h1)
          | Inr t \<Rightarrow> if HashAnnotationDiffer (Some t) (Some p) then run_state (DeletePod srv p) h1 else (None, h1))"
  using assms
  by (auto simp: ProcessModuleSpec_def run_GetWorkerPod worker_pod_shown_def Let_def split: sum.splits)

lemma run_CreateLoaderPod:
  "LoaderPodTemplate wpm lib n spec = Inr p \<Longrightarrow>
     run_state (CreateLoaderPod wpm lib srv n spec) h = (s_write srv h (Create_Pod p), h @ [Create_Pod p])"
  by (simp add: CreateLoaderPod_def do_write_def)

lemma run_CreateUnloaderPod:
  "UnloaderPodTemplate wpm lib n st = Inr p \<Longrightarrow>
     run_state (CreateUnloaderPod wpm lib srv n st) h = (s_write srv h (Create_Pod p), h @ [Create_Pod p])"
  by (simp add: CreateUnloaderPod_def do_write_def)

text \<open>A module is settled on a node when its status has the requested configuration and the node did not reboot since.\<close>

definition settled :: "node_module_spec \<Rightarrow> node_module_status option \<Rightarrow> node \<Rightarrow> bool" where
  "settled spec status node \<longleftrightarrow>
     (case status of None \<Rightarrow> False
      | Some st \<Rightarrow> nms_config spec = nst_config st \<and> \<not> IsNodeRebooted node (nst_boot_id st))"

text \<open>What a reconciliation of one module may ask for.\<close>

definition spec_request_ok ::
  "library \<Rightarrow> nmc \<Rightarrow> node_module_spec \<Rightarrow> node_module_status option \<Rightarrow> node \<Rightarrow> go_err + pod \<Rightarrow> call \<Rightarrow> bool" where
  "spec_request_ok lib n spec status node shown c \<longleftrightarrow>
     (case c of
        Create_Pod p \<Rightarrow>
          \<not> settled spec status node \<and> (\<exists>e. shown = Inl e \<and> IsNotFound e) \<and>
          (worker_pod_for lib n (nms_item spec) (nms_config spec) workerActionLoad p \<or>
           (\<exists>st. status = Some st \<and> worker_pod_for lib n (nst_item st) (nst_config st) workerActionUnload p \<and>
              nms_config spec \<noteq> nst_config st \<and>
              cfg_kernel_version (nms_config spec) = cfg_kernel_version (nst_config st)))
      | Patch_Pod p q \<Rightarrow> shown = Inr p \<and> IsLoaderPod (Some p) \<and> \<not> not_restarted p \<and> q = without_nmc_finalizer p
      | Delete_Pod q \<Rightarrow> (\<exists>p. shown = Inr p \<and> IsLoaderPod (Some p) \<and> \<not> not_restarted p \<and> q = without_nmc_finalizer p)
      | Get_Pod k \<Rightarrow> True
      | _ \<Rightarrow> False)"

lemma calls_snoc: "run_state m h = (r, h @ t) \<Longrightarrow> calls m h = t"
  by (simp add: calls_def)

lemma emits_calls_sub:
  assumes "run_state m h = run_state m' (h @ t)" "emits P m'" "\<And>c. c \<in> set t \<Longrightarrow> P c"
  shows "\<forall>c\<in>set (calls m h). P c"
proof
  fix c assume "c \<in> set (calls m h)"
  moreover have "calls m h = t @ calls m' (h @ t)"
    unfolding calls_def [of m h] assms(1) emits_history [OF assms(2)] by simp
  ultimately have "c \<in> set (t @ calls m' (h @ t))" by simp
  then show "P c" using assms(3) emits_calls [OF assms(2)] by auto
qed

lemma ProcessModuleSpec_requests:
  "\<forall>c\<in>set (calls (ProcessModuleSpec wpm lib srv n spec status node) h).
     spec_request_ok lib n spec status node (worker_pod_shown srv h n (nms_item spec)) c"
proof (cases "worker_pod_shown srv h n (nms_item spec)")
  case (Inr p)
  let ?ok = "spec_request_ok lib n spec status node (Inr p)"
  let ?g = "[Get_Pod (mi_namespace (nms_item spec), WorkerPodName (nmc_name n) (mi_name (nms_item spec)))]"
  have g: "\<And>c. c \<in> set ?g \<Longrightarrow> ?ok c" by (simp add: spec_request_ok_def)
  show ?thesis
  proof (cases "IsLoaderPod (Some p) \<and> \<not> not_restarted p \<and>
      (\<exists>t. LoaderPodTemplate wpm lib n spec = Inr t \<and> HashAnnotationDiffer (Some t) (Some p))")
    case True
    then have "run_state (ProcessModuleSpec wpm lib srv n spec status node) h =
        run_state (DeletePod srv p) (h @ ?g)"
      using ProcessModuleSpec_present [OF Inr] by (auto simp: Let_def)
    moreover have "emits ?ok (DeletePod srv p)"
      using True by (intro emits_intros) (auto simp: spec_request_ok_def)
    ultimately show ?thesis unfolding Inr by (rule emits_calls_sub) (rule g)
  next
    case False
    then have "snd (run_state (ProcessModuleSpec wpm lib srv n spec status node) h) = h @ ?g"
      using ProcessModuleSpec_present [OF Inr] by (auto simp: Let_def split: sum.splits)
    then show ?thesis unfolding Inr using g by (simp add: calls_def)
  qed
next
  case (Inl e)
  let ?ok = "spec_request_ok lib n spec status node (Inl e)"
  let ?g = "[Get_Pod (mi_namespace (nms_item spec), WorkerPodName (nmc_name n) (mi_name (nms_item spec)))]"
  have g: "\<And>c. c \<in> set ?g \<Longrightarrow> ?ok c" by (simp add: spec_request_ok_def)
  let ?r = "run_state (ProcessModuleSpec wpm lib srv n spec status node) h"
  consider (quiet) "snd ?r = h @ ?g"
    | (load) "IsNotFound e" "?r = run_state (CreateLoaderPod wpm lib srv n spec) (h @ ?g)"
        "\<not> settled spec status node"
    | (unload) st where "IsNotFound e" "?r = run_state (CreateUnloaderPod wpm lib srv n st) (h @ ?g)"
        "status = Some st" "nms_config spec \<noteq> nst_config st"
        "cfg_kernel_version (nms_config spec) = cfg_kernel_version (nst_config st)"
  proof (cases "IsNotFound e")
    case True
    then show ?thesis
      using ProcessModuleSpec_absent [OF Inl True, of wpm lib status node] that
      by (cases status) (auto simp: Let_def settled_def split: if_splits)
  next
    case False
    with Inl have "snd ?r = h @ ?g"
      by (simp add: ProcessModuleSpec_def run_GetWorkerPod worker_pod_shown_def)
    then show ?thesis by (rule that(1))
  qed
  then show ?thesis
  proof cases
    case quiet
    then show ?thesis unfolding Inl using g by (simp add: calls_def)
  next
    case load
    have "emits ?ok (CreateLoaderPod wpm lib srv n spec)"
      using load loader_template by (intro emits_intros) (auto simp: spec_request_ok_def)
    with load(2) show ?thesis unfolding Inl by (rule emits_calls_sub) (rule g)
  next
    case unload
    have "emits ?ok (CreateUnloaderPod wpm lib srv n st)"
      using unload unloader_template by (intro emits_intros) (auto simp: spec_request_ok_def settled_def)
    with unload(2) show ?thesis unfolding Inl by (rule emits_calls_sub) (rule g)
  qed
qed

section \<open>Lemmas on recording outcomes\<close>

lemma find_status_nsn: "find_status sts k = Some st \<Longrightarrow> status_nsn st = k"
  by (auto simp: FindModuleStatus_find find_Some_iff)

lemma find_write_back:
  "status_nsn st = k \<Longrightarrow> k' \<noteq> k \<Longrightarrow> find_status (write_back f st sts) k' = find_status sts k'"
  using statuses.get_put_other [of k' st sts] by (auto simp: write_back_def)

lemma distinct_write_back:
  "distinct (map status_nsn sts) \<Longrightarrow> distinct (map status_nsn (write_back f st sts))"
  by (simp add: write_back_def distinct_SetModuleStatus)

lemma status_for_nsn: "status_nsn (status_for sts p) = pod_module p"
  using find_status_nsn [of sts "pod_module p"]
  by (auto simp: status_for_def empty_item_def split: option.splits)

lemma sync_loader_frame:
  assumes "sync_succeeded_loader lib node p (sts, errs, dels) = Inr (sts', errs', dels')"
  shows "(k \<noteq> pod_module p \<longrightarrow> find_status sts' k = find_status sts k) \<and>
    (distinct (map status_nsn sts) \<longrightarrow> distinct (map status_nsn sts')) \<and>
    (dels' = dels \<or> dels' = dels @ [p])"
proof -
  obtain e1 cfg where u1: "l_UnmarshalStrict_config lib (GetConfigAnnotation (Some p)) (nst_config (status_for sts p)) = (e1, cfg)"
    by fastforce
  let ?f = "find_status sts (pod_module p) \<noteq> None"
  let ?s1 = "(status_for sts p)\<lparr>nst_config := cfg\<rparr>"
  let ?sts1 = "write_back ?f ?s1 sts"
  obtain e2 tols where u2: "l_UnmarshalStrict_tolerations lib (GetTolerationsAnnotation (Some p))
      (mi_tolerations (nst_item ?s1)) = (e2, tols)" by fastforce
  let ?s2 = "?s1\<lparr>nst_item := (nst_item ?s1)\<lparr>mi_tolerations := tols\<rparr>\<rparr>"
  let ?sts2 = "write_back ?f ?s2 ?sts1"
  have n: "status_nsn ?s1 = pod_module p" "status_nsn ?s2 = pod_module p"
    using status_for_nsn [of sts p] by simp_all
  from assms u1 u2 consider "sts' = ?sts1" "dels' = dels" | "sts' = ?sts2" "dels' = dels"
    | s3 where "sts' = SetModuleStatus s3 ?sts2" "status_nsn s3 = pod_module p" "dels' = dels @ [p]"
    using n unfolding sync_succeeded_loader_def Let_def
    by (auto split: option.splits list.splits)
  moreover have w1: "find_status ?sts1 k = find_status sts k" if "k \<noteq> pod_module p"
    by (rule find_write_back [OF n(1) that])
  moreover have w2: "find_status ?sts2 k = find_status sts k" if "k \<noteq> pod_module p"
    by (rule trans [OF find_write_back [OF n(2) that] w1 [OF that]])
  moreover have d1: "distinct (map status_nsn ?sts1)" if "distinct (map status_nsn sts)"
    by (rule distinct_write_back [OF that])
  moreover have d2: "distinct (map status_nsn ?sts2)" if "distinct (map status_nsn sts)"
    by (rule distinct_write_back [OF d1 [OF that]])
  ultimately show ?thesis
  proof cases
    case 1
    show ?thesis unfolding 1 using w1 d1 by blast
  next
    case 2
    show ?thesis unfolding 2 using w2 d2 by blast
  next
    case 3
    have "find_status sts' k = find_status sts k" if "k \<noteq> pod_module p"
      unfolding 3(1) using that 3(2) by (intro trans [OF statuses.get_put_other w2]) auto
    moreover have "distinct (map status_nsn sts')" if "distinct (map status_nsn sts)"
      unfolding 3(1) by (rule distinct_SetModuleStatus [OF d2 [OF that]])
    ultimately show ?thesis using 3(3) by blast
  qed
qed

lemma sync_pod_frame:
  assumes "sync_pod lib specs node p (sts, errs, dels) = Inr (sts', errs', dels')"
  shows "(k \<noteq> pod_module p \<longrightarrow> find_status sts' k = find_status sts k) \<and>
    (distinct (map status_nsn sts) \<longrightarrow> distinct (map status_nsn sts')) \<and>
    (dels' = dels \<or> dels' = dels @ [p])"
proof (cases "pod_phase p = PodSucceeded")
  case True
  show ?thesis
  proof (cases "IsUnloaderPod (Some p)")
    case u: True
    with True assms have "sts' = RemoveModuleStatus sts (pod_namespace p) (label_of (pod_labels p) ModuleNameLabel)"
      "dels' = dels @ [p]" by (auto simp: sync_pod_def Let_def)
    then show ?thesis
      by (auto simp: FindModuleStatus_Remove distinct_RemoveModuleStatus)
  next
    case False
    with True assms have "sync_succeeded_loader lib node p (sts, errs, dels) = Inr (sts', errs', dels')"
      by (simp add: sync_pod_def Let_def)
    then show ?thesis by (rule sync_loader_frame)
  qed
next
  case False
  with assms have "sts' = sts \<and> (dels' = dels \<or> dels' = dels @ [p])"
    by (cases "pod_phase p") (auto simp: sync_pod_def Let_def split: if_splits)
  then show ?thesis by blast
qed

lemma sync_pods_frame:
  assumes "sync_pods lib specs node ps (sts, errs, dels) = Inr (sts', errs', dels')"
  shows "(k \<notin> pod_module ` set ps \<longrightarrow> find_status sts' k = find_status sts k) \<and>
    (distinct (map status_nsn sts) \<longrightarrow> distinct (map status_nsn sts')) \<and> set dels' \<subseteq> set dels \<union> set ps"
  using assms
proof (induction ps arbitrary: sts errs dels)
  case Nil
  then show ?case by simp
next
  case (Cons p ps)
  from Cons.prems obtain sts1 errs1 dels1 where
    a: "sync_pod lib specs node p (sts, errs, dels) = Inr (sts1, errs1, dels1)"
    and b: "sync_pods lib specs node ps (sts1, errs1, dels1) = Inr (sts', errs', dels')"
    by (auto simp: and_then_Inr)
  from sync_pod_frame [OF a, of k] Cons.IH [OF b] show ?case by auto
qed

text \<open>What a synchronisation of the status asks for: the list, then the status patch, then the deletions.\<close>

definition worker_pods_query :: "nmc \<Rightarrow> pod_query" where
  "worker_pods_query n = \<lparr>pq_namespace = None, pq_match = [], pq_has = [actionLabelKey], pq_node = Some (nmc_name n), pq_in = []\<rparr>"

lemma SyncStatus_run:
  "run_state (SyncStatus lib srv n node) h =
     (let h1 = h @ [List_Pods (worker_pods_query n)] in
      case s_pods srv h (worker_pods_query n) of
        Inl e \<Rightarrow> ((Some (Errorf ''could not list worker pods for NodeModulesConfig''
                      (Errorf ''could not list worker pods for node'' e)), n), h1)
      | Inr pods \<Rightarrow>
          if pods = [] then ((None, n), h1)
          else case sync_pods lib (map spec_nsn (nmc_spec n)) node pods (nmc_status n, [], []) of
                 Inl panic \<Rightarrow> ((Some panic, n), h1)
               | Inr (sts, errs, dels) \<Rightarrow>
                   (let n' = n\<lparr>nmc_status := sts\<rparr>; h2 = h1 @ [Patch_NMC_Status n n'];
                        err = s_write srv h1 (Patch_NMC_Status n n')
                    in case join_errors (errs @ [err]) of
                         Some e \<Rightarrow> ((Some (Errorf ''encountered errors while reconciling NMC status'' e), n'), h2)
                       | None \<Rightarrow> (let r = run_state (collect_errors (DeletePod srv) dels) h2
                                  in ((join_errors (fst r), n'), snd r))))"
  by (simp add: SyncStatus_def run_ListWorkerPodsOnNode worker_pods_query_def Let_def do_write_def
      case_prod_beta del: join_errors_None split: sum.split option.split)

lemma IsNodeRebooted_same [simp]: "\<not> IsNodeRebooted node (node_boot_id node)"
  by (auto simp: IsNodeRebooted_def list_ex_iff)

text \<open>A finished loader pod whose annotations decode is recorded with the decoded configuration.\<close>

lemma sync_loader_records:
  assumes "l_UnmarshalStrict_config lib (GetConfigAnnotation (Some p)) (nst_config (status_for sts p)) = (None, cfg)"
    and "l_UnmarshalStrict_tolerations lib (GetTolerationsAnnotation (Some p))
           (mi_tolerations (nst_item (status_for sts p))) = (None, tols)"
    and "pod_pull_secrets p \<noteq> Some []"
  obtains sts' st where "sync_succeeded_loader lib node p (sts, errs, dels) = Inr (sts', errs, dels @ [p])"
    and "find_status sts' (pod_module p) = Some st" and "nst_config st = cfg"
    and "nst_boot_id st = node_boot_id node" and "mi_version (nst_item st) = GetModuleVersionAnnotation (Some p)"
    and "mi_service_account (nst_item st) = pod_service_account p"
proof -
  let ?f = "find_status sts (pod_module p) \<noteq> None"
  let ?s1 = "(status_for sts p)\<lparr>nst_config := cfg\<rparr>"
  let ?s2 = "?s1\<lparr>nst_item := (nst_item ?s1)\<lparr>mi_tolerations := tols\<rparr>\<rparr>"
  let ?repo = "case pod_pull_secrets p of Some (x # _) \<Rightarrow> Some x | _ \<Rightarrow> mi_repo_secret (nst_item ?s2)"
  let ?s3 = "?s2\<lparr>nst_item := (nst_item ?s2)\<lparr>mi_repo_secret := ?repo,
      mi_service_account := pod_service_account p, mi_version := GetModuleVersionAnnotation (Some p)\<rparr>,
      nst_boot_id := node_boot_id node\<rparr>"
  let ?sts' = "SetModuleStatus ?s3 (write_back ?f ?s2 (write_back ?f ?s1 sts))"
  have "sync_succeeded_loader lib node p (sts, errs, dels) = Inr (?sts', errs, dels @ [p])"
    using assms by (auto simp: sync_succeeded_loader_def Let_def split: option.splits list.splits)
  moreover have "status_nsn ?s3 = pod_module p" using status_for_nsn [of sts p] by simp
  then have "find_status ?sts' (pod_module p) = Some ?s3" by (metis statuses.get_put)
  ultimately show thesis by (rule that) simp_all
qed

lemma calls_DeletePods:
  "emits (\<lambda>c. \<exists>p\<in>set dels. c = Patch_Pod p (without_nmc_finalizer p) \<or> c = Delete_Pod (without_nmc_finalizer p))
     (collect_errors (DeletePod srv) dels)"
  by (intro emits_intros) auto

lemma SyncStatus_frame:
  assumes "run_state (SyncStatus lib srv n node) h = ((e, n'), h')"
  shows "nmc_spec n' = nmc_spec n \<and> nmc_labels n' = nmc_labels n \<and> nmc_name n' = nmc_name n \<and>
    (nmc_wf n \<longrightarrow> nmc_wf n') \<and>
    (\<forall>pods k. s_pods srv h (worker_pods_query n) = Inr pods \<longrightarrow> k \<notin> pod_module ` set pods \<longrightarrow>
       find_status (nmc_status n') k = find_status (nmc_status n) k)"
proof (cases "n' = n")
  case False
  with assms obtain pods sts errs dels where
    l: "s_pods srv h (worker_pods_query n) = Inr pods"
    and s: "sync_pods lib (map spec_nsn (nmc_spec n)) node pods (nmc_status n, [], []) = Inr (sts, errs, dels)"
    and n': "n' = n\<lparr>nmc_status := sts\<rparr>"
    by (auto simp: SyncStatus_run Let_def simp del: join_errors_None split: sum.splits if_splits option.splits)
  from sync_pods_frame [OF s] show ?thesis unfolding n' using l by (auto simp: nmc_wf_def)
qed simp

text \<open>The run of a synchronisation that sees one finished loader pod.\<close>

lemma SyncStatus_one_loader:
  assumes ph: "pod_phase p = PodSucceeded" "\<not> IsUnloaderPod (Some p)"
    and listed: "s_pods srv h (worker_pods_query n) = Inr [p]"
    and cfg: "l_UnmarshalStrict_config lib (GetConfigAnnotation (Some p)) (nst_config (status_for (nmc_status n) p)) = (None, cfg)"
    and tol: "l_UnmarshalStrict_tolerations lib (GetTolerationsAnnotation (Some p))
           (mi_tolerations (nst_item (status_for (nmc_status n) p))) = (None, tols)"
    and sec: "pod_pull_secrets p \<noteq> Some []"
  obtains n' st where "snd (fst (run_state (SyncStatus lib srv n node) h)) = n'"
    "Patch_NMC_Status n n' \<in> set (calls (SyncStatus lib srv n node) h)"
    "find_status (nmc_status n') (pod_module p) = Some st" "nst_config st = cfg"
    "nst_boot_id st = node_boot_id node" "mi_version (nst_item st) = GetModuleVersionAnnotation (Some p)"
proof (rule sync_loader_records [OF cfg tol sec, of node "[]" "[]"])
  fix sts' st
  assume r: "sync_succeeded_loader lib node p (nmc_status n, [], []) = Inr (sts', [], [] @ [p])"
    and st: "find_status sts' (pod_module p) = Some st" "nst_config st = cfg"
      "nst_boot_id st = node_boot_id node" "mi_version (nst_item st) = GetModuleVersionAnnotation (Some p)"
  let ?n = "n\<lparr>nmc_status := sts'\<rparr>"
  let ?h2 = "h @ [List_Pods (worker_pods_query n), Patch_NMC_Status n ?n]"
  have s: "sync_pods lib (map spec_nsn (nmc_spec n)) node [p] (nmc_status n, [], []) = Inr (sts', [], [p])"
    using r ph by (simp add: sync_pod_def)
  then have 1: "snd (fst (run_state (SyncStatus lib srv n node) h)) = ?n"
    using listed by (simp add: SyncStatus_run Let_def split: option.split)
  have "\<exists>t. snd (run_state (SyncStatus lib srv n node) h) = ?h2 @ t"
    using s listed emits_history [OF calls_DeletePods [of "[p]" srv], of ?h2]
    by (auto simp: SyncStatus_run Let_def simp del: collect_errors.simps join_errors_None split: option.split)
  then have 2: "Patch_NMC_Status n ?n \<in> set (calls (SyncStatus lib srv n node) h)"
    by (auto simp: calls_def)
  have 3: "find_status (nmc_status ?n) (pod_module p) = Some st" using st(1) by simp
  show thesis by (rule that [OF 1 2 3 st(2-4)])
qed

section \<open>Lemmas on the node's labels\<close>

lemma keys_update: "fst ` set (AList.update k v l) = insert k (fst ` set l)"
  by (simp add: dom_update)

lemma keys_unloaded:
  "fst ` set (unloaded_labels dep ks) = fst ` set dep \<union>
     (\<Union>(ns, name)\<in>set ks. {GetKernelModuleReadyNodeLabel ns name, GetKernelModuleVersionReadyNodeLabel ns name})"
  unfolding unloaded_labels_def
  by (induction ks arbitrary: dep) (auto simp: keys_update split: prod.splits)

lemma loaded_fold:
  "distinct (map fst l0) \<Longrightarrow>
   (let l = fold (\<lambda>(ns, name) l.
         let l' = AList.update (GetKernelModuleReadyNodeLabel ns name) [] l in
         case map_of vs (ns, name) of
           None \<Rightarrow> l'
         | Some version \<Rightarrow> AList.update (GetKernelModuleVersionReadyNodeLabel ns name) version l') ks l0
    in distinct (map fst l) \<and>
       fst ` set l0 \<union> (\<Union>(ns, name)\<in>set ks. {GetKernelModuleReadyNodeLabel ns name}) \<subseteq> fst ` set l \<and>
       fst ` set l \<subseteq> fst ` set l0 \<union>
         (\<Union>(ns, name)\<in>set ks. {GetKernelModuleReadyNodeLabel ns name, GetKernelModuleVersionReadyNodeLabel ns name}))"
proof (induction ks arbitrary: l0)
  case Nil
  then show ?case by simp
next
  case (Cons k ks)
  obtain ns name where k: "k = (ns, name)" by force
  let ?l1 = "AList.update (GetKernelModuleReadyNodeLabel ns name) [] l0"
  let ?l2 = "case map_of vs (ns, name) of None \<Rightarrow> ?l1
     | Some version \<Rightarrow> AList.update (GetKernelModuleVersionReadyNodeLabel ns name) version ?l1"
  have "distinct (map fst ?l2)" using Cons.prems by (auto simp: distinct_update split: option.splits)
  from Cons.IH [OF this] show ?case
    by (auto simp: Let_def k keys_update split: option.splits)
qed

lemma loaded_labels_keys:
  "distinct (map fst (loaded_labels vs ks)) \<and>
   (\<Union>(ns, name)\<in>set ks. {GetKernelModuleReadyNodeLabel ns name}) \<subseteq> fst ` set (loaded_labels vs ks) \<and>
   fst ` set (loaded_labels vs ks) \<subseteq>
     (\<Union>(ns, name)\<in>set ks. {GetKernelModuleReadyNodeLabel ns name, GetKernelModuleVersionReadyNodeLabel ns name})"
  using loaded_fold [of "[]" vs ks] by (simp add: loaded_labels_def Let_def)

lemma ready_label_neq_version:
  "ready_nsn ns name \<Longrightarrow> valid_nsn ns' name' \<Longrightarrow>
     GetKernelModuleReadyNodeLabel ns name \<noteq> GetKernelModuleVersionReadyNodeLabel ns' name'"
proof
  assume r: "ready_nsn ns name" "valid_nsn ns' name'"
    and eq: "GetKernelModuleReadyNodeLabel ns name = GetKernelModuleVersionReadyNodeLabel ns' name'"
  from eq have "mk_label ''kmm.node.kubernetes.io/'' ''.ready'' ns name =
      mk_label ''kmm.node.kubernetes.io/'' ''.ready'' ns' (name' @ ''.version'')"
    by (simp add: ready_label_mk mk_label_def)
  with r have "name = name' @ ''.version''"
    using mk_label_inject [of ns ns'] by (auto simp: ready_nsn_def)
  with r show False by (auto simp: ready_nsn_def valid_name_def)
qed

lemma set_map_filter: "y \<in> set (List.map_filter f xs) \<longleftrightarrow> (\<exists>x\<in>set xs. f x = Some y)"
  by (induction xs) (auto simp: List.map_filter_def)

lemma node_ready_set:
  "k \<in> set (getNodeKernelModuleReadyLabels node) \<longleftrightarrow>
     ready_nsn (fst k) (snd k) \<and> has_key (node_labels node) (GetKernelModuleReadyNodeLabel (fst k) (snd k))"
proof -
  have eq: "((case IsKernelModuleReadyNodeLabel l of (ok, namespace, name) \<Rightarrow>
          if ok then Some (namespace, name) else None) = Some k) =
        (IsKernelModuleReadyNodeLabel l = (True, fst k, snd k))" for l
    by (cases "IsKernelModuleReadyNodeLabel l"; cases k) auto
  have "k \<in> set (getNodeKernelModuleReadyLabels node) \<longleftrightarrow>
      (\<exists>x\<in>set (node_labels node). IsKernelModuleReadyNodeLabel (fst x) = (True, fst k, snd k))"
    unfolding getNodeKernelModuleReadyLabels_def set_remdups set_map_filter case_prod_beta [of _ _] eq
    by (simp add: case_prod_beta eq [unfolded case_prod_beta])
  then show ?thesis unfolding ready.dec_iff has_key_dom by force
qed

lemma fold_update_map_of:
  "map_of (fold (\<lambda>x l. AList.update (f x) (g x) l) xs l0) k =
     (case find (\<lambda>x. f x = k) (rev xs) of Some x \<Rightarrow> Some (g x) | None \<Rightarrow> map_of l0 k)"
  by (induction xs rule: rev_induct) (auto simp: update_conv')

lemma find_snoc:
  "find P (ys @ [z]) = (case find P ys of Some y \<Rightarrow> Some y | None \<Rightarrow> if P z then Some z else None)"
  by (induction ys) auto

lemma find_rev_distinct: "distinct (map f xs) \<Longrightarrow> find (\<lambda>x. f x = k) (rev xs) = find (\<lambda>x. f x = k) xs"
proof (induction xs)
  case (Cons x xs)
  have "find (\<lambda>y. f y = f x) xs = None" using Cons.prems by (simp add: find_None_iff image_iff) metis
  with Cons show ?case by (cases "f x = k") (simp_all add: find_snoc split: option.splits)
qed simp

lemma spec_labels_map:
  assumes "nmc_wf n"
  shows "map_of (getSpecLabelsAndTheirConfigs n) (ns, name) =
     map_option nms_config (fst (GetModuleSpecEntry n ns name))"
proof -
  have "find (\<lambda>m. spec_nsn m = (ns, name)) (rev (nmc_spec n)) = find (\<lambda>m. spec_nsn m = (ns, name)) (nmc_spec n)"
    by (rule find_rev_distinct) (use assms in \<open>simp add: nmc_wf_def\<close>)
  then show ?thesis
    unfolding getSpecLabelsAndTheirConfigs_def fold_update_map_of GetModuleSpecEntry_find
    by (simp split: option.splits)
qed

lemma status_labels_map:
  assumes "nmc_wf n"
  shows "map_of (getStatusLabelsAndTheirConfigs n) (ns, name) =
     map_option nst_config (FindModuleStatus (nmc_status n) ns name)"
proof -
  have "find (\<lambda>m. status_nsn m = (ns, name)) (rev (nmc_status n)) =
        find (\<lambda>m. status_nsn m = (ns, name)) (nmc_status n)"
    by (rule find_rev_distinct) (use assms in \<open>simp add: nmc_wf_def\<close>)
  then show ?thesis
    unfolding getStatusLabelsAndTheirConfigs_def fold_update_map_of FindModuleStatus_find
    by (simp split: option.splits)
qed

text \<open>The labels of the node after an update.\<close>

lemma has_key_UpdateLabels:
  assumes "distinct (map fst add)"
  shows "has_key (node_labels (snd (fst (run_state (UpdateLabels srv n add rem) h)))) l \<longleftrightarrow>
    (has_key (node_labels n) l \<or> l \<in> fst ` set add) \<and> l \<notin> fst ` set rem"
proof -
  have "snd (fst (run_state (UpdateLabels srv n add rem) h)) = removeLabels rem (addLabels add n)"
    by (simp add: UpdateLabels_def Let_def do_write_def)
  moreover have "l \<in> fst ` set add \<longleftrightarrow> map_of add l \<noteq> None"
    by (simp add: has_key_dom [symmetric] has_key_def)
  ultimately show ?thesis
    by (auto simp: has_key_def map_of_removeLabels map_of_addLabels [OF assms] restrict_map_def map_add_def
        split: option.splits)
qed

lemma node_after_UpdateNodeLabels:
  "snd (fst (run_state (UpdateNodeLabels srv n node) h)) =
     snd (fst (run_state (UpdateLabels srv node
       (loaded_labels (getStatusVersions n) (addEqualLabels (getNodeKernelModuleReadyLabels node)
          (getSpecLabelsAndTheirConfigs n) (getStatusLabelsAndTheirConfigs n)))
       (unloaded_labels (getDeprecatedKernelModuleReadyLabels node)
          (removeOrphanedLabels (getNodeKernelModuleReadyLabels node)
             (getSpecLabelsAndTheirConfigs n) (getStatusLabelsAndTheirConfigs n)))) h))"
  by (simp add: UpdateNodeLabels_def Let_def case_prod_beta split: option.split)

lemma distinct_spec_labels: "distinct (map fst (getSpecLabelsAndTheirConfigs n))"
proof -
  have "distinct (map fst (fold (\<lambda>m l. AList.update (spec_nsn m) (nms_config m) l) ms l0))"
    if "distinct (map fst l0)" for ms and l0 :: "(nsn \<times> module_config) list"
    using that by (induction ms arbitrary: l0) (auto simp: distinct_update)
  then show ?thesis by (simp add: getSpecLabelsAndTheirConfigs_def)
qed

lemma set_addEqualLabels:
  "k \<in> set (addEqualLabels ready (getSpecLabelsAndTheirConfigs n) sl) \<longleftrightarrow>
     (\<exists>c. map_of (getSpecLabelsAndTheirConfigs n) k = Some c \<and> map_of sl k = Some c) \<and> k \<notin> set ready"
proof -
  have "k \<in> set (addEqualLabels ready (getSpecLabelsAndTheirConfigs n) sl) \<longleftrightarrow>
      (\<exists>c. (k, c) \<in> set (getSpecLabelsAndTheirConfigs n) \<and> map_of sl k = Some c \<and> k \<notin> set ready)"
    by (force simp: addEqualLabels_def)
  then show ?thesis unfolding map_of_eq_Some_iff [OF distinct_spec_labels] by blast
qed

lemma gc_in_use_run:
  assumes "s_pods srv h (worker_pods_query n) = Inr pods"
  shows "let r = run_state (GarbageCollectInUseLabels srv n) h; n' = snd (fst r);
             drop = (\<lambda>k. fst (IsModuleInUseLabel k) \<and> k \<notin> set (desired_in_use n pods)) in
    has_key (nmc_labels n') l = (has_key (nmc_labels n) l \<and> \<not> drop l) \<and>
    snd r = h @ List_Pods (worker_pods_query n) #
      (if list_ex drop (map fst (nmc_labels n)) then [Patch_NMC n n'] else [])"
proof -
  define drop where "drop = (\<lambda>k. fst (IsModuleInUseLabel k) \<and> k \<notin> set (desired_in_use n pods))"
  define D where "D = filter (\<lambda>k. k \<notin> set (desired_in_use n pods))
    (filter (\<lambda>k. fst (IsModuleInUseLabel k)) (map fst (nmc_labels n)))"
  define n2 where "n2 = n\<lparr>nmc_labels := filter (\<lambda>(k, v). k \<notin> set D) (nmc_labels n)\<rparr>"
  have e: "list_ex drop (map fst (nmc_labels n)) = (D \<noteq> [])"
    by (auto simp: D_def drop_def filter_empty_conv list_ex_iff)
  have r: "run_state (GarbageCollectInUseLabels srv n) h =
     (if D \<noteq> [] then ((s_write srv (h @ [List_Pods (worker_pods_query n)]) (Patch_NMC n n2), n2),
                       h @ [List_Pods (worker_pods_query n), Patch_NMC n n2])
      else ((None, n), h @ [List_Pods (worker_pods_query n)]))"
    using assms by (simp add: GarbageCollectInUseLabels_def run_ListWorkerPodsOnNode worker_pods_query_def
        Let_def do_write_def D_def n2_def)
  have "has_key (nmc_labels n2) l = (has_key (nmc_labels n) l \<and> \<not> drop l)"
    unfolding has_key_dom n2_def D_def drop_def by force
  moreover have "has_key (nmc_labels n) l \<Longrightarrow> D = [] \<Longrightarrow> \<not> drop l"
    by (auto simp: has_key_dom filter_empty_conv D_def drop_def)
  ultimately show ?thesis
    unfolding drop_def [symmetric] Let_def r e by (cases "D = []") auto
qed

lemma gc_in_use_lemma:
  assumes "s_pods srv h (worker_pods_query n) = Inr pods"
  shows "has_key (nmc_labels (snd (fst (run_state (GarbageCollectInUseLabels srv n) h)))) l =
    (has_key (nmc_labels n) l \<and> \<not> (fst (IsModuleInUseLabel l) \<and> l \<notin> set (desired_in_use n pods)))"
  using gc_in_use_run [OF assms] by (simp add: Let_def)

text \<open>A ready node, a module entry without status, its loader pod and a cluster that shows it finished.\<close>

definition node1 :: node where
  "node1 = \<lparr>node_name = ''node1'', node_uid = [], node_labels = [], node_taints = [], node_kernel_version = ''6.1.7'',
     node_boot_id = ''b1'', node_conditions = [(''Ready'', ''True'')], node_spec_rest = [], node_info_rest = []\<rparr>"

definition spec1 :: node_module_spec where
  "spec1 = \<lparr>nms_item = empty_item ''kmm'' ''mymod'', nms_config = empty_config\<lparr>cfg_image := ''reg/mymod''\<rparr>\<rparr>"

definition fresh_nmc :: nmc where
  "fresh_nmc = one_module_nmc\<lparr>nmc_spec := [spec1], nmc_status := []\<rparr>"

definition loader1 :: pod where
  "loader1 = projr (LoaderPodTemplate sample_mgr plain_library fresh_nmc spec1)"

definition finished_cluster :: server where
  "finished_cluster = empty_cluster\<lparr>s_pods := (\<lambda>h q. Inr [loader1\<lparr>pod_phase := PodSucceeded\<rparr>])\<rparr>"

lemma loader1_template: "LoaderPodTemplate sample_mgr plain_library fresh_nmc spec1 = Inr loader1"
proof -
  have "case LoaderPodTemplate sample_mgr plain_library fresh_nmc spec1 of Inl _ \<Rightarrow> False | Inr _ \<Rightarrow> True"
    by code_simp
  then show ?thesis by (auto simp: loader1_def split: sum.splits)
qed

lemma absent_worker: "worker_pod_shown empty_cluster h n item = Inl (ApiErr NotFound)"
  "worker_pod_shown finished_cluster h n item = Inl (ApiErr NotFound)" "IsNotFound (ApiErr NotFound)"
  by (simp_all add: worker_pod_shown_def empty_cluster_def finished_cluster_def IsNotFound_def)

lemma loader1_facts:
  "GetConfigAnnotation (Some loader1) = ''reg/mymod''" "pod_name loader1 = ''kmm-worker-node1-mymod''"
  "pod_module loader1 = (''kmm'', ''mymod'')"
  using loader_template [OF loader1_template]
  by (simp_all add: worker_pod_for_def plain_library_def spec1_def empty_item_def WorkerPodName_def
      fresh_nmc_def one_module_nmc_def)

lemma process_specs_unschedulable:
  assumes "rm \<noteq> [] \<or> (\<exists>m\<in>set ms. \<not> IsNodeSchedulable lib node (mi_tolerations (nms_item m)))"
  shows "snd (snd (fst (run_state (process_specs wpm lib srv n node ms sm errs rm) h))) \<noteq> []"
  using assms
proof (induction ms arbitrary: sm errs rm h)
  case (Cons m ms)
  have upd: "AList.update k v xs \<noteq> []" for k v and xs :: labels by (cases xs) auto
  show ?case
  proof (cases "IsNodeSchedulable lib node (mi_tolerations (nms_item m))")
    case False
    then show ?thesis using Cons.IH upd by (simp add: Let_def)
  next
    case True
    with Cons.prems have "rm \<noteq> [] \<or> (\<exists>m\<in>set ms. \<not> IsNodeSchedulable lib node (mi_tolerations (nms_item m)))"
      by auto
    with True Cons.IH show ?thesis by (simp add: Let_def split_beta)
  qed
qed simp

lemma UpdateLabels_remove_ok:
  assumes "\<And>h node'. s_write srv h (Patch_Node node node') = None"
  shows "fst (fst (run_state (UpdateLabels srv node [] rm) h)) = None"
  using assms by (auto simp: UpdateLabels_def do_write_def Let_def)

section \<open>Properties\<close>


text \<open>
  When no worker pod exists and the pod templates can be made, a reconciliation of a module entry
  creates exactly one worker pod if the module is not settled on the node, and requests no change if it
  is: the controller neither stalls nor keeps acting.
\<close>

theorem process_module_spec_progress:
  assumes "worker_pod_shown srv h n (nms_item spec) = Inl e" "IsNotFound e"
    and "LoaderPodTemplate wpm lib n spec = Inr lp"
    and "status = None \<or> (\<exists>st up. status = Some st \<and> UnloaderPodTemplate wpm lib n st = Inr up)"
  shows "\<exists>p. writes (ProcessModuleSpec wpm lib srv n spec status node) h =
      (if settled spec status node then [] else [Create_Pod p])"
proof -
  let ?g = "[Get_Pod (mi_namespace (nms_item spec), WorkerPodName (nmc_name n) (mi_name (nms_item spec)))]"
  let ?m = "ProcessModuleSpec wpm lib srv n spec status node"
  note run = ProcessModuleSpec_absent [OF assms(1,2), of wpm lib status node, unfolded Let_def]
  show ?thesis
  proof (cases status)
    case None
    with run have "snd (run_state ?m h) = h @ ?g @ [Create_Pod lp]"
      by (simp add: run_CreateLoaderPod [OF assms(3)])
    then show ?thesis using None by (simp add: writes_def calls_def settled_def)
  next
    case (Some st)
    with assms(4) obtain up where up: "UnloaderPodTemplate wpm lib n st = Inr up" by auto
    let ?u = "nms_config spec \<noteq> nst_config st \<and>
      cfg_kernel_version (nms_config spec) = cfg_kernel_version (nst_config st)"
    from run Some have "snd (run_state ?m h) = h @ ?g @
        (if settled spec status node then [] else if ?u then [Create_Pod up] else [Create_Pod lp])"
      by (auto simp: run_CreateLoaderPod [OF assms(3)] run_CreateUnloaderPod [OF up] settled_def)
    then show ?thesis by (cases "settled spec status node"; cases ?u) (auto simp: writes_def calls_def)
  qed
qed

theorem process_module_spec_progress_witness:
  "\<exists>p. writes (ProcessModuleSpec sample_mgr plain_library empty_cluster fresh_nmc spec1 None node1) [] = [Create_Pod p]"
  using process_module_spec_progress [OF absent_worker(1,3) loader1_template, of None node1 "[]"]
  by (simp add: settled_def)

text \<open>
  C3: the outcome of worker pods is recorded before they are deleted. A synchronisation requests the
  list of pods, then at most one patch of the status, then only removals of listed pods; and when the
  patch of the status fails, or a configuration could not be decoded, no pod is touched, so that the next
  reconciliation can compute the status again.
\<close>

theorem sync_status_patches_before_deleting:
  "\<exists>cs. calls (SyncStatus lib srv n node) h = List_Pods (worker_pods_query n) # cs \<and>
     (cs = [] \<or>
      (\<exists>n' rest pods. cs = Patch_NMC_Status n n' # rest \<and>
         s_pods srv h (worker_pods_query n) = Inr pods \<and>
         (rest = [] \<or> s_write srv (h @ [List_Pods (worker_pods_query n)]) (Patch_NMC_Status n n') = None) \<and>
         list_all (\<lambda>c. list_ex (\<lambda>p. c = Patch_Pod p (without_nmc_finalizer p) \<or>
                                    c = Delete_Pod (without_nmc_finalizer p)) pods) rest))"
proof (cases "s_pods srv h (worker_pods_query n)")
  case (Inl e)
  then show ?thesis by (simp add: calls_def SyncStatus_run Let_def)
next
  case (Inr pods)
  let ?s = "sync_pods lib (map spec_nsn (nmc_spec n)) node pods (nmc_status n, [], [])"
  show ?thesis
  proof (cases "pods = [] \<or> (\<exists>e. ?s = Inl e)")
    case True
    with Inr show ?thesis by (auto simp: calls_def SyncStatus_run Let_def)
  next
    case False
    then obtain sts errs dels where s: "?s = Inr (sts, errs, dels)" by (cases ?s) auto
    let ?n = "n\<lparr>nmc_status := sts\<rparr>" and ?q = "List_Pods (worker_pods_query n)"
    let ?h2 = "h @ [?q, Patch_NMC_Status n ?n]"
    let ?err = "s_write srv (h @ [?q]) (Patch_NMC_Status n ?n)"
    have sub: "set dels \<subseteq> set pods" using sync_pods_frame [OF s] by simp
    show ?thesis
    proof (cases "join_errors (errs @ [?err])")
      case (Some e)
      then have "calls (SyncStatus lib srv n node) h = [?q, Patch_NMC_Status n ?n]"
        using Inr False s by (simp add: calls_def SyncStatus_run Let_def)
      with Inr show ?thesis by (intro exI [of _ "[Patch_NMC_Status n ?n]"]) simp
    next
      case None
      let ?m = "collect_errors (DeletePod srv) dels"
      have "snd (run_state (SyncStatus lib srv n node) h) = snd (run_state ?m ?h2)"
        using Inr False s None by (simp add: SyncStatus_run Let_def del: join_errors_None)
      also have "\<dots> = ?h2 @ calls ?m ?h2" by (rule emits_history [OF calls_DeletePods])
      finally have "calls (SyncStatus lib srv n node) h = ?q # Patch_NMC_Status n ?n # calls ?m ?h2"
        unfolding calls_def [of "SyncStatus lib srv n node"] by simp
      moreover have "list_all (\<lambda>c. list_ex (\<lambda>p. c = Patch_Pod p (without_nmc_finalizer p) \<or>
          c = Delete_Pod (without_nmc_finalizer p)) pods) (calls ?m ?h2)"
        using emits_calls [OF calls_DeletePods [of dels srv], of _ ?h2] sub
        by (auto simp: list_all_iff list_ex_iff)
      moreover from None have "?err = None" by simp
      ultimately show ?thesis using Inr
        by (intro exI [of _ "Patch_NMC_Status n ?n # calls ?m ?h2"]) simp
    qed
  qed
qed

lemma loader_recorded:
  assumes tmpl: "LoaderPodTemplate wpm lib n spec = Inr p"
    and fresh: "find_status (nmc_status n) (spec_nsn spec) = None"
    and yaml: "l_UnmarshalStrict_config lib (GetConfigAnnotation (Some p)) empty_config = (None, nms_config spec)"
    and tols: "l_UnmarshalStrict_tolerations lib (GetTolerationsAnnotation (Some p)) [] = (None, ts)"
    and listed: "s_pods srv h (worker_pods_query n) = Inr [p\<lparr>pod_phase := PodSucceeded\<rparr>]"
    and absent: "worker_pod_shown srv h2 n (nms_item spec) = Inl e" "IsNotFound e"
  shows "\<exists>n' st. snd (fst (run_state (SyncStatus lib srv n node) h)) = n' \<and>
    Patch_NMC_Status n n' \<in> set (calls (SyncStatus lib srv n node) h) \<and>
    find_status (nmc_status n') (spec_nsn spec) = Some st \<and> nst_config st = nms_config spec \<and>
    mi_version (nst_item st) = mi_version (nms_item spec) \<and> settled spec (Some st) node \<and>
    writes (ProcessModuleSpec wpm lib srv n' spec (Some st) node) h2 = []"
proof -
  let ?p = "p\<lparr>pod_phase := PodSucceeded\<rparr>"
  note L = loader_template [OF tmpl]
  then have m: "pod_module ?p = spec_nsn spec" and u: "\<not> IsUnloaderPod (Some ?p)"
    and sec: "pod_pull_secrets ?p \<noteq> Some []"
    by (auto simp: worker_pod_for_def IsUnloaderPod_def)
  have an: "GetConfigAnnotation (Some ?p) = GetConfigAnnotation (Some p)"
    "GetTolerationsAnnotation (Some ?p) = GetTolerationsAnnotation (Some p)"
    "GetModuleVersionAnnotation (Some ?p) = GetModuleVersionAnnotation (Some p)"
    by (simp_all add: GetConfigAnnotation_def GetTolerationsAnnotation_def GetModuleVersionAnnotation_def annotation_def)
  have f: "nst_config (status_for (nmc_status n) ?p) = empty_config"
    "mi_tolerations (nst_item (status_for (nmc_status n) ?p)) = []"
    using fresh m by (simp_all add: status_for_def empty_item_def)
  obtain n' st where r: "snd (fst (run_state (SyncStatus lib srv n node) h)) = n'"
    "Patch_NMC_Status n n' \<in> set (calls (SyncStatus lib srv n node) h)"
    "find_status (nmc_status n') (pod_module ?p) = Some st" "nst_config st = nms_config spec"
    "nst_boot_id st = node_boot_id node" "mi_version (nst_item st) = GetModuleVersionAnnotation (Some ?p)"
    by (rule SyncStatus_one_loader [OF _ u listed, of lib "nms_config spec" ts node])
      (use yaml tols sec in \<open>simp_all add: an f\<close>)
  have set: "settled spec (Some st) node" using r by (simp add: settled_def)
  have "nmc_name n' = nmc_name n"
    using SyncStatus_frame [of lib srv n node h] r(1) by (metis prod.collapse)
  with absent have "worker_pod_shown srv h2 n' (nms_item spec) = Inl e" by (simp add: worker_pod_shown_def)
  from ProcessModuleSpec_absent [OF this absent(2)] set
  have "writes (ProcessModuleSpec wpm lib srv n' spec (Some st) node) h2 = []"
    by (simp add: writes_def calls_def settled_def Let_def)
  with r set m an L show ?thesis by auto
qed

text \<open>
  Loading a new module converges. When the loader pod that was created for a module entry without
  a status finishes, and its annotations decode to what was encoded, the synchronisation records a status
  with the requested configuration, the node's boot id and the module's version, and sends it to the
  server; the module is then settled on the node, and reconciling its entry requests no change.
\<close>

theorem load_protocol_settles:
  assumes tmpl: "LoaderPodTemplate wpm lib n spec = Inr p"
    and fresh: "find_status (nmc_status n) (spec_nsn spec) = None"
    and yaml: "l_UnmarshalStrict_config lib (GetConfigAnnotation (Some p)) empty_config = (None, nms_config spec)"
    and tols: "l_UnmarshalStrict_tolerations lib (GetTolerationsAnnotation (Some p)) [] = (None, ts)"
    and listed: "s_pods srv h (worker_pods_query n) = Inr [p\<lparr>pod_phase := PodSucceeded\<rparr>]"
    and absent: "worker_pod_shown srv h2 n (nms_item spec) = Inl e" "IsNotFound e"
  shows "\<exists>n' st. snd (fst (run_state (SyncStatus lib srv n node) h)) = n' \<and>
    Patch_NMC_Status n n' \<in> set (calls (SyncStatus lib srv n node) h) \<and>
    find_status (nmc_status n') (spec_nsn spec) = Some st \<and> nst_config st = nms_config spec \<and>
    mi_version (nst_item st) = mi_version (nms_item spec) \<and> settled spec (Some st) node \<and>
    writes (ProcessModuleSpec wpm lib srv n' spec (Some st) node) h2 = []"
  using assms by (rule loader_recorded)

theorem load_protocol_settles_witness:
  "\<exists>n' st. find_status (nmc_status n') (''kmm'', ''mymod'') = Some st \<and> settled spec1 (Some st) node1 \<and>
     writes (ProcessModuleSpec sample_mgr plain_library finished_cluster n' spec1 (Some st) node1) [] = []"
proof -
  have y: "l_UnmarshalStrict_config plain_library (GetConfigAnnotation (Some loader1)) empty_config =
      (None, nms_config spec1)"
    by (simp add: loader1_facts plain_library_def spec1_def)
  have t: "l_UnmarshalStrict_tolerations plain_library (GetTolerationsAnnotation (Some loader1)) [] = (None, [])"
    by (simp add: plain_library_def)
  have f: "find_status (nmc_status fresh_nmc) (spec_nsn spec1) = None" by (simp add: fresh_nmc_def)
  have l: "s_pods finished_cluster [] (worker_pods_query fresh_nmc) = Inr [loader1\<lparr>pod_phase := PodSucceeded\<rparr>]"
    by (simp add: finished_cluster_def)
  have id: "spec_nsn spec1 = (''kmm'', ''mymod'')" by (simp add: spec1_def empty_item_def)
  note * = load_protocol_settles [OF loader1_template f y t l absent_worker(2) [of "[]"] absent_worker(3), of node1]
  show ?thesis using * unfolding id by blast
qed

lemma ready_label_after_update:
  assumes wf: "nmc_wf n" and r: "ready_nsn ns name"
    and specs: "\<forall>m\<in>set (nmc_spec n). valid_nsn (mi_namespace (nms_item m)) (mi_name (nms_item m))"
  shows "has_key (node_labels (snd (fst (run_state (UpdateNodeLabels srv n node) h))))
           (GetKernelModuleReadyNodeLabel ns name) =
    ((\<exists>sp st. fst (GetModuleSpecEntry n ns name) = Some sp \<and> FindModuleStatus (nmc_status n) ns name = Some st \<and>
        nms_config sp = nst_config st) \<or>
     has_key (node_labels node) (GetKernelModuleReadyNodeLabel ns name) \<and>
     (fst (GetModuleSpecEntry n ns name) \<noteq> None \<or> FindModuleStatus (nmc_status n) ns name \<noteq> None))"
    (is "has_key _ ?l = _")
proof -
  let ?rdy = "getNodeKernelModuleReadyLabels node" and ?sp = "getSpecLabelsAndTheirConfigs n"
  let ?st = "getStatusLabelsAndTheirConfigs n"
  let ?add = "addEqualLabels ?rdy ?sp ?st" and ?rem = "removeOrphanedLabels ?rdy ?sp ?st"
  have inj: "?l = GetKernelModuleReadyNodeLabel a b \<longleftrightarrow> (a, b) = (ns, name)" if "ready_nsn a b" for a b
    using ready.enc_inj [OF r that] by auto
  have injv: "?l = GetKernelModuleReadyNodeLabel a b \<longleftrightarrow> (a, b) = (ns, name)" if "valid_nsn a b" for a b
    using mk_label_inject [of ns a] r that by (auto simp: ready_label_mk ready_nsn_def)
  have add_valid: "valid_nsn a b" if "(a, b) \<in> set ?add" for a b
  proof -
    from that have "fst (GetModuleSpecEntry n a b) \<noteq> None"
      by (auto simp: set_addEqualLabels spec_labels_map [OF wf])
    then show ?thesis using specs by (auto simp: GetModuleSpecEntry_find find_Some_iff)
  qed
  have "?l \<in> fst ` set (loaded_labels (getStatusVersions n) ?add) \<longleftrightarrow> (ns, name) \<in> set ?add"
  proof
    assume "?l \<in> fst ` set (loaded_labels (getStatusVersions n) ?add)"
    then obtain a b where ab: "(a, b) \<in> set ?add"
      "?l = GetKernelModuleReadyNodeLabel a b \<or> ?l = GetKernelModuleVersionReadyNodeLabel a b"
      using loaded_labels_keys [of "getStatusVersions n" ?add] by auto
    then show "(ns, name) \<in> set ?add"
      using ready_label_neq_version [OF r add_valid [OF ab(1)]] injv [OF add_valid [OF ab(1)]] by auto
  next
    assume "(ns, name) \<in> set ?add"
    then show "?l \<in> fst ` set (loaded_labels (getStatusVersions n) ?add)"
      using loaded_labels_keys [of "getStatusVersions n" ?add] by auto
  qed
  moreover have "?l \<in> fst ` set (unloaded_labels (getDeprecatedKernelModuleReadyLabels node) ?rem) \<longleftrightarrow>
      (ns, name) \<in> set ?rem"
  proof -
    have "?l \<notin> fst ` set (getDeprecatedKernelModuleReadyLabels node)"
      using ready_not_deprecated [of ns name] by (auto simp: getDeprecatedKernelModuleReadyLabels_def ready_label_mk)
    moreover have rr: "ready_nsn a b" if "(a, b) \<in> set ?rem" for a b
      using that node_ready_set [of "(a, b)" node] by (auto simp: removeOrphanedLabels_def)
    then have "?l \<noteq> GetKernelModuleVersionReadyNodeLabel a b" if "(a, b) \<in> set ?rem" for a b
      using ready_label_neq_version [OF r, of a b] that by (auto simp: ready_nsn_def)
    ultimately show ?thesis using inj rr unfolding keys_unloaded by fastforce
  qed
  ultimately show ?thesis
    unfolding node_after_UpdateNodeLabels has_key_UpdateLabels [OF conjunct1 [OF loaded_labels_keys]]
    using node_ready_set [of "(ns, name)" node] r
    by (auto simp: set_addEqualLabels removeOrphanedLabels_def has_key_def spec_labels_map [OF wf]
        status_labels_map [OF wf])
qed

text \<open>
  C13: the ready label of a node tells whether the module is loaded as requested. After an update the
  node has the ready label of a module exactly when its spec and status entries agree, or it had the label
  already and the module still has a spec or a status entry.
\<close>

theorem ready_labels_follow_status:
  assumes wf: "nmc_wf n" and r: "ready_nsn ns name"
    and specs: "\<forall>m\<in>set (nmc_spec n). valid_nsn (mi_namespace (nms_item m)) (mi_name (nms_item m))"
  shows "has_key (node_labels (snd (fst (run_state (UpdateNodeLabels srv n node) h))))
           (GetKernelModuleReadyNodeLabel ns name) =
    ((\<exists>sp st. fst (GetModuleSpecEntry n ns name) = Some sp \<and> FindModuleStatus (nmc_status n) ns name = Some st \<and>
        nms_config sp = nst_config st) \<or>
     has_key (node_labels node) (GetKernelModuleReadyNodeLabel ns name) \<and>
     (fst (GetModuleSpecEntry n ns name) \<noteq> None \<or> FindModuleStatus (nmc_status n) ns name \<noteq> None))"
  using assms by (rule ready_label_after_update)

theorem ready_labels_follow_status_witness:
  "has_key (node_labels (snd (fst (run_state (UpdateNodeLabels empty_cluster one_module_nmc node1) []))))
     (GetKernelModuleReadyNodeLabel ''kmm'' ''mymod'')"
proof -
  have r: "ready_nsn ''kmm'' ''mymod''" by code_simp
  have s: "\<forall>m\<in>set (nmc_spec one_module_nmc). valid_nsn (mi_namespace (nms_item m)) (mi_name (nms_item m))"
    by code_simp
  have "\<exists>sp st. fst (GetModuleSpecEntry one_module_nmc ''kmm'' ''mymod'') = Some sp \<and>
      FindModuleStatus (nmc_status one_module_nmc) ''kmm'' ''mymod'' = Some st \<and> nms_config sp = nst_config st"
    by (simp add: one_module_nmc_def GetModuleSpecEntry_def empty_item_def)
  then show ?thesis using ready_labels_follow_status [OF one_module_nmc_wf r s] by blast
qed

text \<open>
  Recording outcomes only touches the status entries of modules with a worker pod on the node: the
  spec and the labels stay, one entry per module stays one entry per module, and the status of a module
  without a listed pod is unchanged, whatever the pods, the libraries and the server answer.
\<close>

theorem sync_status_frame:
  "let n' = snd (fst (run_state (SyncStatus lib srv n node) h)) in
   nmc_spec n' = nmc_spec n \<and> nmc_labels n' = nmc_labels n \<and> (nmc_wf n \<longrightarrow> nmc_wf n') \<and>
   (\<forall>pods k. s_pods srv h (worker_pods_query n) = Inr pods \<longrightarrow> k \<notin> pod_module ` set pods \<longrightarrow>
      find_status (nmc_status n') k = find_status (nmc_status n) k)"
proof -
  obtain e n' h' where r: "run_state (SyncStatus lib srv n node) h = ((e, n'), h')" by (metis prod.collapse)
  from SyncStatus_frame [OF r] r show ?thesis by (simp add: Let_def)
qed

theorem sync_status_frame_witness:
  "let n' = snd (fst (run_state (SyncStatus plain_library empty_cluster one_module_nmc
      \<lparr>node_name = ''node1'', node_uid = [], node_labels = [], node_taints = [], node_kernel_version = [], node_boot_id = [],
       node_conditions = [], node_spec_rest = [], node_info_rest = []\<rparr>) []))
   in nmc_wf n' \<and> find_status (nmc_status n') (''kmm'', ''mymod'') = find_status (nmc_status one_module_nmc) (''kmm'', ''mymod'')"
  using sync_status_frame [of plain_library empty_cluster one_module_nmc
      "\<lparr>node_name = ''node1'', node_uid = [], node_labels = [], node_taints = [], node_kernel_version = [], node_boot_id = [],
       node_conditions = [], node_spec_rest = [], node_info_rest = []\<rparr>" "[]"] one_module_nmc_wf
  by (simp add: Let_def empty_cluster_def)

text \<open>
  Unloading converges. When the unloader pod made for a status entry finishes, the synchronisation
  removes the entry and sends the status to the server.
\<close>

theorem unload_protocol_removes_status:
  assumes tmpl: "UnloaderPodTemplate wpm lib n st = Inr p"
    and listed: "s_pods srv h (worker_pods_query n) = Inr [p\<lparr>pod_phase := PodSucceeded\<rparr>]"
  shows "\<exists>n'. snd (fst (run_state (SyncStatus lib srv n node) h)) = n' \<and>
    Patch_NMC_Status n n' \<in> set (calls (SyncStatus lib srv n node) h) \<and>
    find_status (nmc_status n') (status_nsn st) = None"
proof -
  let ?p = "p\<lparr>pod_phase := PodSucceeded\<rparr>"
  from unloader_template [OF tmpl] have m: "pod_module ?p = status_nsn st" and u: "IsUnloaderPod (Some ?p)"
    by (auto simp: worker_pod_for_def IsUnloaderPod_def)
  let ?sts = "RemoveModuleStatus (nmc_status n) (fst (pod_module ?p)) (snd (pod_module ?p))"
  let ?n = "n\<lparr>nmc_status := ?sts\<rparr>"
  let ?h2 = "h @ [List_Pods (worker_pods_query n), Patch_NMC_Status n ?n]"
  have s: "sync_pods lib (map spec_nsn (nmc_spec n)) node [?p] (nmc_status n, [], []) = Inr (?sts, [], [?p])"
    using u by (simp add: sync_pod_def)
  have "\<exists>t. snd (run_state (SyncStatus lib srv n node) h) = ?h2 @ t"
    using s listed emits_history [OF calls_DeletePods [of "[?p]" srv], of ?h2]
    by (auto simp: SyncStatus_run Let_def simp del: collect_errors.simps join_errors_None split: option.split)
  then have "Patch_NMC_Status n ?n \<in> set (calls (SyncStatus lib srv n node) h)" by (auto simp: calls_def)
  moreover have "snd (fst (run_state (SyncStatus lib srv n node) h)) = ?n"
    using s listed by (simp add: SyncStatus_run Let_def split: option.split)
  moreover have "find_status (nmc_status ?n) (status_nsn st) = None"
    using m by (simp add: FindModuleStatus_Remove)
  ultimately show ?thesis by (intro exI [of _ ?n]) blast
qed

theorem unload_protocol_removes_status_witness:
  "\<exists>p n'. snd (fst (run_state (SyncStatus plain_library
       (empty_cluster\<lparr>s_pods := (\<lambda>h q. Inr [p\<lparr>pod_phase := PodSucceeded\<rparr>])\<rparr>) one_module_nmc node1) [])) = n' \<and>
     find_status (nmc_status n') (''kmm'', ''mymod'') = None"
proof -
  let ?st = "hd (nmc_status one_module_nmc)"
  have "case UnloaderPodTemplate sample_mgr plain_library one_module_nmc ?st of Inl _ \<Rightarrow> False | Inr _ \<Rightarrow> True"
    by code_simp
  then obtain p where p: "UnloaderPodTemplate sample_mgr plain_library one_module_nmc ?st = Inr p"
    by (auto split: sum.splits)
  have "s_pods (empty_cluster\<lparr>s_pods := (\<lambda>h q. Inr [p\<lparr>pod_phase := PodSucceeded\<rparr>])\<rparr>) []
      (worker_pods_query one_module_nmc) = Inr [p\<lparr>pod_phase := PodSucceeded\<rparr>]" by simp
  from unload_protocol_removes_status [OF p this, of node1] show ?thesis
    by (auto simp: one_module_nmc_def empty_item_def)
qed

text \<open>
  Garbage collection of the in-use labels removes exactly the in-use labels that are not wanted by
  a spec entry, a status entry or a listed pod, with one patch when there is such a label and no request
  otherwise; every other label stays.
\<close>

theorem gc_in_use_labels_spec:
  assumes "s_pods srv h (worker_pods_query n) = Inr pods"
  shows "let r = run_state (GarbageCollectInUseLabels srv n) h; n' = snd (fst r);
             drop = (\<lambda>k. fst (IsModuleInUseLabel k) \<and> k \<notin> set (desired_in_use n pods)) in
    has_key (nmc_labels n') l = (has_key (nmc_labels n) l \<and> \<not> drop l) \<and>
    snd r = h @ List_Pods (worker_pods_query n) #
      (if list_ex drop (map fst (nmc_labels n)) then [Patch_NMC n n'] else [])"
  using gc_in_use_run [OF assms] .

theorem gc_in_use_labels_spec_witness:
  "has_key (nmc_labels (snd (fst (run_state (GarbageCollectInUseLabels empty_cluster one_module_nmc) []))))
     (ModuleInUseLabel ''kmm'' ''mymod'')"
proof -
  have p: "s_pods empty_cluster [] (worker_pods_query one_module_nmc) = Inr []"
    by (simp add: empty_cluster_def)
  have "ModuleInUseLabel ''kmm'' ''mymod'' \<in> set (desired_in_use one_module_nmc [])"
    "has_key (nmc_labels one_module_nmc) (ModuleInUseLabel ''kmm'' ''mymod'')"
    by (simp_all add: desired_in_use_def one_module_nmc_def empty_item_def has_key_def)
  then show ?thesis
    using gc_in_use_labels_spec [OF p, of "ModuleInUseLabel ''kmm'' ''mymod''"] by (simp add: Let_def)
qed

text \<open>
  A worker pod that is still running does not keep the in-use label of its module. The label kept
  for a pod is made from the pod's name where the module's namespace belongs, so the label of a module
  without spec and status entries is removed although a worker pod of the module is listed, unless some
  pod happens to have the namespace as its name.
\<close>

theorem worker_pod_does_not_keep_in_use_label:
  assumes listed: "s_pods srv h (worker_pods_query n) = Inr pods" and "p \<in> set pods" "pod_module p = (ns, name)"
    and v: "valid_nsn ns name"
    and entries: "\<forall>k\<in>spec_nsn ` set (nmc_spec n) \<union> status_nsn ` set (nmc_status n). valid_ns (fst k) \<and> k \<noteq> (ns, name)"
    and names: "\<forall>q\<in>set pods. valid_ns (pod_name q) \<and> pod_name q \<noteq> ns"
  shows "\<not> has_key (nmc_labels (snd (fst (run_state (GarbageCollectInUseLabels srv n) h)))) (ModuleInUseLabel ns name)"
proof -
  have inj: "ModuleInUseLabel ns name \<noteq> ModuleInUseLabel a b" if "valid_ns a" "(a, b) \<noteq> (ns, name)" for a b
    using mk_label_inject [of ns a] v that by (auto simp: nmc_label_mk)
  have "ModuleInUseLabel ns name \<noteq> ModuleInUseLabel (mi_namespace (nms_item m)) (mi_name (nms_item m))"
    if "m \<in> set (nmc_spec n)" for m
    using entries [THEN bspec, of "spec_nsn m"] that by (intro inj) simp_all
  moreover have "ModuleInUseLabel ns name \<noteq> ModuleInUseLabel (mi_namespace (nst_item m)) (mi_name (nst_item m))"
    if "m \<in> set (nmc_status n)" for m
    using entries [THEN bspec, of "status_nsn m"] that by (intro inj) simp_all
  moreover have "ModuleInUseLabel ns name \<noteq> ModuleInUseLabel (pod_name q) (label_of (pod_labels q) ModuleNameLabel)"
    if "q \<in> set pods" for q
    by (rule inj) (use names that in auto)
  ultimately have "ModuleInUseLabel ns name \<notin> set (desired_in_use n pods)"
    unfolding desired_in_use_def set_append set_map by blast
  moreover have "fst (IsModuleInUseLabel (ModuleInUseLabel ns name))"
    using in_use.dec_enc [of ns name] v by simp
  ultimately show ?thesis
    using gc_in_use_lemma [OF listed, of "ModuleInUseLabel ns name"] by simp
qed

theorem worker_pod_does_not_keep_in_use_label_witness:
  "has_key (nmc_labels (fresh_nmc\<lparr>nmc_spec := []\<rparr>)) (ModuleInUseLabel ''kmm'' ''mymod'') \<and>
   \<not> has_key (nmc_labels (snd (fst (run_state (GarbageCollectInUseLabels
        (empty_cluster\<lparr>s_pods := (\<lambda>h q. Inr [loader1])\<rparr>) (fresh_nmc\<lparr>nmc_spec := []\<rparr>)) []))))
      (ModuleInUseLabel ''kmm'' ''mymod'')"
proof -
  let ?n = "fresh_nmc\<lparr>nmc_spec := []\<rparr>"
  have l: "s_pods (empty_cluster\<lparr>s_pods := (\<lambda>h q. Inr [loader1])\<rparr>) [] (worker_pods_query ?n) = Inr [loader1]" by simp
  have "valid_nsn ''kmm'' ''mymod''" by code_simp
  moreover have "valid_ns ''kmm-worker-node1-mymod''" by code_simp
  ultimately have "\<not> has_key (nmc_labels (snd (fst (run_state (GarbageCollectInUseLabels
        (empty_cluster\<lparr>s_pods := (\<lambda>h q. Inr [loader1])\<rparr>) ?n) [])))) (ModuleInUseLabel ''kmm'' ''mymod'')"
    by (intro worker_pod_does_not_keep_in_use_label [OF l _ loader1_facts(3)])
      (simp_all add: loader1_facts fresh_nmc_def)
  then show ?thesis by (simp add: fresh_nmc_def one_module_nmc_def has_key_def)
qed

text \<open>
  One module the node cannot schedule hides the errors of every other module. When the status was
  synchronised and some module of the spec does not tolerate a taint of the node, reconciling returns no
  error and skips the collection of labels and pods, whatever went wrong with the other modules, as long
  as the labels of the node can be patched.
\<close>

theorem unschedulable_module_hides_errors:
  assumes nmc: "s_nmc srv h name = Inr n"
    and node: "s_node srv (h @ [Get_NMC name]) (nmc_name n) = Inr nd"
    and sync: "fst (fst (run_state (SyncStatus lib srv n nd) (h @ [Get_NMC name, Get_Node (nmc_name n)]))) = None"
    and unsched: "\<exists>m\<in>set (nmc_spec n). \<not> IsNodeSchedulable lib nd (mi_tolerations (nms_item m))"
    and writes: "\<And>h nd'. s_write srv h (Patch_Node nd nd') = None"
  shows "fst (run_state (NMC_Reconcile wpm lib srv name) h) = None"
proof -
  obtain n' h' where r: "run_state (SyncStatus lib srv n nd) (h @ [Get_NMC name, Get_Node (nmc_name n)]) = ((None, n'), h')"
    using sync by (metis prod.collapse)
  from SyncStatus_frame [OF r] have "nmc_spec n' = nmc_spec n" by simp
  with unsched have ne: "snd (snd (fst (run_state (process_specs wpm lib srv n' nd (nmc_spec n') (status_map n') [] []) h'))) \<noteq> []"
    by (intro process_specs_unschedulable) simp
  have u: "fst (fst (run_state (UpdateLabels srv nd [] rm) h)) = None" for rm h
    by (rule UpdateLabels_remove_ok) (rule writes)
  show ?thesis
    using nmc node r ne u
    by (simp add: NMC_Reconcile_def get_nmc_def get_node_def split_beta)
qed


definition tainted_node :: node where
  "tainted_node = node1\<lparr>node_taints := [\<lparr>taint_key = ''k'', taint_value = [], taint_effect = ''NoSchedule''\<rparr>]\<rparr>"

text \<open>No pod can be created; the second module of the entry tolerates the taint of the node.\<close>

definition pods_refused :: server where
  "pods_refused = empty_cluster\<lparr>
     s_nmc := (\<lambda>h n. Inr (fresh_nmc\<lparr>nmc_spec := [spec1, \<lparr>nms_item = (empty_item ''kmm'' ''other'')\<lparr>mi_tolerations :=
         [\<lparr>tol_key = ''k'', tol_operator = ''Exists'', tol_value = [], tol_effect = [], tol_seconds = None\<rparr>]\<rparr>, nms_config = nms_config spec1\<rparr>]\<rparr>)),
     s_node := (\<lambda>h n. Inr tainted_node),
     s_write := (\<lambda>h c. case c of Create_Pod _ \<Rightarrow> Some (ApiErr Conflict) | _ \<Rightarrow> None)\<rparr>"

theorem unschedulable_module_hides_errors_witness:
  "fst (run_state (NMC_Reconcile sample_mgr plain_library pods_refused ''node1'') []) = None"
proof -
  obtain n where n: "s_nmc pods_refused [] ''node1'' = Inr n" "spec1 \<in> set (nmc_spec n)"
    by (simp add: pods_refused_def)
  have nd: "s_node pods_refused ([] @ [Get_NMC ''node1'']) (nmc_name n) = Inr tainted_node"
    by (simp add: pods_refused_def)
  have "s_pods pods_refused h q = Inr []" "s_write pods_refused h (Patch_NMC_Status a b) = None"
    "s_write pods_refused h (Patch_Node a' b') = None" for h q a b a' b'
    by (simp_all add: pods_refused_def empty_cluster_def)
  moreover have "\<not> IsNodeSchedulable plain_library tainted_node (mi_tolerations (nms_item spec1))" by code_simp
  ultimately show ?thesis
    using n(2) by (intro unschedulable_module_hides_errors [OF n(1) nd])
      (auto simp: SyncStatus_run Let_def)
qed

end
