(* ===== verification/Mic.thy ===== *)
theory Mic
  imports Client
begin

text \<open>
  The store of module images, \<^verbatim>\<open>internal/mic/mic.go\<close>: a ModuleImagesConfig lists the images a
  module needs and records the state of each. The operations mutate the object; here they return it.
\<close>

section \<open>Operations\<close>

fun filter_images :: "string set \<Rightarrow> image_spec list \<Rightarrow> image_spec list" where
  "filter_images imagesSet [] = []"
| "filter_images imagesSet (img # images) =
     (if is_image img \<notin> imagesSet
      then img # filter_images (insert (is_image img) imagesSet) images
      else filter_images imagesSet images)"

definition filterDuplicateImages :: "image_spec list \<Rightarrow> image_spec list" where
  "filterDuplicateImages images = filter_images {} images"

definition new_mic :: "string \<Rightarrow> string \<Rightarrow> mic" where
  "new_mic name ns = \<lparr>mic_name = name, mic_namespace = ns, mic_uid = [], mic_deleting = False, mic_owner = None,
     mic_spec = \<lparr>ics_images = [], ics_repo_secret = None, ics_pull_policy = [], ics_push = False,
       ics_rebuild_trigger = None, ics_tolerations = []\<rparr>, mic_states = [], mic_status_trigger = None\<rparr>"

text \<open>The mutation that \<open>CreateOrPatch\<close> applies: the whole spec is replaced and the owner set.\<close>

definition mutate_mic :: "library \<Rightarrow> mic_spec \<Rightarrow> owner_ref \<Rightarrow> mic \<Rightarrow> go_err + mic" where
  "mutate_mic lib spec owner m =
     and_then (l_SetControllerReference lib owner (mic_owner m)) (\<lambda>ow. Inr (m\<lparr>mic_spec := spec, mic_owner := ow\<rparr>))"

definition CreateOrPatch ::
  "library \<Rightarrow> server \<Rightarrow> string \<Rightarrow> string \<Rightarrow> image_spec list \<Rightarrow> string option \<Rightarrow> string \<Rightarrow> bool \<Rightarrow> int option \<Rightarrow>
   toleration list \<Rightarrow> owner_ref \<Rightarrow> (go_err option) cio" where
  "CreateOrPatch lib srv name ns images imageRepoSecret pullPolicy pushBuiltImage trigger tolerations owner =
     (let spec = \<lparr>ics_images = filterDuplicateImages images, ics_repo_secret = imageRepoSecret,
                  ics_pull_policy = pullPolicy, ics_push = pushBuiltImage, ics_rebuild_trigger = trigger,
                  ics_tolerations = tolerations\<rparr>
      in do {
        e \<leftarrow> Client.CreateOrPatch srv (get_mic srv (ns, name)) (new_mic name ns) (mutate_mic lib spec owner)
               Create_MIC Patch_MIC;
        State_Monad.return (errorf_opt ''failed to create or patch'' e)
      })"

definition Get :: "server \<Rightarrow> string \<Rightarrow> string \<Rightarrow> (go_err + mic) cio" where
  "Get srv name ns = do {
     r \<leftarrow> get_mic srv (ns, name);
     State_Monad.return (map_sum (Errorf ''could not get ModuleImagesConfig'') id r)
   }"

definition GetModuleImageSpec :: "mic \<Rightarrow> string \<Rightarrow> image_spec option" where
  "GetModuleImageSpec m img = find (\<lambda>s. is_image s = img) (ics_images (mic_spec m))"

definition SetImageStatus :: "mic \<Rightarrow> string \<Rightarrow> image_state \<Rightarrow> mic" where
  "SetImageStatus m img status =
     m\<lparr>mic_states := upsert (\<lambda>s. mis_image s = img) \<lparr>mis_image = img, mis_status = status\<rparr> (mic_states m)\<rparr>"

fun image_state_in :: "module_image_state list \<Rightarrow> string \<Rightarrow> image_state" where
  "image_state_in [] img = ImageStateUnset"
| "image_state_in (s # ss) img = (if mis_image s = img then mis_status s else image_state_in ss img)"

definition GetImageState :: "mic \<Rightarrow> string \<Rightarrow> image_state" where
  "GetImageState m img = image_state_in (mic_states m) img"

definition DoAllImagesExist :: "mic \<Rightarrow> bool" where
  "DoAllImagesExist m =
     (let imagesStates = fold (\<lambda>img t. AList.update (mis_image img) (mis_status img) t) (mic_states m) []
      in list_all (\<lambda>img. map_of imagesStates (is_image img) = Some ImageExists) (ics_images (mic_spec m)))"

lemma does_Get_mic:
  assumes "P (Get_MIC (ns, name))"
  shows "does P (\<lambda>r. \<exists>h. r = map_sum (Errorf ''could not get ModuleImagesConfig'') id (s_mic srv h (ns, name))) (Get srv name ns)"
  unfolding Get_def by (rule does_bind [OF does_requests(2)]) (auto intro!: does_intros assms)

section \<open>The states as a map\<close>

definition lookup_state :: "mic \<Rightarrow> string \<Rightarrow> image_state option" where
  "lookup_state m img = map_option mis_status (find (\<lambda>s. mis_image s = img) (mic_states m))"

lemma GetImageState_lookup:
  "GetImageState m img = (case lookup_state m img of None \<Rightarrow> ImageStateUnset | Some s \<Rightarrow> s)"
proof -
  have "image_state_in ss img =
      (case map_option mis_status (find (\<lambda>s. mis_image s = img) ss) of None \<Rightarrow> ImageStateUnset | Some s \<Rightarrow> s)" for ss
    by (induction ss) auto
  then show ?thesis by (simp add: GetImageState_def lookup_state_def)
qed

interpretation image_states: keyed_store lookup_state "\<lambda>i m. SetImageStatus m (fst i) (snd i)" fst snd
proof
  fix i :: "string \<times> image_state" and m k
  have u: "find (\<lambda>s. mis_image s = k) (upsert (\<lambda>s. mis_image s = fst i) \<lparr>mis_image = fst i, mis_status = snd i\<rparr> ss) =
      (if k = fst i then Some \<lparr>mis_image = fst i, mis_status = snd i\<rparr> else find (\<lambda>s. mis_image s = k) ss)" for k ss
    using find_upsert_key [of mis_image k "\<lparr>mis_image = fst i, mis_status = snd i\<rparr>" ss] by simp
  show "lookup_state (SetImageStatus m (fst i) (snd i)) (fst i) = Some (snd i)"
    by (simp add: lookup_state_def SetImageStatus_def u)
  show "k \<noteq> fst i \<Longrightarrow> lookup_state (SetImageStatus m (fst i) (snd i)) k = lookup_state m k"
    by (simp add: lookup_state_def SetImageStatus_def u)
qed

lemma GetImageState_Set:
  "GetImageState (SetImageStatus m img st) k = (if k = img then st else GetImageState m k)"
  using image_states.get_put_if [of m "(img, st)" k] by (simp add: GetImageState_lookup)

lemma SetImageStatus_frame_mic [simp]:
  "mic_spec (SetImageStatus m img st) = mic_spec m" "mic_name (SetImageStatus m img st) = mic_name m"
  "mic_namespace (SetImageStatus m img st) = mic_namespace m" "mic_uid (SetImageStatus m img st) = mic_uid m"
  "mic_deleting (SetImageStatus m img st) = mic_deleting m" "mic_owner (SetImageStatus m img st) = mic_owner m"
  "mic_status_trigger (SetImageStatus m img st) = mic_status_trigger m"
  by (simp_all add: SetImageStatus_def)

text \<open>One recorded state per image.\<close>

definition mic_wf :: "mic \<Rightarrow> bool" where
  "mic_wf m = distinct (map mis_image (mic_states m))"

lemma mic_wf_SetImageStatus: "mic_wf m \<Longrightarrow> mic_wf (SetImageStatus m img st)"
  unfolding mic_wf_def SetImageStatus_def
  by (auto intro!: distinct_upsert [where key = mis_image])

lemma GetModuleImageSpec_frame [simp]: "GetModuleImageSpec (SetImageStatus m img st) k = GetModuleImageSpec m k"
  by (simp add: GetModuleImageSpec_def)

lemma GetModuleImageSpec_image: "GetModuleImageSpec m k = Some s \<Longrightarrow> is_image s = k \<and> s \<in> set (ics_images (mic_spec m))"
  by (auto simp: GetModuleImageSpec_def find_Some_iff)

lemma map_of_states:
  "distinct (map mis_image ss) \<Longrightarrow>
     map_of (fold (\<lambda>img t. AList.update (mis_image img) (mis_status img) t) ss acc) k =
     (case find (\<lambda>s. mis_image s = k) ss of None \<Rightarrow> map_of acc k | Some s \<Rightarrow> Some (mis_status s))"
proof (induction ss arbitrary: acc)
  case (Cons s ss)
  show ?case
  proof (cases "mis_image s = k")
    case True
    with Cons.prems have "find (\<lambda>s. mis_image s = k) ss = None"
      unfolding find_None_iff by (metis distinct.simps(2) image_eqI image_set list.simps(9))
    with Cons True show ?thesis by (simp add: update_conv')
  next
    case False
    with Cons show ?thesis by (auto simp: update_conv' split: option.split)
  qed
qed simp

lemma filter_images_distinct:
  "distinct (map is_image (filter_images S xs)) \<and> is_image ` set (filter_images S xs) = is_image ` set xs - S"
  by (induction xs arbitrary: S) auto

lemma find_filter_images:
  "i \<notin> S \<Longrightarrow> find (\<lambda>y. is_image y = i) (filter_images S xs) = find (\<lambda>y. is_image y = i) xs"
  by (induction xs arbitrary: S) auto

lemma emits_CreateOrPatch_mic [emits_intros]:
  assumes "P (Get_MIC (ns, name))" and "\<And>m. P (Create_MIC m)" and "\<And>b m. P (Patch_MIC b m)"
  shows "emits P (CreateOrPatch lib srv name ns images sec pol push trig tols ow)"
  unfolding CreateOrPatch_def Let_def by (intro emits_intros assms)

lemma emits_Get_mic [emits_intros]: "P (Get_MIC (ns, name)) \<Longrightarrow> emits P (Mic.Get srv name ns)"
  unfolding Get_def by (intro emits_intros)

section \<open>Properties\<close>

text \<open>
  The recorded states behave as a map from images to states: setting the state of an image is a map
  update, any sequence of settings leaves the last state set for each image, and one entry per image is kept.
\<close>

theorem image_states_refine_map:
  "lookup_state (SetImageStatus m img st) = (lookup_state m)(img \<mapsto> st) \<and>
   GetImageState (fold (\<lambda>(i, s) m. SetImageStatus m i s) ups m) k =
     (case find (\<lambda>u. fst u = k) (rev ups) of None \<Rightarrow> GetImageState m k | Some u \<Rightarrow> snd u) \<and>
   (mic_wf m \<longrightarrow> mic_wf (fold (\<lambda>(i, s) m. SetImageStatus m i s) ups m))"
proof (intro conjI impI)
  show "lookup_state (SetImageStatus m img st) = (lookup_state m)(img \<mapsto> st)"
    using image_states.put_refines_update [of m "(img, st)"] by simp
  have f: "fold (\<lambda>(i, s) m. SetImageStatus m i s) ups m = fold (\<lambda>i m. SetImageStatus m (fst i) (snd i)) ups m"
    by (rule fold_cong) auto
  show "GetImageState (fold (\<lambda>(i, s) m. SetImageStatus m i s) ups m) k =
     (case find (\<lambda>u. fst u = k) (rev ups) of None \<Rightarrow> GetImageState m k | Some u \<Rightarrow> snd u)"
    unfolding f GetImageState_lookup image_states.get_fold_put by (auto split: option.split)
  show "mic_wf m \<Longrightarrow> mic_wf (fold (\<lambda>(i, s) m. SetImageStatus m i s) ups m)"
    by (induction ups arbitrary: m) (auto simp: mic_wf_SetImageStatus)
qed

text \<open>
  With one entry per image, all images exist exactly when the recorded state of each image of the spec
  is \<open>ImageExists\<close>.
\<close>

theorem all_images_exist_spec:
  assumes "mic_wf m"
  shows "DoAllImagesExist m = list_all (\<lambda>img. GetImageState m (is_image img) = ImageExists) (ics_images (mic_spec m))"
proof -
  have "map_of (fold (\<lambda>img t. AList.update (mis_image img) (mis_status img) t) (mic_states m) []) k = lookup_state m k" for k
    using assms by (simp add: map_of_states mic_wf_def lookup_state_def option.case_eq_if map_option_case)
  then show ?thesis
    by (auto simp: DoAllImagesExist_def Let_def GetImageState_lookup list_all_iff split: option.splits)
qed

text \<open>
  A ModuleImagesConfig the operator writes names every requested image exactly once, with the settings of
  its first occurrence in the request.
\<close>

theorem written_images_are_unique:
  assumes "c \<in> set (calls (CreateOrPatch lib srv name ns images sec pol push trig tols ow) h)" "is_write c"
  shows "\<exists>m. (c = Create_MIC m \<or> (\<exists>b. c = Patch_MIC b m)) \<and> distinct (map is_image (ics_images (mic_spec m))) \<and>
    (\<forall>i. GetModuleImageSpec m i = find (\<lambda>s. is_image s = i) images)"
proof -
  let ?ok = "\<lambda>m. ics_images (mic_spec m) = filterDuplicateImages images"
  have mut: "?ok obj" if "mutate_mic lib s ow b = Inr obj" "ics_images s = filterDuplicateImages images" for s b obj
    using that by (auto simp: mutate_mic_def and_then_Inr)
  have "emits (\<lambda>c. c = Get_MIC (ns, name) \<or> (\<exists>m. (c = Create_MIC m \<or> (\<exists>b. c = Patch_MIC b m)) \<and> ?ok m))
      (CreateOrPatch lib srv name ns images sec pol push trig tols ow)"
    unfolding CreateOrPatch_def Let_def by (intro emits_intros) (auto dest!: mut)
  from emits_calls [OF this assms(1)] assms(2)
  obtain m where m: "c = Create_MIC m \<or> (\<exists>b. c = Patch_MIC b m)" "?ok m" by auto
  moreover have "GetModuleImageSpec m i = find (\<lambda>s. is_image s = i) images" for i
    by (simp add: GetModuleImageSpec_def m(2) filterDuplicateImages_def find_filter_images)
  ultimately show ?thesis using filter_images_distinct [of "{}" images] by (auto simp: filterDuplicateImages_def)
qed

end
