(* ===== verification/Mbsc.thy ===== *)
theory Mbsc
  imports Client
begin

text \<open>
  The store of build and sign requests, \<^verbatim>\<open>internal/mbsc/mbsc.go\<close>: a ModuleBuildSignConfig lists the
  images to build or sign and records the outcome of the action for each image.
\<close>

section \<open>Operations\<close>

text \<open>\<open>(nil, nil)\<close> when the object does not exist.\<close>

definition Get :: "server \<Rightarrow> string \<Rightarrow> string \<Rightarrow> (go_err + mbsc option) cio" where
  "Get srv name namespace = do {
     r \<leftarrow> get_mbsc srv (namespace, name);
     State_Monad.return (case r of
       Inl e \<Rightarrow> if IsNotFound e then Inr None else Inl (Errorf ''failed to get ModuleBuildSignConfig object'' e)
     | Inr m \<Rightarrow> Inr (Some m))
   }"

definition Delete :: "server \<Rightarrow> string \<Rightarrow> string \<Rightarrow> (go_err option) cio" where
  "Delete srv name namespace = do {
     e \<leftarrow> do_write srv (Delete_MBSC (namespace, name));
     State_Monad.return (map_option (Errorf ''failed to delete ModuleBuildSignConfig object'') (IgnoreNotFound e))
   }"

definition setModuleImageSpec :: "mbsc \<Rightarrow> image_spec \<Rightarrow> action \<Rightarrow> mbsc" where
  "setModuleImageSpec m spec act =
     m\<lparr>mbsc_images := upsert (\<lambda>s. is_image (bss_spec s) = is_image spec) \<lparr>bss_spec = spec, bss_action = act\<rparr> (mbsc_images m)\<rparr>"

definition new_mbsc :: "string \<Rightarrow> string \<Rightarrow> mbsc" where
  "new_mbsc name ns = \<lparr>mbsc_name = name, mbsc_namespace = ns, mbsc_uid = [], mbsc_deleting = False, mbsc_owner = None,
     mbsc_images = [], mbsc_repo_secret = None, mbsc_push = False, mbsc_tolerations = [], mbsc_status = []\<rparr>"

definition mutate_mbsc :: "library \<Rightarrow> mic \<Rightarrow> image_spec \<Rightarrow> action \<Rightarrow> mbsc \<Rightarrow> go_err + mbsc" where
  "mutate_mbsc lib micObj spec act m =
     (let m' = (setModuleImageSpec m spec act)
                 \<lparr>mbsc_repo_secret := ics_repo_secret (mic_spec micObj), mbsc_push := ics_push (mic_spec micObj),
                  mbsc_tolerations := ics_tolerations (mic_spec micObj)\<rparr>
      in and_then (l_SetControllerReference lib (mic_owner_of micObj) (mbsc_owner m'))
           (\<lambda>ow. Inr (m'\<lparr>mbsc_owner := ow\<rparr>)))"

definition CreateOrPatch :: "library \<Rightarrow> server \<Rightarrow> mic \<Rightarrow> image_spec \<Rightarrow> action \<Rightarrow> (go_err option) cio" where
  "CreateOrPatch lib srv micObj spec act =
     Client.CreateOrPatch srv (get_mbsc srv (mic_namespace micObj, mic_name micObj))
       (new_mbsc (mic_name micObj) (mic_namespace micObj)) (mutate_mbsc lib micObj spec act) Create_MBSC Patch_MBSC"

definition GetImageSpec :: "mbsc \<Rightarrow> string \<Rightarrow> build_sign_spec option" where
  "GetImageSpec m img = find (\<lambda>s. is_image (bss_spec s) = img) (mbsc_images m)"

definition SetImageStatus :: "mbsc \<Rightarrow> string \<Rightarrow> action \<Rightarrow> action_status \<Rightarrow> mbsc" where
  "SetImageStatus m img act status =
     m\<lparr>mbsc_status := upsert (\<lambda>s. bst_image s = img) \<lparr>bst_image = img, bst_status = status, bst_action = act\<rparr> (mbsc_status m)\<rparr>"

definition GetImageStatus :: "mbsc \<Rightarrow> string \<Rightarrow> action \<Rightarrow> action_status" where
  "GetImageStatus m img act =
     (case find (\<lambda>s. bst_image s = img \<and> bst_action s = act) (mbsc_status m) of
        Some s \<Rightarrow> bst_status s | None \<Rightarrow> ActionUnset)"

section \<open>The stores as maps\<close>

definition lookup_outcome :: "mbsc \<Rightarrow> string \<Rightarrow> (action \<times> action_status) option" where
  "lookup_outcome m img = map_option (\<lambda>s. (bst_action s, bst_status s)) (find (\<lambda>s. bst_image s = img) (mbsc_status m))"

interpretation outcomes: keyed_store lookup_outcome "\<lambda>i m. SetImageStatus m (fst i) (fst (snd i)) (snd (snd i))" fst snd
proof
  fix i :: "string \<times> action \<times> action_status" and m k
  obtain a b c where i: "i = (a, b, c)" by (cases i)
  have u: "find (\<lambda>s. bst_image s = k) (upsert (\<lambda>s. bst_image s = a) \<lparr>bst_image = a, bst_status = c, bst_action = b\<rparr> ss) =
      (if k = a then Some \<lparr>bst_image = a, bst_status = c, bst_action = b\<rparr> else find (\<lambda>s. bst_image s = k) ss)" for k ss
    using find_upsert_key [of bst_image k "\<lparr>bst_image = a, bst_status = c, bst_action = b\<rparr>" ss] by simp
  show "lookup_outcome (SetImageStatus m (fst i) (fst (snd i)) (snd (snd i))) (fst i) = Some (snd i)"
    by (simp add: lookup_outcome_def SetImageStatus_def u i)
  show "k \<noteq> fst i \<Longrightarrow> lookup_outcome (SetImageStatus m (fst i) (fst (snd i)) (snd (snd i))) k = lookup_outcome m k"
    by (simp add: lookup_outcome_def SetImageStatus_def u i)
qed

interpretation requests: keyed_store GetImageSpec "\<lambda>i m. setModuleImageSpec m (fst i) (snd i)" "\<lambda>i. is_image (fst i)"
  "\<lambda>i. \<lparr>bss_spec = fst i, bss_action = snd i\<rparr>"
proof
  fix i :: "image_spec \<times> action" and m k
  let ?v = "\<lparr>bss_spec = fst i, bss_action = snd i\<rparr>"
  have u: "find (\<lambda>s. is_image (bss_spec s) = k) (upsert (\<lambda>s. is_image (bss_spec s) = is_image (fst i)) ?v ss) =
      (if k = is_image (fst i) then Some ?v else find (\<lambda>s. is_image (bss_spec s) = k) ss)" for k ss
    using find_upsert_key [of "\<lambda>s. is_image (bss_spec s)" k ?v ss] by simp
  show "GetImageSpec (setModuleImageSpec m (fst i) (snd i)) (is_image (fst i)) = Some ?v"
    by (simp add: GetImageSpec_def setModuleImageSpec_def u)
  show "k \<noteq> is_image (fst i) \<Longrightarrow> GetImageSpec (setModuleImageSpec m (fst i) (snd i)) k = GetImageSpec m k"
    by (simp add: GetImageSpec_def setModuleImageSpec_def u)
qed

text \<open>One request and one outcome per image.\<close>

definition mbsc_wf :: "mbsc \<Rightarrow> bool" where
  "mbsc_wf m = (distinct (map (\<lambda>s. is_image (bss_spec s)) (mbsc_images m)) \<and> distinct (map bst_image (mbsc_status m)))"

lemma mbsc_wf_SetImageStatus: "mbsc_wf m \<Longrightarrow> mbsc_wf (SetImageStatus m img act st)"
  unfolding mbsc_wf_def SetImageStatus_def by (auto intro!: distinct_upsert [where key = bst_image])

lemma mbsc_wf_setModuleImageSpec: "mbsc_wf m \<Longrightarrow> mbsc_wf (setModuleImageSpec m spec act)"
  unfolding mbsc_wf_def setModuleImageSpec_def
  by (auto intro!: distinct_upsert [where key = "\<lambda>s. is_image (bss_spec s)"])

lemma SetImageStatus_frame_mbsc [simp]:
  "mbsc_images (SetImageStatus m img act st) = mbsc_images m" "mbsc_name (SetImageStatus m img act st) = mbsc_name m"
  "mbsc_namespace (SetImageStatus m img act st) = mbsc_namespace m" "mbsc_uid (SetImageStatus m img act st) = mbsc_uid m"
  "mbsc_push (SetImageStatus m img act st) = mbsc_push m" "mbsc_repo_secret (SetImageStatus m img act st) = mbsc_repo_secret m"
  "mbsc_tolerations (SetImageStatus m img act st) = mbsc_tolerations m" "mbsc_deleting (SetImageStatus m img act st) = mbsc_deleting m"
  by (simp_all add: SetImageStatus_def)

lemma find_key_unique:
  "distinct (map key xs) \<Longrightarrow> find (\<lambda>x. key x = k \<and> P x) xs = (case find (\<lambda>x. key x = k) xs of
     Some x \<Rightarrow> if P x then Some x else None | None \<Rightarrow> None)"
proof (induction xs)
  case (Cons x xs)
  show ?case
  proof (cases "key x = k \<and> \<not> P x")
    case True
    with Cons.prems have "find (\<lambda>x. key x = k \<and> P x) xs = None"
      unfolding find_None_iff by (metis distinct.simps(2) image_eqI image_set list.simps(9))
    with True show ?thesis by simp
  next
    case False
    then show ?thesis using Cons by auto
  qed
qed simp

text \<open>The outcome that is read for an image and an action is the recorded one, if it is for that action.\<close>

lemma GetImageStatus_lookup:
  "mbsc_wf m \<Longrightarrow> GetImageStatus m img act =
     (case lookup_outcome m img of Some (a, st) \<Rightarrow> if a = act then st else ActionUnset | None \<Rightarrow> ActionUnset)"
  by (auto simp: GetImageStatus_def lookup_outcome_def mbsc_wf_def find_key_unique split: option.split)

lemma mutate_mbsc_images: "mutate_mbsc lib micObj spec act m = Inr m' \<Longrightarrow>
    mbsc_images m' = mbsc_images (setModuleImageSpec m spec act) \<and> mbsc_status m' = mbsc_status m"
  by (auto simp: mutate_mbsc_def Let_def and_then_Inr setModuleImageSpec_def)

lemma emits_CreateOrPatch_mbsc [emits_intros]:
  assumes "P (Get_MBSC (mic_namespace micObj, mic_name micObj))"
    and "\<And>m. mutate_mbsc lib micObj spec act (new_mbsc (mic_name micObj) (mic_namespace micObj)) = Inr m \<Longrightarrow> P (Create_MBSC m)"
    and "\<And>b m. mutate_mbsc lib micObj spec act b = Inr m \<Longrightarrow> P (Patch_MBSC b m)"
  shows "emits P (CreateOrPatch lib srv micObj spec act)"
  unfolding CreateOrPatch_def by (intro emits_intros assms)

lemma run_Get_mbsc:
  "run_state (Mbsc.Get srv name ns) h =
     ((case s_mbsc srv h (ns, name) of
         Inl e \<Rightarrow> if IsNotFound e then Inr None else Inl (Errorf ''failed to get ModuleBuildSignConfig object'' e)
       | Inr m \<Rightarrow> Inr (Some m)), h @ [Get_MBSC (ns, name)])"
  by (simp add: Get_def get_mbsc_def)

section \<open>Properties\<close>

text \<open>
  Requests and outcomes behave as maps keyed by image. Setting an outcome or a request is a map update
  and keeps one entry per image; the outcome read for an image and an action is the last one recorded for the
  image if it was for that action and unset otherwise, so recording the outcome of signing forgets that of building.
\<close>

theorem build_sign_stores_refine_maps:
  assumes "mbsc_wf m"
  shows "lookup_outcome (SetImageStatus m img act st) = (lookup_outcome m)(img \<mapsto> (act, st)) \<and>
    GetImageSpec (setModuleImageSpec m spec act) = (GetImageSpec m)(is_image spec \<mapsto> \<lparr>bss_spec = spec, bss_action = act\<rparr>) \<and>
    mbsc_wf (SetImageStatus m img act st) \<and> mbsc_wf (setModuleImageSpec m spec act) \<and>
    GetImageStatus (SetImageStatus m img act st) img' act' =
      (if img' = img then if act' = act then st else ActionUnset else GetImageStatus m img' act')"
proof (intro conjI)
  show l: "lookup_outcome (SetImageStatus m img act st) = (lookup_outcome m)(img \<mapsto> (act, st))"
    using outcomes.put_refines_update [of m "(img, act, st)"] by simp
  show "GetImageSpec (setModuleImageSpec m spec act) = (GetImageSpec m)(is_image spec \<mapsto> \<lparr>bss_spec = spec, bss_action = act\<rparr>)"
    using requests.put_refines_update [of m "(spec, act)"] by simp
  show w: "mbsc_wf (SetImageStatus m img act st)" using assms by (rule mbsc_wf_SetImageStatus)
  show "mbsc_wf (setModuleImageSpec m spec act)" using assms by (rule mbsc_wf_setModuleImageSpec)
  show "GetImageStatus (SetImageStatus m img act st) img' act' =
      (if img' = img then if act' = act then st else ActionUnset else GetImageStatus m img' act')"
    by (simp add: GetImageStatus_lookup assms w l)
qed

theorem build_sign_stores_refine_maps_witness:
  "GetImageStatus (SetImageStatus (SetImageStatus (new_mbsc ''m'' ''ns'') ''a'' BuildImage ActionSuccess) ''a'' SignImage
     ActionFailure) ''a'' BuildImage = ActionUnset"
proof -
  have "mbsc_wf (SetImageStatus (new_mbsc ''m'' ''ns'') ''a'' BuildImage ActionSuccess)"
    by (rule mbsc_wf_SetImageStatus) (simp add: mbsc_wf_def new_mbsc_def)
  from build_sign_stores_refine_maps [OF this, of "''a''" SignImage ActionFailure undefined "''a''" BuildImage]
  show ?thesis by simp
qed

end
