(* ===== verification/Image_Puller.thy ===== *)
theory Image_Puller
  imports Worker_Pod
begin

text \<open>
  The pods that check whether an image can be pulled, \<^verbatim>\<open>internal/pod/imagepuller.go\<close>. A pull pod runs
  \<^verbatim>\<open>exit 0\<close> in the image; a one-time pod reports a failed pull, an until-success pod waits. Reading the first
  container of a pod that has none, or the first status of an empty list, is a panic.
\<close>

datatype pull_status = PullImageFailed | PullImageSuccess | PullImageInProcess | PullImageUnexpectedErr

definition imagePullBackOffReason :: string where "imagePullBackOffReason = ''ImagePullBackOff''"
definition errImagePullReason :: string where "errImagePullReason = ''ErrImagePull''"
definition imageOwnerLabelKey :: string where "imageOwnerLabelKey = ''kmm.node.kubernetes.io/image-owner''"
definition pullPodTypeLabelKey :: string where "pullPodTypeLabelKey = ''kmm.node.kubernetes.io/pull-pod-type''"
definition pullerContainerName :: string where "pullerContainerName = ''puller''"
definition pullPodTypeOneTime :: string where "pullPodTypeOneTime = ''one-time-pull''"
definition pullPodUntilSuccess :: string where "pullPodUntilSuccess = ''until-success''"

lemmas puller_consts = imagePullBackOffReason_def errImagePullReason_def imageOwnerLabelKey_def
  pullPodTypeLabelKey_def pullPodTypeOneTime_def pullPodUntilSuccess_def

definition pull_pod ::
  "string \<Rightarrow> string \<Rightarrow> string \<Rightarrow> bool \<Rightarrow> string option \<Rightarrow> string \<Rightarrow> toleration list \<Rightarrow> pod" where
  "pull_pod name namespace imageToPull oneTimePod imageRepoSecret pullPolicy tolerations =
     empty_pod\<lparr>
       pod_generate_name := name @ ''-pull-pod-'',
       pod_namespace := namespace,
       pod_labels := [(imageOwnerLabelKey, name),
                      (pullPodTypeLabelKey, if oneTimePod then pullPodTypeOneTime else pullPodUntilSuccess)],
       pod_containers := [empty_container\<lparr>c_name := pullerContainerName, c_image := imageToPull,
         c_command := [''/bin/sh'', ''-c'', ''exit 0''], c_pull_policy := pullPolicy\<rparr>],
       pod_restart_policy := ''Never'',
       pod_pull_secrets := Some (case imageRepoSecret of None \<Rightarrow> [] | Some s \<Rightarrow> [s]),
       pod_tolerations := tolerations\<rparr>"

definition CreatePullPod ::
  "library \<Rightarrow> server \<Rightarrow> string \<Rightarrow> string \<Rightarrow> string \<Rightarrow> bool \<Rightarrow> string option \<Rightarrow> string \<Rightarrow> toleration list \<Rightarrow> owner_ref \<Rightarrow>
   (go_err option) cio" where
  "CreatePullPod lib srv name namespace imageToPull oneTimePod imageRepoSecret pullPolicy tolerations owner =
     (let p = pull_pod name namespace imageToPull oneTimePod imageRepoSecret pullPolicy tolerations
      in case l_SetControllerReference lib owner (pod_owner p) of
           Inl e \<Rightarrow> State_Monad.return (Some (errorf ''failed to set owner for pullPod'' e))
         | Inr ow \<Rightarrow> do_write srv (Create_Pod (p\<lparr>pod_owner := ow\<rparr>)))"

definition DeletePullPod :: "server \<Rightarrow> pod \<Rightarrow> (go_err option) cio" where
  "DeletePullPod srv p = deletePod srv p"

definition pull_pods_query :: "string \<Rightarrow> string \<Rightarrow> pod_query" where
  "pull_pods_query name namespace = \<lparr>pq_namespace = Some namespace, pq_match = [(imageOwnerLabelKey, name)],
     pq_has = [pullPodTypeLabelKey], pq_node = None, pq_in = []\<rparr>"

definition ListPullPods :: "server \<Rightarrow> string \<Rightarrow> string \<Rightarrow> (go_err + pod list) cio" where
  "ListPullPods srv name namespace = do {
     r \<leftarrow> list_pods srv (pull_pods_query name namespace);
     State_Monad.return (map_sum (Errorf ''could not list module image pods for module'') id r)
   }"

definition GetPullPodImage :: "pod \<Rightarrow> go_err + string" where
  "GetPullPodImage p = (case pod_containers p of [] \<Rightarrow> Inl (Panic ''index out of range'') | c # _ \<Rightarrow> Inr (c_image c))"

fun GetPullPodForImage :: "pod list \<Rightarrow> string \<Rightarrow> go_err + pod option" where
  "GetPullPodForImage [] img = Inr None"
| "GetPullPodForImage (p # ps) img =
     and_then (GetPullPodImage p) (\<lambda>i. if img = i then Inr (Some p) else GetPullPodForImage ps img)"

definition GetPullPodStatus :: "pod \<Rightarrow> go_err + pull_status" where
  "GetPullPodStatus p =
     (case pod_phase p of
        PodSucceeded \<Rightarrow> Inr PullImageSuccess
      | PodFailed \<Rightarrow> Inr PullImageUnexpectedErr
      | PodUnknown \<Rightarrow> Inr PullImageUnexpectedErr
      | PodRunning \<Rightarrow> Inr PullImageInProcess
      | PodPending \<Rightarrow>
          (case pod_container_statuses p of
             None \<Rightarrow> Inr PullImageInProcess
           | Some [] \<Rightarrow> Inl (Panic ''index out of range'')
           | Some (cs # _) \<Rightarrow>
               (case cs_waiting cs of
                  None \<Rightarrow> Inr PullImageInProcess
                | Some reason \<Rightarrow>
                    if label_of (pod_labels p) pullPodTypeLabelKey = pullPodUntilSuccess then Inr PullImageInProcess
                    else if reason = imagePullBackOffReason \<or> reason = errImagePullReason then Inr PullImageFailed
                    else Inr PullImageUnexpectedErr))
      | PodPhaseUnset \<Rightarrow> Inr PullImageUnexpectedErr)"

section \<open>Lemmas\<close>

text \<open>A pod as the API server stores it: it has a container, and a list of container statuses is not empty.\<close>

definition pull_pod_ok :: "pod \<Rightarrow> bool" where
  "pull_pod_ok p = (pod_containers p \<noteq> [] \<and> pod_container_statuses p \<noteq> Some [])"

abbreviation pull_image :: "pod \<Rightarrow> string" where
  "pull_image p \<equiv> c_image (hd (pod_containers p))"

lemma GetPullPodImage_ok [simp]: "pull_pod_ok p \<Longrightarrow> GetPullPodImage p = Inr (pull_image p)"
  by (cases "pod_containers p") (auto simp: GetPullPodImage_def pull_pod_ok_def)

lemma GetPullPodForImage_ok:
  "list_all pull_pod_ok ps \<Longrightarrow> GetPullPodForImage ps img = Inr (find (\<lambda>p. img = pull_image p) ps)"
  by (induction ps) auto

lemma GetPullPodStatus_ok: "pull_pod_ok p \<Longrightarrow> \<exists>s. GetPullPodStatus p = Inr s"
  by (auto simp: GetPullPodStatus_def pull_pod_ok_def split: pod_phase.split option.split list.split)

lemma GetPullPodStatus_Success: "GetPullPodStatus p = Inr PullImageSuccess \<longleftrightarrow> pod_phase p = PodSucceeded"
  by (auto simp: GetPullPodStatus_def split: pod_phase.splits option.splits list.splits)

lemma run_ListPullPods:
  "run_state (ListPullPods srv name ns) h =
     (map_sum (Errorf ''could not list module image pods for module'') id (s_pods srv h (pull_pods_query name ns)),
      h @ [List_Pods (pull_pods_query name ns)])"
  by (simp add: ListPullPods_def list_pods_def)

lemma emits_DeletePullPod [emits_intros]: "P (Delete_Pod p) \<Longrightarrow> emits P (DeletePullPod srv p)"
  unfolding DeletePullPod_def deletePod_def by (intro emits_intros)

lemma emits_CreatePullPod [emits_intros]:
  assumes "\<And>ow. P (Create_Pod ((pull_pod name ns img once sec pol tols)\<lparr>pod_owner := ow\<rparr>))"
  shows "emits P (CreatePullPod lib srv name ns img once sec pol tols owner)"
  unfolding CreatePullPod_def Let_def by (intro emits_intros assms)

section \<open>Properties\<close>

text \<open>
  An until-success pull pod never reports a failed pull, and the pull pod created for an image is found
  again for that image and for no other: it has one container with the image and the owner's label.
\<close>

theorem pull_pod_roundtrip:
  "GetPullPodImage (pull_pod name ns img once sec pol tols) = Inr img \<and>
   GetPullPodForImage [pull_pod name ns img once sec pol tols] img' =
     Inr (if img' = img then Some (pull_pod name ns img once sec pol tols) else None) \<and>
   label_of (pod_labels (pull_pod name ns img once sec pol tols)) imageOwnerLabelKey = name \<and>
   GetPullPodStatus ((pull_pod name ns img False sec pol tols)\<lparr>pod_phase := ph, pod_container_statuses := cs\<rparr>) \<noteq>
     Inr PullImageFailed"
proof (intro conjI)
  let ?p = "(pull_pod name ns img False sec pol tols)\<lparr>pod_phase := ph, pod_container_statuses := cs\<rparr>"
  have "label_of (pod_labels ?p) pullPodTypeLabelKey = pullPodUntilSuccess"
    by (simp add: pull_pod_def puller_consts lookup_default_def)
  then show "GetPullPodStatus ?p \<noteq> Inr PullImageFailed"
    by (simp add: GetPullPodStatus_def split: pod_phase.split option.split list.split)
qed (simp_all add: GetPullPodImage_def pull_pod_def lookup_default_def)

end
