(* ===== verification/Mic_Reconciler.thy ===== *)
theory Mic_Reconciler
  imports Mic Mbsc Image_Puller
begin

text \<open>
  The reconciler of ModuleImagesConfigs, \<^verbatim>\<open>internal/controllers/mic_reconciler.go\<close>. It finds out
  for every image of a module whether it exists, by pull pods, and has the missing ones built and signed
  through the ModuleBuildSignConfig of the same name. The record handed to a handler is the object the
  code mutates; a handler returns it with its error.
\<close>

section \<open>The handlers\<close>

definition handleImageRebuildTriggerGeneration :: "server \<Rightarrow> mic \<Rightarrow> ((go_err + bool) \<times> mic) cio" where
  "handleImageRebuildTriggerGeneration srv m =
     (if ics_rebuild_trigger (mic_spec m) = mic_status_trigger m then State_Monad.return (Inr False, m)
      else do {
        e \<leftarrow> Mbsc.Delete srv (mic_name m) (mic_namespace m);
        case e of
          Some er \<Rightarrow> State_Monad.return
            (Inl (errorf ''failed to delete MBSC after ImageRebuildTriggerGeneration change'' er), m)
        | None \<Rightarrow>
            (let m' = m\<lparr>mic_states := [], mic_status_trigger := ics_rebuild_trigger (mic_spec m)\<rparr>
             in do {
               e2 \<leftarrow> do_write srv (Patch_MIC_Status m m');
               State_Monad.return
                 (case e2 of
                    Some er \<Rightarrow> (Inl (Errorf ''failed to patch MIC status after ImageRebuildTriggerGeneration change'' er), m')
                  | None \<Rightarrow> (Inr True, m'))
             })
      })"

text \<open>The state recorded for an image whose pull failed: none when nothing can produce the image.\<close>

definition failed_pull_state :: "image_spec \<Rightarrow> image_state option" where
  "failed_pull_state spec =
     (if is_build spec \<noteq> None then Some ImageNeedsBuilding
      else if is_sign spec \<noteq> None then Some ImageNeedsSigning
      else if is_skip_wait spec then Some ImageDoesNotExist
      else None)"

definition set_state :: "mic \<Rightarrow> string \<Rightarrow> image_state option \<Rightarrow> mic" where
  "set_state m img st = (case st of None \<Rightarrow> m | Some s \<Rightarrow> Mic.SetImageStatus m img s)"

text \<open>One iteration over the pull pods: the object and the pods to delete.\<close>

definition pull_pod_step :: "mic \<times> pod list \<Rightarrow> pod \<Rightarrow> go_err + mic \<times> pod list" where
  "pull_pod_step s p =
     (case s of (m, dels) \<Rightarrow>
        and_then (GetPullPodImage p) (\<lambda>img.
          case GetModuleImageSpec m img of
            None \<Rightarrow> Inr (m, dels @ [p])
          | Some spec \<Rightarrow>
              and_then (GetPullPodStatus p) (\<lambda>st.
                case st of
                  PullImageFailed \<Rightarrow> Inr (set_state m img (failed_pull_state spec), dels @ [p])
                | PullImageSuccess \<Rightarrow> Inr (Mic.SetImageStatus m img ImageExists, dels @ [p])
                | _ \<Rightarrow> Inr (m, dels))))"

fun pull_pod_steps :: "pod list \<Rightarrow> mic \<times> pod list \<Rightarrow> go_err + mic \<times> pod list" where
  "pull_pod_steps [] s = Inr s"
| "pull_pod_steps (p # ps) s = and_then (pull_pod_step s p) (pull_pod_steps ps)"

definition updateStatusByPullPods :: "server \<Rightarrow> mic \<Rightarrow> pod list \<Rightarrow> (go_err option \<times> mic) cio" where
  "updateStatusByPullPods srv m pods =
     (if pods = [] then State_Monad.return (None, m)
      else case pull_pod_steps pods (m, []) of
        Inl panic \<Rightarrow> State_Monad.return (Some panic, m)
      | Inr (m', podsToDelete) \<Rightarrow> do {
          e \<leftarrow> do_write srv (Patch_MIC_Status m m');
          case e of
            Some er \<Rightarrow> State_Monad.return (Some (Errorf ''failed to patch the status of mic'' er), m')
          | None \<Rightarrow> do {
              es \<leftarrow> collect_errors (DeletePullPod srv) podsToDelete;
              State_Monad.return (join_errors es, m')
            }
        })"

text \<open>The state an outcome of the build and sign controller gives an image.\<close>

definition mbsc_verdict :: "image_spec \<Rightarrow> build_sign_state \<Rightarrow> image_state option" where
  "mbsc_verdict spec st =
     (if bst_status st = ActionFailure then Some ImageDoesNotExist
      else if bst_status st = ActionSuccess \<and> bst_action st = SignImage then Some ImageExists
      else if bst_status st = ActionSuccess \<and> is_sign spec \<noteq> None then Some ImageNeedsSigning
      else if bst_status st = ActionSuccess then Some ImageExists
      else None)"

definition mbsc_step :: "build_sign_state \<Rightarrow> mic \<Rightarrow> mic" where
  "mbsc_step st m =
     (case GetModuleImageSpec m (bst_image st) of
        None \<Rightarrow> m
      | Some spec \<Rightarrow> set_state m (bst_image st) (mbsc_verdict spec st))"

definition updateStatusByMBSC :: "server \<Rightarrow> mic \<Rightarrow> (go_err option \<times> mic) cio" where
  "updateStatusByMBSC srv m = do {
     r \<leftarrow> Mbsc.Get srv (mic_name m) (mic_namespace m);
     case r of
       Inl e \<Rightarrow> State_Monad.return (Some (Errorf ''failed to get ModuleBuildSignConfig object'' e), m)
     | Inr None \<Rightarrow> State_Monad.return (None, m)
     | Inr (Some b) \<Rightarrow>
         (let m' = fold mbsc_step (mbsc_status b) m
          in do { e \<leftarrow> do_write srv (Patch_MIC_Status m m'); State_Monad.return (e, m') })
   }"

definition process_image :: "library \<Rightarrow> server \<Rightarrow> mic \<Rightarrow> pod list \<Rightarrow> image_spec \<Rightarrow> (go_err option) cio" where
  "process_image lib srv m pullPods spec =
     (case GetImageState m (is_image spec) of
        ImageStateUnset \<Rightarrow>
          (case GetPullPodForImage pullPods (is_image spec) of
             Inl panic \<Rightarrow> State_Monad.return (Some panic)
           | Inr (Some _) \<Rightarrow> State_Monad.return None
           | Inr None \<Rightarrow>
               CreatePullPod lib srv (mic_name m) (mic_namespace m) (is_image spec)
                 (is_build spec \<noteq> None \<or> is_sign spec \<noteq> None \<or> is_skip_wait spec)
                 (ics_repo_secret (mic_spec m)) (ics_pull_policy (mic_spec m)) (ics_tolerations (mic_spec m))
                 (mic_owner_of m))
      | ImageDoesNotExist \<Rightarrow>
          if is_build spec = None \<and> is_sign spec = None then State_Monad.return None
          else Mbsc.CreateOrPatch lib srv m spec BuildImage
      | ImageNeedsBuilding \<Rightarrow> Mbsc.CreateOrPatch lib srv m spec BuildImage
      | ImageNeedsSigning \<Rightarrow> Mbsc.CreateOrPatch lib srv m spec SignImage
      | ImageExists \<Rightarrow> State_Monad.return None)"

definition processImagesSpecs :: "library \<Rightarrow> server \<Rightarrow> mic \<Rightarrow> pod list \<Rightarrow> (go_err option) cio" where
  "processImagesSpecs lib srv m pullPods = do {
     es \<leftarrow> collect_errors (process_image lib srv m pullPods) (ics_images (mic_spec m));
     State_Monad.return (join_errors es)
   }"

text \<open>The result and whether the request is to be queued again.\<close>

definition MIC_Reconcile :: "library \<Rightarrow> server \<Rightarrow> mic \<Rightarrow> (go_err option \<times> bool) cio" where
  "MIC_Reconcile lib srv m0 =
     (if mic_deleting m0 then State_Monad.return (None, False)
      else do {
        t \<leftarrow> handleImageRebuildTriggerGeneration srv m0;
        case fst t of
          Inl e \<Rightarrow> State_Monad.return (Some (errorf ''failed to handle ImageRebuildTriggerGeneration for MIC'' e), False)
        | Inr True \<Rightarrow> State_Monad.return (None, True)
        | Inr False \<Rightarrow> do {
            r \<leftarrow> ListPullPods srv (mic_name m0) (mic_namespace m0);
            case r of
              Inl e \<Rightarrow> State_Monad.return (Some (errorf ''failed to get the image pods for mic'' e), False)
            | Inr pods \<Rightarrow> do {
                u \<leftarrow> updateStatusByPullPods srv (snd t) pods;
                case fst u of
                  Some e \<Rightarrow> State_Monad.return (Some (errorf ''failed tp update the status for MIC based on pull pods'' e), False)
                | None \<Rightarrow> do {
                    v \<leftarrow> updateStatusByMBSC srv (snd u);
                    case fst v of
                      Some e \<Rightarrow> State_Monad.return (Some (errorf ''failed tp update the status for MIC based on builds'' e), False)
                    | None \<Rightarrow> do {
                        e \<leftarrow> processImagesSpecs lib srv (snd v) pods;
                        State_Monad.return (errorf_opt ''failed to process images spec'' e, False)
                      }
                  }
              }
          }
      })"

section \<open>Updates of image states\<close>

text \<open>
  Both status handlers are a run of state updates. \<open>updates f v xs\<close> are the updates that the elements
  \<open>xs\<close> ask for, when \<open>x\<close> is about image \<open>f x\<close> and has verdict \<open>v x\<close>.
\<close>

definition updates :: "('x \<Rightarrow> string) \<Rightarrow> ('x \<Rightarrow> image_state option) \<Rightarrow> 'x list \<Rightarrow> (string \<times> image_state) list" where
  "updates f v xs = List.map_filter (\<lambda>x. map_option (Pair (f x)) (v x)) xs"

definition apply_updates :: "(string \<times> image_state) list \<Rightarrow> mic \<Rightarrow> mic" where
  "apply_updates us m = fold (\<lambda>u m. Mic.SetImageStatus m (fst u) (snd u)) us m"

lemma updates_simps [simp]:
  "updates f v [] = []"
  "updates f v (x # xs) = (case v x of None \<Rightarrow> updates f v xs | Some s \<Rightarrow> (f x, s) # updates f v xs)"
  by (auto simp: updates_def List.map_filter_def split: option.split)

lemma set_updates: "(k, s) \<in> set (updates f v xs) \<longleftrightarrow> (\<exists>x\<in>set xs. f x = k \<and> v x = Some s)"
  by (induction xs) (auto split: option.splits)

lemma updates_images: "fst ` set (updates f v xs) \<subseteq> f ` set xs"
  by (induction xs) (auto split: option.splits)

lemma apply_updates_simps [simp]:
  "apply_updates [] m = m" "apply_updates (u # us) m = apply_updates us (Mic.SetImageStatus m (fst u) (snd u))"
  "apply_updates (us @ vs) m = apply_updates vs (apply_updates us m)"
  by (simp_all add: apply_updates_def)

lemma apply_updates_frame [simp]:
  "mic_spec (apply_updates us m) = mic_spec m" "mic_name (apply_updates us m) = mic_name m"
  "mic_namespace (apply_updates us m) = mic_namespace m" "mic_uid (apply_updates us m) = mic_uid m" "mic_status_trigger (apply_updates us m) = mic_status_trigger m"
  "GetModuleImageSpec (apply_updates us m) k = GetModuleImageSpec m k"
  by (induction us arbitrary: m) simp_all

lemma mic_wf_apply: "mic_wf m \<Longrightarrow> mic_wf (apply_updates us m)"
  by (induction us arbitrary: m) (simp_all add: mic_wf_SetImageStatus)

text \<open>The state of an image after a run of updates is the last one for the image.\<close>

lemma GetImageState_apply:
  "GetImageState (apply_updates us m) k =
     (case find (\<lambda>u. fst u = k) (rev us) of None \<Rightarrow> GetImageState m k | Some u \<Rightarrow> snd u)"
  unfolding apply_updates_def GetImageState_lookup image_states.get_fold_put by (auto split: option.split)

lemma GetImageState_apply_cases:
  assumes "GetImageState (apply_updates us m) k = s"
  obtains "GetImageState m k = s" | "(k, s) \<in> set us"
proof (cases "find (\<lambda>u. fst u = k) (rev us)")
  case None
  with assms that(1) show ?thesis by (simp add: GetImageState_apply)
next
  case (Some u)
  then have "u \<in> set us" "fst u = k" by (auto simp: find_Some_iff) (metis nth_mem set_rev length_rev)
  with Some assms that(2) show ?thesis by (metis GetImageState_apply option.simps(5) prod.collapse)
qed

lemma GetImageState_apply_other: "k \<notin> fst ` set us \<Longrightarrow> GetImageState (apply_updates us m) k = GetImageState m k"
  by (metis GetImageState_apply_cases fst_conv image_eqI)

definition spec_verdict :: "mic \<Rightarrow> string \<Rightarrow> (image_spec \<Rightarrow> image_state option) \<Rightarrow> image_state option" where
  "spec_verdict m img v = (case GetModuleImageSpec m img of None \<Rightarrow> None | Some spec \<Rightarrow> v spec)"

definition pull_verdict :: "pod \<Rightarrow> image_spec \<Rightarrow> image_state option" where
  "pull_verdict p spec =
     (case GetPullPodStatus p of
        Inr PullImageFailed \<Rightarrow> failed_pull_state spec | Inr PullImageSuccess \<Rightarrow> Some ImageExists | _ \<Rightarrow> None)"

text \<open>A pull pod is over when its image is not wanted any more or its pull succeeded or failed.\<close>

definition pull_over :: "mic \<Rightarrow> pod \<Rightarrow> bool" where
  "pull_over m p = (GetModuleImageSpec m (pull_image p) = None \<or>
     GetPullPodStatus p = Inr PullImageFailed \<or> GetPullPodStatus p = Inr PullImageSuccess)"

definition pull_updates :: "mic \<Rightarrow> pod list \<Rightarrow> (string \<times> image_state) list" where
  "pull_updates m pods = updates pull_image (\<lambda>p. spec_verdict m (pull_image p) (pull_verdict p)) pods"

definition mbsc_updates :: "mic \<Rightarrow> build_sign_state list \<Rightarrow> (string \<times> image_state) list" where
  "mbsc_updates m sts = updates bst_image (\<lambda>st. spec_verdict m (bst_image st) (\<lambda>spec. mbsc_verdict spec st)) sts"

lemma spec_verdict_frame [simp]: "spec_verdict (apply_updates us m) img v = spec_verdict m img v"
  "spec_verdict (Mic.SetImageStatus m i st) img v = spec_verdict m img v"
  by (simp_all add: spec_verdict_def)

lemma pull_over_frame [simp]: "pull_over (Mic.SetImageStatus m i st) = pull_over m"
  by (simp add: pull_over_def fun_eq_iff)

lemma updates_frame [simp]:
  "pull_updates (Mic.SetImageStatus m i st) = pull_updates m" "mbsc_updates (Mic.SetImageStatus m i st) = mbsc_updates m"
  "pull_updates (apply_updates us m) = pull_updates m" "mbsc_updates (apply_updates us m) = mbsc_updates m"
  by (simp_all add: pull_updates_def mbsc_updates_def fun_eq_iff)

lemma pull_pod_step_ok:
  assumes "pull_pod_ok p"
  shows "pull_pod_step (m, dels) p =
    Inr (apply_updates (pull_updates m [p]) m, dels @ (if pull_over m p then [p] else []))"
proof -
  obtain st where st: "GetPullPodStatus p = Inr st" using GetPullPodStatus_ok [OF assms] ..
  show ?thesis
    using assms st
    by (cases "GetModuleImageSpec m (pull_image p)"; cases st)
      (auto simp: pull_pod_step_def pull_updates_def spec_verdict_def pull_verdict_def pull_over_def set_state_def
        split: option.split)
qed

lemma pull_updates_Cons: "pull_updates m (p # ps) = pull_updates m [p] @ pull_updates m ps"
  by (simp add: pull_updates_def split: option.split)

lemma pull_over_apply [simp]: "pull_over (apply_updates us m) = pull_over m"
  by (simp add: pull_over_def fun_eq_iff)

lemma pull_pod_steps_ok:
  "list_all pull_pod_ok pods \<Longrightarrow> pull_pod_steps pods (m, dels) =
     Inr (apply_updates (pull_updates m pods) m, dels @ filter (pull_over m) pods)"
proof (induction pods arbitrary: m dels)
  case (Cons p ps)
  then show ?case
    by (simp add: pull_pod_step_ok pull_updates_Cons [of m p ps] del: updates_simps)
qed (simp add: pull_updates_def)

lemma mbsc_steps: "fold mbsc_step sts m = apply_updates (mbsc_updates m sts) m"
proof (induction sts arbitrary: m)
  case (Cons st sts)
  have "mbsc_updates m (st # sts) = mbsc_updates m [st] @ mbsc_updates m sts"
    by (simp add: mbsc_updates_def split: option.split)
  moreover have "mbsc_step st m = apply_updates (mbsc_updates m [st]) m"
    by (simp add: mbsc_step_def mbsc_updates_def spec_verdict_def set_state_def split: option.split)
  ultimately show ?case by (simp add: Cons)
qed (simp add: mbsc_updates_def)

section \<open>What the handlers request\<close>

lemma updateStatusByPullPods_run:
  assumes "list_all pull_pod_ok pods" "pods \<noteq> []"
  shows "run_state (updateStatusByPullPods srv m pods) h =
    (let m' = apply_updates (pull_updates m pods) m; h1 = h @ [Patch_MIC_Status m m'] in
     case s_write srv h (Patch_MIC_Status m m') of
       Some er \<Rightarrow> ((Some (Errorf ''failed to patch the status of mic'' er), m'), h1)
     | None \<Rightarrow> let r = run_state (collect_errors (DeletePullPod srv) (filter (pull_over m) pods)) h1
               in ((join_errors (fst r), m'), snd r))"
  using assms
  by (auto simp: updateStatusByPullPods_def pull_pod_steps_ok do_write_def Let_def split_beta split: option.split)

lemma emits_DeletePullPods: "emits (\<lambda>c. \<exists>p\<in>set dels. c = Delete_Pod p) (collect_errors (DeletePullPod srv) dels)"
  by (intro emits_intros) auto

lemma does_updateStatusByPullPods:
  assumes ok: "list_all pull_pod_ok pods"
    and P: "P (Patch_MIC_Status m (apply_updates (pull_updates m pods) m))" "\<And>p. p \<in> set pods \<Longrightarrow> pull_over m p \<Longrightarrow> P (Delete_Pod p)"
  shows "does P (\<lambda>r. snd r = apply_updates (pull_updates m pods) m) (updateStatusByPullPods srv m pods)"
proof (cases "pods = []")
  case True
  then show ?thesis by (simp add: updateStatusByPullPods_def pull_updates_def does_return)
next
  case False
  have "emits P (updateStatusByPullPods srv m pods)"
    unfolding updateStatusByPullPods_def using P
    by (intro emits_intros emits_mono [OF emits_DeletePullPods]) (auto simp: pull_pod_steps_ok [OF ok])
  moreover have "snd (fst (run_state (updateStatusByPullPods srv m pods) h)) = apply_updates (pull_updates m pods) m" for h
    using False by (simp add: updateStatusByPullPods_run [OF ok] Let_def split: option.split)
  ultimately show ?thesis by (simp add: does_def)
qed

lemma does_Get_mbsc [does_intros]:
  "P (Get_MBSC (ns, name)) \<Longrightarrow>
     does P (\<lambda>r. \<forall>b. r = Inr (Some b) \<longrightarrow> (\<exists>h. s_mbsc srv h (ns, name) = Inr b)) (Mbsc.Get srv name ns)"
  unfolding Mbsc.Get_def
  by (rule does_bind [OF does_requests(3)]) (auto intro!: does_return split: sum.splits if_splits)

lemma does_updateStatusByMBSC:
  assumes "P (Get_MBSC (mic_namespace m, mic_name m))"
    and "\<And>h b. s_mbsc srv h (mic_namespace m, mic_name m) = Inr b \<Longrightarrow>
      P (Patch_MIC_Status m (apply_updates (mbsc_updates m (mbsc_status b)) m))"
  shows "does P (\<lambda>r. snd r = m \<or> (\<exists>h b. s_mbsc srv h (mic_namespace m, mic_name m) = Inr b \<and>
      snd r = apply_updates (mbsc_updates m (mbsc_status b)) m)) (updateStatusByMBSC srv m)"
  unfolding updateStatusByMBSC_def Let_def mbsc_steps
proof (rule does_bind [OF does_Get_mbsc [of P, OF assms(1)]])
  fix r :: "go_err + mbsc option" assume r: "\<forall>b. r = Inr (Some b) \<longrightarrow> (\<exists>h. s_mbsc srv h (mic_namespace m, mic_name m) = Inr b)"
  show "does P (\<lambda>r. snd r = m \<or> (\<exists>h b. s_mbsc srv h (mic_namespace m, mic_name m) = Inr b \<and>
      snd r = apply_updates (mbsc_updates m (mbsc_status b)) m))
    (case r of Inl e \<Rightarrow> State_Monad.return (Some (Errorf ''failed to get ModuleBuildSignConfig object'' e), m)
     | Inr None \<Rightarrow> State_Monad.return (None, m)
     | Inr (Some b) \<Rightarrow> do { e \<leftarrow> do_write srv (Patch_MIC_Status m (apply_updates (mbsc_updates m (mbsc_status b)) m));
         State_Monad.return (e, apply_updates (mbsc_updates m (mbsc_status b)) m) })"
    using r assms(2)
    by (intro does_intros does_bind [OF does_requests(6)]) auto
qed

lemma updateStatusByMBSC_owner:
  "mic_owner_of (snd (fst (run_state (updateStatusByMBSC srv m) h))) = mic_owner_of m"
  using does_result [OF does_updateStatusByMBSC [of "\<lambda>_. True" m srv], of h] by (auto simp: mic_owner_of_def)

text \<open>A request to build or sign an image: the one in the object of the same name, with the others unchanged.\<close>

definition asks_for :: "mic \<Rightarrow> image_spec \<Rightarrow> action \<Rightarrow> call \<Rightarrow> bool" where
  "asks_for m spec act c \<longleftrightarrow>
     (\<exists>b b'. (c = Create_MBSC b' \<and> b = new_mbsc (mic_name m) (mic_namespace m) \<or> c = Patch_MBSC b b') \<and>
        GetImageSpec b' = (GetImageSpec b)(is_image spec \<mapsto> \<lparr>bss_spec = spec, bss_action = act\<rparr>))"

lemma mutate_asks: "mutate_mbsc lib m spec act b = Inr b' \<Longrightarrow>
    GetImageSpec b' = (GetImageSpec b)(is_image spec \<mapsto> \<lparr>bss_spec = spec, bss_action = act\<rparr>)"
  using mutate_mbsc_images [of lib m spec act b b'] requests.put_refines_update [of b "(spec, act)"]
  by (simp add: GetImageSpec_def fun_eq_iff)

lemma emits_asks: "emits (\<lambda>c. c = Get_MBSC (mic_namespace m, mic_name m) \<or> asks_for m spec act c)
    (Mbsc.CreateOrPatch lib srv m spec act)"
  by (intro emits_intros) (auto simp: asks_for_def dest!: mutate_asks)

text \<open>What may be requested for an image, by its state.\<close>

definition image_request_ok :: "mic \<Rightarrow> pod list \<Rightarrow> image_spec \<Rightarrow> call \<Rightarrow> bool" where
  "image_request_ok m pods spec c \<longleftrightarrow>
     (case GetImageState m (is_image spec) of
        ImageStateUnset \<Rightarrow> is_image spec \<notin> pull_image ` set pods \<and>
          (\<exists>p. c = Create_Pod p \<and> GetPullPodImage p = Inr (is_image spec) \<and> pod_namespace p = mic_namespace m \<and>
             (label_of (pod_labels p) pullPodTypeLabelKey = pullPodTypeOneTime \<longleftrightarrow>
                failed_pull_state spec \<noteq> None))
      | ImageDoesNotExist \<Rightarrow> (is_build spec \<noteq> None \<or> is_sign spec \<noteq> None) \<and> asks_for m spec BuildImage c
      | ImageNeedsBuilding \<Rightarrow> asks_for m spec BuildImage c
      | ImageNeedsSigning \<Rightarrow> asks_for m spec SignImage c
      | ImageExists \<Rightarrow> False)"

lemma pull_pod_facts:
  "GetPullPodImage ((pull_pod name ns img once sec pol tols)\<lparr>pod_owner := ow\<rparr>) = Inr img"
  "pod_namespace (pull_pod name ns img once sec pol tols) = ns"
  "label_of (pod_labels (pull_pod name ns img once sec pol tols)) pullPodTypeLabelKey = pullPodTypeOneTime \<longleftrightarrow> once"
  by (simp_all add: GetPullPodImage_def pull_pod_def lookup_default_def puller_consts)

lemma emits_process_image:
  assumes "list_all pull_pod_ok pods"
  shows "emits (\<lambda>c. c = Get_MBSC (mic_namespace m, mic_name m) \<or> image_request_ok m pods spec c)
    (process_image lib srv m pods spec)"
proof -
  have f: "find (\<lambda>p. is_image spec = pull_image p) pods = None \<longleftrightarrow> is_image spec \<notin> pull_image ` set pods"
    by (auto simp: find_None_iff)
  show ?thesis
  proof (cases "GetImageState m (is_image spec)")
    case ImageStateUnset
    then show ?thesis
      using f by (auto simp: process_image_def GetPullPodForImage_ok [OF assms] image_request_ok_def pull_pod_facts
          failed_pull_state_def split: option.split intro!: emits_intros)
  qed (auto simp: process_image_def image_request_ok_def intro!: emits_return emits_mono [OF emits_asks])
qed

lemma emits_processImagesSpecs:
  assumes "list_all pull_pod_ok pods"
  shows "emits (\<lambda>c. c = Get_MBSC (mic_namespace m, mic_name m) \<or>
      (\<exists>spec\<in>set (ics_images (mic_spec m)). image_request_ok m pods spec c))
    (processImagesSpecs lib srv m pods)"
  unfolding processImagesSpecs_def
  by (intro emits_intros emits_mono [OF emits_process_image [OF assms]]) auto

lemma MIC_Reconcile_steps:
  assumes "\<not> mic_deleting m" "ics_rebuild_trigger (mic_spec m) = mic_status_trigger m"
    and pods: "s_pods srv h (pull_pods_query (mic_name m) (mic_namespace m)) = Inr pods" "list_all pull_pod_ok pods"
    and P: "P (List_Pods (pull_pods_query (mic_name m) (mic_namespace m)))" "P (Get_MBSC (mic_namespace m, mic_name m))"
    and pull: "P (Patch_MIC_Status m (apply_updates (pull_updates m pods) m))"
      "\<And>p. p \<in> set pods \<Longrightarrow> pull_over m p \<Longrightarrow> P (Delete_Pod p)"
    and mbsc: "\<And>h b. s_mbsc srv h (mic_namespace m, mic_name m) = Inr b \<Longrightarrow>
      P (Patch_MIC_Status (apply_updates (pull_updates m pods) m)
           (apply_updates (mbsc_updates m (mbsc_status b)) (apply_updates (pull_updates m pods) m)))"
    and images: "\<And>us spec c. spec \<in> set (ics_images (mic_spec m)) \<Longrightarrow>
      us = pull_updates m pods \<or> (\<exists>h b. s_mbsc srv h (mic_namespace m, mic_name m) = Inr b \<and>
        us = pull_updates m pods @ mbsc_updates m (mbsc_status b)) \<Longrightarrow>
      image_request_ok (apply_updates us m) pods spec c \<Longrightarrow> P c"
    and c: "c \<in> set (calls (MIC_Reconcile lib srv m) h)"
  shows "P c"
proof -
  let ?m1 = "apply_updates (pull_updates m pods) m" and ?q = "List_Pods (pull_pods_query (mic_name m) (mic_namespace m))"
  let ?v = "\<lambda>r. snd r = ?m1 \<or> (\<exists>h b. s_mbsc srv h (mic_namespace m, mic_name m) = Inr b \<and>
      snd r = apply_updates (mbsc_updates m (mbsc_status b)) ?m1)"
  let ?last = "\<lambda>v. case fst v of
      Some e \<Rightarrow> State_Monad.return (Some (errorf ''failed tp update the status for MIC based on builds'' e), False)
    | None \<Rightarrow> do { e \<leftarrow> processImagesSpecs lib srv (snd v) pods;
        State_Monad.return (errorf_opt ''failed to process images spec'' e, False) }"
  let ?rest = "do { u \<leftarrow> updateStatusByPullPods srv m pods;
     case fst u of
       Some e \<Rightarrow> State_Monad.return (Some (errorf ''failed tp update the status for MIC based on pull pods'' e), False)
     | None \<Rightarrow> do { v \<leftarrow> updateStatusByMBSC srv (snd u); ?last v } }"
  have last: "does P (\<lambda>_. True) (?last v)" if v: "?v v" for v
  proof -
    obtain us where us: "snd v = apply_updates us m" "us = pull_updates m pods \<or>
        (\<exists>h b. s_mbsc srv h (mic_namespace m, mic_name m) = Inr b \<and> us = pull_updates m pods @ mbsc_updates m (mbsc_status b))"
      using v unfolding apply_updates_simps(3) [symmetric] by blast
    have "emits P (processImagesSpecs lib srv (snd v) pods)"
      unfolding us(1) using P(2) images [OF _ us(2)]
      by (intro emits_mono [OF emits_processImagesSpecs [OF pods(2)]]) auto
    then show ?thesis by (intro does_intros does_bind [OF emits_does] TrueI)
  qed
  have "does P (\<lambda>_. True) ?rest"
  proof (rule does_bind [OF does_updateStatusByPullPods [where P = P, OF pods(2) pull]])
    fix u :: "go_err option \<times> mic" assume u: "snd u = ?m1"
    have "does P ?v (updateStatusByMBSC srv ?m1)"
      using does_updateStatusByMBSC [of P ?m1 srv] P(2) mbsc by simp
    then have "does P (\<lambda>_. True) (do { v \<leftarrow> updateStatusByMBSC srv (snd u); ?last v })"
      unfolding u by (rule does_bind) (rule last)
    then show "does P (\<lambda>_. True) (case fst u of
        Some e \<Rightarrow> State_Monad.return (Some (errorf ''failed tp update the status for MIC based on pull pods'' e), False)
      | None \<Rightarrow> do { v \<leftarrow> updateStatusByMBSC srv (snd u); ?last v })"
      by (intro does_intros TrueI)
  qed
  moreover have "run_state (MIC_Reconcile lib srv m) h = run_state ?rest (h @ [?q])"
    using assms(1-3) by (simp add: MIC_Reconcile_def handleImageRebuildTriggerGeneration_def run_ListPullPods)
  ultimately have "calls (MIC_Reconcile lib srv m) h = [?q] @ calls ?rest (h @ [?q])"
    by (intro calls_after) (auto dest: does_emits)
  with c consider "c = ?q" | "c \<in> set (calls ?rest (h @ [?q]))" by auto
  then show ?thesis
    using P(1) does_calls [OF \<open>does P (\<lambda>_. True) ?rest\<close>] by cases auto
qed

text \<open>The action an image needs.\<close>

definition needed_action :: "mic \<Rightarrow> image_spec \<Rightarrow> action option" where
  "needed_action m spec =
     (case GetImageState m (is_image spec) of
        ImageNeedsSigning \<Rightarrow> Some SignImage
      | ImageNeedsBuilding \<Rightarrow> Some BuildImage
      | ImageDoesNotExist \<Rightarrow> if is_build spec = None \<and> is_sign spec = None then None else Some BuildImage
      | _ \<Rightarrow> None)"

lemma process_image_action:
  "needed_action m spec = Some act \<Longrightarrow> process_image lib srv m pods spec = Mbsc.CreateOrPatch lib srv m spec act"
  by (auto simp: needed_action_def process_image_def split: image_state.splits if_splits)

section \<open>A concrete module\<close>

text \<open>A module with an image that is built and signed and an image that is only signed.\<close>

definition sample_sign :: sign where
  "sample_sign = \<lparr>sgn_unsigned_image = ''reg/unsigned'', sgn_unsigned_tls = no_tls, sgn_key_secret = Some ''key'',
     sgn_cert_secret = Some ''cert'', sgn_files = [''/opt/m.ko'']\<rparr>"

definition built_image :: image_spec where
  "built_image = \<lparr>is_image = ''reg/built'', is_kernel_version = ''6.1'', is_build = Some \<lparr>bld_args = [],
     bld_dockerfile_cm = Some ''cm'', bld_base_tls = no_tls, bld_secrets = [], bld_kaniko = None, bld_selector = []\<rparr>,
     is_sign = Some sample_sign, is_skip_wait = False, is_registry_tls = Some no_tls, is_dir_name = ''/opt''\<rparr>"

definition signed_image :: image_spec where
  "signed_image = built_image\<lparr>is_image := ''reg/signed'', is_build := None\<rparr>"

definition sample_mic :: mic where
  "sample_mic = (new_mic ''mymod'' ''kmm'')\<lparr>mic_spec :=
     (mic_spec (new_mic ''mymod'' ''kmm''))\<lparr>ics_images := [built_image, signed_image]\<rparr>\<rparr>"

definition sample_mbsc :: "build_sign_state list \<Rightarrow> mbsc" where
  "sample_mbsc sts = (new_mbsc ''mymod'' ''kmm'')\<lparr>mbsc_status := sts\<rparr>"

text \<open>A cluster with the given pull pods and the given outcomes of builds.\<close>

definition image_cluster :: "pod list \<Rightarrow> build_sign_state list \<Rightarrow> server" where
  "image_cluster pods sts = empty_cluster\<lparr>s_pods := (\<lambda>h q. Inr pods), s_mbsc := (\<lambda>h k. Inr (sample_mbsc sts))\<rparr>"

abbreviation finished_pull :: "string \<Rightarrow> pod_phase \<Rightarrow> pod" where
  "finished_pull img ph \<equiv> (pull_pod ''mymod'' ''kmm'' img True None [] [])\<lparr>pod_phase := ph\<rparr>"

lemma finished_pull_ok [simp]: "pull_pod_ok (finished_pull img ph)" "pull_image (finished_pull img ph) = img"
  by (simp_all add: pull_pod_ok_def pull_pod_def empty_pod_def)

lemma sample_mic_facts [simp]:
  "\<not> mic_deleting sample_mic" "ics_rebuild_trigger (mic_spec sample_mic) = mic_status_trigger sample_mic"
  "mic_name sample_mic = ''mymod''" "mic_namespace sample_mic = ''kmm''" "GetImageState sample_mic k = ImageStateUnset"
  "ics_images (mic_spec sample_mic) = [built_image, signed_image]"
  "GetModuleImageSpec sample_mic ''reg/built'' = Some built_image"
  "GetModuleImageSpec sample_mic ''reg/signed'' = Some signed_image"
  by (simp_all add: sample_mic_def new_mic_def GetImageState_def GetModuleImageSpec_def built_image_def signed_image_def)

section \<open>Properties\<close>

text \<open>
  C5: an image is recorded as existing only when it was seen to exist. If a reconciliation sends a status in
  which an image exists, the image was recorded so before, or a listed pull pod of the image succeeded, or the
  build and sign controller reports success for the image, of signing when the image is to be signed.
\<close>

theorem image_exists_only_after_success:
  assumes "\<not> mic_deleting m" "ics_rebuild_trigger (mic_spec m) = mic_status_trigger m"
    and pods: "s_pods srv h (pull_pods_query (mic_name m) (mic_namespace m)) = Inr pods" "list_all pull_pod_ok pods"
    and c: "Patch_MIC_Status m1 m2 \<in> set (calls (MIC_Reconcile lib srv m) h)"
    and k: "GetImageState m2 k = ImageExists"
  shows "GetImageState m k = ImageExists \<or>
    (\<exists>p\<in>set pods. pull_image p = k \<and> pod_phase p = PodSucceeded) \<or>
    (\<exists>h' b st spec. s_mbsc srv h' (mic_namespace m, mic_name m) = Inr b \<and> st \<in> set (mbsc_status b) \<and>
       bst_image st = k \<and> bst_status st = ActionSuccess \<and> GetModuleImageSpec m k = Some spec \<and>
       (bst_action st = SignImage \<or> is_sign spec = None))" (is "?goal k")
proof -
  let ?P = "\<lambda>c. \<forall>m1 m2 k. c = Patch_MIC_Status m1 m2 \<longrightarrow> GetImageState m2 k = ImageExists \<longrightarrow> ?goal k"
  have pull: "?goal k" if "GetImageState (apply_updates (pull_updates m pods) m) k = ImageExists" for k
    using that
  proof (cases rule: GetImageState_apply_cases)
    case 2
    then obtain p where p: "p \<in> set pods" "pull_image p = k" "spec_verdict m k (pull_verdict p) = Some ImageExists"
      by (auto simp: pull_updates_def set_updates)
    then have "GetPullPodStatus p = Inr PullImageSuccess"
      by (auto simp: spec_verdict_def pull_verdict_def failed_pull_state_def split: option.splits sum.splits
          pull_status.splits if_splits)
    with p show ?thesis by (auto simp: GetPullPodStatus_Success)
  qed auto
  have mb: "?goal k" if "s_mbsc srv h' (mic_namespace m, mic_name m) = Inr b"
      "GetImageState (apply_updates (mbsc_updates m (mbsc_status b)) (apply_updates (pull_updates m pods) m)) k = ImageExists"
    for k b h'
    using that(2)
  proof (cases rule: GetImageState_apply_cases)
    case 1
    then show ?thesis by (rule pull)
  next
    case 2
    then obtain st spec where "st \<in> set (mbsc_status b)" "bst_image st = k" "GetModuleImageSpec m k = Some spec"
      "mbsc_verdict spec st = Some ImageExists"
      by (auto simp: mbsc_updates_def set_updates spec_verdict_def split: option.splits)
    with that(1) show ?thesis by (auto simp: mbsc_verdict_def split: if_splits)
  qed
  have "?P (Patch_MIC_Status m1 m2)"
    by (rule MIC_Reconcile_steps [of m srv h pods ?P, OF assms(1-4) _ _ _ _ _ _ c])
      (auto simp: image_request_ok_def asks_for_def dest: pull mb split: image_state.splits)
  with k show ?thesis by blast
qed

theorem image_exists_only_after_success_witness:
  "list_ex (\<lambda>c. case c of Patch_MIC_Status m1 m2 \<Rightarrow> GetImageState m2 ''reg/built'' = ImageExists | _ \<Rightarrow> False)
     (calls (MIC_Reconcile plain_library (image_cluster [finished_pull ''reg/built'' PodSucceeded] []) sample_mic) []) \<and>
   pod_phase (finished_pull ''reg/built'' PodSucceeded) = PodSucceeded"
proof -
  let ?pods = "[finished_pull ''reg/built'' PodSucceeded]"
  let ?run = "calls (MIC_Reconcile plain_library (image_cluster ?pods []) sample_mic) []"
  have e: "list_ex (\<lambda>c. case c of Patch_MIC_Status m1 m2 \<Rightarrow> GetImageState m2 ''reg/built'' = ImageExists | _ \<Rightarrow> False) ?run"
    by code_simp
  then obtain c where "c \<in> set ?run" "case c of Patch_MIC_Status m1 m2 \<Rightarrow> GetImageState m2 ''reg/built'' = ImageExists | _ \<Rightarrow> False"
    by (auto simp: list_ex_iff)
  then obtain m1 m2 where m: "Patch_MIC_Status m1 m2 \<in> set ?run" "GetImageState m2 ''reg/built'' = ImageExists"
    by - (cases c, auto)
  have "s_pods (image_cluster ?pods []) [] (pull_pods_query (mic_name sample_mic) (mic_namespace sample_mic)) = Inr ?pods"
    by (simp add: image_cluster_def)
  from image_exists_only_after_success [OF sample_mic_facts(1,2) this _ m] e show ?thesis
    by (auto simp: image_cluster_def sample_mbsc_def new_mbsc_def)
qed

text \<open>
  The outcome of pull pods is recorded before they are deleted. Handling the pods of a module sends
  one status patch, then deletes only pods that are over, and none when the patch fails. In the status that
  is sent the image of a pod that succeeded exists, unless a later pod of the list says otherwise.
\<close>

theorem pull_pods_deleted_after_status:
  assumes ok: "list_all pull_pod_ok pods" and ne: "pods \<noteq> []"
  shows "\<exists>m' ds. calls (updateStatusByPullPods srv m pods) h = Patch_MIC_Status m m' # ds \<and>
    list_all (\<lambda>c. list_ex (\<lambda>p. c = Delete_Pod p \<and> pull_over m p) pods) ds \<and>
    (s_write srv h (Patch_MIC_Status m m') \<noteq> None \<longrightarrow> ds = []) \<and>
    (\<forall>us p vs. pods = us @ p # vs \<longrightarrow> pod_phase p = PodSucceeded \<longrightarrow> GetModuleImageSpec m (pull_image p) \<noteq> None \<longrightarrow>
       pull_image p \<notin> pull_image ` set vs \<longrightarrow> GetImageState m' (pull_image p) = ImageExists)"
proof -
  let ?m = "apply_updates (pull_updates m pods) m" and ?dels = "filter (pull_over m) pods"
  let ?h = "h @ [Patch_MIC_Status m ?m]"
  have state: "GetImageState ?m (pull_image p) = ImageExists" if pods: "pods = us @ p # vs" "pod_phase p = PodSucceeded"
      "GetModuleImageSpec m (pull_image p) \<noteq> None" "pull_image p \<notin> pull_image ` set vs" for us p vs
  proof -
    have "pull_updates m pods = pull_updates m us @ [(pull_image p, ImageExists)] @ pull_updates m vs"
      using that by (induction us arbitrary: pods)
        (auto simp: pull_updates_def spec_verdict_def pull_verdict_def GetPullPodStatus_Success [THEN iffD2] split: option.split)
    moreover have "pull_image p \<notin> fst ` set (pull_updates m vs)"
      using that(4) updates_images unfolding pull_updates_def by (rule contra_subsetD [rotated])
    ultimately show ?thesis by (simp add: GetImageState_apply_other GetImageState_Set)
  qed
  show ?thesis
  proof (cases "s_write srv h (Patch_MIC_Status m ?m)")
    case (Some er)
    then show ?thesis using state
      by (intro exI [of _ ?m] exI [of _ "[]"]) (auto simp: calls_def updateStatusByPullPods_run [OF ok ne] Let_def)
  next
    case None
    let ?d = "collect_errors (DeletePullPod srv) ?dels"
    have "snd (run_state (updateStatusByPullPods srv m pods) h) = ?h @ calls ?d ?h"
      using None by (simp add: updateStatusByPullPods_run [OF ok ne] Let_def emits_history [OF emits_DeletePullPods]
          del: collect_errors.simps)
    then have "calls (updateStatusByPullPods srv m pods) h = Patch_MIC_Status m ?m # calls ?d ?h"
      by (simp add: calls_def [of "updateStatusByPullPods srv m pods"])
    moreover have "list_all (\<lambda>c. list_ex (\<lambda>p. c = Delete_Pod p \<and> pull_over m p) pods) (calls ?d ?h)"
      using emits_calls [OF emits_DeletePullPods [of ?dels srv], of _ ?h] by (auto simp: list_all_iff list_ex_iff)
    ultimately show ?thesis using None state by (intro exI [of _ ?m] exI [of _ "calls ?d ?h"]) auto
  qed
qed

theorem pull_pods_deleted_after_status_witness:
  "\<exists>m' ds. calls (updateStatusByPullPods empty_cluster sample_mic [finished_pull ''reg/built'' PodSucceeded]) [] =
     Patch_MIC_Status sample_mic m' # ds \<and> GetImageState m' ''reg/built'' = ImageExists"
proof -
  have ok: "list_all pull_pod_ok [finished_pull ''reg/built'' PodSucceeded]" by simp
  from pull_pods_deleted_after_status [OF ok, of empty_cluster sample_mic "[]"]
  obtain m' ds where c: "calls (updateStatusByPullPods empty_cluster sample_mic [finished_pull ''reg/built'' PodSucceeded]) [] =
      Patch_MIC_Status sample_mic m' # ds"
    and st: "\<And>us p vs. [finished_pull ''reg/built'' PodSucceeded] = us @ p # vs \<Longrightarrow> pod_phase p = PodSucceeded \<Longrightarrow>
       GetModuleImageSpec sample_mic (pull_image p) \<noteq> None \<Longrightarrow>
       pull_image p \<notin> pull_image ` set vs \<Longrightarrow> GetImageState m' (pull_image p) = ImageExists"
    by blast
  have "GetImageState m' (pull_image (finished_pull ''reg/built'' PodSucceeded)) = ImageExists"
    by (rule st [of "[]" _ "[]"]) (simp_all only: finished_pull_ok, simp_all)
  with c show ?thesis by (simp only: finished_pull_ok) blast
qed

text \<open>
  What is requested for one image of a module follows from its recorded state. Only for an image without
  a state and without a pull pod is a pull pod created, one that reports failure exactly when something is to
  happen then; only a missing image with build or sign settings, an image to build or an image to sign changes
  the build and sign requests, that of this image alone; nothing is asked for an image that exists.
\<close>

theorem process_image_requests:
  assumes "list_all pull_pod_ok pods"
  shows "list_all (image_request_ok m pods spec) (writes (process_image lib srv m pods spec) h)"
  using emits_calls [OF emits_process_image [OF assms, of m spec lib srv], of _ h]
  by (fastforce simp: writes_def list_all_iff)

theorem process_image_requests_witness:
  "list_all (image_request_ok sample_mic [] built_image) (writes (process_image plain_library empty_cluster sample_mic [] built_image) [])"
  by (rule process_image_requests) simp

lemma process_image_progress:
  assumes ok: "list_all pull_pod_ok pods"
    and own: "\<And>o'. \<exists>ow. l_SetControllerReference lib (mic_owner_of m) o' = Inr ow"
    and mbsc: "s_mbsc srv h (mic_namespace m, mic_name m) = Inr b \<or>
      s_mbsc srv h (mic_namespace m, mic_name m) = Inl (ApiErr NotFound)"
  shows "(GetImageState m (is_image spec) = ImageStateUnset \<and> is_image spec \<notin> pull_image ` set pods \<longrightarrow>
      (\<exists>p. writes (process_image lib srv m pods spec) h = [Create_Pod p] \<and> GetPullPodImage p = Inr (is_image spec))) \<and>
    (\<forall>act. needed_action m spec = Some act \<longrightarrow>
      (\<exists>c. writes (process_image lib srv m pods spec) h = [c] \<and> asks_for m spec act c) \<or>
      writes (process_image lib srv m pods spec) h = [] \<and> GetImageSpec b (is_image spec) = Some \<lparr>bss_spec = spec, bss_action = act\<rparr>)"
proof (intro conjI impI allI)
  assume u: "GetImageState m (is_image spec) = ImageStateUnset \<and> is_image spec \<notin> pull_image ` set pods"
  then have "find (\<lambda>p. is_image spec = pull_image p) pods = None" by (auto simp: find_None_iff)
  moreover obtain ow where "l_SetControllerReference lib (mic_owner_of m) None = Inr ow" using own by blast
  moreover have "pod_owner (pull_pod name ns img once sec pol tols) = None" for name ns img once sec pol tols
    by (simp add: pull_pod_def empty_pod_def)
  ultimately show "\<exists>p. writes (process_image lib srv m pods spec) h = [Create_Pod p] \<and> GetPullPodImage p = Inr (is_image spec)"
    using u by (simp add: process_image_def GetPullPodForImage_ok [OF ok] CreatePullPod_def Let_def writes_def calls_def
        do_write_def pull_pod_facts)
next
  fix act assume act: "needed_action m spec = Some act"
  have mut: "\<exists>b'. mutate_mbsc lib m spec act b0 = Inr b'" for b0
    using own [of "mbsc_owner b0"] by (auto simp: mutate_mbsc_def Let_def setModuleImageSpec_def)
  obtain b1 where b1: "mutate_mbsc lib m spec act b = Inr b1" using mut by blast
  obtain b2 where b2: "mutate_mbsc lib m spec act (new_mbsc (mic_name m) (mic_namespace m)) = Inr b2" using mut by blast
  have "asks_for m spec act (Patch_MBSC b b1)" "asks_for m spec act (Create_MBSC b2)"
    using mutate_asks [OF b1] mutate_asks [OF b2] by (auto simp: asks_for_def)
  moreover have "GetImageSpec b1 (is_image spec) = Some \<lparr>bss_spec = spec, bss_action = act\<rparr>"
    using mutate_asks [OF b1] by simp
  ultimately show "(\<exists>c. writes (process_image lib srv m pods spec) h = [c] \<and> asks_for m spec act c) \<or>
      writes (process_image lib srv m pods spec) h = [] \<and> GetImageSpec b (is_image spec) = Some \<lparr>bss_spec = spec, bss_action = act\<rparr>"
    using mbsc b1 b2
    by (cases "b1 = b") (auto simp: process_image_action [OF act] Mbsc.CreateOrPatch_def Client.CreateOrPatch_def get_mbsc_def do_write_def
        writes_def calls_def IsNotFound_def)
qed

text \<open>
  A missing image is worked on. With owner references that can be set, reconciling an image without a
  state and without a pull pod creates exactly one pod; an image that is to be built or signed has the request
  in the build and sign object that was read, or one write puts it there.
\<close>

theorem missing_image_is_worked_on:
  assumes ok: "list_all pull_pod_ok pods"
    and own: "\<And>o'. \<exists>ow. l_SetControllerReference lib (mic_owner_of m) o' = Inr ow"
    and mbsc: "s_mbsc srv h (mic_namespace m, mic_name m) = Inr b \<or>
      s_mbsc srv h (mic_namespace m, mic_name m) = Inl (ApiErr NotFound)"
  shows "(GetImageState m (is_image spec) = ImageStateUnset \<and> is_image spec \<notin> pull_image ` set pods \<longrightarrow>
      (\<exists>p. writes (process_image lib srv m pods spec) h = [Create_Pod p] \<and> GetPullPodImage p = Inr (is_image spec))) \<and>
    (\<forall>act. needed_action m spec = Some act \<longrightarrow>
      (\<exists>c. writes (process_image lib srv m pods spec) h = [c] \<and> asks_for m spec act c) \<or>
      writes (process_image lib srv m pods spec) h = [] \<and> GetImageSpec b (is_image spec) = Some \<lparr>bss_spec = spec, bss_action = act\<rparr>)"
  using assms by (rule process_image_progress)

theorem missing_image_is_worked_on_witness:
  "\<exists>p. writes (process_image plain_library empty_cluster sample_mic [] built_image) [] = [Create_Pod p] \<and>
     GetPullPodImage p = Inr (is_image built_image)"
  using missing_image_is_worked_on [of "[]" plain_library sample_mic empty_cluster "[]" undefined built_image]
  by (simp add: plain_library_def empty_cluster_def)

lemma updateStatusByMBSC_state:
  assumes b: "s_mbsc srv h (mic_namespace m, mic_name m) = Inr b" and wf: "mbsc_wf b"
    and spec: "GetModuleImageSpec m k = Some spec"
  shows "GetImageState (snd (fst (run_state (updateStatusByMBSC srv m) h))) k =
    (case lookup_outcome b k of
       Some (_, ActionFailure) \<Rightarrow> ImageDoesNotExist
     | Some (act, ActionSuccess) \<Rightarrow> if act = BuildImage \<and> is_sign spec \<noteq> None then ImageNeedsSigning else ImageExists
     | _ \<Rightarrow> GetImageState m k)"
proof -
  let ?v = "\<lambda>st. spec_verdict m (bst_image st) (\<lambda>spec. mbsc_verdict spec st)"
  have r: "snd (fst (run_state (updateStatusByMBSC srv m) h)) = apply_updates (updates bst_image ?v (mbsc_status b)) m"
    using b by (simp add: updateStatusByMBSC_def run_Get_mbsc mbsc_steps mbsc_updates_def do_write_def Let_def)
  have "GetImageState (apply_updates (updates bst_image ?v sts) n) k =
      (case find (\<lambda>s. bst_image s = k) sts of None \<Rightarrow> GetImageState n k
       | Some st \<Rightarrow> (case ?v st of None \<Rightarrow> GetImageState n k | Some s \<Rightarrow> s))"
    if "distinct (map bst_image sts)" for sts n
    using that
  proof (induction sts arbitrary: n)
    case (Cons st sts)
    have other: "k \<notin> fst ` set (updates bst_image ?v sts)" if "bst_image st = k"
      using Cons.prems that updates_images [of bst_image ?v sts] by auto
    show ?case
    proof (cases "bst_image st = k")
      case True
      then show ?thesis using other by (auto simp: GetImageState_apply_other GetImageState_Set split: option.split)
    next
      case False
      then show ?thesis using Cons by (auto simp: GetImageState_Set split: option.split)
    qed
  qed simp
  from this [of "mbsc_status b" m] wf
  have g: "GetImageState (apply_updates (updates bst_image ?v (mbsc_status b)) m) k =
      (case find (\<lambda>s. bst_image s = k) (mbsc_status b) of None \<Rightarrow> GetImageState m k
       | Some st \<Rightarrow> (case ?v st of None \<Rightarrow> GetImageState m k | Some s \<Rightarrow> s))"
    by (simp add: mbsc_wf_def)
  show ?thesis
  proof (cases "find (\<lambda>s. bst_image s = k) (mbsc_status b)")
    case None
    then show ?thesis using r g by (simp add: lookup_outcome_def)
  next
    case (Some st)
    then have "bst_image st = k" by (auto simp: find_Some_iff)
    with Some show ?thesis using r g spec
      by (cases "bst_status st"; cases "bst_action st")
        (auto simp: lookup_outcome_def spec_verdict_def mbsc_verdict_def)
  qed
qed

text \<open>
  The state of an image after reading the outcomes of builds is the one the outcome of its last action
  implies: missing after a failure, to be signed after a build when it is to be signed, existing after any
  other success, unchanged while there is no outcome.
\<close>

theorem image_state_follows_outcome:
  assumes b: "s_mbsc srv h (mic_namespace m, mic_name m) = Inr b" and wf: "mbsc_wf b"
    and spec: "GetModuleImageSpec m k = Some spec"
  shows "GetImageState (snd (fst (run_state (updateStatusByMBSC srv m) h))) k =
    (case lookup_outcome b k of
       Some (_, ActionFailure) \<Rightarrow> ImageDoesNotExist
     | Some (act, ActionSuccess) \<Rightarrow> if act = BuildImage \<and> is_sign spec \<noteq> None then ImageNeedsSigning else ImageExists
     | _ \<Rightarrow> GetImageState m k)"
  using assms by (rule updateStatusByMBSC_state)

theorem image_state_follows_outcome_witness:
  "GetImageState (snd (fst (run_state (updateStatusByMBSC (image_cluster []
      [\<lparr>bst_image = ''reg/built'', bst_status = ActionSuccess, bst_action = BuildImage\<rparr>]) sample_mic) []))) ''reg/built'' =
   ImageNeedsSigning"
proof -
  let ?sts = "[\<lparr>bst_image = ''reg/built'', bst_status = ActionSuccess, bst_action = BuildImage\<rparr>]"
  have "s_mbsc (image_cluster [] ?sts) [] (mic_namespace sample_mic, mic_name sample_mic) = Inr (sample_mbsc ?sts)"
    by (simp add: image_cluster_def)
  moreover have "mbsc_wf (sample_mbsc ?sts)" by (simp add: mbsc_wf_def sample_mbsc_def new_mbsc_def)
  ultimately show ?thesis
    using image_state_follows_outcome [of "image_cluster [] ?sts" "[]" sample_mic "sample_mbsc ?sts" "''reg/built''" built_image]
    by (simp add: lookup_outcome_def sample_mbsc_def built_image_def)
qed

text \<open>
  A changed rebuild trigger makes the controller start over, once. It deletes the build and sign object,
  then clears every image state and records the trigger; a failed deletion changes nothing, and with the new
  status the trigger is not acted on again.
\<close>

theorem rebuild_trigger_starts_over_once:
  assumes "ics_rebuild_trigger (mic_spec m) \<noteq> mic_status_trigger m"
  shows "let r = run_state (handleImageRebuildTriggerGeneration srv m) h; m' = snd (fst r);
             failed = (\<exists>e. s_write srv h (Delete_MBSC (mic_namespace m, mic_name m)) = Some e \<and> \<not> IsNotFound e)
    in snd r = h @ Delete_MBSC (mic_namespace m, mic_name m) # (if failed then [] else [Patch_MIC_Status m m']) \<and>
       (if failed then m' = m
        else (\<forall>k. GetImageState m' k = ImageStateUnset) \<and> mic_spec m' = mic_spec m \<and>
          run_state (handleImageRebuildTriggerGeneration srv m') h' = ((Inr False, m'), h')) \<and>
       (fst (fst r) = Inr True \<longleftrightarrow> \<not> failed \<and>
          s_write srv (h @ [Delete_MBSC (mic_namespace m, mic_name m)]) (Patch_MIC_Status m m') = None)"
  using assms
  by (auto simp: handleImageRebuildTriggerGeneration_def Mbsc.Delete_def do_write_def IgnoreNotFound_def Let_def
      GetImageState_def split: option.split)

theorem rebuild_trigger_starts_over_once_witness:
  "snd (run_state (handleImageRebuildTriggerGeneration empty_cluster (sample_mic\<lparr>mic_status_trigger := Some 1\<rparr>)) []) =
   [Delete_MBSC (''kmm'', ''mymod''), Patch_MIC_Status (sample_mic\<lparr>mic_status_trigger := Some 1\<rparr>) sample_mic]"
proof -
  have t: "ics_rebuild_trigger (mic_spec (sample_mic\<lparr>mic_status_trigger := Some 1\<rparr>)) \<noteq>
      mic_status_trigger (sample_mic\<lparr>mic_status_trigger := Some 1\<rparr>)"
    by (simp add: sample_mic_def new_mic_def)
  from rebuild_trigger_starts_over_once [OF t, of empty_cluster "[]" "[]"] show ?thesis
    by (simp add: Let_def empty_cluster_def handleImageRebuildTriggerGeneration_def Mbsc.Delete_def do_write_def
        IgnoreNotFound_def sample_mic_def new_mic_def)
qed

text \<open>
  An image whose pull pod ended in phase Failed or Unknown is stuck. Its state stays unset, the pod is not
  deleted and no new pull pod is made, so every further reconciliation with these pods does the same.
\<close>

theorem failed_pull_pod_blocks_image:
  assumes ok: "list_all pull_pod_ok pods" and p: "p \<in> set pods" "pull_image p = is_image spec"
    and dead: "\<forall>q\<in>set pods. pull_image q = is_image spec \<longrightarrow> pod_phase q = PodFailed \<or> pod_phase q = PodUnknown"
    and unset: "GetImageState m (is_image spec) = ImageStateUnset"
    and wanted: "GetModuleImageSpec m (is_image spec) = Some spec"
  shows "let r = run_state (updateStatusByPullPods srv m pods) h; m' = snd (fst r) in
    Delete_Pod p \<notin> set (calls (updateStatusByPullPods srv m pods) h) \<and>
    GetImageState m' (is_image spec) = ImageStateUnset \<and> calls (process_image lib srv m' pods spec) h' = []"
proof -
  let ?m = "apply_updates (pull_updates m pods) m"
  have st: "GetPullPodStatus q = Inr PullImageUnexpectedErr" if "q \<in> set pods" "pull_image q = is_image spec" for q
    using dead that by (auto simp: GetPullPodStatus_def)
  then have over: "\<not> pull_over m p" using p wanted by (simp add: pull_over_def)
  have d: "does (\<lambda>c. c \<noteq> Delete_Pod p) (\<lambda>r. snd r = ?m) (updateStatusByPullPods srv m pods)"
    by (rule does_updateStatusByPullPods [OF ok]) (use over in auto)
  have "(is_image spec, s) \<notin> set (pull_updates m pods)" for s
    using st by (auto simp: pull_updates_def set_updates spec_verdict_def pull_verdict_def split: option.splits)
  then have "is_image spec \<notin> fst ` set (pull_updates m pods)" by auto
  with unset have s: "GetImageState ?m (is_image spec) = ImageStateUnset" by (simp add: GetImageState_apply_other)
  obtain q where "find (\<lambda>p. is_image spec = pull_image p) pods = Some q"
    using p by (cases "find (\<lambda>p. is_image spec = pull_image p) pods") (auto simp: find_None_iff)
  then have "calls (process_image lib srv ?m pods spec) h' = []"
    using s by (simp add: process_image_def GetPullPodForImage_ok [OF ok] calls_def)
  with does_result [OF d, of h] does_calls [OF d, of _ h] s show ?thesis by (auto simp: Let_def)
qed

theorem failed_pull_pod_blocks_image_witness:
  "Delete_Pod (finished_pull ''reg/built'' PodFailed) \<notin>
     set (calls (updateStatusByPullPods empty_cluster sample_mic [finished_pull ''reg/built'' PodFailed]) [])"
proof -
  have i: "is_image built_image = ''reg/built''" by (simp add: built_image_def)
  have ok: "list_all pull_pod_ok [finished_pull ''reg/built'' PodFailed]" by simp
  have w: "GetModuleImageSpec sample_mic (is_image built_image) = Some built_image" unfolding i by simp
  have d: "\<forall>q\<in>set [finished_pull ''reg/built'' PodFailed]. pull_image q = is_image built_image \<longrightarrow>
      pod_phase q = PodFailed \<or> pod_phase q = PodUnknown" by simp
  have p: "finished_pull ''reg/built'' PodFailed \<in> set [finished_pull ''reg/built'' PodFailed]"
    "pull_image (finished_pull ''reg/built'' PodFailed) = is_image built_image"
    unfolding i finished_pull_ok by simp_all
  from failed_pull_pod_blocks_image [OF ok p d sample_mic_facts(5) w, of empty_cluster "[]" plain_library "[]",
      unfolded Let_def]
  show ?thesis by (rule conjunct1)
qed

end
