(* ===== verification/Build_Sign.thy ===== *)
theory Build_Sign
  imports Worker_Pod
begin

text \<open>
  Building and signing module images in the cluster, \<^verbatim>\<open>internal/buildsign/manager.go\<close> and
  \<^verbatim>\<open>internal/buildsign/resource\<close> (\<^verbatim>\<open>common.go\<close>, \<^verbatim>\<open>resourcemanager.go\<close>,
  \<^verbatim>\<open>volumes.go\<close> and the template \<^verbatim>\<open>Dockerfile.gotmpl\<close>). A build or sign is a pod that runs
  kaniko; its specification, the Dockerfile and the signing keys are hashed into an annotation, by which a
  changed request is recognised. Dereferencing a missing section of the request is a panic. \<open>getenv\<close> is the
  process environment. The resources are always pods, so the type assertions of the code succeed.
\<close>

section \<open>Labels and names\<close>

definition moduleLabels :: "string \<Rightarrow> action \<Rightarrow> labels" where
  "moduleLabels moduleName resourceType = [(ModuleNameLabel, moduleName), (ResourceType, action_string resourceType)]"

definition moduleKernelLabels :: "string \<Rightarrow> string \<Rightarrow> action \<Rightarrow> labels" where
  "moduleKernelLabels moduleName targetKernel resourceType =
     AList.update TargetKernelTarget targetKernel (moduleLabels moduleName resourceType)"

definition resourceLabels :: "string \<Rightarrow> string \<Rightarrow> action \<Rightarrow> labels" where
  "resourceLabels modName targetKernel resourceType =
     AList.update ''app.kubernetes.io/part-of'' ''kmm''
       (AList.update ''app.kubernetes.io/component'' (action_string resourceType)
         (AList.update ''app.kubernetes.io/name'' ''kmm'' (moduleKernelLabels modName targetKernel resourceType)))"

definition filterResourcesByOwner :: "pod list \<Rightarrow> owner_ref \<Rightarrow> pod list" where
  "filterResourcesByOwner resources owner = filter (\<lambda>obj. IsControlledBy obj owner) resources"

definition dockerfileAnnotationKey :: string where "dockerfileAnnotationKey = ''dockerfile''"
definition dockerfileVolumeName :: string where "dockerfileVolumeName = ''dockerfile''"

section \<open>Volumes\<close>

definition secret_name :: "string \<Rightarrow> string" where
  "secret_name s = ''secret-'' @ s"

definition ro_mount :: "string \<Rightarrow> string \<Rightarrow> volume_mount" where
  "ro_mount name path = \<lparr>vm_name = name, vm_path = path, vm_sub_path = [], vm_read_only = True\<rparr>"

definition repo_secret_volumes :: "string option \<Rightarrow> volume list \<times> volume_mount list" where
  "repo_secret_volumes imageRepoSecret =
     (case imageRepoSecret of
        None \<Rightarrow> ([], [])
      | Some s \<Rightarrow>
          ([\<lparr>vol_name = secret_name s, vol_source = SecretVolume s [(''.dockerconfigjson'', ''config.json'')]\<rparr>],
           [ro_mount (secret_name s) ''/kaniko/.docker'']))"

definition makeBuildResourceVolumesAndVolumeMounts ::
  "build \<Rightarrow> string option \<Rightarrow> go_err + volume list \<times> volume_mount list" where
  "makeBuildResourceVolumesAndVolumeMounts buildConfig imageRepoSecret =
     (case bld_dockerfile_cm buildConfig of
        None \<Rightarrow> Inl (Panic ''nil pointer dereference'')
      | Some cm \<Rightarrow>
          Inr ([\<lparr>vol_name = dockerfileVolumeName, vol_source = ConfigMapVolume cm [(DockerfileCMKey, ''Dockerfile'')]\<rparr>,
                \<lparr>vol_name = ''lib-modules'', vol_source = HostPath ''/lib/modules'' (Some ''Directory'')\<rparr>] @
               map (\<lambda>s. \<lparr>vol_name = secret_name s, vol_source = SecretVolume s []\<rparr>) (bld_secrets buildConfig) @
               fst (repo_secret_volumes imageRepoSecret),
               [ro_mount dockerfileVolumeName ''/workspace'', ro_mount ''lib-modules'' ''/host/lib/modules''] @
               map (\<lambda>s. ro_mount (secret_name s) (''/run/secrets/'' @ s)) (bld_secrets buildConfig) @
               snd (repo_secret_volumes imageRepoSecret)))"

definition makeSignResourceVolumesAndVolumeMounts ::
  "sign \<Rightarrow> string option \<Rightarrow> go_err + volume list \<times> volume_mount list" where
  "makeSignResourceVolumesAndVolumeMounts signConfig imageRepoSecret =
     (case (sgn_cert_secret signConfig, sgn_key_secret signConfig) of
        (Some cert, Some key) \<Rightarrow>
          Inr ([\<lparr>vol_name = secret_name cert, vol_source = SecretVolume cert [(''cert'', ''cert.pem'')]\<rparr>,
                \<lparr>vol_name = secret_name key, vol_source = SecretVolume key [(''key'', ''key.pem'')]\<rparr>,
                \<lparr>vol_name = dockerfileVolumeName, vol_source = DownwardAPI
                   [(''Dockerfile'', ''metadata.annotations['' @ [CHR 0x27] @ dockerfileAnnotationKey @ [CHR 0x27] @ '']'')]\<rparr>] @
               fst (repo_secret_volumes imageRepoSecret),
               [ro_mount (secret_name cert) ''/run/secrets/cert'', ro_mount (secret_name key) ''/run/secrets/key'',
                ro_mount dockerfileVolumeName ''/workspace''] @
               snd (repo_secret_volumes imageRepoSecret))
      | _ \<Rightarrow> Inl (Panic ''nil pointer dereference''))"

section \<open>Pod specifications\<close>

definition containerArgs :: "mld \<Rightarrow> string \<Rightarrow> tls_options \<Rightarrow> bool \<Rightarrow> go_err + string list" where
  "containerArgs d destinationImg tlsOptions pushImage =
     (let pull = (if tls_insecure tlsOptions then [''--insecure-pull''] else []) @
                 (if tls_skip_verify tlsOptions then [''--skip-tls-verify-pull''] else [])
      in if pushImage then
           (case mld_registry_tls d of
              None \<Rightarrow> Inl (Panic ''nil pointer dereference'')
            | Some tls \<Rightarrow>
                Inr ([''--destination'', destinationImg] @ (if tls_insecure tls then [''--insecure''] else []) @
                     (if tls_skip_verify tls then [''--skip-tls-verify''] else []) @ pull))
         else Inr (''--no-push'' # pull))"

definition build_overrides :: "mld \<Rightarrow> build_arg list" where
  "build_overrides d =
     [\<lparr>ba_name = ''KERNEL_VERSION'', ba_value = mld_kernel_version d\<rparr>,
      \<lparr>ba_name = ''KERNEL_FULL_VERSION'', ba_value = mld_kernel_version d\<rparr>,
      \<lparr>ba_name = ''MOD_NAME'', ba_value = mld_name d\<rparr>, \<lparr>ba_name = ''MOD_NAMESPACE'', ba_value = mld_namespace d\<rparr>]"

text \<open>The kaniko image: a tag in the build settings replaces the tag or digest of the configured image.\<close>

definition kaniko_image :: "(string \<Rightarrow> string) \<Rightarrow> build \<Rightarrow> string" where
  "kaniko_image getenv buildConfig =
     (let img = getenv ''RELATED_IMAGE_BUILD'' in
      case bld_kaniko buildConfig of
        Some kp \<Rightarrow>
          if kp_tag kp \<noteq> [] then takeWhile (\<lambda>c. c \<noteq> CHR 0x40 \<and> c \<noteq> CHR '':'') img @ '':'' @ kp_tag kp
          else img
      | None \<Rightarrow> img)"

definition kaniko_pod :: "string list \<Rightarrow> string \<Rightarrow> volume list \<times> volume_mount list \<Rightarrow> labels \<Rightarrow> toleration list \<Rightarrow> pod" where
  "kaniko_pod args img vols selector tolerations =
     empty_pod\<lparr>
       pod_containers := [empty_container\<lparr>c_args := args, c_name := ''kaniko'', c_image := img, c_mounts := snd vols\<rparr>],
       pod_restart_policy := ''Never'',
       pod_volumes := fst vols,
       pod_node_selector := selector,
       pod_tolerations := tolerations\<rparr>"

definition buildSpec :: "(string \<Rightarrow> string) \<Rightarrow> mld \<Rightarrow> string \<Rightarrow> bool \<Rightarrow> go_err + pod" where
  "buildSpec getenv d destinationImg pushImage =
     (case mld_build d of
        None \<Rightarrow> Inl (Panic ''nil pointer dereference'')
      | Some buildConfig \<Rightarrow>
          and_then (containerArgs d destinationImg (bld_base_tls buildConfig) pushImage) (\<lambda>args.
            let buildArgs = ApplyBuildArgOverrides (bld_args buildConfig) (build_overrides d);
                args' = args @ concat (map (\<lambda>ba. [''--build-arg'', ba_name ba @ ''='' @ ba_value ba]) buildArgs);
                selector = (if bld_selector buildConfig \<noteq> [] then bld_selector buildConfig else mld_selector d)
            in and_then (makeBuildResourceVolumesAndVolumeMounts buildConfig (mld_repo_secret d)) (\<lambda>vols.
                 Inr (kaniko_pod args' (kaniko_image getenv buildConfig) vols selector (mld_tolerations d)))))"

definition signSpec :: "(string \<Rightarrow> string) \<Rightarrow> mld \<Rightarrow> string \<Rightarrow> bool \<Rightarrow> go_err + pod" where
  "signSpec getenv d destinationImg pushImage =
     (case mld_sign d of
        None \<Rightarrow> Inl (Panic ''nil pointer dereference'')
      | Some signConfig \<Rightarrow>
          and_then (containerArgs d destinationImg (sgn_unsigned_tls signConfig) pushImage) (\<lambda>args.
            and_then (makeSignResourceVolumesAndVolumeMounts signConfig (mld_repo_secret d)) (\<lambda>vols.
              Inr (kaniko_pod args (getenv ''RELATED_IMAGE_BUILD'') vols (mld_selector d) (mld_tolerations d)))))"

section \<open>The Dockerfile of a sign\<close>

record TemplateData =
  td_files_to_sign :: "string list"
  td_sign_image :: string
  td_unsigned_image :: string
  td_dir_name :: string

text \<open>The text that executing \<^verbatim>\<open>templates/Dockerfile.gotmpl\<close> writes; \<^verbatim>\<open>{{-\<close> trims the white space before it.\<close>

definition sign_step :: "string \<Rightarrow> string" where
  \<open>sign_step f =
     nl @ ''RUN for file in /opt'' @ f @ ''; do '' @ [CHR 0x5C] @ nl @
     ''      [ -e "${file}" ] && /usr/local/bin/sign-file sha256 /run/secrets/key/key.pem /run/secrets/cert/cert.pem "${file}"; '' @
     [CHR 0x5C] @ nl @ ''    done''\<close>

definition tmpl_Execute :: "TemplateData \<Rightarrow> string" where
  "tmpl_Execute td =
     ''FROM '' @ td_unsigned_image td @ '' as source'' @ nl @ nl @
     ''FROM '' @ td_sign_image td @ '' AS signimage'' @ nl @
     ''COPY --from=source '' @ td_dir_name td @ '' /opt'' @ td_dir_name td @
     concat (map sign_step (td_files_to_sign td)) @ nl @ nl @
     ''FROM source'' @ nl @
     ''COPY --from=signimage /opt'' @ td_dir_name td @ '' '' @ td_dir_name td @ nl"

section \<open>Hashes\<close>

definition getBuildHashAnnotationValue :: "library \<Rightarrow> server \<Rightarrow> string \<Rightarrow> string \<Rightarrow> pod \<Rightarrow> (go_err + nat) cio" where
  "getBuildHashAnnotationValue lib srv configMapName namespace spec = do {
     r \<leftarrow> get_configmap srv (namespace, configMapName);
     State_Monad.return
       (case r of
          Inl e \<Rightarrow> Inl (Errorf ''failed to get dockerfile ConfigMap'' e)
        | Inr data \<Rightarrow>
            (case map_of data DockerfileCMKey of
               None \<Rightarrow> Inl (NewErr ''invalid Dockerfile ConfigMap format, key is missing'')
             | Some dockerfile \<Rightarrow>
                 or_wrap ''could not hash the build spec template and dockefile'' (l_Hash_build lib spec dockerfile)))
   }"

definition getSecretData :: "server \<Rightarrow> string \<Rightarrow> string \<Rightarrow> string \<Rightarrow> (go_err + string) cio" where
  "getSecretData srv secretName secretDataKey namespace = do {
     r \<leftarrow> get_secret srv (namespace, secretName);
     State_Monad.return
       (case r of
          Inl e \<Rightarrow> Inl (Errorf ''failed to get Secret'' e)
        | Inr data \<Rightarrow>
            (case map_of data secretDataKey of
               None \<Rightarrow> Inl (NewErr ''invalid Secret format, key is missing'')
             | Some d \<Rightarrow> Inr d))
   }"

definition getSignHashAnnotationValue ::
  "library \<Rightarrow> server \<Rightarrow> string \<Rightarrow> string \<Rightarrow> string \<Rightarrow> string \<Rightarrow> pod \<Rightarrow> (go_err + nat) cio" where
  "getSignHashAnnotationValue lib srv privateSecret publicSecret namespace signConfig spec = do {
     r1 \<leftarrow> getSecretData srv privateSecret PrivateSignDataKey namespace;
     case r1 of
       Inl e \<Rightarrow> State_Monad.return (Inl (Errorf ''failed to get private secret for signing'' e))
     | Inr privateKeyData \<Rightarrow> do {
         r2 \<leftarrow> getSecretData srv publicSecret PublicSignDataKey namespace;
         State_Monad.return
           (case r2 of
              Inl e \<Rightarrow> Inl (Errorf ''failed to get public secret for signing'' e)
            | Inr publicKeyData \<Rightarrow>
                or_wrap ''could not hash the sign spec template and signing keys''
                  (l_Hash_sign lib spec privateKeyData publicKeyData signConfig))
       }
   }"

section \<open>Templates\<close>

text \<open>The metadata of a build or sign pod around its specification; the owner is set last.\<close>

definition own_resource :: "library \<Rightarrow> owner_ref \<Rightarrow> pod \<Rightarrow> go_err + pod" where
  "own_resource lib owner p =
     or_wrap ''could not set the owner reference''
       (and_then (l_SetControllerReference lib owner (pod_owner p)) (\<lambda>ow. Inr (p\<lparr>pod_owner := ow\<rparr>)))"

definition resource_pod :: "mld \<Rightarrow> action \<Rightarrow> labels \<Rightarrow> pod \<Rightarrow> pod" where
  "resource_pod d act annotations spec =
     spec\<lparr>
       pod_name := mld_name d @ (case act of BuildImage \<Rightarrow> ''-build-'' | SignImage \<Rightarrow> ''-sign-'') @ mld_kernel_normalized d,
       pod_namespace := mld_namespace d,
       pod_labels := resourceLabels (mld_name d) (mld_kernel_normalized d) act,
       pod_annotations := Some annotations,
       pod_finalizers := [GCDelayFinalizer, JobEventFinalizer]\<rparr>"

definition makeBuildTemplate :: "library \<Rightarrow> server \<Rightarrow> (string \<Rightarrow> string) \<Rightarrow> mld \<Rightarrow> owner_ref \<Rightarrow> bool \<Rightarrow> (go_err + pod) cio" where
  "makeBuildTemplate lib srv getenv d owner pushImage =
     (case buildSpec getenv d (mld_image d) pushImage of
        Inl panic \<Rightarrow> State_Monad.return (Inl panic)
      | Inr spec \<Rightarrow> do {
          r \<leftarrow> getBuildHashAnnotationValue lib srv (the (bld_dockerfile_cm (the (mld_build d)))) (mld_namespace d) spec;
          State_Monad.return
            (case r of
               Inl e \<Rightarrow> Inl (errorf ''could not hash the definitions of the resource'' e)
             | Inr hash \<Rightarrow>
                 own_resource lib owner (resource_pod d BuildImage [(ResourceHashAnnotation, fmt_d hash)] spec))
        })"

definition unsigned_image :: "mld \<Rightarrow> sign \<Rightarrow> string option" where
  "unsigned_image d signConfig =
     (if ShouldBeBuilt d then Some (mld_image d)
      else if sgn_unsigned_image signConfig \<noteq> [] then Some (sgn_unsigned_image signConfig)
      else None)"

definition makeSignTemplate :: "library \<Rightarrow> server \<Rightarrow> (string \<Rightarrow> string) \<Rightarrow> mld \<Rightarrow> owner_ref \<Rightarrow> bool \<Rightarrow> (go_err + pod) cio" where
  "makeSignTemplate lib srv getenv d owner pushImage =
     (case mld_sign d of
        None \<Rightarrow> State_Monad.return (Inl (Panic ''nil pointer dereference''))
      | Some signConfig \<Rightarrow>
          (case unsigned_image d signConfig of
             None \<Rightarrow> State_Monad.return (Inl (NewErr ''no image to sign given''))
           | Some unsignedImage \<Rightarrow>
               (let buf = tmpl_Execute \<lparr>td_files_to_sign = sgn_files signConfig,
                      td_sign_image = getenv ''RELATED_IMAGE_SIGN'', td_unsigned_image = unsignedImage,
                      td_dir_name = mp_dir_name (mld_modprobe d)\<rparr>
                in case signSpec getenv d (mld_image d) pushImage of
                     Inl panic \<Rightarrow> State_Monad.return (Inl panic)
                   | Inr spec \<Rightarrow> do {
                       r \<leftarrow> getSignHashAnnotationValue lib srv (the (sgn_key_secret signConfig))
                              (the (sgn_cert_secret signConfig)) (mld_namespace d) buf spec;
                       State_Monad.return
                         (case r of
                            Inl e \<Rightarrow> Inl (errorf ''could not hash the definitions of the resource'' e)
                          | Inr hash \<Rightarrow>
                              own_resource lib owner (resource_pod d SignImage
                                [(ResourceHashAnnotation, fmt_d hash), (dockerfileAnnotationKey, buf)] spec))
                     })))"

section \<open>The resource manager\<close>

definition MakeResourceTemplate ::
  "library \<Rightarrow> server \<Rightarrow> (string \<Rightarrow> string) \<Rightarrow> mld \<Rightarrow> owner_ref \<Rightarrow> bool \<Rightarrow> action \<Rightarrow> (go_err + pod) cio" where
  "MakeResourceTemplate lib srv getenv d owner pushImage resourceType =
     (if resourceType = BuildImage then makeBuildTemplate lib srv getenv d owner pushImage
      else makeSignTemplate lib srv getenv d owner pushImage)"

definition CreateResource :: "server \<Rightarrow> pod \<Rightarrow> (go_err option) cio" where
  "CreateResource srv obj = do_write srv (Create_Pod obj)"

definition DeleteResource :: "server \<Rightarrow> pod \<Rightarrow> (go_err option) cio" where
  "DeleteResource srv obj = do_write srv (Delete_Pod obj)"

definition resources_query :: "string \<Rightarrow> labels \<Rightarrow> pod_query" where
  "resources_query namespace ls = \<lparr>pq_namespace = Some namespace, pq_match = ls, pq_has = [], pq_node = None, pq_in = []\<rparr>"

definition getResources :: "server \<Rightarrow> string \<Rightarrow> labels \<Rightarrow> (go_err + pod list) cio" where
  "getResources srv namespace ls = do {
     r \<leftarrow> list_pods srv (resources_query namespace ls);
     State_Monad.return (map_sum (Errorf ''could not list resources'') id r)
   }"

definition GetResourceByKernel ::
  "server \<Rightarrow> string \<Rightarrow> string \<Rightarrow> string \<Rightarrow> action \<Rightarrow> owner_ref \<Rightarrow> (go_err + pod) cio" where
  "GetResourceByKernel srv name namespace targetKernel resourceType owner = do {
     r \<leftarrow> getResources srv namespace (moduleKernelLabels name targetKernel resourceType);
     State_Monad.return
       (case r of
          Inl e \<Rightarrow> Inl (Errorf ''failed to get module resources by kernel'' e)
        | Inr resources \<Rightarrow>
            (case filterResourcesByOwner resources owner of
               [] \<Rightarrow> Inl ErrNoMatchingBuildSignResource
             | [p] \<Rightarrow> Inr p
             | _ \<Rightarrow> Inl (NewErr ''expected 0 or 1 resources'')))
   }"

datatype resource_status = StatusCompleted | StatusCreated | StatusInProgress | StatusFailed

definition GetResourceStatus :: "pod \<Rightarrow> go_err + resource_status" where
  "GetResourceStatus obj =
     (case pod_phase obj of
        PodSucceeded \<Rightarrow> Inr StatusCompleted
      | PodRunning \<Rightarrow> Inr StatusInProgress
      | PodPending \<Rightarrow> Inr StatusInProgress
      | PodFailed \<Rightarrow> Inr StatusFailed
      | _ \<Rightarrow> Inl (NewErr ''unknown status''))"

definition IsResourceChanged :: "pod \<Rightarrow> pod \<Rightarrow> go_err + bool" where
  "IsResourceChanged existing new =
     (case pod_annotations existing of
        None \<Rightarrow> Inl (NewErr ''annotations are not present in the existing resource'')
      | Some _ \<Rightarrow> Inr (annotation existing ResourceHashAnnotation \<noteq> annotation new ResourceHashAnnotation))"

definition GetModuleResources :: "server \<Rightarrow> string \<Rightarrow> string \<Rightarrow> action \<Rightarrow> owner_ref \<Rightarrow> (go_err + pod list) cio" where
  "GetModuleResources srv modName namespace resourceType owner = do {
     r \<leftarrow> getResources srv namespace (moduleLabels modName resourceType);
     State_Monad.return
       (case r of
          Inl e \<Rightarrow> Inl (Errorf ''failed to get resources for module'' e)
        | Inr resources \<Rightarrow> Inr (filterResourcesByOwner resources owner))
   }"

definition HasResourcesCompletedSuccessfully :: "pod \<Rightarrow> bool" where
  "HasResourcesCompletedSuccessfully obj = (pod_phase obj = PodSucceeded)"

section \<open>The manager\<close>

definition GetStatus :: "server \<Rightarrow> string \<Rightarrow> string \<Rightarrow> string \<Rightarrow> action \<Rightarrow> owner_ref \<Rightarrow> (go_err + action_status) cio" where
  "GetStatus srv name namespace kernelVersion act owner = do {
     r \<leftarrow> GetResourceByKernel srv name namespace (DNSSafeKernelVersion kernelVersion) act owner;
     State_Monad.return
       (case r of
          Inl e \<Rightarrow> if errors_Is e ErrNoMatchingBuildSignResource then Inr ActionUnset
                   else Inl (Errorf ''failed to get resource'' e)
        | Inr found \<Rightarrow>
            (case GetResourceStatus found of
               Inl e \<Rightarrow> Inl (Errorf ''failed to get status for the resource'' e)
             | Inr StatusCompleted \<Rightarrow> Inr ActionSuccess
             | Inr StatusFailed \<Rightarrow> Inr ActionFailure
             | Inr _ \<Rightarrow> Inr ActionUnset))
   }"

definition Sync ::
  "library \<Rightarrow> server \<Rightarrow> (string \<Rightarrow> string) \<Rightarrow> mld \<Rightarrow> bool \<Rightarrow> action \<Rightarrow> owner_ref \<Rightarrow> (go_err option) cio" where
  "Sync lib srv getenv d pushImage act owner = do {
     t \<leftarrow> MakeResourceTemplate lib srv getenv d owner pushImage act;
     case t of
       Inl e \<Rightarrow> State_Monad.return (Some (errorf ''could not make the template of the resource'' e))
     | Inr template \<Rightarrow> do {
         r \<leftarrow> GetResourceByKernel srv (mld_name d) (mld_namespace d) (mld_kernel_normalized d) act owner;
         case r of
           Inl e \<Rightarrow>
             if \<not> errors_Is e ErrNoMatchingBuildSignResource then
               State_Monad.return (Some (Errorf ''error getting the resource'' e))
             else do {
               e' \<leftarrow> CreateResource srv template;
               State_Monad.return
                 (case e' of
                    None \<Rightarrow> None
                  | Some er \<Rightarrow> if IsAlreadyExists er then None else Some (Errorf ''could not create resource'' er))
             }
         | Inr resource \<Rightarrow>
             (case IsResourceChanged resource template of
                Inl e \<Rightarrow> State_Monad.return (Some (Errorf ''could not determine if the resource has changed'' e))
              | Inr changed \<Rightarrow>
                  if changed then do { _ \<leftarrow> DeleteResource srv resource; State_Monad.return None }
                  else State_Monad.return None)
       }
   }"

text \<open>The names of the deleted resources and the errors.\<close>

fun gc_resources :: "server \<Rightarrow> pod list \<Rightarrow> (string list \<times> go_err option list) cio" where
  "gc_resources srv [] = State_Monad.return ([], [])"
| "gc_resources srv (obj # objs) =
     (if HasResourcesCompletedSuccessfully obj then do {
        e \<leftarrow> DeleteResource srv obj;
        r \<leftarrow> gc_resources srv objs;
        State_Monad.return (if e = None then pod_name obj # fst r else fst r, e # snd r)
      } else gc_resources srv objs)"

definition GarbageCollect ::
  "server \<Rightarrow> string \<Rightarrow> string \<Rightarrow> action \<Rightarrow> owner_ref \<Rightarrow> (string list \<times> go_err option) cio" where
  "GarbageCollect srv name namespace act owner = do {
     r \<leftarrow> GetModuleResources srv name namespace act owner;
     case r of
       Inl e \<Rightarrow> State_Monad.return ([], Some (Errorf ''failed to get resources for mbsc'' e))
     | Inr resources \<Rightarrow> do {
         g \<leftarrow> gc_resources srv resources;
         State_Monad.return (fst g, errors_Join (snd g))
       }
   }"

section \<open>Lemmas\<close>

lemma run_GetResourceByKernel:
  "run_state (GetResourceByKernel srv name ns kv act owner) h =
     (let q = resources_query ns (moduleKernelLabels name kv act) in
      (case s_pods srv h q of
         Inl e \<Rightarrow> Inl (Errorf ''failed to get module resources by kernel'' (Errorf ''could not list resources'' e))
       | Inr pods \<Rightarrow> (case filterResourcesByOwner pods owner of
            [] \<Rightarrow> Inl ErrNoMatchingBuildSignResource | [p] \<Rightarrow> Inr p | _ \<Rightarrow> Inl (NewErr ''expected 0 or 1 resources'')),
       h @ [List_Pods q]))"
  by (simp add: GetResourceByKernel_def getResources_def list_pods_def Let_def split: sum.split)

lemma run_GetModuleResources:
  "run_state (GetModuleResources srv name ns act owner) h =
     (let q = resources_query ns (moduleLabels name act) in
      (case s_pods srv h q of
         Inl e \<Rightarrow> Inl (Errorf ''failed to get resources for module'' (Errorf ''could not list resources'' e))
       | Inr pods \<Rightarrow> Inr (filterResourcesByOwner pods owner), h @ [List_Pods q]))"
  by (simp add: GetModuleResources_def getResources_def list_pods_def Let_def split: sum.split)

text \<open>Making a template only reads.\<close>

lemma reads_MakeResourceTemplate [emits_intros]: "emits is_read (MakeResourceTemplate lib srv getenv d owner push act)"
  unfolding MakeResourceTemplate_def makeBuildTemplate_def makeSignTemplate_def getBuildHashAnnotationValue_def
    getSignHashAnnotationValue_def getSecretData_def Let_def
  by (intro emits_intros) simp_all

lemma GetResourceByKernel_error_not_panic:
  "fst (run_state (GetResourceByKernel srv name ns kv act owner) h) = Inl e \<Longrightarrow> \<not> is_panic e"
  by (auto simp: run_GetResourceByKernel Let_def split: sum.splits list.splits)

text \<open>What a listing with a query shows: objects of the namespace that carry the labels.\<close>

definition in_query :: "pod_query \<Rightarrow> pod \<Rightarrow> bool" where
  "in_query q p \<longleftrightarrow> (case pq_namespace q of None \<Rightarrow> True | Some ns \<Rightarrow> pod_namespace p = ns) \<and>
     list_all (\<lambda>(k, v). map_of (pod_labels p) k = Some v) (pq_match q) \<and> list_all (has_key (pod_labels p)) (pq_has q) \<and>
     (case pq_node q of None \<Rightarrow> True | Some n \<Rightarrow> pod_node_name p = n)"

lemma resource_in_query:
  assumes "pod_labels p = resourceLabels name kv act" "pod_namespace p = ns"
  shows "in_query (resources_query ns (moduleKernelLabels name kv act)) p" "in_query (resources_query ns (moduleLabels name act)) p"
  using assms
  by (simp_all add: in_query_def resources_query_def resourceLabels_def moduleKernelLabels_def moduleLabels_def
      ModuleNameLabel_def ResourceType_def TargetKernelTarget_def)

text \<open>What a template made for a request has.\<close>

definition template_for :: "library \<Rightarrow> mld \<Rightarrow> action \<Rightarrow> owner_ref \<Rightarrow> pod \<Rightarrow> bool" where
  "template_for lib d act owner p \<longleftrightarrow>
     pod_namespace p = mld_namespace d \<and> pod_labels p = resourceLabels (mld_name d) (mld_kernel_normalized d) act \<and>
     pod_finalizers p = [GCDelayFinalizer, JobEventFinalizer] \<and> pod_annotations p \<noteq> None \<and>
     (\<exists>hash. annotation p ResourceHashAnnotation = fmt_d hash) \<and>
     l_SetControllerReference lib owner None = Inr (pod_owner p)"

lemma own_resource_template:
  assumes "own_resource lib owner (resource_pod d act ((ResourceHashAnnotation, fmt_d hash) # ann) spec) = Inr p"
    "pod_owner spec = None"
  shows "template_for lib d act owner p \<and> pod_containers p = pod_containers spec \<and> pod_volumes p = pod_volumes spec \<and>
    pod_node_selector p = pod_node_selector spec"
  using assms by (auto simp: own_resource_def resource_pod_def and_then_Inr template_for_def annotation_def
      lookup_default_def)

lemma spec_no_owner: "buildSpec getenv d img push = Inr p \<Longrightarrow> pod_owner p = None"
  "signSpec getenv d img push = Inr p \<Longrightarrow> pod_owner p = None"
  by (auto simp: buildSpec_def signSpec_def and_then_Inr Let_def kaniko_pod_def empty_pod_def split: option.splits)

lemma makeBuildTemplate_spec:
  assumes "fst (run_state (makeBuildTemplate lib srv getenv d owner push) h) = Inr p"
  shows "\<exists>spec. buildSpec getenv d (mld_image d) push = Inr spec \<and> template_for lib d BuildImage owner p \<and>
    pod_containers p = pod_containers spec \<and> pod_volumes p = pod_volumes spec \<and> pod_node_selector p = pod_node_selector spec"
  using assms
  by (auto simp: makeBuildTemplate_def split_beta split: sum.splits dest!: own_resource_template spec_no_owner(1))

lemma makeSignTemplate_spec:
  assumes "fst (run_state (makeSignTemplate lib srv getenv d owner push) h) = Inr p"
  shows "\<exists>spec. signSpec getenv d (mld_image d) push = Inr spec \<and> template_for lib d SignImage owner p \<and>
    pod_containers p = pod_containers spec \<and> pod_volumes p = pod_volumes spec \<and> pod_node_selector p = pod_node_selector spec"
  using assms
  by (auto simp: makeSignTemplate_def split_beta Let_def split: sum.splits option.splits
      dest!: own_resource_template spec_no_owner(2))

lemma template_for_MakeResourceTemplate:
  "fst (run_state (MakeResourceTemplate lib srv getenv d owner push act) h) = Inr p \<Longrightarrow> template_for lib d act owner p"
  by (cases act) (auto simp: MakeResourceTemplate_def dest!: makeBuildTemplate_spec makeSignTemplate_spec)

lemma gc_resources_run:
  "snd (run_state (gc_resources srv objs) h) = h @ map Delete_Pod (filter HasResourcesCompletedSuccessfully objs)"
  by (induction objs arbitrary: h) (auto simp: DeleteResource_def do_write_def split_beta)

lemma distinct_secret_names: "distinct (map secret_name xs) = distinct xs"
  by (auto simp: distinct_map secret_name_def inj_on_def)

lemma secret_name_simps [simp]: "secret_name s = secret_name t \<longleftrightarrow> s = t" "secret_name s \<noteq> dockerfileVolumeName"
  "dockerfileVolumeName \<noteq> secret_name s" "secret_name s \<noteq> ''lib-modules''" "''lib-modules'' \<noteq> secret_name s"
  by (simp_all add: secret_name_def dockerfileVolumeName_def)

section \<open>A concrete request\<close>

definition sample_mld :: mld where
  "sample_mld = \<lparr>mld_kernel_version = ''6.1.7'', mld_kernel_normalized = ''6-1-7'', mld_repo_secret = Some ''pull'',
     mld_selector = [], mld_name = ''mymod'', mld_namespace = ''kmm'', mld_service_account = [],
     mld_build = Some \<lparr>bld_args = [\<lparr>ba_name = ''MOD_NAME'', ba_value = ''x''\<rparr>], bld_dockerfile_cm = Some ''cm'',
       bld_base_tls = no_tls, bld_secrets = [''token''], bld_kaniko = None, bld_selector = []\<rparr>,
     mld_sign = None, mld_version = [], mld_image = ''reg/img'', mld_pull_policy = [], mld_modprobe = empty_modprobe,
     mld_registry_tls = Some no_tls, mld_intree = None, mld_owner = None, mld_tolerations = []\<rparr>"

definition sample_owner :: owner_ref where
  "sample_owner = \<lparr>own_kind = ''ModuleBuildSignConfig'', own_namespace = ''kmm'', own_name = ''mymod'', own_uid = ''u1''\<rparr>"

definition dockerfile_cluster :: server where
  "dockerfile_cluster = empty_cluster\<lparr>s_configmap := (\<lambda>h k. Inr [(DockerfileCMKey, ''FROM scratch'')])\<rparr>"

section \<open>Properties\<close>

text \<open>
  Synchronising a build or a sign makes at most one change, decided by the pods of the module, kernel and
  action that the object controls: a new pod when there is none, the deletion of the pod when its hash differs
  from that of the request, nothing when it is up to date, when there are several, or when the template or the
  listing fails.
\<close>

theorem sync_requests:
  "writes (Sync lib srv getenv d push act owner) h =
     (let t = run_state (MakeResourceTemplate lib srv getenv d owner push act) h;
          q = resources_query (mld_namespace d) (moduleKernelLabels (mld_name d) (mld_kernel_normalized d) act)
      in case (fst t, s_pods srv (snd t) q) of
           (Inr template, Inr pods) \<Rightarrow>
             (case filterResourcesByOwner pods owner of
                [] \<Rightarrow> [Create_Pod template]
              | [p] \<Rightarrow> if pod_annotations p \<noteq> None \<and>
                          annotation p ResourceHashAnnotation \<noteq> annotation template ResourceHashAnnotation
                       then [Delete_Pod p] else []
              | _ \<Rightarrow> [])
         | _ \<Rightarrow> [])"
proof -
  let ?m = "MakeResourceTemplate lib srv getenv d owner push act"
  obtain t c where r: "run_state ?m h = (t, h @ c)" and c: "filter is_write c = []"
    using emits_run [OF reads_MakeResourceTemplate, of lib srv getenv d owner push act h]
    by (metis filter_False surj_pair)
  show ?thesis
    using c
    by (cases t) (auto simp: writes_def calls_def Sync_def r run_GetResourceByKernel
        CreateResource_def DeleteResource_def do_write_def IsResourceChanged_def Let_def
        split: sum.split list.split option.split)
qed

text \<open>
  C37: the pod made for a request is found again by it. The template has the namespace, labels, hash and
  finalizers by which the listings for its kernel and for its module find it, and it is controlled by the
  object, so the next synchronisation sees one resource instead of creating another.
\<close>

theorem template_found_again:
  assumes t: "fst (run_state (MakeResourceTemplate lib srv getenv d owner push act) h) = Inr p"
    and own: "l_SetControllerReference lib owner None = Inr (Some owner)"
  shows "in_query (resources_query (mld_namespace d) (moduleKernelLabels (mld_name d) (mld_kernel_normalized d) act)) p \<and>
    in_query (resources_query (mld_namespace d) (moduleLabels (mld_name d) act)) p \<and>
    filterResourcesByOwner [p] owner = [p] \<and> IsResourceChanged p p = Inr False \<and>
    GCDelayFinalizer \<in> set (pod_finalizers p) \<and> JobEventFinalizer \<in> set (pod_finalizers p)"
proof -
  note T = template_for_MakeResourceTemplate [OF t]
  then have "pod_owner p = Some owner" using own by (simp add: template_for_def)
  with T show ?thesis
    by (auto simp: template_for_def filterResourcesByOwner_def IsControlledBy_def IsResourceChanged_def
        intro: resource_in_query)
qed

theorem template_found_again_witness:
  "\<exists>p. fst (run_state (MakeResourceTemplate plain_library dockerfile_cluster (\<lambda>_. ''kaniko'') sample_mld sample_owner True BuildImage) []) =
     Inr p \<and> filterResourcesByOwner [p] sample_owner = [p]"
proof -
  have "case fst (run_state (MakeResourceTemplate plain_library dockerfile_cluster (\<lambda>_. ''kaniko'') sample_mld sample_owner True BuildImage) []) of
      Inl _ \<Rightarrow> False | Inr _ \<Rightarrow> True" by code_simp
  then obtain p where p: "fst (run_state (MakeResourceTemplate plain_library dockerfile_cluster (\<lambda>_. ''kaniko'') sample_mld sample_owner True BuildImage) []) = Inr p"
    by (auto split: sum.splits)
  have "l_SetControllerReference plain_library sample_owner None = Inr (Some sample_owner)" by (simp add: plain_library_def)
  from template_found_again [OF p this] p show ?thesis by blast
qed

text \<open>
  A build pod builds the requested image for the requested kernel. Its arguments start with the destination
  when the image is to be pushed and with \<^verbatim>\<open>--no-push\<close> otherwise, and they pass build arguments in which
  the kernel version, module name and namespace are those of the request, whatever the user's arguments say.
\<close>

theorem build_pod_arguments:
  assumes "fst (run_state (MakeResourceTemplate lib srv getenv d owner push BuildImage) h) = Inr p"
  shows "\<exists>c pre bas. pod_containers p = [c] \<and>
    c_args c = pre @ concat (map (\<lambda>ba. [''--build-arg'', ba_name ba @ ''='' @ ba_value ba]) bas) \<and>
    (if push then \<exists>rest. pre = ''--destination'' # mld_image d # rest
     else hd pre = ''--no-push'' \<and> ''--destination'' \<notin> set pre) \<and>
    (\<forall>ov\<in>set (build_overrides d). ov \<in> set bas) \<and>
    (\<forall>ba\<in>set bas. ba_name ba \<in> ba_name ` set (build_overrides d) \<longrightarrow> ba \<in> set (build_overrides d))"
proof -
  obtain b where b: "mld_build d = Some b"
    using assms by (auto simp: MakeResourceTemplate_def makeBuildTemplate_def buildSpec_def split: option.splits)
  let ?bas = "ApplyBuildArgOverrides (bld_args b) (build_overrides d)"
  from makeBuildTemplate_spec [of lib srv getenv d owner push h p] assms
  obtain spec where spec: "buildSpec getenv d (mld_image d) push = Inr spec" "pod_containers p = pod_containers spec"
    by (auto simp: MakeResourceTemplate_def)
  from spec(1) b obtain args c where args: "containerArgs d (mld_image d) (bld_base_tls b) push = Inr args"
    and c: "pod_containers spec = [c]" "c_args c = args @ concat (map (\<lambda>ba. [''--build-arg'', ba_name ba @ ''='' @ ba_value ba]) ?bas)"
    by (auto simp: buildSpec_def and_then_Inr Let_def kaniko_pod_def)
  have last: "last_override (build_overrides d) (ba_name ov) = Some ov" if "ov \<in> set (build_overrides d)" for ov
    using that by (auto simp: build_overrides_def last_override_def)
  have some: "last_override (build_overrides d) n = Some ov \<Longrightarrow> ov \<in> set (build_overrides d) \<and> ba_name ov = n" for n ov
    by (auto simp: last_override_def find_Some_iff) (metis length_rev nth_mem set_rev)
  have "ov \<in> set ?bas" if ov: "ov \<in> set (build_overrides d)" for ov
  proof (cases "ba_name ov \<in> ba_name ` set (bld_args b)")
    case True
    then obtain a where "a \<in> set (bld_args b)" "ba_name a = ba_name ov" by auto
    then show ?thesis unfolding ApplyBuildArgOverrides_eq using last [OF ov] by force
  next
    case False
    then have "ba_name ov \<in> ba_name ` set (build_overrides d) - ba_name ` set (bld_args b)" using ov by auto
    then show ?thesis unfolding ApplyBuildArgOverrides_eq using last [OF ov] by force
  qed
  moreover have "ba \<in> set (build_overrides d)" if "ba \<in> set ?bas" "ba_name ba \<in> ba_name ` set (build_overrides d)" for ba
  proof -
    have *: "ba \<in> set (build_overrides d)" if "x \<in> set (build_overrides d)" "ba_name ba = ba_name x"
      "ba = (case last_override (build_overrides d) (ba_name a) of None \<Rightarrow> a | Some ov \<Rightarrow> ov)" for a x
      using that some last by (auto split: option.splits)
    have "ba \<in> set (build_overrides d)" if "n \<in> ba_name ` set (build_overrides d)" "ba = the (last_override (build_overrides d) n)" for n
      using that last by auto
    with that * show ?thesis unfolding ApplyBuildArgOverrides_eq by auto
  qed
  moreover have "if push then \<exists>rest. args = ''--destination'' # mld_image d # rest
      else hd args = ''--no-push'' \<and> ''--destination'' \<notin> set args"
    using args by (auto simp: containerArgs_def Let_def split: if_splits option.splits)
  ultimately show ?thesis using spec(2) c by (intro exI [of _ c] exI [of _ args] exI [of _ ?bas]) auto
qed

theorem build_pod_arguments_witness:
  "\<exists>p c pre bas. fst (run_state (MakeResourceTemplate plain_library dockerfile_cluster (\<lambda>_. ''kaniko'') sample_mld sample_owner True BuildImage) []) = Inr p \<and>
     pod_containers p = [c] \<and> c_args c = pre @ concat (map (\<lambda>ba. [''--build-arg'', ba_name ba @ ''='' @ ba_value ba]) bas) \<and>
     \<lparr>ba_name = ''MOD_NAME'', ba_value = ''mymod''\<rparr> \<in> set bas"
proof -
  have "case fst (run_state (MakeResourceTemplate plain_library dockerfile_cluster (\<lambda>_. ''kaniko'') sample_mld sample_owner True BuildImage) []) of
      Inl _ \<Rightarrow> False | Inr _ \<Rightarrow> True" by code_simp
  then obtain p where p: "fst (run_state (MakeResourceTemplate plain_library dockerfile_cluster (\<lambda>_. ''kaniko'') sample_mld sample_owner True BuildImage) []) = Inr p"
    by (auto split: sum.splits)
  have "\<lparr>ba_name = ''MOD_NAME'', ba_value = ''mymod''\<rparr> \<in> set (build_overrides sample_mld)"
    by (simp add: build_overrides_def sample_mld_def)
  with build_pod_arguments [OF p] p show ?thesis by blast
qed

text \<open>
  The volumes of a sign pod have different names exactly when the certificate, the key and the pull secret
  are different secrets, and those of a build pod exactly when no secret is named twice; a pod with two volumes
  of one name is refused by the API server.
\<close>

theorem volume_names_distinct:
  assumes "sgn_cert_secret sg = Some cert" "sgn_key_secret sg = Some key" "bld_dockerfile_cm b = Some cm"
  shows "(case makeSignResourceVolumesAndVolumeMounts sg repo of
       Inl _ \<Rightarrow> False
     | Inr vols \<Rightarrow> distinct (map vol_name (fst vols)) =
         (cert \<noteq> key \<and> repo \<noteq> Some cert \<and> repo \<noteq> Some key) \<and> map vm_name (snd vols) = map vol_name (fst vols)) \<and>
    (case makeBuildResourceVolumesAndVolumeMounts b repo of
       Inl _ \<Rightarrow> False
     | Inr vols \<Rightarrow> distinct (map vol_name (fst vols)) =
         distinct (bld_secrets b @ (case repo of None \<Rightarrow> [] | Some s \<Rightarrow> [s])) \<and> map vm_name (snd vols) = map vol_name (fst vols))"
proof -
  have m: "map (\<lambda>s. secret_name s) xs = map secret_name xs" for xs by simp
  show ?thesis
    using assms
    by (cases repo)
      (auto simp: makeSignResourceVolumesAndVolumeMounts_def makeBuildResourceVolumesAndVolumeMounts_def repo_secret_volumes_def
        ro_mount_def dockerfileVolumeName_def secret_name_def comp_def distinct_map inj_on_def)
qed

theorem volume_names_distinct_witness:
  "\<exists>sg vols. makeSignResourceVolumesAndVolumeMounts sg None = Inr vols \<and> \<not> distinct (map vol_name (fst vols))"
proof -
  let ?sg = "\<lparr>sgn_unsigned_image = [], sgn_unsigned_tls = no_tls, sgn_key_secret = Some ''keys'',
     sgn_cert_secret = Some ''keys'', sgn_files = []\<rparr>"
  let ?b = "the (mld_build sample_mld)"
  have "sgn_cert_secret ?sg = Some ''keys''" "sgn_key_secret ?sg = Some ''keys''" "bld_dockerfile_cm ?b = Some ''cm''"
    by (simp_all add: sample_mld_def)
  note D = volume_names_distinct [OF this, of None]
  then obtain vols where "makeSignResourceVolumesAndVolumeMounts ?sg None = Inr vols" by (auto split: sum.splits)
  with D show ?thesis by (intro exI [of _ ?sg] exI [of _ vols]) (auto split: sum.splits)
qed

text \<open>
  Garbage collection deletes exactly the pods of the action that the object controls and that succeeded.
\<close>

theorem build_sign_gc_spec:
  assumes "s_pods srv h (resources_query namespace (moduleLabels name act)) = Inr pods"
  shows "writes (GarbageCollect srv name namespace act owner) h =
    map Delete_Pod (filter (\<lambda>p. IsControlledBy p owner \<and> pod_phase p = PodSucceeded) pods)"
proof -
  have "filter HasResourcesCompletedSuccessfully (filter (\<lambda>obj. IsControlledBy obj owner) pods) =
      filter (\<lambda>p. IsControlledBy p owner \<and> pod_phase p = PodSucceeded) pods"
    by (induction pods) (auto simp: HasResourcesCompletedSuccessfully_def)
  moreover have "filter is_write (map Delete_Pod xs) = map Delete_Pod xs" for xs by (induction xs) auto
  ultimately show ?thesis
    using assms gc_resources_run
    by (simp add: writes_def calls_def GarbageCollect_def run_GetModuleResources filterResourcesByOwner_def Let_def split_beta)
qed

end
