(* ===== verification/Mbsc_Reconciler.thy ===== *)
theory Mbsc_Reconciler
  imports Mbsc Build_Sign
begin

text \<open>
  The reconciler of ModuleBuildSignConfigs, \<^verbatim>\<open>internal/controllers/mbsc_reconciler.go\<close>: it records
  the outcome of the build and sign pods, keeps a pod running for every image whose action has not
  succeeded, and deletes the pods that have.
\<close>

section \<open>The handlers\<close>

definition createMLD :: "mbsc \<Rightarrow> image_spec \<Rightarrow> mld" where
  "createMLD m spec = \<lparr>mld_kernel_version = is_kernel_version spec,
     mld_kernel_normalized = DNSSafeKernelVersion (is_kernel_version spec), mld_repo_secret = mbsc_repo_secret m,
     mld_selector = [], mld_name = mbsc_name m, mld_namespace = mbsc_namespace m, mld_service_account = [],
     mld_build = is_build spec, mld_sign = is_sign spec, mld_version = [], mld_image = is_image spec,
     mld_pull_policy = [], mld_modprobe = empty_modprobe\<lparr>mp_dir_name := is_dir_name spec\<rparr>,
     mld_registry_tls = is_registry_tls spec, mld_intree = None, mld_owner = Some (mbsc_owner_of m),
     mld_tolerations = mbsc_tolerations m\<rparr>"

text \<open>The loop of \<open>updateStatus\<close>: the object and the errors so far.\<close>

fun update_images :: "server \<Rightarrow> build_sign_spec list \<Rightarrow> mbsc \<times> go_err option list \<Rightarrow> (mbsc \<times> go_err option list) cio" where
  "update_images srv [] s = State_Monad.return s"
| "update_images srv (img # imgs) (m, errs) = do {
     r \<leftarrow> GetStatus srv (mbsc_name m) (mbsc_namespace m) (is_kernel_version (bss_spec img)) (bss_action img) (mbsc_owner_of m);
     case r of
       Inl e \<Rightarrow> update_images srv imgs (m, errs @ [Some e])
     | Inr st \<Rightarrow>
         if st = ActionUnset then update_images srv imgs (m, errs @ [None])
         else update_images srv imgs (SetImageStatus m (is_image (bss_spec img)) (bss_action img) st, errs)
   }"

definition updateStatus :: "server \<Rightarrow> mbsc \<Rightarrow> (go_err option \<times> mbsc) cio" where
  "updateStatus srv m = do {
     s \<leftarrow> update_images srv (mbsc_images m) (m, []);
     e \<leftarrow> do_write srv (Patch_MBSC_Status m (fst s));
     State_Monad.return (errors_Join (snd s @ [e]), fst s)
   }"

definition sync_image :: "library \<Rightarrow> server \<Rightarrow> (string \<Rightarrow> string) \<Rightarrow> mbsc \<Rightarrow> build_sign_spec \<Rightarrow> (go_err option) cio" where
  "sync_image lib srv getenv m img =
     (if GetImageStatus m (is_image (bss_spec img)) (bss_action img) = ActionSuccess then State_Monad.return None
      else Sync lib srv getenv (createMLD m (bss_spec img)) (mbsc_push m) (bss_action img) (mbsc_owner_of m))"

definition processImagesSpecs :: "library \<Rightarrow> server \<Rightarrow> (string \<Rightarrow> string) \<Rightarrow> mbsc \<Rightarrow> (go_err option) cio" where
  "processImagesSpecs lib srv getenv m = do {
     es \<leftarrow> collect_errors (sync_image lib srv getenv m) (mbsc_images m);
     State_Monad.return (join_errors es)
   }"

definition garbageCollect :: "server \<Rightarrow> mbsc \<Rightarrow> (go_err option) cio" where
  "garbageCollect srv m = do {
     r1 \<leftarrow> GarbageCollect srv (mbsc_name m) (mbsc_namespace m) BuildImage (mbsc_owner_of m);
     case snd r1 of
       Some e \<Rightarrow> State_Monad.return (Some (Errorf ''could not garbage collect build objects'' e))
     | None \<Rightarrow> do {
         r2 \<leftarrow> GarbageCollect srv (mbsc_name m) (mbsc_namespace m) SignImage (mbsc_owner_of m);
         State_Monad.return (map_option (Errorf ''could not garbage collect sign objects'') (snd r2))
       }
   }"

definition MBSC_Reconcile :: "library \<Rightarrow> server \<Rightarrow> (string \<Rightarrow> string) \<Rightarrow> mbsc \<Rightarrow> (go_err option) cio" where
  "MBSC_Reconcile lib srv getenv m =
     (if mbsc_deleting m then State_Monad.return None
      else do {
        u \<leftarrow> updateStatus srv m;
        case fst u of
          Some e \<Rightarrow> State_Monad.return (Some (Errorf ''failed to update MSBC status based on the result of the builds'' e))
        | None \<Rightarrow> do {
            e \<leftarrow> processImagesSpecs lib srv getenv (snd u);
            case e of
              Some er \<Rightarrow> State_Monad.return (Some (errorf ''failed to process images of MSBC'' er))
            | None \<Rightarrow> do {
                g \<leftarrow> garbageCollect srv (snd u);
                State_Monad.return (errorf_opt ''failed to run garbage collector for MBSC'' g)
              }
          }
      })"

section \<open>Lemmas\<close>

text \<open>The pod of an image and its action, as the server shows it at some point, has the outcome \<open>st\<close>.\<close>

definition image_pods_query :: "mbsc \<Rightarrow> build_sign_spec \<Rightarrow> pod_query" where
  "image_pods_query m img = resources_query (mbsc_namespace m)
     (moduleKernelLabels (mbsc_name m) (DNSSafeKernelVersion (is_kernel_version (bss_spec img))) (bss_action img))"

definition pod_says :: "server \<Rightarrow> mbsc \<Rightarrow> build_sign_spec \<Rightarrow> action_status \<Rightarrow> bool" where
  "pod_says srv m img st \<longleftrightarrow>
     (\<exists>h pods p. s_pods srv h (image_pods_query m img) = Inr pods \<and>
        filterResourcesByOwner pods (mbsc_owner_of m) = [p] \<and>
        (st = ActionSuccess \<and> pod_phase p = PodSucceeded \<or> st = ActionFailure \<and> pod_phase p = PodFailed))"

lemma GetStatus_says:
  assumes "fst (run_state (GetStatus srv (mbsc_name m) (mbsc_namespace m) (is_kernel_version (bss_spec img)) (bss_action img)
      (mbsc_owner_of m)) h) = Inr st" "st \<noteq> ActionUnset"
  shows "pod_says srv m img st"
proof -
  obtain pods p where p: "s_pods srv h (image_pods_query m img) = Inr pods" "filterResourcesByOwner pods (mbsc_owner_of m) = [p]"
    and st: "(case GetResourceStatus p of Inl e \<Rightarrow> Inl (Errorf ''failed to get status for the resource'' e)
       | Inr StatusCompleted \<Rightarrow> Inr ActionSuccess | Inr StatusFailed \<Rightarrow> Inr ActionFailure | Inr _ \<Rightarrow> Inr ActionUnset) = Inr st"
    using assms
    by (auto simp: GetStatus_def run_GetResourceByKernel image_pods_query_def Let_def split: sum.splits list.splits if_splits)
  from st assms(2) have "st = ActionSuccess \<and> pod_phase p = PodSucceeded \<or> st = ActionFailure \<and> pod_phase p = PodFailed"
    by (auto simp: GetResourceStatus_def split: pod_phase.splits)
  with p show ?thesis unfolding pod_says_def by blast
qed

lemma emits_GetStatus [emits_intros]:
  "P (List_Pods (resources_query ns (moduleKernelLabels name (DNSSafeKernelVersion kv) act))) \<Longrightarrow>
     emits P (GetStatus srv name ns kv act owner)"
  unfolding GetStatus_def GetResourceByKernel_def getResources_def by (intro emits_intros)

lemma owner_SetImageStatus [simp]: "mbsc_owner_of (SetImageStatus m img act st) = mbsc_owner_of m"
  by (simp add: mbsc_owner_of_def)

lemma pod_says_frame [simp]: "pod_says srv (SetImageStatus m i a s) = pod_says srv m"
  by (simp add: pod_says_def image_pods_query_def fun_eq_iff)

abbreviation same_request :: "mbsc \<Rightarrow> mbsc \<Rightarrow> bool" where
  "same_request m m' \<equiv> mbsc_name m' = mbsc_name m \<and> mbsc_namespace m' = mbsc_namespace m \<and> mbsc_uid m' = mbsc_uid m \<and>
     mbsc_images m' = mbsc_images m \<and> mbsc_push m' = mbsc_push m"

text \<open>Outcomes come from the object or from pods.\<close>

definition outcomes_from :: "server \<Rightarrow> mbsc \<Rightarrow> build_sign_spec list \<Rightarrow> mbsc \<Rightarrow> bool" where
  "outcomes_from srv m imgs m' \<longleftrightarrow>
     (\<forall>i a st. lookup_outcome m' i = Some (a, st) \<longrightarrow> lookup_outcome m i = Some (a, st) \<or>
        (\<exists>img\<in>set imgs. is_image (bss_spec img) = i \<and> bss_action img = a \<and> pod_says srv m img st))"

lemma outcomes_from_mono: "outcomes_from srv m imgs m' \<Longrightarrow> outcomes_from srv m (img # imgs) m'"
  unfolding outcomes_from_def by (meson list.set_intros(2))

lemma outcomes_from_Set:
  assumes "outcomes_from srv (SetImageStatus m (is_image (bss_spec img)) (bss_action img) st) imgs m'" "pod_says srv m img st"
  shows "outcomes_from srv m (img # imgs) m'"
  unfolding outcomes_from_def
proof (intro allI impI)
  fix i a st' assume "lookup_outcome m' i = Some (a, st')"
  with assms(1) consider "lookup_outcome (SetImageStatus m (is_image (bss_spec img)) (bss_action img) st) i = Some (a, st')"
    | img' where "img' \<in> set imgs" "is_image (bss_spec img') = i" "bss_action img' = a" "pod_says srv m img' st'"
    unfolding outcomes_from_def pod_says_frame by blast
  then show "lookup_outcome m i = Some (a, st') \<or>
      (\<exists>img\<in>set (img # imgs). is_image (bss_spec img) = i \<and> bss_action img = a \<and> pod_says srv m img st')"
  proof cases
    case 1
    then show ?thesis
      using assms(2) outcomes.get_put_if [of m "(is_image (bss_spec img), bss_action img, st)" i] by (auto split: if_splits)
  qed auto
qed

lemma does_update_images:
  assumes "\<And>q. P (List_Pods q)"
  shows "does P (\<lambda>s. same_request m (fst s) \<and> (mbsc_wf m \<longrightarrow> mbsc_wf (fst s)) \<and> outcomes_from srv m imgs (fst s))
    (update_images srv imgs (m, errs))"
proof (induction imgs arbitrary: m errs)
  case Nil
  show ?case by (simp add: does_return outcomes_from_def)
next
  case (Cons img imgs)
  let ?get = "GetStatus srv (mbsc_name m) (mbsc_namespace m) (is_kernel_version (bss_spec img)) (bss_action img) (mbsc_owner_of m)"
  let ?Q = "\<lambda>s. same_request m (fst s) \<and> (mbsc_wf m \<longrightarrow> mbsc_wf (fst s)) \<and> outcomes_from srv m (img # imgs) (fst s)"
  have g: "does P (\<lambda>r. \<forall>st. r = Inr st \<longrightarrow> st \<noteq> ActionUnset \<longrightarrow> pod_says srv m img st) ?get"
    unfolding does_def using assms GetStatus_says by (auto intro!: emits_GetStatus)
  show ?case
    unfolding update_images.simps
  proof (rule does_bind [OF g])
    fix r :: "go_err + action_status" assume r: "\<forall>st. r = Inr st \<longrightarrow> st \<noteq> ActionUnset \<longrightarrow> pod_says srv m img st"
    have same: "does P ?Q (update_images srv imgs (m, errs'))" for errs'
      by (rule does_mono [OF Cons.IH [of m errs']]) (auto intro: outcomes_from_mono)
    have rec: "does P ?Q (update_images srv imgs (SetImageStatus m (is_image (bss_spec img)) (bss_action img) st, errs))"
      if "pod_says srv m img st" for st
      by (rule does_mono [OF Cons.IH]) (use that in \<open>auto simp: mbsc_wf_SetImageStatus intro: outcomes_from_Set\<close>)
    show "does P ?Q (case r of Inl e \<Rightarrow> update_images srv imgs (m, errs @ [Some e])
       | Inr st \<Rightarrow> if st = ActionUnset then update_images srv imgs (m, errs @ [None])
         else update_images srv imgs (SetImageStatus m (is_image (bss_spec img)) (bss_action img) st, errs))"
      using r same rec by (auto split: sum.split)
  qed
qed

lemma does_updateStatus:
  assumes "\<And>q. P (List_Pods q)" and "\<And>m'. same_request m m' \<Longrightarrow> outcomes_from srv m (mbsc_images m) m' \<Longrightarrow> P (Patch_MBSC_Status m m')"
  shows "does P (\<lambda>r. same_request m (snd r) \<and> (mbsc_wf m \<longrightarrow> mbsc_wf (snd r)) \<and> outcomes_from srv m (mbsc_images m) (snd r))
    (updateStatus srv m)"
  unfolding updateStatus_def
proof (rule does_bind [OF does_update_images [where P = P, OF assms(1)]])
  fix s :: "mbsc \<times> go_err option list"
  assume s: "same_request m (fst s) \<and> (mbsc_wf m \<longrightarrow> mbsc_wf (fst s)) \<and> outcomes_from srv m (mbsc_images m) (fst s)"
  show "does P (\<lambda>r. same_request m (snd r) \<and> (mbsc_wf m \<longrightarrow> mbsc_wf (snd r)) \<and> outcomes_from srv m (mbsc_images m) (snd r))
      (do { e \<leftarrow> do_write srv (Patch_MBSC_Status m (fst s)); State_Monad.return (errors_Join (snd s @ [e]), fst s) })"
    using s assms(2) by (intro does_bind [OF does_requests(6)] does_return) auto
qed

text \<open>What synchronising an image may request.\<close>

definition sync_request_ok :: "library \<Rightarrow> mbsc \<Rightarrow> build_sign_spec \<Rightarrow> call \<Rightarrow> bool" where
  "sync_request_ok lib m img c \<longleftrightarrow>
     GetImageStatus m (is_image (bss_spec img)) (bss_action img) \<noteq> ActionSuccess \<and>
     ((\<exists>p. c = Create_Pod p \<and> template_for lib (createMLD m (bss_spec img)) (bss_action img) (mbsc_owner_of m) p) \<or>
      (\<exists>p. c = Delete_Pod p \<and> IsControlledBy p (mbsc_owner_of m)))"

lemma filter_owner_single: "filterResourcesByOwner pods owner = [p] \<Longrightarrow> IsControlledBy p owner"
  by (auto simp: filterResourcesByOwner_def filter_eq_Cons_iff)

lemma does_GetResourceByKernel:
  "does is_read (\<lambda>r. \<forall>p. r = Inr p \<longrightarrow> IsControlledBy p owner) (GetResourceByKernel srv name ns kv act owner)"
  unfolding does_def
proof (intro conjI allI)
  show "emits is_read (GetResourceByKernel srv name ns kv act owner)"
    unfolding GetResourceByKernel_def getResources_def by (intro emits_intros) simp
  fix h p show "fst (run_state (GetResourceByKernel srv name ns kv act owner) h) = Inr p \<longrightarrow> IsControlledBy p owner"
    by (auto simp: run_GetResourceByKernel Let_def filter_owner_single split: sum.splits list.splits)
qed

lemma does_MakeResourceTemplate:
  "does is_read (\<lambda>t. \<forall>p. t = Inr p \<longrightarrow> template_for lib d act owner p) (MakeResourceTemplate lib srv getenv d owner push act)"
  unfolding does_def using reads_MakeResourceTemplate template_for_MakeResourceTemplate by blast

lemma emits_sync_image:
  "emits (\<lambda>c. is_read c \<or> sync_request_ok lib m img c) (sync_image lib srv getenv m img)"
proof (cases "GetImageStatus m (is_image (bss_spec img)) (bss_action img) = ActionSuccess")
  case True
  then show ?thesis by (simp add: sync_image_def emits_return)
next
  case False
  let ?P = "\<lambda>c. is_read c \<or> sync_request_ok lib m img c" and ?d = "createMLD m (bss_spec img)" and ?ow = "mbsc_owner_of m"
  have tmpl: "does ?P (\<lambda>t. \<forall>p. t = Inr p \<longrightarrow> template_for lib ?d (bss_action img) ?ow p)
      (MakeResourceTemplate lib srv getenv ?d ?ow (mbsc_push m) (bss_action img))"
    by (rule does_mono [OF does_MakeResourceTemplate]) auto
  have get: "does ?P (\<lambda>r. \<forall>p. r = Inr p \<longrightarrow> IsControlledBy p ?ow)
      (GetResourceByKernel srv (mld_name ?d) (mld_namespace ?d) (mld_kernel_normalized ?d) (bss_action img) ?ow)"
    by (rule does_mono [OF does_GetResourceByKernel]) auto
  have "does ?P (\<lambda>_. True) (Sync lib srv getenv ?d (mbsc_push m) (bss_action img) ?ow)"
    unfolding Sync_def CreateResource_def DeleteResource_def
    by (rule does_bind [OF tmpl], intro does_intros does_bind [OF get] does_bind [OF does_requests(6)] TrueI)
      (use False in \<open>auto simp: sync_request_ok_def\<close>)
  with False show ?thesis by (simp add: sync_image_def does_def)
qed

lemma emits_garbageCollect:
  "emits (\<lambda>c. is_read c \<or> (\<exists>p. c = Delete_Pod p \<and> IsControlledBy p (mbsc_owner_of m) \<and> pod_phase p = PodSucceeded))
     (garbageCollect srv m)"
proof -
  let ?P = "\<lambda>c. is_read c \<or> (\<exists>p. c = Delete_Pod p \<and> IsControlledBy p (mbsc_owner_of m) \<and> pod_phase p = PodSucceeded)"
  have gc: "emits ?P (gc_resources srv objs)" if "\<And>p. p \<in> set objs \<Longrightarrow> IsControlledBy p (mbsc_owner_of m)" for objs
    using that
    by (induction objs) (auto simp: HasResourcesCompletedSuccessfully_def DeleteResource_def intro!: emits_intros)
  have res: "does ?P (\<lambda>r. \<forall>ps. r = Inr ps \<longrightarrow> (\<forall>p\<in>set ps. IsControlledBy p (mbsc_owner_of m)))
      (GetModuleResources srv name ns act (mbsc_owner_of m))" for name ns act
    unfolding GetModuleResources_def getResources_def
    by (intro does_bind [OF emits_does] does_return emits_intros)
      (auto simp: filterResourcesByOwner_def split: sum.splits)
  have "does ?P (\<lambda>_. True) (GarbageCollect srv name ns act (mbsc_owner_of m))" for name ns act
    unfolding GarbageCollect_def
    by (rule does_bind [OF res], intro does_intros does_bind [OF emits_does [OF gc]] TrueI) auto
  then show ?thesis unfolding garbageCollect_def by (intro emits_intros does_emits)
qed

lemma MBSC_Reconcile_steps:
  assumes P: "\<And>c. is_read c \<Longrightarrow> P c"
    and patch: "\<And>m'. same_request m m' \<Longrightarrow> outcomes_from srv m (mbsc_images m) m' \<Longrightarrow> P (Patch_MBSC_Status m m')"
    and sync: "\<And>m' img c. same_request m m' \<Longrightarrow> outcomes_from srv m (mbsc_images m) m' \<Longrightarrow> img \<in> set (mbsc_images m) \<Longrightarrow>
      sync_request_ok lib m' img c \<Longrightarrow> P c"
    and gc: "\<And>p. IsControlledBy p (mbsc_owner_of m) \<Longrightarrow> pod_phase p = PodSucceeded \<Longrightarrow> P (Delete_Pod p)"
  shows "emits P (MBSC_Reconcile lib srv getenv m)"
proof (cases "mbsc_deleting m")
  case True
  then show ?thesis by (simp add: MBSC_Reconcile_def emits_return)
next
  case False
  have "does P (\<lambda>_. True) (MBSC_Reconcile lib srv getenv m)"
    unfolding MBSC_Reconcile_def if_not_P [OF False]
  proof (rule does_bind [OF does_updateStatus [where P = P]])
    fix u :: "go_err option \<times> mbsc"
    assume u: "same_request m (snd u) \<and> (mbsc_wf m \<longrightarrow> mbsc_wf (snd u)) \<and> outcomes_from srv m (mbsc_images m) (snd u)"
    then have ow: "mbsc_owner_of (snd u) = mbsc_owner_of m" by (simp add: mbsc_owner_of_def)
    have "emits P (processImagesSpecs lib srv getenv (snd u))"
      unfolding processImagesSpecs_def using u sync P
      by (intro emits_intros emits_mono [OF emits_sync_image]) auto
    moreover have "emits P (garbageCollect srv (snd u))"
      by (rule emits_mono [OF emits_garbageCollect]) (use P gc ow in auto)
    ultimately show "does P (\<lambda>_. True) (case fst u of
        Some e \<Rightarrow> State_Monad.return (Some (Errorf ''failed to update MSBC status based on the result of the builds'' e))
      | None \<Rightarrow> do {
          e \<leftarrow> processImagesSpecs lib srv getenv (snd u);
          case e of
            Some er \<Rightarrow> State_Monad.return (Some (errorf ''failed to process images of MSBC'' er))
          | None \<Rightarrow> do {
              g \<leftarrow> garbageCollect srv (snd u);
              State_Monad.return (errorf_opt ''failed to run garbage collector for MBSC'' g)
            }
        })"
      by (intro emits_does emits_intros)
  qed (use P patch in auto)
  then show ?thesis by (rule does_emits)
qed

definition mbsc_write_ok :: "library \<Rightarrow> server \<Rightarrow> mbsc \<Rightarrow> call \<Rightarrow> bool" where
  "mbsc_write_ok lib srv m c \<longleftrightarrow>
     (\<exists>m'. same_request m m' \<and> outcomes_from srv m (mbsc_images m) m' \<and>
        (c = Patch_MBSC_Status m m' \<or> list_ex (\<lambda>img. sync_request_ok lib m' img c) (mbsc_images m))) \<or>
     (\<exists>p. c = Delete_Pod p \<and> IsControlledBy p (mbsc_owner_of m))"

text \<open>Without pods there is nothing to record.\<close>

lemma update_images_no_pods:
  assumes "\<forall>h q. s_pods srv h q = Inr []"
  shows "\<exists>h'. run_state (update_images srv imgs (m, errs)) h = ((m, errs @ replicate (length imgs) None), h')"
proof (induction imgs arbitrary: errs h)
  case (Cons img imgs)
  then show ?case
    using assms by (simp add: GetStatus_def run_GetResourceByKernel filterResourcesByOwner_def Let_def) (metis append_Cons append_assoc append_Nil)
qed simp

lemma updateStatus_no_pods:
  assumes "\<forall>h q. s_pods srv h q = Inr []" "\<forall>h c. s_write srv h c = None"
  shows "\<exists>h'. run_state (updateStatus srv m) h = ((None, m), h')"
proof -
  obtain h1 where r: "run_state (update_images srv (mbsc_images m) (m, [])) h = ((m, replicate (length (mbsc_images m)) None), h1)"
    using update_images_no_pods [OF assms(1), of "mbsc_images m" m "[]" h] by auto
  show ?thesis using assms(2) by (simp add: updateStatus_def r do_write_def)
qed

text \<open>Building an image without build settings dereferences a nil pointer.\<close>

lemma build_without_settings_panic:
  assumes "\<not> mbsc_deleting m" "mbsc_images m = img # imgs" "bss_action img = BuildImage" "is_build (bss_spec img) = None"
    and up: "run_state (updateStatus srv m) h = ((None, m'), h')"
    and "GetImageStatus m' (is_image (bss_spec img)) BuildImage \<noteq> ActionSuccess"
  shows "\<exists>e. fst (run_state (MBSC_Reconcile lib srv getenv m) h) = Some e \<and> is_panic e"
proof -
  have "does (\<lambda>_. True) (\<lambda>r. same_request m (snd r) \<and> (mbsc_wf m \<longrightarrow> mbsc_wf (snd r)) \<and> outcomes_from srv m (mbsc_images m) (snd r)) (updateStatus srv m)"
    by (rule does_updateStatus) auto
  from does_result [OF this, of h] up assms(2) have "mbsc_images m' = img # imgs" by simp
  moreover have "run_state (sync_image lib srv getenv m' img) h' = (Some (Panic ''nil pointer dereference''), h')"
    using assms by (simp add: sync_image_def Sync_def MakeResourceTemplate_def makeBuildTemplate_def buildSpec_def createMLD_def
        errorf_def)
  ultimately have "fst (run_state (processImagesSpecs lib srv getenv m') h') = Some (Panic ''nil pointer dereference'')"
    by (simp add: processImagesSpecs_def join_errors_def)
  then show ?thesis using assms(1) up by (simp add: MBSC_Reconcile_def split_beta errorf_def)
qed

section \<open>Properties\<close>

text \<open>
  C21: an outcome is recorded only from a pod. If a reconciliation sends a status in which the action on an image
  succeeded (or failed), the object said so before, or the single pod the object controls for the image's kernel
  and action was seen to have succeeded (or failed).
\<close>

theorem outcome_recorded_only_from_pods:
  assumes "Patch_MBSC_Status m1 m2 \<in> set (calls (MBSC_Reconcile lib srv getenv m) h)"
    and "lookup_outcome m2 i = Some (act, st)"
  shows "lookup_outcome m i = Some (act, st) \<or>
    (\<exists>img\<in>set (mbsc_images m). is_image (bss_spec img) = i \<and> bss_action img = act \<and> pod_says srv m img st)"
proof -
  let ?P = "\<lambda>c. \<forall>m1 m2. c = Patch_MBSC_Status m1 m2 \<longrightarrow> outcomes_from srv m (mbsc_images m) m2"
  have "emits ?P (MBSC_Reconcile lib srv getenv m)"
    by (rule MBSC_Reconcile_steps) (auto simp: sync_request_ok_def)
  from emits_calls [OF this assms(1)] assms(2) show ?thesis unfolding outcomes_from_def by blast
qed

definition one_build :: mbsc where
  "one_build = (new_mbsc ''mymod'' ''kmm'')\<lparr>mbsc_uid := ''u1'', mbsc_push := True, mbsc_images := [\<lparr>bss_spec =
     \<lparr>is_image = ''reg/img'', is_kernel_version = ''6.1.7'', is_build = mld_build sample_mld, is_sign = None,
      is_skip_wait = False, is_registry_tls = Some no_tls, is_dir_name = ''/opt''\<rparr>, bss_action = BuildImage\<rparr>]\<rparr>"

definition built_cluster :: server where
  "built_cluster = dockerfile_cluster\<lparr>s_pods := (\<lambda>h q. Inr [empty_pod\<lparr>pod_owner := Some (mbsc_owner_of one_build),
     pod_phase := PodSucceeded\<rparr>])\<rparr>"

theorem outcome_recorded_only_from_pods_witness:
  "list_ex (\<lambda>c. case c of Patch_MBSC_Status m1 m2 \<Rightarrow> lookup_outcome m2 ''reg/img'' = Some (BuildImage, ActionSuccess) | _ \<Rightarrow> False)
     (calls (MBSC_Reconcile plain_library built_cluster (\<lambda>_. ''kaniko'') one_build) []) \<and>
   list_ex (\<lambda>img. pod_says built_cluster one_build img ActionSuccess) (mbsc_images one_build)"
proof -
  let ?run = "calls (MBSC_Reconcile plain_library built_cluster (\<lambda>_. ''kaniko'') one_build) []"
  have e: "list_ex (\<lambda>c. case c of Patch_MBSC_Status m1 m2 \<Rightarrow> lookup_outcome m2 ''reg/img'' = Some (BuildImage, ActionSuccess) | _ \<Rightarrow> False) ?run"
    by code_simp
  then obtain c where "c \<in> set ?run" "case c of Patch_MBSC_Status m1 m2 \<Rightarrow> lookup_outcome m2 ''reg/img'' = Some (BuildImage, ActionSuccess) | _ \<Rightarrow> False"
    by (auto simp: list_ex_iff)
  then obtain m1 m2 where m: "Patch_MBSC_Status m1 m2 \<in> set ?run" "lookup_outcome m2 ''reg/img'' = Some (BuildImage, ActionSuccess)"
    by - (cases c, auto)
  have "lookup_outcome one_build ''reg/img'' = None" by (simp add: one_build_def new_mbsc_def lookup_outcome_def)
  with outcome_recorded_only_from_pods [OF m] e show ?thesis by (auto simp: list_ex_iff)
qed

text \<open>
  A reconciliation only works on its own pods. Every write is the status of the object, the creation of a
  pod for an image of the object whose action has not succeeded in the status just computed, or the deletion of
  a pod the object controls.
\<close>

theorem mbsc_reconcile_writes:
  "list_all (mbsc_write_ok lib srv m) (writes (MBSC_Reconcile lib srv getenv m) h)"
proof -
  have "emits (\<lambda>c. is_read c \<or> mbsc_write_ok lib srv m c) (MBSC_Reconcile lib srv getenv m)"
    by (rule MBSC_Reconcile_steps) (unfold mbsc_write_ok_def list_ex_iff; blast)+
  from emits_calls [OF this] show ?thesis by (fastforce simp: writes_def list_all_iff)
qed

end
