(* ===== verification/Module_Reconciler.thy ===== *)
theory Module_Reconciler
  imports Nmc Node_Api Kernel_Mapper Mic
begin

text \<open>
  The reconciler of Modules, \<^verbatim>\<open>internal/controllers/module_reconciler.go\<close>: for every node a module
  targets it finds the kernel mapping, asks for the images through the ModuleImagesConfig, and puts the module
  into the NodeModulesConfig of each node whose image exists; it takes the module out of the others, and
  removes the finalizer of a deleted module when no node uses it any more. The kernel mapper is the one of
  \<open>Kernel_Mapper\<close>; sets of names are lists.
\<close>

section \<open>Scheduling\<close>

text \<open>The zero value of the action means that nothing is to be done.\<close>

datatype sched_action = NoAction | actionDelete | actionAdd

record schedulingData =
  sd_action :: sched_action
  sd_mld :: "mld option"
  sd_node :: "node option"

definition no_scheduling :: schedulingData where
  "no_scheduling = \<lparr>sd_action = NoAction, sd_mld = None, sd_node = None\<rparr>"

definition prepareNodeSchedulingData :: "node \<Rightarrow> mld option \<Rightarrow> string list \<Rightarrow> schedulingData" where
  "prepareNodeSchedulingData node d currentNMCs =
     (case d of
        None \<Rightarrow> if node_name node \<in> set currentNMCs then no_scheduling\<lparr>sd_action := actionDelete\<rparr> else no_scheduling
      | Some mld \<Rightarrow>
          (let (versionLabel, present) = GetNodeWorkerPodVersionLabel (node_labels node) (mld_namespace mld) (mld_name mld);
               add = \<lparr>sd_action = actionAdd, sd_mld = Some mld, sd_node = Some node\<rparr>
           in if mld_version mld = [] then add
              else if present \<and> versionLabel = mld_version mld then add
              else if present \<and> versionLabel \<noteq> mld_version mld then no_scheduling
              else no_scheduling\<lparr>sd_action := actionDelete\<rparr>))"

definition node_kernel :: "node \<Rightarrow> string" where
  "node_kernel node = TrimSuffix (node_kernel_version node) ''+''"

abbreviation kernel_data :: "library \<Rightarrow> kmodule \<Rightarrow> node \<Rightarrow> go_err + mld" where
  "kernel_data lib modu node \<equiv>
     GetModuleLoaderDataForKernel (l_MatchString lib) (l_envsubst lib) modu (node_kernel node)"

text \<open>The loop over the targeted nodes; a panic of the kernel mapper ends the run.\<close>

fun schedule_nodes ::
  "library \<Rightarrow> kmodule \<Rightarrow> node list \<Rightarrow> (string \<times> schedulingData) list \<Rightarrow> string list \<Rightarrow> go_err option list \<Rightarrow>
   go_err + (string \<times> schedulingData) list \<times> string list \<times> go_err option list" where
  "schedule_nodes lib modu [] acc currentNMCs errs = Inr (acc, currentNMCs, errs)"
| "schedule_nodes lib modu (node # nodes) acc currentNMCs errs =
     (let rest = removeAll (node_name node) currentNMCs in
      case kernel_data lib modu node of
        Inl e \<Rightarrow>
          if is_panic e then Inl e
          else if \<not> errors_Is e ErrNoMatchingKernelMapping then
            schedule_nodes lib modu nodes acc rest (errs @ [Some e])
          else schedule_nodes lib modu nodes
                 (AList.update (node_name node) (prepareNodeSchedulingData node None currentNMCs) acc) rest errs
      | Inr d \<Rightarrow>
          schedule_nodes lib modu nodes
            (AList.update (node_name node) (prepareNodeSchedulingData node (Some d) currentNMCs) acc) rest errs)"

definition prepareSchedulingData ::
  "library \<Rightarrow> kmodule \<Rightarrow> node list \<Rightarrow> string list \<Rightarrow> go_err + (string \<times> schedulingData) list \<times> go_err option list" where
  "prepareSchedulingData lib modu targetedNodes currentNMCs =
     and_then (schedule_nodes lib modu targetedNodes [] currentNMCs []) (\<lambda>(acc, left, errs).
       Inr (fold (\<lambda>n r. AList.update n (no_scheduling\<lparr>sd_action := actionDelete\<rparr>) r) left acc, errs))"

section \<open>Images\<close>

definition image_of :: "mld \<Rightarrow> image_spec" where
  "image_of d = \<lparr>is_image = mld_image d, is_kernel_version = mld_kernel_version d, is_build = mld_build d, is_sign = mld_sign d,
     is_skip_wait = False, is_registry_tls = mld_registry_tls d, is_dir_name = mp_dir_name (mld_modprobe d)\<rparr>"

fun mic_images :: "library \<Rightarrow> kmodule \<Rightarrow> node list \<Rightarrow> go_err + image_spec list \<times> go_err option list" where
  "mic_images lib modu [] = Inr ([], [])"
| "mic_images lib modu (node # nodes) =
     (case kernel_data lib modu node of
        Inl e \<Rightarrow>
          if is_panic e then Inl e
          else and_then (mic_images lib modu nodes) (\<lambda>(images, errs).
                 Inr (images, if errors_Is e ErrNoMatchingKernelMapping then errs
                              else Some (Errorf ''failed to get moduleLoaderData for kernel'' e) # errs))
      | Inr d \<Rightarrow> and_then (mic_images lib modu nodes) (\<lambda>(images, errs). Inr (image_of d # images, errs)))"

definition handleMIC :: "library \<Rightarrow> server \<Rightarrow> kmodule \<Rightarrow> node list \<Rightarrow> (go_err option) cio" where
  "handleMIC lib srv modu targetedNodes =
     (case mic_images lib modu targetedNodes of
        Inl panic \<Rightarrow> State_Monad.return (Some panic)
      | Inr (images, errs) \<Rightarrow>
          (case ms_loader (mod_spec modu) of
             None \<Rightarrow> State_Monad.return (Some (Panic ''nil pointer dereference''))
           | Some ml \<Rightarrow> do {
               e \<leftarrow> Mic.CreateOrPatch lib srv (mod_name modu) (mod_namespace modu) images (ms_repo_secret (mod_spec modu))
                      (lc_pull_policy (ml_container ml)) True (ms_rebuild_trigger (mod_spec modu))
                      (ms_tolerations (mod_spec modu)) (module_owner modu);
               State_Monad.return (join_errors (errs @ [errorf_opt ''failed to apply MIC'' e]))
             }))"

section \<open>Putting a module on nodes\<close>

definition new_nmc :: "string \<Rightarrow> nmc" where
  "new_nmc name = \<lparr>nmc_name = name, nmc_uid = [], nmc_labels = [], nmc_owners = [], nmc_spec = [], nmc_status = []\<rparr>"

definition node_owner :: "node \<Rightarrow> owner_ref" where
  "node_owner node = \<lparr>own_kind = ''Node'', own_namespace = [], own_name = node_name node, own_uid = node_uid node\<rparr>"

definition config_of :: "mld \<Rightarrow> module_config" where
  "config_of d = empty_config\<lparr>cfg_kernel_version := mld_kernel_version d, cfg_image := mld_image d,
     cfg_pull_policy := mld_pull_policy d, cfg_intree := mld_intree d, cfg_modprobe := mld_modprobe d,
     cfg_insecure_pull := (case mld_registry_tls d of None \<Rightarrow> False | Some tls \<Rightarrow> tls_insecure tls \<or> tls_skip_verify tls)\<rparr>"

definition enable_in :: "library \<Rightarrow> mld \<Rightarrow> node \<Rightarrow> nmc \<Rightarrow> go_err + nmc" where
  "enable_in lib d node n =
     (let n1 = SetModuleConfig n d (config_of d);
          ls = SetLabel (ModuleInUseLabel (mld_namespace d) (mld_name d)) []
                 (SetLabel (ModuleConfiguredLabel (mld_namespace d) (mld_name d)) [] (nmc_labels n1))
      in and_then (l_SetOwnerReference lib (node_owner node) (nmc_owners n1))
           (\<lambda>ows. Inr (n1\<lparr>nmc_labels := ls, nmc_owners := ows\<rparr>)))"

definition enableModuleOnNode :: "library \<Rightarrow> server \<Rightarrow> mld \<Rightarrow> node \<Rightarrow> (go_err option) cio" where
  "enableModuleOnNode lib srv d node = do {
     r \<leftarrow> Mic.Get srv (mld_name d) (mld_namespace d);
     case r of
       Inl e \<Rightarrow> State_Monad.return (Some (Errorf ''failed to get moduleImagesConfig'' e))
     | Inr micObj \<Rightarrow>
         if GetImageState micObj (mld_image d) \<noteq> ImageExists then State_Monad.return None
         else do {
           e \<leftarrow> Client.CreateOrPatch srv (get_nmc srv (node_name node)) (new_nmc (node_name node)) (enable_in lib d node)
                  Create_NMC Patch_NMC;
           State_Monad.return (errorf_opt ''failed to enable module in NMC'' e)
         }
   }"

definition disable_in :: "string \<Rightarrow> string \<Rightarrow> nmc \<Rightarrow> nmc" where
  "disable_in modNamespace modName n =
     (let n1 = RemoveModuleConfig n modNamespace modName
      in n1\<lparr>nmc_labels := RemoveLabel (ModuleConfiguredLabel modNamespace modName) (nmc_labels n1)\<rparr>)"

text \<open>The object handed in is what is created when the server has none of that name.\<close>

definition removeModuleFromNMC :: "server \<Rightarrow> nmc \<Rightarrow> string \<Rightarrow> string \<Rightarrow> (go_err option) cio" where
  "removeModuleFromNMC srv n modNamespace modName = do {
     e \<leftarrow> Client.CreateOrPatch srv (get_nmc srv (nmc_name n)) n (\<lambda>n. Inr (disable_in modNamespace modName n))
            Create_NMC Patch_NMC;
     State_Monad.return (errorf_opt ''failed to disable module in NMC'' e)
   }"

definition disableModuleOnNode :: "server \<Rightarrow> string \<Rightarrow> string \<Rightarrow> string \<Rightarrow> (go_err option) cio" where
  "disableModuleOnNode srv modNamespace modName nodeName =
     removeModuleFromNMC srv (new_nmc nodeName) modNamespace modName"

section \<open>Finalizer\<close>

text \<open>The module with the finalizer; the handler continues with it.\<close>

definition setFinalizerAndStatus :: "server \<Rightarrow> kmodule \<Rightarrow> (go_err option \<times> kmodule) cio" where
  "setFinalizerAndStatus srv modu =
     (if ModuleFinalizer \<in> set (mod_finalizers modu) then State_Monad.return (None, modu)
      else
        (let modu' = modu\<lparr>mod_finalizers := AddFinalizer ModuleFinalizer (mod_finalizers modu)\<rparr>
         in do {
           e \<leftarrow> do_write srv (Patch_Module modu modu');
           case e of
             Some er \<Rightarrow> State_Monad.return (Some (Errorf ''failed to set finalizer for module'' er), modu')
           | None \<Rightarrow> do {
               e2 \<leftarrow> do_write srv (Update_Module_Status modu');
               State_Monad.return (e2, modu')
             }
         }))"

definition finalizeModule :: "server \<Rightarrow> kmodule \<Rightarrow> (go_err option) cio" where
  "finalizeModule srv modu =
     (let ns = mod_namespace modu; name = mod_name modu in do {
        r \<leftarrow> list_nmcs srv [(ModuleConfiguredLabel ns name, [])];
        case r of
          Inl e \<Rightarrow> State_Monad.return (Some (Errorf ''failed to list NMCs with the module configured in the cluster'' e))
        | Inr configured \<Rightarrow> do {
            es \<leftarrow> collect_errors (\<lambda>n. removeModuleFromNMC srv n ns name) configured;
            case join_errors es of
              Some e \<Rightarrow> State_Monad.return (Some (errorf ''failed to remove module from some of NMCs'' e))
            | None \<Rightarrow> do {
                r2 \<leftarrow> list_nmcs srv [(ModuleInUseLabel ns name, [])];
                case r2 of
                  Inl e \<Rightarrow> State_Monad.return (Some (Errorf ''failed to list NMCs with the module loaded in the cluster'' e))
                | Inr inUse \<Rightarrow>
                    if inUse \<noteq> [] then State_Monad.return None
                    else do_write srv (Patch_Module modu
                           (modu\<lparr>mod_finalizers := snd (RemoveFinalizer ModuleFinalizer (mod_finalizers modu))\<rparr>))
              }
          }
      })"

section \<open>Status\<close>

definition getNMCsForModule :: "server \<Rightarrow> kmodule \<Rightarrow> (go_err + nmc list) cio" where
  "getNMCsForModule srv modu = do {
     r \<leftarrow> list_nmcs srv [(ModuleConfiguredLabel (mod_namespace modu) (mod_name modu), [])];
     State_Monad.return (map_sum (Errorf ''could not list NMCs'') id r)
   }"

definition getNMCsByModuleSet :: "server \<Rightarrow> kmodule \<Rightarrow> (go_err + string list) cio" where
  "getNMCsByModuleSet srv modu = do {
     r \<leftarrow> getNMCsForModule srv modu;
     State_Monad.return (map_sum (Errorf ''failed to get list of NMCs of the module for map'') (map nmc_name) r)
   }"

definition module_available :: "kmodule \<Rightarrow> nmc \<Rightarrow> bool" where
  "module_available modu n =
     (case fst (GetModuleSpecEntry n (mod_namespace modu) (mod_name modu)) of
        None \<Rightarrow> False
      | Some sp \<Rightarrow>
          (case GetModuleStatusEntry n (mod_namespace modu) (mod_name modu) of
             None \<Rightarrow> False
           | Some st \<Rightarrow> nms_config sp = nst_config st))"

definition updateModuleLoaderStatus :: "server \<Rightarrow> kmodule \<Rightarrow> node list \<Rightarrow> (go_err option \<times> kmodule) cio" where
  "updateModuleLoaderStatus srv modu targetedNodes = do {
     r \<leftarrow> getNMCsForModule srv modu;
     State_Monad.return
       (case r of
          Inl e \<Rightarrow> (Some (Errorf ''failed to get configured NMCs for module'' e), modu)
        | Inr nmcs \<Rightarrow>
            (None, modu\<lparr>mod_status := (mod_status modu)\<lparr>mst_loader :=
               \<lparr>dss_matching = go_int32 (int (length targetedNodes)), dss_desired = go_int32 (int (length nmcs)),
                dss_available = go_int32 (int (length (filter (module_available modu) nmcs)))\<rparr>\<rparr>\<rparr>))
   }"

definition updateImageRebuildTriggerGenerationStatus :: "server \<Rightarrow> kmodule \<Rightarrow> (go_err option \<times> kmodule) cio" where
  "updateImageRebuildTriggerGenerationStatus srv modu = do {
     r \<leftarrow> Mic.Get srv (mod_name modu) (mod_namespace modu);
     State_Monad.return
       (case r of
          Inl e \<Rightarrow> if IsNotFound e then (None, modu) else (Some (Errorf ''failed to get MIC'' e), modu)
        | Inr micObj \<Rightarrow> (None, modu\<lparr>mod_status := (mod_status modu)\<lparr>mst_rebuild_trigger := mic_status_trigger micObj\<rparr>\<rparr>))
   }"

definition updateModuleStatus :: "server \<Rightarrow> kmodule \<Rightarrow> node list \<Rightarrow> (go_err option) cio" where
  "updateModuleStatus srv modu targetedNodes = do {
     r1 \<leftarrow> updateModuleLoaderStatus srv modu targetedNodes;
     r2 \<leftarrow> updateImageRebuildTriggerGenerationStatus srv (snd r1);
     e3 \<leftarrow> do_write srv (Patch_Module_Status modu (snd r2));
     State_Monad.return (errors_Join [errorf_opt ''failed to update module loader status for module'' (fst r1),
       errorf_opt ''failed to update ImageRebuildTriggerGeneration status for module'' (fst r2),
       errorf_opt ''failed to patch module status for module'' e3])
   }"

definition clearModuleLoaderStatus :: "server \<Rightarrow> kmodule \<Rightarrow> (go_err option) cio" where
  "clearModuleLoaderStatus srv modu =
     (if mst_loader (mod_status modu) = zero_ds then State_Monad.return None
      else do_write srv (Patch_Module_Status modu (modu\<lparr>mod_status := (mod_status modu)\<lparr>mst_loader := zero_ds\<rparr>\<rparr>)))"

section \<open>Namespace label\<close>

definition setLabel :: "server \<Rightarrow> string \<Rightarrow> (go_err option) cio" where
  "setLabel srv name = do {
     r \<leftarrow> get_namespace srv name;
     case r of
       Inl e \<Rightarrow> State_Monad.return (Some (Errorf ''could not get namespace'' e))
     | Inr ns \<Rightarrow>
         if \<not> HasLabel NamespaceLabelKey (nso_labels ns) then
           do_write srv (Patch_Namespace ns (ns\<lparr>nso_labels := SetLabel NamespaceLabelKey [] (nso_labels ns)\<rparr>))
         else State_Monad.return None
   }"

definition tryRemovingLabel :: "server \<Rightarrow> string \<Rightarrow> (go_err option) cio" where
  "tryRemovingLabel srv name = do {
     r \<leftarrow> list_modules srv (Some name);
     case r of
       Inl e \<Rightarrow> State_Monad.return (Some (Errorf ''could not list modules in namespace'' e))
     | Inr mods \<Rightarrow>
         if filter (\<lambda>m. \<not> mod_deleting m) mods \<noteq> [] then State_Monad.return None
         else do {
           r2 \<leftarrow> get_namespace srv name;
           case r2 of
             Inl e \<Rightarrow> State_Monad.return (Some (Errorf ''could not get namespace'' e))
           | Inr ns \<Rightarrow>
               do_write srv (Patch_Namespace ns (ns\<lparr>nso_labels := RemoveLabel NamespaceLabelKey (nso_labels ns)\<rparr>))
         }
   }"

section \<open>Reconcile\<close>

text \<open>
  The loop over the scheduling data. The error variable is shared by the iterations, so a node that needs no
  action adds the error of the node before it once more.
\<close>

fun schedule_loop ::
  "library \<Rightarrow> server \<Rightarrow> kmodule \<Rightarrow> (string \<times> schedulingData) list \<Rightarrow> go_err option \<Rightarrow> go_err option list \<Rightarrow>
   (go_err option list) cio" where
  "schedule_loop lib srv modu [] err errs = State_Monad.return errs"
| "schedule_loop lib srv modu ((nodeName, sd) # sds) err errs = do {
     err' \<leftarrow> (case sd_action sd of
        actionAdd \<Rightarrow>
          (case (sd_mld sd, sd_node sd) of
             (Some d, Some node) \<Rightarrow> enableModuleOnNode lib srv d node
           | _ \<Rightarrow> State_Monad.return (Some (Panic ''nil pointer dereference'')))
      | actionDelete \<Rightarrow> disableModuleOnNode srv (mod_namespace modu) (mod_name modu) nodeName
      | NoAction \<Rightarrow> State_Monad.return err);
     schedule_loop lib srv modu sds err' (errs @ [err'])
   }"

definition reconcile_nodes :: "library \<Rightarrow> server \<Rightarrow> kmodule \<Rightarrow> node list \<Rightarrow> (go_err option) cio" where
  "reconcile_nodes lib srv modu targetedNodes = do {
     h \<leftarrow> handleMIC lib srv modu targetedNodes;
     case h of
       Some e \<Rightarrow> State_Monad.return (Some (errorf ''failed to handle MIC'' e))
     | None \<Rightarrow> do {
         c \<leftarrow> getNMCsByModuleSet srv modu;
         case c of
           Inl e \<Rightarrow> State_Monad.return (Some (Errorf ''failed to get NMCs for Module'' e))
         | Inr currentNMCs \<Rightarrow>
             (case prepareSchedulingData lib modu targetedNodes currentNMCs of
                Inl panic \<Rightarrow> State_Monad.return (Some panic)
              | Inr (sdMap, prepareErrs) \<Rightarrow> do {
                  errs \<leftarrow> schedule_loop lib srv modu sdMap None prepareErrs;
                  e \<leftarrow> updateModuleStatus srv modu targetedNodes;
                  State_Monad.return (errorf_opt ''failed to reconcile module config'' (join_errors (errs @ [e])))
                })
       }
   }"

definition Module_Reconcile :: "library \<Rightarrow> server \<Rightarrow> kmodule \<Rightarrow> (go_err option) cio" where
  "Module_Reconcile lib srv modu =
     (if mod_deleting modu then do {
        e \<leftarrow> tryRemovingLabel srv (mod_namespace modu);
        case e of
          Some er \<Rightarrow> State_Monad.return (Some (Errorf ''error while trying to remove the label on namespace'' er))
        | None \<Rightarrow> do {
            f \<leftarrow> finalizeModule srv modu;
            State_Monad.return (errorf_opt ''failed to finalize Module'' f)
          }
      } else do {
        e \<leftarrow> setLabel srv (mod_namespace modu);
        case e of
          Some er \<Rightarrow> State_Monad.return (Some (Errorf ''could not set label on namespace'' er))
        | None \<Rightarrow> do {
            f \<leftarrow> setFinalizerAndStatus srv modu;
            case fst f of
              Some er \<Rightarrow> State_Monad.return (Some (Errorf ''failed to set finalizer on Module'' er))
            | None \<Rightarrow>
                if ms_loader (mod_spec (snd f)) = None then clearModuleLoaderStatus srv (snd f)
                else do {
                  r \<leftarrow> GetSchedulableNodesBySelector lib srv (ms_selector (mod_spec (snd f))) (ms_tolerations (mod_spec (snd f)));
                  case r of
                    Inl er \<Rightarrow> State_Monad.return (Some (Errorf ''failed to get list of nodes by selector'' er))
                  | Inr targetedNodes \<Rightarrow> reconcile_nodes lib srv (snd f) targetedNodes
                }
          }
      })"

section \<open>Lemmas\<close>

text \<open>What is decided for a targeted node; nothing when its kernel data cannot be determined.\<close>

definition node_decision :: "library \<Rightarrow> kmodule \<Rightarrow> string list \<Rightarrow> node \<Rightarrow> schedulingData option" where
  "node_decision lib modu currentNMCs node =
     (case kernel_data lib modu node of
        Inl e \<Rightarrow> if errors_Is e ErrNoMatchingKernelMapping then Some (prepareNodeSchedulingData node None currentNMCs) else None
      | Inr d \<Rightarrow> Some (prepareNodeSchedulingData node (Some d) currentNMCs))"

lemma node_decision_removeAll:
  "node_name node \<noteq> n \<Longrightarrow> node_decision lib modu (removeAll n cur) node = node_decision lib modu cur node"
proof -
  assume n: "node_name node \<noteq> n"
  have "prepareNodeSchedulingData node d (removeAll n cur) = prepareNodeSchedulingData node d cur" for d
    using n by (cases d) (simp_all add: prepareNodeSchedulingData_def)
  then show ?thesis unfolding node_decision_def by presburger
qed

lemma schedule_nodes_spec:
  assumes "schedule_nodes lib modu nodes acc cur errs = Inr (acc', left, errs')" "distinct (map node_name nodes)"
  shows "left = filter (\<lambda>n. n \<notin> node_name ` set nodes) cur \<and>
    map_of acc' n = (case find (\<lambda>x. node_name x = n) nodes of
        None \<Rightarrow> map_of acc n
      | Some node \<Rightarrow> (case node_decision lib modu cur node of None \<Rightarrow> map_of acc n | Some sd \<Rightarrow> Some sd))"
  using assms
proof (induction nodes arbitrary: acc cur errs)
  case (Cons node nodes)
  let ?rest = "removeAll (node_name node) cur"
  let ?acc = "case node_decision lib modu cur node of None \<Rightarrow> acc | Some sd \<Rightarrow> AList.update (node_name node) sd acc"
  obtain errs1 where rec: "schedule_nodes lib modu nodes ?acc ?rest errs1 = Inr (acc', left, errs')"
    using Cons.prems(1)
    by (auto simp: Let_def node_decision_def split: sum.splits if_splits)
  note IH = Cons.IH [OF rec] Cons.prems(2)
  have fresh: "find (\<lambda>x. node_name x = node_name node) nodes = None"
    using Cons.prems(2) by (auto simp: find_None_iff) (metis image_eqI)
  have left: "left = filter (\<lambda>n. n \<notin> node_name ` set (node # nodes)) cur"
    using IH by (auto simp: removeAll_filter_not_eq intro!: filter_cong)
  moreover have "map_of acc' n = (case find (\<lambda>x. node_name x = n) (node # nodes) of
        None \<Rightarrow> map_of acc n
      | Some node \<Rightarrow> (case node_decision lib modu cur node of None \<Rightarrow> map_of acc n | Some sd \<Rightarrow> Some sd))"
  proof (cases "node_name node = n")
    case True
    with IH fresh show ?thesis by (auto simp: update_conv' split: option.splits)
  next
    case False
    have "node_decision lib modu ?rest x = node_decision lib modu cur x" if "find (\<lambda>x. node_name x = n) nodes = Some x" for x
      using that False by (intro node_decision_removeAll) (auto simp: find_Some_iff)
    with False IH show ?thesis by (auto simp: update_conv' split: option.splits)
  qed
  ultimately show ?case by blast
qed simp

lemma map_of_fold_update:
  "map_of (fold (\<lambda>n r. AList.update n v r) ns acc) k = (if k \<in> set ns then Some v else map_of acc k)"
  by (induction ns arbitrary: acc) (auto simp: update_conv')

lemma enable_in_spec:
  assumes "enable_in lib d node n = Inr n'"
  shows "fst (GetModuleSpecEntry n' ns name) =
      (if (ns, name) = (mld_namespace d, mld_name d) then Some (spec_entry (d, config_of d)) else fst (GetModuleSpecEntry n ns name))"
    "nmc_status n' = nmc_status n"
    "map_of (nmc_labels n') = (map_of (nmc_labels n))(ModuleConfiguredLabel (mld_namespace d) (mld_name d) \<mapsto> [],
        ModuleInUseLabel (mld_namespace d) (mld_name d) \<mapsto> [])"
proof -
  have f: "nmc_status (SetModuleConfig n d c) = nmc_status n" "nmc_labels (SetModuleConfig n d c) = nmc_labels n" for c
    by (simp_all add: SetModuleConfig_def Let_def split: prod.split option.split)
  have g: "GetModuleSpecEntry (m\<lparr>nmc_labels := l, nmc_owners := o'\<rparr>) = GetModuleSpecEntry m" for m l o'
    by (simp add: GetModuleSpecEntry_def fun_eq_iff)
  show "fst (GetModuleSpecEntry n' ns name) =
      (if (ns, name) = (mld_namespace d, mld_name d) then Some (spec_entry (d, config_of d)) else fst (GetModuleSpecEntry n ns name))"
    using assms find_SetModuleConfig [of n d "config_of d" ns name]
    by (auto simp: enable_in_def Let_def and_then_Inr g)
  show "nmc_status n' = nmc_status n" "map_of (nmc_labels n') = (map_of (nmc_labels n))
      (ModuleConfiguredLabel (mld_namespace d) (mld_name d) \<mapsto> [], ModuleInUseLabel (mld_namespace d) (mld_name d) \<mapsto> [])"
    using assms by (auto simp: enable_in_def Let_def and_then_Inr f)
qed

lemma emits_removeModuleFromNMC [emits_intros]:
  assumes "P (Get_NMC (nmc_name n))" "P (Create_NMC (disable_in ns name n))" "\<And>b. P (Patch_NMC b (disable_in ns name b))"
  shows "emits P (removeModuleFromNMC srv n ns name)"
  unfolding removeModuleFromNMC_def using assms by (intro emits_intros) auto

section \<open>A concrete module\<close>

definition any_kernel :: kmodule where
  "any_kernel = new_module ''kmm'' ''mymod'' (empty_module_spec\<lparr>ms_loader := Some \<lparr>ml_container =
     empty_loader_container\<lparr>lc_mappings := [empty_mapping\<lparr>km_literal := ''6.1.7'', km_image := ''reg/img''\<rparr>],
       lc_modprobe := empty_modprobe\<lparr>mp_dir_name := ''/opt''\<rparr>\<rparr>, ml_service_account = []\<rparr>\<rparr>)"

definition plain_node :: "string \<Rightarrow> string \<Rightarrow> node" where
  "plain_node name kv = \<lparr>node_name = name, node_uid = name, node_labels = [], node_taints = [], node_kernel_version = kv,
     node_boot_id = [], node_conditions = [], node_spec_rest = [], node_info_rest = []\<rparr>"

definition image_ready :: mic where
  "image_ready = Mic.SetImageStatus (new_mic ''mymod'' ''kmm'') ''reg/img'' ImageExists"

definition ready_cluster :: server where
  "ready_cluster = empty_cluster\<lparr>s_mic := (\<lambda>h k. Inr image_ready)\<rparr>"

section \<open>Properties\<close>

text \<open>
  C16: every node is scheduled by what the module says about it. A targeted node gets the decision for its
  kernel's data: add when the module is unversioned or the node has the worker label of its version, nothing
  when the label is of another version, delete when the label is missing or no mapping matches and the module is
  configured there; a node whose data cannot be determined is left alone; a node that has the module and is not
  targeted any more is told to delete it; no other node is touched.
\<close>

theorem scheduling_decisions:
  assumes "prepareSchedulingData lib modu nodes currentNMCs = Inr (sdMap, errs)" "distinct (map node_name nodes)"
  shows "map_of sdMap n =
    (case find (\<lambda>x. node_name x = n) nodes of
       Some node \<Rightarrow>
         (case kernel_data lib modu node of
            Inl e \<Rightarrow> if errors_Is e ErrNoMatchingKernelMapping
                     then Some (if n \<in> set currentNMCs then no_scheduling\<lparr>sd_action := actionDelete\<rparr> else no_scheduling)
                     else None
          | Inr d \<Rightarrow> Some
              (if mld_version d = [] \<or> map_of (node_labels node) (GetWorkerPodVersionLabelName (mld_namespace d) (mld_name d)) = Some (mld_version d)
               then \<lparr>sd_action = actionAdd, sd_mld = Some d, sd_node = Some node\<rparr>
               else if map_of (node_labels node) (GetWorkerPodVersionLabelName (mld_namespace d) (mld_name d)) = None
               then no_scheduling\<lparr>sd_action := actionDelete\<rparr> else no_scheduling))
     | None \<Rightarrow> if n \<in> set currentNMCs then Some (no_scheduling\<lparr>sd_action := actionDelete\<rparr>) else None)"
proof -
  obtain acc left where r: "schedule_nodes lib modu nodes [] currentNMCs [] = Inr (acc, left, errs)"
    "sdMap = fold (\<lambda>n r. AList.update n (no_scheduling\<lparr>sd_action := actionDelete\<rparr>) r) left acc"
    using assms(1) by (auto simp: prepareSchedulingData_def and_then_Inr)
  note S = schedule_nodes_spec [OF r(1) assms(2), of n]
  show ?thesis
  proof (cases "find (\<lambda>x. node_name x = n) nodes")
    case None
    then have "n \<notin> node_name ` set nodes" by (auto simp: find_None_iff)
    with S None show ?thesis by (simp add: r(2) map_of_fold_update)
  next
    case (Some node)
    then have "node \<in> set nodes" and nm: "node_name node = n" by (auto simp: find_Some_iff)
    then have "n \<notin> set left" using S by auto
    with S Some nm show ?thesis
      by (auto simp: r(2) map_of_fold_update node_decision_def prepareNodeSchedulingData_def GetNodeWorkerPodVersionLabel_def
          Let_def split: sum.split option.split)
  qed
qed

theorem scheduling_decisions_witness:
  "\<exists>sdMap errs. prepareSchedulingData plain_library any_kernel [plain_node ''n1'' ''6.1.7+''] [''n2''] = Inr (sdMap, errs) \<and>
     map_of sdMap ''n2'' = Some (no_scheduling\<lparr>sd_action := actionDelete\<rparr>)"
proof -
  have "case prepareSchedulingData plain_library any_kernel [plain_node ''n1'' ''6.1.7+''] [''n2''] of Inl _ \<Rightarrow> False | Inr _ \<Rightarrow> True"
    by code_simp
  then obtain sdMap errs where r: "prepareSchedulingData plain_library any_kernel [plain_node ''n1'' ''6.1.7+''] [''n2''] = Inr (sdMap, errs)"
    by (auto split: sum.splits)
  from scheduling_decisions [OF r, of "''n2''"] r show ?thesis by (simp add: plain_node_def)
qed

lemma enableModuleOnNode_writes:
  assumes "c \<in> set (calls (enableModuleOnNode lib srv d node) h)" "is_write c"
  shows "(\<exists>m. s_mic srv h (mld_namespace d, mld_name d) = Inr m \<and> GetImageState m (mld_image d) = ImageExists) \<and>
    (\<exists>n n'. (c = Create_NMC n' \<and> n = new_nmc (node_name node) \<or> c = Patch_NMC n n') \<and>
       (\<forall>ns name. fst (GetModuleSpecEntry n' ns name) =
          (if (ns, name) = (mld_namespace d, mld_name d) then Some (spec_entry (d, config_of d)) else fst (GetModuleSpecEntry n ns name))) \<and>
       nmc_status n' = nmc_status n \<and>
       map_of (nmc_labels n') = (map_of (nmc_labels n))(ModuleConfiguredLabel (mld_namespace d) (mld_name d) \<mapsto> [],
          ModuleInUseLabel (mld_namespace d) (mld_name d) \<mapsto> []))"
proof -
  let ?q = "Get_MIC (mld_namespace d, mld_name d)"
  let ?wr = "do { e \<leftarrow> Client.CreateOrPatch srv (get_nmc srv (node_name node)) (new_nmc (node_name node)) (enable_in lib d node)
       Create_NMC Patch_NMC; State_Monad.return (errorf_opt ''failed to enable module in NMC'' e) }"
  let ?ok = "\<lambda>c. is_read c \<or> (\<exists>n n'. (c = Create_NMC n' \<and> n = new_nmc (node_name node) \<or> c = Patch_NMC n n') \<and> enable_in lib d node n = Inr n')"
  have em: "emits ?ok ?wr" by (intro emits_intros) auto
  have img: "\<exists>m. s_mic srv h (mld_namespace d, mld_name d) = Inr m \<and> GetImageState m (mld_image d) = ImageExists"
  proof (rule ccontr)
    assume n: "\<not> ?thesis"
    then have "snd (run_state (enableModuleOnNode lib srv d node) h) = h @ [?q]"
      by (cases "s_mic srv h (mld_namespace d, mld_name d)") (auto simp: enableModuleOnNode_def Mic.Get_def get_mic_def)
    with assms show False by (auto simp: calls_def)
  qed
  then have "run_state (enableModuleOnNode lib srv d node) h = run_state ?wr (h @ [?q])"
    by (auto simp: enableModuleOnNode_def Mic.Get_def get_mic_def)
  from calls_after [OF this em] assms have "c \<in> set (calls ?wr (h @ [?q]))" by auto
  from emits_calls [OF em this] assms(2) obtain n n' where
    n: "c = Create_NMC n' \<and> n = new_nmc (node_name node) \<or> c = Patch_NMC n n'" "enable_in lib d node n = Inr n'" by auto
  with img enable_in_spec [OF n(2)] show ?thesis by blast
qed

text \<open>
  C8: a module is put on a node only when its image exists there. Whatever enabling a module on a node writes
  is the node's NodeModulesConfig with exactly this module's entry replaced by the configuration of the kernel's
  data and its configured and in-use labels set, and it is written only when the image is recorded as existing.
\<close>

theorem module_enabled_only_with_image:
  assumes "c \<in> set (calls (enableModuleOnNode lib srv d node) h)" "is_write c"
  shows "(\<exists>m. s_mic srv h (mld_namespace d, mld_name d) = Inr m \<and> GetImageState m (mld_image d) = ImageExists) \<and>
    (\<exists>n n'. (c = Create_NMC n' \<and> n = new_nmc (node_name node) \<or> c = Patch_NMC n n') \<and>
       (\<forall>ns name. fst (GetModuleSpecEntry n' ns name) =
          (if (ns, name) = (mld_namespace d, mld_name d) then Some (spec_entry (d, config_of d)) else fst (GetModuleSpecEntry n ns name))) \<and>
       nmc_status n' = nmc_status n \<and>
       map_of (nmc_labels n') = (map_of (nmc_labels n))(ModuleConfiguredLabel (mld_namespace d) (mld_name d) \<mapsto> [],
          ModuleInUseLabel (mld_namespace d) (mld_name d) \<mapsto> []))"
  using assms by (rule enableModuleOnNode_writes)

theorem module_enabled_only_with_image_witness:
  "list_ex is_write (calls (enableModuleOnNode plain_library ready_cluster (projr (kernel_data plain_library any_kernel
      (plain_node ''n1'' ''6.1.7''))) (plain_node ''n1'' ''6.1.7'')) []) \<and>
   GetImageState image_ready (mld_image (projr (kernel_data plain_library any_kernel (plain_node ''n1'' ''6.1.7'')))) = ImageExists"
proof -
  let ?run = "calls (enableModuleOnNode plain_library ready_cluster (projr (kernel_data plain_library any_kernel
      (plain_node ''n1'' ''6.1.7''))) (plain_node ''n1'' ''6.1.7'')) []"
  have e: "list_ex is_write ?run" by code_simp
  then obtain c where "c \<in> set ?run" "is_write c" by (auto simp: list_ex_iff)
  from module_enabled_only_with_image [OF this] e show ?thesis by (simp add: ready_cluster_def)
qed

text \<open>
  C17: the finalizer of a deleted module is removed only when no node uses it. If reconciling a module that is
  being deleted patches the module, the patch takes away exactly the module's finalizer, and the NodeModulesConfigs
  with the module configured and with the module in use were listed, the latter with an empty answer.
\<close>

theorem finalizer_removed_only_when_unused:
  assumes del: "mod_deleting modu" and c: "Patch_Module m1 m2 \<in> set (calls (Module_Reconcile lib srv modu) h)"
  shows "m1 = modu \<and> m2 = modu\<lparr>mod_finalizers := filter (\<lambda>f. f \<noteq> ModuleFinalizer) (mod_finalizers modu)\<rparr> \<and>
    (\<exists>h'. s_nmcs srv h' [(ModuleInUseLabel (mod_namespace modu) (mod_name modu), [])] = Inr []) \<and>
    (\<exists>h'' ns. s_nmcs srv h'' [(ModuleConfiguredLabel (mod_namespace modu) (mod_name modu), [])] = Inr ns)"
proof -
  let ?conf = "[(ModuleConfiguredLabel (mod_namespace modu) (mod_name modu), [])]"
  let ?use = "[(ModuleInUseLabel (mod_namespace modu) (mod_name modu), [])]"
  let ?P = "\<lambda>c. \<forall>m1 m2. c = Patch_Module m1 m2 \<longrightarrow>
    m1 = modu \<and> m2 = modu\<lparr>mod_finalizers := filter (\<lambda>f. f \<noteq> ModuleFinalizer) (mod_finalizers modu)\<rparr> \<and>
    (\<exists>h'. s_nmcs srv h' ?use = Inr []) \<and> (\<exists>h'' ns. s_nmcs srv h'' ?conf = Inr ns)"
  have conf: "does ?P (\<lambda>r. \<exists>h. r = s_nmcs srv h ?conf) (list_nmcs srv ?conf)"
    and inuse: "does ?P (\<lambda>r. \<exists>h. r = s_nmcs srv h ?use) (list_nmcs srv ?use)"
    by (rule does_requests; simp)+
  have rem: "emits ?P (collect_errors (\<lambda>n. removeModuleFromNMC srv n (mod_namespace modu) (mod_name modu)) ns)" for ns
    by (intro emits_intros) simp_all
  have fin: "does ?P (\<lambda>_. True) (finalizeModule srv modu)"
    unfolding finalizeModule_def Let_def
    by (rule does_bind [OF conf], intro does_intros TrueI, rule does_bind [OF emits_does [OF rem]], intro does_intros TrueI,
        rule does_bind [OF inuse], intro does_intros TrueI emits_does emits_requests)
      (auto simp: RemoveFinalizer_def, metis+)
  have "emits ?P (tryRemovingLabel srv (mod_namespace modu))"
    unfolding tryRemovingLabel_def by (intro emits_intros) simp_all
  then have "emits ?P (Module_Reconcile lib srv modu)"
    unfolding Module_Reconcile_def if_P [OF del] by (intro emits_intros does_emits [OF fin]) simp_all
  from emits_calls [OF this c] show ?thesis by simp
qed

theorem finalizer_removed_only_when_unused_witness:
  "\<exists>m1 m2. Patch_Module m1 m2 \<in> set (calls (Module_Reconcile plain_library
       (empty_cluster\<lparr>s_namespace := (\<lambda>h n. Inr \<lparr>nso_name = n, nso_labels = []\<rparr>)\<rparr>)
       (any_kernel\<lparr>mod_deleting := True, mod_finalizers := [ModuleFinalizer]\<rparr>)) []) \<and> mod_finalizers m2 = []"
proof -
  let ?m = "any_kernel\<lparr>mod_deleting := True, mod_finalizers := [ModuleFinalizer]\<rparr>"
  let ?run = "calls (Module_Reconcile plain_library (empty_cluster\<lparr>s_namespace := (\<lambda>h n. Inr \<lparr>nso_name = n, nso_labels = []\<rparr>)\<rparr>) ?m) []"
  have "list_ex (\<lambda>c. case c of Patch_Module m1 m2 \<Rightarrow> True | _ \<Rightarrow> False) ?run" by code_simp
  then obtain c where "c \<in> set ?run" "case c of Patch_Module m1 m2 \<Rightarrow> True | _ \<Rightarrow> False" by (auto simp: list_ex_iff)
  then obtain m1 m2 where c: "Patch_Module m1 m2 \<in> set ?run" by - (cases c, auto)
  from finalizer_removed_only_when_unused [OF _ c] have "mod_finalizers m2 = []" by simp
  with c show ?thesis by blast
qed

text \<open>
  The status of a module counts nodes: with fewer than \<^verbatim>\<open>2^31\<close> nodes and objects the numbers are the
  counts themselves, and no more nodes are available than desired.
\<close>

theorem module_status_counts:
  assumes "s_nmcs srv h [(ModuleConfiguredLabel (mod_namespace modu) (mod_name modu), [])] = Inr nmcs"
    "length nmcs < 2 ^ 31" "length nodes < 2 ^ 31"
  shows "let st = mst_loader (mod_status (snd (fst (run_state (updateModuleLoaderStatus srv modu nodes) h)))) in
    dss_matching st = int (length nodes) \<and> dss_desired st = int (length nmcs) \<and>
    dss_available st = int (length (filter (module_available modu) nmcs)) \<and> 0 \<le> dss_available st \<and> dss_available st \<le> dss_desired st"
proof -
  have i: "go_int32 (int n) = int n" if "n < 2 ^ 31" for n using that by (intro go_int32_id) auto
  have "length (filter (module_available modu) nmcs) \<le> length nmcs" by (rule length_filter_le)
  moreover from this assms(2) have "length (filter (module_available modu) nmcs) < 2 ^ 31" by (rule le_less_trans)
  ultimately show ?thesis using assms
    by (simp add: updateModuleLoaderStatus_def getNMCsForModule_def list_nmcs_def Let_def i)
qed

text \<open>
  A missing ModuleImagesConfig is reported as an error: \<open>Mic.Get\<close> keeps the cause only as text, so the test for
  not-found in the status update never succeeds.
\<close>

theorem missing_mic_is_an_error:
  assumes "s_mic srv h (mod_namespace modu, mod_name modu) = Inl e"
  shows "fst (fst (run_state (updateImageRebuildTriggerGenerationStatus srv modu) h)) \<noteq> None"
  using assms by (simp add: updateImageRebuildTriggerGenerationStatus_def Mic.Get_def get_mic_def IsNotFound_def)

text \<open>Taking a module off a node that has no NodeModulesConfig creates one, without an owner.\<close>

theorem disable_creates_unowned_nmc:
  assumes "s_nmc srv h nodeName = Inl (ApiErr NotFound)"
  shows "writes (disableModuleOnNode srv ns name nodeName) h = [Create_NMC (new_nmc nodeName)] \<and> nmc_owners (new_nmc nodeName) = []"
  using assms
  by (simp add: disableModuleOnNode_def removeModuleFromNMC_def Client.CreateOrPatch_def get_nmc_def do_write_def writes_def
      calls_def IsNotFound_def new_nmc_def disable_in_def RemoveModuleConfig_def GetModuleSpecEntry_def RemoveLabel_def Let_def)

end
