(* ===== verification/Version_Labels.thy ===== *)
theory Version_Labels
  imports Client
begin

text \<open>
  Ordered upgrades, \<^verbatim>\<open>internal/controllers/module_version_label_action_table.go\<close> and
  \<^verbatim>\<open>internal/controllers/node_label_module_version_reconciler.go\<close>: the user writes the version of a
  module into a label of the node, and the controller moves the worker-pod and the schedule-pod version labels
  after it, one label per module and reconciliation, so that the device plugin leaves before the old module is
  unloaded and comes back after the new one is loaded. \<open>wanted_change\<close> is the specification of the table on
  the three label values, \<open>step_view\<close> of one reconciliation of one module.
\<close>

section \<open>The action table\<close>

datatype label_state = labelMissing | labelPresent | labelDifferent

datatype label_op = addAction | deleteAction | noneAction

record labelActionKey =
  lak_module :: label_state
  lak_workerPod :: label_state
  lak_schedulePod :: label_state

text \<open>The entries without a label name are those without an action; the name is never asked for.\<close>

record labelAction =
  la_getLabelName :: "(string \<Rightarrow> string \<Rightarrow> string) option"
  la_action :: label_op

definition labelActionTable :: "(labelActionKey \<times> labelAction) list" where
  "labelActionTable = [
     (\<lparr>lak_module = labelMissing, lak_workerPod = labelMissing, lak_schedulePod = labelMissing\<rparr>,
      \<lparr>la_getLabelName = None, la_action = noneAction\<rparr>),
     (\<lparr>lak_module = labelMissing, lak_workerPod = labelPresent, lak_schedulePod = labelPresent\<rparr>,
      \<lparr>la_getLabelName = Some GetSchedulePodVersionLabelName, la_action = deleteAction\<rparr>),
     (\<lparr>lak_module = labelMissing, lak_workerPod = labelPresent, lak_schedulePod = labelMissing\<rparr>,
      \<lparr>la_getLabelName = Some GetWorkerPodVersionLabelName, la_action = deleteAction\<rparr>),
     (\<lparr>lak_module = labelPresent, lak_workerPod = labelMissing, lak_schedulePod = labelMissing\<rparr>,
      \<lparr>la_getLabelName = Some GetWorkerPodVersionLabelName, la_action = addAction\<rparr>),
     (\<lparr>lak_module = labelPresent, lak_workerPod = labelPresent, lak_schedulePod = labelMissing\<rparr>,
      \<lparr>la_getLabelName = Some GetSchedulePodVersionLabelName, la_action = addAction\<rparr>),
     (\<lparr>lak_module = labelPresent, lak_workerPod = labelPresent, lak_schedulePod = labelPresent\<rparr>,
      \<lparr>la_getLabelName = None, la_action = noneAction\<rparr>),
     (\<lparr>lak_module = labelPresent, lak_workerPod = labelDifferent, lak_schedulePod = labelDifferent\<rparr>,
      \<lparr>la_getLabelName = Some GetSchedulePodVersionLabelName, la_action = deleteAction\<rparr>),
     (\<lparr>lak_module = labelPresent, lak_workerPod = labelDifferent, lak_schedulePod = labelMissing\<rparr>,
      \<lparr>la_getLabelName = Some GetWorkerPodVersionLabelName, la_action = deleteAction\<rparr>)]"

section \<open>The labels of a node, per module\<close>

record modulesVersionLabels =
  mvl_name :: string
  mvl_namespace :: string
  mvl_module :: string
  mvl_worker :: string
  mvl_schedule :: string

definition getModuleVersionLabelsState :: "modulesVersionLabels \<Rightarrow> labelActionKey" where
  "getModuleVersionLabelsState m =
     \<lparr>lak_module = (if mvl_module m = [] then labelMissing else labelPresent),
      lak_workerPod =
        (if mvl_worker m = [] then labelMissing
         else if mvl_module m \<noteq> [] \<and> mvl_worker m \<noteq> mvl_module m then labelDifferent else labelPresent),
      lak_schedulePod =
        (if mvl_schedule m = [] then labelMissing
         else if mvl_module m \<noteq> [] \<and> mvl_schedule m \<noteq> mvl_module m then labelDifferent else labelPresent)\<rparr>"

definition getLabelAndAction :: "modulesVersionLabels \<Rightarrow> string \<times> string \<times> label_op" where
  "getLabelAndAction m =
     (case map_of labelActionTable (getModuleVersionLabelsState m) of
        None \<Rightarrow> ([], [], noneAction)
      | Some la \<Rightarrow>
          (case la_getLabelName la of
             None \<Rightarrow> ([], [], noneAction)
           | Some name \<Rightarrow>
               (case la_action la of
                  noneAction \<Rightarrow> ([], [], noneAction)
                | deleteAction \<Rightarrow> (name (mvl_namespace m) (mvl_name m), [], deleteAction)
                | addAction \<Rightarrow> (name (mvl_namespace m) (mvl_name m), mvl_module m, addAction))))"

text \<open>One iteration of the loop over the labels of the node; a label that cannot be read is skipped.\<close>

definition version_label_step ::
  "string \<times> string \<Rightarrow> (string \<times> modulesVersionLabels) list \<Rightarrow> (string \<times> modulesVersionLabels) list" where
  "version_label_step kv labelsPerModule =
     (case kv of (key, value) \<Rightarrow>
        if \<not> IsVersionLabel key then labelsPerModule
        else case GetNamespaceNameFromVersionLabel key of
          Inl _ \<Rightarrow> labelsPerModule
        | Inr (namespace, name) \<Rightarrow>
            (let mapKey = namespace @ ''-'' @ name;
                 m = (case map_of labelsPerModule mapKey of
                        None \<Rightarrow> \<lparr>mvl_name = name, mvl_namespace = namespace, mvl_module = [], mvl_worker = [], mvl_schedule = []\<rparr>
                      | Some m \<Rightarrow> m);
                 m' = (if IsModuleVersionLabel key then m\<lparr>mvl_module := value\<rparr>
                       else if IsWorkerPodVersionLabel key then m\<lparr>mvl_worker := value\<rparr>
                       else if IsSchedulePodVersionLabel key then m\<lparr>mvl_schedule := value\<rparr>
                       else m)
             in AList.update mapKey m' labelsPerModule))"

definition getLabelsPerModules :: "labels \<Rightarrow> (string \<times> modulesVersionLabels) list" where
  "getLabelsPerModules nodeLabels = fold version_label_step nodeLabels []"

definition schedule_pods_query :: "string \<Rightarrow> pod_query" where
  "schedule_pods_query nodeName = \<lparr>pq_namespace = None, pq_match = [], pq_has = [ModuleNameLabel], pq_node = Some nodeName,
     pq_in = [(DaemonSetRole, [DevicePluginRoleLabelValue, DRARoleLabelValue])]\<rparr>"

definition getSchedulePods :: "library \<Rightarrow> server \<Rightarrow> string \<Rightarrow> (go_err + pod list) cio" where
  "getSchedulePods lib srv nodeName =
     (case l_requirement_in lib DaemonSetRole [DevicePluginRoleLabelValue, DRARoleLabelValue] of
        Some e \<Rightarrow> State_Monad.return (Inl (Errorf ''failed to create label requirement'' e))
      | None \<Rightarrow> do {
          r \<leftarrow> list_pods srv (schedule_pods_query nodeName);
          State_Monad.return (map_sum (Errorf ''failed to get list of schedule pods on node'') id r)
        })"

definition getLoadedKernelModules :: "labels \<Rightarrow> nsn list" where
  "getLoadedKernelModules nodeLabels =
     List.map_filter (\<lambda>(label, v). case IsKernelModuleReadyNodeLabel label of
        (isReadyLabel, namespace, name) \<Rightarrow> if isReadyLabel then Some (namespace, name) else None) nodeLabels"

section \<open>Reconcile\<close>

record reconcileLabelsResult =
  rl_add :: labels
  rl_delete :: "string list"
  rl_requeue :: bool

definition verifyLabelDeleteValidity :: "string \<Rightarrow> string \<Rightarrow> pod list \<Rightarrow> bool" where
  "verifyLabelDeleteValidity name namespace pods =
     list_all (\<lambda>p. \<not> (pod_namespace p = namespace \<and> label_of (pod_labels p) ModuleNameLabel = name)) pods"

definition verifyLabelAddValidity :: "string \<Rightarrow> string \<Rightarrow> nsn list \<Rightarrow> bool" where
  "verifyLabelAddValidity name namespace loadedKernelModules = ((namespace, name) \<notin> set loadedKernelModules)"

definition reconcile_module ::
  "pod list \<Rightarrow> nsn list \<Rightarrow> modulesVersionLabels \<Rightarrow> reconcileLabelsResult \<Rightarrow> reconcileLabelsResult" where
  "reconcile_module schedulePods loadedKernelModules m res =
     (case getLabelAndAction m of (label, labelValue, act) \<Rightarrow>
        case act of
          deleteAction \<Rightarrow>
            if IsWorkerPodVersionLabel label \<and> \<not> verifyLabelDeleteValidity (mvl_name m) (mvl_namespace m) schedulePods
            then res\<lparr>rl_requeue := True\<rparr>
            else res\<lparr>rl_delete := rl_delete res @ [label]\<rparr>
        | addAction \<Rightarrow>
            if IsWorkerPodVersionLabel label \<and> \<not> verifyLabelAddValidity (mvl_name m) (mvl_namespace m) loadedKernelModules
            then res\<lparr>rl_requeue := True\<rparr>
            else res\<lparr>rl_add := AList.update label labelValue (rl_add res)\<rparr>
        | noneAction \<Rightarrow> res)"

definition reconcileLabels ::
  "(string \<times> modulesVersionLabels) list \<Rightarrow> pod list \<Rightarrow> nsn list \<Rightarrow> reconcileLabelsResult" where
  "reconcileLabels modulesLabels schedulePods loadedKernelModules =
     fold (reconcile_module schedulePods loadedKernelModules) (map snd modulesLabels)
       \<lparr>rl_add = [], rl_delete = [], rl_requeue = False\<rparr>"

text \<open>The labels of the node after the update.\<close>

definition apply_labels :: "reconcileLabelsResult \<Rightarrow> labels \<Rightarrow> labels" where
  "apply_labels res ls =
     fold AList.delete (rl_delete res) (fold (\<lambda>(label, labelValue). AList.update label labelValue) (rl_add res) ls)"

definition updateNodeLabels :: "server \<Rightarrow> string \<Rightarrow> reconcileLabelsResult \<Rightarrow> (go_err option) cio" where
  "updateNodeLabels srv nodeName res = do {
     r \<leftarrow> get_node srv nodeName;
     case r of
       Inl e \<Rightarrow> State_Monad.return (Some (Errorf ''could not get node'' e))
     | Inr node \<Rightarrow> do_write srv (Patch_Node node (node\<lparr>node_labels := apply_labels res (node_labels node)\<rparr>))
   }"

text \<open>The result is the error and whether the request is queued again.\<close>

definition Version_Reconcile :: "library \<Rightarrow> server \<Rightarrow> node \<Rightarrow> (go_err option \<times> bool) cio" where
  "Version_Reconcile lib srv node = do {
     r \<leftarrow> getSchedulePods lib srv (node_name node);
     case r of
       Inl e \<Rightarrow> State_Monad.return (Some (Errorf ''could not get schedule pods for the node'' e), False)
     | Inr schedulePods \<Rightarrow>
         (let res = reconcileLabels (getLabelsPerModules (node_labels node)) schedulePods
                      (getLoadedKernelModules (node_labels node))
          in do {
            e \<leftarrow> updateNodeLabels srv (node_name node) res;
            State_Monad.return
              (case e of
                 Some er \<Rightarrow> (Some (Errorf ''could not label node with added/deleted labels'' er), False)
               | None \<Rightarrow> (None, rl_requeue res))
          })
   }"

section \<open>Specification\<close>

type_synonym version_view = "string \<times> string \<times> string"  \<comment> \<open>module, worker-pod and schedule-pod version\<close>

datatype change = AddWorker | AddSchedule | DelWorker | DelSchedule | NoChange

definition wanted_change :: "version_view \<Rightarrow> change" where
  "wanted_change v = (case v of (m, w, s) \<Rightarrow>
     if m = [] then (if w = [] then NoChange else if s = [] then DelWorker else DelSchedule)
     else if w = [] then (if s = [] then AddWorker else NoChange)
     else if w = m then (if s = [] then AddSchedule else NoChange)
     else if s = [] then DelWorker else if s = m then NoChange else DelSchedule)"

definition module_view :: "labels \<Rightarrow> nsn \<Rightarrow> version_view" where
  "module_view ls i = (case i of (ns, name) \<Rightarrow>
     (label_of ls (GetModuleVersionLabelName ns name), label_of ls (GetWorkerPodVersionLabelName ns name),
      label_of ls (GetSchedulePodVersionLabelName ns name)))"

text \<open>The worker label waits for the schedule pods to leave, and for the old module to be unloaded.\<close>

definition held_back :: "pod list \<Rightarrow> nsn list \<Rightarrow> nsn \<Rightarrow> version_view \<Rightarrow> bool" where
  "held_back pods loaded i v =
     (case wanted_change v of
        AddWorker \<Rightarrow> \<not> verifyLabelAddValidity (snd i) (fst i) loaded
      | DelWorker \<Rightarrow> \<not> verifyLabelDeleteValidity (snd i) (fst i) pods
      | _ \<Rightarrow> False)"

definition step_view :: "pod list \<Rightarrow> nsn list \<Rightarrow> nsn \<Rightarrow> version_view \<Rightarrow> version_view" where
  "step_view pods loaded i v = (case v of (m, w, s) \<Rightarrow>
     if held_back pods loaded i v then v
     else case wanted_change v of
        AddWorker \<Rightarrow> (m, m, s)
      | AddSchedule \<Rightarrow> (m, w, m)
      | DelWorker \<Rightarrow> (m, [], s)
      | DelSchedule \<Rightarrow> (m, w, [])
      | NoChange \<Rightarrow> v)"

text \<open>
  The labels of a node are readable for a set of modules when their names hold no dot, no two of them share the
  key of the controller's map, and every version label is the label of one of them.
\<close>

definition dotless :: "nsn \<Rightarrow> bool" where
  "dotless i \<longleftrightarrow> CHR ''.'' \<notin> set (fst i) \<and> CHR ''.'' \<notin> set (snd i)"

definition map_key :: "nsn \<Rightarrow> string" where
  "map_key i = fst i @ ''-'' @ snd i"

definition version_names :: "nsn \<Rightarrow> string list" where
  "version_names i = (case i of (ns, name) \<Rightarrow>
     [GetModuleVersionLabelName ns name, GetWorkerPodVersionLabelName ns name, GetSchedulePodVersionLabelName ns name])"

definition readable :: "nsn set \<Rightarrow> labels \<Rightarrow> bool" where
  "readable U ls \<longleftrightarrow> (\<forall>i\<in>U. dotless i) \<and> inj_on map_key U \<and> distinct (map fst ls) \<and>
     (\<forall>k\<in>fst ` set ls. IsVersionLabel k \<longrightarrow> (\<exists>i\<in>U. k \<in> set (version_names i)))"

section \<open>Lemmas\<close>

lemmas version_kind_defs = IsVersionLabel_def IsModuleVersionLabel_def IsWorkerPodVersionLabel_def IsSchedulePodVersionLabel_def

lemma version_name_kinds [simp]:
  "\<not> IsWorkerPodVersionLabel (GetModuleVersionLabelName ns n)" "\<not> IsSchedulePodVersionLabel (GetModuleVersionLabelName ns n)"
  "\<not> IsModuleVersionLabel (GetWorkerPodVersionLabelName ns n)" "\<not> IsSchedulePodVersionLabel (GetWorkerPodVersionLabelName ns n)"
  "\<not> IsModuleVersionLabel (GetSchedulePodVersionLabelName ns n)" "\<not> IsWorkerPodVersionLabel (GetSchedulePodVersionLabelName ns n)"
  using version_prefix_distinct version_label_kinds unfolding version_kind_defs by blast+

lemma version_names_version: "k \<in> set (version_names i) \<Longrightarrow> IsVersionLabel k"
  by (cases i) (auto simp: version_names_def IsVersionLabel_def)

lemma version_names_decode:
  "dotless i \<Longrightarrow> k \<in> set (version_names i) \<Longrightarrow> GetNamespaceNameFromVersionLabel k = Inr i"
  using version_label_decode [of "fst i" "snd i"]
  by (cases i) (auto simp: version_names_def dotless_def version_label_names)

lemma version_names_disjoint:
  "dotless i \<Longrightarrow> dotless j \<Longrightarrow> k \<in> set (version_names i) \<Longrightarrow> k \<in> set (version_names j) \<Longrightarrow> i = j"
  using version_names_decode by (metis sum.inject(2))

lemma label_of_snoc:
  "k \<notin> fst ` set ls \<Longrightarrow> label_of (ls @ [(k, v)]) lab = (if lab = k then v else label_of ls lab)"
proof -
  assume "k \<notin> fst ` set ls"
  then have "map_of ls k = None" by (simp add: map_of_eq_None_iff)
  then show ?thesis by (auto simp: lookup_default_def map_add_def split: option.splits)
qed

lemma label_of_delete [simp]: "label_of (AList.delete k ls) k' = (if k' = k then [] else label_of ls k')"
  by (simp add: lookup_default_def delete_conv')

text \<open>The table implements the specification.\<close>

lemma getLabelAndAction_spec:
  "getLabelAndAction m =
     (case wanted_change (mvl_module m, mvl_worker m, mvl_schedule m) of
        AddWorker \<Rightarrow> (GetWorkerPodVersionLabelName (mvl_namespace m) (mvl_name m), mvl_module m, addAction)
      | AddSchedule \<Rightarrow> (GetSchedulePodVersionLabelName (mvl_namespace m) (mvl_name m), mvl_module m, addAction)
      | DelWorker \<Rightarrow> (GetWorkerPodVersionLabelName (mvl_namespace m) (mvl_name m), [], deleteAction)
      | DelSchedule \<Rightarrow> (GetSchedulePodVersionLabelName (mvl_namespace m) (mvl_name m), [], deleteAction)
      | NoChange \<Rightarrow> ([], [], noneAction))"
  by (simp add: getLabelAndAction_def labelActionTable_def getModuleVersionLabelsState_def wanted_change_def)

subsection \<open>Collecting the labels\<close>

definition gathered :: "labels \<Rightarrow> nsn \<Rightarrow> modulesVersionLabels" where
  "gathered ls i = (case module_view ls i of (m, w, s) \<Rightarrow>
     \<lparr>mvl_name = snd i, mvl_namespace = fst i, mvl_module = m, mvl_worker = w, mvl_schedule = s\<rparr>)"

definition labelled :: "labels \<Rightarrow> nsn \<Rightarrow> bool" where
  "labelled ls i = list_ex (\<lambda>k. has_key ls k) (version_names i)"

lemma module_view_unlabelled: "\<not> labelled ls i \<Longrightarrow> module_view ls i = ([], [], [])"
  by (cases i) (simp add: labelled_def module_view_def version_names_def has_key_def lookup_default_def)

lemma labelled_snoc: "labelled (ls @ [(k, v)]) i \<longleftrightarrow> labelled ls i \<or> k \<in> set (version_names i)"
  by (auto simp: labelled_def list_ex_iff has_key_dom)

lemma gathered_snoc_other:
  "k \<notin> set (version_names i) \<Longrightarrow> gathered (ls @ [(k, v)]) i = gathered ls i"
  by (cases i)
    (auto simp: gathered_def module_view_def version_names_def lookup_default_def map_add_def split: option.splits)

lemma version_label_step_own:
  assumes "dotless i" "k \<in> set (version_names i)" "k \<notin> fst ` set ls"
    "map_of acc (map_key i) = (if labelled ls i then Some (gathered ls i) else None)"
  shows "version_label_step (k, v) acc = AList.update (map_key i) (gathered (ls @ [(k, v)]) i) acc"
proof -
  obtain ns name where i: "i = (ns, name)" by force
  have m: "(case map_of acc (map_key i) of
      None \<Rightarrow> \<lparr>mvl_name = name, mvl_namespace = ns, mvl_module = [], mvl_worker = [], mvl_schedule = []\<rparr> | Some m \<Rightarrow> m) = gathered ls i"
    using assms(4) module_view_unlabelled [of ls i] by (simp add: gathered_def i)
  show ?thesis using m version_names_decode [OF assms(1,2)] version_names_version [OF assms(2)] assms(2)
    by (auto simp: version_label_step_def map_key_def i version_names_def gathered_def module_view_def Let_def
        label_of_snoc [OF assms(3)] version_labels_differ [symmetric])
qed

lemma version_label_step_other: "\<not> IsVersionLabel k \<Longrightarrow> version_label_step (k, v) acc = acc"
  by (simp add: version_label_step_def)

lemma getLabelsPerModules_spec:
  assumes "readable U ls"
  shows "(\<forall>i\<in>U. map_of (getLabelsPerModules ls) (map_key i) = (if labelled ls i then Some (gathered ls i) else None)) \<and>
    fst ` set (getLabelsPerModules ls) \<subseteq> map_key ` U \<and> distinct (map fst (getLabelsPerModules ls))"
  using assms
proof (induction ls rule: rev_induct)
  case Nil
  then show ?case by (simp add: getLabelsPerModules_def labelled_def has_key_def list_ex_iff)
next
  case (snoc x ls)
  obtain k v where x: "x = (k, v)" by force
  let ?acc = "getLabelsPerModules ls"
  from snoc.prems x have r: "readable U ls" and k: "k \<notin> fst ` set ls" by (auto simp: readable_def)
  note IH = snoc.IH [OF r]
  have f: "getLabelsPerModules (ls @ [x]) = version_label_step (k, v) ?acc" by (simp add: getLabelsPerModules_def x)
  show ?case
  proof (cases "IsVersionLabel k")
    case False
    then have "k \<notin> set (version_names i)" for i using version_names_version by blast
    with IH False show ?thesis
      by (simp add: f version_label_step_other) (simp add: x labelled_snoc gathered_snoc_other)
  next
    case True
    with snoc.prems x obtain j where j: "j \<in> U" "k \<in> set (version_names j)" by (auto simp: readable_def)
    with r have d: "dotless j" by (auto simp: readable_def)
    have step: "version_label_step (k, v) ?acc = AList.update (map_key j) (gathered (ls @ [(k, v)]) j) ?acc"
      using IH j by (intro version_label_step_own [OF d j(2) k]) blast
    have "map_of (version_label_step (k, v) ?acc) (map_key i) =
        (if labelled (ls @ [(k, v)]) i then Some (gathered (ls @ [(k, v)]) i) else None)" if i: "i \<in> U" for i
    proof (cases "i = j")
      case True
      then show ?thesis using j by (simp add: step update_conv' labelled_snoc)
    next
      case False
      then have "map_key i \<noteq> map_key j" using r i j(1) by (auto simp: readable_def inj_on_def)
      moreover have "k \<notin> set (version_names i)" using version_names_disjoint [OF d _ j(2), of i] r i False by (auto simp: readable_def)
      ultimately show ?thesis using IH i by (simp add: step update_conv' labelled_snoc gathered_snoc_other)
    qed
    moreover have "fst ` set (version_label_step (k, v) ?acc) \<subseteq> map_key ` U" using IH j(1) by (simp only: step dom_update) simp
    moreover have "distinct (map fst (version_label_step (k, v) ?acc))" using IH by (simp add: step distinct_update)
    ultimately show ?thesis by (simp add: f) (simp add: x)
  qed
qed

subsection \<open>Deciding the changes\<close>

abbreviation id_of :: "modulesVersionLabels \<Rightarrow> nsn" where
  "id_of m \<equiv> (mvl_namespace m, mvl_name m)"

lemma id_gathered [simp]: "id_of (gathered ls i) = i"
  by (simp add: gathered_def split: prod.split)

lemma gathered_view [simp]:
  "(mvl_module (gathered ls i), mvl_worker (gathered ls i), mvl_schedule (gathered ls i)) = module_view ls i"
  by (simp add: gathered_def split: prod.split)

lemma action_label:
  "getLabelAndAction m = (label, v, act) \<Longrightarrow> act \<noteq> noneAction \<Longrightarrow> label \<in> set (version_names (id_of m))"
  by (auto simp: getLabelAndAction_spec version_names_def split: change.splits)

lemma reconcile_module_other:
  assumes "dotless i" "dotless (id_of m)" "id_of m \<noteq> i" "k \<in> set (version_names i)"
  shows "map_of (rl_add (reconcile_module pods loaded m res)) k = map_of (rl_add res) k"
    "k \<in> set (rl_delete (reconcile_module pods loaded m res)) \<longleftrightarrow> k \<in> set (rl_delete res)"
proof -
  obtain label v act where a: "getLabelAndAction m = (label, v, act)" by (metis prod_cases3)
  have "label \<noteq> k" if "act \<noteq> noneAction"
    using action_label [OF a that] version_names_disjoint [OF assms(1,2,4)] assms(3) by blast
  then show "map_of (rl_add (reconcile_module pods loaded m res)) k = map_of (rl_add res) k"
    "k \<in> set (rl_delete (reconcile_module pods loaded m res)) \<longleftrightarrow> k \<in> set (rl_delete res)"
    by (cases act; auto simp: reconcile_module_def a update_conv')+
qed

lemma reconcile_fold_other:
  assumes "dotless i" "k \<in> set (version_names i)" "\<forall>m\<in>set ms. dotless (id_of m) \<and> id_of m \<noteq> i"
  shows "map_of (rl_add (fold (reconcile_module pods loaded) ms res)) k = map_of (rl_add res) k \<and>
    (k \<in> set (rl_delete (fold (reconcile_module pods loaded) ms res)) \<longleftrightarrow> k \<in> set (rl_delete res))"
  using assms(3) by (induction ms arbitrary: res) (simp_all add: reconcile_module_other [OF assms(1) _ _ assms(2)])

lemma reconcile_module_distinct:
  "distinct (map fst (rl_add res)) \<Longrightarrow> distinct (map fst (rl_add (reconcile_module pods loaded m res)))"
  by (auto simp: reconcile_module_def distinct_update split: prod.split label_op.split)

lemma reconcile_fold_distinct:
  "distinct (map fst (rl_add res)) \<Longrightarrow> distinct (map fst (rl_add (fold (reconcile_module pods loaded) ms res)))"
  by (induction ms arbitrary: res) (simp_all add: reconcile_module_distinct)

lemma reconcile_requeue:
  "rl_requeue (fold (reconcile_module pods loaded) ms res) \<longleftrightarrow> rl_requeue res \<or>
     (\<exists>m\<in>set ms. held_back pods loaded (id_of m) (mvl_module m, mvl_worker m, mvl_schedule m))"
  by (induction ms arbitrary: res)
    (auto simp: reconcile_module_def getLabelAndAction_spec held_back_def split: change.splits)

lemma map_of_apply_labels:
  assumes "distinct (map fst (rl_add res))"
  shows "map_of (apply_labels res ls) k =
    (if k \<in> set (rl_delete res) then None else case map_of (rl_add res) k of Some v \<Rightarrow> Some v | None \<Rightarrow> map_of ls k)"
proof -
  have add: "map_of (fold (\<lambda>(label, v). AList.update label v) xs ls) = map_of ls ++ map_of xs"
    if "distinct (map fst xs)" for xs :: labels and ls
    using that
  proof (induction xs arbitrary: ls)
    case (Cons x xs)
    then show ?case
      by (cases x) (auto simp: update_conv' map_add_def fun_eq_iff map_of_eq_None_iff image_iff split: option.splits)
  qed simp
  have del: "map_of (fold AList.delete ds ls) k = (if k \<in> set ds then None else map_of ls k)" for ds and ls :: labels
    by (induction ds arbitrary: ls) (auto simp: delete_conv')
  show ?thesis by (simp add: apply_labels_def add [OF assms] del map_add_def)
qed

text \<open>The change of one module, from an empty result.\<close>

definition no_result :: reconcileLabelsResult where
  "no_result = \<lparr>rl_add = [], rl_delete = [], rl_requeue = False\<rparr>"

lemma reconcile_module_own:
  assumes "map_of (rl_add res) k = None" "k \<notin> set (rl_delete res)" "k \<in> set (version_names (id_of m))"
    "module_view ls (id_of m) = (mvl_module m, mvl_worker m, mvl_schedule m)"
  shows "(if k \<in> set (rl_delete (reconcile_module pods loaded m res)) then []
     else case map_of (rl_add (reconcile_module pods loaded m res)) k of Some v \<Rightarrow> v | None \<Rightarrow> label_of ls k) =
    (case step_view pods loaded (id_of m) (module_view ls (id_of m)) of (mo, w, s) \<Rightarrow>
       if IsModuleVersionLabel k then mo else if IsWorkerPodVersionLabel k then w else s)"
  using assms
  by (auto simp: reconcile_module_def getLabelAndAction_spec step_view_def held_back_def version_names_def update_conv'
      module_view_def version_labels_differ [symmetric] split: change.splits)

lemma readable_modules:
  assumes "readable U ls" "m \<in> set (map snd (getLabelsPerModules ls))"
  shows "\<exists>i\<in>U. labelled ls i \<and> m = gathered ls i"
proof -
  note S = getLabelsPerModules_spec [OF assms(1)]
  from assms(2) obtain k where k: "(k, m) \<in> set (getLabelsPerModules ls)" by auto
  with S obtain i where i: "i \<in> U" "k = map_key i" by force
  from k S have "map_of (getLabelsPerModules ls) (map_key i) = Some m" by (simp add: i)
  with S i have "labelled ls i" "m = gathered ls i" by (auto split: if_splits)
  with i show ?thesis by blast
qed

lemma readable_distinct_ids:
  assumes "readable U ls"
  shows "distinct (map id_of (map snd (getLabelsPerModules ls)))"
proof -
  have eq: "map fst (getLabelsPerModules ls) = map map_key (map id_of (map snd (getLabelsPerModules ls)))"
  proof (rule nth_equalityI; simp)
    fix n assume n: "n < length (getLabelsPerModules ls)"
    obtain k m where km: "getLabelsPerModules ls ! n = (k, m)" by force
    with n have mem: "(k, m) \<in> set (getLabelsPerModules ls)" by (metis nth_mem)
    note S = getLabelsPerModules_spec [OF assms]
    from S mem obtain i where i: "i \<in> U" "k = map_key i" by force
    from mem S have "map_of (getLabelsPerModules ls) (map_key i) = Some m" by (simp add: i)
    with S i have "m = gathered ls i" by (auto split: if_splits)
    then show "fst (getLabelsPerModules ls ! n) = map_key (id_of (snd (getLabelsPerModules ls ! n)))" using i km by simp
  qed
  have "distinct (map fst (getLabelsPerModules ls))" using getLabelsPerModules_spec [OF assms] by blast
  then have "distinct (map map_key (map id_of (map snd (getLabelsPerModules ls))))" by (simp only: eq)
  then show ?thesis by (rule distinct_map [THEN iffD1, THEN conjunct1])
qed


text \<open>The labels of every module after one reconciliation.\<close>

lemma module_view_by_kind:
  "module_view ls i = (mo, w, s) \<longleftrightarrow>
     list_all (\<lambda>k. label_of ls k = (if IsModuleVersionLabel k then mo else if IsWorkerPodVersionLabel k then w else s)) (version_names i)"
  by (cases i) (auto simp: module_view_def version_names_def)

abbreviation reconciled :: "pod list \<Rightarrow> nsn list \<Rightarrow> labels \<Rightarrow> labels" where
  "reconciled pods loaded ls \<equiv> apply_labels (reconcileLabels (getLabelsPerModules ls) pods loaded) ls"

lemma module_view_reconciled:
  assumes r: "readable U ls" and i: "i \<in> U"
  shows "module_view (reconciled pods loaded ls) i = step_view pods loaded i (module_view ls i)"
proof -
  let ?ms = "map snd (getLabelsPerModules ls)"
  let ?res = "reconcileLabels (getLabelsPerModules ls) pods loaded"
  have d: "dotless i" and dm: "\<forall>m\<in>set ?ms. dotless (id_of m)"
    using r i readable_modules [OF r] unfolding readable_def by (blast, metis id_gathered)
  have dist: "distinct (map fst (rl_add ?res))"
    unfolding reconcileLabels_def by (rule reconcile_fold_distinct) simp
  have lab: "label_of (apply_labels ?res ls) k =
      (if k \<in> set (rl_delete ?res) then [] else case map_of (rl_add ?res) k of Some v \<Rightarrow> v | None \<Rightarrow> label_of ls k)" for k
    by (simp add: lookup_default_def map_of_apply_labels [OF dist] split: option.split)
  obtain mo w s where v: "step_view pods loaded i (module_view ls i) = (mo, w, s)" by (metis prod_cases3)
  show ?thesis
  proof (cases "\<exists>m\<in>set ?ms. id_of m = i")
    case True
    then obtain m where m: "m \<in> set ?ms" "id_of m = i" by blast
    then obtain ms1 ms2 where split: "?ms = ms1 @ m # ms2" by (meson split_list)
    have rest: "\<forall>x\<in>set ms1. dotless (id_of x) \<and> id_of x \<noteq> i" "\<forall>x\<in>set ms2. dotless (id_of x) \<and> id_of x \<noteq> i"
    proof -
      have "i \<notin> id_of ` set ms1" "i \<notin> id_of ` set ms2"
        using readable_distinct_ids [OF r] unfolding split m(2) [symmetric] by simp_all
      moreover have "\<forall>x\<in>set ms1 \<union> set ms2. dotless (id_of x)" using dm unfolding split by simp
      ultimately show "\<forall>x\<in>set ms1. dotless (id_of x) \<and> id_of x \<noteq> i" "\<forall>x\<in>set ms2. dotless (id_of x) \<and> id_of x \<noteq> i"
        by blast+
    qed
    have mv: "module_view ls (id_of m) = (mvl_module m, mvl_worker m, mvl_schedule m)"
      using readable_modules [OF r m(1)] by (metis gathered_view id_gathered)
    have "label_of (apply_labels ?res ls) k = (if IsModuleVersionLabel k then mo else if IsWorkerPodVersionLabel k then w else s)"
      if k: "k \<in> set (version_names i)" for k
    proof -
      let ?r1 = "fold (reconcile_module pods loaded) ms1 no_result"
      let ?r2 = "reconcile_module pods loaded m ?r1"
      have res: "?res = fold (reconcile_module pods loaded) ms2 ?r2" by (simp add: reconcileLabels_def split no_result_def del: map_map)
      have r1: "map_of (rl_add ?r1) k = None" "k \<notin> set (rl_delete ?r1)"
        using reconcile_fold_other [OF d k rest(1), of pods loaded no_result] by (simp_all add: no_result_def)
      have "label_of (apply_labels ?res ls) k =
          (if k \<in> set (rl_delete ?r2) then [] else case map_of (rl_add ?r2) k of Some v \<Rightarrow> v | None \<Rightarrow> label_of ls k)"
        unfolding lab unfolding res using reconcile_fold_other [OF d k rest(2), of pods loaded ?r2] by simp
      also have "\<dots> = (if IsModuleVersionLabel k then mo else if IsWorkerPodVersionLabel k then w else s)"
        using reconcile_module_own [OF r1, of m ls pods loaded] k mv v m(2) by simp
      finally show ?thesis .
    qed
    then show ?thesis unfolding v module_view_by_kind by (simp add: list_all_iff)
  next
    case False
    then have "\<forall>m\<in>set ?ms. dotless (id_of m) \<and> id_of m \<noteq> i" using dm by blast
    from reconcile_fold_other [OF d _ this, of _ pods loaded no_result]
    have "label_of (apply_labels ?res ls) k = label_of ls k" if "k \<in> set (version_names i)" for k
      unfolding lab unfolding reconcileLabels_def no_result_def [symmetric] using that by (simp add: no_result_def [symmetric])
        (simp add: no_result_def)
    then have same: "module_view (apply_labels ?res ls) i = module_view ls i"
      by (cases i) (simp add: module_view_def version_names_def)
    have "\<not> labelled ls i"
    proof
      assume "labelled ls i"
      with getLabelsPerModules_spec [OF r] i have "map_of (getLabelsPerModules ls) (map_key i) = Some (gathered ls i)" by simp
      then have "gathered ls i \<in> set ?ms" by (force dest: map_of_SomeD)
      with False show False by force
    qed
    then show ?thesis using same module_view_unlabelled [of ls i] by (simp add: step_view_def held_back_def wanted_change_def)
  qed
qed

lemma other_labels_reconciled:
  assumes "\<not> IsVersionLabel k"
  shows "map_of (reconciled pods loaded ls) k = map_of ls k"
proof -
  have "map_of (rl_add (fold (reconcile_module pods loaded) ms res)) k = map_of (rl_add res) k \<and>
      (k \<in> set (rl_delete (fold (reconcile_module pods loaded) ms res)) \<longleftrightarrow> k \<in> set (rl_delete res))" for ms res
  proof (induction ms arbitrary: res)
    case (Cons m ms)
    obtain label v act where a: "getLabelAndAction m = (label, v, act)" by (metis prod_cases3)
    have "label \<noteq> k" if "act \<noteq> noneAction" using action_label [OF a that] version_names_version assms by blast
    then have "map_of (rl_add (reconcile_module pods loaded m res)) k = map_of (rl_add res) k"
      "k \<in> set (rl_delete (reconcile_module pods loaded m res)) \<longleftrightarrow> k \<in> set (rl_delete res)"
      by (cases act; auto simp: reconcile_module_def a update_conv')+
    with Cons show ?case by simp
  qed simp
  then show ?thesis
    by (subst map_of_apply_labels) (simp_all add: reconcileLabels_def reconcile_fold_distinct)
qed

lemma readable_reconciled:
  assumes "readable U ls"
  shows "readable U (reconciled pods loaded ls)"
proof -
  let ?res = "reconcileLabels (getLabelsPerModules ls) pods loaded"
  have dist: "distinct (map fst (rl_add ?res))"
    unfolding reconcileLabels_def by (rule reconcile_fold_distinct) simp
  have up: "distinct (map fst (fold (\<lambda>(label, v). AList.update label v) xs l))" if "distinct (map fst l)" for xs l :: labels
    using that by (induction xs arbitrary: l) (auto simp: distinct_update)
  have del: "distinct (map fst (fold AList.delete ds l))" if "distinct (map fst l)" for ds and l :: labels
    using that by (induction ds arbitrary: l) (auto simp: distinct_delete)
  have keys: "\<forall>k. map_of (rl_add (fold (reconcile_module pods loaded) ms res)) k \<noteq> None \<longrightarrow>
      map_of (rl_add res) k \<noteq> None \<or> (\<exists>m\<in>set ms. k \<in> set (version_names (id_of m)))" for ms res
  proof (induction ms arbitrary: res)
    case (Cons m ms)
    obtain label v act where a: "getLabelAndAction m = (label, v, act)" by (metis prod_cases3)
    have "map_of (rl_add (reconcile_module pods loaded m res)) k \<noteq> None \<Longrightarrow> map_of (rl_add res) k \<noteq> None \<or> k \<in> set (version_names (id_of m))" for k
      using action_label [OF a] by (cases act) (auto simp: reconcile_module_def a update_conv' split: if_splits)
    with Cons [of "reconcile_module pods loaded m res"] show ?case by (simp del: not_None_eq) blast
  qed simp
  have "\<exists>i\<in>U. k \<in> set (version_names i)" if k: "k \<in> fst ` set (apply_labels ?res ls)" "IsVersionLabel k" for k
  proof -
    from k(1) have "map_of (apply_labels ?res ls) k \<noteq> None" by (simp add: map_of_eq_None_iff)
    then have "map_of (rl_add ?res) k \<noteq> None \<or> k \<in> fst ` set ls"
      by (metis (no_types, lifting) map_of_apply_labels [OF dist] map_of_eq_None_iff option.simps(4))
    then show ?thesis
    proof
      assume "map_of (rl_add ?res) k \<noteq> None"
      with keys [of "map snd (getLabelsPerModules ls)" no_result]
      have "\<exists>m\<in>set (map snd (getLabelsPerModules ls)). k \<in> set (version_names (id_of m))"
        unfolding reconcileLabels_def no_result_def by (simp del: not_None_eq)
      then obtain m where "m \<in> set (map snd (getLabelsPerModules ls))" "k \<in> set (version_names (id_of m))" by blast
      with readable_modules [OF assms] show ?thesis by (metis id_gathered)
    qed (use assms k(2) in \<open>auto simp: readable_def\<close>)
  qed
  then show ?thesis using assms del [OF up] by (auto simp: readable_def apply_labels_def)
qed

lemma requeue_iff_held_back:
  assumes "readable U ls"
  shows "rl_requeue (reconcileLabels (getLabelsPerModules ls) pods loaded) \<longleftrightarrow>
    (\<exists>i\<in>U. held_back pods loaded i (module_view ls i))"
proof
  assume "rl_requeue (reconcileLabels (getLabelsPerModules ls) pods loaded)"
  then obtain m where m: "m \<in> set (map snd (getLabelsPerModules ls))"
    "held_back pods loaded (id_of m) (mvl_module m, mvl_worker m, mvl_schedule m)"
    by (auto simp: reconcileLabels_def reconcile_requeue simp del: set_map)
  from readable_modules [OF assms m(1)] obtain i where "i \<in> U" "m = gathered ls i" by blast
  with m(2) show "\<exists>i\<in>U. held_back pods loaded i (module_view ls i)" by (metis gathered_view id_gathered)
next
  assume "\<exists>i\<in>U. held_back pods loaded i (module_view ls i)"
  then obtain i where i: "i \<in> U" "held_back pods loaded i (module_view ls i)" by blast
  have "labelled ls i"
  proof (rule ccontr)
    assume "\<not> labelled ls i"
    with i(2) show False by (simp add: module_view_unlabelled held_back_def wanted_change_def)
  qed
  with getLabelsPerModules_spec [OF assms] i have "map_of (getLabelsPerModules ls) (map_key i) = Some (gathered ls i)" by simp
  then have "gathered ls i \<in> snd ` set (getLabelsPerModules ls)" by (force dest: map_of_SomeD)
  moreover have "held_back pods loaded (id_of (gathered ls i)) (mvl_module (gathered ls i), mvl_worker (gathered ls i), mvl_schedule (gathered ls i))"
    using i(2) unfolding gathered_view id_gathered .
  ultimately show "rl_requeue (reconcileLabels (getLabelsPerModules ls) pods loaded)"
    unfolding reconcileLabels_def reconcile_requeue set_map by blast
qed


section \<open>Runs\<close>

text \<open>
  A node between reconciliations: it starts without version labels; the user sets and removes the module version
  labels of the modules at any time, others change the remaining labels, and the controller reconciles with
  whatever schedule pods and loaded modules it sees.
\<close>

inductive version_run :: "nsn set \<Rightarrow> labels \<Rightarrow> bool" for U where
  start: "distinct (map fst ls) \<Longrightarrow> list_all (\<lambda>(k, v). \<not> IsVersionLabel k) ls \<Longrightarrow> version_run U ls"
| user_set: "version_run U ls \<Longrightarrow> (ns, name) \<in> U \<Longrightarrow> version_run U (AList.update (GetModuleVersionLabelName ns name) v ls)"
| user_remove: "version_run U ls \<Longrightarrow> (ns, name) \<in> U \<Longrightarrow> version_run U (AList.delete (GetModuleVersionLabelName ns name) ls)"
| other_set: "version_run U ls \<Longrightarrow> \<not> IsVersionLabel k \<Longrightarrow> version_run U (AList.update k v ls)"
| other_remove: "version_run U ls \<Longrightarrow> \<not> IsVersionLabel k \<Longrightarrow> version_run U (AList.delete k ls)"
| reconcile: "version_run U ls \<Longrightarrow> version_run U (apply_labels (reconcileLabels (getLabelsPerModules ls) pods loaded) ls)"

definition separable :: "nsn set \<Rightarrow> bool" where
  "separable U \<longleftrightarrow> (\<forall>i\<in>U. dotless i) \<and> inj_on map_key U"

lemma readable_delete: "readable U ls \<Longrightarrow> readable U (AList.delete k ls)"
proof -
  assume "readable U ls"
  moreover have "set (AList.delete k ls) \<subseteq> set ls" by (auto simp: AList.delete_eq)
  moreover have "distinct (map fst ls) \<Longrightarrow> distinct (map fst (AList.delete k ls))" by (rule distinct_delete)
  ultimately show ?thesis unfolding readable_def by blast
qed

lemma version_run_readable:
  assumes "version_run U ls" "separable U"
  shows "readable U ls"
  using assms
proof (induction rule: version_run.induct)
  case (start ls)
  then show ?case by (force simp: readable_def separable_def list_all_iff)
next
  case (user_set ls ns name v)
  then show ?case
    by (auto simp: readable_def separable_def distinct_update dom_update) (force simp: version_names_def)+
next
  case (user_remove ls ns name)
  then show ?case by (simp add: readable_delete)
next
  case (other_set ls k v)
  then show ?case by (auto simp: readable_def distinct_update dom_update)
next
  case (other_remove ls k)
  then show ?case by (simp add: readable_delete)
next
  case (reconcile ls pods loaded)
  then show ?case by (simp add: readable_reconciled)
qed

text \<open>The schedule label, while there is one, is the worker label.\<close>

definition in_step :: "version_view \<Rightarrow> bool" where
  "in_step v \<longleftrightarrow> (case v of (m, w, s) \<Rightarrow> s = [] \<or> s = w)"

lemma in_step_step_view: "in_step v \<Longrightarrow> in_step (step_view pods loaded i v)"
  by (cases v) (auto simp: in_step_def step_view_def wanted_change_def split: change.splits if_splits)

lemma module_view_update:
  "k \<notin> set (version_names i) \<Longrightarrow> module_view (AList.update k v ls) i = module_view ls i"
  "k \<notin> set (version_names i) \<Longrightarrow> module_view (AList.delete k ls) i = module_view ls i"
  by (auto simp: module_view_def version_names_def split: prod.split)

lemma worker_schedule_update:
  "snd (module_view (AList.update (GetModuleVersionLabelName ns name) v ls) i) = snd (module_view ls i)"
  "snd (module_view (AList.delete (GetModuleVersionLabelName ns name) ls) i) = snd (module_view ls i)"
  by (simp_all add: module_view_def not_sym [OF version_labels_differ(1)] not_sym [OF version_labels_differ(2)] split: prod.split)

lemma version_run_in_step:
  assumes "version_run U ls" "separable U" "i \<in> U"
  shows "in_step (module_view ls i)"
  using assms
proof (induction rule: version_run.induct)
  case (start ls)
  have "has_key ls k \<Longrightarrow> \<not> IsVersionLabel k" for k using start by (auto simp: has_key_dom list_all_iff)
  then have "\<not> labelled ls i" by (auto simp: labelled_def list_ex_iff dest!: version_names_version)
  then show ?case by (simp add: module_view_unlabelled in_step_def)
next
  case (user_set ls ns name v)
  then show ?case using worker_schedule_update(1) [of ns name v ls i] by (simp add: in_step_def split_beta)
next
  case (user_remove ls ns name)
  then show ?case using worker_schedule_update(2) [of ns name ls i] by (simp add: in_step_def split_beta)
next
  case (other_set ls k v)
  then have "k \<notin> set (version_names i)" using version_names_version by blast
  with other_set show ?case by (simp add: module_view_update)
next
  case (other_remove ls k)
  then have "k \<notin> set (version_names i)" using version_names_version by blast
  with other_remove show ?case by (simp add: module_view_update)
next
  case (reconcile ls pods loaded)
  then show ?case by (simp add: module_view_reconciled [OF version_run_readable] in_step_step_view)
qed

text \<open>How many label changes are left until both labels are the module's version.\<close>

definition upgrade_distance :: "version_view \<Rightarrow> nat" where
  "upgrade_distance v = (case v of (m, w, s) \<Rightarrow>
     if m = [] then (if w = [] then 0 else 1) + (if s = [] then 0 else 1)
     else if w = m then (if s = m then 0 else 1)
     else if w = [] then 2
     else if s = [] then 3 else 4)"

lemma upgrade_distance_0: "in_step (m, w, s) \<Longrightarrow> upgrade_distance (m, w, s) = 0 \<longleftrightarrow> w = m \<and> s = m"
  by (auto simp: upgrade_distance_def in_step_def)

lemma step_view_distance:
  "in_step v \<Longrightarrow> \<not> held_back pods loaded i v \<Longrightarrow> upgrade_distance (step_view pods loaded i v) = upgrade_distance v - 1"
  by (cases v) (auto simp: in_step_def step_view_def wanted_change_def upgrade_distance_def split: if_splits)

lemma step_view_held_back: "held_back pods loaded i v \<Longrightarrow> step_view pods loaded i v = v"
  by (cases v) (simp add: step_view_def)

text \<open>A node whose user asks for a version of one module.\<close>

definition asked_node :: labels where
  "asked_node = AList.update (GetModuleVersionLabelName ''kmm'' ''mymod'') ''1'' []"

lemma asked_node_run: "version_run {(''kmm'', ''mymod'')} asked_node" "separable {(''kmm'', ''mymod'')}"
proof -
  have "version_run {(''kmm'', ''mymod'')} []" by (rule version_run.start) simp_all
  then show "version_run {(''kmm'', ''mymod'')} asked_node" unfolding asked_node_def by (rule version_run.user_set) simp
  show "separable {(''kmm'', ''mymod'')}" by (simp add: separable_def dotless_def)
qed

lemma asked_node_view: "module_view asked_node (''kmm'', ''mymod'') = (''1'', [], [])"
  by (simp add: module_view_def asked_node_def lookup_default_def not_sym [OF version_labels_differ(1)] not_sym [OF version_labels_differ(2)])

section \<open>Properties\<close>

text \<open>
  One reconciliation changes the version labels of every module on the node exactly as its three labels
  call for (\<open>step_view\<close>), independently of the other modules, leaves every other label alone, and asks to be queued
  again exactly when the worker label of some module has to wait. The worker label is removed only when no device
  plugin or DRA pod of the module is on the node, and added only when the module is not loaded there.
\<close>

theorem version_labels_step:
  assumes "readable U ls" "i \<in> U"
  shows "let res = reconcileLabels (getLabelsPerModules ls) pods loaded in
    module_view (apply_labels res ls) i = step_view pods loaded i (module_view ls i) \<and>
    (\<forall>k. \<not> IsVersionLabel k \<longrightarrow> map_of (apply_labels res ls) k = map_of ls k) \<and>
    (rl_requeue res \<longleftrightarrow> (\<exists>j\<in>U. held_back pods loaded j (module_view ls j)))"
  using module_view_reconciled [OF assms] other_labels_reconciled requeue_iff_held_back [OF assms(1)] by (simp add: Let_def)

theorem version_labels_step_witness:
  "module_view (apply_labels (reconcileLabels (getLabelsPerModules asked_node) [] []) asked_node) (''kmm'', ''mymod'') = (''1'', ''1'', [])"
  using version_labels_step [OF version_run_readable [OF asked_node_run], of "(''kmm'', ''mymod'')" "[]" "[]"]
  by (simp add: Let_def asked_node_view step_view_def held_back_def wanted_change_def verifyLabelAddValidity_def)

text \<open>
  The order of an upgrade. Whatever the user does to the module version labels and whichever pods and
  loaded modules the controller sees, the schedule-pod version of a node is absent or the worker-pod version.
\<close>

theorem schedule_label_follows_worker:
  assumes "version_run U ls" "separable U" "(ns, name) \<in> U"
  shows "label_of ls (GetSchedulePodVersionLabelName ns name) \<in> {[], label_of ls (GetWorkerPodVersionLabelName ns name)}"
  using version_run_in_step [OF assms] by (simp add: in_step_def module_view_def)

theorem schedule_label_follows_worker_witness:
  "label_of asked_node (GetSchedulePodVersionLabelName ''kmm'' ''mymod'') \<in>
     {[], label_of asked_node (GetWorkerPodVersionLabelName ''kmm'' ''mymod'')}"
  by (rule schedule_label_follows_worker [OF asked_node_run]) simp

text \<open>
  C20: an upgrade terminates. Every reconciliation of a node brings the labels of each module one change closer
  to the version of the module, of which at most four are ever needed, unless the worker label has to wait, when
  nothing changes and the node is queued again. No change is left exactly when both labels are the module's
  version, and then nothing happens any more.
\<close>

theorem upgrade_terminates:
  assumes run: "version_run U ls" "separable U" "i \<in> U"
    and v: "module_view ls i = (m, w, s)" "module_view (apply_labels (reconcileLabels (getLabelsPerModules ls) pods loaded) ls) i = v'"
  shows "upgrade_distance (m, w, s) \<le> 4 \<and> (upgrade_distance (m, w, s) = 0 \<longleftrightarrow> w = m \<and> s = m) \<and>
    (if held_back pods loaded i (m, w, s) then v' = (m, w, s) \<and> rl_requeue (reconcileLabels (getLabelsPerModules ls) pods loaded)
     else upgrade_distance v' = upgrade_distance (m, w, s) - 1) \<and> fst v' = m"
proof -
  note r = version_run_readable [OF run(1,2)]
  have v': "v' = step_view pods loaded i (m, w, s)" using module_view_reconciled [OF r run(3)] v by simp
  have st: "in_step (m, w, s)" using version_run_in_step [OF run] v by simp
  have "fst v' = m" by (auto simp: v' step_view_def split: change.split)
  moreover have "upgrade_distance (m, w, s) \<le> 4" by (simp add: upgrade_distance_def)
  moreover have "held_back pods loaded i (m, w, s) \<Longrightarrow> rl_requeue (reconcileLabels (getLabelsPerModules ls) pods loaded)"
    using requeue_iff_held_back [OF r] run(3) v(1) by metis
  ultimately show ?thesis
    using step_view_distance [OF st, of pods loaded i] step_view_held_back [of pods loaded i] upgrade_distance_0 [OF st] v' by auto
qed

theorem upgrade_terminates_witness:
  "upgrade_distance (''1'', [], []) = 2 \<and>
   upgrade_distance (module_view (apply_labels (reconcileLabels (getLabelsPerModules asked_node) [] []) asked_node) (''kmm'', ''mymod'')) = 1"
  using upgrade_terminates [OF asked_node_run insertI1 asked_node_view refl, of "[]" "[]"]
  by (simp add: upgrade_distance_def held_back_def wanted_change_def verifyLabelAddValidity_def)

text \<open>
  The controller's map joins the namespace and the name with a dash, which both may hold: the labels of
  \<^verbatim>\<open>a-b/c\<close> and \<^verbatim>\<open>a/b-c\<close> are taken for those of one module, the one read first, and the
  version the user asked for the other module is never acted on.
\<close>

theorem dashed_modules_confused:
  "let ls = [(GetModuleVersionLabelName ''a-b'' ''c'', ''1''), (GetWorkerPodVersionLabelName ''a-b'' ''c'', ''1''),
             (GetSchedulePodVersionLabelName ''a-b'' ''c'', ''1''), (GetModuleVersionLabelName ''a'' ''b-c'', ''1'')];
       res = reconcileLabels (getLabelsPerModules ls) [] []
   in length (getLabelsPerModules ls) = 1 \<and> rl_add res = [] \<and> rl_delete res = []"
  by code_simp

end
