(* ===== verification/Webhook.thy ===== *)
theory Webhook
  imports Client Kernel_Mapper Paths
begin

text \<open>
  Admission: \<^verbatim>\<open>internal/webhook/module.go\<close>, \<^verbatim>\<open>preflight.go\<close>, \<^verbatim>\<open>namespace.go\<close>,
  \<^verbatim>\<open>hub/managedclustermodule_webhook.go\<close> and the cluster version of \<^verbatim>\<open>internal/version/version.go\<close>.
  A validator returns the error or nil; warnings are never issued. The name checks of
  \<^verbatim>\<open>k8s.io/apimachinery/pkg/util/validation\<close>, which return a list of complaints, and the compilation of a
  regular expression are parameters (\<open>validators\<close>).
\<close>

section \<open>Cluster versions\<close>

record kube_version =
  kv_major :: int
  kv_minor :: int

definition AtLeast :: "kube_version \<Rightarrow> int \<Rightarrow> int \<Rightarrow> bool" where
  "AtLeast kv major minor \<longleftrightarrow> kv_major kv > major \<or> (kv_major kv = major \<and> kv_minor kv \<ge> minor)"

definition is_digit :: "char \<Rightarrow> bool" where
  "is_digit c \<longleftrightarrow> CHR ''0'' \<le> c \<and> c \<le> CHR ''9''"

text \<open>\<open>strconv.Atoi\<close> of a non-empty digit sequence: an error when it exceeds 63 bits.\<close>

definition Atoi :: "string \<Rightarrow> go_err + int" where
  "Atoi s = (if parse_d s 0 < 2 ^ 63 then Inr (int (parse_d s 0)) else Inl (NewErr ''value out of range''))"

text \<open>The expression \<^verbatim>\<open>^v?(\d+)\.(\d+)\<close> and its groups.\<close>

definition kubeVersionRe :: "string \<Rightarrow> (string \<times> string) option" where
  "kubeVersionRe s =
     (let s1 = (if HasPrefix s ''v'' then drop 1 s else s);
          major = takeWhile is_digit s1
      in case dropWhile is_digit s1 of
           [] \<Rightarrow> None
         | c # rest \<Rightarrow>
             if major = [] \<or> c \<noteq> CHR ''.'' \<or> takeWhile is_digit rest = [] then None
             else Some (major, takeWhile is_digit rest))"

definition ParseKubeVersion :: "string \<Rightarrow> go_err + kube_version" where
  "ParseKubeVersion gitVersion =
     (case kubeVersionRe gitVersion of
        None \<Rightarrow> Inl (NewErr ''cannot parse Kubernetes version'')
      | Some (m1, m2) \<Rightarrow>
          (case Atoi m1 of
             Inl e \<Rightarrow> Inl (Wrapf ''cannot parse Kubernetes major version'' e)
           | Inr major \<Rightarrow>
               (case Atoi m2 of
                  Inl e \<Rightarrow> Inl (Wrapf ''cannot parse Kubernetes minor version'' e)
                | Inr minor \<Rightarrow> Inr \<lparr>kv_major = major, kv_minor = minor\<rparr>)))"

section \<open>Validation\<close>

record validators =
  va_IsDNS1123Subdomain :: "string \<Rightarrow> string list"
  va_IsQualifiedName :: "string \<Rightarrow> string list"
  va_IsValidLabelValue :: "string \<Rightarrow> string list"
  va_regexp_Compile :: "string \<Rightarrow> go_err option"

text \<open>A loop that returns at the first complaint, and checks done one after the other.\<close>

fun first_error :: "('a \<Rightarrow> go_err option) \<Rightarrow> 'a list \<Rightarrow> go_err option" where
  "first_error f [] = None"
| "first_error f (x # xs) = (case f x of Some e \<Rightarrow> Some e | None \<Rightarrow> first_error f xs)"

definition else_check :: "go_err option \<Rightarrow> go_err option \<Rightarrow> go_err option" where
  "else_check e next = (case e of Some x \<Rightarrow> Some x | None \<Rightarrow> next)"

definition reject_if :: "bool \<Rightarrow> string \<Rightarrow> go_err option" where
  "reject_if b msg = (if b then Some (NewErr msg) else None)"

lemma first_error_None [simp]: "first_error f xs = None \<longleftrightarrow> (\<forall>x\<in>set xs. f x = None)"
  by (induction xs) (auto split: option.split)

lemma else_check_None [simp]: "else_check e n = None \<longleftrightarrow> e = None \<and> n = None"
  by (simp add: else_check_def split: option.split)

lemma reject_if_None [simp]: "reject_if b msg = None \<longleftrightarrow> \<not> b"
  by (simp add: reject_if_def)

definition maxCombinedLength :: nat where
  "maxCombinedLength = 41"

definition validate_toleration :: "validators \<Rightarrow> toleration \<Rightarrow> go_err option" where
  "validate_toleration va t =
     else_check (reject_if (tol_key t \<noteq> [] \<and> va_IsQualifiedName va (tol_key t) \<noteq> []) ''invalid key'')
     (else_check (reject_if (tol_key t = [] \<and> tol_operator t \<noteq> ''Exists'') ''operator must be Exists when key is empty'')
     (else_check (reject_if (tol_seconds t \<noteq> None \<and> tol_effect t \<noteq> ''NoExecute'') ''effect must be NoExecute when tolerationSeconds is set'')
     (else_check
       (if tol_operator t = ''Equal'' \<or> tol_operator t = [] then
          reject_if (va_IsValidLabelValue va (tol_value t) \<noteq> []) ''invalid value for Equal operator''
        else if tol_operator t = ''Exists'' then reject_if (tol_value t \<noteq> []) ''value must be empty when operator is Exists''
        else Some (NewErr ''invalid operator''))
       (reject_if (tol_effect t \<noteq> [] \<and> tol_effect t \<notin> {''NoSchedule'', ''PreferNoSchedule'', ''NoExecute''}) ''invalid effect''))))"

definition validateTolerations :: "validators \<Rightarrow> toleration list \<Rightarrow> go_err option" where
  "validateTolerations va tolerations = first_error (validate_toleration va) tolerations"

fun validate_device_classes :: "validators \<Rightarrow> device_class list \<Rightarrow> string list \<Rightarrow> go_err option" where
  "validate_device_classes va [] seen = None"
| "validate_device_classes va (dc # dcs) seen =
     else_check (reject_if (dc_name dc = []) ''name is required'')
     (else_check (reject_if (va_IsDNS1123Subdomain va (dc_name dc) \<noteq> []) ''name is not a valid DNS subdomain'')
     (else_check (reject_if (dc_name dc \<in> set seen) ''name is a duplicate'')
       (validate_device_classes va dcs (dc_name dc # seen))))"

definition validate_init_probes :: "common_container option \<Rightarrow> go_err option" where
  "validate_init_probes c =
     (case c of
        None \<Rightarrow> None
      | Some ic \<Rightarrow> else_check (reject_if (cc_startup_probe ic \<noteq> None) ''initContainer.startupProbe is not supported'')
                     (reject_if (cc_liveness_probe ic \<noteq> None) ''initContainer.livenessProbe is not supported''))"

definition validateDRA :: "validators \<Rightarrow> kmodule \<Rightarrow> kube_version option \<Rightarrow> go_err option" where
  "validateDRA va modu kubeVersion =
     (case ms_dra (mod_spec modu) of
        None \<Rightarrow> None
      | Some d \<Rightarrow>
          else_check (reject_if (case kubeVersion of None \<Rightarrow> False | Some kv \<Rightarrow> \<not> AtLeast kv MinKubeMajorForDRA MinKubeMinorForDRA)
              ''spec.dra requires a later Kubernetes'')
          (else_check (reject_if (dra_driver_name d = []) ''spec.dra.driverName is required'')
          (else_check (reject_if (va_IsDNS1123Subdomain va (dra_driver_name d) \<noteq> []) ''spec.dra.driverName is not a valid DNS subdomain'')
          (else_check (validate_device_classes va (dra_classes d) [])
            (validate_init_probes (dra_init d))))))"

definition allowedHostPathPrefixes :: "string list" where
  "allowedHostPathPrefixes = [''/dev'', ''/sys'', ''/var'', ''/opt'', ''/run'']"

definition isAllowedHostPath :: "string \<Rightarrow> bool" where
  "isAllowedHostPath hostPath =
     (let p = path_Clean hostPath
      in list_ex (\<lambda>prefix. p = prefix \<or> HasPrefix p (prefix @ ''/'')) allowedHostPathPrefixes)"

definition validateHostPathVolumes :: "volume list \<Rightarrow> go_err option" where
  "validateHostPathVolumes volumes =
     first_error (\<lambda>vol. case vol_source vol of
        HostPath path _ \<Rightarrow> reject_if (\<not> isAllowedHostPath path) ''hostPath is not allowed''
      | _ \<Rightarrow> None) volumes"

definition validateImageFormat :: "string \<Rightarrow> go_err option" where
  "validateImageFormat img =
     reject_if (\<not> Contains_char img (CHR '':'') \<and> \<not> Contains_char img (CHR ''@'')) ''container image must explicitely set a tag or digest''"

definition validate_mapping :: "validators \<Rightarrow> loader_container \<Rightarrow> kernel_mapping \<Rightarrow> go_err option" where
  "validate_mapping va container km =
     else_check (reject_if (km_regexp km \<noteq> [] \<and> km_literal km \<noteq> []) ''regexp and literal are mutually exclusive properties'')
     (else_check (reject_if (km_regexp km = [] \<and> km_literal km = []) ''regexp or literal must be set'')
     (else_check (map_option (Errorf ''invalid regexp'') (va_regexp_Compile va (km_regexp km)))
     (else_check
       (if km_image km = [] then reject_if (lc_image container = []) ''missing containerImage''
        else map_option (Errorf ''failed to validate image format'') (validateImageFormat (km_image km)))
     (else_check (reject_if (km_intree km \<noteq> None \<and> km_intree_one km \<noteq> []) ''only one of the KernelMapping fields can be defined'')
       (reject_if ((km_intree km \<noteq> None \<and> lc_intree_one container \<noteq> []) \<or> (km_intree_one km \<noteq> [] \<and> lc_intree container \<noteq> None))
         ''only one type of field can be defined in KernelMapping or Container'')))))"

definition validateModuleLoaderContainerSpec :: "validators \<Rightarrow> loader_container \<Rightarrow> go_err option" where
  "validateModuleLoaderContainerSpec va container =
     else_check (reject_if (lc_intree container \<noteq> None \<and> lc_intree_one container \<noteq> []) ''only one of the Container fields can be defined'')
     (else_check
       (if lc_image container \<noteq> [] then map_option (Errorf ''failed to validate image format'') (validateImageFormat (lc_image container))
        else None)
       (first_error (validate_mapping va container) (lc_mappings container)))"

definition isWellFormedAbsolutePath :: "string \<Rightarrow> bool" where
  "isWellFormedAbsolutePath p =
     (if \<not> rooted p then False
      else let t = TrimSuffix p ''/''; trimmed = (if t = [] then ''/'' else t) in path_Clean trimmed = trimmed)"

definition raw_defined :: "(modprobe_args \<Rightarrow> string slice) \<Rightarrow> modprobe_spec \<Rightarrow> bool" where
  "raw_defined sel mp = (case mp_raw_args mp of None \<Rightarrow> False | Some a \<Rightarrow> length (elems (sel a)) > 0)"

definition validateModprobe :: "modprobe_spec \<Rightarrow> go_err option" where
  "validateModprobe mp =
     (let moduleNameDefined = (mp_module_name mp \<noteq> []);
          rawLoad = raw_defined mpa_load mp; rawUnload = raw_defined mpa_unload mp
      in else_check
          (if moduleNameDefined then reject_if (rawLoad \<or> rawUnload) ''rawArgs cannot be set when moduleName is set''
           else reject_if (\<not> rawLoad \<or> \<not> rawUnload) ''load and unload rawArgs must be set when moduleName is unset'')
         (else_check
          (case mp_loading_order mp of
             None \<Rightarrow> None
           | Some order \<Rightarrow>
               else_check (reject_if (length order < 2) ''at least two values must be defined'')
               (else_check (reject_if (\<not> moduleNameDefined) ''moduleName must be set'')
               (else_check (reject_if (order ! 0 \<noteq> mp_module_name mp) ''the first element must be moduleName'')
                 (reject_if (\<not> distinct order) ''duplicate value in the loading order list''))))
          (reject_if (mp_modprobed_dir mp \<noteq> [] \<and> \<not> isWellFormedAbsolutePath (mp_modprobed_dir mp))
            ''modprobedDir must be a well-formed absolute path'')))"

definition validateSignSection :: "sign option \<Rightarrow> string \<Rightarrow> go_err option" where
  "validateSignSection signSection dirName =
     (case signSection of
        None \<Rightarrow> None
      | Some s \<Rightarrow>
          else_check (reject_if (length (sgn_files s) = 0) ''filesToSign is required when Sign is set'')
            (first_error (\<lambda>filePath. reject_if (\<not> HasPrefix filePath (dirName @ ''/'')) ''filesToSign must be under dirName'') (sgn_files s)))"

definition validateFilesToSign :: "loader_container \<Rightarrow> go_err option" where
  "validateFilesToSign container =
     (let dirName = mp_dir_name (lc_modprobe container)
      in else_check (map_option (Errorf ''global Sign'') (validateSignSection (lc_sign container) dirName))
           (first_error (\<lambda>km. map_option (Errorf ''kernelMappings.Sign'') (validateSignSection (km_sign km) dirName))
             (lc_mappings container)))"

definition validateModule :: "validators \<Rightarrow> kmodule \<Rightarrow> kube_version option \<Rightarrow> go_err option" where
  "validateModule va modu kubeVersion =
     else_check (reject_if (length (mod_name modu @ mod_namespace modu) > maxCombinedLength) ''module name and namespace are too long'')
     (else_check (map_option (Errorf ''failed to validate tolerations'') (validateTolerations va (ms_tolerations (mod_spec modu))))
     (else_check (map_option (Errorf ''failed to validate DRA'') (validateDRA va modu kubeVersion))
     (else_check
       (case ms_dra (mod_spec modu) of
          None \<Rightarrow> None
        | Some d \<Rightarrow> map_option (Errorf ''failed to validate DRA volumes'') (validateHostPathVolumes (dra_volumes d)))
     (else_check
       (case ms_device_plugin (mod_spec modu) of
          None \<Rightarrow> None
        | Some dp \<Rightarrow>
            else_check (map_option (Errorf ''failed to validate device plugin volumes'') (validateHostPathVolumes (dp_volumes dp)))
              (validate_init_probes (dp_init dp)))
       (case ms_loader (mod_spec modu) of
          None \<Rightarrow> None
        | Some ml \<Rightarrow>
            else_check (map_option (Errorf ''failed to validate kernel mappings'') (validateModuleLoaderContainerSpec va (ml_container ml)))
            (else_check (map_option (Errorf ''failed to validate modprobe'') (validateModprobe (lc_modprobe (ml_container ml))))
              (validateFilesToSign (ml_container ml))))))))"

section \<open>The webhooks\<close>

definition ValidateCreate :: "validators \<Rightarrow> kube_version option \<Rightarrow> kmodule \<Rightarrow> go_err option" where
  "ValidateCreate va kubeVersion modu = validateModule va modu kubeVersion"

definition ValidateUpdate :: "validators \<Rightarrow> kube_version option \<Rightarrow> kmodule \<Rightarrow> kmodule \<Rightarrow> go_err option" where
  "ValidateUpdate va kubeVersion oldMod newMod =
     else_check
       (case (ms_loader (mod_spec oldMod), ms_loader (mod_spec newMod)) of
          (Some ol, Some nl) \<Rightarrow>
            reject_if ((lc_version (ml_container ol) = [] \<and> lc_version (ml_container nl) \<noteq> []) \<or>
                (lc_version (ml_container ol) \<noteq> [] \<and> lc_version (ml_container nl) = []))
              ''cannot update to or from an empty version''
        | _ \<Rightarrow> None)
     (else_check
       (reject_if ((ms_loader (mod_spec oldMod) \<noteq> None) \<noteq> (ms_loader (mod_spec newMod) \<noteq> None)) ''cannot add or remove spec.moduleLoader'')
     (else_check
       (case ms_dra (mod_spec oldMod) of
          None \<Rightarrow> None
        | Some od \<Rightarrow>
            (case ms_dra (mod_spec newMod) of
               None \<Rightarrow> Some (NewErr ''spec.dra cannot be removed'')
             | Some nd \<Rightarrow> reject_if (dra_driver_name od \<noteq> dra_driver_name nd) ''spec.dra.driverName is immutable''))
       (validateModule va newMod kubeVersion)))"

definition NotImplemented :: go_err where
  "NotImplemented = NewErr ''not implemented''"

definition validatePreflight :: "string \<Rightarrow> go_err option" where
  "validatePreflight kernelVersion =
     else_check (reject_if (kernelVersion = []) ''kernelVersion cannot be empty'')
       (reject_if (length (split_by kernel_sep kernelVersion) < 3) ''invalid kernelVersion'')"

definition Namespace_ValidateDelete :: "namespace_obj \<Rightarrow> go_err option" where
  "Namespace_ValidateDelete ns =
     reject_if (HasLabel NamespaceLabelKey (nso_labels ns)) ''namespace contains one or more Module resources''"

text \<open>The hub validates the module it would create, but under an empty name and namespace.\<close>

definition Hub_ValidateCreate :: "validators \<Rightarrow> kube_version option \<Rightarrow> module_spec \<Rightarrow> go_err option" where
  "Hub_ValidateCreate va kubeVersion spec = ValidateCreate va kubeVersion (new_module [] [] spec)"

definition Hub_ValidateUpdate :: "validators \<Rightarrow> kube_version option \<Rightarrow> module_spec \<Rightarrow> module_spec \<Rightarrow> go_err option" where
  "Hub_ValidateUpdate va kubeVersion oldSpec newSpec =
     ValidateUpdate va kubeVersion (new_module [] [] oldSpec) (new_module [] [] newSpec)"

section \<open>Lemmas\<close>

text \<open>The part of a label name behind the slash, which may hold 63 characters.\<close>

definition name_part :: "string \<Rightarrow> string" where
  "name_part l = (case break_at (CHR ''/'') l of None \<Rightarrow> l | Some (_, t) \<Rightarrow> t)"

lemma name_part_split: "CHR ''/'' \<notin> set a \<Longrightarrow> name_part (a @ ''/'' @ t) = t"
  by (simp add: name_part_def break_at_append)

lemma name_part_kmm: "name_part (''kmm.node.kubernetes.io/'' @ t) = t"
  using name_part_split [of "''kmm.node.kubernetes.io''" t] by simp

lemma name_part_beta: "name_part (''beta.kmm.node.kubernetes.io/'' @ t) = t"
  using name_part_split [of "''beta.kmm.node.kubernetes.io''" t] by simp

definition node_labels_of :: "string \<Rightarrow> string \<Rightarrow> string list" where
  "node_labels_of ns name =
     [ModuleConfiguredLabel ns name, ModuleInUseLabel ns name, GetModuleVersionLabelName ns name,
      GetWorkerPodVersionLabelName ns name, GetSchedulePodVersionLabelName ns name, GetKernelModuleReadyNodeLabel ns name,
      GetKernelModuleVersionReadyNodeLabel ns name, GetDevicePluginNodeLabel ns name, GetDRATargetNodeLabel ns name,
      GetDRANodeLabel ns name, GetDevicePluginTargetNodeLabel ns name]"

lemma node_label_lengths:
  "map (\<lambda>l. length (name_part l)) (node_labels_of ns name) =
     map (\<lambda>n. n + length ns + length name) [19, 15, 16, 20, 22, 7, 15, 21, 12, 11, 22]"
proof -
  have version: "GetModuleVersionLabelName ns name = ''kmm.node.kubernetes.io/'' @ (''version-module'' @ ''.'' @ ns @ ''.'' @ name)"
    "GetWorkerPodVersionLabelName ns name = ''beta.kmm.node.kubernetes.io/'' @ (''version-worker-pod'' @ ''.'' @ ns @ ''.'' @ name)"
    "GetSchedulePodVersionLabelName ns name = ''beta.kmm.node.kubernetes.io/'' @ (''version-schedule-pod'' @ ''.'' @ ns @ ''.'' @ name)"
    by (simp_all add: version_label_names label_consts)
  show ?thesis
    unfolding node_labels_of_def version ModuleConfiguredLabel_def ModuleInUseLabel_def GetKernelModuleReadyNodeLabel_def
      GetKernelModuleVersionReadyNodeLabel_def GetDevicePluginNodeLabel_def GetDRATargetNodeLabel_def GetDRANodeLabel_def
      GetDevicePluginTargetNodeLabel_def list.map name_part_kmm name_part_beta
    by simp
qed

subsection \<open>Paths\<close>

definition host_dirs :: "string list" where
  "host_dirs = [''dev'', ''sys'', ''var'', ''opt'', ''run'']"

lemma clean_step_no_empty: "[] \<notin> set stack \<Longrightarrow> [] \<notin> set (clean_step r c stack)"
  by (cases stack) (auto simp: clean_step_def)

lemma clean_comps_no_empty: "[] \<notin> set (clean_comps r cs)"
proof -
  have "[] \<notin> set (fold (clean_step r) cs stack)" if "[] \<notin> set stack" for stack
    using that by (induction cs arbitrary: stack) (auto simp: clean_step_no_empty)
  then show ?thesis by (simp add: clean_comps_def)
qed

lemma clean_step_no_slash:
  "CHR ''/'' \<notin> set c \<Longrightarrow> (\<And>d. d \<in> set stack \<Longrightarrow> CHR ''/'' \<notin> set d) \<Longrightarrow> d \<in> set (clean_step r c stack) \<Longrightarrow> CHR ''/'' \<notin> set d"
  by (cases stack) (auto simp: clean_step_def split: if_splits)

lemma clean_comps_no_slash:
  assumes "d \<in> set (clean_comps r (path_comps p))"
  shows "CHR ''/'' \<notin> set d"
proof -
  have "CHR ''/'' \<notin> set d" if "d \<in> set (fold (clean_step r) cs stack)" "\<forall>c\<in>set cs. CHR ''/'' \<notin> set c"
    "\<forall>d\<in>set stack. CHR ''/'' \<notin> set d" for cs stack
    using that
  proof (induction cs arbitrary: stack)
    case (Cons c cs)
    then show ?case using clean_step_no_slash [of c stack _ r] by simp
  qed simp
  from this [of "path_comps p" "[]"] assms show ?thesis
    using path_comps_no_slash by (auto simp: clean_comps_def)
qed

lemma join_with_hd: "join_with sep (w # ws) = w @ (if ws = [] then [] else sep @ join_with sep ws)"
  by (cases ws) auto

lemma Clean_not_rooted: "\<not> rooted p \<Longrightarrow> \<not> HasPrefix (path_Clean p) (CHR ''/'' # t)"
proof
  assume nr: "\<not> rooted p" and pre: "HasPrefix (path_Clean p) (CHR ''/'' # t)"
  let ?cs = "clean_comps False (path_comps p)"
  show False
  proof (cases ?cs)
    case Nil
    with nr pre show False by (simp add: path_Clean_def HasPrefix_iff)
  next
    case (Cons w ws)
    then have "w \<noteq> []" "CHR ''/'' \<notin> set w"
      using clean_comps_no_empty [of False "path_comps p"] clean_comps_no_slash [of w False p] by auto
    then show False using nr pre Cons
      by (cases w) (auto simp: path_Clean_def HasPrefix_iff join_with_hd)
  qed
qed

lemma prefix_of_joined:
  assumes "CHR ''/'' \<notin> set d" "\<And>c. c \<in> set cs \<Longrightarrow> CHR ''/'' \<notin> set c" "d \<noteq> []"
  shows "join_with ''/'' cs = d \<or> HasPrefix (join_with ''/'' cs) (d @ ''/'') \<longleftrightarrow> cs \<noteq> [] \<and> hd cs = d"
proof (cases cs)
  case (Cons w ws)
  have w: "CHR ''/'' \<notin> set w" using assms(2) Cons by simp
  have eq: "w = d" if "w @ CHR ''/'' # r = d @ CHR ''/'' # t" for r t
    using arg_cong [OF that, of "break_at (CHR ''/'')"] w assms(1) by (simp add: break_at_append)
  show ?thesis
  proof (cases "ws = []")
    case True
    then show ?thesis using Cons w by (auto simp: HasPrefix_iff)
  next
    case False
    then have j: "join_with ''/'' cs = w @ CHR ''/'' # join_with ''/'' ws" using Cons by (simp add: join_with_hd)
    have "join_with ''/'' cs \<noteq> d" using assms(1) by (auto simp: j)
    moreover have "HasPrefix (join_with ''/'' cs) (d @ ''/'') \<longleftrightarrow> w = d" unfolding j HasPrefix_iff using eq by auto
    ultimately show ?thesis using Cons by simp
  qed
qed (use assms(3) in \<open>simp add: HasPrefix_iff\<close>)

lemma isAllowedHostPath_iff:
  "isAllowedHostPath p \<longleftrightarrow> rooted p \<and> (let cs = clean_comps True (path_comps p) in cs \<noteq> [] \<and> hd cs \<in> set host_dirs)"
proof (cases "rooted p")
  case False
  then have "\<not> HasPrefix (path_Clean p) (CHR ''/'' # t)" for t by (rule Clean_not_rooted)
  moreover have "path_Clean p \<noteq> CHR ''/'' # t" for t using Clean_not_rooted [OF False, of t] by (auto simp: HasPrefix_def)
  ultimately show ?thesis using False by (simp add: isAllowedHostPath_def allowedHostPathPrefixes_def Let_def)
next
  case True
  let ?cs = "clean_comps True (path_comps p)"
  have "path_Clean p = ''/'' @ d \<or> HasPrefix (path_Clean p) (''/'' @ d @ ''/'') \<longleftrightarrow> ?cs \<noteq> [] \<and> hd ?cs = d"
    if "CHR ''/'' \<notin> set d" "d \<noteq> []" for d
    using prefix_of_joined [OF that(1) _ that(2), of ?cs] clean_comps_no_slash [of _ True p]
    by (auto simp: path_Clean_rooted [OF True] HasPrefix_def)
  from this [of "''dev''"] this [of "''sys''"] this [of "''var''"] this [of "''opt''"] this [of "''run''"]
  show ?thesis using True by (auto simp: isAllowedHostPath_def allowedHostPathPrefixes_def host_dirs_def Let_def)
qed

subsection \<open>Accepted modules\<close>

lemma accepted_parts:
  assumes "validateModule va modu kubeVersion = None"
  shows "length (mod_namespace modu) + length (mod_name modu) \<le> 41"
    "\<And>d. ms_dra (mod_spec modu) = Some d \<Longrightarrow> validateHostPathVolumes (dra_volumes d) = None"
    "\<And>dp. ms_device_plugin (mod_spec modu) = Some dp \<Longrightarrow> validateHostPathVolumes (dp_volumes dp) = None"
    "\<And>ml. ms_loader (mod_spec modu) = Some ml \<Longrightarrow> validateModuleLoaderContainerSpec va (ml_container ml) = None"
    "\<And>ml. ms_loader (mod_spec modu) = Some ml \<Longrightarrow> validateModprobe (lc_modprobe (ml_container ml)) = None"
  using assms by (auto simp: validateModule_def maxCombinedLength_def)

lemma accepted_mapping:
  assumes "validateModule va modu kubeVersion = None" "ms_loader (mod_spec modu) = Some ml" "km \<in> set (lc_mappings (ml_container ml))"
  shows "va_regexp_Compile va (km_regexp km) = None" "(km_regexp km = []) \<noteq> (km_literal km = [])"
    "km_image km \<noteq> [] \<or> lc_image (ml_container ml) \<noteq> []"
  using accepted_parts(4) [OF assms(1,2)] assms(3)
  by (auto simp: validateModuleLoaderContainerSpec_def validate_mapping_def split: if_splits)

lemma findKernelMapping_total:
  assumes "\<And>m. m \<in> set ms \<Longrightarrow> \<exists>b. MatchString (km_regexp m) kv = Inr b"
  shows "(\<exists>m\<in>set ms. findKernelMapping MatchString ms kv = Inr m) \<or> findKernelMapping MatchString ms kv = Inl ErrNoMatchingKernelMapping"
  using assms
proof (induction ms)
  case (Cons a ms)
  obtain b where "MatchString (km_regexp a) kv = Inr b" using Cons.prems by force
  with Cons show ?case by auto
qed simp

lemma ReplaceInTemplates_total:
  assumes "\<And>vars t. \<exists>t'. envsubst vars t = Inr t'"
  shows "\<exists>rs. ReplaceInTemplates envsubst vars ts = Inr rs"
proof (induction ts)
  case (Cons t ts)
  obtain t' where "envsubst vars t = Inr t'" using assms by blast
  with Cons show ?case by auto
qed simp

lemma prepare_total:
  assumes "\<And>vars t. \<exists>t'. envsubst vars t = Inr t'" "KernelComponentsAsEnvVars (NormalizeVersion kv) = Inr vars"
    "ms_loader (mod_spec modu) = Some ml"
  shows "\<exists>d. prepareModuleLoaderData envsubst mapping modu kv = Inr d"
proof -
  have sgn: "\<exists>r. getRelevantSign envsubst a b kv = Inr r" if ab: "a \<noteq> None \<or> b \<noteq> None" for a b
  proof -
    obtain cfg where c: "(case a of None \<Rightarrow> b | Some ms \<Rightarrow> (case b of None \<Rightarrow> Some ms | Some ks \<Rightarrow> Some (merge_sign ms ks))) = Some cfg"
      using ab by (cases a; cases b) auto
    obtain i where i: "ReplaceInTemplates envsubst vars [sgn_unsigned_image cfg] = Inr i" using ReplaceInTemplates_total [of envsubst, OF assms(1)] by blast
    obtain f where f: "ReplaceInTemplates envsubst vars (sgn_files cfg) = Inr f" using ReplaceInTemplates_total [of envsubst, OF assms(1)] by blast
    show ?thesis using i f unfolding getRelevantSign_def c by (simp add: assms(2) del: ReplaceInTemplates.simps)
  qed
  show ?thesis
  proof (cases "km_sign mapping \<noteq> None \<or> lc_sign (ml_container ml) \<noteq> None")
    case True
    then obtain r where "getRelevantSign envsubst (lc_sign (ml_container ml)) (km_sign mapping) kv = Inr r"
      using sgn [of "lc_sign (ml_container ml)" "km_sign mapping"] by blast
    then show ?thesis unfolding prepareModuleLoaderData_def assms(3) option.case Let_def if_P [OF True] by simp
  next
    case False
    then show ?thesis unfolding prepareModuleLoaderData_def assms(3) option.case Let_def if_not_P [OF False] by simp
  qed
qed

section \<open>Updates\<close>

text \<open>The versions of a module an admitted module goes through.\<close>

inductive admitted_updates :: "validators \<Rightarrow> kube_version option \<Rightarrow> kmodule \<Rightarrow> kmodule \<Rightarrow> bool" for va kv m where
  created: "ValidateCreate va kv m = None \<Longrightarrow> admitted_updates va kv m m"
| updated: "admitted_updates va kv m m1 \<Longrightarrow> ValidateUpdate va kv m1 m2 = None \<Longrightarrow> admitted_updates va kv m m2"

lemma ValidateUpdate_None:
  "ValidateUpdate va kv m1 m2 = None \<longleftrightarrow>
     (\<forall>a b. ms_loader (mod_spec m1) = Some a \<longrightarrow> ms_loader (mod_spec m2) = Some b \<longrightarrow>
        (lc_version (ml_container a) = []) = (lc_version (ml_container b) = [])) \<and>
     (ms_loader (mod_spec m1) = None) = (ms_loader (mod_spec m2) = None) \<and>
     (\<forall>d. ms_dra (mod_spec m1) = Some d \<longrightarrow> (\<exists>d'. ms_dra (mod_spec m2) = Some d' \<and> dra_driver_name d' = dra_driver_name d)) \<and>
     validateModule va m2 kv = None"
  by (auto simp: ValidateUpdate_def split: option.splits)

section \<open>A concrete module\<close>

definition lenient :: validators where
  "lenient = \<lparr>va_IsDNS1123Subdomain = (\<lambda>s. []), va_IsQualifiedName = (\<lambda>s. []), va_IsValidLabelValue = (\<lambda>s. []),
     va_regexp_Compile = (\<lambda>r. None)\<rparr>"

definition accepted_module :: kmodule where
  "accepted_module = new_module ''kmm'' ''mymod'' (empty_module_spec\<lparr>
     ms_device_plugin := Some \<lparr>dp_container = \<lparr>cc_command = [], cc_args = [], cc_env = [], cc_image = ''reg/dp:1'', cc_pull_policy = [],
         cc_resources = [], cc_mounts = [], cc_startup_probe = None, cc_liveness_probe = None, cc_security = None\<rparr>,
       dp_init = None, dp_service_account = [], dp_volumes = [\<lparr>vol_name = ''v'', vol_source = HostPath ''/dev/../var/lib'' None\<rparr>],
       dp_automount = None\<rparr>,
     ms_loader := Some \<lparr>ml_container =
       empty_loader_container\<lparr>lc_mappings := [empty_mapping\<lparr>km_literal := ''6.1.7'', km_image := ''reg/img:1''\<rparr>],
         lc_modprobe := empty_modprobe\<lparr>mp_module_name := ''mod'', mp_dir_name := ''/opt''\<rparr>\<rparr>, ml_service_account = []\<rparr>\<rparr>)"

lemma accepted_module_ok: "validateModule lenient accepted_module None = None"
  by code_simp

section \<open>Properties\<close>

text \<open>
  C25: the names of an accepted module are short enough for every label the operator makes from them: the part of
  each label name behind the slash has at most the 63 characters Kubernetes allows, and a combined length of 42
  would exceed them.
\<close>

theorem accepted_module_labels_fit:
  assumes "ValidateCreate va kubeVersion modu = None"
  shows "list_all (\<lambda>l. length (name_part l) \<le> 63) (node_labels_of (mod_namespace modu) (mod_name modu)) \<and>
    (\<forall>ns name. length ns + length name > maxCombinedLength \<longrightarrow> length (name_part (GetSchedulePodVersionLabelName ns name)) > 63)"
proof -
  have len: "length (mod_namespace modu) + length (mod_name modu) \<le> 41"
    using accepted_parts(1) assms by (simp add: ValidateCreate_def)
  have "list_all (\<lambda>n. n \<le> 63) (map (\<lambda>l. length (name_part l)) (node_labels_of (mod_namespace modu) (mod_name modu)))"
    unfolding node_label_lengths using len by simp
  moreover have "length (name_part (GetSchedulePodVersionLabelName ns name)) = 22 + length ns + length name" for ns name
    using node_label_lengths [of ns name] by (simp add: node_labels_of_def)
  ultimately show ?thesis by (simp add: list.pred_map comp_def maxCombinedLength_def)
qed

theorem accepted_module_labels_fit_witness:
  "list_all (\<lambda>l. length (name_part l) \<le> 63) (node_labels_of ''kmm'' ''mymod'')"
  using accepted_module_labels_fit [of lenient None accepted_module] accepted_module_ok
  by (simp add: ValidateCreate_def accepted_module_def new_module_def)

text \<open>
  C26: the host paths an accepted module mounts stay inside the allowed directories: after resolving \<^verbatim>\<open>.\<close> and
  \<^verbatim>\<open>..\<close> the path is absolute and its first component is one of dev, sys, var, opt and run.
\<close>

theorem accepted_host_paths_confined:
  assumes "ValidateCreate va kubeVersion modu = None"
    and "vol_source vol = HostPath path kind"
    and "(\<exists>dp. ms_device_plugin (mod_spec modu) = Some dp \<and> vol \<in> set (dp_volumes dp)) \<or>
         (\<exists>d. ms_dra (mod_spec modu) = Some d \<and> vol \<in> set (dra_volumes d))"
  shows "rooted path \<and> clean_comps True (path_comps path) \<noteq> [] \<and> hd (clean_comps True (path_comps path)) \<in> set host_dirs"
proof -
  obtain vols where "vol \<in> set vols" "validateHostPathVolumes vols = None"
    using assms(3) accepted_parts(2,3) assms(1) unfolding ValidateCreate_def by blast
  with assms(2) have "isAllowedHostPath path" by (auto simp: validateHostPathVolumes_def dest!: bspec)
  then show ?thesis by (simp add: isAllowedHostPath_iff Let_def)
qed

theorem accepted_host_paths_confined_witness:
  "hd (clean_comps True (path_comps ''/dev/../var/lib'')) \<in> set host_dirs"
  using accepted_host_paths_confined [of lenient None accepted_module "\<lparr>vol_name = ''v'', vol_source = HostPath ''/dev/../var/lib'' None\<rparr>"
      "''/dev/../var/lib''" None] accepted_module_ok
  by (simp add: ValidateCreate_def accepted_module_def new_module_def)



text \<open>
  An accepted module has data for every kernel it covers. With templates that expand and a kernel version of
  three components, the kernel mapper returns data for an accepted module with a loader unless no mapping matches
  the kernel, in which case its error says so; in particular no expression of an accepted module fails.
\<close>

theorem accepted_module_maps_kernels:
  assumes "ValidateCreate va kubeVersion modu = None" "ms_loader (mod_spec modu) = Some ml"
    and compiled: "\<And>r s. va_regexp_Compile va r = None \<Longrightarrow> \<exists>b. MatchString r s = Inr b"
    and templates: "\<And>vars t. \<exists>t'. envsubst vars t = Inr t'"
    and version: "KernelComponentsAsEnvVars (NormalizeVersion kv) = Inr vars"
  shows "(\<exists>d. GetModuleLoaderDataForKernel MatchString envsubst modu kv = Inr d) \<or>
    (\<exists>e. GetModuleLoaderDataForKernel MatchString envsubst modu kv = Inl e \<and> errors_Is e ErrNoMatchingKernelMapping \<and>
       list_all (\<lambda>m. mapping_matches MatchString kv m = Inr False) (lc_mappings (ml_container ml)))"
proof -
  let ?ms = "lc_mappings (ml_container ml)"
  have "\<exists>b. MatchString (km_regexp m) kv = Inr b" if "m \<in> set ?ms" for m
    using accepted_mapping(1) [OF _ assms(2) that] assms(1) compiled unfolding ValidateCreate_def by blast
  from findKernelMapping_total [of ?ms MatchString kv, OF this]
  show ?thesis
  proof
    assume "\<exists>m\<in>set ?ms. findKernelMapping MatchString ?ms kv = Inr m"
    then obtain m where m: "findKernelMapping MatchString ?ms kv = Inr m" by blast
    obtain d where d: "prepareModuleLoaderData envsubst m modu kv = Inr d" using prepare_total [of envsubst, OF templates version assms(2)] by blast
    have "\<exists>d'. replaceTemplates envsubst d = Inr d'"
    proof -
      obtain rs where "ReplaceInTemplates envsubst (vars @ [''MOD_NAME='' @ mld_name d, ''MOD_NAMESPACE='' @ mld_namespace d]) [mld_image d] = Inr rs"
        using ReplaceInTemplates_total [of envsubst, OF templates] by blast
      then show ?thesis using prepare_Inr [OF assms(2) d] version by (simp add: replaceTemplates_def del: ReplaceInTemplates.simps)
    qed
    then show ?thesis using m d assms(2) by (auto simp: GetModuleLoaderDataForKernel_def)
  next
    assume n: "findKernelMapping MatchString ?ms kv = Inl ErrNoMatchingKernelMapping"
    then show ?thesis using assms(2) by (simp add: GetModuleLoaderDataForKernel_def list_all_iff findKernelMapping_no_match [symmetric])
  qed
qed

theorem accepted_module_maps_kernels_witness:
  "(\<exists>d. GetModuleLoaderDataForKernel (\<lambda>r s. Inr (r = s)) (\<lambda>vars t. Inr t) accepted_module ''6.1.7'' = Inr d) \<or>
   (\<exists>e. GetModuleLoaderDataForKernel (\<lambda>r s. Inr (r = s)) (\<lambda>vars t. Inr t) accepted_module ''6.1.7'' = Inl e \<and>
      errors_Is e ErrNoMatchingKernelMapping)"
proof -
  obtain ml where ml: "ms_loader (mod_spec accepted_module) = Some ml" by (simp add: accepted_module_def new_module_def)
  have "case KernelComponentsAsEnvVars (NormalizeVersion ''6.1.7'') of Inl _ \<Rightarrow> False | Inr _ \<Rightarrow> True" by code_simp
  then obtain vars where v: "KernelComponentsAsEnvVars (NormalizeVersion ''6.1.7'') = Inr vars" by (auto split: sum.splits)
  show ?thesis
    using accepted_module_maps_kernels [OF _ ml _ _ v, of lenient None "\<lambda>r s. Inr (r = s)" "\<lambda>vars t. Inr t"] accepted_module_ok
    by (auto simp: ValidateCreate_def)
qed

text \<open>
  The webhook of PreflightValidations splits the kernel version as it is given, the kernel mapper after
  normalising it: a version separated by commas is accepted and then fails for every module.
\<close>

theorem comma_version_accepted_but_unusable:
  "validatePreflight ''6,1,7'' = None \<and>
   (\<exists>e. KernelComponentsAsEnvVars (NormalizeVersion ''6,1,7'') = Inl e)"
proof -
  have "case KernelComponentsAsEnvVars (NormalizeVersion ''6,1,7'') of Inl _ \<Rightarrow> True | Inr _ \<Rightarrow> False" by code_simp
  moreover have "validatePreflight ''6,1,7'' = None" by code_simp
  ultimately show ?thesis by (auto split: sum.splits)
qed

text \<open>The hub accepts a module under whatever name and spoke namespace, also one every spoke rejects.\<close>

theorem hub_ignores_name_length:
  assumes "length (mod_name modu) + length (mod_namespace modu) > 41"
  shows "Hub_ValidateCreate lenient None empty_module_spec = None \<and> ValidateCreate va kv modu \<noteq> None"
proof -
  have "Hub_ValidateCreate lenient None empty_module_spec = None" by code_simp
  then show ?thesis using accepted_parts(1) [of va modu kv] assms by (auto simp: ValidateCreate_def)
qed

text \<open>The version of a cluster reads back from its printed form.\<close>

lemma digits_fmt_d: "list_all is_digit (fmt_d n) \<and> fmt_d n \<noteq> []"
proof (induction n rule: fmt_d.induct)
  case (1 n)
  have d: "is_digit (char_of (48 + m))" if "m < 10" for m :: nat
  proof -
    have "m \<in> {0, 1, 2, 3, 4, 5, 6, 7, 8, 9}" using that by auto
    then show ?thesis by (elim insertE; simp add: is_digit_def less_eq_char_def of_char_of)
  qed
  show ?case
  proof (cases "n < 10")
    case True
    then show ?thesis using d by (simp add: fmt_d.simps [of n])
  next
    case False
    then show ?thesis using 1 d by (simp add: fmt_d.simps [of n])
  qed
qed

theorem kube_version_roundtrip:
  assumes "major < 2 ^ 63" "minor < 2 ^ 63" "rest = [] \<or> \<not> is_digit (hd rest)"
  shows "ParseKubeVersion (''v'' @ fmt_d major @ ''.'' @ fmt_d minor @ rest) = Inr \<lparr>kv_major = int major, kv_minor = int minor\<rparr>"
proof -
  have dot: "\<not> is_digit (CHR ''.'')" by (simp add: is_digit_def)
  have tk: "takeWhile is_digit (fmt_d n @ t) = fmt_d n" "dropWhile is_digit (fmt_d n @ t) = t"
    if "t = [] \<or> \<not> is_digit (hd t)" for n t
    using that digits_fmt_d [of n] by (cases t; simp add: list_all_iff takeWhile_append dropWhile_append)+
  have "kubeVersionRe (''v'' @ fmt_d major @ ''.'' @ fmt_d minor @ rest) = Some (fmt_d major, fmt_d minor)"
    using tk [of "CHR ''.'' # fmt_d minor @ rest" major] tk [OF assms(3), of minor] dot digits_fmt_d
    by (simp add: kubeVersionRe_def HasPrefix_def)
  then show ?thesis using assms(1,2) by (simp add: ParseKubeVersion_def Atoi_def parse_fmt_d)
qed

end
