(* ===== verification/Event_Filter.thy ===== *)
theory Event_Filter
  imports Node_Api Nmc Version_Labels
begin

text \<open>
  Which events wake which controller for which objects, \<^verbatim>\<open>internal/filter/filter.go\<close>. An event carries the
  object, an update the old and the new one; a predicate of controller-runtime is a test of events, whose missing
  functions accept (\<open>Funcs\<close>) and which conjunction and disjunction combine. \<open>LabelChangedPredicate\<close> and
  \<open>GenerationChangedPredicate\<close> of controller-runtime and the readiness of a pod are parameters.
  \<open>reflect.DeepEqual\<close> of label maps is equality of the maps. A request is the namespaced name of an object.
\<close>

section \<open>Events\<close>

datatype obj =
    Node_Obj node
  | Pod_Obj pod
  | NMC_Obj nmc
  | Cluster_Obj managed_cluster
  | DeviceClass_Obj device_class_obj
  | Other_Obj labels bool  \<comment> \<open>labels, and whether it is being deleted\<close>

datatype event = CreateEvent obj | UpdateEvent obj obj | DeleteEvent obj | GenericEvent obj

type_synonym predicate = "event \<Rightarrow> bool"

fun obj_labels :: "obj \<Rightarrow> labels" where
  "obj_labels (Node_Obj n) = node_labels n"
| "obj_labels (Pod_Obj p) = pod_labels p"
| "obj_labels (NMC_Obj n) = nmc_labels n"
| "obj_labels (Cluster_Obj c) = mcl_labels c"
| "obj_labels (DeviceClass_Obj d) = dco_labels d"
| "obj_labels (Other_Obj ls d) = ls"

fun obj_deleting :: "obj \<Rightarrow> bool" where
  "obj_deleting (Pod_Obj p) = pod_deleting p"
| "obj_deleting (Other_Obj ls d) = d"
| "obj_deleting _ = False"

text \<open>\<open>predicate.NewPredicateFuncs\<close>, and \<open>predicate.Funcs\<close> with only an update function.\<close>

fun NewPredicateFuncs :: "(obj \<Rightarrow> bool) \<Rightarrow> predicate" where
  "NewPredicateFuncs f (CreateEvent x) = f x"
| "NewPredicateFuncs f (UpdateEvent old new) = f new"
| "NewPredicateFuncs f (DeleteEvent x) = f x"
| "NewPredicateFuncs f (GenericEvent x) = f x"

fun UpdateFunc :: "(obj \<Rightarrow> obj \<Rightarrow> bool) \<Rightarrow> predicate" where
  "UpdateFunc f (UpdateEvent old new) = f old new"
| "UpdateFunc f _ = True"

abbreviation p_and :: "predicate \<Rightarrow> predicate \<Rightarrow> predicate" where
  "p_and p q \<equiv> \<lambda>e. p e \<and> q e"

abbreviation p_or :: "predicate \<Rightarrow> predicate \<Rightarrow> predicate" where
  "p_or p q \<equiv> \<lambda>e. p e \<or> q e"

section \<open>Predicates\<close>

definition HasLabel_pred :: "string \<Rightarrow> predicate" where
  "HasLabel_pred label = NewPredicateFuncs (\<lambda>x. label_of (obj_labels x) label \<noteq> [])"

fun skipDeletions :: predicate where
  "skipDeletions (DeleteEvent _) = False"
| "skipDeletions _ = True"

fun skipCreations :: predicate where
  "skipCreations (CreateEvent _) = False"
| "skipCreations _ = True"

definition nodeTaintsChanged :: predicate where
  "nodeTaintsChanged = UpdateFunc (\<lambda>old new. case (old, new) of
     (Node_Obj o', Node_Obj n) \<Rightarrow> node_taints n \<noteq> node_taints o' | _ \<Rightarrow> False)"

definition clusterClaim :: "string \<Rightarrow> cluster_claim list \<Rightarrow> cluster_claim option" where
  "clusterClaim name clusterClaims = find (\<lambda>c. ccl_name c = name) clusterClaims"

definition kmmClusterClaimChanged :: predicate where
  "kmmClusterClaimChanged = UpdateFunc (\<lambda>old new. case (old, new) of
     (Cluster_Obj o', Cluster_Obj n) \<Rightarrow>
       (case clusterClaim KernelVersionsClusterClaimName (mcl_claims n) of
          None \<Rightarrow> False
        | Some c \<Rightarrow> clusterClaim KernelVersionsClusterClaimName (mcl_claims o') \<noteq> Some c)
   | _ \<Rightarrow> False)"

definition modulePodSuccess :: predicate where
  "modulePodSuccess = UpdateFunc (\<lambda>old new. case new of Pod_Obj p \<Rightarrow> pod_phase p = PodSucceeded | _ \<Rightarrow> True)"

definition getNodeReadyConditionStatus :: "node \<Rightarrow> string" where
  "getNodeReadyConditionStatus node =
     (case find (\<lambda>(t, s). t = ''Ready'') (node_conditions node) of None \<Rightarrow> ''Unknown'' | Some (t, s) \<Rightarrow> s)"

definition filterRelevantNodeUpdates :: predicate where
  "filterRelevantNodeUpdates = UpdateFunc (\<lambda>old new. case (old, new) of
     (Node_Obj o', Node_Obj n) \<Rightarrow>
       if (node_taints o', node_spec_rest o') \<noteq> (node_taints n, node_spec_rest n) then True
       else if \<not> maps_Equal (node_labels o') (node_labels n) then True
       else if (node_kernel_version o', node_boot_id o', node_info_rest o') \<noteq> (node_kernel_version n, node_boot_id n, node_info_rest n)
       then True
       else getNodeReadyConditionStatus o' \<noteq> getNodeReadyConditionStatus n
   | _ \<Rightarrow> False)"

definition NMCReconcilerNodePredicate :: predicate where
  "NMCReconcilerNodePredicate = p_and skipDeletions filterRelevantNodeUpdates"

definition ModuleReconcilerNodePredicate :: "predicate \<Rightarrow> predicate" where
  "ModuleReconcilerNodePredicate LabelChanged = p_and skipDeletions (p_or nodeTaintsChanged LabelChanged)"

definition DevicePluginReconcilerNodePredicate :: predicate where
  "DevicePluginReconcilerNodePredicate = p_and skipDeletions nodeTaintsChanged"

definition ModuleReconcilePodPredicate :: predicate where
  "ModuleReconcilePodPredicate = p_and skipDeletions (p_and skipCreations modulePodSuccess)"

definition ModuleReconcileMICPredicate :: predicate where
  "ModuleReconcileMICPredicate = p_and skipCreations skipDeletions"

definition NodeUpdateKernelChangedPredicate :: predicate where
  "NodeUpdateKernelChangedPredicate = UpdateFunc (\<lambda>old new. case (old, new) of
     (Node_Obj o', Node_Obj n) \<Rightarrow> node_kernel_version o' \<noteq> node_kernel_version n | _ \<Rightarrow> False)"

definition ManagedClusterModuleReconcilerManagedClusterPredicate :: "predicate \<Rightarrow> predicate" where
  "ManagedClusterModuleReconcilerManagedClusterPredicate LabelChanged = p_or LabelChanged kmmClusterClaimChanged"

definition DeletingPredicate :: predicate where
  "DeletingPredicate = NewPredicateFuncs obj_deleting"

definition PodReadinessChangedPredicate :: "library \<Rightarrow> predicate" where
  "PodReadinessChangedPredicate lib = UpdateFunc (\<lambda>old new. case (old, new) of
     (Pod_Obj o', Pod_Obj n) \<Rightarrow> l_IsPodReady lib o' \<noteq> l_IsPodReady lib n | _ \<Rightarrow> True)"

definition PreflightReconcilerUpdatePredicate :: "predicate \<Rightarrow> predicate" where
  "PreflightReconcilerUpdatePredicate GenerationChanged = GenerationChanged"

definition NodeLabelModuleVersionUpdatePredicate :: predicate where
  "NodeLabelModuleVersionUpdatePredicate = UpdateFunc (\<lambda>old new. case (old, new) of
     (Node_Obj o', Node_Obj n) \<Rightarrow> \<not> maps_Equal (GetNodesVersionLabels (node_labels o')) (GetNodesVersionLabels (node_labels n))
   | _ \<Rightarrow> True)"

section \<open>Requests\<close>

definition DeviceClassToModuleReconcileRequest :: "obj \<Rightarrow> nsn list" where
  "DeviceClassToModuleReconcileRequest x =
     (let modName = label_of (obj_labels x) ModuleNameLabel; modNs = label_of (obj_labels x) ModuleNamespaceLabel
      in if modName = [] \<or> modNs = [] then [] else [(modNs, modName)])"

text \<open>A set of requests is a list without duplicates.\<close>

definition set_insert :: "nsn \<Rightarrow> nsn list \<Rightarrow> nsn list" where
  "set_insert r s = (if r \<in> set s then s else s @ [r])"

definition ListModulesForNMC :: "obj \<Rightarrow> nsn list" where
  "ListModulesForNMC x =
     fold (\<lambda>(k, v) modules.
       case IsModuleConfiguredLabel k of (ok, ns, name) \<Rightarrow>
         if ok then set_insert (ns, name) modules
         else case IsModuleInUseLabel k of (ok2, ns2, name2) \<Rightarrow> if ok2 then set_insert (ns2, name2) modules else modules)
       (obj_labels x) []"

text \<open>A selector that cannot be evaluated ends the loop.\<close>

fun modules_for_node :: "library \<Rightarrow> labels \<Rightarrow> kmodule list \<Rightarrow> nsn list" where
  "modules_for_node lib nodeLabels [] = []"
| "modules_for_node lib nodeLabels (m # mods) =
     (case IsObjectSelectedByLabels (l_requirement lib) nodeLabels (ms_selector (mod_spec m)) of
        Inl e \<Rightarrow> []
      | Inr False \<Rightarrow> modules_for_node lib nodeLabels mods
      | Inr True \<Rightarrow> (mod_namespace m, mod_name m) # modules_for_node lib nodeLabels mods)"

definition FindModulesForNode :: "library \<Rightarrow> server \<Rightarrow> obj \<Rightarrow> (nsn list) cio" where
  "FindModulesForNode lib srv node = do {
     r \<leftarrow> list_modules srv None;
     State_Monad.return (case r of Inl e \<Rightarrow> [] | Inr mods \<Rightarrow> modules_for_node lib (obj_labels node) mods)
   }"

definition selected_modules :: "library \<Rightarrow> labels \<Rightarrow> kmodule list \<Rightarrow> nsn list" where
  "selected_modules lib nodeLabels mods =
     fold (\<lambda>m reqSet.
       case IsObjectSelectedByLabels (l_requirement lib) nodeLabels (ms_selector (mod_spec m)) of
         Inr True \<Rightarrow> set_insert (mod_namespace m, mod_name m) reqSet
       | _ \<Rightarrow> reqSet) mods []"

definition FindModulesForNMCNodeChange :: "library \<Rightarrow> server \<Rightarrow> node \<Rightarrow> (nsn list) cio" where
  "FindModulesForNMCNodeChange lib srv node = do {
     r \<leftarrow> list_modules srv None;
     case r of
       Inl e \<Rightarrow> State_Monad.return []
     | Inr mods \<Rightarrow>
         (let reqSet = selected_modules lib (node_labels node) mods in do {
            n \<leftarrow> Nmc.Get srv (node_name node);
            State_Monad.return
              (case n of
                 Inl e \<Rightarrow> reqSet
               | Inr nms \<Rightarrow> fold (\<lambda>m s. set_insert (spec_nsn m) s) (nmc_spec nms) reqSet)
          })
   }"

text \<open>The search of the hub; ManagedClusterModules are cluster-scoped, their requests have no namespace.\<close>

fun mcms_for_cluster :: "library \<Rightarrow> labels \<Rightarrow> managed_cluster_module list \<Rightarrow> nsn list" where
  "mcms_for_cluster lib clusterLabels [] = []"
| "mcms_for_cluster lib clusterLabels (m # mods) =
     (case IsObjectSelectedByLabels (l_requirement lib) clusterLabels (mcm_selector m) of
        Inl e \<Rightarrow> []
      | Inr False \<Rightarrow> mcms_for_cluster lib clusterLabels mods
      | Inr True \<Rightarrow> ([], mcm_name m) # mcms_for_cluster lib clusterLabels mods)"

definition FindManagedClusterModulesForCluster :: "library \<Rightarrow> server \<Rightarrow> obj \<Rightarrow> (nsn list) cio" where
  "FindManagedClusterModulesForCluster lib srv cluster = do {
     r \<leftarrow> list_mcms srv;
     State_Monad.return (case r of Inl e \<Rightarrow> [] | Inr mods \<Rightarrow> mcms_for_cluster lib (obj_labels cluster) mods)
   }"

definition EnqueueAllPreflightValidations :: "server \<Rightarrow> (nsn list) cio" where
  "EnqueueAllPreflightValidations srv = do {
     r \<leftarrow> list_preflights srv;
     State_Monad.return (case r of
       Inl e \<Rightarrow> []
     | Inr pvs \<Rightarrow> map (\<lambda>pv. (pv_namespace pv, pv_name pv)) (filter (\<lambda>pv. \<not> pv_deleting pv) pvs))
   }"

section \<open>Lemmas\<close>

lemma set_set_insert [simp]: "set (set_insert r s) = insert r (set s)"
  by (auto simp: set_insert_def)

lemma distinct_set_insert: "distinct s \<Longrightarrow> distinct (set_insert r s)"
  by (simp add: set_insert_def)

abbreviation selects :: "library \<Rightarrow> labels \<Rightarrow> kmodule \<Rightarrow> bool" where
  "selects lib ls m \<equiv> IsObjectSelectedByLabels (l_requirement lib) ls (ms_selector (mod_spec m)) = Inr True"

lemma selected_modules_spec:
  "set (selected_modules lib ls mods) = {(mod_namespace m, mod_name m) |m. m \<in> set mods \<and> selects lib ls m} \<and>
   distinct (selected_modules lib ls mods)"
proof -
  let ?f = "\<lambda>m reqSet. case IsObjectSelectedByLabels (l_requirement lib) ls (ms_selector (mod_spec m)) of
      Inr True \<Rightarrow> set_insert (mod_namespace m, mod_name m) reqSet | _ \<Rightarrow> reqSet"
  have f: "?f m s = (if selects lib ls m then set_insert (mod_namespace m, mod_name m) s else s)" for m s
    by (auto split: sum.split bool.split)
  have "set (fold ?f mods s) = {(mod_namespace m, mod_name m) |m. m \<in> set mods \<and> selects lib ls m} \<union> set s \<and>
      (distinct s \<longrightarrow> distinct (fold ?f mods s))" for s
    unfolding f by (induction mods arbitrary: s) (auto simp: distinct_set_insert)
  from this [of "[]"] show ?thesis unfolding selected_modules_def by simp
qed

lemma fold_insert_spec:
  "set (fold (\<lambda>m s. set_insert (f m) s) xs s) = f ` set xs \<union> set s \<and>
   (distinct s \<longrightarrow> distinct (fold (\<lambda>m s. set_insert (f m) s) xs s))"
  by (induction xs arbitrary: s) (auto simp: distinct_set_insert)

lemma ListModulesForNMC_spec:
  "set (ListModulesForNMC x) = {(ns, name). valid_nsn ns name \<and>
     (has_key (obj_labels x) (ModuleConfiguredLabel ns name) \<or> has_key (obj_labels x) (ModuleInUseLabel ns name))}"
proof -
  define step where "step = (\<lambda>(k :: string, v :: string) modules.
       case IsModuleConfiguredLabel k of (ok, ns, name) \<Rightarrow>
         if ok then set_insert (ns, name) modules
         else case IsModuleInUseLabel k of (ok2, ns2, name2) \<Rightarrow> if ok2 then set_insert (ns2, name2) modules else modules)"
  have none: "IsModuleConfiguredLabel (ModuleInUseLabel ns name) \<noteq> (True, ns', name')" for ns name ns' name'
  proof
    assume "IsModuleConfiguredLabel (ModuleInUseLabel ns name) = (True, ns', name')"
    then have "ModuleInUseLabel ns name = ModuleConfiguredLabel ns' name'" using configured.dec_iff by blast
    then have "last (ModuleInUseLabel ns name) = last (ModuleConfiguredLabel ns' name')" by simp
    then show False by (simp add: ModuleInUseLabel_def ModuleConfiguredLabel_def)
  qed
  have one: "set (step (k, v) s) = set s \<union> {(ns, name). IsModuleConfiguredLabel k = (True, ns, name) \<or> IsModuleInUseLabel k = (True, ns, name)}" for k v s
  proof (cases "fst (IsModuleConfiguredLabel k)")
    case True
    then obtain ns name where c: "IsModuleConfiguredLabel k = (True, ns, name)" by (metis (full_types) prod.collapse)
    have "IsModuleInUseLabel k \<noteq> (True, a, b)" for a b using in_use.dec_iff none c by metis
    with c show ?thesis by (auto simp: step_def)
  next
    case False
    then show ?thesis by (cases "IsModuleConfiguredLabel k"; cases "IsModuleInUseLabel k") (auto simp: step_def)
  qed
  have "set (fold step ls s) = set s \<union> {(ns, name). \<exists>k\<in>fst ` set ls. IsModuleConfiguredLabel k = (True, ns, name) \<or> IsModuleInUseLabel k = (True, ns, name)}" for ls s
  proof (induction ls arbitrary: s)
    case (Cons a ls)
    obtain k v where "a = (k, v)" by force
    with Cons one show ?case by auto
  qed simp
  from this [of "obj_labels x" "[]"] show ?thesis
    unfolding ListModulesForNMC_def step_def [symmetric] configured.dec_iff in_use.dec_iff has_key_dom
    by (simp only: list.set(1) Un_empty_left set_eq_iff mem_Collect_eq split_paired_All prod.case) metis
qed

lemma map_of_filter_key: "map_of (filter (\<lambda>(k, v). P k) ls) k = (if P k then map_of ls k else None)"
  by (induction ls) auto

text \<open>What selection depends on: the labels as a map.\<close>

lemma selected_cong:
  assumes "\<And>k v r. requirement k v = Inr r \<Longrightarrow> r ls = r ls'"
  shows "IsObjectSelectedByLabels requirement ls sel = IsObjectSelectedByLabels requirement ls' sel"
proof (induction sel)
  case (Cons a sel)
  obtain k v where a: "a = (k, v)" by force
  show ?case
  proof (cases "requirement k v")
    case (Inr r)
    then show ?thesis using assms [OF Inr] Cons by (cases "IsObjectSelectedByLabels requirement ls' sel") (simp_all add: a)
  qed (simp add: a)
qed simp

section \<open>Properties\<close>

text \<open>
  A change of a node wakes the module controller for every module that has something to do with it: the
  modules whose selector the node's labels meet and the modules its NodeModulesConfig lists, each once, and no other.
\<close>

theorem node_change_wakes_modules:
  assumes "s_modules srv h None = Inr mods"
  shows "let reqs = fst (run_state (FindModulesForNMCNodeChange lib srv node) h) in distinct reqs \<and>
    set reqs = {(mod_namespace m, mod_name m) |m. m \<in> set mods \<and> selects lib (node_labels node) m} \<union>
      (case s_nmc srv (h @ [List_Modules None]) (node_name node) of Inl _ \<Rightarrow> {} | Inr n \<Rightarrow> spec_nsn ` set (nmc_spec n))"
  using assms selected_modules_spec [of lib "node_labels node" mods]
    fold_insert_spec [of spec_nsn _ "selected_modules lib (node_labels node) mods"]
  by (auto simp: FindModulesForNMCNodeChange_def Nmc.Get_def list_modules_def get_nmc_def Let_def split: sum.split)

theorem node_change_wakes_modules_witness:
  "let reqs = fst (run_state (FindModulesForNMCNodeChange plain_library
      (empty_cluster\<lparr>s_modules := (\<lambda>h q. Inr [new_module ''kmm'' ''mymod'' empty_module_spec])\<rparr>)
      \<lparr>node_name = ''n'', node_uid = [], node_labels = [], node_taints = [], node_kernel_version = [], node_boot_id = [],
       node_conditions = [], node_spec_rest = [], node_info_rest = []\<rparr>) []) in distinct reqs"
  using node_change_wakes_modules [of "empty_cluster\<lparr>s_modules := (\<lambda>h q. Inr [new_module ''kmm'' ''mymod'' empty_module_spec])\<rparr>" "[]"
      "[new_module ''kmm'' ''mymod'' empty_module_spec]" plain_library
      "\<lparr>node_name = ''n'', node_uid = [], node_labels = [], node_taints = [], node_kernel_version = [], node_boot_id = [],
       node_conditions = [], node_spec_rest = [], node_info_rest = []\<rparr>"]
  by (simp add: Let_def)



text \<open>
  The controller of device plugins only watches the taints of nodes: a node that starts or stops matching the
  selector of a module because its labels change does not wake it, although the label that lets the device plugin
  run there is set on the nodes the selector matches.
\<close>

theorem device_plugin_misses_label_changes:
  assumes "node_taints o' = node_taints n"
  shows "\<not> DevicePluginReconcilerNodePredicate (UpdateEvent (Node_Obj o') (Node_Obj n))"
  using assms by (simp add: DevicePluginReconcilerNodePredicate_def nodeTaintsChanged_def)

text \<open>Among selectors that can be evaluated the search of the hub finds exactly the ones the cluster meets, in order.\<close>

lemma mcms_for_cluster_spec:
  assumes "\<And>m. m \<in> set mods \<Longrightarrow> isl (IsObjectSelectedByLabels (l_requirement lib) ls (mcm_selector m)) = False"
  shows "mcms_for_cluster lib ls mods =
    map (\<lambda>m. ([], mcm_name m)) (filter (\<lambda>m. IsObjectSelectedByLabels (l_requirement lib) ls (mcm_selector m) = Inr True) mods)"
  using assms
proof (induction mods)
  case (Cons a mods)
  from Cons.prems [of a] show ?case
    using Cons by (cases "IsObjectSelectedByLabels (l_requirement lib) ls (mcm_selector a)") (simp_all split: bool.split)
qed simp

text \<open>
  One module whose selector cannot be evaluated hides the modules listed after it from the search for a node, which
  ends there, while the search for a changed node skips it.
\<close>

theorem bad_selector_hides_modules:
  assumes "IsObjectSelectedByLabels (l_requirement lib) ls (ms_selector (mod_spec bad)) = Inl e" "selects lib ls good"
  shows "modules_for_node lib ls [bad, good] = [] \<and> selected_modules lib ls [bad, good] = [(mod_namespace good, mod_name good)]"
  using assms by (simp add: selected_modules_def set_insert_def)

end
