(* ===== verification/Device_Plugin.thy ===== *)
theory Device_Plugin
  imports Node_Api
begin

text \<open>
  The controller of device plugins, \<^verbatim>\<open>internal/controllers/device_plugin_reconciler.go\<close>: the DaemonSet of a
  module's device plugin, the label that lets it run on a node, its garbage collection after an ordered upgrade,
  and its removal when the module goes away. \<open>versioned_daemonset\<close> is the interface of the two controllers that
  keep one DaemonSet per version of a module (the other one is in \<open>Dra\<close>).
\<close>

section \<open>The DaemonSet\<close>

definition kubeletDevicePluginsVolumeName :: string where
  "kubeletDevicePluginsVolumeName = ''kubelet-device-plugins''"

definition kubeletDevicePluginsPath :: string where
  "kubeletDevicePluginsPath = ''/var/lib/kubelet/device-plugins''"

definition privileged_context :: security_context where
  "privileged_context = \<lparr>sc_privileged = Some True, sc_capabilities = [], sc_selinux_type = None, sc_run_as_user = None\<rparr>"

definition generatePodContainerSpec ::
  "common_container option \<Rightarrow> string \<Rightarrow> volume_mount list \<Rightarrow> env_var list \<Rightarrow> probe option \<Rightarrow> probe option \<Rightarrow> ds_container list" where
  "generatePodContainerSpec containerSpec containerName presetVolumeMounts presetEnv livenessProbe startupProbe =
     (case containerSpec of
        None \<Rightarrow> []
      | Some c \<Rightarrow>
          [\<lparr>dsc_name = containerName, dsc_image = cc_image c, dsc_pull_policy = cc_pull_policy c, dsc_command = cc_command c,
            dsc_args = cc_args c, dsc_env = presetEnv @ cc_env c, dsc_resources = cc_resources c,
            dsc_security = (case cc_security c of None \<Rightarrow> Some privileged_context | Some s \<Rightarrow> Some s),
            dsc_mounts = presetVolumeMounts @ cc_mounts c, dsc_liveness_probe = livenessProbe, dsc_startup_probe = startupProbe\<rparr>])"

definition module_version :: "module_loader option \<Rightarrow> string" where
  "module_version ml = (case ml of None \<Rightarrow> [] | Some l \<Rightarrow> lc_version (ml_container l))"

text \<open>The labels a versioned DaemonSet of a module carries, with the role of the controller.\<close>

definition standard_labels :: "string \<Rightarrow> kmodule \<Rightarrow> labels" where
  "standard_labels role modu =
     (let ls = [(ModuleNameLabel, mod_name modu), (DaemonSetRole, role)]
      in if ms_loader (mod_spec modu) \<noteq> None \<and> module_version (ms_loader (mod_spec modu)) \<noteq> []
         then SetLabel (GetSchedulePodVersionLabelName (mod_namespace modu) (mod_name modu)) (module_version (ms_loader (mod_spec modu))) ls
         else ls)"

definition node_selector_for :: "string \<Rightarrow> kmodule \<Rightarrow> labels" where
  "node_selector_for targetLabel modu =
     (let sel = [(GetKernelModuleReadyNodeLabel (mod_namespace modu) (mod_name modu), []), (targetLabel, [])]
      in if ms_loader (mod_spec modu) \<noteq> None \<and> module_version (ms_loader (mod_spec modu)) \<noteq> []
         then SetLabel (GetSchedulePodVersionLabelName (mod_namespace modu) (mod_name modu)) (module_version (ms_loader (mod_spec modu))) sel
         else if ms_loader (mod_spec modu) = None then ms_selector (mod_spec modu)
         else sel)"

definition generateDevicePluginLabelsAndSelector :: "kmodule \<Rightarrow> labels \<times> labels" where
  "generateDevicePluginLabelsAndSelector modu =
     (standard_labels DevicePluginRoleLabelValue modu,
      node_selector_for (GetDevicePluginTargetNodeLabel (mod_namespace modu) (mod_name modu)) modu)"

definition overrideLabels :: "labels \<Rightarrow> labels \<Rightarrow> labels" where
  "overrideLabels ls overrides = fold (\<lambda>(k, v). SetLabel k v) overrides ls"

definition getPodPullSecrets :: "string option \<Rightarrow> string list" where
  "getPodPullSecrets secret = (case secret of None \<Rightarrow> [] | Some s \<Rightarrow> [s])"

definition setDevicePluginAsDesired :: "library \<Rightarrow> kmodule \<Rightarrow> daemonset \<Rightarrow> go_err + daemonset" where
  "setDevicePluginAsDesired lib modu ds =
     (case ms_device_plugin (mod_spec modu) of
        None \<Rightarrow> Inl (NewErr ''device plugin in module should not be nil'')
      | Some dp \<Rightarrow>
          (let containerVolumeMounts = [\<lparr>vm_name = kubeletDevicePluginsVolumeName, vm_path = kubeletDevicePluginsPath,
                 vm_sub_path = [], vm_read_only = False\<rparr>];
               devicePluginVolume = \<lparr>vol_name = kubeletDevicePluginsVolumeName,
                 vol_source = HostPath kubeletDevicePluginsPath (Some ''Directory'')\<rparr>;
               (standardLabels, nodeSelector) = generateDevicePluginLabelsAndSelector modu;
               ds' = ds\<lparr>ds_labels := overrideLabels (ds_labels ds) standardLabels,
                 ds_spec := \<lparr>dsp_selector = standardLabels, dsp_labels = standardLabels, dsp_finalizers = [NodeLabelerFinalizer],
                   dsp_pod = \<lparr>
                     dps_init_containers = generatePodContainerSpec (dp_init dp) ''device-plugin-init'' [] [] None None,
                     dps_containers = generatePodContainerSpec (Some (dp_container dp)) ''device-plugin'' containerVolumeMounts []
                       (cc_liveness_probe (dp_container dp)) (cc_startup_probe (dp_container dp)),
                     dps_priority_class = ''system-node-critical'', dps_host_network = False,
                     dps_pull_secrets = getPodPullSecrets (ms_repo_secret (mod_spec modu)),
                     dps_node_selector = nodeSelector, dps_service_account = dp_service_account dp,
                     dps_volumes = devicePluginVolume # dp_volumes dp,
                     dps_tolerations = ms_tolerations (mod_spec modu) @ InternalTolerations,
                     dps_automount = dp_automount dp\<rparr>\<rparr>\<rparr>
           in and_then (l_SetControllerReference lib (module_owner modu) (ds_owner ds')) (\<lambda>ow. Inr (ds'\<lparr>ds_owner := ow\<rparr>))))"

section \<open>Finding DaemonSets\<close>

definition getModuleDevicePluginDaemonSets :: "server \<Rightarrow> string \<Rightarrow> string \<Rightarrow> (go_err + daemonset list) cio" where
  "getModuleDevicePluginDaemonSets srv name namespace = do {
     r \<leftarrow> list_daemonsets srv [(ModuleNameLabel, name)] namespace;
     State_Monad.return (case r of
       Inl e \<Rightarrow> Inl (Errorf ''could not list DaemonSets'' e)
     | Inr dss \<Rightarrow> Inr (filter (\<lambda>ds. label_of (ds_labels ds) DaemonSetRole \<noteq> ModuleLoaderRoleLabelValue \<and>
                                  label_of (ds_labels ds) DaemonSetRole \<noteq> DRARoleLabelValue) dss))
   }"

definition getExistingDSFromVersion :: "daemonset list \<Rightarrow> string \<Rightarrow> string \<Rightarrow> module_loader option \<Rightarrow> daemonset option \<times> string" where
  "getExistingDSFromVersion existingDS moduleNamespace moduleName moduleLoader =
     (let version = module_version moduleLoader
      in (find (\<lambda>ds. label_of (ds_labels ds) (GetSchedulePodVersionLabelName moduleNamespace moduleName) = version) existingDS, version))"

definition isOlderVersionUnusedDevicePluginDaemonset :: "daemonset \<Rightarrow> string \<Rightarrow> bool" where
  "isOlderVersionUnusedDevicePluginDaemonset ds moduleVersion =
     (let moduleName = label_of (ds_labels ds) ModuleNameLabel;
          versionLabel = GetSchedulePodVersionLabelName (ds_namespace ds) moduleName
      in label_of (ds_labels ds) versionLabel \<noteq> moduleVersion \<and> ds_desired ds = 0)"

section \<open>Node labels\<close>

text \<open>Changing the labels of every node, collecting the errors.\<close>

definition update_each :: "server \<Rightarrow> string \<Rightarrow> (node \<Rightarrow> labels) \<Rightarrow> (node \<Rightarrow> labels) \<Rightarrow> node list \<Rightarrow> (go_err option) cio" where
  "update_each srv msg add rem nodes = do {
     es \<leftarrow> collect_errors (\<lambda>n. do { r \<leftarrow> UpdateLabels srv n (add n) (rem n); State_Monad.return (errorf_opt msg (fst r)) }) nodes;
     State_Monad.return (errors_Join es)
   }"

definition handleDevicePluginTargetLabels :: "library \<Rightarrow> server \<Rightarrow> kmodule \<Rightarrow> (go_err option) cio" where
  "handleDevicePluginTargetLabels lib srv modu =
     (if ms_device_plugin (mod_spec modu) = None then State_Monad.return None
      else
        (let targetLabel = GetDevicePluginTargetNodeLabel (mod_namespace modu) (mod_name modu);
             schedulable = (\<lambda>n. IsNodeSchedulable lib n (ms_tolerations (mod_spec modu)))
         in do {
           r \<leftarrow> GetAllNodesBySelector srv (ms_selector (mod_spec modu));
           case r of
             Inl e \<Rightarrow> State_Monad.return (Some (Errorf ''could not list nodes targeted by module'' e))
           | Inr nodes \<Rightarrow> update_each srv ''could not update device-plugin-target label on node''
               (\<lambda>n. if schedulable n then [(targetLabel, [])] else []) (\<lambda>n. if schedulable n then [] else [(targetLabel, [])]) nodes
         }))"

definition removeDevicePluginTargetLabels :: "server \<Rightarrow> kmodule \<Rightarrow> (go_err option) cio" where
  "removeDevicePluginTargetLabels srv modu =
     (let targetLabel = GetDevicePluginTargetNodeLabel (mod_namespace modu) (mod_name modu)
      in do {
        r \<leftarrow> GetAllNodesBySelector srv [(targetLabel, [])];
        case r of
          Inl e \<Rightarrow> State_Monad.return (Some (Errorf ''could not list nodes with device-plugin-target label'' e))
        | Inr nodes \<Rightarrow> update_each srv ''could not remove device-plugin-target label from node'' (\<lambda>n. []) (\<lambda>n. [(targetLabel, [])]) nodes
      })"

section \<open>Operations\<close>

text \<open>A loop of deletions that stops at the first error; the flag says whether a missing object is an error.\<close>

fun delete_until_error :: "server \<Rightarrow> bool \<Rightarrow> string \<Rightarrow> daemonset list \<Rightarrow> (go_err option) cio" where
  "delete_until_error srv ignoreMissing msg [] = State_Monad.return None"
| "delete_until_error srv ignoreMissing msg (ds # dss) = do {
     e \<leftarrow> do_write srv (Daemon (Delete_DaemonSet ds));
     case (if ignoreMissing then IgnoreNotFound e else e) of
       Some er \<Rightarrow> State_Monad.return (Some (Errorf msg er))
     | None \<Rightarrow> delete_until_error srv ignoreMissing msg dss
   }"

definition deleteDevicePluginDaemonSets :: "server \<Rightarrow> daemonset list \<Rightarrow> (go_err option) cio" where
  "deleteDevicePluginDaemonSets srv existing = delete_until_error srv True ''failed to delete device-plugin Daemonset'' existing"

definition garbageCollect_dp :: "server \<Rightarrow> kmodule \<Rightarrow> daemonset list \<Rightarrow> (go_err option) cio" where
  "garbageCollect_dp srv modu existingDS =
     (case ms_loader (mod_spec modu) of
        None \<Rightarrow> State_Monad.return None
      | Some ml \<Rightarrow> delete_until_error srv False ''could not delete device plugin DaemonSet''
          (filter (\<lambda>ds. isOlderVersionUnusedDevicePluginDaemonset ds (lc_version (ml_container ml))) existingDS))"

text \<open>The handlers that change the module return it too.\<close>

definition setFinalizer_dp :: "server \<Rightarrow> kmodule \<Rightarrow> (go_err option \<times> kmodule) cio" where
  "setFinalizer_dp srv modu =
     (if DevicePluginFinalizer \<in> set (mod_finalizers modu) then State_Monad.return (None, modu)
      else
        (let modu' = modu\<lparr>mod_finalizers := AddFinalizer DevicePluginFinalizer (mod_finalizers modu)\<rparr>
         in do { e \<leftarrow> do_write srv (Patch_Module modu modu'); State_Monad.return (e, modu') }))"

definition finalizeModule_dp :: "server \<Rightarrow> kmodule \<Rightarrow> (go_err option \<times> kmodule) cio" where
  "finalizeModule_dp srv modu = do {
     e \<leftarrow> removeDevicePluginTargetLabels srv modu;
     case e of
       Some er \<Rightarrow> State_Monad.return (Some (Wrapf ''could not remove device-plugin-target labels'' er), modu)
     | None \<Rightarrow> do {
         r \<leftarrow> getModuleDevicePluginDaemonSets srv (mod_name modu) (mod_namespace modu);
         case r of
           Inl er \<Rightarrow> State_Monad.return (Some er, modu)
         | Inr existing \<Rightarrow>
             if length existing > 0 then do { d \<leftarrow> deleteDevicePluginDaemonSets srv existing; State_Monad.return (d, modu) }
             else if DevicePluginFinalizer \<notin> set (mod_finalizers modu) then State_Monad.return (None, modu)
             else
               (let modu' = modu\<lparr>mod_finalizers := snd (RemoveFinalizer DevicePluginFinalizer (mod_finalizers modu))\<rparr>
                in do { p \<leftarrow> do_write srv (Patch_Module modu modu'); State_Monad.return (p, modu') })
       }
   }"

definition handleDevicePlugin :: "library \<Rightarrow> server \<Rightarrow> kmodule \<Rightarrow> daemonset list \<Rightarrow> (go_err option) cio" where
  "handleDevicePlugin lib srv modu existing =
     (if ms_device_plugin (mod_spec modu) = None then State_Monad.return None
      else
        (let ds = (case fst (getExistingDSFromVersion existing (mod_namespace modu) (mod_name modu) (ms_loader (mod_spec modu))) of
                     Some ds \<Rightarrow> ds | None \<Rightarrow> new_daemonset (mod_namespace modu) (mod_name modu @ ''-device-plugin-''))
         in Client.CreateOrPatch srv (get_daemonset srv (ds_namespace ds, ds_name ds)) ds (setDevicePluginAsDesired lib modu)
              (\<lambda>d. Daemon (Create_DaemonSet d)) (\<lambda>a b. Daemon (Patch_DaemonSet a b))))"

definition available_sum :: "daemonset list \<Rightarrow> int" where
  "available_sum dss = fold (\<lambda>ds n. go_int32 (n + ds_available ds)) dss 0"

definition moduleUpdateDevicePluginStatus :: "library \<Rightarrow> server \<Rightarrow> kmodule \<Rightarrow> daemonset list \<Rightarrow> (go_err option) cio" where
  "moduleUpdateDevicePluginStatus lib srv modu existing =
     (if ms_device_plugin (mod_spec modu) = None then State_Monad.return None
      else do {
        r \<leftarrow> GetNumTargetedNodes lib srv (ms_selector (mod_spec modu)) (ms_tolerations (mod_spec modu));
        case r of
          Inl e \<Rightarrow> State_Monad.return (Some (Errorf ''failed to determine the number of nodes that should be targeted'' e))
        | Inr num \<Rightarrow>
            do_write srv (Patch_Module_Status modu (modu\<lparr>mod_status := (mod_status modu)\<lparr>mst_device_plugin :=
              \<lparr>dss_matching = go_int32 (int num), dss_desired = go_int32 (int num), dss_available = available_sum existing\<rparr>\<rparr>\<rparr>))
      })"

definition clearDevicePluginStatus :: "server \<Rightarrow> kmodule \<Rightarrow> (go_err option) cio" where
  "clearDevicePluginStatus srv modu =
     (if mst_device_plugin (mod_status modu) = zero_ds then State_Monad.return None
      else do_write srv (Patch_Module_Status modu (modu\<lparr>mod_status := (mod_status modu)\<lparr>mst_device_plugin := zero_ds\<rparr>\<rparr>)))"

section \<open>Metrics\<close>

definition isModuleBuildAndSignCapable :: "loader_container \<Rightarrow> bool \<times> bool" where
  "isModuleBuildAndSignCapable c =
     (let b = (lc_build c \<noteq> None); s = (lc_sign c \<noteq> None)
      in if b \<and> s then (True, True)
         else (b \<or> list_ex (\<lambda>m. km_build m \<noteq> None) (lc_mappings c), s \<or> list_ex (\<lambda>m. km_sign m \<noteq> None) (lc_mappings c)))"

text \<open>The argument gauges of one module, \<^verbatim>\<open>internal/metrics/metrics.go\<close>.\<close>

definition arg_metrics :: "kmodule \<Rightarrow> call list" where
  "arg_metrics m =
     (case ms_loader (mod_spec m) of
        None \<Rightarrow> []
      | Some ml \<Rightarrow>
          (case mp_args (lc_modprobe (ml_container ml)) of
             None \<Rightarrow> []
           | Some a \<Rightarrow> [Other (Metric ''kmm_modprobe_args'' [mod_name m, mod_namespace m, join_with '','' (elems (mpa_load a))] 1)]) @
          (case mp_raw_args (lc_modprobe (ml_container ml)) of
             None \<Rightarrow> []
           | Some a \<Rightarrow> [Other (Metric ''kmm_modprobe_raw_args'' [mod_name m, mod_namespace m, join_with '','' (elems (mpa_load a))] 1)]))"

definition count_modules :: "(loader_container \<Rightarrow> bool) \<Rightarrow> kmodule list \<Rightarrow> int" where
  "count_modules P mods =
     int (length (filter (\<lambda>m. case ms_loader (mod_spec m) of None \<Rightarrow> False | Some ml \<Rightarrow> P (ml_container ml)) mods))"

definition setKMMOMetrics :: "server \<Rightarrow> unit cio" where
  "setKMMOMetrics srv = do {
     r \<leftarrow> list_modules srv None;
     case r of
       Inl e \<Rightarrow> State_Monad.return ()
     | Inr mods \<Rightarrow> do {
         _ \<leftarrow> State_Monad.traverse_list record_event (concat (map arg_metrics mods) @
           [Other (Metric ''kmm_module_num'' [] (int (length mods))),
            Other (Metric ''kmm_in_cluster_build_num'' [] (count_modules (\<lambda>c. fst (isModuleBuildAndSignCapable c)) mods)),
            Other (Metric ''kmm_in_cluster_sign_num'' [] (count_modules (\<lambda>c. snd (isModuleBuildAndSignCapable c)) mods)),
            Other (Metric ''kmm_device_plugin_num'' [] (int (length (filter (\<lambda>m. ms_device_plugin (mod_spec m) \<noteq> None) mods))))]);
         State_Monad.return ()
       }
   }"

section \<open>Reconcile\<close>

text \<open>Running steps until one fails.\<close>

definition then_run :: "(go_err option) cio \<Rightarrow> (go_err \<Rightarrow> go_err) \<Rightarrow> (go_err option) cio \<Rightarrow> (go_err option) cio" where
  "then_run m wrap next = do { e \<leftarrow> m; case e of Some er \<Rightarrow> State_Monad.return (Some (wrap er)) | None \<Rightarrow> next }"

text \<open>The steps for a module that is held.\<close>

definition handle_device_plugin :: "library \<Rightarrow> server \<Rightarrow> kmodule \<Rightarrow> (go_err option) cio" where
  "handle_device_plugin lib srv modu = do {
     r \<leftarrow> getModuleDevicePluginDaemonSets srv (mod_name modu) (mod_namespace modu);
     case r of
       Inl e \<Rightarrow> State_Monad.return (Some (Errorf ''could not get DaemonSets for module'' e))
     | Inr existing \<Rightarrow>
         then_run (handleDevicePluginTargetLabels lib srv modu) (Errorf ''could not reconcile device-plugin-target labels'')
        (then_run (handleDevicePlugin lib srv modu existing) (Wrapf ''could handle device plugin'')
        (then_run (garbageCollect_dp srv modu existing) (Errorf ''failed to run garbage collection'')
        (then_run (moduleUpdateDevicePluginStatus lib srv modu existing)
           (Wrapf ''failed to update device-plugin status of the module'') (State_Monad.return None))))
   }"

definition DevicePlugin_Reconcile :: "library \<Rightarrow> server \<Rightarrow> kmodule \<Rightarrow> (go_err option) cio" where
  "DevicePlugin_Reconcile lib srv modu =
     (if mod_deleting modu then do {
        r \<leftarrow> finalizeModule_dp srv modu;
        State_Monad.return (map_option (Errorf ''failed to finalize Module'') (fst r))
      }
      else do {
        _ \<leftarrow> setKMMOMetrics srv;
        (if ms_device_plugin (mod_spec modu) = None then do {
           r \<leftarrow> finalizeModule_dp srv modu;
           case fst r of
             Some e \<Rightarrow> State_Monad.return (Some (Errorf ''failed to finalize Module'' e))
           | None \<Rightarrow> clearDevicePluginStatus srv (snd r)
         }
         else do {
           f \<leftarrow> setFinalizer_dp srv modu;
           case fst f of
             Some e \<Rightarrow> State_Monad.return (Some (Errorf ''failed to set finalizer on Module'' e))
           | None \<Rightarrow> handle_device_plugin lib srv (snd f)
         })
      })"

section \<open>A concrete device plugin\<close>

definition gpu_container :: common_container where
  "gpu_container = \<lparr>cc_command = [], cc_args = [], cc_env = [], cc_image = ''gpu:1'', cc_pull_policy = [], cc_resources = [],
     cc_mounts = [], cc_startup_probe = None, cc_liveness_probe = None, cc_security = None\<rparr>"

definition gpu_module :: kmodule where
  "gpu_module = new_module ''kmm'' ''gpu'' (empty_module_spec\<lparr>
     ms_device_plugin := Some \<lparr>dp_container = gpu_container, dp_init = None, dp_service_account = [], dp_volumes = [], dp_automount = None\<rparr>,
     ms_dra := Some \<lparr>dra_container = gpu_container, dra_init = None, dra_service_account = [], dra_volumes = [], dra_automount = None,
       dra_driver_name = ''gpu.example.com'', dra_classes = [\<lparr>dc_name = ''gpu-class'', dc_selectors = [], dc_config = []\<rparr>]\<rparr>,
     ms_loader := Some \<lparr>ml_container = empty_loader_container\<lparr>lc_version := ''v2''\<rparr>, ml_service_account = []\<rparr>\<rparr>)"

text \<open>A DaemonSet of a role and version of that module, on no node.\<close>

definition old_daemonset :: "string \<Rightarrow> string \<Rightarrow> daemonset" where
  "old_daemonset role v = (new_daemonset ''kmm'' [])\<lparr>ds_name := ''gpu-'' @ v, ds_labels :=
     [(ModuleNameLabel, ''gpu''), (DaemonSetRole, role), (GetSchedulePodVersionLabelName ''kmm'' ''gpu'', v)]\<rparr>"

definition labelled_node :: "string \<Rightarrow> labels \<Rightarrow> node" where
  "labelled_node n ls = \<lparr>node_name = n, node_uid = n, node_labels = ls, node_taints = [], node_kernel_version = ''6.1'',
     node_boot_id = [], node_conditions = [], node_spec_rest = [], node_info_rest = []\<rparr>"

section \<open>Versioned DaemonSets\<close>

lemma update_same: "map_of ls k = Some v \<Longrightarrow> AList.update k v ls = ls"
  by (induction ls) (auto split: if_splits)

lemma map_of_overrideLabels:
  "distinct (map fst over) \<Longrightarrow> map_of (overrideLabels ls over) = map_of ls ++ map_of over"
proof (induction over arbitrary: ls)
  case Nil
  then show ?case by (simp add: overrideLabels_def)
next
  case (Cons a over)
  obtain k v where a: "a = (k, v)" by force
  have "overrideLabels ls (a # over) = overrideLabels (SetLabel k v ls) over"
    by (simp add: overrideLabels_def a)
  with Cons a show ?case by (auto simp: map_add_def map_of_eq_None_iff fun_eq_iff image_iff split: option.splits)
qed

lemma overrideLabels_id: "(\<forall>(k, v) \<in> set over. map_of ls k = Some v) \<Longrightarrow> overrideLabels ls over = ls"
  by (induction over) (auto simp: overrideLabels_def SetLabel_def update_same)

lemma overrideLabels_idem:
  assumes "distinct (map fst over)" shows "overrideLabels (overrideLabels ls over) over = overrideLabels ls over"
  using assms by (intro overrideLabels_id) (auto simp: map_of_overrideLabels map_add_def map_of_is_SomeI split: option.splits)

lemma schedule_label_differs [simp]:
  "GetSchedulePodVersionLabelName ns n \<noteq> ModuleNameLabel" "GetSchedulePodVersionLabelName ns n \<noteq> DaemonSetRole"
  "ModuleNameLabel \<noteq> DaemonSetRole" "ModuleNameLabel \<noteq> GetSchedulePodVersionLabelName ns n" "DaemonSetRole \<noteq> GetSchedulePodVersionLabelName ns n"
  "DaemonSetRole \<noteq> ModuleNameLabel"
  by (auto simp: GetSchedulePodVersionLabelName_def label_consts)

lemma distinct_standard_labels [simp]: "distinct (map fst (standard_labels role modu))"
  by (simp add: standard_labels_def Let_def SetLabel_def)

lemma standard_labels_of:
  "map_of (standard_labels role modu) ModuleNameLabel = Some (mod_name modu)"
  "map_of (standard_labels role modu) DaemonSetRole = Some role"
  "map_of (standard_labels role modu) (GetSchedulePodVersionLabelName (mod_namespace modu) (mod_name modu)) =
     (if module_version (ms_loader (mod_spec modu)) = [] then None else Some (module_version (ms_loader (mod_spec modu))))"
  by (auto simp: standard_labels_def Let_def module_version_def)

text \<open>
  The interface of the creators of versioned DaemonSets. A desired DaemonSet carries the labels of the module, of its
  role and of its version over its own; it selects the pods of its template by exactly these; the object keeps its
  name and namespace; and a DaemonSet with the desired labels, template and owner is desired already.
\<close>

locale versioned_daemonset =
  fixes desired :: "library \<Rightarrow> kmodule \<Rightarrow> daemonset \<Rightarrow> go_err + daemonset" and role :: string
  assumes desired_labels: "desired lib modu ds = Inr d \<Longrightarrow> ds_labels d = overrideLabels (ds_labels ds) (standard_labels role modu)"
    and desired_selector: "desired lib modu ds = Inr d \<Longrightarrow>
      dsp_selector (ds_spec d) = standard_labels role modu \<and> dsp_labels (ds_spec d) = standard_labels role modu"
    and desired_frame: "desired lib modu ds = Inr d \<Longrightarrow> ds_name d = ds_name ds \<and> ds_namespace d = ds_namespace ds"
    and desired_settled: "desired lib modu ds = Inr d \<Longrightarrow> ds_labels d' = ds_labels d \<Longrightarrow> ds_spec d' = ds_spec d \<Longrightarrow>
      l_SetControllerReference lib (module_owner modu) (ds_owner d') = Inr (ds_owner d') \<Longrightarrow> desired lib modu d' = Inr d'"
begin

lemma label_of_desired:
  assumes "desired lib modu ds = Inr d" "ds_labels d' = ds_labels d"
  shows "label_of (ds_labels d') ModuleNameLabel = mod_name modu" "label_of (ds_labels d') DaemonSetRole = role"
    "label_of (ds_labels ds) (GetSchedulePodVersionLabelName (mod_namespace modu) (mod_name modu)) = [] \<or>
     label_of (ds_labels ds) (GetSchedulePodVersionLabelName (mod_namespace modu) (mod_name modu)) = module_version (ms_loader (mod_spec modu)) \<Longrightarrow>
     label_of (ds_labels d') (GetSchedulePodVersionLabelName (mod_namespace modu) (mod_name modu)) = module_version (ms_loader (mod_spec modu))"
  using assms(2) desired_labels [OF assms(1)]
  by (auto simp: lookup_default_def map_of_overrideLabels map_add_def standard_labels_of split: option.splits if_splits)

lemma found_again:
  assumes "desired lib modu ds = Inr d" and "ds_labels d' = ds_labels d"
    and "label_of (ds_labels ds) (GetSchedulePodVersionLabelName (mod_namespace modu) (mod_name modu)) \<in> {[], module_version (ms_loader (mod_spec modu))}"
    and "d' \<in> set dss" and "\<forall>x\<in>set dss. x \<noteq> d' \<longrightarrow>
      label_of (ds_labels x) (GetSchedulePodVersionLabelName (mod_namespace modu) (mod_name modu)) \<noteq> module_version (ms_loader (mod_spec modu))"
  shows "fst (getExistingDSFromVersion dss (mod_namespace modu) (mod_name modu) (ms_loader (mod_spec modu))) = Some d'"
proof -
  have "label_of (ds_labels d') (GetSchedulePodVersionLabelName (mod_namespace modu) (mod_name modu)) = module_version (ms_loader (mod_spec modu))"
    using assms(3) by (intro label_of_desired(3) [OF assms(1,2)]) simp
  with assms(4,5) show ?thesis
    by (auto simp: getExistingDSFromVersion_def Let_def) (induction dss; auto)
qed

lemma left_alone:
  assumes "desired lib modu ds = Inr d" and "ds_labels d' = ds_labels d" "ds_spec d' = ds_spec d"
    and "l_SetControllerReference lib (module_owner modu) (ds_owner d') = Inr (ds_owner d')"
    and "s_daemonset srv h key = Inr d'"
  shows "run_state (Client.CreateOrPatch srv (get_daemonset srv key) x (desired lib modu) c p) h = (None, h @ [Daemon (Get_DaemonSet key)])"
  using assms(5) desired_settled [OF assms(1-4)] by (simp add: Client.CreateOrPatch_def get_daemonset_def)

end

interpretation dp: versioned_daemonset setDevicePluginAsDesired DevicePluginRoleLabelValue
  by unfold_locales
    (auto simp: setDevicePluginAsDesired_def generateDevicePluginLabelsAndSelector_def Let_def and_then_Inr overrideLabels_idem
      split: option.splits)

text \<open>The DaemonSet a creation of \<open>CreateOrPatch\<close> comes from.\<close>

lemma CreateOrPatch_creates:
  assumes "Daemon (Create_DaemonSet d) \<in> set (calls (Client.CreateOrPatch srv (get_daemonset srv key) x f
     (\<lambda>d. Daemon (Create_DaemonSet d)) (\<lambda>a b. Daemon (Patch_DaemonSet a b))) h)"
  shows "f x = Inr d"
  using assms
  by (auto simp: Client.CreateOrPatch_def get_daemonset_def do_write_def calls_def split: sum.splits if_splits)

lemma existing_has_version:
  "fst (getExistingDSFromVersion dss ns name ml) = Some ds \<Longrightarrow>
     ds \<in> set dss \<and> label_of (ds_labels ds) (GetSchedulePodVersionLabelName ns name) = module_version ml"
  by (auto simp: getExistingDSFromVersion_def Let_def find_Some_iff)

text \<open>
  The DaemonSet of a device plugin is made once. When one that \<open>handleDevicePlugin\<close> created is listed on a later pass,
  with the labels, the template and the settled owner it was created with (whatever name and status it got since), as the
  only one of the module's version, that pass finds it, reads it and writes nothing.
\<close>

theorem device_plugin_daemonset_kept:
  assumes "Daemon (Create_DaemonSet d) \<in> set (calls (handleDevicePlugin lib srv modu existing) h)"
    and "ds_labels d' = ds_labels d" "ds_spec d' = ds_spec d"
    and "l_SetControllerReference lib (module_owner modu) (ds_owner d') = Inr (ds_owner d')"
    and "d' \<in> set existing'" and "\<forall>x\<in>set existing'. x \<noteq> d' \<longrightarrow>
      label_of (ds_labels x) (GetSchedulePodVersionLabelName (mod_namespace modu) (mod_name modu)) \<noteq> module_version (ms_loader (mod_spec modu))"
    and "s_daemonset srv' h' (ds_namespace d', ds_name d') = Inr d'"
  shows "run_state (handleDevicePlugin lib srv' modu existing') h' = (None, h' @ [Daemon (Get_DaemonSet (ds_namespace d', ds_name d'))])"
proof -
  let ?found = "fst (getExistingDSFromVersion existing (mod_namespace modu) (mod_name modu) (ms_loader (mod_spec modu)))"
  let ?ds = "case ?found of Some ds \<Rightarrow> ds | None \<Rightarrow> new_daemonset (mod_namespace modu) (mod_name modu @ ''-device-plugin-'')"
  have dp: "ms_device_plugin (mod_spec modu) \<noteq> None"
  proof
    assume "ms_device_plugin (mod_spec modu) = None"
    with assms(1) show False by (simp add: handleDevicePlugin_def calls_def)
  qed
  with assms(1) have d: "setDevicePluginAsDesired lib modu ?ds = Inr d"
    by (auto simp: handleDevicePlugin_def Let_def intro: CreateOrPatch_creates)
  have "label_of (ds_labels ?ds) (GetSchedulePodVersionLabelName (mod_namespace modu) (mod_name modu)) \<in> {[], module_version (ms_loader (mod_spec modu))}"
    by (auto simp: new_daemonset_def dest: existing_has_version split: option.splits)
  from dp.found_again [OF d assms(2) this assms(5,6)] dp dp.left_alone [OF d assms(2-4) assms(7)] show ?thesis
    by (simp add: handleDevicePlugin_def Let_def)
qed

theorem device_plugin_daemonset_kept_witness:
  "\<exists>d. Daemon (Create_DaemonSet d) \<in> set (calls (handleDevicePlugin plain_library empty_cluster gpu_module []) []) \<and>
     run_state (handleDevicePlugin plain_library (empty_cluster\<lparr>s_daemonset := (\<lambda>h k. Inr (d\<lparr>ds_name := ''gpu-x'', ds_available := 3\<rparr>))\<rparr>)
       gpu_module [d\<lparr>ds_name := ''gpu-x'', ds_available := 3\<rparr>]) [] = (None, [Daemon (Get_DaemonSet (''kmm'', ''gpu-x''))])"
proof -
  let ?d = "projr (setDevicePluginAsDesired plain_library gpu_module (new_daemonset ''kmm'' ''gpu-device-plugin-''))"
  let ?d' = "?d\<lparr>ds_name := ''gpu-x'', ds_available := 3\<rparr>"
  have created: "list_ex (\<lambda>c. c = Daemon (Create_DaemonSet ?d)) (calls (handleDevicePlugin plain_library empty_cluster gpu_module []) [])"
    by code_simp
  have "ds_owner ?d = Some (module_owner gpu_module)" "ds_namespace ?d = ''kmm''" by code_simp+
  then have "run_state (handleDevicePlugin plain_library (empty_cluster\<lparr>s_daemonset := (\<lambda>h k. Inr ?d')\<rparr>) gpu_module [?d']) [] =
     (None, [] @ [Daemon (Get_DaemonSet (ds_namespace ?d', ds_name ?d'))])"
    using created by (intro device_plugin_daemonset_kept [where d = ?d and existing = "[]" and srv = empty_cluster and h = "[]"])
      (simp_all add: plain_library_def list_ex_iff)
  with created \<open>ds_namespace ?d = ''kmm''\<close> show ?thesis by (intro exI [of _ ?d]) (simp add: list_ex_iff)
qed

section \<open>Cleaning up\<close>

text \<open>When joining the errors of a loop gives none, every iteration did what it says on success.\<close>

lemma does_collect_errors:
  assumes "\<And>x. x \<in> set xs \<Longrightarrow> does P (\<lambda>e. e = None \<longrightarrow> Q x) (f x)"
  shows "does P (\<lambda>es. (\<forall>e\<in>set es. e = None) \<longrightarrow> (\<forall>x\<in>set xs. Q x)) (collect_errors f xs)"
  using assms
proof (induction xs)
  case Nil
  then show ?case by (simp add: does_intros)
next
  case (Cons a xs)
  have "does P (\<lambda>e. e = None \<longrightarrow> Q a) (f a)" by (rule Cons.prems) simp
  moreover have "does P (\<lambda>es. (\<forall>e\<in>set es. e = None) \<longrightarrow> (\<forall>x\<in>set xs. Q x)) (collect_errors f xs)"
    by (rule Cons.IH) (rule Cons.prems, simp)
  ultimately show ?case
    by (auto intro!: does_bind does_intros split: option.splits)
qed

text \<open>A node is cleared of a label when it does not have it or a patch that takes it away was accepted.\<close>

definition cleared :: "server \<Rightarrow> string \<Rightarrow> node \<Rightarrow> bool" where
  "cleared srv l n \<longleftrightarrow> (has_key (node_labels n) l \<longrightarrow>
     (\<exists>h n'. s_write srv h (Patch_Node n n') = None \<and> \<not> has_key (node_labels n') l))"

lemma does_remove_label:
  assumes "\<And>n'. P (Patch_Node n n')"
  shows "does P (\<lambda>r. fst r = None \<longrightarrow> cleared srv l n) (UpdateLabels srv n [] [(l, [])])"
  unfolding does_def
proof (intro conjI allI emits_intros assms)
  fix h
  let ?n = "n\<lparr>node_labels := RemoveLabel l (node_labels n)\<rparr>"
  have "cleared srv l n" if "s_write srv h (Patch_Node n ?n) = None"
    unfolding cleared_def using that by (intro impI exI [of _ h] exI [of _ ?n]) simp
  then show "fst (fst (run_state (UpdateLabels srv n [] [(l, [])]) h)) = None \<longrightarrow> cleared srv l n"
    by (auto simp: UpdateLabels_def Let_def addLabels_def removeLabels_def maps_Equal_iff do_write_def)
      (auto simp: cleared_def has_key_def dest: fun_cong [of _ _ l])
qed

lemma does_update_each:
  assumes "\<And>n n'. n \<in> set nodes \<Longrightarrow> P (Patch_Node n n')"
  shows "does P (\<lambda>r. r = None \<longrightarrow> (\<forall>n\<in>set nodes. cleared srv l n)) (update_each srv msg (\<lambda>n. []) (\<lambda>n. [(l, [])]) nodes)"
  unfolding update_each_def
proof (rule does_bind [OF does_collect_errors])
  fix n assume n: "n \<in> set nodes"
  show "does P (\<lambda>e. e = None \<longrightarrow> cleared srv l n)
     (do { r \<leftarrow> UpdateLabels srv n [] [(l, [])]; State_Monad.return (errorf_opt msg (fst r)) })"
    by (rule does_bind [OF does_remove_label]) (auto intro!: does_intros assms n)
qed (auto intro!: does_intros)

text \<open>The DaemonSets a listing leaves out are those of other roles.\<close>

definition device_plugin_role :: "daemonset \<Rightarrow> bool" where
  "device_plugin_role ds \<longleftrightarrow> label_of (ds_labels ds) DaemonSetRole \<notin> {ModuleLoaderRoleLabelValue, DRARoleLabelValue}"

lemma does_listing:
  assumes "P (Daemon (List_DaemonSets [(ModuleNameLabel, name)] ns))"
  shows "does P (\<lambda>r. \<forall>dss. r = Inr dss \<longrightarrow>
     (\<exists>h all. s_daemonsets srv h [(ModuleNameLabel, name)] ns = Inr all \<and> dss = filter device_plugin_role all))
   (getModuleDevicePluginDaemonSets srv name ns)"
  unfolding getModuleDevicePluginDaemonSets_def
  by (rule does_bind [OF does_requests(8)], rule assms)
    (auto intro!: does_intros simp: device_plugin_role_def [abs_def] split: sum.splits)

lemma emits_delete_until_error [emits_intros]:
  "(\<And>ds. ds \<in> set dss \<Longrightarrow> P (Daemon (Delete_DaemonSet ds))) \<Longrightarrow> emits P (delete_until_error srv b msg dss)"
  by (induction dss) (auto intro!: emits_intros split: option.splits)



section \<open>Reconciling a live module\<close>

text \<open>What the controller protects with its finalizer: every write but the gauges.\<close>

fun protected_write :: "call \<Rightarrow> bool" where
  "protected_write (Other (Metric _ _ _)) = False"
| "protected_write c = is_write c"

lemma emits_then_run [emits_intros]: "emits P m \<Longrightarrow> emits P next \<Longrightarrow> emits P (then_run m wrap next)"
  unfolding then_run_def by (intro emits_intros)

lemma emits_update_each [emits_intros]:
  "(\<And>n n'. n \<in> set nodes \<Longrightarrow> P (Patch_Node n n')) \<Longrightarrow> emits P (update_each srv msg add rem nodes)"
  unfolding update_each_def by (intro emits_intros)

lemma emits_metrics: "emits (\<lambda>c. \<not> protected_write c) (setKMMOMetrics srv)"
  unfolding setKMMOMetrics_def by (intro emits_intros) (auto simp: arg_metrics_def split: option.splits)

lemma emits_live_steps:
  assumes "\<And>sel. P (List_Nodes sel)" "\<And>a b. P (Patch_Node a b)" "\<And>k. P (Daemon (Get_DaemonSet k))" "\<And>d. P (Daemon (Create_DaemonSet d))"
    "\<And>a b. P (Daemon (Patch_DaemonSet a b))" "\<And>a b. P (Patch_Module_Status a b)"
  shows "emits P (handleDevicePluginTargetLabels lib srv modu)" "emits P (handleDevicePlugin lib srv modu dss)"
    "emits P (moduleUpdateDevicePluginStatus lib srv modu dss)"
  unfolding handleDevicePluginTargetLabels_def handleDevicePlugin_def moduleUpdateDevicePluginStatus_def
    GetNumTargetedNodes_def GetAllNodesBySelector_def Let_def
  by (intro emits_intros assms)+

text \<open>
  A reconciled device plugin deletes only DaemonSets that have served. For a module that stays and has a
  device plugin, a deleted DaemonSet was listed with the module's name, is no other controller's, carries another
  version than the module's, and is wanted on no node.
\<close>

theorem device_plugin_deletes_only_unused:
  assumes "\<not> mod_deleting modu" "ms_device_plugin (mod_spec modu) \<noteq> None"
    and c: "Daemon (Delete_DaemonSet ds) \<in> set (calls (DevicePlugin_Reconcile lib srv modu) h)"
  shows "(\<exists>h' all. s_daemonsets srv h' [(ModuleNameLabel, mod_name modu)] (mod_namespace modu) = Inr all \<and> ds \<in> set all) \<and>
    device_plugin_role ds \<and> ds_desired ds = 0 \<and>
    (\<exists>ml. ms_loader (mod_spec modu) = Some ml \<and> label_of (ds_labels ds)
       (GetSchedulePodVersionLabelName (ds_namespace ds) (label_of (ds_labels ds) ModuleNameLabel)) \<noteq> lc_version (ml_container ml))"
proof -
  let ?Q = "\<lambda>ds. (\<exists>h' all. s_daemonsets srv h' [(ModuleNameLabel, mod_name modu)] (mod_namespace modu) = Inr all \<and> ds \<in> set all) \<and>
    device_plugin_role ds \<and> ds_desired ds = 0 \<and>
    (\<exists>ml. ms_loader (mod_spec modu) = Some ml \<and> label_of (ds_labels ds)
       (GetSchedulePodVersionLabelName (ds_namespace ds) (label_of (ds_labels ds) ModuleNameLabel)) \<noteq> lc_version (ml_container ml))"
  let ?P = "\<lambda>c. \<forall>ds. c = Daemon (Delete_DaemonSet ds) \<longrightarrow> ?Q ds"
  have gc: "emits ?P (garbageCollect_dp srv m dss)"
    if "mod_spec m = mod_spec modu" "s_daemonsets srv h' [(ModuleNameLabel, mod_name modu)] (mod_namespace modu) = Inr all"
      "dss = filter device_plugin_role all" for m h' all dss
    using that unfolding garbageCollect_dp_def
    by (auto intro!: emits_intros simp: isOlderVersionUnusedDevicePluginDaemonset_def Let_def split: option.splits) blast
  have fin: "does ?P (\<lambda>r. mod_spec (snd r) = mod_spec modu \<and> mod_name (snd r) = mod_name modu \<and> mod_namespace (snd r) = mod_namespace modu)
      (setFinalizer_dp srv modu)"
    unfolding setFinalizer_dp_def Let_def by (auto intro!: does_intros does_bind [OF does_requests(6)])
  have metrics: "emits ?P (setKMMOMetrics srv)"
    by (rule emits_mono [OF emits_metrics]) auto
  have live: "emits ?P (handle_device_plugin lib srv m)"
    if "mod_spec m = mod_spec modu" "mod_name m = mod_name modu" "mod_namespace m = mod_namespace modu" for m
    unfolding handle_device_plugin_def that(2,3)
    by (rule does_emits [where Q = "\<lambda>_. True"], rule does_bind [OF does_listing], simp,
        intro does_intros TrueI emits_does emits_intros emits_live_steps) (auto intro: gc that)
  have "emits ?P (DevicePlugin_Reconcile lib srv modu)"
    unfolding DevicePlugin_Reconcile_def if_not_P [OF assms(1)] if_not_P [OF assms(2)]
    by (rule does_emits [where Q = "\<lambda>_. True"], rule does_bind [OF emits_does [OF metrics]], rule does_bind [OF fin],
        intro does_intros TrueI emits_does live) auto
  from emits_calls [OF this c] show ?thesis by blast
qed

theorem device_plugin_deletes_only_unused_witness:
  "Daemon (Delete_DaemonSet (old_daemonset DevicePluginRoleLabelValue ''v1'')) \<in> set (calls (DevicePlugin_Reconcile plain_library
     (empty_cluster\<lparr>s_daemonsets := (\<lambda>h q ns. Inr [old_daemonset DevicePluginRoleLabelValue ''v1''])\<rparr>) gpu_module) []) \<and>
   device_plugin_role (old_daemonset DevicePluginRoleLabelValue ''v1'')"
proof -
  let ?ds = "old_daemonset DevicePluginRoleLabelValue ''v1''"
  let ?run = "calls (DevicePlugin_Reconcile plain_library (empty_cluster\<lparr>s_daemonsets := (\<lambda>h q ns. Inr [?ds])\<rparr>) gpu_module) []"
  have "list_ex (\<lambda>c. c = Daemon (Delete_DaemonSet ?ds)) ?run" by code_simp
  then have c: "Daemon (Delete_DaemonSet ?ds) \<in> set ?run" by (auto simp: list_ex_iff)
  moreover have "device_plugin_role ?ds"
    using device_plugin_deletes_only_unused [OF _ _ c] by (simp add: gpu_module_def new_module_def)
  ultimately show ?thesis by blast
qed

text \<open>
  The module is held before anything is written. For a module that stays and has a device plugin, unless the module
  has the finalizer of the controller already, the first write (gauges aside) adds it, and nothing else is written
  unless the API server accepted that.
\<close>

theorem device_plugin_finalizer_first:
  assumes "\<not> mod_deleting modu" "ms_device_plugin (mod_spec modu) \<noteq> None" "DevicePluginFinalizer \<notin> set (mod_finalizers modu)"
  shows "let add = Patch_Module modu (modu\<lparr>mod_finalizers := mod_finalizers modu @ [DevicePluginFinalizer]\<rparr>);
             ws = filter protected_write (calls (DevicePlugin_Reconcile lib srv modu) h)
         in \<exists>rest. ws = add # rest \<and> (rest = [] \<or> (\<exists>h'. s_write srv h' add = None))"
proof -
  let ?add = "Patch_Module modu (modu\<lparr>mod_finalizers := mod_finalizers modu @ [DevicePluginFinalizer]\<rparr>)"
  let ?k = "\<lambda>f. case fst f of Some e \<Rightarrow> State_Monad.return (Some (Errorf ''failed to set finalizer on Module'' e))
     | None \<Rightarrow> handle_device_plugin lib srv (snd f)"
  have gc: "emits (\<lambda>_. True) (garbageCollect_dp srv m dss)" for m dss
    unfolding garbageCollect_dp_def by (auto intro!: emits_intros split: option.splits)
  have k: "emits (\<lambda>_. True) (?k f)" for f
    unfolding handle_device_plugin_def getModuleDevicePluginDaemonSets_def by (intro emits_intros emits_live_steps gc TrueI)
  have fin: "emits (\<lambda>_. True) (setFinalizer_dp srv modu)"
    unfolding setFinalizer_dp_def Let_def by (intro emits_intros TrueI)
  let ?h = "h @ calls (setKMMOMetrics srv) h"
  let ?f = "fst (run_state (setFinalizer_dp srv modu) ?h)"
  have "calls (DevicePlugin_Reconcile lib srv modu) h =
     calls (setKMMOMetrics srv) h @ calls (setFinalizer_dp srv modu) ?h @ calls (?k ?f) (?h @ calls (setFinalizer_dp srv modu) ?h)"
    unfolding DevicePlugin_Reconcile_def if_not_P [OF assms(1)] if_not_P [OF assms(2)]
    by (subst calls_bind [OF emits_metrics], rule emits_bind [OF fin k], subst calls_bind [OF fin k], rule refl)
  moreover have "filter protected_write (calls (setKMMOMetrics srv) h) = []"
    using emits_calls [OF emits_metrics] by (auto simp: filter_empty_conv)
  moreover have "calls (setFinalizer_dp srv modu) ?h = [?add]" "fst ?f = s_write srv ?h ?add"
    using assms(3) by (simp_all add: setFinalizer_dp_def AddFinalizer_def Let_def calls_def do_write_def)
  moreover have "calls (?k ?f) h' = []" if "fst ?f \<noteq> None" for h' using that by (auto simp: calls_def)
  ultimately show ?thesis by (auto simp: Let_def)
qed

theorem device_plugin_finalizer_first_witness:
  "\<exists>rest. filter protected_write (calls (DevicePlugin_Reconcile plain_library empty_cluster gpu_module) []) =
     Patch_Module gpu_module (gpu_module\<lparr>mod_finalizers := [DevicePluginFinalizer]\<rparr>) # rest"
  using device_plugin_finalizer_first [of gpu_module plain_library empty_cluster "[]"]
  by (auto simp: Let_def gpu_module_def new_module_def)

end
