(* ===== verification/Dra.thy ===== *)
theory Dra
  imports Device_Plugin
begin

text \<open>
  The controller of Dynamic Resource Allocation drivers, \<^verbatim>\<open>internal/controllers/dra_reconciler.go\<close>: the
  DaemonSet of a module's driver, the label that lets it run on a node, its cluster-scoped device classes, and their
  removal when the module goes away. The DaemonSet helpers of the device plugin controller are shared with it.
\<close>

section \<open>The DaemonSet\<close>

definition kubeletPluginsVolumeName :: string where
  "kubeletPluginsVolumeName = ''kubelet-plugins''"

definition kubeletPluginsPath :: string where
  "kubeletPluginsPath = ''/var/lib/kubelet/plugins/''"

definition kubeletPluginsRegistryVolumeName :: string where
  "kubeletPluginsRegistryVolumeName = ''kubelet-plugins-registry''"

definition kubeletPluginsRegistryPath :: string where
  "kubeletPluginsRegistryPath = ''/var/lib/kubelet/plugins_registry/''"

definition cdiVolumeName :: string where
  "cdiVolumeName = ''cdi''"

definition cdiPath :: string where
  "cdiPath = ''/var/run/cdi''"

definition draHealthcheckPort :: int where
  "draHealthcheckPort = 51515"

definition host_volume :: "string \<Rightarrow> string \<Rightarrow> string \<Rightarrow> volume" where
  "host_volume name path type = \<lparr>vol_name = name, vol_source = HostPath path (Some type)\<rparr>"

definition plain_mount :: "string \<Rightarrow> string \<Rightarrow> volume_mount" where
  "plain_mount name path = \<lparr>vm_name = name, vm_path = path, vm_sub_path = [], vm_read_only = False\<rparr>"

definition dra_env :: "env_var list" where
  "dra_env =
     [\<lparr>ev_name = ''NODE_NAME'', ev_value = [], ev_field_path = Some ''spec.nodeName''\<rparr>,
      \<lparr>ev_name = ''POD_UID'', ev_value = [], ev_field_path = Some ''metadata.uid''\<rparr>,
      \<lparr>ev_name = ''CDI_ROOT'', ev_value = cdiPath, ev_field_path = None\<rparr>,
      \<lparr>ev_name = ''KUBELET_REGISTRAR_DIRECTORY_PATH'', ev_value = kubeletPluginsRegistryPath, ev_field_path = None\<rparr>,
      \<lparr>ev_name = ''KUBELET_PLUGINS_DIRECTORY_PATH'', ev_value = kubeletPluginsPath, ev_field_path = None\<rparr>,
      \<lparr>ev_name = ''HEALTHCHECK_PORT'', ev_value = fmt_d (nat draHealthcheckPort), ev_field_path = None\<rparr>]"

lemma dra_env_code [code]:
  "dra_env = map (\<lambda>(n, v, f). \<lparr>ev_name = n, ev_value = v, ev_field_path = f\<rparr>)
     [(''NODE_NAME'', [], Some ''spec.nodeName''), (''POD_UID'', [], Some ''metadata.uid''), (''CDI_ROOT'', cdiPath, None),
      (''KUBELET_REGISTRAR_DIRECTORY_PATH'', kubeletPluginsRegistryPath, None),
      (''KUBELET_PLUGINS_DIRECTORY_PATH'', kubeletPluginsPath, None), (''HEALTHCHECK_PORT'', ''51515'', None)]"
  by (simp add: dra_env_def draHealthcheckPort_def fmt_d.simps char_of_def bit_0)

definition setDRAAsDesired :: "library \<Rightarrow> kmodule \<Rightarrow> daemonset \<Rightarrow> go_err + daemonset" where
  "setDRAAsDesired lib modu ds =
     (case ms_dra (mod_spec modu) of
        None \<Rightarrow> Inl (NewErr ''DRA spec in module should not be nil'')
      | Some dra \<Rightarrow>
          (let pluginsVolume = host_volume kubeletPluginsVolumeName kubeletPluginsPath ''DirectoryOrCreate'';
               registryVolume = host_volume kubeletPluginsRegistryVolumeName kubeletPluginsRegistryPath ''Directory'';
               cdiVolume = host_volume cdiVolumeName cdiPath ''DirectoryOrCreate'';
               containerVolumeMounts = [plain_mount kubeletPluginsVolumeName kubeletPluginsPath,
                 plain_mount kubeletPluginsRegistryVolumeName kubeletPluginsRegistryPath, plain_mount cdiVolumeName cdiPath];
               draLivenessProbe = GrpcProbe draHealthcheckPort ''liveness'' 30 10 5 3;
               standardLabels = standard_labels DRARoleLabelValue modu;
               nodeSelector = node_selector_for (GetDRATargetNodeLabel (mod_namespace modu) (mod_name modu)) modu;
               effectiveLivenessProbe = (case cc_liveness_probe (dra_container dra) of None \<Rightarrow> draLivenessProbe | Some p \<Rightarrow> p);
               ds' = ds\<lparr>ds_labels := overrideLabels (ds_labels ds) standardLabels,
                 ds_spec := \<lparr>dsp_selector = standardLabels, dsp_labels = standardLabels, dsp_finalizers = [NodeLabelerFinalizer],
                   dsp_pod = \<lparr>
                     dps_init_containers = generatePodContainerSpec (dra_init dra) ''dra-init'' [] [] None None,
                     dps_containers = generatePodContainerSpec (Some (dra_container dra)) ''dra'' containerVolumeMounts dra_env
                       (Some effectiveLivenessProbe) (cc_startup_probe (dra_container dra)),
                     dps_priority_class = ''system-node-critical'', dps_host_network = True,
                     dps_pull_secrets = getPodPullSecrets (ms_repo_secret (mod_spec modu)),
                     dps_node_selector = nodeSelector, dps_service_account = dra_service_account dra,
                     dps_volumes = [pluginsVolume, registryVolume, cdiVolume] @ dra_volumes dra,
                     dps_tolerations = ms_tolerations (mod_spec modu) @ InternalTolerations,
                     dps_automount = dra_automount dra\<rparr>\<rparr>\<rparr>
           in and_then (l_SetControllerReference lib (module_owner modu) (ds_owner ds')) (\<lambda>ow. Inr (ds'\<lparr>ds_owner := ow\<rparr>))))"

section \<open>Listing\<close>

definition getModuleDRADaemonSets :: "server \<Rightarrow> string \<Rightarrow> string \<Rightarrow> (go_err + daemonset list) cio" where
  "getModuleDRADaemonSets srv name namespace = do {
     r \<leftarrow> list_daemonsets srv [(ModuleNameLabel, name), (DaemonSetRole, DRARoleLabelValue)] namespace;
     State_Monad.return (map_sum (Errorf ''could not list DaemonSets'') id r)
   }"

definition getModuleDeviceClasses :: "server \<Rightarrow> string \<Rightarrow> string \<Rightarrow> (go_err + device_class_obj list) cio" where
  "getModuleDeviceClasses srv name namespace = do {
     r \<leftarrow> list_deviceclasses srv [(ModuleNameLabel, name), (ModuleNamespaceLabel, namespace)];
     State_Monad.return (map_sum (Errorf ''could not list DeviceClasses'') id r)
   }"

definition getExistingDRADSFromVersion :: "daemonset list \<Rightarrow> string \<Rightarrow> string \<Rightarrow> module_loader option \<Rightarrow> daemonset option \<times> string" where
  "getExistingDRADSFromVersion existingDS moduleNamespace moduleName moduleLoader =
     (let version = module_version moduleLoader
      in (find (\<lambda>ds. label_of (ds_labels ds) (GetSchedulePodVersionLabelName moduleNamespace moduleName) = version) existingDS, version))"

definition isOlderVersionUnusedDRADaemonSet :: "daemonset \<Rightarrow> string \<Rightarrow> string \<Rightarrow> bool" where
  "isOlderVersionUnusedDRADaemonSet ds moduleNamespace moduleVersion =
     (let moduleName = label_of (ds_labels ds) ModuleNameLabel;
          versionLabel = GetSchedulePodVersionLabelName moduleNamespace moduleName
      in label_of (ds_labels ds) versionLabel \<noteq> moduleVersion \<and> ds_desired ds = 0)"

section \<open>Node labels\<close>

definition handleDRATargetLabels :: "library \<Rightarrow> server \<Rightarrow> kmodule \<Rightarrow> (go_err option) cio" where
  "handleDRATargetLabels lib srv modu =
     (if ms_dra (mod_spec modu) = None then State_Monad.return None
      else
        (let targetLabel = GetDRATargetNodeLabel (mod_namespace modu) (mod_name modu);
             schedulable = (\<lambda>n. IsNodeSchedulable lib n (ms_tolerations (mod_spec modu)))
         in do {
           r \<leftarrow> GetAllNodesBySelector srv (ms_selector (mod_spec modu));
           case r of
             Inl e \<Rightarrow> State_Monad.return (Some (Errorf ''could not list nodes targeted by module'' e))
           | Inr nodes \<Rightarrow> update_each srv ''could not reconcile dra-target label on node''
               (\<lambda>n. if schedulable n then [(targetLabel, [])] else []) (\<lambda>n. if schedulable n then [] else [(targetLabel, [])]) nodes
         }))"

definition removeDRATargetLabels :: "server \<Rightarrow> kmodule \<Rightarrow> (go_err option) cio" where
  "removeDRATargetLabels srv modu =
     (let targetLabel = GetDRATargetNodeLabel (mod_namespace modu) (mod_name modu)
      in do {
        r \<leftarrow> list_nodes_with srv targetLabel;
        case r of
          Inl e \<Rightarrow> State_Monad.return (Some (Errorf ''could not list nodes with dra-target label'' e))
        | Inr nodes \<Rightarrow> update_each srv ''could not remove dra-target label from node'' (\<lambda>n. []) (\<lambda>n. [(targetLabel, [])]) nodes
      })"

section \<open>Operations\<close>

text \<open>A live DaemonSet keeps the entry its template has for the target label.\<close>

definition mutate_dra :: "library \<Rightarrow> kmodule \<Rightarrow> bool \<Rightarrow> daemonset \<Rightarrow> go_err + daemonset" where
  "mutate_dra lib modu creating ds =
     (let targetLabel = GetDRATargetNodeLabel (mod_namespace modu) (mod_name modu);
          held = map_of (dps_node_selector (dsp_pod (ds_spec ds))) targetLabel
      in and_then (setDRAAsDesired lib modu ds) (\<lambda>ds'.
        if creating \<or> ms_loader (mod_spec modu) = None then Inr ds'
        else
          (let sel = dps_node_selector (dsp_pod (ds_spec ds'));
               sel' = (case held of Some v \<Rightarrow> SetLabel targetLabel v sel | None \<Rightarrow> RemoveLabel targetLabel sel)
           in Inr (ds'\<lparr>ds_spec := (ds_spec ds')\<lparr>dsp_pod := (dsp_pod (ds_spec ds'))\<lparr>dps_node_selector := sel'\<rparr>\<rparr>\<rparr>))))"

definition handleDRA :: "library \<Rightarrow> server \<Rightarrow> kmodule \<Rightarrow> daemonset list \<Rightarrow> (go_err option) cio" where
  "handleDRA lib srv modu existing =
     (if ms_dra (mod_spec modu) = None then State_Monad.return None
      else
        (let ds = (case fst (getExistingDRADSFromVersion existing (mod_namespace modu) (mod_name modu) (ms_loader (mod_spec modu))) of
                     Some ds \<Rightarrow> ds | None \<Rightarrow> new_daemonset (mod_namespace modu) (mod_name modu @ ''-dra-''))
         in Client.CreateOrPatch srv (get_daemonset srv (ds_namespace ds, ds_name ds)) ds (mutate_dra lib modu (ds_name ds = []))
              (\<lambda>d. Daemon (Create_DaemonSet d)) (\<lambda>a b. Daemon (Patch_DaemonSet a b))))"

definition garbageCollectDRADaemonSets :: "server \<Rightarrow> kmodule \<Rightarrow> daemonset list \<Rightarrow> (go_err option) cio" where
  "garbageCollectDRADaemonSets srv modu existingDS =
     (case ms_loader (mod_spec modu) of
        None \<Rightarrow> State_Monad.return None
      | Some ml \<Rightarrow> delete_until_error srv False ''could not delete DRA DaemonSet''
          (filter (\<lambda>ds. isOlderVersionUnusedDRADaemonSet ds (mod_namespace modu) (lc_version (ml_container ml))) existingDS))"

text \<open>Requests to delete objects, all of them issued; an object that is gone is no error.\<close>

definition deleteDRAObjects :: "server \<Rightarrow> ('a \<Rightarrow> call) \<Rightarrow> 'a list \<Rightarrow> (nat \<times> go_err option) cio" where
  "deleteDRAObjects srv del objs = do {
     es \<leftarrow> collect_errors (\<lambda>obj. do { e \<leftarrow> do_write srv (del obj); State_Monad.return (errorf_opt ''could not delete'' (IgnoreNotFound e)) }) objs;
     State_Monad.return (length objs, errors_Join es)
   }"

definition deleteDRAResources :: "server \<Rightarrow> kmodule \<Rightarrow> (nat \<times> go_err option) cio" where
  "deleteDRAResources srv modu = do {
     r \<leftarrow> getModuleDRADaemonSets srv (mod_name modu) (mod_namespace modu);
     case r of
       Inl e \<Rightarrow> State_Monad.return (0, Some e)
     | Inr daemonSets \<Rightarrow> do {
         d \<leftarrow> deleteDRAObjects srv (\<lambda>ds. Daemon (Delete_DaemonSet ds)) daemonSets;
         q \<leftarrow> getModuleDeviceClasses srv (mod_name modu) (mod_namespace modu);
         case q of
           Inl e \<Rightarrow> State_Monad.return (0, errors_Join [snd d, Some e])
         | Inr deviceClasses \<Rightarrow> do {
             c \<leftarrow> deleteDRAObjects srv (\<lambda>dc. Daemon (Delete_DeviceClass dc)) deviceClasses;
             State_Monad.return (fst d + fst c, errors_Join [snd d, snd c])
           }
       }
   }"

definition setFinalizer_dra :: "server \<Rightarrow> kmodule \<Rightarrow> (go_err option \<times> kmodule) cio" where
  "setFinalizer_dra srv modu =
     (if DRAFinalizer \<in> set (mod_finalizers modu) then State_Monad.return (None, modu)
      else
        (let modu' = modu\<lparr>mod_finalizers := AddFinalizer DRAFinalizer (mod_finalizers modu)\<rparr>
         in do { e \<leftarrow> do_write srv (Patch_Module modu modu'); State_Monad.return (e, modu') }))"

definition finalizeModule_dra :: "server \<Rightarrow> kmodule \<Rightarrow> (go_err option \<times> kmodule) cio" where
  "finalizeModule_dra srv modu =
     (if DRAFinalizer \<notin> set (mod_finalizers modu) then State_Monad.return (None, modu)
      else do {
        e \<leftarrow> removeDRATargetLabels srv modu;
        case e of
          Some er \<Rightarrow> State_Monad.return (Some (Errorf ''could not remove dra-target labels'' er), modu)
        | None \<Rightarrow> do {
            r \<leftarrow> deleteDRAResources srv modu;
            case snd r of
              Some er \<Rightarrow> State_Monad.return (Some (Errorf ''could not delete DRA resources'' er), modu)
            | None \<Rightarrow>
                if fst r > 0 then State_Monad.return (None, modu)
                else
                  (let modu' = modu\<lparr>mod_finalizers := snd (RemoveFinalizer DRAFinalizer (mod_finalizers modu))\<rparr>
                   in do { p \<leftarrow> do_write srv (Patch_Module modu modu'); State_Monad.return (p, modu') })
          }
      })"

definition moduleUpdateDRAStatus :: "library \<Rightarrow> server \<Rightarrow> kmodule \<Rightarrow> daemonset list \<Rightarrow> (go_err option) cio" where
  "moduleUpdateDRAStatus lib srv modu existing =
     (if ms_dra (mod_spec modu) = None then State_Monad.return None
      else do {
        r \<leftarrow> GetNumTargetedNodes lib srv (ms_selector (mod_spec modu)) (ms_tolerations (mod_spec modu));
        case r of
          Inl e \<Rightarrow> State_Monad.return (Some (Errorf ''failed to determine the number of nodes targeted'' e))
        | Inr num \<Rightarrow>
            do_write srv (Patch_Module_Status modu (modu\<lparr>mod_status := (mod_status modu)\<lparr>mst_dra :=
              \<lparr>dss_matching = go_int32 (int num), dss_desired = go_int32 (int num), dss_available = available_sum existing\<rparr>\<rparr>\<rparr>))
      })"

definition clearDRAStatus :: "server \<Rightarrow> kmodule \<Rightarrow> (go_err option) cio" where
  "clearDRAStatus srv modu =
     (if mst_dra (mod_status modu) = zero_ds then State_Monad.return None
      else do_write srv (Patch_Module_Status modu (modu\<lparr>mod_status := (mod_status modu)\<lparr>mst_dra := zero_ds\<rparr>\<rparr>)))"

section \<open>Device classes\<close>

definition mutate_device_class :: "kmodule \<Rightarrow> device_class \<Rightarrow> device_class_obj \<Rightarrow> device_class_obj" where
  "mutate_device_class modu desired dc = dc\<lparr>
     dco_labels := SetLabel ModuleNamespaceLabel (mod_namespace modu) (SetLabel ModuleNameLabel (mod_name modu) (dco_labels dc)),
     dco_selectors := dc_selectors desired, dco_config := dc_config desired\<rparr>"

definition new_device_class :: "string \<Rightarrow> device_class_obj" where
  "new_device_class name = \<lparr>dco_name = name, dco_labels = [], dco_selectors = [], dco_config = []\<rparr>"

definition reconcile_device_class :: "server \<Rightarrow> kmodule \<Rightarrow> device_class \<Rightarrow> (go_err option) cio" where
  "reconcile_device_class srv modu desired =
     Client.CreateOrPatch srv (get_deviceclass srv (dc_name desired)) (new_device_class (dc_name desired))
       (\<lambda>dc. Inr (mutate_device_class modu desired dc)) (\<lambda>d. Daemon (Create_DeviceClass d)) (\<lambda>a b. Daemon (Patch_DeviceClass a b))"

definition handleDeviceClasses :: "server \<Rightarrow> kmodule \<Rightarrow> device_class_obj list \<Rightarrow> (go_err option) cio" where
  "handleDeviceClasses srv modu existingDCs =
     (case ms_dra (mod_spec modu) of
        None \<Rightarrow> State_Monad.return None
      | Some dra \<Rightarrow>
          (let existingByName = fold (\<lambda>dc. AList.update (dco_name dc) dc) existingDCs [];
               extra = fold (\<lambda>desired. AList.delete (dc_name desired)) (dra_classes dra) existingByName
           in do {
             es \<leftarrow> collect_errors (\<lambda>desired. do {
                 e \<leftarrow> reconcile_device_class srv modu desired;
                 State_Monad.return (errorf_opt ''failed to create or patch DeviceClass'' e) }) (dra_classes dra);
             fs \<leftarrow> collect_errors (\<lambda>(name, dc). do {
                 e \<leftarrow> do_write srv (Daemon (Delete_DeviceClass dc));
                 State_Monad.return (errorf_opt ''failed to delete DeviceClass'' (IgnoreNotFound e)) }) extra;
             State_Monad.return (errors_Join (es @ fs))
           }))"

section \<open>Reconcile\<close>

text \<open>The steps for a module that is held.\<close>

definition handle_dra :: "library \<Rightarrow> server \<Rightarrow> kmodule \<Rightarrow> (go_err option) cio" where
  "handle_dra lib srv modu = do {
     r \<leftarrow> getModuleDRADaemonSets srv (mod_name modu) (mod_namespace modu);
     case r of
       Inl e \<Rightarrow> State_Monad.return (Some (Errorf ''could not get DRA DaemonSets for module'' e))
     | Inr existing \<Rightarrow> do {
         q \<leftarrow> getModuleDeviceClasses srv (mod_name modu) (mod_namespace modu);
         case q of
           Inl e \<Rightarrow> State_Monad.return (Some (Errorf ''could not get DeviceClasses for module'' e))
         | Inr existingDCs \<Rightarrow>
             then_run (handleDRATargetLabels lib srv modu) (Errorf ''could not reconcile dra-target labels'')
            (then_run (handleDRA lib srv modu existing) (Errorf ''could not handle DRA'')
            (then_run (garbageCollectDRADaemonSets srv modu existing) (Errorf ''failed to run DRA garbage collection'')
            (then_run (handleDeviceClasses srv modu existingDCs) (Errorf ''could not handle DeviceClasses'')
            (then_run (moduleUpdateDRAStatus lib srv modu existing)
               (Errorf ''failed to update DRA status of the module'') (State_Monad.return None)))))
       }
   }"

definition DRA_Reconcile :: "library \<Rightarrow> server \<Rightarrow> kmodule \<Rightarrow> (go_err option) cio" where
  "DRA_Reconcile lib srv modu =
     (if mod_deleting modu then do {
        r \<leftarrow> finalizeModule_dra srv modu;
        State_Monad.return (map_option (Errorf ''failed to finalize Module'') (fst r))
      }
      else if ms_dra (mod_spec modu) = None then do {
        r \<leftarrow> finalizeModule_dra srv modu;
        case fst r of
          Some e \<Rightarrow> State_Monad.return (Some (Errorf ''failed to finalize Module'' e))
        | None \<Rightarrow> clearDRAStatus srv (snd r)
      }
      else do {
        f \<leftarrow> setFinalizer_dra srv modu;
        case fst f of
          Some e \<Rightarrow> State_Monad.return (Some (Errorf ''failed to set finalizer on Module'' e))
        | None \<Rightarrow> handle_dra lib srv (snd f)
      })"

section \<open>The DaemonSet of a driver\<close>

interpretation dra: versioned_daemonset setDRAAsDesired DRARoleLabelValue
  by unfold_locales
    (auto simp: setDRAAsDesired_def Let_def and_then_Inr overrideLabels_idem split: option.splits)

lemma getExistingDRADSFromVersion_eq: "getExistingDRADSFromVersion = getExistingDSFromVersion"
  by (simp add: fun_eq_iff getExistingDRADSFromVersion_def getExistingDSFromVersion_def)

lemma target_labels_differ [simp]:
  "GetDRATargetNodeLabel ns n \<noteq> GetSchedulePodVersionLabelName ns n" "GetSchedulePodVersionLabelName ns n \<noteq> GetDRATargetNodeLabel ns n"
  by (auto simp: GetDRATargetNodeLabel_def GetSchedulePodVersionLabelName_def label_consts)

lemma dra_selector_of:
  assumes "setDRAAsDesired lib modu ds = Inr d" "ms_loader (mod_spec modu) \<noteq> None"
  shows "map_of (dps_node_selector (dsp_pod (ds_spec d))) (GetDRATargetNodeLabel (mod_namespace modu) (mod_name modu)) = Some []"
  using assms by (auto simp: setDRAAsDesired_def Let_def and_then_Inr node_selector_for_def split: option.splits if_splits)

lemma mutate_dra_creating: "mutate_dra lib modu True = setDRAAsDesired lib modu"
  by (auto simp: fun_eq_iff mutate_dra_def Let_def and_then_def split: sum.splits)

lemma mutate_dra_settled:
  assumes "setDRAAsDesired lib modu d = Inr d"
  shows "mutate_dra lib modu b d = Inr d"
  using assms dra_selector_of [OF assms]
  by (auto simp: mutate_dra_def Let_def SetLabel_def update_same)

text \<open>
  The DaemonSet of a driver is made once. When one that \<open>handleDRA\<close> created for a module without a DaemonSet is
  listed on a later pass with the labels, the template and the settled owner it was created with, as the only one of the
  module's version, that pass finds it, reads it and writes nothing; in particular keeping the entry of the target
  label does not drift from the template the creation wrote.
\<close>

theorem dra_daemonset_kept:
  assumes "Daemon (Create_DaemonSet d) \<in> set (calls (handleDRA lib srv modu []) h)"
    and "ds_labels d' = ds_labels d" "ds_spec d' = ds_spec d"
    and "l_SetControllerReference lib (module_owner modu) (ds_owner d') = Inr (ds_owner d')"
    and "d' \<in> set existing'" and "\<forall>x\<in>set existing'. x \<noteq> d' \<longrightarrow>
      label_of (ds_labels x) (GetSchedulePodVersionLabelName (mod_namespace modu) (mod_name modu)) \<noteq> module_version (ms_loader (mod_spec modu))"
    and "s_daemonset srv' h' (ds_namespace d', ds_name d') = Inr d'"
  shows "run_state (handleDRA lib srv' modu existing') h' = (None, h' @ [Daemon (Get_DaemonSet (ds_namespace d', ds_name d'))])"
proof -
  let ?new = "new_daemonset (mod_namespace modu) (mod_name modu @ ''-dra-'')"
  have dra: "ms_dra (mod_spec modu) \<noteq> None"
  proof
    assume "ms_dra (mod_spec modu) = None"
    with assms(1) show False by (simp add: handleDRA_def calls_def)
  qed
  with assms(1) have "mutate_dra lib modu (ds_name ?new = []) ?new = Inr d"
    by (auto simp: handleDRA_def getExistingDRADSFromVersion_def Let_def intro: CreateOrPatch_creates)
  then have d: "setDRAAsDesired lib modu ?new = Inr d" by (simp add: new_daemonset_def mutate_dra_creating)
  then have "setDRAAsDesired lib modu d' = Inr d'" by (rule dra.desired_settled) fact+
  then have "mutate_dra lib modu b d' = Inr d'" for b by (rule mutate_dra_settled)
  moreover have "fst (getExistingDSFromVersion existing' (mod_namespace modu) (mod_name modu) (ms_loader (mod_spec modu))) = Some d'"
    by (rule dra.found_again [OF d assms(2) _ assms(5,6)]) (simp add: new_daemonset_def)
  ultimately show ?thesis using dra assms(7)
    by (simp add: handleDRA_def getExistingDRADSFromVersion_eq Client.CreateOrPatch_def get_daemonset_def Let_def)
qed

theorem dra_daemonset_kept_witness:
  "\<exists>d. Daemon (Create_DaemonSet d) \<in> set (calls (handleDRA plain_library empty_cluster gpu_module []) []) \<and>
     run_state (handleDRA plain_library (empty_cluster\<lparr>s_daemonset := (\<lambda>h k. Inr (d\<lparr>ds_name := ''gpu-x'', ds_available := 3\<rparr>))\<rparr>)
       gpu_module [d\<lparr>ds_name := ''gpu-x'', ds_available := 3\<rparr>]) [] = (None, [Daemon (Get_DaemonSet (''kmm'', ''gpu-x''))])"
proof -
  let ?d = "projr (setDRAAsDesired plain_library gpu_module (new_daemonset ''kmm'' ''gpu-dra-''))"
  let ?d' = "?d\<lparr>ds_name := ''gpu-x'', ds_available := 3\<rparr>"
  have created: "list_ex (\<lambda>c. c = Daemon (Create_DaemonSet ?d)) (calls (handleDRA plain_library empty_cluster gpu_module []) [])"
    by code_simp
  have "ds_owner ?d = Some (module_owner gpu_module)" "ds_namespace ?d = ''kmm''" by code_simp+
  then have "run_state (handleDRA plain_library (empty_cluster\<lparr>s_daemonset := (\<lambda>h k. Inr ?d')\<rparr>) gpu_module [?d']) [] =
     (None, [] @ [Daemon (Get_DaemonSet (ds_namespace ?d', ds_name ?d'))])"
    using created by (intro dra_daemonset_kept [where d = ?d and srv = empty_cluster and h = "[]"])
      (simp_all add: plain_library_def list_ex_iff)
  with created \<open>ds_namespace ?d = ''kmm''\<close> show ?thesis by (intro exI [of _ ?d]) (simp add: list_ex_iff)
qed

text \<open>
  Patching the DaemonSet of a driver never moves its pods between nodes by way of the target label: the entry for
  the label in the node selector of the template is what it was, present or not, for a module with a loader. An object
  of the API server has a name.
\<close>

theorem dra_live_selector_kept:
  assumes "Daemon (Patch_DaemonSet a b) \<in> set (calls (handleDRA lib srv modu existing) h)"
    and "ms_loader (mod_spec modu) \<noteq> None" and "\<forall>h ns d. s_daemonset srv h (ns, []) \<noteq> Inr d"
  shows "let target = GetDRATargetNodeLabel (mod_namespace modu) (mod_name modu) in
    map_of (dps_node_selector (dsp_pod (ds_spec b))) target = map_of (dps_node_selector (dsp_pod (ds_spec a))) target"
proof -
  have live: "mutate_dra lib modu False a = Inr b"
    if "Daemon (Patch_DaemonSet a b) \<in> set (calls (Client.CreateOrPatch srv (get_daemonset srv (ns, n)) x (mutate_dra lib modu (n = []))
     (\<lambda>d. Daemon (Create_DaemonSet d)) (\<lambda>a b. Daemon (Patch_DaemonSet a b))) h)" for ns n x
    using that assms(3)
    by (cases "n = []") (auto simp: Client.CreateOrPatch_def get_daemonset_def do_write_def calls_def split: sum.splits if_splits)
  have "ms_dra (mod_spec modu) \<noteq> None"
  proof
    assume "ms_dra (mod_spec modu) = None"
    with assms(1) show False by (simp add: handleDRA_def calls_def)
  qed
  with assms(1) have "mutate_dra lib modu False a = Inr b"
    by (auto simp: handleDRA_def Let_def intro: live)
  with assms(2) show ?thesis by (auto simp: mutate_dra_def Let_def and_then_Inr split: option.splits)
qed

theorem dra_live_selector_kept_witness:
  "\<exists>a b. Daemon (Patch_DaemonSet a b) \<in> set (calls (handleDRA plain_library
       (empty_cluster\<lparr>s_daemonset := (\<lambda>h k. if snd k = [] then Inl (ApiErr NotFound) else Inr (old_daemonset DRARoleLabelValue ''v2''))\<rparr>)
       gpu_module [old_daemonset DRARoleLabelValue ''v2'']) []) \<and> a = old_daemonset DRARoleLabelValue ''v2'' \<and>
     map_of (dps_node_selector (dsp_pod (ds_spec b))) (GetDRATargetNodeLabel ''kmm'' ''gpu'') = None"
proof -
  let ?ds = "old_daemonset DRARoleLabelValue ''v2''"
  let ?srv = "empty_cluster\<lparr>s_daemonset := (\<lambda>h k. if snd k = [] then Inl (ApiErr NotFound) else Inr ?ds)\<rparr>"
  let ?run = "calls (handleDRA plain_library ?srv gpu_module [?ds]) []"
  have "list_ex (\<lambda>c. case c of Daemon (Patch_DaemonSet a b) \<Rightarrow> a = ?ds | _ \<Rightarrow> False) ?run" by code_simp
  then obtain c where "c \<in> set ?run" "case c of Daemon (Patch_DaemonSet a b) \<Rightarrow> a = ?ds | _ \<Rightarrow> False" by (auto simp: list_ex_iff)
  then obtain b where c: "Daemon (Patch_DaemonSet ?ds b) \<in> set ?run"
    by (auto split: call.splits daemon_call.splits)
  from dra_live_selector_kept [OF this] have
    "map_of (dps_node_selector (dsp_pod (ds_spec b))) (GetDRATargetNodeLabel ''kmm'' ''gpu'') = None"
    by (simp add: Let_def gpu_module_def new_module_def old_daemonset_def new_daemonset_def empty_ds_pod_spec_def)
  with c show ?thesis by blast
qed



section \<open>Cleaning up\<close>

lemma emits_deleteDRAObjects [emits_intros]:
  "(\<And>x. x \<in> set objs \<Longrightarrow> P (del x)) \<Longrightarrow> emits P (deleteDRAObjects srv del objs)"
  unfolding deleteDRAObjects_def by (intro emits_intros)

lemma fst_deleteDRAObjects:
  assumes "\<And>x. x \<in> set objs \<Longrightarrow> P (del x)"
  shows "does P (\<lambda>r. fst r = length objs) (deleteDRAObjects srv del objs)"
  unfolding deleteDRAObjects_def
  by (rule does_bind [OF emits_does], intro emits_intros assms) (auto intro!: does_intros)

text \<open>
  The module is let go last. When reconciling a module that is being deleted, or has no driver any more, patches
  the module, the patch takes away exactly the finalizer of the controller; the nodes with the target label, whatever
  its value, were listed and each is cleared of it by an accepted patch; and listings answered that the module has no
  driver DaemonSet and no device class.
\<close>

theorem dra_finalizer_released_last:
  assumes gone: "mod_deleting modu \<or> ms_dra (mod_spec modu) = None"
    and c: "Patch_Module m1 m2 \<in> set (calls (DRA_Reconcile lib srv modu) h)"
  shows "let target = GetDRATargetNodeLabel (mod_namespace modu) (mod_name modu) in
    m1 = modu \<and> m2 = modu\<lparr>mod_finalizers := filter (\<lambda>f. f \<noteq> DRAFinalizer) (mod_finalizers modu)\<rparr> \<and>
    (\<exists>h' nodes. s_nodes_with srv h' target = Inr nodes \<and> list_all (cleared srv target) nodes) \<and>
    (\<exists>h'. s_daemonsets srv h' [(ModuleNameLabel, mod_name modu), (DaemonSetRole, DRARoleLabelValue)] (mod_namespace modu) = Inr []) \<and>
    (\<exists>h'. s_deviceclasses srv h' [(ModuleNameLabel, mod_name modu), (ModuleNamespaceLabel, mod_namespace modu)] = Inr [])"
proof -
  let ?t = "GetDRATargetNodeLabel (mod_namespace modu) (mod_name modu)"
  let ?q = "[(ModuleNameLabel, mod_name modu), (DaemonSetRole, DRARoleLabelValue)]"
  let ?dq = "[(ModuleNameLabel, mod_name modu), (ModuleNamespaceLabel, mod_namespace modu)]"
  let ?N = "\<exists>h' nodes. s_nodes_with srv h' ?t = Inr nodes \<and> list_all (cleared srv ?t) nodes"
  let ?D = "\<lambda>dss. \<exists>h'. s_daemonsets srv h' ?q (mod_namespace modu) = Inr dss"
  let ?C = "\<lambda>dcs. \<exists>h'. s_deviceclasses srv h' ?dq = Inr dcs"
  let ?P = "\<lambda>c. \<forall>m1 m2. c = Patch_Module m1 m2 \<longrightarrow>
    m1 = modu \<and> m2 = modu\<lparr>mod_finalizers := filter (\<lambda>f. f \<noteq> DRAFinalizer) (mod_finalizers modu)\<rparr> \<and> ?N \<and> ?D [] \<and> ?C []"
  have nodes: "does ?P (\<lambda>r. \<exists>h. r = s_nodes_with srv h ?t) (list_nodes_with srv ?t)"
    unfolding list_nodes_with_def by (rule does_issue) auto
  have rem: "does ?P (\<lambda>e. e = None \<longrightarrow> ?N) (removeDRATargetLabels srv modu)"
    unfolding removeDRATargetLabels_def Let_def
    by (rule does_bind [OF nodes], intro does_intros, simp, rule does_mono [OF does_update_each]) (auto simp: list_all_iff, metis)
  have dss: "does ?P (\<lambda>r. \<forall>dss. r = Inr dss \<longrightarrow> ?D dss) (getModuleDRADaemonSets srv (mod_name modu) (mod_namespace modu))"
    unfolding getModuleDRADaemonSets_def
    by (rule does_bind [OF does_requests(8)]) (auto intro!: does_intros simp: map_sum_Inr_iff)
  have dcs: "does ?P (\<lambda>r. \<forall>dcs. r = Inr dcs \<longrightarrow> ?C dcs) (getModuleDeviceClasses srv (mod_name modu) (mod_namespace modu))"
    unfolding getModuleDeviceClasses_def
    by (rule does_bind [OF does_requests(9)]) (auto intro!: does_intros simp: map_sum_Inr_iff)
  have del: "does ?P (\<lambda>r. snd r = None \<and> fst r = 0 \<longrightarrow> ?D [] \<and> ?C []) (deleteDRAResources srv modu)"
    unfolding deleteDRAResources_def
    by (rule does_bind [OF dss], intro does_intros, simp, rule does_bind [OF fst_deleteDRAObjects], simp,
        rule does_bind [OF dcs], intro does_intros, simp, rule does_bind [OF fst_deleteDRAObjects], simp, intro does_intros) auto
  have fin: "emits ?P (finalizeModule_dra srv modu)"
    unfolding finalizeModule_dra_def Let_def
    by (rule does_emits [where Q = "\<lambda>_. True"], intro does_intros TrueI, rule does_bind [OF rem], intro does_intros TrueI,
        rule does_bind [OF del], intro does_intros TrueI emits_does emits_intros)
      (simp add: RemoveFinalizer_def)
  moreover have "emits ?P (clearDRAStatus srv m)" for m
    unfolding clearDRAStatus_def by (intro emits_intros) auto
  ultimately have "emits ?P (DRA_Reconcile lib srv modu)"
    using gone unfolding DRA_Reconcile_def by (auto intro!: emits_intros)
  from emits_calls [OF this c] show ?thesis by (simp add: Let_def)
qed

theorem dra_finalizer_released_last_witness:
  "\<exists>m1 m2. Patch_Module m1 m2 \<in> set (calls (DRA_Reconcile plain_library
       (empty_cluster\<lparr>s_nodes_with := (\<lambda>h l. Inr [labelled_node ''n1'' [(l, ''x'')]])\<rparr>)
       (gpu_module\<lparr>mod_deleting := True, mod_finalizers := [DRAFinalizer, ''x'']\<rparr>)) []) \<and> mod_finalizers m2 = [''x'']"
proof -
  let ?m = "gpu_module\<lparr>mod_deleting := True, mod_finalizers := [DRAFinalizer, ''x'']\<rparr>"
  let ?run = "calls (DRA_Reconcile plain_library (empty_cluster\<lparr>s_nodes_with := (\<lambda>h l. Inr [labelled_node ''n1'' [(l, ''x'')]])\<rparr>) ?m) []"
  have "list_ex (\<lambda>c. case c of Patch_Module m1 m2 \<Rightarrow> True | _ \<Rightarrow> False) ?run" by code_simp
  then obtain c where "c \<in> set ?run" "case c of Patch_Module m1 m2 \<Rightarrow> True | _ \<Rightarrow> False" by (auto simp: list_ex_iff)
  then obtain m1 m2 where c: "Patch_Module m1 m2 \<in> set ?run" by - (cases c, auto)
  from dra_finalizer_released_last [OF _ c] have "mod_finalizers m2 = [''x'']"
    by (simp add: Let_def DRAFinalizer_def)
  with c show ?thesis by blast
qed

section \<open>Convergence of the device classes\<close>

text \<open>A device class is settled when the object is as desired, or the write that makes it so was accepted.\<close>

definition class_settled :: "server \<Rightarrow> kmodule \<Rightarrow> device_class \<Rightarrow> bool" where
  "class_settled srv modu desired \<longleftrightarrow>
     (\<exists>h. (\<exists>e. s_deviceclass srv h (dc_name desired) = Inl e \<and> IsNotFound e) \<and>
        (\<exists>h'. s_write srv h' (Daemon (Create_DeviceClass (mutate_device_class modu desired (new_device_class (dc_name desired))))) = None)) \<or>
     (\<exists>h dc. s_deviceclass srv h (dc_name desired) = Inr dc \<and> (mutate_device_class modu desired dc = dc \<or>
        (\<exists>h'. s_write srv h' (Daemon (Patch_DeviceClass dc (mutate_device_class modu desired dc))) = None)))"

fun deletes_class :: "call \<Rightarrow> device_class_obj option" where
  "deletes_class (Daemon (Delete_DeviceClass dc)) = Some dc"
| "deletes_class _ = None"

lemma class_settledI:
  "s_deviceclass srv h (dc_name c) = Inl e \<Longrightarrow> IsNotFound e \<Longrightarrow>
     s_write srv h' (Daemon (Create_DeviceClass (mutate_device_class modu c (new_device_class (dc_name c))))) = None \<Longrightarrow> class_settled srv modu c"
  "s_deviceclass srv h (dc_name c) = Inr dc \<Longrightarrow> mutate_device_class modu c dc = dc \<Longrightarrow> class_settled srv modu c"
  "s_deviceclass srv h (dc_name c) = Inr dc \<Longrightarrow>
     s_write srv h' (Daemon (Patch_DeviceClass dc (mutate_device_class modu c dc))) = None \<Longrightarrow> class_settled srv modu c"
  unfolding class_settled_def by blast+

lemma does_reconcile_device_class:
  assumes "\<And>c. deletes_class c = None \<Longrightarrow> P c"
  shows "does P (\<lambda>e. e = None \<longrightarrow> class_settled srv modu desired) (reconcile_device_class srv modu desired)"
  unfolding does_def
proof (intro conjI allI)
  show "emits P (reconcile_device_class srv modu desired)"
    unfolding reconcile_device_class_def by (intro emits_intros assms) auto
next
  fix h
  show "fst (run_state (reconcile_device_class srv modu desired) h) = None \<longrightarrow> class_settled srv modu desired"
    unfolding reconcile_device_class_def Client.CreateOrPatch_def get_deviceclass_def do_write_def
    by (cases "s_deviceclass srv h (dc_name desired)") (auto split: if_splits intro: class_settledI)
qed

lemma update_fresh: "k \<notin> fst ` set m \<Longrightarrow> AList.update k v m = m @ [(k, v)]"
  by (induction m) auto

lemma fold_update_names:
  "distinct (map f xs) \<Longrightarrow> \<forall>x\<in>set xs. f x \<notin> fst ` set m \<Longrightarrow> fold (\<lambda>x. AList.update (f x) x) xs m = m @ map (\<lambda>x. (f x, x)) xs"
proof (induction xs arbitrary: m)
  case (Cons a xs)
  then have "\<forall>x\<in>set xs. f x \<notin> fst ` set (m @ [(f a, a)])" by (auto simp: image_iff)
  with Cons show ?case by (simp add: update_fresh)
qed simp

lemma fold_delete_names: "fold (\<lambda>c. AList.delete (f c)) cs xs = filter (\<lambda>(k, _). k \<notin> f ` set cs) xs"
  by (induction cs arbitrary: xs) (auto simp: AList.delete_eq case_prod_unfold conj_commute intro!: filter_cong)

text \<open>
  C24: device classes converge to the spec of the module. Whatever the server answers, a device class is deleted only when
  it was listed for the module and is not in the spec; and when no error is reported, every class of the spec is settled,
  created or patched where needed, and every listed class that is not in the spec is gone.
\<close>

theorem device_classes_converge:
  assumes "ms_dra (mod_spec modu) = Some d" "distinct (map dco_name existing)"
  shows "let run = handleDeviceClasses srv modu existing; wanted = dc_name ` set (dra_classes d) in
    (\<forall>dc. Daemon (Delete_DeviceClass dc) \<in> set (calls run h) \<longrightarrow> dc \<in> set existing \<and> dco_name dc \<notin> wanted) \<and>
    (fst (run_state run h) = None \<longrightarrow> list_all (class_settled srv modu) (dra_classes d) \<and>
       (\<forall>dc\<in>set existing. dco_name dc \<in> wanted \<or> (\<exists>h'. IgnoreNotFound (s_write srv h' (Daemon (Delete_DeviceClass dc))) = None)))"
proof -
  let ?W = "dc_name ` set (dra_classes d)"
  let ?gone = "\<lambda>dc. \<exists>h'. IgnoreNotFound (s_write srv h' (Daemon (Delete_DeviceClass dc))) = None"
  let ?P = "\<lambda>c. \<forall>dc. c = Daemon (Delete_DeviceClass dc) \<longrightarrow> dc \<in> set existing \<and> dco_name dc \<notin> ?W"
  let ?extra = "fold (\<lambda>desired. AList.delete (dc_name desired)) (dra_classes d) (fold (\<lambda>dc. AList.update (dco_name dc) dc) existing [])"
  have extra: "set ?extra = {(dco_name dc, dc) | dc. dc \<in> set existing \<and> dco_name dc \<notin> ?W}"
    using assms(2) by (auto simp: fold_update_names fold_delete_names)
  have one: "does ?P (\<lambda>e. e = None \<longrightarrow> class_settled srv modu x) (do {
       e \<leftarrow> reconcile_device_class srv modu x; State_Monad.return (errorf_opt ''failed to create or patch DeviceClass'' e) })" for x
    by (rule does_bind [OF does_reconcile_device_class]) (auto intro!: does_intros)
  have del: "does ?P (\<lambda>e. e = None \<longrightarrow> ?gone (snd p)) (case p of (name, dc) \<Rightarrow> do {
       e \<leftarrow> do_write srv (Daemon (Delete_DeviceClass dc)); State_Monad.return (errorf_opt ''failed to delete DeviceClass'' (IgnoreNotFound e)) })"
    if "p \<in> set ?extra" for p
    using that unfolding extra by (auto intro!: does_intros does_bind [OF does_requests(6)])
  have "does ?P (\<lambda>e. e = None \<longrightarrow> (\<forall>x\<in>set (dra_classes d). class_settled srv modu x) \<and> (\<forall>p\<in>set ?extra. ?gone (snd p)))
      (handleDeviceClasses srv modu existing)"
    unfolding handleDeviceClasses_def assms(1) option.case Let_def
    by (rule does_bind [OF does_collect_errors [OF one]], rule does_bind [OF does_collect_errors [OF del]], assumption, intro does_intros) auto
  from does_result [OF this, of h] does_calls [OF this, of _ h] show ?thesis
    unfolding extra by (auto simp: Let_def list_all_iff)
qed

theorem device_classes_converge_witness:
  "Daemon (Delete_DeviceClass (new_device_class ''stale'')) \<in>
     set (calls (handleDeviceClasses empty_cluster gpu_module [new_device_class ''stale'']) []) \<and>
   fst (run_state (handleDeviceClasses empty_cluster gpu_module [new_device_class ''stale'']) []) = None \<and>
   list_all (class_settled empty_cluster gpu_module) [\<lparr>dc_name = ''gpu-class'', dc_selectors = [], dc_config = []\<rparr>]"
proof -
  let ?run = "handleDeviceClasses empty_cluster gpu_module [new_device_class ''stale'']"
  have "list_ex (\<lambda>c. c = Daemon (Delete_DeviceClass (new_device_class ''stale''))) (calls ?run [])"
    and ok: "fst (run_state ?run []) = None" by code_simp+
  moreover have "list_all (class_settled empty_cluster gpu_module) [\<lparr>dc_name = ''gpu-class'', dc_selectors = [], dc_config = []\<rparr>]"
    using device_classes_converge [of gpu_module _ "[new_device_class ''stale'']" empty_cluster "[]"] ok
    by (simp add: gpu_module_def new_module_def Let_def)
  ultimately show ?thesis by (auto simp: list_ex_iff)
qed

text \<open>
  The object of a device class is named by the spec alone, and cluster-scoped: of two modules that want a class of the same
  name, each pass of one takes the object over from the other, labels included.
\<close>

theorem device_class_taken_over:
  assumes "s_deviceclass srv h (dc_name c) = Inr (mutate_device_class other c' dc)" "mod_name modu \<noteq> mod_name other"
  shows "calls (reconcile_device_class srv modu c) h = [Daemon (Get_DeviceClass (dc_name c)),
    Daemon (Patch_DeviceClass (mutate_device_class other c' dc) (mutate_device_class modu c (mutate_device_class other c' dc)))]"
proof -
  have "label_of (dco_labels (mutate_device_class m x dc')) ModuleNameLabel = mod_name m" for m x dc'
    by (simp add: mutate_device_class_def lookup_default_def ModuleNameLabel_def ModuleNamespaceLabel_def)
  then have "mutate_device_class modu c (mutate_device_class other c' dc) \<noteq> mutate_device_class other c' dc"
    using assms(2) by metis
  with assms(1) show ?thesis
    by (simp add: reconcile_device_class_def Client.CreateOrPatch_def get_deviceclass_def do_write_def calls_def)
qed

end
