(* ===== verification/Preflight.thy ===== *)
theory Preflight
  imports Mic Kernel_Mapper
begin

text \<open>
  Preflight validation: the verdicts on modules for a kernel version yet to come,
  \<^verbatim>\<open>internal/preflight/preflight.go\<close>, and the controller that obtains them through ModuleImagesConfigs,
  \<^verbatim>\<open>internal/controllers/preflightvalidation_reconciler.go\<close>.
\<close>

section \<open>Verdicts\<close>

definition VerificationSuccess :: string where "VerificationSuccess = ''Success''"
definition VerificationFailure :: string where "VerificationFailure = ''Failure''"
definition VerificationInProgress :: string where "VerificationInProgress = ''InProgress''"
definition VerificationStageImage :: string where "VerificationStageImage = ''Image''"
definition VerificationStageDone :: string where "VerificationStageDone = ''Done''"

lemmas verification_consts = VerificationSuccess_def VerificationFailure_def VerificationInProgress_def
  VerificationStageImage_def VerificationStageDone_def

text \<open>The entry written at a point in time.\<close>

definition status_entry :: "int \<Rightarrow> string \<Rightarrow> string \<Rightarrow> string \<Rightarrow> string \<Rightarrow> pv_module_status" where
  "status_entry now namespace name status reason =
     (let stage = (if status = VerificationSuccess \<or> status = VerificationFailure then VerificationStageDone else VerificationStageImage)
      in \<lparr>pvs_name = name, pvs_namespace = namespace, pvs_status = status, pvs_reason = reason, pvs_stage = stage, pvs_transition = now\<rparr>)"

definition SetModuleStatus :: "int \<Rightarrow> preflight_validation \<Rightarrow> string \<Rightarrow> string \<Rightarrow> string \<Rightarrow> string \<Rightarrow> preflight_validation" where
  "SetModuleStatus now pv namespace name status reason =
     pv\<lparr>pv_modules := upsert (\<lambda>s. pvs_name s = name \<and> pvs_namespace s = namespace)
       (status_entry now namespace name status reason) (pv_modules pv)\<rparr>"

definition GetModuleStatus :: "preflight_validation \<Rightarrow> string \<Rightarrow> string \<Rightarrow> string" where
  "GetModuleStatus pv namespace name =
     (case find (\<lambda>s. pvs_name s = name \<and> pvs_namespace s = namespace) (pv_modules pv) of None \<Rightarrow> [] | Some s \<Rightarrow> pvs_status s)"

definition verified :: "string \<Rightarrow> bool" where
  "verified status \<longleftrightarrow> status = VerificationSuccess \<or> status = VerificationFailure"

definition AllModulesVerified :: "preflight_validation \<Rightarrow> bool" where
  "AllModulesVerified pv = list_all (\<lambda>s. verified (pvs_status s)) (pv_modules pv)"

section \<open>The controller\<close>

fun modules_data :: "library \<Rightarrow> preflight_validation \<Rightarrow> kmodule list \<Rightarrow> go_err + mld list \<times> nsn list" where
  "modules_data lib pv [] = Inr ([], [])"
| "modules_data lib pv (modu # mods) =
     (if mod_deleting modu then modules_data lib pv mods
      else
        (case GetModuleLoaderDataForKernel (l_MatchString lib) (l_envsubst lib) modu (pv_kernel_version pv) of
           Inl e \<Rightarrow>
             if \<not> errors_Is e ErrNoMatchingKernelMapping then Inl (errorf ''failed to get MLD for module'' e)
             else and_then (modules_data lib pv mods) (\<lambda>(yes, no). Inr (yes, (mod_namespace modu, mod_name modu) # no))
         | Inr d \<Rightarrow> and_then (modules_data lib pv mods) (\<lambda>(yes, no). Inr (d # yes, no))))"

definition getModulesData :: "library \<Rightarrow> server \<Rightarrow> preflight_validation \<Rightarrow> (go_err + mld list \<times> nsn list) cio" where
  "getModulesData lib srv pv = do {
     r \<leftarrow> list_modules srv None;
     State_Monad.return (case r of
       Inl e \<Rightarrow> Inl (Errorf ''failed to get list of all Modules'' e)
     | Inr mods \<Rightarrow> modules_data lib pv mods)
   }"

definition preflight_mic :: "mld \<Rightarrow> string" where
  "preflight_mic d = mld_name d @ ''-preflight''"

definition verdict :: "go_err + mic \<Rightarrow> mld \<Rightarrow> string \<times> string" where
  "verdict r d =
     (case r of
        Inl _ \<Rightarrow> (VerificationInProgress, ''verification is not finished yet'')
      | Inr m \<Rightarrow>
          (case GetImageState m (mld_image d) of
             ImageExists \<Rightarrow> (VerificationSuccess, ''verified image exists'')
           | ImageDoesNotExist \<Rightarrow> (VerificationFailure, ''verified image does not exist'' @
               (if mld_build d \<noteq> None \<or> mld_sign d \<noteq> None then '' and build/sign failed'' else []))
           | _ \<Rightarrow> (VerificationInProgress, ''verification is not finished yet'')))"

fun set_unmapped :: "server \<Rightarrow> nsn list \<Rightarrow> preflight_validation \<Rightarrow> preflight_validation cio" where
  "set_unmapped srv [] pv = State_Monad.return pv"
| "set_unmapped srv ((ns, name) # ks) pv = do {
     now \<leftarrow> time_now srv;
     set_unmapped srv ks (SetModuleStatus now pv ns name VerificationFailure ''mapping not found'')
   }"

fun set_mapped :: "server \<Rightarrow> mld list \<Rightarrow> preflight_validation \<Rightarrow> preflight_validation cio" where
  "set_mapped srv [] pv = State_Monad.return pv"
| "set_mapped srv (d # ds) pv = do {
     r \<leftarrow> Mic.Get srv (preflight_mic d) (mld_namespace d);
     now \<leftarrow> time_now srv;
     set_mapped srv ds (SetModuleStatus now pv (mld_namespace d) (mld_name d) (fst (verdict r d)) (snd (verdict r d)))
   }"

definition updateStatus :: "server \<Rightarrow> mld list \<Rightarrow> nsn list \<Rightarrow> preflight_validation \<Rightarrow> (go_err option \<times> preflight_validation) cio" where
  "updateStatus srv modsWithMapping modsWithoutMapping pv = do {
     pv1 \<leftarrow> set_unmapped srv modsWithoutMapping pv;
     pv2 \<leftarrow> set_mapped srv modsWithMapping pv1;
     e \<leftarrow> do_write srv (Other (Patch_Preflight_Status pv pv2));
     State_Monad.return (e, pv2)
   }"

definition preflight_image :: "mld \<Rightarrow> image_spec" where
  "preflight_image d = \<lparr>is_image = mld_image d, is_kernel_version = mld_kernel_version d, is_build = mld_build d, is_sign = mld_sign d,
     is_skip_wait = False, is_registry_tls = mld_registry_tls d, is_dir_name = mp_dir_name (mld_modprobe d)\<rparr>"

definition processPreflightValidation :: "library \<Rightarrow> server \<Rightarrow> mld list \<Rightarrow> preflight_validation \<Rightarrow> (go_err option) cio" where
  "processPreflightValidation lib srv modsWithMapping pv = do {
     es \<leftarrow> collect_errors (\<lambda>d.
         if verified (GetModuleStatus pv (mld_namespace d) (mld_name d)) then State_Monad.return None
         else do {
           e \<leftarrow> Mic.CreateOrPatch lib srv (preflight_mic d) (mld_namespace d) [preflight_image d] (mld_repo_secret d)
                  (mld_pull_policy d) (pv_push pv) None (mld_tolerations d) (pv_owner_of pv);
           State_Monad.return (errorf_opt ''failed to apply MIC'' e)
         }) modsWithMapping;
     State_Monad.return (join_errors es)
   }"

definition Preflight_Reconcile :: "library \<Rightarrow> server \<Rightarrow> preflight_validation \<Rightarrow> (go_err option) cio" where
  "Preflight_Reconcile lib srv pv = do {
     _ \<leftarrow> record_event (Other (Metric ''kmm_preflight_num'' [] 1));
     r \<leftarrow> getModulesData lib srv pv;
     case r of
       Inl e \<Rightarrow> State_Monad.return (Some (errorf ''failed to get modules' data'' e))
     | Inr (modsWithMapping, modsWithoutMapping) \<Rightarrow> do {
         u \<leftarrow> updateStatus srv modsWithMapping modsWithoutMapping pv;
         case fst u of
           Some e \<Rightarrow> State_Monad.return (Some (Errorf ''failed to update PreflightValidation's status'' e))
         | None \<Rightarrow> do {
             p \<leftarrow> processPreflightValidation lib srv modsWithMapping (snd u);
             State_Monad.return (errorf_opt ''failed to process the preflight validation'' p)
           }
       }
   }"

section \<open>The verdicts as a map\<close>

type_synonym verdict_item = "int \<times> nsn \<times> string \<times> string"

fun put_verdict :: "verdict_item \<Rightarrow> preflight_validation \<Rightarrow> preflight_validation" where
  "put_verdict (now, (ns, name), status, reason) pv = SetModuleStatus now pv ns name status reason"

definition lookup_verdict :: "preflight_validation \<Rightarrow> nsn \<Rightarrow> pv_module_status option" where
  "lookup_verdict pv k = find (\<lambda>s. (pvs_namespace s, pvs_name s) = k) (pv_modules pv)"

fun entry_of :: "verdict_item \<Rightarrow> pv_module_status" where
  "entry_of (now, (ns, name), status, reason) = status_entry now ns name status reason"

interpretation verdicts: keyed_store lookup_verdict put_verdict "\<lambda>i. fst (snd i)" entry_of
proof
  fix i :: verdict_item and pv k
  obtain now ns name st reason where i: "i = (now, (ns, name), st, reason)" by (cases i) auto
  have key: "(pvs_namespace (status_entry now ns name st reason), pvs_name (status_entry now ns name st reason)) = (ns, name)"
    by (simp add: status_entry_def Let_def)
  have P: "(\<lambda>s. pvs_name s = name \<and> pvs_namespace s = ns) = (\<lambda>s. (pvs_namespace s, pvs_name s) = (ns, name))" by auto
  show "lookup_verdict (put_verdict i pv) (fst (snd i)) = Some (entry_of i)"
    using find_upsert [where P = "\<lambda>s. (pvs_namespace s, pvs_name s) = (ns, name)", OF key]
    by (simp add: i lookup_verdict_def SetModuleStatus_def P)
  show "lookup_verdict (put_verdict i pv) k = lookup_verdict pv k" if "k \<noteq> fst (snd i)"
    using find_upsert_key [of "\<lambda>s. (pvs_namespace s, pvs_name s)" k "status_entry now ns name st reason" "pv_modules pv"] that key
    by (simp add: i lookup_verdict_def SetModuleStatus_def P)
qed

lemma GetModuleStatus_lookup:
  "GetModuleStatus pv ns name = (case lookup_verdict pv (ns, name) of None \<Rightarrow> [] | Some s \<Rightarrow> pvs_status s)"
  by (simp add: GetModuleStatus_def lookup_verdict_def conj_commute)

text \<open>Where the verdicts of a pass come from: the ModuleImagesConfig of each mapped module, read during the pass.\<close>

definition justified :: "server \<Rightarrow> mld \<Rightarrow> verdict_item \<Rightarrow> bool" where
  "justified srv d i \<longleftrightarrow> fst (snd i) = (mld_namespace d, mld_name d) \<and>
     (\<exists>h. snd (snd i) = verdict (map_sum (Errorf ''could not get ModuleImagesConfig'') id (s_mic srv h (mld_namespace d, preflight_mic d))) d)"

lemma status_entry_status [simp]: "pvs_status (status_entry now ns name st reason) = st"
  by (simp add: status_entry_def Let_def)

lemma entry_of_status [simp]: "pvs_status (entry_of i) = fst (snd (snd i))"
  by (cases i) auto

lemma does_now: "P (Other Now) \<Longrightarrow> does P (\<lambda>_. True) (time_now srv)"
  by (intro emits_does emits_intros)

lemma does_set_unmapped:
  assumes "P (Other Now)"
  shows "does P (\<lambda>pv'. \<exists>is. pv' = fold put_verdict is pv \<and> map (\<lambda>i. fst (snd i)) is = ks \<and>
     (\<forall>i\<in>set is. fst (snd (snd i)) = VerificationFailure)) (set_unmapped srv ks pv)"
proof (induction ks arbitrary: pv)
  case Nil
  then show ?case by (auto intro!: does_intros)
next
  case (Cons k ks)
  obtain ns name where k: "k = (ns, name)" by force
  show ?case unfolding k set_unmapped.simps
  proof (rule does_bind [OF does_now [of P, OF assms]])
    fix now :: int
    let ?i = "(now, (ns, name), VerificationFailure, ''mapping not found'')"
    show "does P (\<lambda>pv'. \<exists>is. pv' = fold put_verdict is pv \<and> map (\<lambda>i. fst (snd i)) is = (ns, name) # ks \<and>
       (\<forall>i\<in>set is. fst (snd (snd i)) = VerificationFailure))
       (set_unmapped srv ks (SetModuleStatus now pv ns name VerificationFailure ''mapping not found''))"
      by (rule does_mono [OF Cons.IH], assumption, elim exE, rule_tac x = "?i # is" in exI) auto
  qed
qed

lemma does_set_mapped:
  assumes "P (Other Now)" "\<And>k. P (Get_MIC k)"
  shows "does P (\<lambda>pv'. \<exists>is. pv' = fold put_verdict is pv \<and> list_all2 (justified srv) ds is) (set_mapped srv ds pv)"
proof (induction ds arbitrary: pv)
  case Nil
  then show ?case by (auto intro!: does_intros)
next
  case (Cons d ds)
  show ?case unfolding set_mapped.simps
  proof (rule does_bind [OF does_Get_mic [of P, OF assms(2)]], rule does_bind [OF does_now [of P, OF assms(1)]])
    fix r and now :: int
    let ?i = "(now, (mld_namespace d, mld_name d), verdict r d)"
    assume "\<exists>h. r = map_sum (Errorf ''could not get ModuleImagesConfig'') id (s_mic srv h (mld_namespace d, preflight_mic d))"
    then have j: "justified srv d ?i" by (auto simp: justified_def)
    have p: "put_verdict ?i pv = SetModuleStatus now pv (mld_namespace d) (mld_name d) (fst (verdict r d)) (snd (verdict r d))"
      by (cases "verdict r d") simp
    show "does P (\<lambda>pv'. \<exists>is. pv' = fold put_verdict is pv \<and> list_all2 (justified srv) (d # ds) is)
       (set_mapped srv ds (SetModuleStatus now pv (mld_namespace d) (mld_name d) (fst (verdict r d)) (snd (verdict r d))))"
      by (rule does_mono [OF Cons.IH], assumption, elim exE, rule_tac x = "?i # is" in exI) (use j p in auto)
  qed
qed

lemma modules_data_mapped:
  assumes "modules_data lib pv mods = Inr (yes, no)" "d \<in> set yes"
  shows "\<exists>m\<in>set mods. \<not> mod_deleting m \<and>
    GetModuleLoaderDataForKernel (l_MatchString lib) (l_envsubst lib) m (pv_kernel_version pv) = Inr d"
  using assms by (induction mods arbitrary: yes no) (auto simp: and_then_Inr split: if_splits sum.splits)

lemma does_getModulesData:
  assumes "P (List_Modules None)"
  shows "does P (\<lambda>r. \<forall>yes no. r = Inr (yes, no) \<longrightarrow> (\<exists>h mods. s_modules srv h None = Inr mods \<and> modules_data lib pv mods = Inr (yes, no)))
     (getModulesData lib srv pv)"
proof -
  have "does P (\<lambda>r. \<exists>h. r = s_modules srv h None) (list_modules srv None)"
    unfolding list_modules_def by (rule does_issue) (auto intro: assms)
  then show ?thesis unfolding getModulesData_def
    by (rule does_bind) (auto intro!: does_intros split: sum.splits)
qed

text \<open>A verdict of success is one on an image that exists.\<close>

lemma justified_success:
  assumes "justified srv d i" "fst (snd (snd i)) = VerificationSuccess"
  shows "\<exists>h m. s_mic srv h (mld_namespace d, preflight_mic d) = Inr m \<and> GetImageState m (mld_image d) = ImageExists"
proof -
  from assms(1) obtain h where h: "snd (snd i) =
      verdict (map_sum (Errorf ''could not get ModuleImagesConfig'') id (s_mic srv h (mld_namespace d, preflight_mic d))) d"
    by (auto simp: justified_def)
  with assms(2) show ?thesis
    by (cases "s_mic srv h (mld_namespace d, preflight_mic d)")
      (auto simp: verdict_def verification_consts split: image_state.splits)
qed

text \<open>
  C30: a module is reported as verified only when its image for the new kernel exists. When reconciling a
  PreflightValidation patches its status and a module has status Success in the patch and had not before, then the
  server listed a module that is not being deleted and maps the new kernel, of that name and namespace, and answered
  that the ModuleImagesConfig of its preflight records the image of that mapping as existing.
\<close>

theorem preflight_success_means_image:
  assumes c: "Other (Patch_Preflight_Status pv1 pv2) \<in> set (calls (Preflight_Reconcile lib srv pv) h)"
    and "GetModuleStatus pv2 ns name = VerificationSuccess" "GetModuleStatus pv1 ns name \<noteq> VerificationSuccess"
  shows "pv1 = pv \<and> (\<exists>h' mods modu d h'' m. s_modules srv h' None = Inr mods \<and> modu \<in> set mods \<and> \<not> mod_deleting modu \<and>
    GetModuleLoaderDataForKernel (l_MatchString lib) (l_envsubst lib) modu (pv_kernel_version pv) = Inr d \<and>
    mld_namespace d = ns \<and> mld_name d = name \<and>
    s_mic srv h'' (ns, name @ ''-preflight'') = Inr m \<and> GetImageState m (mld_image d) = ImageExists)"
proof -
  let ?D = "\<lambda>d. \<exists>h' mods modu. s_modules srv h' None = Inr mods \<and> modu \<in> set mods \<and> \<not> mod_deleting modu \<and>
    GetModuleLoaderDataForKernel (l_MatchString lib) (l_envsubst lib) modu (pv_kernel_version pv) = Inr d"
  let ?ok = "\<lambda>pv2. \<exists>is js yes. pv2 = fold put_verdict (is @ js) pv \<and> (\<forall>i\<in>set is. fst (snd (snd i)) = VerificationFailure) \<and>
    list_all2 (justified srv) yes js \<and> (\<forall>d\<in>set yes. ?D d)"
  let ?P = "\<lambda>c. \<forall>pv1 pv2. c = Other (Patch_Preflight_Status pv1 pv2) \<longrightarrow> pv1 = pv \<and> ?ok pv2"
  have data: "does ?P (\<lambda>r. \<forall>yes no. r = Inr (yes, no) \<longrightarrow> (\<forall>d\<in>set yes. ?D d)) (getModulesData lib srv pv)"
    by (rule does_mono [OF does_getModulesData [of ?P]], simp, assumption) (blast dest: modules_data_mapped)
  have okI: "?ok (fold put_verdict js (fold put_verdict is pv))"
    if "\<forall>i\<in>set is. fst (snd (snd i)) = VerificationFailure" "list_all2 (justified srv) yes js" "\<forall>d\<in>set yes. ?D d" for "is" js yes
    using that by (intro exI [of _ "is"] exI [of _ js] exI [of _ yes]) simp
  have update: "does ?P (\<lambda>_. True) (updateStatus srv yes no pv)" if "\<forall>d\<in>set yes. ?D d" for yes no
    unfolding updateStatus_def
    by (rule does_bind [OF does_set_unmapped], simp, rule does_bind [OF does_set_mapped], simp, simp,
        rule does_bind [OF emits_does], rule emits_requests, use okI that in blast, intro does_intros TrueI)
  have process: "emits ?P (processPreflightValidation lib srv yes pv')" for yes pv'
    unfolding processPreflightValidation_def Mic.CreateOrPatch_def Let_def by (intro emits_intros) auto
  have "emits ?P (Preflight_Reconcile lib srv pv)"
    unfolding Preflight_Reconcile_def
    by (rule does_emits [where Q = "\<lambda>_. True"], rule does_bind [OF emits_does], rule emits_requests, simp, rule does_bind [OF data],
        intro does_intros TrueI, rule does_bind [OF update], blast, intro does_intros TrueI emits_does emits_intros process)
  from emits_calls [OF this c] obtain "is" js yes where pv: "pv1 = pv" "pv2 = fold put_verdict (is @ js) pv"
    and f: "\<forall>i\<in>set is. fst (snd (snd i)) = VerificationFailure" and j: "list_all2 (justified srv) yes js" "\<forall>d\<in>set yes. ?D d"
    by auto
  have "\<exists>i\<in>set (is @ js). fst (snd i) = (ns, name) \<and> fst (snd (snd i)) = VerificationSuccess"
    using assms(2,3) unfolding pv GetModuleStatus_lookup verdicts.get_fold_put
    by (auto split: option.splits dest!: find_set)
  then obtain i where i: "i \<in> set js" "fst (snd i) = (ns, name)" "fst (snd (snd i)) = VerificationSuccess"
    using f by (auto simp: verification_consts)
  then obtain d where d: "d \<in> set yes" "justified srv d i" using j(1) by (metis in_set_conv_nth list_all2_conv_all_nth)
  have "mld_namespace d = ns" "mld_name d = name" using d(2) i(2) by (auto simp: justified_def)
  with justified_success [OF d(2) i(3)] d(1) j(2) pv(1) show ?thesis by (auto simp: preflight_mic_def) metis
qed

text \<open>A concrete preflight: one module with one mapping, for the kernel of the validation.\<close>

definition sample_pv :: preflight_validation where
  "sample_pv = \<lparr>pv_name = ''pv'', pv_namespace = [], pv_uid = ''u'', pv_deleting = False, pv_kernel_version = ''6.1.7'', pv_push = False, pv_modules = []\<rparr>"

definition literal_module :: "string \<Rightarrow> kmodule" where
  "literal_module name = new_module ''kmm'' name (empty_module_spec\<lparr>ms_loader := Some \<lparr>ml_container =
     empty_loader_container\<lparr>lc_mappings := [empty_mapping\<lparr>km_literal := ''6.1.7'', km_image := ''img''\<rparr>]\<rparr>, ml_service_account = []\<rparr>\<rparr>)"

definition preflight_cluster :: server where
  "preflight_cluster = empty_cluster\<lparr>s_modules := (\<lambda>h ns. Inr [literal_module ''gpu'']),
     s_mic := (\<lambda>h k. Inr ((new_mic (snd k) (fst k))\<lparr>mic_states := [\<lparr>mis_image = ''img'', mis_status = ImageExists\<rparr>]\<rparr>))\<rparr>"

theorem preflight_success_means_image_witness:
  "\<exists>pv2. Other (Patch_Preflight_Status sample_pv pv2) \<in> set (calls (Preflight_Reconcile plain_library preflight_cluster sample_pv) []) \<and>
     GetModuleStatus pv2 ''kmm'' ''gpu'' = VerificationSuccess \<and>
     (\<exists>h m. s_mic preflight_cluster h (''kmm'', ''gpu-preflight'') = Inr m)"
proof -
  let ?run = "calls (Preflight_Reconcile plain_library preflight_cluster sample_pv) []"
  have "list_ex (\<lambda>c. case c of Other (Patch_Preflight_Status a b) \<Rightarrow>
      a = sample_pv \<and> GetModuleStatus b ''kmm'' ''gpu'' = VerificationSuccess | _ \<Rightarrow> False) ?run" by code_simp
  then obtain c where "c \<in> set ?run" "case c of Other (Patch_Preflight_Status a b) \<Rightarrow>
      a = sample_pv \<and> GetModuleStatus b ''kmm'' ''gpu'' = VerificationSuccess | _ \<Rightarrow> False" by (auto simp: list_ex_iff)
  then obtain pv2 where c: "Other (Patch_Preflight_Status sample_pv pv2) \<in> set ?run"
    and s: "GetModuleStatus pv2 ''kmm'' ''gpu'' = VerificationSuccess"
    by (auto split: call.splits other_call.splits)
  have "GetModuleStatus sample_pv ''kmm'' ''gpu'' \<noteq> VerificationSuccess" by code_simp
  from preflight_success_means_image [OF c s this] c s show ?thesis by (auto simp: Let_def)
qed

section \<open>Asking for images\<close>

text \<open>
  The validation asks for the images it needs and for no other. A ModuleImagesConfig that reconciling a list of
  mapped modules writes is that of the preflight of one of them without a verdict, and asks for the image, build and
  signing settings of the mapping for the new kernel alone, with the push setting of the validation.
\<close>

theorem preflight_asks_for_unverified:
  assumes "c \<in> set (calls (processPreflightValidation lib srv ds pv) h)" "c = Create_MIC new \<or> c = Patch_MIC old new"
    and "\<forall>h k m. s_mic srv h k = Inr m \<longrightarrow> (mic_namespace m, mic_name m) = k"
  shows "\<exists>d\<in>set ds. \<not> verified (GetModuleStatus pv (mld_namespace d) (mld_name d)) \<and>
    mic_namespace new = mld_namespace d \<and> mic_name new = mld_name d @ ''-preflight'' \<and>
    ics_images (mic_spec new) = [preflight_image d] \<and> ics_push (mic_spec new) = pv_push pv"
proof -
  let ?R = "\<lambda>new. \<exists>d\<in>set ds. \<not> verified (GetModuleStatus pv (mld_namespace d) (mld_name d)) \<and>
    mic_namespace new = mld_namespace d \<and> mic_name new = mld_name d @ ''-preflight'' \<and>
    ics_images (mic_spec new) = [preflight_image d] \<and> ics_push (mic_spec new) = pv_push pv"
  let ?P = "\<lambda>c. \<forall>old new. c = Create_MIC new \<or> c = Patch_MIC old new \<longrightarrow> ?R new"
  have one: "emits ?P (Mic.CreateOrPatch lib srv (preflight_mic d) (mld_namespace d) [preflight_image d] rs pp (pv_push pv) None ts ow)"
    if "d \<in> set ds" "\<not> verified (GetModuleStatus pv (mld_namespace d) (mld_name d))" for d rs pp ts ow
  proof -
    have "?R new" if "mutate_mic lib \<lparr>ics_images = filterDuplicateImages [preflight_image d], ics_repo_secret = rs, ics_pull_policy = pp,
         ics_push = pv_push pv, ics_rebuild_trigger = None, ics_tolerations = ts\<rparr> ow m = Inr new"
        "(mic_namespace m, mic_name m) = (mld_namespace d, preflight_mic d)" for m new
      using that \<open>d \<in> set ds\<close> \<open>\<not> verified _\<close>
      by (auto simp: mutate_mic_def and_then_Inr preflight_mic_def filterDuplicateImages_def intro!: bexI [of _ d])
    then show ?thesis
      using assms(3) unfolding emits_def Mic.CreateOrPatch_def Client.CreateOrPatch_def get_mic_def do_write_def Let_def
      by (auto simp: new_mic_def split: sum.splits)
  qed
  have "emits ?P (processPreflightValidation lib srv ds pv)"
    unfolding processPreflightValidation_def by (intro emits_intros one)
  from emits_calls [OF this assms(1)] assms(2) show ?thesis by blast
qed

theorem preflight_asks_for_unverified_witness:
  "\<exists>new. Create_MIC new \<in> set (calls (processPreflightValidation plain_library empty_cluster
       [projr (GetModuleLoaderDataForKernel (l_MatchString plain_library) (l_envsubst plain_library) (literal_module ''gpu'') ''6.1.7'')] sample_pv) []) \<and>
     mic_name new = ''gpu-preflight'' \<and> ics_push (mic_spec new) = False"
proof -
  let ?d = "projr (GetModuleLoaderDataForKernel (l_MatchString plain_library) (l_envsubst plain_library) (literal_module ''gpu'') ''6.1.7'')"
  let ?run = "calls (processPreflightValidation plain_library empty_cluster [?d] sample_pv) []"
  have "list_ex (\<lambda>c. case c of Create_MIC m \<Rightarrow> True | _ \<Rightarrow> False) ?run" by code_simp
  then obtain c where "c \<in> set ?run" "case c of Create_MIC m \<Rightarrow> True | _ \<Rightarrow> False" by (auto simp: list_ex_iff)
  then obtain new where c: "Create_MIC new \<in> set ?run" by - (cases c, auto)
  moreover have "mld_name ?d = ''gpu''" by code_simp
  ultimately show ?thesis using preflight_asks_for_unverified [OF c, of new]
    by (auto simp: empty_cluster_def sample_pv_def intro!: exI [of _ new])
qed

section \<open>Where the controller goes wrong\<close>

text \<open>
  A module without a loader, which the API allows, stops preflight validation for the whole cluster: preparing its
  data dereferences the missing loader, so the pass panics before any status is written, whatever other modules there are.
\<close>

theorem preflight_loaderless_module_panics:
  assumes "s_modules srv (h @ [Other (Metric ''kmm_preflight_num'' [] 1)]) None = Inr (before @ modu # after)"
    and "\<not> mod_deleting modu" "ms_loader (mod_spec modu) = None"
    and "\<forall>m\<in>set before. mod_deleting m \<or> (\<exists>d. GetModuleLoaderDataForKernel (l_MatchString lib) (l_envsubst lib) m (pv_kernel_version pv) = Inr d)"
  shows "run_state (Preflight_Reconcile lib srv pv) h =
    (Some (Panic ''nil pointer dereference''), h @ [Other (Metric ''kmm_preflight_num'' [] 1), List_Modules None])"
proof -
  have "modules_data lib pv (before @ modu # after) = Inl (Panic ''nil pointer dereference'')"
    using assms(4)
  proof (induction before)
    case Nil
    from assms(2,3) show ?case by (simp add: GetModuleLoaderDataForKernel_def errorf_def)
  next
    case (Cons m ms)
    then show ?case by auto
  qed
  with assms(1) show ?thesis
    by (simp add: Preflight_Reconcile_def getModulesData_def list_modules_def record_event_def errorf_def)
qed

theorem preflight_loaderless_module_panics_witness:
  "fst (run_state (Preflight_Reconcile plain_library (empty_cluster\<lparr>s_modules := (\<lambda>h ns.
     Inr [literal_module ''gpu'', new_module ''kmm'' ''plugin-only'' empty_module_spec])\<rparr>) sample_pv) []) = Some (Panic ''nil pointer dereference'')"
proof -
  let ?m = "literal_module ''gpu''"
  have "\<not> isl (GetModuleLoaderDataForKernel (l_MatchString plain_library) (l_envsubst plain_library) ?m (pv_kernel_version sample_pv))"
    by code_simp
  then have "\<exists>d. GetModuleLoaderDataForKernel (l_MatchString plain_library) (l_envsubst plain_library) ?m (pv_kernel_version sample_pv) = Inr d"
    by (metis sum.collapse(2))
  then show ?thesis
    using preflight_loaderless_module_panics [where before = "[?m]" and after = "[]" and h = "[]" and lib = plain_library and pv = sample_pv
      and modu = "new_module ''kmm'' ''plugin-only'' empty_module_spec"
      and srv = "empty_cluster\<lparr>s_modules := (\<lambda>h ns. Inr [?m, new_module ''kmm'' ''plugin-only'' empty_module_spec])\<rparr>"]
    by (simp add: new_module_def empty_module_spec_def)
qed

text \<open>
  The transition time is set on every pass: writing the verdict a module has already replaces the time at which the status
  last changed.
\<close>

theorem transition_time_overwritten:
  assumes "lookup_verdict pv (ns, name) = Some (status_entry t ns name st reason)" "now \<noteq> t"
  shows "lookup_verdict (SetModuleStatus now pv ns name st reason) (ns, name) = Some (status_entry now ns name st reason) \<and>
    status_entry now ns name st reason \<noteq> status_entry t ns name st reason"
  using verdicts.get_put [of "(now, (ns, name), st, reason)" pv] assms(2) by (simp add: status_entry_def Let_def)

end
