(* ===== verification/Pod_Node_Label.thy ===== *)
theory Pod_Node_Label
  imports Client
begin

text \<open>
  The controller that labels a node while a device plugin or a driver runs on it,
  \<^verbatim>\<open>internal/controllers/pod_node_label_reconciler.go\<close>. Its pods carry a finalizer, so that the label can
  be taken off before the pod is gone.
\<close>

section \<open>Model\<close>

definition addLabel :: "server \<Rightarrow> string \<Rightarrow> string \<Rightarrow> (go_err option) cio" where
  "addLabel srv nodeName labelName = do {
     r \<leftarrow> get_node srv nodeName;
     case r of
       Inl e \<Rightarrow> State_Monad.return (Some (Errorf ''could not get node'' e))
     | Inr node \<Rightarrow> do_write srv (Patch_Node node (node\<lparr>node_labels := SetLabel labelName [] (node_labels node)\<rparr>))
   }"

definition deleteLabel :: "server \<Rightarrow> string \<Rightarrow> string \<Rightarrow> (go_err option) cio" where
  "deleteLabel srv nodeName labelName = do {
     r \<leftarrow> get_node srv nodeName;
     case r of
       Inl e \<Rightarrow> if IsNotFound e then State_Monad.return None else State_Monad.return (Some (Errorf ''could not get node'' e))
     | Inr node \<Rightarrow> do_write srv (Patch_Node node (node\<lparr>node_labels := RemoveLabel labelName (node_labels node)\<rparr>))
   }"

definition deleteFinalizer :: "server \<Rightarrow> pod \<Rightarrow> (go_err option) cio" where
  "deleteFinalizer srv p =
     do_write srv (Patch_Pod p (p\<lparr>pod_finalizers := snd (RemoveFinalizer NodeLabelerFinalizer (pod_finalizers p))\<rparr>))"

definition is_dra_pod :: "pod \<Rightarrow> bool" where
  "is_dra_pod p \<longleftrightarrow> label_of (pod_labels p) DaemonSetRole = DRARoleLabelValue"

definition pod_node_label :: "pod \<Rightarrow> string" where
  "pod_node_label p =
     (let moduleName = label_of (pod_labels p) ModuleNameLabel
      in if is_dra_pod p then GetDRANodeLabel (pod_namespace p) moduleName else GetDevicePluginNodeLabel (pod_namespace p) moduleName)"

definition same_role_query :: "pod \<Rightarrow> pod_query" where
  "same_role_query p = \<lparr>pq_namespace = Some (pod_namespace p),
     pq_match = [(ModuleNameLabel, label_of (pod_labels p) ModuleNameLabel),
       (DaemonSetRole, if is_dra_pod p then DRARoleLabelValue else DevicePluginRoleLabelValue)],
     pq_has = [], pq_node = Some (pod_node_name p), pq_in = []\<rparr>"

definition running :: "library \<Rightarrow> pod \<Rightarrow> bool" where
  "running lib p \<longleftrightarrow> l_IsPodReady lib p \<and> \<not> pod_deleting p"

definition unlabel_node :: "library \<Rightarrow> server \<Rightarrow> pod \<Rightarrow> (go_err option) cio" where
  "unlabel_node lib srv p =
     (if pod_node_name p = [] then State_Monad.return None
      else do {
        r \<leftarrow> list_pods srv (same_role_query p);
        case r of
          Inl e \<Rightarrow> State_Monad.return (Some (Errorf ''failed to get list of pods for module'' e))
        | Inr pods \<Rightarrow>
            if list_ex (running lib) pods then State_Monad.return None
            else do {
              e \<leftarrow> deleteLabel srv (pod_node_name p) (pod_node_label p);
              State_Monad.return (map_option (Errorf ''could not unlabel node'') e)
            }
      })"

definition PodNodeLabel_Reconcile :: "library \<Rightarrow> server \<Rightarrow> pod \<Rightarrow> (go_err option) cio" where
  "PodNodeLabel_Reconcile lib srv p =
     (if \<not> has_key (pod_labels p) ModuleNameLabel then State_Monad.return (Some (NewErr ''pod has no module name label''))
      else if \<not> running lib p then do {
        e \<leftarrow> unlabel_node lib srv p;
        case e of
          Some er \<Rightarrow> State_Monad.return (Some er)
        | None \<Rightarrow>
            if pod_deleting p then do {
              f \<leftarrow> deleteFinalizer srv p;
              State_Monad.return (map_option (Errorf ''could not delete the pod finalizer'') (IgnoreNotFound f))
            }
            else State_Monad.return None
      }
      else do {
        e \<leftarrow> addLabel srv (pod_node_name p) (pod_node_label p);
        State_Monad.return (map_option (Errorf ''could not label node'') e)
      })"

section \<open>Properties\<close>

text \<open>What must hold before a pod may go: no node to unlabel, another pod runs, or the label is off the node.\<close>

definition unlabelled :: "library \<Rightarrow> server \<Rightarrow> pod \<Rightarrow> bool" where
  "unlabelled lib srv p \<longleftrightarrow> pod_node_name p = [] \<or>
     (\<exists>h pods. s_pods srv h (same_role_query p) = Inr pods \<and>
        (list_ex (running lib) pods \<or>
         (\<exists>h e. s_node srv h (pod_node_name p) = Inl e \<and> IsNotFound e) \<or>
         (\<exists>h h' n. s_node srv h (pod_node_name p) = Inr n \<and>
            s_write srv h' (Patch_Node n (n\<lparr>node_labels := RemoveLabel (pod_node_label p) (node_labels n)\<rparr>)) = None)))"

lemma unlabel_node_None:
  assumes "fst (run_state (unlabel_node lib srv p) h) = None"
  shows "unlabelled lib srv p"
proof (cases "pod_node_name p = []")
  case True
  then show ?thesis by (simp add: unlabelled_def)
next
  case False
  let ?q = "same_role_query p" and ?n = "pod_node_name p"
  from assms False obtain pods where pods: "s_pods srv h ?q = Inr pods"
    by (auto simp: unlabel_node_def list_pods_def split: sum.splits)
  let ?h = "h @ [List_Pods ?q]"
  consider "list_ex (running lib) pods"
    | e where "s_node srv ?h ?n = Inl e" "IsNotFound e"
    | n where "s_node srv ?h ?n = Inr n"
        "s_write srv (?h @ [Get_Node ?n]) (Patch_Node n (n\<lparr>node_labels := RemoveLabel (pod_node_label p) (node_labels n)\<rparr>)) = None"
    using assms False pods unfolding unlabel_node_def deleteLabel_def list_pods_def get_node_def do_write_def
    by (auto split: if_splits sum.splits)
  then show ?thesis using pods unfolding unlabelled_def by cases blast+
qed

lemma emits_unlabel:
  assumes "\<And>n pods h. s_pods srv h (same_role_query p) = Inr pods \<Longrightarrow> \<not> list_ex (running lib) pods \<Longrightarrow>
      P (Patch_Node n (n\<lparr>node_labels := RemoveLabel (pod_node_label p) (node_labels n)\<rparr>))"
    and "\<And>q. P (List_Pods q)" "\<And>n. P (Get_Node n)"
  shows "emits P (unlabel_node lib srv p)"
proof -
  have pods: "does P (\<lambda>r. \<exists>h. r = s_pods srv h (same_role_query p)) (list_pods srv (same_role_query p))"
    by (rule does_requests) (rule assms)
  have del: "emits P (deleteLabel srv n (pod_node_label p))"
    if "s_pods srv h (same_role_query p) = Inr pods" "\<not> list_ex (running lib) pods" for n h pods
    unfolding deleteLabel_def by (intro emits_intros assms(3) assms(1) [OF that])
  have "does P (\<lambda>_. True) (unlabel_node lib srv p)"
    unfolding unlabel_node_def
    by (intro does_intros TrueI, rule does_bind [OF pods], intro does_intros TrueI emits_does emits_intros) (auto intro: del [OF sym])
  then show ?thesis by (rule does_emits)
qed

text \<open>
  C32: the label of a node follows the running pods. Reconciling a pod patches a node only to add the label of the pod's
  module and role when the pod runs, or to take it off when the pod does not run and the listing of the pods of the
  same role on that node shows none that does; and when the finalizer is taken off a pod, the pod is being deleted and
  the label is off the node, or another pod runs there, or there is no node.
\<close>

theorem node_label_follows_pods:
  assumes c: "c \<in> set (calls (PodNodeLabel_Reconcile lib srv p) h)"
  shows "(case c of
      Patch_Node n n' \<Rightarrow>
        if running lib p then n' = n\<lparr>node_labels := SetLabel (pod_node_label p) [] (node_labels n)\<rparr>
        else n' = n\<lparr>node_labels := RemoveLabel (pod_node_label p) (node_labels n)\<rparr> \<and>
          (\<exists>h' pods. s_pods srv h' (same_role_query p) = Inr pods \<and> \<not> list_ex (running lib) pods)
    | Patch_Pod q q' \<Rightarrow> q = p \<and> q' = p\<lparr>pod_finalizers := filter (\<lambda>f. f \<noteq> NodeLabelerFinalizer) (pod_finalizers p)\<rparr> \<and>
        pod_deleting p \<and> unlabelled lib srv p
    | _ \<Rightarrow> is_read c)"
    (is "?P c")
proof -
  have unl: "does ?P (\<lambda>e. e = None \<longrightarrow> unlabelled lib srv p) (unlabel_node lib srv p)" if "\<not> running lib p"
  proof -
    have "emits ?P (unlabel_node lib srv p)" by (rule emits_unlabel) (simp_all add: that, blast)
    then show ?thesis unfolding does_def using unlabel_node_None by blast
  qed
  have "does ?P (\<lambda>_. True) (PodNodeLabel_Reconcile lib srv p)"
    unfolding PodNodeLabel_Reconcile_def deleteFinalizer_def addLabel_def
    by (intro does_intros TrueI, rule does_bind [OF unl], assumption, intro does_intros TrueI emits_does emits_intros)
      (auto simp: RemoveFinalizer_def intro!: emits_does emits_intros)
  from does_calls [OF this c] show ?thesis .
qed

text \<open>
  A running pod gets its node labelled, and a deleted one is let go: when reconciling reports no error, the node was
  read and the patch that sets the label was accepted, or respectively the patch that takes the finalizer off was sent.
\<close>

theorem node_label_progress:
  assumes "fst (run_state (PodNodeLabel_Reconcile lib srv p) h) = None"
  shows "if running lib p then (\<exists>h' h'' n. s_node srv h' (pod_node_name p) = Inr n \<and>
      s_write srv h'' (Patch_Node n (n\<lparr>node_labels := SetLabel (pod_node_label p) [] (node_labels n)\<rparr>)) = None)
    else pod_deleting p \<longrightarrow> Patch_Pod p (p\<lparr>pod_finalizers := filter (\<lambda>f. f \<noteq> NodeLabelerFinalizer) (pod_finalizers p)\<rparr>) \<in>
      set (calls (PodNodeLabel_Reconcile lib srv p) h)"
proof (cases "running lib p")
  case True
  with assms show ?thesis
    by (auto simp: PodNodeLabel_Reconcile_def addLabel_def get_node_def do_write_def split: if_splits sum.splits)
next
  case False
  have e: "emits (\<lambda>_. True) (unlabel_node lib srv p)" by (rule emits_unlabel) auto
  then obtain t where "snd (run_state (unlabel_node lib srv p) h) = h @ t" unfolding emits_def by blast
  with False assms show ?thesis
    by (auto simp: PodNodeLabel_Reconcile_def deleteFinalizer_def RemoveFinalizer_def do_write_def calls_def split_beta
        split: if_splits option.splits)
qed

section \<open>Witnesses\<close>

definition plugin_pod :: "bool \<Rightarrow> pod" where
  "plugin_pod deleting = empty_pod\<lparr>pod_name := ''gpu-x'', pod_namespace := ''kmm'',
     pod_labels := [(ModuleNameLabel, ''gpu''), (DaemonSetRole, DevicePluginRoleLabelValue)],
     pod_finalizers := [NodeLabelerFinalizer], pod_deleting := deleting, pod_node_name := ''n1'', pod_conditions := [(''Ready'', ''True'')]\<rparr>"

definition one_node :: server where
  "one_node = empty_cluster\<lparr>s_node := (\<lambda>h n. Inr \<lparr>node_name = n, node_uid = n, node_labels = [], node_taints = [],
     node_kernel_version = [], node_boot_id = [], node_conditions = [], node_spec_rest = [], node_info_rest = []\<rparr>)\<rparr>"

theorem node_label_follows_pods_witness:
  "Patch_Pod (plugin_pod True) ((plugin_pod True)\<lparr>pod_finalizers := []\<rparr>) \<in>
     set (calls (PodNodeLabel_Reconcile plain_library one_node (plugin_pod True)) []) \<and> unlabelled plain_library one_node (plugin_pod True)"
proof -
  let ?run = "calls (PodNodeLabel_Reconcile plain_library one_node (plugin_pod True)) []"
  have "list_ex (\<lambda>c. c = Patch_Pod (plugin_pod True) ((plugin_pod True)\<lparr>pod_finalizers := []\<rparr>)) ?run" by code_simp
  then have "Patch_Pod (plugin_pod True) ((plugin_pod True)\<lparr>pod_finalizers := []\<rparr>) \<in> set ?run" by (auto simp: list_ex_iff)
  with node_label_follows_pods [OF this] show ?thesis by simp
qed

theorem node_label_progress_witness:
  "\<exists>h' h'' n. s_node one_node h' ''n1'' = Inr n \<and>
     s_write one_node h'' (Patch_Node n (n\<lparr>node_labels := SetLabel (GetDevicePluginNodeLabel ''kmm'' ''gpu'') [] (node_labels n)\<rparr>)) = None"
proof -
  have "running plain_library (plugin_pod False)" "fst (run_state (PodNodeLabel_Reconcile plain_library one_node (plugin_pod False)) []) = None"
    "pod_node_label (plugin_pod False) = GetDevicePluginNodeLabel ''kmm'' ''gpu''" "pod_node_name (plugin_pod False) = ''n1''"
    by code_simp+
  with node_label_progress [of plain_library one_node "plugin_pod False" "[]"] show ?thesis by simp
qed

end
