(* ===== verification/Cluster_Claim.thy ===== *)
theory Cluster_Claim
  imports Client "HOL-Library.Char_ord" "HOL-Library.List_Lexorder"
begin

text \<open>
  How the kernel versions of a cluster reach the hub: the claim written on the spoke,
  \<^verbatim>\<open>internal/controllers/node_kernel_clusterclaim.go\<close>, and its reading on the hub, \<^verbatim>\<open>KernelVersions\<close> of
  \<^verbatim>\<open>internal/cluster/cluster.go\<close>. \<^verbatim>\<open>sort.Strings\<close> sorts by the lexicographic order of the bytes.
\<close>

section \<open>Model\<close>

text \<open>The keys of the map of kernels, in some order, and the claim made of them.\<close>

definition kernels_of :: "node list \<Rightarrow> string list" where
  "kernels_of nodes = remdups (map node_kernel_version nodes)"

definition claim_value :: "string list \<Rightarrow> string" where
  "claim_value kernels = join_with [CHR 0x0A] (sort kernels)"

definition Claim_Reconcile :: "server \<Rightarrow> (go_err option) cio" where
  "Claim_Reconcile srv = do {
     r \<leftarrow> list_nodes srv [];
     case r of
       Inl e \<Rightarrow> State_Monad.return (Some (Errorf ''could not list nodes'' e))
     | Inr nodes \<Rightarrow>
         Client.CreateOrPatch srv (get_clusterclaim srv KernelVersionsClusterClaimName)
           \<lparr>ccl_name = KernelVersionsClusterClaimName, ccl_value = []\<rparr>
           (\<lambda>cc. Inr (cc\<lparr>ccl_value := claim_value (kernels_of nodes)\<rparr>))
           (\<lambda>cc. Other (Create_ClusterClaim cc)) (\<lambda>a b. Other (Patch_ClusterClaim a b))
   }"

definition KernelVersions :: "managed_cluster \<Rightarrow> go_err + string list" where
  "KernelVersions cluster =
     (case find (\<lambda>c. ccl_name c = KernelVersionsClusterClaimName) (mcl_claims cluster) of
        None \<Rightarrow> Inl (NewErr ''KMM kernel version ClusterClaim not found'')
      | Some c \<Rightarrow> Inr (sort (split_by (\<lambda>x. x = CHR 0x0A) (ccl_value c))))"

section \<open>Properties\<close>

lemma sort_kernels_cong:
  assumes "set (map node_kernel_version nodes) = set (map node_kernel_version nodes')"
  shows "sort (kernels_of nodes) = sort (kernels_of nodes')"
  unfolding kernels_of_def
  by (rule sorted_distinct_set_unique) (use assms in auto)

text \<open>
  The claim says which kernels there are and nothing else. Two passes that list nodes with the same set of kernel
  versions, in whatever order and number, want the same value, and a claim that has it is left alone.
\<close>

theorem claim_depends_on_kernel_set:
  assumes "s_nodes srv h [] = Inr nodes" "set (map node_kernel_version nodes) = set (map node_kernel_version nodes')"
    and "s_clusterclaim srv (h @ [List_Nodes []]) KernelVersionsClusterClaimName =
      Inr \<lparr>ccl_name = KernelVersionsClusterClaimName, ccl_value = claim_value (kernels_of nodes')\<rparr>"
  shows "run_state (Claim_Reconcile srv) h = (None, h @ [List_Nodes [], Other (Get_ClusterClaim KernelVersionsClusterClaimName)])"
proof -
  have "claim_value (kernels_of nodes) = claim_value (kernels_of nodes')"
    using sort_kernels_cong [OF assms(2)] by (simp add: claim_value_def)
  with assms(1,3) show ?thesis
    by (simp add: Claim_Reconcile_def Client.CreateOrPatch_def list_nodes_def get_clusterclaim_def)
qed

text \<open>Splitting what was joined, for pieces without the separator.\<close>

lemma split_join:
  assumes "ws \<noteq> []" "\<forall>w\<in>set ws. c \<notin> set w"
  shows "split_by (\<lambda>x. x = c) (join_with [c] ws) = ws"
  using assms
proof (induction ws rule: induct_list012)
  case (2 w)
  then show ?case by (auto intro: split_by_no_sep)
next
  case (3 w v ws)
  moreover from 3 have "split_by (\<lambda>x. x = c) w = [w]" by (auto intro: split_by_no_sep)
  ultimately show ?case by (simp add: split_by_append_sep)
qed simp

text \<open>
  The kernel versions arrive on the hub. For a cluster with at least one node and kernel versions without line
  breaks, reading the claim that the spoke writes gives each kernel version of a node once, sorted.
\<close>

theorem kernel_versions_roundtrip:
  assumes "nodes \<noteq> []" "\<forall>n\<in>set nodes. CHR 0x0A \<notin> set (node_kernel_version n)"
    and "find (\<lambda>c. ccl_name c = KernelVersionsClusterClaimName) (mcl_claims cluster) =
      Some \<lparr>ccl_name = KernelVersionsClusterClaimName, ccl_value = claim_value (kernels_of nodes)\<rparr>"
  shows "\<exists>ks. KernelVersions cluster = Inr ks \<and> sorted ks \<and> distinct ks \<and> set ks = node_kernel_version ` set nodes"
proof -
  let ?ks = "sort (kernels_of nodes)"
  have "?ks \<noteq> []" "\<forall>w\<in>set ?ks. CHR 0x0A \<notin> set w"
    using assms(1,2) by (auto simp: kernels_of_def simp flip: length_greater_0_conv)
  then have "KernelVersions cluster = Inr ?ks"
    using assms(3) by (simp add: KernelVersions_def claim_value_def split_join sort_key_id_if_sorted)
  then show ?thesis by (auto simp: kernels_of_def)
qed

text \<open>Without nodes the claim is empty, and the hub reads one kernel version, the empty one.\<close>

theorem empty_claim_reads_as_empty_kernel:
  assumes "mcl_claims cluster = [\<lparr>ccl_name = KernelVersionsClusterClaimName, ccl_value = claim_value (kernels_of [])\<rparr>]"
  shows "KernelVersions cluster = Inr [[]]"
  using assms by (simp add: KernelVersions_def claim_value_def kernels_of_def)

section \<open>Witnesses\<close>

definition kernel_node :: "string \<Rightarrow> string \<Rightarrow> node" where
  "kernel_node n kv = \<lparr>node_name = n, node_uid = n, node_labels = [], node_taints = [], node_kernel_version = kv,
     node_boot_id = [], node_conditions = [], node_spec_rest = [], node_info_rest = []\<rparr>"

theorem claim_depends_on_kernel_set_witness:
  "run_state (Claim_Reconcile (empty_cluster\<lparr>s_nodes := (\<lambda>h q. Inr [kernel_node ''a'' ''6.1'', kernel_node ''b'' ''5.4'', kernel_node ''c'' ''6.1'']),
     s_clusterclaim := (\<lambda>h n. Inr \<lparr>ccl_name = KernelVersionsClusterClaimName,
       ccl_value = claim_value (kernels_of [kernel_node ''d'' ''5.4'', kernel_node ''e'' ''6.1''])\<rparr>)\<rparr>)) [] =
   (None, [List_Nodes [], Other (Get_ClusterClaim KernelVersionsClusterClaimName)])"
  using claim_depends_on_kernel_set [of "empty_cluster\<lparr>s_nodes := (\<lambda>h q. Inr [kernel_node ''a'' ''6.1'', kernel_node ''b'' ''5.4'', kernel_node ''c'' ''6.1'']),
     s_clusterclaim := (\<lambda>h n. Inr \<lparr>ccl_name = KernelVersionsClusterClaimName,
       ccl_value = claim_value (kernels_of [kernel_node ''d'' ''5.4'', kernel_node ''e'' ''6.1''])\<rparr>)\<rparr>" "[]"
     "[kernel_node ''a'' ''6.1'', kernel_node ''b'' ''5.4'', kernel_node ''c'' ''6.1'']" "[kernel_node ''d'' ''5.4'', kernel_node ''e'' ''6.1'']"]
  by (simp add: kernel_node_def insert_commute)

theorem kernel_versions_roundtrip_witness:
  "\<exists>ks. KernelVersions \<lparr>mcl_name = ''spoke'', mcl_labels = [], mcl_claims = [\<lparr>ccl_name = KernelVersionsClusterClaimName,
       ccl_value = claim_value (kernels_of [kernel_node ''a'' ''6.1'', kernel_node ''b'' ''5.4''])\<rparr>]\<rparr> = Inr ks \<and> set ks = {''5.4'', ''6.1''}"
  using kernel_versions_roundtrip [of "[kernel_node ''a'' ''6.1'', kernel_node ''b'' ''5.4'']"
    "\<lparr>mcl_name = ''spoke'', mcl_labels = [], mcl_claims = [\<lparr>ccl_name = KernelVersionsClusterClaimName,
       ccl_value = claim_value (kernels_of [kernel_node ''a'' ''6.1'', kernel_node ''b'' ''5.4''])\<rparr>]\<rparr>"]
  by (auto simp: kernel_node_def)

end
