(* ===== verification/Hub.thy ===== *)
theory Hub
  imports Cluster_Claim Mic Kernel_Mapper
begin

text \<open>
  The hub: \<^verbatim>\<open>internal/controllers/hub/managedclustermodule_reconciler.go\<close>, with the clusters a
  ManagedClusterModule selects (\<^verbatim>\<open>internal/cluster/cluster.go\<close>), the ManifestWork that brings a Module to
  a spoke (\<^verbatim>\<open>internal/manifestwork/manifestwork.go\<close>) and the status
  (\<^verbatim>\<open>internal/statusupdater/statusupdater.go\<close>). Images are built on the hub; a spoke gets literal mappings.

  The Go code passes the ManagedClusterModule by value to \<open>SetManifestWorkAsDesired\<close>, but its module loader is behind
  a pointer that the copy shares, so the assignments there reach the caller. The model makes this explicit: the operation
  returns the ManagedClusterModule too, and the loop over the clusters goes on with what it returned.
\<close>

section \<open>Clusters\<close>

definition SelectedManagedClusters :: "server \<Rightarrow> managed_cluster_module \<Rightarrow> (go_err + managed_cluster list) cio" where
  "SelectedManagedClusters srv mcm = list_managedclusters srv (mcm_selector mcm)"

definition GetModuleLoaderDataForKernel_hub ::
  "library \<Rightarrow> string \<Rightarrow> managed_cluster_module \<Rightarrow> string \<Rightarrow> go_err + mld" where
  "GetModuleLoaderDataForKernel_hub lib namespace mcm kernelVersion =
     GetModuleLoaderDataForKernel (l_MatchString lib) (l_envsubst lib) (new_module namespace (mcm_name mcm) (mcm_module_spec mcm)) kernelVersion"

section \<open>ManifestWorks\<close>

definition moduleStatusJSONPaths :: "(string \<times> string) list" where
  "moduleStatusJSONPaths = map (\<lambda>p. (p, ''.status.'' @ p))
     [''devicePlugin.availableNumber'', ''devicePlugin.desiredNumber'', ''devicePlugin.nodesMatchingSelectorNumber'',
      ''dra.availableNumber'', ''dra.desiredNumber'', ''dra.nodesMatchingSelectorNumber'',
      ''moduleLoader.availableNumber'', ''moduleLoader.desiredNumber'', ''moduleLoader.nodesMatchingSelectorNumber'']"

definition mappingFromModuleLoaderData :: "mld \<Rightarrow> kernel_mapping" where
  "mappingFromModuleLoaderData d = empty_mapping\<lparr>km_image := mld_image d, km_literal := mld_kernel_version d, km_intree := mld_intree d\<rparr>"

fun managedClusterKernelMappings :: "library \<Rightarrow> managed_cluster_module \<Rightarrow> string list \<Rightarrow> kernel_mapping list" where
  "managedClusterKernelMappings lib mcm [] = []"
| "managedClusterKernelMappings lib mcm (kv # kvs) =
     (case GetModuleLoaderDataForKernel_hub lib (mcm_spoke_namespace mcm) mcm (TrimSuffix kv ''+'') of
        Inl _ \<Rightarrow> managedClusterKernelMappings lib mcm kvs
      | Inr d \<Rightarrow> mappingFromModuleLoaderData d # managedClusterKernelMappings lib mcm kvs)"

text \<open>Assignments through the shared module loader.\<close>

definition set_container :: "(loader_container \<Rightarrow> loader_container) \<Rightarrow> managed_cluster_module \<Rightarrow> managed_cluster_module" where
  "set_container f mcm = mcm\<lparr>mcm_module_spec := (mcm_module_spec mcm)\<lparr>ms_loader :=
     map_option (\<lambda>ml. ml\<lparr>ml_container := f (ml_container ml)\<rparr>) (ms_loader (mcm_module_spec mcm))\<rparr>\<rparr>"

definition spoke_spec :: "library \<Rightarrow> string list \<Rightarrow> managed_cluster_module \<Rightarrow> managed_cluster_module" where
  "spoke_spec lib kernelVersions mcm =
     (let mcm1 = set_container (\<lambda>c. c\<lparr>lc_build := None, lc_sign := None\<rparr>) mcm
      in set_container (\<lambda>c. c\<lparr>lc_mappings := managedClusterKernelMappings lib mcm1 kernelVersions\<rparr>) mcm1)"

definition SetManifestWorkAsDesired ::
  "library \<Rightarrow> managed_cluster_module \<Rightarrow> string list \<Rightarrow> manifest_work \<Rightarrow> (go_err + manifest_work) \<times> managed_cluster_module" where
  "SetManifestWorkAsDesired lib mcm kernelVersions mw =
     (if ms_loader (mcm_module_spec mcm) = None then (Inl (Panic ''nil pointer dereference''), mcm)
      else
        (let mcm' = spoke_spec lib kernelVersions mcm;
             modu = new_module (mcm_spoke_namespace mcm') (mcm_name mcm') (mcm_module_spec mcm');
             mw' = mw\<lparr>mw_labels := [(ManagedClusterModuleNameLabel, mcm_name mcm')], mw_manifests := [modu],
               mw_configs := [\<lparr>mwc_group = ''kmm.sigs.x-k8s.io'', mwc_resource = ''modules'', mwc_name = mod_name modu,
                 mwc_namespace = mod_namespace modu, mwc_json_paths = moduleStatusJSONPaths\<rparr>]\<rparr>
         in (and_then (l_SetControllerReference lib (mcm_owner mcm') (mw_owner mw')) (\<lambda>ow. Inr (mw'\<lparr>mw_owner := ow\<rparr>)), mcm')))"

definition getOwnedManifestWorks :: "server \<Rightarrow> managed_cluster_module \<Rightarrow> (go_err + manifest_work list) cio" where
  "getOwnedManifestWorks srv mcm = list_manifestworks srv [(ManagedClusterModuleNameLabel, mcm_name mcm)]"

fun delete_manifestworks :: "server \<Rightarrow> string list \<Rightarrow> manifest_work list \<Rightarrow> (go_err option) cio" where
  "delete_manifestworks srv clusterNames [] = State_Monad.return None"
| "delete_manifestworks srv clusterNames (mw # mws) =
     (if mw_namespace mw \<in> set clusterNames then delete_manifestworks srv clusterNames mws
      else do {
        e \<leftarrow> do_write srv (Hub (Delete_ManifestWork mw));
        case e of
          Some er \<Rightarrow> State_Monad.return (Some (Wrapf ''failed to delete ManifestWork'' er))
        | None \<Rightarrow> delete_manifestworks srv clusterNames mws
      })"

definition GarbageCollect_hub :: "server \<Rightarrow> managed_cluster list \<Rightarrow> managed_cluster_module \<Rightarrow> (go_err option) cio" where
  "GarbageCollect_hub srv clusters mcm = do {
     r \<leftarrow> getOwnedManifestWorks srv mcm;
     case r of
       Inl e \<Rightarrow> State_Monad.return (Some (Wrapf ''failed to get owned ManifestWorks'' e))
     | Inr mws \<Rightarrow> delete_manifestworks srv (map mcl_name clusters) mws
   }"

section \<open>Status\<close>

definition count_conditions :: "string \<Rightarrow> manifest_work list \<Rightarrow> int" where
  "count_conditions type mws =
     go_int32 (int (length (filter (\<lambda>(t, s). s = ''True'' \<and> t = type) (concat (map mw_conditions mws)))))"

definition ManagedClusterModuleUpdateStatus :: "server \<Rightarrow> managed_cluster_module \<Rightarrow> manifest_work list \<Rightarrow> (go_err option) cio" where
  "ManagedClusterModuleUpdateStatus srv mcm owned =
     do_write srv (Hub (Patch_MCM_Status mcm (mcm\<lparr>mcm_number_desired := go_int32 (int (length owned)),
       mcm_number_applied := count_conditions ''Applied'' owned, mcm_number_degraded := count_conditions ''Degraded'' owned\<rparr>)))"

text \<open>The updater for modules, which no controller uses any more.\<close>

definition ModuleUpdateStatus :: "server \<Rightarrow> kmodule \<Rightarrow> node list \<Rightarrow> node list \<Rightarrow> daemonset list \<Rightarrow> (go_err option) cio" where
  "ModuleUpdateStatus srv modu kernelMappingNodes targetedNodes existingDS =
     (let matching = go_int32 (int (length targetedNodes));
          numDesired = go_int32 (int (length kernelMappingNodes));
          available = fold (\<lambda>ds n. go_int32 (n + ds_available ds)) existingDS 0;
          st = mod_status modu;
          st1 = st\<lparr>mst_loader := (mst_loader st)\<lparr>dss_matching := matching, dss_desired := numDesired\<rparr>\<rparr>;
          st2 = (if ms_device_plugin (mod_spec modu) \<noteq> None
                 then st1\<lparr>mst_device_plugin := \<lparr>dss_matching = matching, dss_desired = numDesired, dss_available = available\<rparr>\<rparr> else st1)
      in do_write srv (Patch_Module_Status modu (modu\<lparr>mod_status := st2\<rparr>)))"

section \<open>Reconcile\<close>

definition hub_image :: "mld \<Rightarrow> image_spec" where
  "hub_image d = \<lparr>is_image = mld_image d, is_kernel_version = mld_kernel_version d, is_build = mld_build d, is_sign = mld_sign d,
     is_skip_wait = False, is_registry_tls = mld_registry_tls d, is_dir_name = mp_dir_name (mld_modprobe d)\<rparr>"

fun hub_images :: "library \<Rightarrow> string \<Rightarrow> managed_cluster_module \<Rightarrow> string list \<Rightarrow> go_err + image_spec list" where
  "hub_images lib namespace mcm [] = Inr []"
| "hub_images lib namespace mcm (kv # kvs) =
     (case GetModuleLoaderDataForKernel_hub lib namespace mcm (TrimSuffix kv ''+'') of
        Inl e \<Rightarrow> if errors_Is e ErrNoMatchingKernelMapping then hub_images lib namespace mcm kvs
                 else Inl (errorf ''failed to get MLD for kernel'' e)
      | Inr d \<Rightarrow> and_then (hub_images lib namespace mcm kvs) (\<lambda>images. Inr (hub_image d # images)))"

definition hub_mic :: "managed_cluster_module \<Rightarrow> string \<Rightarrow> string" where
  "hub_mic mcm clusterName = mcm_name mcm @ ''-'' @ clusterName"

definition setMicAsDesired ::
  "library \<Rightarrow> server \<Rightarrow> string \<Rightarrow> managed_cluster_module \<Rightarrow> string \<Rightarrow> string list \<Rightarrow> (go_err option) cio" where
  "setMicAsDesired lib srv namespace mcm clusterName kernelVersions =
     (case hub_images lib namespace mcm kernelVersions of
        Inl e \<Rightarrow> State_Monad.return (Some e)
      | Inr images \<Rightarrow>
          (case ms_loader (mcm_module_spec mcm) of
             None \<Rightarrow> State_Monad.return (Some (Panic ''nil pointer dereference''))
           | Some ml \<Rightarrow> do {
               e \<leftarrow> Mic.CreateOrPatch lib srv (hub_mic mcm clusterName) namespace images (ms_repo_secret (mcm_module_spec mcm))
                      (lc_pull_policy (ml_container ml)) True (ms_rebuild_trigger (mcm_module_spec mcm))
                      (ms_tolerations (mcm_module_spec mcm)) (mcm_owner mcm);
               State_Monad.return (errorf_opt ''failed to createOrPatch MIC'' e)
             }))"

definition areImagesReady :: "server \<Rightarrow> string \<Rightarrow> managed_cluster_module \<Rightarrow> string \<Rightarrow> (go_err + bool) cio" where
  "areImagesReady srv namespace mcm clusterName = do {
     r \<leftarrow> Mic.Get srv (hub_mic mcm clusterName) namespace;
     State_Monad.return (map_sum (Errorf ''failed to get MIC'') DoAllImagesExist r)
   }"

definition new_manifestwork :: "string \<Rightarrow> string \<Rightarrow> manifest_work" where
  "new_manifestwork namespace name = \<lparr>mw_name = name, mw_namespace = namespace, mw_labels = [], mw_owner = None, mw_manifests = [],
     mw_configs = [], mw_conditions = []\<rparr>"

text \<open>\<open>CreateOrPatch\<close> of a ManifestWork, with the ManagedClusterModule as its mutation leaves it.\<close>

definition apply_manifestwork ::
  "library \<Rightarrow> server \<Rightarrow> managed_cluster_module \<Rightarrow> string \<Rightarrow> string list \<Rightarrow> (go_err option \<times> managed_cluster_module) cio" where
  "apply_manifestwork lib srv mcm clusterName kernelVersions = do {
     r \<leftarrow> get_manifestwork srv (clusterName, mcm_name mcm);
     case r of
       Inl e \<Rightarrow>
         if IsNotFound e then
           (case SetManifestWorkAsDesired lib mcm kernelVersions (new_manifestwork clusterName (mcm_name mcm)) of
              (Inl e', mcm') \<Rightarrow> State_Monad.return (Some e', mcm')
            | (Inr mw, mcm') \<Rightarrow> do { w \<leftarrow> do_write srv (Hub (Create_ManifestWork mw)); State_Monad.return (w, mcm') })
         else State_Monad.return (Some e, mcm)
     | Inr before \<Rightarrow>
         (case SetManifestWorkAsDesired lib mcm kernelVersions before of
            (Inl e', mcm') \<Rightarrow> State_Monad.return (Some e', mcm')
          | (Inr mw, mcm') \<Rightarrow>
              if mw = before then State_Monad.return (None, mcm')
              else do { w \<leftarrow> do_write srv (Hub (Patch_ManifestWork before mw)); State_Monad.return (w, mcm') })
   }"

text \<open>One cluster: errors are logged only; a panic ends the pass. The loop goes on with the ManagedClusterModule as it is now.\<close>

definition reconcile_cluster ::
  "library \<Rightarrow> server \<Rightarrow> string \<Rightarrow> managed_cluster \<Rightarrow> managed_cluster_module \<Rightarrow> (go_err option \<times> managed_cluster_module) cio" where
  "reconcile_cluster lib srv namespace cluster mcm =
     (case KernelVersions cluster of
        Inl _ \<Rightarrow> State_Monad.return (None, mcm)
      | Inr kernelVersions \<Rightarrow> do {
          e \<leftarrow> setMicAsDesired lib srv namespace mcm (mcl_name cluster) kernelVersions;
          case e of
            Some er \<Rightarrow> State_Monad.return (Some er, mcm)
          | None \<Rightarrow> do {
              r \<leftarrow> areImagesReady srv namespace mcm (mcl_name cluster);
              case r of
                Inl er \<Rightarrow> State_Monad.return (Some er, mcm)
              | Inr allImagesReady \<Rightarrow>
                  if \<not> allImagesReady then State_Monad.return (None, mcm)
                  else apply_manifestwork lib srv mcm (mcl_name cluster) kernelVersions
            }
        })"

fun reconcile_clusters ::
  "library \<Rightarrow> server \<Rightarrow> string \<Rightarrow> managed_cluster list \<Rightarrow> managed_cluster_module \<Rightarrow> (go_err option \<times> managed_cluster_module) cio" where
  "reconcile_clusters lib srv namespace [] mcm = State_Monad.return (None, mcm)"
| "reconcile_clusters lib srv namespace (c # cs) mcm = do {
     r \<leftarrow> reconcile_cluster lib srv namespace c mcm;
     if (case fst r of None \<Rightarrow> False | Some e \<Rightarrow> is_panic e) then State_Monad.return r
     else reconcile_clusters lib srv namespace cs (snd r)
   }"

definition MCM_Reconcile :: "library \<Rightarrow> server \<Rightarrow> string \<Rightarrow> managed_cluster_module \<Rightarrow> (go_err option) cio" where
  "MCM_Reconcile lib srv namespace mcm = do {
     r \<leftarrow> SelectedManagedClusters srv mcm;
     case r of
       Inl e \<Rightarrow> State_Monad.return (Some (Errorf ''failed to get selected clusters'' e))
     | Inr clusters \<Rightarrow> do {
         l \<leftarrow> reconcile_clusters lib srv namespace clusters mcm;
         case fst l of
           Some e \<Rightarrow> State_Monad.return (Some e)
         | None \<Rightarrow> do {
             g \<leftarrow> GarbageCollect_hub srv clusters (snd l);
             case g of
               Some e \<Rightarrow> State_Monad.return (Some (Errorf ''failed to garbage collect ManifestWorks'' e))
             | None \<Rightarrow> do {
                 w \<leftarrow> getOwnedManifestWorks srv (snd l);
                 case w of
                   Inl e \<Rightarrow> State_Monad.return (Some (Errorf ''failed to fetch owned ManifestWorks'' e))
                 | Inr owned \<Rightarrow> do {
                     s \<leftarrow> ManagedClusterModuleUpdateStatus srv (snd l) owned;
                     State_Monad.return (map_option (Errorf ''failed to update status'') s)
                   }
               }
           }
       }
   }"

section \<open>Lemmas\<close>

lemma set_container_frame [simp]:
  "mcm_name (set_container f m) = mcm_name m" "mcm_spoke_namespace (set_container f m) = mcm_spoke_namespace m"
  "mcm_uid (set_container f m) = mcm_uid m" "mcm_selector (set_container f m) = mcm_selector m"
  "ms_loader (mcm_module_spec (set_container f m)) =
     map_option (\<lambda>ml. ml\<lparr>ml_container := f (ml_container ml)\<rparr>) (ms_loader (mcm_module_spec m))"
  by (simp_all add: set_container_def)

lemma spoke_spec_frame [simp]:
  "mcm_name (spoke_spec lib kvs m) = mcm_name m" "mcm_spoke_namespace (spoke_spec lib kvs m) = mcm_spoke_namespace m"
  by (simp_all add: spoke_spec_def Let_def)

lemma spoke_mappings:
  assumes "m \<in> set (managedClusterKernelMappings lib mcm kvs)"
  shows "\<exists>kv\<in>set kvs. \<exists>d. GetModuleLoaderDataForKernel_hub lib (mcm_spoke_namespace mcm) mcm (TrimSuffix kv ''+'') = Inr d \<and>
    m = mappingFromModuleLoaderData d \<and> km_literal m = TrimSuffix kv ''+'' \<and> km_regexp m = [] \<and> km_build m = None \<and> km_sign m = None"
  using assms
  by (induction kvs)
    (auto simp: mappingFromModuleLoaderData_def empty_mapping_def GetModuleLoaderDataForKernel_hub_def dest: GetMLD_names split: sum.splits)

lemma spoke_spec_loader:
  assumes "ms_loader (mcm_module_spec mcm) \<noteq> None"
  obtains ml where "ms_loader (mcm_module_spec (spoke_spec lib kvs mcm)) = Some ml"
    "lc_build (ml_container ml) = None" "lc_sign (ml_container ml) = None"
    "lc_mappings (ml_container ml) = managedClusterKernelMappings lib (set_container (\<lambda>c. c\<lparr>lc_build := None, lc_sign := None\<rparr>) mcm) kvs"
  using assms by (auto simp: spoke_spec_def Let_def)


text \<open>
  C19: a later cluster loses its kernels. Once the ManifestWork of a cluster has been prepared, the ManagedClusterModule the
  loop goes on with maps no kernel version but those of that cluster, whatever its spec maps: for another kernel version
  the hub finds no mapping, so it asks for no image for it and leaves it out of the next ManifestWork.
\<close>

theorem later_cluster_loses_kernels:
  assumes "ms_loader (mcm_module_spec mcm) \<noteq> None" "TrimSuffix kv ''+'' \<notin> (\<lambda>k. TrimSuffix k ''+'') ` set kvs"
  shows "\<exists>e. GetModuleLoaderDataForKernel_hub lib ns (snd (SetManifestWorkAsDesired lib mcm kvs mw)) (TrimSuffix kv ''+'') = Inl e \<and>
    errors_Is e ErrNoMatchingKernelMapping"
proof -
  let ?m = "set_container (\<lambda>c. c\<lparr>lc_build := None, lc_sign := None\<rparr>) mcm" and ?k = "TrimSuffix kv ''+''"
  obtain ml where ml: "ms_loader (mcm_module_spec (spoke_spec lib kvs mcm)) = Some ml"
    "lc_mappings (ml_container ml) = managedClusterKernelMappings lib ?m kvs" using assms(1) by (rule spoke_spec_loader)
  have "\<forall>m\<in>set (managedClusterKernelMappings lib ?m kvs). mapping_matches (l_MatchString lib) ?k m = Inr False"
    using assms(2) by (auto simp: mapping_matches_def dest!: spoke_mappings)
  then have "findKernelMapping (l_MatchString lib) (managedClusterKernelMappings lib ?m kvs) ?k = Inl ErrNoMatchingKernelMapping"
    by (simp add: findKernelMapping_no_match)
  with ml assms(1) show ?thesis
    by (simp add: SetManifestWorkAsDesired_def GetModuleLoaderDataForKernel_hub_def GetModuleLoaderDataForKernel_def new_module_def Let_def)
qed

section \<open>What a pass writes\<close>

fun written_work :: "call \<Rightarrow> manifest_work option" where
  "written_work (Hub (Create_ManifestWork mw)) = Some mw"
| "written_work (Hub (Patch_ManifestWork _ mw)) = Some mw"
| "written_work _ = None"

text \<open>A ManifestWork fit for a cluster, for a ManagedClusterModule whose name and spoke namespace do not change in a pass.\<close>

definition fit_for_spoke :: "managed_cluster_module \<Rightarrow> manifest_work \<Rightarrow> bool" where
  "fit_for_spoke mcm mw \<longleftrightarrow> mw_labels mw = [(ManagedClusterModuleNameLabel, mcm_name mcm)] \<and>
     (\<exists>modu ml. mw_manifests mw = [modu] \<and> mod_name modu = mcm_name mcm \<and> mod_namespace modu = mcm_spoke_namespace mcm \<and>
        ms_loader (mod_spec modu) = Some ml \<and> lc_build (ml_container ml) = None \<and> lc_sign (ml_container ml) = None \<and>
        list_all (\<lambda>m. km_build m = None \<and> km_sign m = None \<and> km_regexp m = []) (lc_mappings (ml_container ml)))"

definition same_identity :: "managed_cluster_module \<Rightarrow> managed_cluster_module \<Rightarrow> bool" where
  "same_identity a b \<longleftrightarrow> mcm_name a = mcm_name b \<and> mcm_spoke_namespace a = mcm_spoke_namespace b"

lemma SetManifestWork_fit:
  assumes "SetManifestWorkAsDesired lib m kvs mw = (r, m')" "same_identity m mcm"
  shows "same_identity m' mcm \<and> (\<forall>mw'. r = Inr mw' \<longrightarrow> fit_for_spoke mcm mw' \<and> mw_namespace mw' = mw_namespace mw)"
proof (cases "ms_loader (mcm_module_spec m) = None")
  case True
  with assms show ?thesis by (auto simp: SetManifestWorkAsDesired_def)
next
  case False
  then obtain ml where "ms_loader (mcm_module_spec (spoke_spec lib kvs m)) = Some ml" "lc_build (ml_container ml) = None"
    "lc_sign (ml_container ml) = None"
    "lc_mappings (ml_container ml) = managedClusterKernelMappings lib (set_container (\<lambda>c. c\<lparr>lc_build := None, lc_sign := None\<rparr>) m) kvs"
    by (rule spoke_spec_loader)
  with assms False show ?thesis
    by (auto simp: SetManifestWorkAsDesired_def same_identity_def fit_for_spoke_def new_module_def Let_def and_then_Inr list_all_iff dest!: spoke_mappings)
qed

lemma does_apply_manifestwork:
  assumes "same_identity m mcm" and "\<And>c. written_work c = None \<Longrightarrow> is_read c \<Longrightarrow> P c"
    and "\<And>c mw. written_work c = Some mw \<Longrightarrow> fit_for_spoke mcm mw \<Longrightarrow> P c"
  shows "does P (\<lambda>r. same_identity (snd r) mcm) (apply_manifestwork lib srv m cname kvs)"
proof -
  have get: "does P (\<lambda>_. True) (get_manifestwork srv k)" for k by (intro emits_does emits_intros assms(2)) auto
  have put: "does P (\<lambda>r. same_identity (snd r) mcm) (do { w \<leftarrow> do_write srv c; State_Monad.return (w, m') })"
    if "same_identity m' mcm" "P c" for c m'
    by (rule does_bind [OF does_requests(6)]) (auto intro!: that does_intros)
  show ?thesis unfolding apply_manifestwork_def
    by (rule does_bind [OF get], intro does_intros) (auto intro!: does_intros put assms(1,3) dest: SetManifestWork_fit [OF _ assms(1)] split: sum.splits)
qed

text \<open>
  A spoke gets a module only when its images exist, and never the means to build or sign one. A ManifestWork written
  when reconciling a ManagedClusterModule carries one Module, of the name and the spoke namespace of the ManagedClusterModule,
  without build and sign settings and with literal mappings only; and for some selected cluster that reports its kernels the
  server answered that the ModuleImagesConfig of the cluster has all its images existing.
\<close>

theorem manifestwork_only_when_images_ready:
  assumes c: "c \<in> set (calls (MCM_Reconcile lib srv ns mcm) h)" "written_work c = Some mw"
  shows "fit_for_spoke mcm mw \<and>
    (\<exists>h' clusters cluster h'' m. s_managedclusters srv h' (mcm_selector mcm) = Inr clusters \<and> cluster \<in> set clusters \<and>
       \<not> isl (KernelVersions cluster) \<and> s_mic srv h'' (ns, mcm_name mcm @ ''-'' @ mcl_name cluster) = Inr m \<and> DoAllImagesExist m)"
proof -
  let ?R = "\<lambda>cluster. \<exists>h'' m. s_mic srv h'' (ns, mcm_name mcm @ ''-'' @ mcl_name cluster) = Inr m \<and> DoAllImagesExist m"
  let ?C = "\<lambda>clusters. \<exists>h'. s_managedclusters srv h' (mcm_selector mcm) = Inr clusters"
  let ?P = "\<lambda>c. \<forall>mw. written_work c = Some mw \<longrightarrow> fit_for_spoke mcm mw \<and>
    (\<exists>clusters cluster. ?C clusters \<and> cluster \<in> set clusters \<and> \<not> isl (KernelVersions cluster) \<and> ?R cluster)"
  have mic: "emits ?P (setMicAsDesired lib srv ns m cname kvs)" for m cname kvs
    unfolding setMicAsDesired_def Mic.CreateOrPatch_def Let_def by (intro emits_intros) auto
  have ready: "does ?P (\<lambda>r. r = Inr True \<longrightarrow> ?R cluster) (areImagesReady srv ns m (mcl_name cluster))"
    if "same_identity m mcm" for m cluster
    unfolding areImagesReady_def
    by (rule does_bind [OF does_Get_mic]) (use that in \<open>auto intro!: does_intros simp: map_sum_Inr_iff hub_mic_def same_identity_def\<close>)
  have one: "does ?P (\<lambda>r. same_identity (snd r) mcm) (reconcile_cluster lib srv ns cluster m)"
    if "same_identity m mcm" "?C clusters" "cluster \<in> set clusters" for m cluster clusters
    unfolding reconcile_cluster_def
  proof (intro does_intros, goal_cases)
    case (2 kvs)
    have "does ?P (\<lambda>r. same_identity (snd r) mcm) (apply_manifestwork lib srv m (mcl_name cluster) kvs)" if "?R cluster"
    proof -
      have "\<not> isl (KernelVersions cluster)" using 2 by simp
      then have "\<exists>clusters cluster. ?C clusters \<and> cluster \<in> set clusters \<and> \<not> isl (KernelVersions cluster) \<and> ?R cluster"
        using that \<open>?C clusters\<close> \<open>cluster \<in> set clusters\<close> by blast
      then show ?thesis
        by (intro does_apply_manifestwork \<open>same_identity m mcm\<close>) simp_all
    qed
    then show ?case
      by (intro does_bind [OF emits_does [OF mic]] does_intros does_bind [OF ready])
        (use \<open>same_identity m mcm\<close> in auto)
  qed (use that in simp)
  have all: "does ?P (\<lambda>r. same_identity (snd r) mcm) (reconcile_clusters lib srv ns cs m)"
    if "same_identity m mcm" "?C clusters" "set cs \<subseteq> set clusters" for m cs clusters
    using that
  proof (induction cs arbitrary: m)
    case (Cons c cs)
    then have "c \<in> set clusters" "set cs \<subseteq> set clusters" by auto
    note step = does_bind [OF one [OF Cons.prems(1,2) this(1)]] and rest = Cons.IH [OF _ Cons.prems(2) this(2)]
    show ?case unfolding reconcile_clusters.simps
      by (rule step, intro does_intros rest)
  qed (auto intro!: does_intros)
  have gc: "emits ?P (delete_manifestworks srv ns mws)" for ns mws
    by (induction mws) (auto intro!: emits_intros split: option.splits)
  have clusters: "does ?P (\<lambda>r. \<forall>cs. r = Inr cs \<longrightarrow> ?C cs) (SelectedManagedClusters srv mcm)"
    unfolding SelectedManagedClusters_def list_managedclusters_def by (rule does_issue) auto
  have "does ?P (\<lambda>_. True) (MCM_Reconcile lib srv ns mcm)"
    unfolding MCM_Reconcile_def GarbageCollect_hub_def getOwnedManifestWorks_def ManagedClusterModuleUpdateStatus_def
    by (rule does_bind [OF clusters], intro does_intros TrueI, rule does_bind [OF all], simp add: same_identity_def, blast, rule subset_refl,
        intro does_intros TrueI emits_does emits_intros gc) simp_all
  from does_calls [OF this c(1)] c(2) show ?thesis by blast
qed

text \<open>
  Only ManifestWorks of clusters that are no longer selected are deleted: a deleted one was listed with the name of the
  ManagedClusterModule, and the clusters listed with its selector do not include that of its namespace.
\<close>

theorem hub_deletes_only_unselected:
  assumes c: "Hub (Delete_ManifestWork mw) \<in> set (calls (MCM_Reconcile lib srv ns mcm) h)"
  shows "(\<exists>h' clusters. s_managedclusters srv h' (mcm_selector mcm) = Inr clusters \<and> mw_namespace mw \<notin> mcl_name ` set clusters) \<and>
    (\<exists>h' mws. s_manifestworks srv h' [(ManagedClusterModuleNameLabel, mcm_name mcm)] = Inr mws \<and> mw \<in> set mws)"
proof -
  let ?l = "[(ManagedClusterModuleNameLabel, mcm_name mcm)]"
  let ?C = "\<lambda>clusters. \<exists>h'. s_managedclusters srv h' (mcm_selector mcm) = Inr clusters"
  let ?W = "\<lambda>mws. \<exists>h'. s_manifestworks srv h' ?l = Inr mws"
  let ?P = "\<lambda>c. \<forall>mw. c = Hub (Delete_ManifestWork mw) \<longrightarrow>
    (\<exists>cs. ?C cs \<and> mw_namespace mw \<notin> mcl_name ` set cs) \<and> (\<exists>mws. ?W mws \<and> mw \<in> set mws)"
  have mic: "emits ?P (setMicAsDesired lib srv ns m cname kvs)" for m cname kvs
    unfolding setMicAsDesired_def Mic.CreateOrPatch_def Let_def by (intro emits_intros) auto
  have work: "does ?P (\<lambda>r. same_identity (snd r) mcm) (apply_manifestwork lib srv m cname kvs)" if "same_identity m mcm" for m cname kvs
    by (rule does_apply_manifestwork [OF that]) auto
  have ready: "emits ?P (areImagesReady srv ns m cname)" for m cname
    unfolding areImagesReady_def Mic.Get_def by (intro emits_intros) simp
  have one: "does ?P (\<lambda>r. same_identity (snd r) mcm) (reconcile_cluster lib srv ns cluster m)" if "same_identity m mcm" for cluster m
    unfolding reconcile_cluster_def
    by (intro does_intros does_bind [OF emits_does [OF mic]] does_bind [OF emits_does [OF ready]] work that) (simp_all add: that)
  have all: "does ?P (\<lambda>r. same_identity (snd r) mcm) (reconcile_clusters lib srv ns cs m)" if "same_identity m mcm" for m cs
    using that
  proof (induction cs arbitrary: m)
    case (Cons c cs)
    show ?case unfolding reconcile_clusters.simps by (rule does_bind [OF one [OF Cons.prems]], intro does_intros Cons.IH)
  qed (simp add: does_intros)
  have del: "emits ?P (delete_manifestworks srv (map mcl_name cs) mws')" if "?C cs" "?W mws" "set mws' \<subseteq> set mws" for cs mws mws'
    using that(3)
  proof (induction mws')
    case (Cons mw mws')
    moreover have "?P (Hub (Delete_ManifestWork mw))" if "mw_namespace mw \<notin> set (map mcl_name cs)"
      using that \<open>?C cs\<close> \<open>?W mws\<close> Cons.prems by auto
    ultimately show ?case unfolding delete_manifestworks.simps by (intro emits_intros) simp_all
  qed (simp add: emits_intros)
  have owned: "does ?P (\<lambda>r. \<forall>mws. r = Inr mws \<longrightarrow> ?W mws) (getOwnedManifestWorks srv m)" if "same_identity m mcm" for m
    using that unfolding getOwnedManifestWorks_def same_identity_def list_manifestworks_def by (auto intro!: does_issue)
  have gc: "emits ?P (GarbageCollect_hub srv cs m)" if "?C cs" "same_identity m mcm" for cs m
    unfolding GarbageCollect_hub_def
    by (rule does_emits [where Q = "\<lambda>_. True"], rule does_bind [OF owned [OF that(2)]], intro does_intros TrueI emits_does del [OF that(1)]) auto
  have clusters: "does ?P (\<lambda>r. \<forall>cs. r = Inr cs \<longrightarrow> ?C cs) (SelectedManagedClusters srv mcm)"
    unfolding SelectedManagedClusters_def list_managedclusters_def by (rule does_issue) auto
  have "does ?P (\<lambda>_. True) (MCM_Reconcile lib srv ns mcm)"
    unfolding MCM_Reconcile_def getOwnedManifestWorks_def ManagedClusterModuleUpdateStatus_def
    by (rule does_bind [OF clusters], intro does_intros TrueI, rule does_bind [OF all], simp add: same_identity_def,
        intro does_intros TrueI emits_does emits_intros gc) simp_all
  from does_calls [OF this c] show ?thesis by blast
qed

section \<open>A concrete hub\<close>

text \<open>Two spokes with one kernel each, both mapped by the ManagedClusterModule.\<close>

definition spoke :: "string \<Rightarrow> string \<Rightarrow> managed_cluster" where
  "spoke name kv = \<lparr>mcl_name = name, mcl_labels = [], mcl_claims = [\<lparr>ccl_name = KernelVersionsClusterClaimName, ccl_value = kv\<rparr>]\<rparr>"

definition two_kernels :: managed_cluster_module where
  "two_kernels = \<lparr>mcm_name = ''gpu'', mcm_uid = ''u'', mcm_module_spec = empty_module_spec\<lparr>ms_loader := Some \<lparr>ml_container =
     empty_loader_container\<lparr>lc_mappings := [empty_mapping\<lparr>km_literal := ''5.4.0'', km_image := ''a''\<rparr>, empty_mapping\<lparr>km_literal := ''6.1.7'', km_image := ''b''\<rparr>]\<rparr>,
     ml_service_account = []\<rparr>\<rparr>, mcm_spoke_namespace = ''kmm'', mcm_selector = [], mcm_number_desired = 0, mcm_number_applied = 0, mcm_number_degraded = 0\<rparr>"

definition two_spokes :: server where
  "two_spokes = empty_cluster\<lparr>s_managedclusters := (\<lambda>h q. Inr [spoke ''c1'' ''5.4.0'', spoke ''c2'' ''6.1.7'']),
     s_mic := (\<lambda>h k. Inr (new_mic (snd k) (fst k))),
     s_manifestworks := (\<lambda>h q. Inr [new_manifestwork ''c3'' ''gpu''])\<rparr>"

definition works_written :: "(string \<times> string list) list" where
  "works_written = concat (map (\<lambda>c. case written_work c of None \<Rightarrow> [] | Some mw \<Rightarrow> [(mw_namespace mw, concat (map (\<lambda>m.
     case ms_loader (mod_spec m) of None \<Rightarrow> [] | Some ml \<Rightarrow> map km_literal (lc_mappings (ml_container ml))) (mw_manifests mw)))])
     (calls (MCM_Reconcile plain_library two_spokes ''kmm-hub'' two_kernels) []))"

theorem later_cluster_loses_kernels_witness:
  "works_written = [(''c1'', [''5.4.0'']), (''c2'', [])] \<and>
   (\<exists>e. GetModuleLoaderDataForKernel_hub plain_library ''kmm''
      (snd (SetManifestWorkAsDesired plain_library two_kernels [''5.4.0''] (new_manifestwork ''c1'' ''gpu''))) ''6.1.7'' = Inl e \<and>
      errors_Is e ErrNoMatchingKernelMapping)"
proof (rule conjI)
  show "works_written = [(''c1'', [''5.4.0'']), (''c2'', [])]" by code_simp
  have "ms_loader (mcm_module_spec two_kernels) \<noteq> None" "TrimSuffix ''6.1.7'' ''+'' = ''6.1.7''" "TrimSuffix ''5.4.0'' ''+'' = ''5.4.0''"
    by code_simp+
  with later_cluster_loses_kernels [of two_kernels "''6.1.7''" "[''5.4.0'']" plain_library "''kmm''" "new_manifestwork ''c1'' ''gpu''"]
  show "\<exists>e. GetModuleLoaderDataForKernel_hub plain_library ''kmm''
      (snd (SetManifestWorkAsDesired plain_library two_kernels [''5.4.0''] (new_manifestwork ''c1'' ''gpu''))) ''6.1.7'' = Inl e \<and>
      errors_Is e ErrNoMatchingKernelMapping" by simp
qed


theorem manifestwork_only_when_images_ready_witness:
  "\<exists>mw. Hub (Create_ManifestWork mw) \<in> set (calls (MCM_Reconcile plain_library two_spokes ''kmm-hub'' two_kernels) []) \<and> fit_for_spoke two_kernels mw"
proof -
  let ?run = "calls (MCM_Reconcile plain_library two_spokes ''kmm-hub'' two_kernels) []"
  have "list_ex (\<lambda>c. case c of Hub (Create_ManifestWork mw) \<Rightarrow> True | _ \<Rightarrow> False) ?run" by code_simp
  then obtain c where "c \<in> set ?run" "case c of Hub (Create_ManifestWork mw) \<Rightarrow> True | _ \<Rightarrow> False" by (auto simp: list_ex_iff)
  then obtain mw where "Hub (Create_ManifestWork mw) \<in> set ?run" by (auto split: call.splits hub_call.splits)
  with manifestwork_only_when_images_ready [OF this, of mw] show ?thesis by auto
qed

theorem hub_deletes_only_unselected_witness:
  "Hub (Delete_ManifestWork (new_manifestwork ''c3'' ''gpu'')) \<in> set (calls (MCM_Reconcile plain_library two_spokes ''kmm-hub'' two_kernels) []) \<and>
   (\<exists>h' clusters. s_managedclusters two_spokes h' [] = Inr clusters \<and> ''c3'' \<notin> mcl_name ` set clusters)"
proof -
  let ?run = "calls (MCM_Reconcile plain_library two_spokes ''kmm-hub'' two_kernels) []"
  have "list_ex (\<lambda>c. c = Hub (Delete_ManifestWork (new_manifestwork ''c3'' ''gpu''))) ?run" by code_simp
  then have c: "Hub (Delete_ManifestWork (new_manifestwork ''c3'' ''gpu'')) \<in> set ?run" by (auto simp: list_ex_iff)
  with hub_deletes_only_unselected [OF c] show ?thesis by (simp add: two_kernels_def new_manifestwork_def)
qed

end
