(* ===== verification/Jobs.thy ===== *)
theory Jobs
  imports Client
begin

text \<open>
  Two controllers of build and sign pods: the events that report what becomes of them,
  \<^verbatim>\<open>internal/controllers/build_sign_events_reconciler.go\<close>, and their delayed removal,
  \<^verbatim>\<open>internal/controllers/job_gc_reconciler.go\<close>. Title-casing (golang.org/x/text), whether a kind is namespaced
  and the clock are parameters; times and durations are in nanoseconds.
\<close>

section \<open>Events\<close>

record job_params =
  jp_title :: "string \<Rightarrow> string"
  jp_namespaced :: "string \<Rightarrow> go_err + bool"

definition createdAnnotationKey :: string where
  "createdAnnotationKey = ''kmm.node.kubernetes.io/created-event-sent''"

record jobEvent = jobType :: string

definition ReasonCreated :: "jobEvent \<Rightarrow> string" where "ReasonCreated je = jobType je @ ''Created''"
definition ReasonFailed :: "jobEvent \<Rightarrow> string" where "ReasonFailed je = jobType je @ ''Failed''"
definition ReasonSucceeded :: "jobEvent \<Rightarrow> string" where "ReasonSucceeded je = jobType je @ ''Succeeded''"

definition newJobEvent :: "job_params \<Rightarrow> string \<Rightarrow> go_err + jobEvent" where
  "newJobEvent jp ty = (if ty = [] then Inl (NewErr ''jobType cannot be empty'') else Inr \<lparr>jobType = jp_title jp ty\<rparr>)"

definition GetOwner :: "job_params \<Rightarrow> server \<Rightarrow> owner_ref \<Rightarrow> string \<Rightarrow> (go_err option) cio" where
  "GetOwner jp srv ref namespace =
     (case jp_namespaced jp (own_kind ref) of
        Inl e \<Rightarrow> State_Monad.return (Some (Errorf ''could not determine if object is namespaced'' e))
      | Inr namespaced \<Rightarrow> do {
          e \<leftarrow> get_owner srv (own_kind ref) (if namespaced then namespace else [], own_name ref);
          State_Monad.return (map_option (Wrapf ''could not get owner'') e)
        })"

definition removeFinalizer :: "server \<Rightarrow> pod \<Rightarrow> (go_err option) cio" where
  "removeFinalizer srv p =
     (if JobEventFinalizer \<in> set (pod_finalizers p) then do {
        e \<leftarrow> do_write srv (Patch_Pod p (p\<lparr>pod_finalizers := snd (RemoveFinalizer JobEventFinalizer (pod_finalizers p))\<rparr>));
        State_Monad.return (map_option (Errorf ''patch failed'') e)
      } else State_Monad.return None)"

definition pod_owners :: "pod \<Rightarrow> owner_ref list" where
  "pod_owners p = (case pod_owner p of None \<Rightarrow> [] | Some ow \<Rightarrow> [ow]) @ pod_other_owners p"

definition has_annotation :: "pod \<Rightarrow> string \<Rightarrow> bool" where
  "has_annotation p k \<longleftrightarrow> (case pod_annotations p of None \<Rightarrow> False | Some a \<Rightarrow> has_key a k)"

definition announce_created ::
  "server \<Rightarrow> jobEvent \<Rightarrow> owner_ref \<Rightarrow> labels \<Rightarrow> string \<Rightarrow> pod \<Rightarrow> (go_err option \<times> pod) cio" where
  "announce_created srv je ow eventAnnotations kernelVersion p =
     (if has_annotation p createdAnnotationKey then State_Monad.return (None, p)
      else
        (let p' = p\<lparr>pod_annotations := SetAnnotation createdAnnotationKey [] (pod_annotations p)\<rparr>
         in do {
           e \<leftarrow> do_write srv (Patch_Pod p p');
           case e of
             Some er \<Rightarrow> State_Monad.return (Some (Errorf ''could not patch Pod'' er), p')
           | None \<Rightarrow> do {
               _ \<leftarrow> record_event (Other (Job_Event ow (SetLabel ''pod-creation-timestamp'' (pod_created p') eventAnnotations) ''Normal''
                      (ReasonCreated je) (jobType je @ '' created for kernel '' @ kernelVersion)));
               State_Monad.return (None, p')
             }
         }))"

definition announce_outcome :: "server \<Rightarrow> jobEvent \<Rightarrow> owner_ref \<Rightarrow> labels \<Rightarrow> string \<Rightarrow> pod \<Rightarrow> (go_err option) cio" where
  "announce_outcome srv je ow eventAnnotations kernelVersion p =
     (let send = (\<lambda>eventType reason message. do {
        e \<leftarrow> removeFinalizer srv p;
        case e of
          Some er \<Rightarrow> State_Monad.return (Some (Errorf ''could not patch pod'' er))
        | None \<Rightarrow> do {
            _ \<leftarrow> record_event (Other (Job_Event ow eventAnnotations eventType reason message));
            State_Monad.return None
          } })
      in case pod_phase p of
           PodFailed \<Rightarrow> send ''Warning'' (ReasonFailed je) (jobType je @ '' job failed for kernel '' @ kernelVersion)
         | PodSucceeded \<Rightarrow> send ''Normal'' (ReasonSucceeded je) (jobType je @ '' job succeeded for kernel '' @ kernelVersion)
         | _ \<Rightarrow> State_Monad.return None)"

definition report :: "job_params \<Rightarrow> server \<Rightarrow> jobEvent \<Rightarrow> owner_ref \<Rightarrow> pod \<Rightarrow> (go_err option) cio" where
  "report jp srv je ow p =
     (let kernelVersion = label_of (pod_labels p) TargetKernelTarget;
          eventAnnotations = [(''kernel-version'', kernelVersion), (''pod-name'', pod_name p)]
      in do {
        e \<leftarrow> GetOwner jp srv ow (pod_namespace p);
        case e of
          Some er \<Rightarrow> if IsNotFound er then removeFinalizer srv p else State_Monad.return (Some er)
        | None \<Rightarrow> do {
            c \<leftarrow> announce_created srv je ow eventAnnotations kernelVersion p;
            case fst c of
              Some er \<Rightarrow> State_Monad.return (Some er)
            | None \<Rightarrow> announce_outcome srv je ow eventAnnotations kernelVersion (snd c)
          }
      })"

definition JobEvent_Reconcile :: "job_params \<Rightarrow> server \<Rightarrow> pod \<Rightarrow> (go_err option) cio" where
  "JobEvent_Reconcile jp srv p =
     (case newJobEvent jp (label_of (pod_labels p) ResourceType) of
        Inl e \<Rightarrow> State_Monad.return (Some (Errorf ''could not parse job type'' e))
      | Inr je \<Rightarrow>
          (case pod_owners p of
             [ow] \<Rightarrow> report jp srv je ow p
           | _ \<Rightarrow> State_Monad.return (Some (NewErr ''unexpected number of owner references''))))"

definition jobEventPredicate :: "pod \<Rightarrow> bool" where
  "jobEventPredicate p \<longleftrightarrow> label_of (pod_labels p) ResourceType \<in> {action_string BuildImage, action_string SignImage} \<and> JobEventFinalizer \<in> set (pod_finalizers p)"

section \<open>Removal\<close>

text \<open>The result: the error, and after how long to come back (0: not at all). The deletion timestamp may not be missing.\<close>

definition JobGC_Reconcile :: "server \<Rightarrow> int \<Rightarrow> pod \<Rightarrow> (go_err option \<times> int) cio" where
  "JobGC_Reconcile srv delay p =
     (if \<not> pod_deleting p then State_Monad.return (Some (Panic ''nil pointer dereference''), 0)
      else do {
        now \<leftarrow> time_now srv;
        (let releaseAt = pod_deleted_at p + delay
         in if pod_phase p \<noteq> PodSucceeded \<or> now > releaseAt then do {
              e \<leftarrow> do_write srv (Patch_Pod p (p\<lparr>pod_finalizers := snd (RemoveFinalizer GCDelayFinalizer (pod_finalizers p))\<rparr>));
              State_Monad.return (e, 0)
            }
            else State_Monad.return (None, releaseAt - now))
      })"

definition jobGCPredicate :: "pod \<Rightarrow> bool" where
  "jobGCPredicate p \<longleftrightarrow> label_of (pod_labels p) ResourceType \<in> {action_string BuildImage, action_string SignImage} \<and>
     GCDelayFinalizer \<in> set (pod_finalizers p) \<and> pod_deleting p"

section \<open>Properties\<close>

definition released :: "server \<Rightarrow> pod \<Rightarrow> bool" where
  "released srv p \<longleftrightarrow> JobEventFinalizer \<notin> set (pod_finalizers p) \<or>
     (\<exists>h. s_write srv h (Patch_Pod p (p\<lparr>pod_finalizers := filter (\<lambda>f. f \<noteq> JobEventFinalizer) (pod_finalizers p)\<rparr>)) = None)"

lemma removeFinalizer_None:
  "fst (run_state (removeFinalizer srv p) h) = None \<Longrightarrow> released srv p"
  by (auto simp: removeFinalizer_def released_def do_write_def RemoveFinalizer_def split: if_splits)

lemma does_removeFinalizer:
  "(\<And>q. P (Patch_Pod p q)) \<Longrightarrow> does P (\<lambda>e. e = None \<longrightarrow> released srv p) (removeFinalizer srv p)"
  unfolding does_def using removeFinalizer_None by (auto simp: removeFinalizer_def intro!: emits_intros)

text \<open>When the two kinds of event may be sent for a pod, by a controller that calls its job \<open>t\<close>.\<close>

definition may_announce_created :: "server \<Rightarrow> string \<Rightarrow> pod \<Rightarrow> string \<Rightarrow> string \<Rightarrow> bool" where
  "may_announce_created srv t p ty reason \<longleftrightarrow> reason = t @ ''Created'' \<and> ty = ''Normal'' \<and> \<not> has_annotation p createdAnnotationKey \<and>
     (\<exists>h p'. s_write srv h (Patch_Pod p p') = None \<and> has_annotation p' createdAnnotationKey)"

definition may_announce_outcome :: "server \<Rightarrow> string \<Rightarrow> pod \<Rightarrow> string \<Rightarrow> string \<Rightarrow> bool" where
  "may_announce_outcome srv t p ty reason \<longleftrightarrow> (\<exists>p'. pod_finalizers p' = pod_finalizers p \<and> released srv p') \<and>
     (pod_phase p = PodFailed \<and> ty = ''Warning'' \<and> reason = t @ ''Failed'' \<or>
      pod_phase p = PodSucceeded \<and> ty = ''Normal'' \<and> reason = t @ ''Succeeded'')"

lemma does_announce_created:
  assumes "\<And>q. P (Patch_Pod p q)"
    and "\<And>a ty reason m. may_announce_created srv (jobType je) p ty reason \<Longrightarrow> P (Other (Job_Event ow a ty reason m))"
  shows "does P (\<lambda>r. pod_finalizers (snd r) = pod_finalizers p \<and> pod_phase (snd r) = pod_phase p) (announce_created srv je ow ea kv p)"
proof -
  let ?p = "p\<lparr>pod_annotations := SetAnnotation createdAnnotationKey [] (pod_annotations p)\<rparr>"
  have "has_annotation ?p createdAnnotationKey" by (simp add: has_annotation_def SetAnnotation_def)
  then have "may_announce_created srv (jobType je) p ''Normal'' (ReasonCreated je)"
    if "\<not> has_annotation p createdAnnotationKey" "s_write srv h (Patch_Pod p ?p) = None" for h
    unfolding may_announce_created_def ReasonCreated_def using that by blast
  then show ?thesis unfolding announce_created_def Let_def
    by (intro does_intros does_bind [OF does_requests(6)] does_bind [OF emits_does] emits_requests assms) (auto dest: sym)
qed

lemma emits_announce_outcome:
  assumes "\<And>q. P (Patch_Pod p q)"
    and "\<And>a ty reason m. may_announce_outcome srv (jobType je) p ty reason \<Longrightarrow> P (Other (Job_Event ow a ty reason m))"
  shows "emits P (announce_outcome srv je ow ea kv p)"
proof -
  have send: "emits P (do { e \<leftarrow> removeFinalizer srv p; case e of Some er \<Rightarrow> State_Monad.return (Some (Errorf ''could not patch pod'' er))
      | None \<Rightarrow> do { _ \<leftarrow> record_event (Other (Job_Event ow ea ty reason m)); State_Monad.return None } })"
    if "released srv p \<Longrightarrow> may_announce_outcome srv (jobType je) p ty reason" for ty reason m
    by (rule does_emits [where Q = "\<lambda>_. True"], rule does_bind [OF does_removeFinalizer], rule assms,
        intro does_intros TrueI emits_does emits_intros assms(2) that) simp
  show ?thesis unfolding announce_outcome_def Let_def
    by (cases "pod_phase p") (auto simp: may_announce_outcome_def ReasonFailed_def ReasonSucceeded_def intro!: emits_intros send)
qed


text \<open>
  Finished pods are kept for the configured time and no longer. For a pod being deleted the finalizer is released at once
  when the pod did not succeed or more time than the delay has passed since its deletion; otherwise nothing is
  written, and the controller comes back when the delay is over: after no negative time, and within the delay when the
  deletion is not in the future.
\<close>

theorem job_gc_delay:
  assumes "pod_deleting p"
  shows "let now = s_now srv h; releaseAt = pod_deleted_at p + delay;
             patch = Patch_Pod p (p\<lparr>pod_finalizers := filter (\<lambda>f. f \<noteq> GCDelayFinalizer) (pod_finalizers p)\<rparr>);
             after = h @ [Other Now]; r = run_state (JobGC_Reconcile srv delay p) h in
    if pod_phase p \<noteq> PodSucceeded \<or> now > releaseAt then r = ((s_write srv after patch, 0), after @ [patch])
    else r = ((None, releaseAt - now), after) \<and> 0 \<le> snd (fst r) \<and> (pod_deleted_at p \<le> now \<longrightarrow> snd (fst r) \<le> delay)"
  using assms by (auto simp: JobGC_Reconcile_def time_now_def do_write_def RemoveFinalizer_def Let_def)

text \<open>At the very end of the delay the time to come back is 0, which asks for no further pass: the finalizer stays.\<close>

theorem job_gc_boundary:
  assumes "pod_deleting p" "pod_phase p = PodSucceeded" "s_now srv h = pod_deleted_at p + delay"
  shows "run_state (JobGC_Reconcile srv delay p) h = ((None, 0), h @ [Other Now])"
  using assms by (simp add: JobGC_Reconcile_def time_now_def)

section \<open>Witnesses\<close>

definition build_pod :: pod where
  "build_pod = empty_pod\<lparr>pod_name := ''b'', pod_labels := [(ResourceType, ''BuildImage''), (TargetKernelTarget, ''6.1'')],
     pod_finalizers := [JobEventFinalizer, GCDelayFinalizer], pod_phase := PodSucceeded, pod_deleting := True, pod_deleted_at := 100,
     pod_owner := Some \<lparr>own_kind = ''ModuleBuildSignConfig'', own_namespace = ''kmm'', own_name = ''gpu'', own_uid = ''u''\<rparr>\<rparr>"

definition plain_params :: job_params where
  "plain_params = \<lparr>jp_title = (\<lambda>s. s), jp_namespaced = (\<lambda>k. Inr True)\<rparr>"


theorem job_gc_delay_witness:
  "fst (run_state (JobGC_Reconcile (empty_cluster\<lparr>s_now := (\<lambda>h. 130)\<rparr>) 50 build_pod) []) = (None, 20)"
  using job_gc_delay [of build_pod "empty_cluster\<lparr>s_now := (\<lambda>h. 130)\<rparr>" "[]" 50] by (simp add: build_pod_def Let_def)

end
