(* ===== verification/Worker.thy ===== *)
theory Worker
  imports Client Paths
begin

text \<open>
  The program that runs in the worker pods: \<^verbatim>\<open>internal/worker/worker.go\<close>, its configuration file
  (\<^verbatim>\<open>config.go\<close>), the file system helper \<^verbatim>\<open>internal/utils/filesystem_helper.go\<close> and the commands of
  \<^verbatim>\<open>cmd/worker/funcs_kmod.go\<close>. The node is a parameter in the same way the API server is: \<open>host\<close> answers
  every request from the history of the requests so far. A walk over a directory gives the entries it visits, by the path
  below the root and whether they are directories, and the error that ended it.
\<close>

section \<open>The node\<close>

datatype host_call =
    Modprobe "string list"
  | Walk string
  | Copy string string
  | Remove string
  | Read_File string
  | Write_File string string
  | Read_Dir string
  | Mkdir_All string

type_synonym 'a hio = "(host_call, 'a) io"

record dir_entry =
  de_name :: string
  de_regular :: "go_err + bool"

record host =
  h_modprobe :: "host_call list \<Rightarrow> string list \<Rightarrow> go_err option"
  h_walk :: "host_call list \<Rightarrow> string \<Rightarrow> (string \<times> bool) list \<times> go_err option"
  h_copy :: "host_call list \<Rightarrow> string \<Rightarrow> string \<Rightarrow> go_err option"
  h_remove :: "host_call list \<Rightarrow> string \<Rightarrow> go_err option"
  h_read_file :: "host_call list \<Rightarrow> string \<Rightarrow> go_err + string"
  h_write_file :: "host_call list \<Rightarrow> string \<Rightarrow> string \<Rightarrow> go_err option"
  h_read_dir :: "host_call list \<Rightarrow> string \<Rightarrow> go_err + dir_entry list"
  h_mkdir_all :: "host_call list \<Rightarrow> string \<Rightarrow> go_err option"
  h_compile :: "string \<Rightarrow> go_err + (string \<Rightarrow> bool)"

definition run_modprobe :: "host \<Rightarrow> string list \<Rightarrow> (go_err option) hio" where
  "run_modprobe ho args = issue (Modprobe args) (\<lambda>h. h_modprobe ho h args)"
definition walk :: "host \<Rightarrow> string \<Rightarrow> ((string \<times> bool) list \<times> go_err option) hio" where
  "walk ho root = issue (Walk root) (\<lambda>h. h_walk ho h root)"
definition cp_Copy :: "host \<Rightarrow> string \<Rightarrow> string \<Rightarrow> (go_err option) hio" where
  "cp_Copy ho src dst = issue (Copy src dst) (\<lambda>h. h_copy ho h src dst)"
definition os_Remove :: "host \<Rightarrow> string \<Rightarrow> (go_err option) hio" where
  "os_Remove ho p = issue (Remove p) (\<lambda>h. h_remove ho h p)"
definition os_ReadFile :: "host \<Rightarrow> string \<Rightarrow> (go_err + string) hio" where
  "os_ReadFile ho p = issue (Read_File p) (\<lambda>h. h_read_file ho h p)"
definition os_WriteFile :: "host \<Rightarrow> string \<Rightarrow> string \<Rightarrow> (go_err option) hio" where
  "os_WriteFile ho p v = issue (Write_File p v) (\<lambda>h. h_write_file ho h p v)"
definition os_ReadDir :: "host \<Rightarrow> string \<Rightarrow> (go_err + dir_entry list) hio" where
  "os_ReadDir ho p = issue (Read_Dir p) (\<lambda>h. h_read_dir ho h p)"
definition os_MkdirAll :: "host \<Rightarrow> string \<Rightarrow> (go_err option) hio" where
  "os_MkdirAll ho p = issue (Mkdir_All p) (\<lambda>h. h_mkdir_all ho h p)"

lemmas host_defs = run_modprobe_def walk_def cp_Copy_def os_Remove_def os_ReadFile_def os_WriteFile_def os_ReadDir_def os_MkdirAll_def

lemma emits_host [emits_intros]:
  "P (Modprobe args) \<Longrightarrow> emits P (run_modprobe ho args)" "P (Walk root) \<Longrightarrow> emits P (walk ho root)"
  "P (Copy a b) \<Longrightarrow> emits P (cp_Copy ho a b)" "P (Remove a) \<Longrightarrow> emits P (os_Remove ho a)"
  "P (Read_File a) \<Longrightarrow> emits P (os_ReadFile ho a)" "P (Write_File a b) \<Longrightarrow> emits P (os_WriteFile ho a b)"
  "P (Read_Dir a) \<Longrightarrow> emits P (os_ReadDir ho a)" "P (Mkdir_All a) \<Longrightarrow> emits P (os_MkdirAll ho a)"
  by (simp_all add: host_defs emits_issue)

section \<open>The file system helper\<close>

definition path_Base :: "string \<Rightarrow> string" where
  "path_Base p = last (split_by (\<lambda>c. c = CHR ''/'') p)"

definition FileExists :: "host \<Rightarrow> string \<Rightarrow> string \<Rightarrow> (go_err + bool) hio" where
  "FileExists ho root fileRegex =
     (case h_compile ho fileRegex of
        Inl e \<Rightarrow> State_Monad.return (Inl (Errorf ''failed to compile regex'' e))
      | Inr regex \<Rightarrow> do {
          r \<leftarrow> walk ho root;
          State_Monad.return
            (if list_ex (\<lambda>(path, isDir). \<not> isDir \<and> regex (path_Base path)) (fst r) then Inr True
             else case snd r of None \<Rightarrow> Inr False | Some e \<Rightarrow> Inl e)
        })"

fun remove_each :: "host \<Rightarrow> string \<Rightarrow> (string \<times> bool) list \<Rightarrow> unit hio" where
  "remove_each ho dstDir [] = State_Monad.return ()"
| "remove_each ho dstDir ((relPath, isDir) # es) = do {
     _ \<leftarrow> (if isDir then State_Monad.return None else os_Remove ho (path_Join [dstDir, relPath]));
     remove_each ho dstDir es
   }"

definition RemoveSrcFilesFromDst :: "host \<Rightarrow> string \<Rightarrow> string \<Rightarrow> (go_err option) hio" where
  "RemoveSrcFilesFromDst ho srcDir dstDir = do {
     r \<leftarrow> walk ho srcDir;
     _ \<leftarrow> remove_each ho dstDir (fst r);
     State_Monad.return (map_option (\<lambda>e. NewErr ''failed to remove files'') (snd r))
   }"

section \<open>Loading and unloading\<close>

definition worker_sharedFilesDir :: string where "worker_sharedFilesDir = ''/tmp''"
definition workerModprobeDDir :: string where "workerModprobeDDir = ''/etc/modprobe.d''"
definition FirmwareClassPathLocation :: string where "FirmwareClassPathLocation = ''/sys/module/firmware_class/parameters/path''"

fun regular_files :: "bool \<Rightarrow> dir_entry list \<Rightarrow> go_err + string list" where
  "regular_files ordered [] = Inr []"
| "regular_files ordered (e # es) =
     (case de_regular e of
        Inl er \<Rightarrow> Inl (Errorf ''failed to stat'' er)
      | Inr False \<Rightarrow> regular_files ordered es
      | Inr True \<Rightarrow>
          if ordered \<and> de_name e = ''softdep.conf'' then Inl (NewErr ''staged modprobedDir contains softdep.conf which collides with modulesLoadingOrder'')
          else and_then (regular_files ordered es) (\<lambda>fs. Inr (de_name e # fs)))"

fun copy_files :: "host \<Rightarrow> string \<Rightarrow> string list \<Rightarrow> (go_err option) hio" where
  "copy_files ho src [] = State_Monad.return None"
| "copy_files ho src (f # fs) = do {
     e \<leftarrow> cp_Copy ho (path_Join [src, f]) (path_Join [workerModprobeDDir, f]);
     case e of Some er \<Rightarrow> State_Monad.return (Some (Errorf ''failed to copy'' er)) | None \<Rightarrow> copy_files ho src fs
   }"

definition applyModprobedDir :: "host \<Rightarrow> module_config \<Rightarrow> (go_err option) hio" where
  "applyModprobedDir ho cfg =
     (if mp_modprobed_dir (cfg_modprobe cfg) = [] then State_Monad.return None
      else
        (let src = path_Join [worker_sharedFilesDir, mp_modprobed_dir (cfg_modprobe cfg)]
         in do {
           r \<leftarrow> os_ReadDir ho src;
           case r of
             Inl e \<Rightarrow> State_Monad.return (Some (Errorf ''failed to read staged modprobedDir'' e))
           | Inr entries \<Rightarrow>
               (case regular_files (length (elems (mp_loading_order (cfg_modprobe cfg))) > 0) entries of
                  Inl e \<Rightarrow> State_Monad.return (Some e)
                | Inr [] \<Rightarrow> State_Monad.return (Some (NewErr ''staged modprobedDir contains no regular files''))
                | Inr files \<Rightarrow> do {
                    m \<leftarrow> os_MkdirAll ho workerModprobeDDir;
                    case m of
                      Some e \<Rightarrow> State_Monad.return (Some (Errorf ''failed to create'' e))
                    | None \<Rightarrow> copy_files ho src files
                  })
         }))"

fun modules_on_host :: "host \<Rightarrow> string list \<Rightarrow> (string list) hio" where
  "modules_on_host ho [] = State_Monad.return []"
| "modules_on_host ho (m # ms) = do {
     r \<leftarrow> FileExists ho ''/lib/modules'' (''^'' @ m @ ''.ko'');
     rest \<leftarrow> modules_on_host ho ms;
     State_Monad.return (if r = Inr True then m # rest else rest)
   }"

definition intree_modules :: "module_config \<Rightarrow> string slice" where
  "intree_modules cfg =
     (if cfg_intree cfg = None \<and> cfg_intree_one cfg \<noteq> [] then Some [cfg_intree_one cfg] else cfg_intree cfg)"

definition remove_intree :: "host \<Rightarrow> module_config \<Rightarrow> (go_err option) hio" where
  "remove_intree ho cfg =
     (case intree_modules cfg of
        None \<Rightarrow> State_Monad.return None
      | Some ms \<Rightarrow> do {
          modulesToUnload \<leftarrow> modules_on_host ho ms;
          if length modulesToUnload > 0 then do {
            e \<leftarrow> run_modprobe ho (''-rv'' # modulesToUnload);
            State_Monad.return (map_option (Errorf ''could not remove in-tree modules'') e)
          }
          else State_Monad.return None
        })"

definition prepare_firmware :: "host \<Rightarrow> module_config \<Rightarrow> string \<Rightarrow> (go_err option) hio" where
  "prepare_firmware ho cfg firmwareMountPath =
     (if mp_firmware_path (cfg_modprobe cfg) = [] then State_Monad.return None
      else do {
        e \<leftarrow> cp_Copy ho (path_Join [worker_sharedFilesDir, mp_firmware_path (cfg_modprobe cfg)]) firmwareMountPath;
        State_Monad.return (map_option (Errorf ''failed to copy firmware'') e)
      })"

definition load_args :: "module_config \<Rightarrow> string list" where
  "load_args cfg =
     (let m = cfg_modprobe cfg
      in case mp_raw_args m of
           Some a \<Rightarrow> elems (mpa_load a)
         | None \<Rightarrow> [''-vd'', path_Join [worker_sharedFilesDir, mp_dir_name m]] @
             (case mp_args m of None \<Rightarrow> [] | Some a \<Rightarrow> elems (mpa_load a)) @ [mp_module_name m] @ elems (mp_parameters m))"

definition unload_args :: "module_config \<Rightarrow> string list" where
  "unload_args cfg =
     (let m = cfg_modprobe cfg
      in case mp_raw_args m of
           Some a \<Rightarrow> elems (mpa_unload a)
         | None \<Rightarrow> [''-rvd'', path_Join [worker_sharedFilesDir, mp_dir_name m]] @
             (case mp_args m of None \<Rightarrow> [] | Some a \<Rightarrow> elems (mpa_unload a)) @
             (if length (elems (mp_loading_order m)) > 0 then elems (mp_loading_order m) else [mp_module_name m]))"

text \<open>Steps that stop at the first error.\<close>

definition andthen :: "(go_err option) hio \<Rightarrow> (go_err option) hio \<Rightarrow> (go_err option) hio" where
  "andthen m n = do { e \<leftarrow> m; case e of Some er \<Rightarrow> State_Monad.return (Some er) | None \<Rightarrow> n }"

definition wrapped :: "string \<Rightarrow> (go_err option) hio \<Rightarrow> (go_err option) hio" where
  "wrapped s m = do { e \<leftarrow> m; State_Monad.return (map_option (Wrapf s) e) }"

definition LoadKmod :: "host \<Rightarrow> module_config \<Rightarrow> string \<Rightarrow> (go_err option) hio" where
  "LoadKmod ho cfg firmwareMountPath =
     andthen (remove_intree ho cfg)
    (andthen (prepare_firmware ho cfg firmwareMountPath)
    (andthen (wrapped ''failed to apply modprobe.d files'' (applyModprobedDir ho cfg)) (run_modprobe ho (load_args cfg))))"

definition UnloadKmod :: "host \<Rightarrow> module_config \<Rightarrow> string \<Rightarrow> (go_err option) hio" where
  "UnloadKmod ho cfg firmwareMountPath =
     andthen (wrapped ''failed to apply modprobe.d files'' (applyModprobedDir ho cfg)) (do {
       e \<leftarrow> run_modprobe ho (unload_args cfg);
       case e of
         Some er \<Rightarrow> State_Monad.return (Some (Errorf ''failed to unload module'' er))
       | None \<Rightarrow>
           if mp_firmware_path (cfg_modprobe cfg) = [] then State_Monad.return None
           else do {
             _ \<leftarrow> RemoveSrcFilesFromDst ho (path_Join [worker_sharedFilesDir, mp_firmware_path (cfg_modprobe cfg)]) firmwareMountPath;
             State_Monad.return None
           }
     })"

definition SetFirmwareClassPath :: "host \<Rightarrow> string \<Rightarrow> (go_err option) hio" where
  "SetFirmwareClassPath ho value = do {
     r \<leftarrow> os_ReadFile ho FirmwareClassPathLocation;
     case r of
       Inl e \<Rightarrow> State_Monad.return (Some (Errorf ''could not read'' e))
     | Inr orig \<Rightarrow>
         if orig \<noteq> value then do {
           e \<leftarrow> os_WriteFile ho FirmwareClassPathLocation value;
           State_Monad.return (map_option (Errorf ''could not write'') e)
         }
         else State_Monad.return None
   }"

section \<open>Commands\<close>

definition ReadConfigFile :: "library \<Rightarrow> host \<Rightarrow> string \<Rightarrow> (go_err + module_config) hio" where
  "ReadConfigFile lib ho path = do {
     r \<leftarrow> os_ReadFile ho path;
     State_Monad.return (case r of
       Inl e \<Rightarrow> Inl (Errorf ''could not read the configuration file'' e)
     | Inr b \<Rightarrow>
         (case l_UnmarshalStrict_config lib b empty_config of
            (Some e, _) \<Rightarrow> Inl (Errorf ''could not decode the configuration'' e)
          | (None, cfg) \<Rightarrow> Inr cfg))
   }"

text \<open>The flag is its value when it was given; its default is the empty string.\<close>

definition kmodLoadFunc :: "library \<Rightarrow> host \<Rightarrow> string \<Rightarrow> string option \<Rightarrow> (go_err option) hio" where
  "kmodLoadFunc lib ho cfgPath mountPathFlag = do {
     r \<leftarrow> ReadConfigFile lib ho cfgPath;
     case r of
       Inl e \<Rightarrow> State_Monad.return (Some (Errorf ''could not read config file'' e))
     | Inr cfg \<Rightarrow> do {
         s \<leftarrow> (case mountPathFlag of None \<Rightarrow> State_Monad.return None | Some v \<Rightarrow> SetFirmwareClassPath ho v);
         case s of
           Some e \<Rightarrow> State_Monad.return (Some (Errorf ''could not set the firmware_class.path parameter'' e))
         | None \<Rightarrow> LoadKmod ho cfg (case mountPathFlag of None \<Rightarrow> [] | Some v \<Rightarrow> v)
       }
   }"

definition kmodUnloadFunc :: "library \<Rightarrow> host \<Rightarrow> string \<Rightarrow> string option \<Rightarrow> (go_err option) hio" where
  "kmodUnloadFunc lib ho cfgPath mountPathFlag = do {
     r \<leftarrow> ReadConfigFile lib ho cfgPath;
     case r of
       Inl e \<Rightarrow> State_Monad.return (Some (Errorf ''could not read config file'' e))
     | Inr cfg \<Rightarrow> UnloadKmod ho cfg (case mountPathFlag of None \<Rightarrow> [] | Some v \<Rightarrow> v)
   }"

section \<open>Steps that were accepted\<close>

text \<open>The node did what a request asked, and it did so for every request of a sequence issued after a history.\<close>

fun accepted :: "host \<Rightarrow> host_call list \<Rightarrow> host_call \<Rightarrow> bool" where
  "accepted ho h (Modprobe args) \<longleftrightarrow> h_modprobe ho h args = None"
| "accepted ho h (Copy a b) \<longleftrightarrow> h_copy ho h a b = None"
| "accepted ho h (Mkdir_All p) \<longleftrightarrow> h_mkdir_all ho h p = None"
| "accepted ho h c \<longleftrightarrow> True"

fun all_accepted :: "host \<Rightarrow> host_call list \<Rightarrow> host_call list \<Rightarrow> bool" where
  "all_accepted ho h [] \<longleftrightarrow> True"
| "all_accepted ho h (c # cs) \<longleftrightarrow> accepted ho h c \<and> all_accepted ho (h @ [c]) cs"

lemma all_accepted_append: "all_accepted ho h (s @ t) \<longleftrightarrow> all_accepted ho h s \<and> all_accepted ho (h @ s) t"
  by (induction s arbitrary: h) auto

text \<open>A step issues requests that satisfy \<open>P\<close>, and when it returns no error they all were accepted.\<close>

definition step_ok :: "(host_call \<Rightarrow> bool) \<Rightarrow> host \<Rightarrow> (go_err option) hio \<Rightarrow> bool" where
  "step_ok P ho m \<longleftrightarrow> (\<forall>h. \<exists>t. snd (run_state m h) = h @ t \<and> list_all P t \<and> (fst (run_state m h) = None \<longrightarrow> all_accepted ho h t))"

named_theorems step_intros \<open>composition rules for steps\<close>

lemma step_return [step_intros]: "step_ok P ho (State_Monad.return x)"
  by (simp add: step_ok_def)

lemma step_bind:
  assumes m: "emits (\<lambda>c. P c \<and> (\<forall>h. accepted ho h c)) m" and f: "\<And>x. step_ok P ho (f x)"
  shows "step_ok P ho (State_Monad.bind m f)"
  unfolding step_ok_def
proof
  fix h
  obtain t where t: "snd (run_state m h) = h @ t" "\<forall>c\<in>set t. P c \<and> (\<forall>h. accepted ho h c)"
    using m unfolding emits_def by blast
  obtain s where s: "snd (run_state (f (fst (run_state m h))) (h @ t)) = (h @ t) @ s" "list_all P s"
      "fst (run_state (f (fst (run_state m h))) (h @ t)) = None \<longrightarrow> all_accepted ho (h @ t) s"
    using f unfolding step_ok_def by blast
  have "all_accepted ho k t" for k using t(2) by (induction t arbitrary: k) auto
  with t s show "\<exists>t. snd (run_state (State_Monad.bind m f) h) = h @ t \<and> list_all P t \<and>
      (fst (run_state (State_Monad.bind m f) h) = None \<longrightarrow> all_accepted ho h t)"
    by (intro exI [of _ "t @ s"]) (simp add: split_beta list_all_iff all_accepted_append ball_Un)
qed

lemma step_andthen [step_intros]:
  assumes m: "step_ok P ho m" and n: "step_ok P ho n"
  shows "step_ok P ho (andthen m n)"
  unfolding step_ok_def
proof
  fix h
  obtain t where t: "snd (run_state m h) = h @ t" "list_all P t" "fst (run_state m h) = None \<longrightarrow> all_accepted ho h t"
    using m unfolding step_ok_def by blast
  obtain s where s: "snd (run_state n (h @ t)) = (h @ t) @ s" "list_all P s" "fst (run_state n (h @ t)) = None \<longrightarrow> all_accepted ho (h @ t) s"
    using n unfolding step_ok_def by blast
  show "\<exists>t. snd (run_state (andthen m n) h) = h @ t \<and> list_all P t \<and> (fst (run_state (andthen m n) h) = None \<longrightarrow> all_accepted ho h t)"
  proof (cases "fst (run_state m h)")
    case None
    with t s show ?thesis
      by (intro exI [of _ "t @ s"]) (simp add: andthen_def split_beta all_accepted_append)
  next
    case (Some e)
    with t show ?thesis by (intro exI [of _ t]) (simp add: andthen_def split_beta)
  qed
qed

lemma step_map: "step_ok P ho m \<Longrightarrow> step_ok P ho (do { e \<leftarrow> m; State_Monad.return (map_option f e) })"
  by (simp add: step_ok_def split_beta)

lemma step_wrapped [step_intros]: "step_ok P ho m \<Longrightarrow> step_ok P ho (wrapped s m)"
  unfolding wrapped_def by (rule step_map)

lemma step_host [step_intros]:
  "P (Modprobe args) \<Longrightarrow> step_ok P ho (run_modprobe ho args)"
  "P (Copy a b) \<Longrightarrow> step_ok P ho (cp_Copy ho a b)"
  "P (Mkdir_All d) \<Longrightarrow> step_ok P ho (os_MkdirAll ho d)"
  by (simp_all add: step_ok_def host_defs)

lemma step_if [step_intros]: "(b \<Longrightarrow> step_ok P ho m) \<Longrightarrow> (\<not> b \<Longrightarrow> step_ok P ho n) \<Longrightarrow> step_ok P ho (if b then m else n)"
  by simp

lemma bind_andthen:
  "do { e \<leftarrow> m; case e of Some er \<Rightarrow> State_Monad.return (Some (f er)) | None \<Rightarrow> n } =
     andthen (do { e \<leftarrow> m; State_Monad.return (map_option f e) }) n"
  by (rule state.expand) (auto simp: andthen_def fun_eq_iff split: prod.splits option.splits)

lemma run_andthen:
  "run_state (andthen m n) h =
     (case run_state m h of (None, h1) \<Rightarrow> run_state n h1 | (Some e, h1) \<Rightarrow> (Some e, h1))"
  by (auto simp: andthen_def split: prod.splits option.splits)

section \<open>The steps of loading\<close>

text \<open>What may be requested of the node before the module is loaded.\<close>

definition preparation :: "module_config \<Rightarrow> string \<Rightarrow> host_call \<Rightarrow> bool" where
  "preparation cfg fw c \<longleftrightarrow>
     c = Walk ''/lib/modules'' \<or>
     (\<exists>ms. c = Modprobe (''-rv'' # ms) \<and> ms \<noteq> [] \<and> set ms \<subseteq> set (elems (intree_modules cfg))) \<or>
     (mp_firmware_path (cfg_modprobe cfg) \<noteq> [] \<and> c = Copy (path_Join [worker_sharedFilesDir, mp_firmware_path (cfg_modprobe cfg)]) fw) \<or>
     (let src = path_Join [worker_sharedFilesDir, mp_modprobed_dir (cfg_modprobe cfg)] in
      mp_modprobed_dir (cfg_modprobe cfg) \<noteq> [] \<and>
      (c = Read_Dir src \<or> c = Mkdir_All workerModprobeDDir \<or>
       (\<exists>f. c = Copy (path_Join [src, f]) (path_Join [workerModprobeDDir, f]))))"

lemma emits_FileExists: "P (Walk root) \<Longrightarrow> emits P (FileExists ho root re)"
  unfolding FileExists_def by (auto intro!: emits_intros)

lemma modules_on_host_does: "does (\<lambda>c. c = Walk ''/lib/modules'') (\<lambda>r. set r \<subseteq> set ms) (modules_on_host ho ms)"
proof (induction ms)
  case (Cons m ms)
  have "does (\<lambda>c. c = Walk ''/lib/modules'') (\<lambda>_. True) (FileExists ho ''/lib/modules'' (''^'' @ m @ ''.ko''))"
    by (intro emits_does emits_FileExists) simp
  then show ?case
    unfolding modules_on_host.simps
    by (rule does_bind) (rule does_bind [OF Cons.IH], auto intro!: does_return)
qed (simp add: does_return)

lemma step_does:
  assumes m: "does P' Q m" and P': "\<And>c. P' c \<Longrightarrow> P c \<and> (\<forall>h. accepted ho h c)" and f: "\<And>x. Q x \<Longrightarrow> step_ok P ho (f x)"
  shows "step_ok P ho (State_Monad.bind m f)"
proof -
  let ?f = "\<lambda>x. if Q x then f x else State_Monad.return None"
  have "step_ok P ho (State_Monad.bind m ?f)"
    by (rule step_bind) (use m P' f in \<open>auto intro: emits_mono [OF does_emits] step_return\<close>)
  moreover have "run_state (State_Monad.bind m ?f) h = run_state (State_Monad.bind m f) h" for h
    using does_result [OF m, of h] by (simp add: split_beta)
  ultimately show ?thesis by (simp add: step_ok_def)
qed

lemma step_remove_intree [step_intros]: "step_ok (preparation cfg fw) ho (remove_intree ho cfg)"
proof (cases "intree_modules cfg")
  case (Some ms)
  show ?thesis
    unfolding remove_intree_def Some option.case
    by (rule step_does [OF modules_on_host_does])
      (auto simp: preparation_def Some intro!: step_if step_map step_intros)
qed (simp add: remove_intree_def step_return)

lemma step_prepare_firmware [step_intros]: "step_ok (preparation cfg fw) ho (prepare_firmware ho cfg fw)"
  unfolding prepare_firmware_def by (auto simp: preparation_def intro!: step_if step_map step_intros)

lemma preparation_modprobed:
  assumes "mp_modprobed_dir (cfg_modprobe cfg) \<noteq> []"
  shows "preparation cfg fw (Read_Dir (path_Join [worker_sharedFilesDir, mp_modprobed_dir (cfg_modprobe cfg)]))"
    and "preparation cfg fw (Mkdir_All workerModprobeDDir)"
    and "preparation cfg fw (Copy (path_Join [path_Join [worker_sharedFilesDir, mp_modprobed_dir (cfg_modprobe cfg)], f])
           (path_Join [workerModprobeDDir, f]))"
  using assms by (auto simp: preparation_def Let_def)

lemma step_copy_files:
  assumes "mp_modprobed_dir (cfg_modprobe cfg) \<noteq> []"
  shows "step_ok (preparation cfg fw) ho (copy_files ho (path_Join [worker_sharedFilesDir, mp_modprobed_dir (cfg_modprobe cfg)]) fs)"
  by (induction fs) (auto simp: bind_andthen intro!: step_map step_intros preparation_modprobed [OF assms])

lemma step_case_sum [step_intros]:
  "(\<And>e. r = Inl e \<Longrightarrow> step_ok P ho (f e)) \<Longrightarrow> (\<And>x. r = Inr x \<Longrightarrow> step_ok P ho (g x)) \<Longrightarrow>
     step_ok P ho (case r of Inl e \<Rightarrow> f e | Inr x \<Rightarrow> g x)"
  by (simp split: sum.split)

lemma step_case_list [step_intros]:
  "(xs = [] \<Longrightarrow> step_ok P ho m) \<Longrightarrow> (\<And>y ys. xs = y # ys \<Longrightarrow> step_ok P ho (g y ys)) \<Longrightarrow>
     step_ok P ho (case xs of [] \<Rightarrow> m | y # ys \<Rightarrow> g y ys)"
  by (simp split: list.split)

lemma step_applyModprobedDir [step_intros]: "step_ok (preparation cfg fw) ho (applyModprobedDir ho cfg)"
proof (cases "mp_modprobed_dir (cfg_modprobe cfg) = []")
  case False
  note prep = preparation_modprobed [OF False]
  show ?thesis
    unfolding applyModprobedDir_def Let_def bind_andthen if_not_P [OF False]
    by (rule step_bind, rule emits_host, simp add: prep, intro step_map step_intros step_copy_files [OF False] prep)
qed (simp add: applyModprobedDir_def step_return)

lemma prepare_firmware_run:
  "mp_firmware_path (cfg_modprobe cfg) \<noteq> [] \<Longrightarrow>
   snd (run_state (prepare_firmware ho cfg fw) h) = h @ [Copy (path_Join [worker_sharedFilesDir, mp_firmware_path (cfg_modprobe cfg)]) fw]"
  by (simp add: prepare_firmware_def host_defs)

text \<open>The three preparations together, and loading as a run of them followed by one more request.\<close>

definition prepare :: "host \<Rightarrow> module_config \<Rightarrow> string \<Rightarrow> (go_err option) hio" where
  "prepare ho cfg fw =
     andthen (remove_intree ho cfg)
    (andthen (prepare_firmware ho cfg fw) (wrapped ''failed to apply modprobe.d files'' (applyModprobedDir ho cfg)))"

lemma andthen_assoc: "andthen (andthen m n) k = andthen m (andthen n k)"
  by (rule state.expand) (auto simp: andthen_def fun_eq_iff split: prod.splits option.splits)

lemma LoadKmod_prepare: "LoadKmod ho cfg fw = andthen (prepare ho cfg fw) (run_modprobe ho (load_args cfg))"
  by (simp add: LoadKmod_def prepare_def andthen_assoc)

lemma step_prepare: "step_ok (preparation cfg fw) ho (prepare ho cfg fw)"
  unfolding prepare_def by (intro step_intros)

lemma prepare_copies_firmware:
  assumes fw: "mp_firmware_path (cfg_modprobe cfg) \<noteq> []" and r: "run_state (prepare ho cfg fw) h = (None, h @ t)"
  shows "Copy (path_Join [worker_sharedFilesDir, mp_firmware_path (cfg_modprobe cfg)]) fw \<in> set t"
proof -
  let ?c = "Copy (path_Join [worker_sharedFilesDir, mp_firmware_path (cfg_modprobe cfg)]) fw"
  let ?n = "wrapped ''failed to apply modprobe.d files'' (applyModprobedDir ho cfg)"
  obtain t1 where t1: "snd (run_state (remove_intree ho cfg) h) = h @ t1"
    using step_remove_intree unfolding step_ok_def by blast
  obtain t3 where t3: "snd (run_state ?n (h @ t1 @ [?c])) = (h @ t1 @ [?c]) @ t3"
    using step_wrapped [OF step_applyModprobedDir] unfolding step_ok_def by blast
  have "snd (run_state (prepare ho cfg fw) h) = h @ t1 @ ?c # t3"
    using r t1 t3 prepare_firmware_run [OF fw, of ho fw "h @ t1"]
    by (auto simp: prepare_def run_andthen split: prod.splits option.splits)
  with r show ?thesis by simp
qed

lemma LoadKmod_shape:
  "\<exists>pre. list_all (preparation cfg fw) pre \<and>
     (run_state (LoadKmod ho cfg fw) h = (h_modprobe ho (h @ pre) (load_args cfg), h @ pre @ [Modprobe (load_args cfg)]) \<and>
        all_accepted ho h pre \<and>
        (mp_firmware_path (cfg_modprobe cfg) = [] \<or>
          Copy (path_Join [worker_sharedFilesDir, mp_firmware_path (cfg_modprobe cfg)]) fw \<in> set pre) \<or>
      fst (run_state (LoadKmod ho cfg fw) h) \<noteq> None \<and> snd (run_state (LoadKmod ho cfg fw) h) = h @ pre)"
proof -
  obtain t where t: "snd (run_state (prepare ho cfg fw) h) = h @ t" "list_all (preparation cfg fw) t"
      "fst (run_state (prepare ho cfg fw) h) = None \<longrightarrow> all_accepted ho h t"
    using step_prepare unfolding step_ok_def by blast
  show ?thesis
  proof (cases "fst (run_state (prepare ho cfg fw) h)")
    case None
    with t(1) have r: "run_state (prepare ho cfg fw) h = (None, h @ t)" by (metis prod.collapse)
    with t None prepare_copies_firmware [OF _ r] show ?thesis
      by (intro exI [of _ t]) (auto simp: LoadKmod_prepare run_andthen host_defs)
  next
    case (Some e)
    with t show ?thesis
      by (intro exI [of _ t]) (simp add: LoadKmod_prepare run_andthen split_beta)
  qed
qed

lemma remove_each_does:
  "emits (\<lambda>c. \<exists>rel. (rel, False) \<in> set es \<and> c = Remove (path_Join [dst, rel])) (remove_each ho dst es)"
proof (induction es)
  case (Cons e es)
  obtain rel d where e: "e = (rel, d)" by force
  show ?case
    unfolding e remove_each.simps
    by (intro emits_bind emits_if emits_return emits_host) (auto intro: emits_mono [OF Cons])
qed (simp add: emits_return)

text \<open>What removal of the firmware files issues after a history, and the unloading of a module up to the removal.\<close>

lemma RemoveSrcFilesFromDst_calls:
  assumes "Remove p \<in> set (calls (RemoveSrcFilesFromDst ho src dst) h)"
  shows "\<exists>rel. p = path_Join [dst, rel] \<and> (rel, False) \<in> set (fst (h_walk ho h src))"
proof -
  let ?es = "fst (h_walk ho h src)"
  obtain t where t: "snd (run_state (remove_each ho dst ?es) (h @ [Walk src])) = (h @ [Walk src]) @ t"
      "\<forall>c\<in>set t. \<exists>rel. (rel, False) \<in> set ?es \<and> c = Remove (path_Join [dst, rel])"
    using remove_each_does [of ?es dst ho] unfolding emits_def by blast
  have "calls (RemoveSrcFilesFromDst ho src dst) h = Walk src # t"
    using t(1) by (simp add: calls_def RemoveSrcFilesFromDst_def host_defs split_beta)
  with assms t(2) show ?thesis by auto
qed

lemma emits_RemoveSrcFilesFromDst: "emits (\<lambda>_. True) (RemoveSrcFilesFromDst ho src dst)"
  unfolding RemoveSrcFilesFromDst_def
  by (intro emits_bind emits_host emits_return emits_mono [OF remove_each_does]) simp_all

definition firmware_removal :: "host \<Rightarrow> module_config \<Rightarrow> string \<Rightarrow> (go_err option) hio" where
  "firmware_removal ho cfg fw =
     (if mp_firmware_path (cfg_modprobe cfg) = [] then State_Monad.return None
      else do {
        _ \<leftarrow> RemoveSrcFilesFromDst ho (path_Join [worker_sharedFilesDir, mp_firmware_path (cfg_modprobe cfg)]) fw;
        State_Monad.return None
      })"

lemma emits_firmware_removal: "emits (\<lambda>_. True) (firmware_removal ho cfg fw)"
  unfolding firmware_removal_def by (intro emits_if emits_bind emits_return emits_RemoveSrcFilesFromDst)

lemma UnloadKmod_steps:
  "UnloadKmod ho cfg fw =
     andthen (wrapped ''failed to apply modprobe.d files'' (applyModprobedDir ho cfg))
    (andthen (do { e \<leftarrow> run_modprobe ho (unload_args cfg); State_Monad.return (map_option (Errorf ''failed to unload module'') e) })
       (firmware_removal ho cfg fw))"
  unfolding UnloadKmod_def firmware_removal_def bind_andthen [symmetric] by simp

text \<open>Whatever the node answers, unloading ends in one of three ways.\<close>

lemma UnloadKmod_cases:
  obtains (not_prepared) t e where "run_state (UnloadKmod ho cfg fw) h = (Some e, h @ t)" "list_all (preparation cfg fw) t"
  | (not_unloaded) t e where "run_state (UnloadKmod ho cfg fw) h = (Some e, h @ t @ [Modprobe (unload_args cfg)])"
      "list_all (preparation cfg fw) t" "all_accepted ho h t" "h_modprobe ho (h @ t) (unload_args cfg) \<noteq> None"
  | (unloaded) t where "run_state (UnloadKmod ho cfg fw) h = run_state (firmware_removal ho cfg fw) (h @ t @ [Modprobe (unload_args cfg)])"
      "list_all (preparation cfg fw) t" "all_accepted ho h t" "h_modprobe ho (h @ t) (unload_args cfg) = None"
proof -
  let ?m = "wrapped ''failed to apply modprobe.d files'' (applyModprobedDir ho cfg)"
  obtain t where t: "snd (run_state ?m h) = h @ t" "list_all (preparation cfg fw) t" "fst (run_state ?m h) = None \<longrightarrow> all_accepted ho h t"
    using step_wrapped [OF step_applyModprobedDir] unfolding step_ok_def by blast
  consider (e) e where "run_state ?m h = (Some e, h @ t)" | (n) "run_state ?m h = (None, h @ t)"
    using t(1) by (metis not_None_eq prod.collapse)
  then show ?thesis
  proof cases
    case e
    then show ?thesis using t(2) by (intro not_prepared) (simp_all add: UnloadKmod_steps run_andthen)
  next
    case n
    with t(3) have a: "all_accepted ho h t" by simp
    show ?thesis
    proof (cases "h_modprobe ho (h @ t) (unload_args cfg)")
      case None
      with n t(2) a show ?thesis by (intro unloaded) (simp_all add: UnloadKmod_steps run_andthen host_defs)
    next
      case (Some e)
      with n t(2) a show ?thesis by (intro not_unloaded) (auto simp: UnloadKmod_steps run_andthen host_defs)
    qed
  qed
qed

lemma preparation_removes_nothing: "\<not> preparation cfg fw (Remove p)"
  by (auto simp: preparation_def Let_def)

section \<open>Properties\<close>

text \<open>
  C10: the module is loaded last and only on a prepared node. Whatever the node answers, loading first issues preparations
  only: looking for in-tree modules and removing those found, copying the firmware of the image to the given directory, and
  copying modprobe.d files. Either one of them fails and nothing more is done, or all of them were accepted, the firmware
  was copied when the module has any, and a single \<open>modprobe\<close> with the arguments of the module ends the sequence and decides the result.
\<close>

theorem module_loaded_on_prepared_node:
  "\<exists>pre. list_all (preparation cfg fw) pre \<and>
     (run_state (LoadKmod ho cfg fw) h = (h_modprobe ho (h @ pre) (load_args cfg), h @ pre @ [Modprobe (load_args cfg)]) \<and>
        all_accepted ho h pre \<and>
        (mp_firmware_path (cfg_modprobe cfg) = [] \<or>
          Copy (path_Join [worker_sharedFilesDir, mp_firmware_path (cfg_modprobe cfg)]) fw \<in> set pre) \<or>
      fst (run_state (LoadKmod ho cfg fw) h) \<noteq> None \<and> snd (run_state (LoadKmod ho cfg fw) h) = h @ pre)"
  by (rule LoadKmod_shape)

text \<open>
  C36: unloading removes firmware only afterwards: a file is removed from the node only when the module has firmware and
  the unloading \<open>modprobe\<close> succeeded, and the file is named like a file of the firmware directory of the image.
\<close>

theorem firmware_removed_after_unloading:
  assumes "Remove p \<in> set (calls (UnloadKmod ho cfg fw) h)"
  shows "mp_firmware_path (cfg_modprobe cfg) \<noteq> [] \<and>
    (\<exists>t rel. all_accepted ho h (t @ [Modprobe (unload_args cfg)]) \<and> p = path_Join [fw, rel] \<and>
       (rel, False) \<in> set (fst (h_walk ho (h @ t @ [Modprobe (unload_args cfg)])
          (path_Join [worker_sharedFilesDir, mp_firmware_path (cfg_modprobe cfg)]))))"
proof (cases rule: UnloadKmod_cases [of ho cfg fw h])
  case (not_prepared t e)
  with assms show ?thesis by (auto simp: calls_def list_all_iff preparation_removes_nothing)
next
  case (not_unloaded t e)
  with assms show ?thesis by (auto simp: calls_def list_all_iff preparation_removes_nothing)
next
  case (unloaded t)
  let ?h = "t @ [Modprobe (unload_args cfg)]"
  let ?src = "path_Join [worker_sharedFilesDir, mp_firmware_path (cfg_modprobe cfg)]"
  from emits_firmware_removal unloaded(1) have "calls (UnloadKmod ho cfg fw) h = ?h @ calls (firmware_removal ho cfg fw) (h @ ?h)"
    by (intro calls_after) simp
  with assms unloaded(2) have rm: "Remove p \<in> set (calls (firmware_removal ho cfg fw) (h @ ?h))"
    by (auto simp: list_all_iff preparation_removes_nothing)
  then have fw: "mp_firmware_path (cfg_modprobe cfg) \<noteq> []"
    by (auto simp: firmware_removal_def calls_def)
  with rm have "Remove p \<in> set (calls (RemoveSrcFilesFromDst ho ?src fw) (h @ ?h))"
    by (simp add: firmware_removal_def calls_def split_beta)
  from RemoveSrcFilesFromDst_calls [OF this] fw unloaded(3,4) show ?thesis
    by (auto simp: all_accepted_append)
qed

text \<open>A node on which the image holds one firmware file in a directory.\<close>

definition willing_host :: host where
  "willing_host = \<lparr>h_modprobe = \<lambda>_ _. None, h_walk = \<lambda>_ _. ([(''.'', True), (''amd/a.bin'', False)], None), h_copy = \<lambda>_ _ _. None,
     h_remove = \<lambda>_ _. None, h_read_file = \<lambda>_ _. Inr [], h_write_file = \<lambda>_ _ _. None, h_read_dir = \<lambda>_ _. Inr [],
     h_mkdir_all = \<lambda>_ _. None, h_compile = \<lambda>_. Inr (\<lambda>_. True)\<rparr>"

definition firmware_config :: module_config where
  "firmware_config = empty_config\<lparr>cfg_modprobe := empty_modprobe\<lparr>mp_module_name := ''kmod'', mp_dir_name := ''/opt'',
     mp_firmware_path := ''/firmware''\<rparr>\<rparr>"

theorem firmware_removed_after_unloading_witness:
  "calls (UnloadKmod willing_host firmware_config ''/var/lib/firmware'') [] =
     [Modprobe [''-rvd'', ''/tmp/opt'', ''kmod''], Walk ''/tmp/firmware'', Remove ''/var/lib/firmware/amd/a.bin''] \<and>
   mp_firmware_path (cfg_modprobe firmware_config) \<noteq> []"
proof -
  have c: "calls (UnloadKmod willing_host firmware_config ''/var/lib/firmware'') [] =
     [Modprobe [''-rvd'', ''/tmp/opt'', ''kmod''], Walk ''/tmp/firmware'', Remove ''/var/lib/firmware/amd/a.bin'']" by code_simp
  then show ?thesis
    using firmware_removed_after_unloading [of "''/var/lib/firmware/amd/a.bin''" willing_host firmware_config "''/var/lib/firmware''" "[]"]
    by simp
qed

end
