(* ===== verification/Worker_Protocol.thy ===== *)
theory Worker_Protocol
  imports Worker_Pod Worker
begin

text \<open>
  The contract between the operator and the worker: the operator writes the configuration of a module into an annotation
  and an init container's script into the pod (\<^verbatim>\<open>internal/pod/workerpodmanager.go\<close>); in that pod the worker reads the
  annotation back as a file and loads or unloads what the script has staged (\<^verbatim>\<open>cmd/worker\<close>, \<^verbatim>\<open>internal/worker\<close>).
\<close>

section \<open>What the pods carry\<close>

lemma edit_first_find:
  assumes "edit_first P f xs = Some ys" "\<And>x. P (f x) = P x"
  shows "find P ys = map_option f (find P xs) \<and> find P xs \<noteq> None"
  using assms(1) by (induction xs arbitrary: ys) (auto split: if_splits simp: assms(2))

text \<open>The script of the init container; the later steps of the templates only extend it.\<close>

definition init_script :: "pod \<Rightarrow> string" where
  "init_script p = hd (c_args (hd (pod_init_containers p)))"

definition extends :: "pod \<Rightarrow> pod \<Rightarrow> bool" where
  "extends p q \<longleftrightarrow> (\<exists>s. init_script q = init_script p @ s)"

lemma extends_refl [simp]: "extends p p"
  by (simp add: extends_def)

lemma extends_trans [trans]: "extends p q \<Longrightarrow> extends q r \<Longrightarrow> extends p r"
  by (auto simp: extends_def)

lemma extends_append:
  assumes "worker_shape p" "append_to_arg0 p s = Inr q"
  shows "init_script q = init_script p @ s"
  by (rule edit_init [OF assms]) (simp add: init_script_def)

lemma extends_edit_worker:
  assumes "worker_shape p" "edit_container WorkerContainerName f msg p = Inr q"
  shows "pod_init_containers q = pod_init_containers p"
  by (rule edit_worker [OF assms]) simp

lemma extends_same: "pod_init_containers q = pod_init_containers p \<Longrightarrow> extends p q"
  by (simp add: extends_def init_script_def)

lemma extends_annotation [simp]: "extends p (set_annotation p k v)"
  by (rule extends_same) (simp add: set_annotation_def)

lemma extends_softdep:
  assumes "worker_shape p" "setWorkerSofdepConfig p ord = Inr q"
  shows "extends p q"
proof -
  let ?p = "set_annotation p modulesOrderKey (getModulesOrderAnnotationValue ord)"
  obtain ic wc a as where wc: "pod_init_containers p = [ic]" "pod_containers p = [wc]" "c_name wc = WorkerContainerName"
    by (rule worker_shapeE [OF assms(1)])
  with assms(2) show ?thesis
    by (intro extends_same) (auto simp: setWorkerSofdepConfig_def edit_container_def Let_def set_annotation_def)
qed

lemma extends_firmware:
  assumes "worker_shape p" "add_firmware wpm cfg msg p = Inr (args, q)"
  shows "extends p q"
proof (cases "mp_firmware_path (cfg_modprobe cfg) = []")
  case True
  with assms(2) show ?thesis by (simp add: add_firmware_def)
next
  case False
  with assms(2) obtain path p1 where
    p1: "addCopyCommand p (path_Join [mp_firmware_path (cfg_modprobe cfg), ''*''])
           (path_Join [sharedFilesDir, mp_firmware_path (cfg_modprobe cfg)]) = Inr p1"
    and q: "setFirmwareVolume p1 (Some path) = Inr q"
    by (auto simp: add_firmware_def Let_def and_then_Inr split: option.splits)
  have e: "extends p p1" using extends_append [OF assms(1) p1 [unfolded addCopyCommand_def]] by (simp add: extends_def)
  have w: "worker_shape p1" using addCopyCommand_shape [OF assms(1) p1] by simp
  obtain q1 where q1: "edit_container WorkerContainerName (\<lambda>c. c\<lparr>c_mounts := c_mounts c @ [\<lparr>vm_name = ''lib-firmware'', vm_path = path,
         vm_sub_path = [], vm_read_only = False\<rparr>]\<rparr>) ''could not find the worker container'' p1 = Inr q1"
    and qe: "pod_init_containers q = pod_init_containers q1"
    using q by (auto simp: setFirmwareVolume_def and_then_Inr)
  have "extends p1 q" using extends_edit_worker [OF w q1] qe by (intro extends_same) simp
  with e show ?thesis by (rule extends_trans)
qed

lemma extends_modprobed_dir:
  "worker_shape p \<Longrightarrow> add_modprobed_dir cfg p = Inr q \<Longrightarrow> extends p q"
  using extends_append
  by (fastforce simp: add_modprobed_dir_def addModprobedDirCopyCommand_def Let_def extends_def split: if_splits)

lemma extends_tail:
  assumes "worker_shape p" "edit_container WorkerContainerName f msg p = Inr p7"
    and "setHashAnnotation lib (p7\<lparr>pod_labels := ls\<rparr>) = Inr q"
  shows "extends p q"
proof -
  from assms(3) obtain h where "q = set_annotation (p7\<lparr>pod_labels := ls\<rparr>) hashAnnotationKey (fmt_d h)"
    by (auto simp: setHashAnnotation_def and_then_Inr split: option.splits)
  then show ?thesis
    using extends_edit_worker [OF assms(1,2)] by (intro extends_same) (simp add: set_annotation_def)
qed

text \<open>The first command of the script stages the modules of the image for the kernel.\<close>

definition stages_modules :: "module_config \<Rightarrow> pod \<Rightarrow> bool" where
  "stages_modules cfg p \<longleftrightarrow>
     (let dir = mp_dir_name (cfg_modprobe cfg);
          src = path_Join [dir, ''lib'', ''modules'', cfg_kernel_version cfg];
          dst = path_Join [path_Join [worker_sharedFilesDir, dir], ''lib'', ''modules'']
      in \<exists>rest. init_script p = nl @ ''mkdir -p '' @ dst @ '';'' @ nl @ ''cp -R '' @ src @ '' '' @ dst @ '';'' @ nl @ rest)"

lemma stages_extends: "stages_modules cfg p \<Longrightarrow> extends p q \<Longrightarrow> stages_modules cfg q"
  by (auto simp: stages_modules_def extends_def Let_def)

lemma base_stages:
  assumes "baseWorkerPod wpm lib n item cfg = Inr p"
  shows "stages_modules cfg p"
proof -
  let ?s = "worker_pod_skeleton wpm n item cfg" and ?dir = "mp_dir_name (cfg_modprobe cfg)"
  from assms obtain ow p' where
    c: "addCopyCommand (?s\<lparr>pod_owner := ow\<rparr>) (path_Join [?dir, ''lib'', ''modules'', cfg_kernel_version cfg])
          (path_Join [sharedFilesDir, ?dir, ''lib'', ''modules'']) = Inr p'"
    and p: "p = p'\<lparr>pod_finalizers := AddFinalizer NodeModulesConfigFinalizer (pod_finalizers p')\<rparr>"
    by (auto simp: baseWorkerPod_def Let_def and_then_Inr)
  have w: "worker_shape (?s\<lparr>pod_owner := ow\<rparr>)"
    using skeleton_shape [of wpm n item cfg] by (simp add: worker_shape_def mounts_backed_def)
  have "init_script (?s\<lparr>pod_owner := ow\<rparr>) = []" by (simp add: init_script_def worker_pod_skeleton_def empty_container_def)
  moreover have "path_Join [sharedFilesDir, ?dir, ''lib'', ''modules''] = path_Join [path_Join [worker_sharedFilesDir, ?dir], ''lib'', ''modules'']"
    using path_Join_assoc [of worker_sharedFilesDir "[?dir]" "[''lib'', ''modules'']"]
    by (simp add: sharedFilesDir_def worker_sharedFilesDir_def rooted_def HasPrefix_def)
  moreover have "init_script p = init_script p'" by (simp add: p init_script_def)
  ultimately show ?thesis
    using extends_append [OF w c [unfolded addCopyCommand_def]] by (simp add: stages_modules_def Let_def)
qed

definition firmware_args :: "worker_mgr \<Rightarrow> module_config \<Rightarrow> string list" where
  "firmware_args wpm cfg =
     (if mp_firmware_path (cfg_modprobe cfg) = [] then []
      else [''--firmware-path'', the (wc_firmware_host_path (wpm_cfg wpm))])"

lemma add_firmware_args: "add_firmware wpm cfg msg p = Inr (args, q) \<Longrightarrow> args = firmware_args wpm cfg"
  by (auto simp: add_firmware_def firmware_args_def Let_def and_then_Inr split: if_splits option.splits)

text \<open>A pod carries a command: the arguments of its worker container, and the staged modules.\<close>

definition carries :: "string \<Rightarrow> worker_mgr \<Rightarrow> module_config \<Rightarrow> pod \<Rightarrow> bool" where
  "carries cmd wpm cfg p \<longleftrightarrow> stages_modules cfg p \<and>
     map c_args (pod_containers p) = [[''kmod'', cmd, configFullPath] @ firmware_args wpm cfg]"

lemma carriesI:
  assumes "baseWorkerPod wpm lib n item cfg = Inr p0" "extends p0 p6" "worker_shape p6"
    and args: "setWorkerContainerArgs p6 ([''kmod'', cmd, configFullPath] @ firmware_args wpm cfg) = Inr p7"
    and last: "setHashAnnotation lib (p7\<lparr>pod_labels := SetLabel actionLabelKey a (pod_labels p7)\<rparr>) = Inr p"
  shows "carries cmd wpm cfg p"
proof -
  have "extends p0 p"
    by (rule extends_trans [OF assms(2) extends_tail [OF assms(3) args [unfolded setWorkerContainerArgs_def] last]])
  moreover have "pod_containers p = pod_containers p7"
    using label_hash_shape [OF _ last] args_shape [OF assms(3) args] by simp
  ultimately show ?thesis
    using stages_extends [OF base_stages [OF assms(1)]] args_shape [OF assms(3) args] by (simp add: carries_def)
qed

lemma extends_tolerations: "setWorkerTolerationsAnnotation lib p ts = Inr q \<Longrightarrow> extends p q"
  using tolerations_shape by fastforce

lemma extends_config: "setWorkerConfigAnnotation lib p cfg = Inr q \<Longrightarrow> extends p q"
  using config_shape by fastforce

lemma extends_version: "extends p (setWorkerModuleVersionAnnotation p v)"
  by (simp add: setWorkerModuleVersionAnnotation_def)

lemma annotated_shape:
  "worker_shape p \<Longrightarrow> setWorkerConfigAnnotation lib p cfg = Inr q \<Longrightarrow> setWorkerTolerationsAnnotation lib q ts = Inr r \<Longrightarrow>
     worker_shape r \<and> vol_name ` set (pod_volumes r) = vol_name ` set (pod_volumes p)"
  using config_shape tolerations_shape by fastforce

lemma extends_security:
  "worker_shape p \<Longrightarrow> setWorkerSecurityContext p cfg pr = Inr q \<Longrightarrow> extends p q"
  unfolding setWorkerSecurityContext_def by (intro extends_same extends_edit_worker)

lemma loader_carries:
  assumes "LoaderPodTemplate wpm lib n nms = Inr p"
  shows "carries ''load'' wpm (nms_config nms) p"
  using assms
proof (rule loader_templateE)
  fix p0 p1 r p3 p4 p5 p6 p7 msg
  let ?cfg = "nms_config nms"
  let ?p5 = "setWorkerModuleVersionAnnotation p5 (mi_version (nms_item nms))"
  assume base: "baseWorkerPod wpm lib n (nms_item nms) ?cfg = Inr p0"
    and soft: "p1 = p0 \<or> setWorkerSofdepConfig p0 (elems (mp_loading_order (cfg_modprobe ?cfg))) = Inr p1"
    and fw: "add_firmware wpm ?cfg msg p1 = Inr (fst r, snd r)" and dir: "add_modprobed_dir ?cfg (snd r) = Inr p3"
    and cfg: "setWorkerConfigAnnotation lib p3 ?cfg = Inr p4"
    and tol: "setWorkerTolerationsAnnotation lib p4 (mi_tolerations (nms_item nms)) = Inr p5"
    and sec: "setWorkerSecurityContext ?p5 (wpm_cfg wpm)
       (mp_firmware_path (cfg_modprobe ?cfg) \<noteq> [] \<or> mp_modprobed_dir (cfg_modprobe ?cfg) \<noteq> []) = Inr p6"
    and args: "setWorkerContainerArgs p6 ([''kmod'', ''load'', configFullPath] @ fst r) = Inr p7"
    and last: "setHashAnnotation lib (p7\<lparr>pod_labels := SetLabel actionLabelKey workerActionLoad (pod_labels p7)\<rparr>) = Inr p"
  note s1 = base_to_config [OF base soft]
  then have w2: "worker_shape (snd r)" using firmware_shape [OF _ _ fw] by blast
  then have w3: "worker_shape p3" using add_modprobed_dir_shape [OF _ dir] by blast
  then have w5: "worker_shape ?p5" using annotated_shape [OF _ cfg tol] by (simp add: setWorkerModuleVersionAnnotation_def)
  have "extends p0 p1" using soft extends_softdep base_shape [OF base] by auto
  also have "extends p1 (snd r)" using extends_firmware [OF _ fw] s1 by blast
  also have "extends (snd r) p3" by (rule extends_modprobed_dir [OF w2 dir])
  also have "extends p3 p4" by (rule extends_config [OF cfg])
  also have "extends p4 p5" by (rule extends_tolerations [OF tol])
  also have "extends p5 ?p5" by (rule extends_version)
  also have "extends ?p5 p6" by (rule extends_security [OF w5 sec])
  finally show ?thesis
    using carriesI [OF base _ _ args [unfolded add_firmware_args [OF fw]] last] security_shape [OF w5 sec] by blast
qed

lemma unloader_carries:
  assumes "UnloaderPodTemplate wpm lib n nms = Inr p"
  shows "carries ''unload'' wpm (nst_config nms) p"
  using assms
proof (rule unloader_templateE)
  fix p0 p1 p2 p3 r p5 p6 msg
  let ?cfg = "nst_config nms"
  assume base: "baseWorkerPod wpm lib n (nst_item nms) ?cfg = Inr p0"
    and cfg: "setWorkerConfigAnnotation lib p0 ?cfg = Inr p1"
    and tol: "setWorkerTolerationsAnnotation lib p1 (mi_tolerations (nst_item nms)) = Inr p2"
    and sec: "setWorkerSecurityContext p2 (wpm_cfg wpm) (mp_modprobed_dir (cfg_modprobe ?cfg) \<noteq> []) = Inr p3"
    and fw: "add_firmware wpm ?cfg msg p3 = Inr (fst r, snd r)" and dir: "add_modprobed_dir ?cfg (snd r) = Inr p5"
    and args: "setWorkerContainerArgs p5 ([''kmod'', ''unload'', configFullPath] @ fst r) = Inr p6"
    and last: "setHashAnnotation lib (p6\<lparr>pod_labels := SetLabel actionLabelKey workerActionUnload (pod_labels p6)\<rparr>) = Inr p"
  from base_to_config [OF base disjI1 [OF refl]]
  have s0: "worker_shape p0" "''lib-firmware'' \<notin> vol_name ` set (pod_volumes p0)" by auto
  with annotated_shape [OF _ cfg tol] have w2: "worker_shape p2" "''lib-firmware'' \<notin> vol_name ` set (pod_volumes p2)" by auto
  with security_shape [OF w2(1) sec] have w3: "worker_shape p3" "''lib-firmware'' \<notin> vol_name ` set (pod_volumes p3)" by auto
  then have w4: "worker_shape (snd r)" using firmware_shape [OF _ _ fw] by blast
  have "extends p0 p1" by (rule extends_config [OF cfg])
  also have "extends p1 p2" by (rule extends_tolerations [OF tol])
  also have "extends p2 p3" by (rule extends_security [OF w2(1) sec])
  also have "extends p3 (snd r)" by (rule extends_firmware [OF w3(1) fw])
  also have "extends (snd r) p5" by (rule extends_modprobed_dir [OF w4 dir])
  finally show ?thesis
    using carriesI [OF base _ _ args [unfolded add_firmware_args [OF fw]] last] add_modprobed_dir_shape [OF w4 dir] by blast
qed

section \<open>Running the pods\<close>

text \<open>The command line as \<open>cobra\<close> reads it: the command, the path of the configuration and the value of the flag.\<close>

fun worker_command :: "string list \<Rightarrow> (string \<times> string \<times> string option) option" where
  "worker_command [kmod, cmd, path] = (if kmod = ''kmod'' then Some (cmd, path, None) else None)"
| "worker_command [kmod, cmd, path, flag, v] =
     (if kmod = ''kmod'' \<and> flag = ''--firmware-path'' then Some (cmd, path, Some v) else None)"
| "worker_command _ = None"

definition run_worker :: "library \<Rightarrow> host \<Rightarrow> pod \<Rightarrow> (go_err option) hio" where
  "run_worker lib ho p =
     (case map c_args (pod_containers p) of
        [args] \<Rightarrow>
          (case worker_command args of
             Some (cmd, path, flag) \<Rightarrow>
               if cmd = ''load'' then kmodLoadFunc lib ho path flag
               else if cmd = ''unload'' then kmodUnloadFunc lib ho path flag
               else State_Monad.return (Some (NewErr ''unknown command''))
           | None \<Rightarrow> State_Monad.return (Some (NewErr ''usage'')))
      | _ \<Rightarrow> State_Monad.return (Some (NewErr ''usage'')))"

text \<open>
  What the worker relies on in its pod: the downward API shows the configuration annotation as the configuration file, and
  decoding the YAML of a configuration gives the configuration back.
\<close>

definition pod_serves :: "library \<Rightarrow> module_config \<Rightarrow> pod \<Rightarrow> host \<Rightarrow> bool" where
  "pod_serves lib cfg p ho \<longleftrightarrow>
     h_read_file ho [] configFullPath = Inr (GetConfigAnnotation (Some p)) \<and>
     (\<forall>b. l_Marshal_config lib cfg = Inr b \<longrightarrow> l_UnmarshalStrict_config lib b empty_config = (None, cfg))"

lemma firmware_command:
  "worker_command ([''kmod'', cmd, path] @ firmware_args wpm cfg) =
     Some (cmd, path, if mp_firmware_path (cfg_modprobe cfg) = [] then None else Some (the (wc_firmware_host_path (wpm_cfg wpm))))"
  by (simp add: firmware_args_def)

lemma run_carried:
  assumes "carries cmd wpm cfg p"
  shows "run_worker lib ho p =
    (let flag = (if mp_firmware_path (cfg_modprobe cfg) = [] then None else Some (the (wc_firmware_host_path (wpm_cfg wpm))))
     in if cmd = ''load'' then kmodLoadFunc lib ho configFullPath flag
        else if cmd = ''unload'' then kmodUnloadFunc lib ho configFullPath flag
        else State_Monad.return (Some (NewErr ''unknown command'')))"
  using assms unfolding carries_def run_worker_def by (simp add: firmware_command [simplified] Let_def)

lemma SetFirmwareClassPath_run:
  "\<exists>t. run_state (SetFirmwareClassPath ho v) h = (fst (run_state (SetFirmwareClassPath ho v) h), h @ t)"
  by (auto simp: SetFirmwareClassPath_def host_defs split: sum.splits)

lemma kmodLoadFunc_run:
  assumes serves: "pod_serves lib cfg p ho" and m: "l_Marshal_config lib cfg = Inr (GetConfigAnnotation (Some p))"
    and ok: "fst (run_state (kmodLoadFunc lib ho configFullPath flag) []) = None"
  obtains h where "run_state (kmodLoadFunc lib ho configFullPath flag) [] = run_state (LoadKmod ho cfg (case flag of None \<Rightarrow> [] | Some v \<Rightarrow> v)) h"
proof -
  let ?r = "[Read_File configFullPath]"
  have cfg: "run_state (ReadConfigFile lib ho configFullPath) [] = (Inr cfg, ?r)"
    using serves m by (simp add: ReadConfigFile_def pod_serves_def host_defs)
  let ?set = "case flag of None \<Rightarrow> State_Monad.return None | Some v \<Rightarrow> SetFirmwareClassPath ho v"
  obtain e h where s: "run_state ?set ?r = (e, h)" by force
  show thesis
  proof (cases e)
    case None
    with s cfg show ?thesis by (intro that [of h]) (simp add: kmodLoadFunc_def)
  next
    case (Some er)
    with s cfg ok show ?thesis by (simp add: kmodLoadFunc_def)
  qed
qed

section \<open>Properties\<close>

lemma loader_pod_run:
  assumes pod: "LoaderPodTemplate wpm lib n nms = Inr p" and serves: "pod_serves lib (nms_config nms) p ho"
    and ok: "fst (run_state (run_worker lib ho p) []) = None"
  shows "let cfg = nms_config nms; m = cfg_modprobe cfg in
    (\<exists>pre. snd (run_state (run_worker lib ho p) []) = pre @ [Modprobe (load_args cfg)] \<and> h_modprobe ho pre (load_args cfg) = None \<and>
       (mp_firmware_path m \<noteq> [] \<longrightarrow>
         Copy (path_Join [worker_sharedFilesDir, mp_firmware_path m]) (the (wc_firmware_host_path (wpm_cfg wpm))) \<in> set pre)) \<and>
    (\<exists>D rest. init_script p = nl @ ''mkdir -p '' @ path_Join [D, ''lib'', ''modules''] @ '';'' @ nl @
         ''cp -R '' @ path_Join [mp_dir_name m, ''lib'', ''modules'', cfg_kernel_version cfg] @ '' '' @
         path_Join [D, ''lib'', ''modules''] @ '';'' @ nl @ rest \<and>
       (mp_raw_args m = None \<longrightarrow> take 2 (load_args cfg) = [''-vd'', D]))"
proof -
  let ?cfg = "nms_config nms" and ?m = "cfg_modprobe (nms_config nms)"
  note c = loader_carries [OF pod]
  define flag where "flag = (if mp_firmware_path ?m = [] then None else Some (the (wc_firmware_host_path (wpm_cfg wpm))))"
  let ?fw = "case flag of None \<Rightarrow> [] | Some v \<Rightarrow> v"
  have run: "run_worker lib ho p = kmodLoadFunc lib ho configFullPath flag"
    using run_carried [OF c] by (simp add: flag_def)
  have marshal: "l_Marshal_config lib ?cfg = Inr (GetConfigAnnotation (Some p))"
    using loader_template [OF pod] by (simp add: worker_pod_for_def)
  obtain h where h: "run_state (run_worker lib ho p) [] = run_state (LoadKmod ho ?cfg ?fw) h"
    using kmodLoadFunc_run [OF serves marshal] ok unfolding run by metis
  obtain pre where pre: "run_state (LoadKmod ho ?cfg ?fw) h = (h_modprobe ho (h @ pre) (load_args ?cfg), h @ pre @ [Modprobe (load_args ?cfg)])"
      "mp_firmware_path ?m = [] \<or> Copy (path_Join [worker_sharedFilesDir, mp_firmware_path ?m]) ?fw \<in> set pre"
    using LoadKmod_shape [of ?cfg ?fw ho h] ok unfolding h by auto
  have "\<exists>pre. snd (run_state (run_worker lib ho p) []) = pre @ [Modprobe (load_args ?cfg)] \<and> h_modprobe ho pre (load_args ?cfg) = None \<and>
       (mp_firmware_path ?m \<noteq> [] \<longrightarrow>
         Copy (path_Join [worker_sharedFilesDir, mp_firmware_path ?m]) (the (wc_firmware_host_path (wpm_cfg wpm))) \<in> set pre)"
    using pre ok unfolding h by (intro exI [of _ "h @ pre"]) (auto simp: flag_def)
  moreover have "take 2 (load_args ?cfg) = [''-vd'', path_Join [worker_sharedFilesDir, mp_dir_name ?m]]" if "mp_raw_args ?m = None"
    using that by (simp add: load_args_def Let_def numeral_2_eq_2)
  moreover obtain rest where "init_script p = nl @ ''mkdir -p '' @
      path_Join [path_Join [worker_sharedFilesDir, mp_dir_name ?m], ''lib'', ''modules''] @ '';'' @ nl @
      ''cp -R '' @ path_Join [mp_dir_name ?m, ''lib'', ''modules'', cfg_kernel_version ?cfg] @ '' '' @
      path_Join [path_Join [worker_sharedFilesDir, mp_dir_name ?m], ''lib'', ''modules''] @ '';'' @ nl @ rest"
    using c unfolding carries_def stages_modules_def Let_def by blast
  ultimately show ?thesis
    unfolding Let_def by (intro conjI exI [of _ "path_Join [worker_sharedFilesDir, mp_dir_name ?m]"] exI [of _ rest]) simp_all
qed

text \<open>
  C9: a loader pod that succeeds has loaded the module the operator asked for. When the worker of the pod ends without an
  error, its last action was a successful \<open>modprobe\<close> with the arguments of the requested configuration, after the firmware of the
  image was copied to the operator's firmware directory if the module has any; and unless raw arguments are given, the directory
  passed to \<open>modprobe\<close> is the one below which the init container has put the modules of the image for the requested kernel.
\<close>

theorem loader_pod_loads_configuration:
  assumes pod: "LoaderPodTemplate wpm lib n nms = Inr p" and serves: "pod_serves lib (nms_config nms) p ho"
    and ok: "fst (run_state (run_worker lib ho p) []) = None"
  shows "let cfg = nms_config nms; m = cfg_modprobe cfg in
    (\<exists>pre. snd (run_state (run_worker lib ho p) []) = pre @ [Modprobe (load_args cfg)] \<and> h_modprobe ho pre (load_args cfg) = None \<and>
       (mp_firmware_path m \<noteq> [] \<longrightarrow>
         Copy (path_Join [worker_sharedFilesDir, mp_firmware_path m]) (the (wc_firmware_host_path (wpm_cfg wpm))) \<in> set pre)) \<and>
    (\<exists>D rest. init_script p = nl @ ''mkdir -p '' @ path_Join [D, ''lib'', ''modules''] @ '';'' @ nl @
         ''cp -R '' @ path_Join [mp_dir_name m, ''lib'', ''modules'', cfg_kernel_version cfg] @ '' '' @
         path_Join [D, ''lib'', ''modules''] @ '';'' @ nl @ rest \<and>
       (mp_raw_args m = None \<longrightarrow> take 2 (load_args cfg) = [''-vd'', D]))"
  using assms by (rule loader_pod_run)

text \<open>A library in which the YAML of the configuration is empty, and a node that does what it is asked.\<close>

definition firmware_library :: library where
  "firmware_library = plain_library\<lparr>l_UnmarshalStrict_config := \<lambda>s c. (None, firmware_config)\<rparr>"

definition firmware_spec :: node_module_spec where
  "firmware_spec = \<lparr>nms_item = empty_item ''kmm'' ''mymod'', nms_config = firmware_config\<rparr>"

theorem loader_pod_loads_configuration_witness:
  "\<exists>p pre. LoaderPodTemplate sample_mgr firmware_library one_module_nmc firmware_spec = Inr p \<and>
     snd (run_state (run_worker firmware_library willing_host p) []) = pre @ [Modprobe [''-vd'', ''/tmp/opt'', ''kmod'']] \<and>
     Copy ''/tmp/firmware'' ''/var/lib/firmware'' \<in> set pre"
proof -
  have "case LoaderPodTemplate sample_mgr firmware_library one_module_nmc firmware_spec of
          Inl _ \<Rightarrow> False
        | Inr p \<Rightarrow> GetConfigAnnotation (Some p) = [] \<and> fst (run_state (run_worker firmware_library willing_host p) []) = None"
    by code_simp
  then obtain p where p: "LoaderPodTemplate sample_mgr firmware_library one_module_nmc firmware_spec = Inr p"
      "GetConfigAnnotation (Some p) = []" "fst (run_state (run_worker firmware_library willing_host p) []) = None"
    by (auto split: sum.splits)
  have s: "pod_serves firmware_library (nms_config firmware_spec) p willing_host"
    by (simp add: pod_serves_def p(2) willing_host_def firmware_library_def firmware_spec_def)
  have a: "load_args (nms_config firmware_spec) = [''-vd'', ''/tmp/opt'', ''kmod'']"
      "path_Join [worker_sharedFilesDir, mp_firmware_path (cfg_modprobe (nms_config firmware_spec))] = ''/tmp/firmware''"
      "mp_firmware_path (cfg_modprobe (nms_config firmware_spec)) \<noteq> []" "the (wc_firmware_host_path (wpm_cfg sample_mgr)) = ''/var/lib/firmware''"
    by code_simp+
  from loader_pod_loads_configuration [OF p(1) s p(3)] show ?thesis
    unfolding Let_def a using p(1) a(3) by blast
qed

text \<open>
  An unloader pod that succeeds has run \<open>modprobe -r\<close> with the arguments of the configuration recorded in the status.
\<close>

theorem unloader_pod_unloads_configuration:
  assumes pod: "UnloaderPodTemplate wpm lib n nms = Inr p" and serves: "pod_serves lib (nst_config nms) p ho"
    and ok: "fst (run_state (run_worker lib ho p) []) = None"
  shows "\<exists>pre post. snd (run_state (run_worker lib ho p) []) = pre @ Modprobe (unload_args (nst_config nms)) # post \<and>
    h_modprobe ho pre (unload_args (nst_config nms)) = None"
proof -
  let ?cfg = "nst_config nms"
  define flag where "flag = (if mp_firmware_path (cfg_modprobe ?cfg) = [] then None else Some (the (wc_firmware_host_path (wpm_cfg wpm))))"
  let ?fw = "case flag of None \<Rightarrow> [] | Some v \<Rightarrow> v" and ?h = "[Read_File configFullPath]"
  have "l_Marshal_config lib ?cfg = Inr (GetConfigAnnotation (Some p))"
    using unloader_template [OF pod] by (simp add: worker_pod_for_def)
  then have run: "run_state (run_worker lib ho p) [] = run_state (UnloadKmod ho ?cfg ?fw) ?h"
    using run_carried [OF unloader_carries [OF pod]] serves
    by (simp add: flag_def kmodUnloadFunc_def ReadConfigFile_def pod_serves_def host_defs)
  show ?thesis
  proof (cases rule: UnloadKmod_cases [of ho ?cfg ?fw ?h])
    case (unloaded t)
    obtain post where "snd (run_state (firmware_removal ho ?cfg ?fw) (?h @ t @ [Modprobe (unload_args ?cfg)])) =
        (?h @ t @ [Modprobe (unload_args ?cfg)]) @ post"
      using emits_firmware_removal unfolding emits_def by blast
    with unloaded show ?thesis unfolding run by (intro exI [of _ "?h @ t"] exI [of _ post]) simp
  qed (use ok in \<open>simp_all add: run\<close>)
qed


end
