(* ===== verification/Worker_Lifecycle.thy ===== *)
theory Worker_Lifecycle
  imports Nmc_Reconciler "HOL-Library.Sublist"
begin

text \<open>
  The reconciler of \<^verbatim>\<open>internal/controllers/nmc_reconciler.go\<close> at work: a cluster that stores what the reconciler
  writes and answers its reads from it, and the other actors of the life of a module on a node. The users change the wanted modules,
  the kubelet runs the worker pods, pods are evicted, the node changes and reboots, and the operator may stop after any of its
  requests and start again. The invariant is that the status never lies about what is loaded.
\<close>

section \<open>A cluster with one node\<close>

record world =
  w_node :: node
  w_nmc :: nmc
  w_pods :: "pod list"  \<comment> \<open>the worker pods of the node\<close>
  w_loaded :: "nsn set"  \<comment> \<open>the modules in the kernel of the node\<close>

text \<open>
  What the API server does with the requests of the reconciler. A new pod is pending. A deleted pod stays until its
  finalizers are gone. A patch changes what differs between its two objects: the finalizers of a pod, the labels of a node, the spec
  and labels of a NodeModulesConfig or its status.
\<close>

definition reap :: "pod list \<Rightarrow> pod list" where
  "reap ps = filter (\<lambda>p. \<not> (pod_deleting p \<and> pod_finalizers p = [])) ps"

definition edit_pod :: "nsn \<Rightarrow> (pod \<Rightarrow> pod) \<Rightarrow> pod list \<Rightarrow> pod list" where
  "edit_pod k f ps = map (\<lambda>p. if pod_nsn p = k then f p else p) ps"

fun apply_call :: "call \<Rightarrow> world \<Rightarrow> world" where
  "apply_call (Create_Pod p) w =
     (if pod_nsn p \<in> pod_nsn ` set (w_pods w) then w
      else w\<lparr>w_pods := w_pods w @ [p\<lparr>pod_phase := PodPending, pod_deleting := False\<rparr>]\<rparr>)"
| "apply_call (Patch_Pod p q) w =
     w\<lparr>w_pods := reap (edit_pod (pod_nsn p) (\<lambda>x. x\<lparr>pod_finalizers := pod_finalizers q\<rparr>) (w_pods w))\<rparr>"
| "apply_call (Delete_Pod p) w = w\<lparr>w_pods := reap (edit_pod (pod_nsn p) (\<lambda>x. x\<lparr>pod_deleting := True\<rparr>) (w_pods w))\<rparr>"
| "apply_call (Patch_NMC n n') w = 
     w\<lparr>w_nmc := (w_nmc w)\<lparr>nmc_spec := nmc_spec n', nmc_labels := nmc_labels n'\<rparr>\<rparr>"
| "apply_call (Patch_NMC_Status n n') w = w\<lparr>w_nmc := (w_nmc w)\<lparr>nmc_status := nmc_status n'\<rparr>\<rparr>"
| "apply_call (Patch_Node n n') w = w\<lparr>w_node := (w_node w)\<lparr>node_labels := node_labels n'\<rparr>\<rparr>"
| "apply_call _ w = w"

definition after :: "call list \<Rightarrow> world \<Rightarrow> world" where
  "after cs w = fold apply_call cs w"

definition selected :: "pod_query \<Rightarrow> pod \<Rightarrow> bool" where
  "selected q p \<longleftrightarrow> (pq_namespace q = None \<or> pq_namespace q = Some (pod_namespace p)) \<and>
     list_all (\<lambda>(k, v). map_of (pod_labels p) k = Some v) (pq_match q) \<and> list_all (has_key (pod_labels p)) (pq_has q) \<and>
     (pq_node q = None \<or> pq_node q = Some (pod_node_name p)) \<and>
     list_all (\<lambda>(k, vs). \<exists>v\<in>set vs. map_of (pod_labels p) k = Some v) (pq_in q)"

text \<open>The server that starts in a state of the cluster and remembers what it was asked to write.\<close>

definition live :: "world \<Rightarrow> server" where
  "live w = empty_cluster
     \<lparr>s_node := (\<lambda>h n. if n = node_name (w_node w) then Inr (w_node (after h w)) else Inl (ApiErr NotFound)),
      s_nmc := (\<lambda>h n. if n = nmc_name (w_nmc w) then Inr (w_nmc (after h w)) else Inl (ApiErr NotFound)),
      s_pod := (\<lambda>h k. case find (\<lambda>p. pod_nsn p = k) (w_pods (after h w)) of Some p \<Rightarrow> Inr p | None \<Rightarrow> Inl (ApiErr NotFound)),
      s_pods := (\<lambda>h q. Inr (filter (selected q) (w_pods (after h w)))),
      s_write := (\<lambda>h c. case c of Create_Pod p \<Rightarrow>
          if pod_nsn p \<in> pod_nsn ` set (w_pods (after h w)) then Some (ApiErr AlreadyExists) else None | _ \<Rightarrow> None)\<rparr>"

text \<open>The requests of one pass of the reconciler over the node.\<close>

definition pass_calls :: "worker_mgr \<Rightarrow> library \<Rightarrow> world \<Rightarrow> call list" where
  "pass_calls wpm lib w = calls (NMC_Reconcile wpm lib (live w) (nmc_name (w_nmc w))) []"

section \<open>The steps\<close>

definition finished :: "pod \<Rightarrow> bool" where
  "finished p \<longleftrightarrow> pod_phase p = PodSucceeded"

text \<open>
  A loader pod that succeeds has loaded its module, an unloader pod has removed it; a pod that fails has changed nothing. A pod whose
  finalizers the operator removed is about to go and does not succeed any more. A reboot empties the kernel and gives the node
  a boot id that no status knows; here no finished pod waits to be recorded at that moment.
\<close>

inductive lifecycle :: "worker_mgr \<Rightarrow> library \<Rightarrow> world \<Rightarrow> world \<Rightarrow> bool" for wpm lib where
  reconcile: "prefix cs (pass_calls wpm lib w) \<Longrightarrow> lifecycle wpm lib w (after cs w)"
| configure: "lifecycle wpm lib w (w\<lparr>w_nmc := (w_nmc w)\<lparr>nmc_spec := sp, nmc_labels := ls\<rparr>\<rparr>)"
| run_pod: "p \<in> set (w_pods w) \<Longrightarrow> pod_phase p \<notin> {PodSucceeded, PodFailed} \<Longrightarrow> ph \<noteq> PodSucceeded \<Longrightarrow>
    lifecycle wpm lib w (w\<lparr>w_pods := edit_pod (pod_nsn p) (\<lambda>x. x\<lparr>pod_phase := ph, pod_container_statuses := cs\<rparr>) (w_pods w)\<rparr>)"
| load_done: "p \<in> set (w_pods w) \<Longrightarrow> pod_phase p \<notin> {PodSucceeded, PodFailed} \<Longrightarrow> pod_finalizers p \<noteq> [] \<Longrightarrow> \<not> IsUnloaderPod (Some p) \<Longrightarrow>
    lifecycle wpm lib w (w\<lparr>w_pods := edit_pod (pod_nsn p) (\<lambda>x. x\<lparr>pod_phase := PodSucceeded\<rparr>) (w_pods w),
       w_loaded := insert (pod_module p) (w_loaded w)\<rparr>)"
| unload_done: "p \<in> set (w_pods w) \<Longrightarrow> pod_phase p \<notin> {PodSucceeded, PodFailed} \<Longrightarrow> pod_finalizers p \<noteq> [] \<Longrightarrow> IsUnloaderPod (Some p) \<Longrightarrow>
    lifecycle wpm lib w (w\<lparr>w_pods := edit_pod (pod_nsn p) (\<lambda>x. x\<lparr>pod_phase := PodSucceeded\<rparr>) (w_pods w),
       w_loaded := w_loaded w - {pod_module p}\<rparr>)"
| evict: "lifecycle wpm lib w (apply_call (Delete_Pod p) w)"
| node_change: "node_name nd = node_name (w_node w) \<Longrightarrow> node_boot_id nd = node_boot_id (w_node w) \<Longrightarrow>
    lifecycle wpm lib w (w\<lparr>w_node := nd\<rparr>)"
| reboot: "b \<notin> nst_boot_id ` set (nmc_status (w_nmc w)) \<Longrightarrow> list_all (\<lambda>p. \<not> finished p) (w_pods w) \<Longrightarrow>
    lifecycle wpm lib w (w\<lparr>w_node := (w_node w)\<lparr>node_boot_id := b\<rparr>, w_loaded := {}\<rparr>)"

section \<open>The invariant\<close>

text \<open>A module has a current status when its entry was recorded since the node booted.\<close>

definition recorded :: "string \<Rightarrow> node_module_status list \<Rightarrow> nsn \<Rightarrow> bool" where
  "recorded boot sts k \<longleftrightarrow> map_option nst_boot_id (find_status sts k) = Some boot"

lemma recorded_iff: "recorded boot sts k \<longleftrightarrow> (\<exists>st. find_status sts k = Some st \<and> nst_boot_id st = boot)"
  by (auto simp: recorded_def)

abbreviation current :: "world \<Rightarrow> nsn \<Rightarrow> bool" where
  "current w \<equiv> recorded (node_boot_id (w_node w)) (nmc_status (w_nmc w))"

text \<open>The worker pods belong to the node, are named after their module and are not confused with each other.\<close>

definition own_pod :: "string \<Rightarrow> pod \<Rightarrow> bool" where
  "own_pod node p \<longleftrightarrow> pod_node_name p = node \<and> has_key (pod_labels p) actionLabelKey \<and>
     pod_name p = WorkerPodName node (label_of (pod_labels p) ModuleNameLabel)"

definition world_ok :: "world \<Rightarrow> bool" where
  "world_ok w \<longleftrightarrow> nmc_name (w_nmc w) = node_name (w_node w) \<and> list_all (own_pod (node_name (w_node w))) (w_pods w) \<and>
     distinct (map pod_nsn (w_pods w)) \<and> distinct (map status_nsn (nmc_status (w_nmc w)))"

text \<open>A finished pod tells what is loaded, and without one that waits to be recorded the status does.\<close>

definition tells :: "nsn set \<Rightarrow> pod \<Rightarrow> bool" where
  "tells loaded p \<longleftrightarrow> finished p \<longrightarrow> (pod_module p \<in> loaded) = (\<not> IsUnloaderPod (Some p))"

definition pods_truthful :: "world \<Rightarrow> bool" where
  "pods_truthful w \<longleftrightarrow> list_all (tells (w_loaded w)) (w_pods w)"

definition awaited :: "world \<Rightarrow> nsn \<Rightarrow> bool" where
  "awaited w k \<longleftrightarrow> (\<exists>p\<in>set (w_pods w). finished p \<and> pod_finalizers p \<noteq> [] \<and> pod_module p = k)"

definition truthful :: "world \<Rightarrow> bool" where
  "truthful w \<longleftrightarrow> world_ok w \<and> pods_truthful w \<and> (\<forall>k. \<not> awaited w k \<longrightarrow> (k \<in> w_loaded w) = current w k)"

section \<open>Requests that keep the status in step\<close>

lemma after_simps [simp]: "after [] w = w" "after (c # cs) w = after cs (apply_call c w)"
  "after (cs @ ds) w = after ds (after cs w)"
  by (simp_all add: after_def)

lemma recorded_Remove: "recorded b (RemoveModuleStatus sts ns name) k = (k \<noteq> (ns, name) \<and> recorded b sts k)"
  by (cases k) (auto simp: recorded_iff FindModuleStatus_Remove)

lemma set_reap: "p \<in> set (reap ps) \<longleftrightarrow> p \<in> set ps \<and> \<not> (pod_deleting p \<and> pod_finalizers p = [])"
  by (auto simp: reap_def)

lemma set_edit_pod: "q \<in> set (edit_pod k f ps) \<longleftrightarrow> (\<exists>p\<in>set ps. q = (if pod_nsn p = k then f p else p))"
  by (force simp: edit_pod_def)

lemma list_all_edit:
  "list_all P ps \<Longrightarrow> (\<And>p. P (f p) = P p) \<Longrightarrow> list_all P (edit_pod k f ps) \<and> list_all P (reap (edit_pod k f ps))"
  by (auto simp: list_all_iff set_reap set_edit_pod)

lemma distinct_pods:
  assumes "distinct (map pod_nsn ps)" "\<And>p. pod_nsn (f p) = pod_nsn p"
  shows "distinct (map pod_nsn (edit_pod k f ps))" "distinct (map pod_nsn (reap (edit_pod k f ps)))"
proof -
  have "map pod_nsn (edit_pod k f ps) = map pod_nsn ps" using assms(2) by (simp add: edit_pod_def)
  with assms(1) show d: "distinct (map pod_nsn (edit_pod k f ps))" by (simp only:)
  then show "distinct (map pod_nsn (reap (edit_pod k f ps)))" unfolding reap_def by (rule distinct_map_filter)
qed

text \<open>The status agrees with the kernel for every module, whether its pod still exists or not.\<close>

definition in_step :: "world \<Rightarrow> bool" where
  "in_step w \<longleftrightarrow> world_ok w \<and> pods_truthful w \<and> {k. current w k} = w_loaded w"

lemma in_step_truthful: "in_step w \<Longrightarrow> truthful w"
  by (auto simp add: in_step_def truthful_def)

text \<open>Requests that cannot separate them: new worker pods, and status patches that agree on which entries are current.\<close>

definition benign :: "world \<Rightarrow> call \<Rightarrow> bool" where
  "benign w c \<longleftrightarrow> (case c of
     Create_Pod p \<Rightarrow> own_pod (node_name (w_node w)) p
   | Patch_NMC_Status n n' \<Rightarrow> recorded (node_boot_id (w_node w)) (nmc_status n') = current w \<and> distinct (map status_nsn (nmc_status n'))
   | _ \<Rightarrow> True)"

text \<open>What such a request depends on and keeps.\<close>

definition view :: "world \<Rightarrow> string \<times> string \<times> (nsn \<Rightarrow> bool)" where
  "view w = (node_name (w_node w), node_boot_id (w_node w), current w)"

lemma benign_view: "view w = view w' \<Longrightarrow> benign w = benign w'"
  by (rule ext) (auto simp: view_def benign_def split: call.split)

lemma own_pod_edits [simp]:
  "own_pod n (p\<lparr>pod_phase := ph\<rparr>) = own_pod n p" "own_pod n (p\<lparr>pod_deleting := d\<rparr>) = own_pod n p"
  "own_pod n (p\<lparr>pod_finalizers := fs\<rparr>) = own_pod n p" "own_pod n (p\<lparr>pod_container_statuses := cs\<rparr>) = own_pod n p"
  by (simp_all add: own_pod_def)

lemma pod_edits [simp]:
  "IsUnloaderPod (Some (p\<lparr>pod_phase := ph\<rparr>)) = IsUnloaderPod (Some p)"
  "IsUnloaderPod (Some (p\<lparr>pod_deleting := d\<rparr>)) = IsUnloaderPod (Some p)"
  "IsUnloaderPod (Some (p\<lparr>pod_finalizers := fs\<rparr>)) = IsUnloaderPod (Some p)"
  "IsUnloaderPod (Some (p\<lparr>pod_container_statuses := cs\<rparr>)) = IsUnloaderPod (Some p)"
  "finished (p\<lparr>pod_deleting := d\<rparr>) = finished p" "finished (p\<lparr>pod_finalizers := fs\<rparr>) = finished p"
  "finished (p\<lparr>pod_container_statuses := cs\<rparr>) = finished p" "finished (p\<lparr>pod_phase := ph\<rparr>) = (ph = PodSucceeded)"
  by (simp_all add: IsUnloaderPod_def finished_def)

text \<open>An edit of a pod that keeps its identity and its outcome, and the removal of deleted pods.\<close>

lemma in_step_edit:
  assumes w: "in_step w" and f: "\<And>p. pod_nsn (f p) = pod_nsn p" "\<And>n p. own_pod n (f p) = own_pod n p" "\<And>p. pod_labels (f p) = pod_labels p"
    "\<And>p. pod_phase (f p) = pod_phase p"
  shows "in_step (w\<lparr>w_pods := reap (edit_pod k f (w_pods w))\<rparr>)"
proof -
  have "tells (w_loaded w) (f p) = tells (w_loaded w) p" for p
    using f(1) [of p] f(3,4) by (simp add: tells_def finished_def IsUnloaderPod_def)
  then have "pods_truthful (w\<lparr>w_pods := reap (edit_pod k f (w_pods w))\<rparr>)"
    using w by (simp add: in_step_def pods_truthful_def list_all_edit)
  then show ?thesis
    using w f(2) list_all_edit [of "own_pod (node_name (w_node w))"] distinct_pods(2) [of "w_pods w" f k] f(1)
    by (auto simp: in_step_def world_ok_def)
qed

lemma in_step_create:
  assumes "in_step w" "own_pod (node_name (w_node w)) p"
  shows "in_step (apply_call (Create_Pod p) w)"
  using assms by (auto simp: in_step_def world_ok_def pods_truthful_def tells_def)

lemma benign_keeps:
  assumes "in_step w" "benign w c"
  shows "in_step (apply_call c w) \<and> view (apply_call c w) = view w"
proof
  show "in_step (apply_call c w)"
  proof (cases c)
    case (Create_Pod p)
    with assms show ?thesis by (auto simp: benign_def intro!: in_step_create simp del: apply_call.simps)
  next
    case (Patch_Pod p q)
    show ?thesis unfolding Patch_Pod apply_call.simps by (rule in_step_edit [OF assms(1)]) simp_all
  next
    case (Delete_Pod p)
    show ?thesis unfolding Delete_Pod apply_call.simps by (rule in_step_edit [OF assms(1)]) simp_all
  qed (use assms in \<open>simp_all add: in_step_def benign_def world_ok_def pods_truthful_def\<close>)
  show "view (apply_call c w) = view w" using assms(2) by (cases c) (auto simp: benign_def view_def)
qed

lemma benign_run: "in_step w \<Longrightarrow> list_all (benign w) cs \<Longrightarrow> in_step (after cs w) \<and> view (after cs w) = view w"
proof (induction cs arbitrary: w)
  case (Cons c cs)
  then show ?case using benign_keeps [of w c] benign_view [of "apply_call c w" w] by simp
qed simp

section \<open>Recording the outcome of pods\<close>

lemma recorded_same:
  "status_nsn st = k \<Longrightarrow> find_status sts k = Some st0 \<Longrightarrow> nst_boot_id st = nst_boot_id st0 \<Longrightarrow>
     recorded b (SetModuleStatus st sts) = recorded b sts"
  by (rule ext) (auto simp: recorded_iff statuses.get_put_if)

lemma recorded_Set:
  "status_nsn st = k \<Longrightarrow> nst_boot_id st = b \<Longrightarrow> recorded b (SetModuleStatus st sts) k'= (k' = k \<or> recorded b sts k')"
  by (auto simp: recorded_iff statuses.get_put_if)

lemma recorded_write_back:
  assumes "found \<Longrightarrow> \<exists>st0. find_status sts (status_nsn st) = Some st0 \<and> nst_boot_id st0 = nst_boot_id st"
  shows "recorded b (write_back found st sts) = recorded b sts"
proof (cases found)
  case True
  with assms obtain st0 where "find_status sts (status_nsn st) = Some st0" "nst_boot_id st = nst_boot_id st0" by auto
  from recorded_same [OF refl this] True show ?thesis by (simp add: write_back_def)
qed (simp add: write_back_def)

text \<open>A loader that finished is recorded, or there is an error and the status is as current as before.\<close>

lemma sync_loader_recorded:
  assumes "sync_succeeded_loader lib node p (sts, errs, dels) = Inr (sts', errs', dels')"
  shows "(\<exists>e. errs' = errs @ [Some e]) \<and> recorded (node_boot_id node) sts' = recorded (node_boot_id node) sts \<or>
    errs' = errs \<and> recorded (node_boot_id node) sts' = (recorded (node_boot_id node) sts)(pod_module p := True)"
proof -
  let ?b = "node_boot_id node"
  let ?f = "find_status sts (pod_module p) \<noteq> None"
  obtain e1 cfg where u1: "l_UnmarshalStrict_config lib (GetConfigAnnotation (Some p)) (nst_config (status_for sts p)) = (e1, cfg)"
    by fastforce
  let ?s1 = "(status_for sts p)\<lparr>nst_config := cfg\<rparr>"
  obtain e2 tols where u2: "l_UnmarshalStrict_tolerations lib (GetTolerationsAnnotation (Some p))
      (mi_tolerations (nst_item ?s1)) = (e2, tols)" by fastforce
  let ?s2 = "?s1\<lparr>nst_item := (nst_item ?s1)\<lparr>mi_tolerations := tols\<rparr>\<rparr>"
  let ?sts1 = "write_back ?f ?s1 sts"
  let ?sts2 = "write_back ?f ?s2 ?sts1"
  have n: "status_nsn ?s1 = pod_module p" "status_nsn ?s2 = pod_module p" using status_for_nsn [of sts p] by simp_all
  have f1: "recorded ?b ?sts1 = recorded ?b sts"
    by (rule recorded_write_back) (unfold n, auto simp: status_for_def)
  have get1: "find_status ?sts1 (pod_module p) = (if ?f then Some ?s1 else None)"
    using n statuses.get_put [of ?s1 sts] by (auto simp: write_back_def)
  have f2: "recorded ?b ?sts2 = recorded ?b ?sts1"
    by (rule recorded_write_back) (unfold n get1, auto)
  from assms u1 u2 consider e where "errs' = errs @ [Some e]" "sts' = ?sts1" | e where "errs' = errs @ [Some e]" "sts' = ?sts2"
    | s3 where "errs' = errs" "sts' = SetModuleStatus s3 ?sts2" "status_nsn s3 = pod_module p" "nst_boot_id s3 = ?b"
    using n unfolding sync_succeeded_loader_def Let_def by (auto split: option.splits list.splits)
  then show ?thesis
  proof cases
    case 3
    have "recorded ?b sts' = (recorded ?b sts)(pod_module p := True)"
      unfolding 3(2) by (rule ext) (use recorded_Set [OF 3(3,4)] f1 f2 in auto)
    with 3(1) show ?thesis by blast
  qed (use f1 f2 in auto)
qed

text \<open>What a list of pods says about the modules: the outcomes of the finished ones.\<close>

definition outcome_of :: "pod list \<Rightarrow> nsn \<Rightarrow> bool \<Rightarrow> bool" where
  "outcome_of ps k v \<longleftrightarrow> (\<exists>p\<in>set ps. finished p \<and> pod_module p = k \<and> v = (\<not> IsUnloaderPod (Some p)))"

lemma sync_pod_recorded:
  assumes "sync_pod lib specs node p (sts, errs, dels) = Inr (sts', errs', dels')"
  shows "(\<exists>es. errs' = errs @ es \<and> None \<notin> set es) \<and>
    (if finished p \<and> errs' = errs then recorded (node_boot_id node) sts' =
          (recorded (node_boot_id node) sts)(pod_module p := \<not> IsUnloaderPod (Some p))
     else recorded (node_boot_id node) sts' = recorded (node_boot_id node) sts)"
proof (cases "finished p")
  case False
  with assms show ?thesis by (cases "pod_phase p") (auto simp: sync_pod_def Let_def finished_def split: if_splits)
next
  case fin: True
  show ?thesis
  proof (cases "IsUnloaderPod (Some p)")
    case True
    with fin assms show ?thesis by (auto simp: sync_pod_def Let_def finished_def recorded_Remove fun_eq_iff)
  next
    case False
    with fin assms have "sync_succeeded_loader lib node p (sts, errs, dels) = Inr (sts', errs', dels')"
      by (simp add: sync_pod_def Let_def finished_def)
    from sync_loader_recorded [OF this] False fin show ?thesis by auto
  qed
qed

lemma sync_pods_recorded:
  assumes "sync_pods lib specs node ps (sts, errs, dels) = Inr (sts', errs', dels')"
  shows "(\<exists>es. errs' = errs @ es \<and> None \<notin> set es) \<and>
    (recorded (node_boot_id node) sts' k = recorded (node_boot_id node) sts k \<or> outcome_of ps k (recorded (node_boot_id node) sts' k)) \<and>
    (errs' = errs \<longrightarrow> list_ex (\<lambda>p. finished p \<and> pod_module p = k) ps \<longrightarrow> outcome_of ps k (recorded (node_boot_id node) sts' k))"
  using assms
proof (induction ps arbitrary: sts errs dels)
  case (Cons p ps)
  from Cons.prems obtain sts1 errs1 dels1 where
    a: "sync_pod lib specs node p (sts, errs, dels) = Inr (sts1, errs1, dels1)"
    and b: "sync_pods lib specs node ps (sts1, errs1, dels1) = Inr (sts', errs', dels')"
    by (auto simp: and_then_Inr)
  note A = sync_pod_recorded [OF a] and B = Cons.IH [OF b]
  have "errs1 = errs" if "errs' = errs" using that A B by auto
  moreover have "outcome_of (p # ps) k v" if "outcome_of ps k v" for v using that by (auto simp: outcome_of_def)
  moreover have "outcome_of (p # ps) k (\<not> IsUnloaderPod (Some p))" if "finished p" "pod_module p = k"
    using that by (auto simp: outcome_of_def)
  ultimately show ?case using A B by (auto split: if_splits)
qed simp

section \<open>The requests of a pass\<close>

lemma template_own:
  "LoaderPodTemplate wpm lib n spec = Inr p \<Longrightarrow> own_pod (nmc_name n) p"
  "UnloaderPodTemplate wpm lib n st = Inr p \<Longrightarrow> own_pod (nmc_name n) p"
proof -
  have "own_pod (nmc_name n) p" if "worker_pod_for lib n item cfg act p" "act \<noteq> []" for item cfg act
    using that by (auto simp: own_pod_def worker_pod_for_def has_key_def lookup_default_def split: option.splits)
  then show "LoaderPodTemplate wpm lib n spec = Inr p \<Longrightarrow> own_pod (nmc_name n) p"
    "UnloaderPodTemplate wpm lib n st = Inr p \<Longrightarrow> own_pod (nmc_name n) p"
    using loader_template [of wpm lib n spec p] unloader_template [of wpm lib n st p] by (auto simp: worker_consts)
qed

lemma emits_ProcessModuleSpec:
  "nmc_name n = node_name (w_node w) \<Longrightarrow> emits (benign w) (ProcessModuleSpec wpm lib srv n spec status node)"
  unfolding ProcessModuleSpec_def by (intro emits_intros) (auto simp: benign_def dest!: template_own)

lemma find_distinct: "distinct (map f xs) \<Longrightarrow> x \<in> set xs \<Longrightarrow> find (\<lambda>y. f y = f x) xs = Some x"
  by (induction xs) (auto simp: rev_image_eqI)

text \<open>A copy of the NodeModulesConfig with the same current entries.\<close>

definition same_current :: "world \<Rightarrow> nmc \<Rightarrow> bool" where
  "same_current w n \<longleftrightarrow> nmc_name n = node_name (w_node w) \<and>
     recorded (node_boot_id (w_node w)) (nmc_status n) = current w \<and> distinct (map status_nsn (nmc_status n))"

lemma does_ProcessUnconfigured:
  assumes n: "same_current w n" and node: "node_boot_id node = node_boot_id (w_node w)"
    and st: "nst_boot_id st \<noteq> node_boot_id node \<Longrightarrow> \<not> current w (status_nsn st)"
  shows "does (benign w) (\<lambda>r. same_current w (snd r)) (ProcessUnconfiguredModuleStatus wpm lib srv n st node)"
  unfolding does_def
proof (intro conjI allI)
  let ?n = "n\<lparr>nmc_status := RemoveModuleStatus (nmc_status n) (mi_namespace (nst_item st)) (mi_name (nst_item st))\<rparr>"
  have rb: "same_current w ?n" if "IsNodeRebooted node (nst_boot_id st)"
  proof -
    have "nst_boot_id st \<noteq> node_boot_id node" using that by (auto simp: IsNodeRebooted_def list_ex_iff)
    with n node st show ?thesis
      by (auto simp: same_current_def recorded_Remove fun_eq_iff distinct_RemoveModuleStatus)
  qed
  with n show "emits (benign w) (ProcessUnconfiguredModuleStatus wpm lib srv n st node)"
    unfolding ProcessUnconfiguredModuleStatus_def Let_def
    by (intro emits_intros) (auto simp: benign_def same_current_def dest!: template_own)
  show "same_current w (snd (fst (run_state (ProcessUnconfiguredModuleStatus wpm lib srv n st node) h)))" for h
    using n rb by (simp add: ProcessUnconfiguredModuleStatus_def Let_def do_write_def case_prod_beta)
qed

lemma does_process_orphans:
  assumes "same_current w n" "node_boot_id node = node_boot_id (w_node w)"
    and "\<And>k st. (k, st) \<in> set rest \<Longrightarrow> nst_boot_id st \<noteq> node_boot_id node \<Longrightarrow> \<not> current w (status_nsn st)"
  shows "does (benign w) (\<lambda>r. same_current w (fst r)) (process_orphans wpm lib srv n node rest errs)"
  using assms(1,3)
proof (induction rest arbitrary: n errs)
  case Nil
  then show ?case by (auto intro: does_return)
next
  case (Cons a rest)
  obtain k st where a: "a = (k, st)" by force
  have "does (benign w) (\<lambda>r. same_current w (snd r)) (ProcessUnconfiguredModuleStatus wpm lib srv n st node)"
    using Cons.prems assms(2) by (intro does_ProcessUnconfigured) (auto simp: a)
  then show ?case unfolding a process_orphans.simps
    by (rule does_bind) (rule Cons.IH, use Cons.prems in auto)
qed

lemma emits_process_specs:
  "nmc_name n = node_name (w_node w) \<Longrightarrow> emits (benign w) (process_specs wpm lib srv n node ms sm errs rm)"
  by (induction ms arbitrary: sm errs rm) (auto simp: Let_def intro!: emits_intros emits_ProcessModuleSpec)

lemma emits_gc_worker_pod: "emits (benign w) (gc_worker_pod srv p)"
  unfolding gc_worker_pod_def Let_def by (intro emits_intros) (auto simp: benign_def)

lemma emits_reconcile_tail: "emits (benign w) (reconcile_tail srv n node errs)"
  unfolding reconcile_tail_def GarbageCollectInUseLabels_def GarbageCollectWorkerPods_def UpdateNodeLabels_def RecordEvents_def Let_def
  by (intro emits_intros emits_gc_worker_pod) (auto simp: benign_def)

text \<open>The pass after the status was synchronised.\<close>

definition after_sync :: "worker_mgr \<Rightarrow> library \<Rightarrow> server \<Rightarrow> node \<Rightarrow> nmc \<Rightarrow> (go_err option) cio" where
  "after_sync wpm lib srv node n = do {
     q \<leftarrow> process_specs wpm lib srv n node (nmc_spec n) (status_map n) [] [];
     o' \<leftarrow> process_orphans wpm lib srv n node (fst q) (fst (snd q));
     if snd (snd q) \<noteq> [] then do {
       u \<leftarrow> UpdateLabels srv node [] (snd (snd q));
       State_Monad.return (errorf_opt ''could remove node labels'' (fst u))
     } else reconcile_tail srv (fst o') node (snd o')
   }"

lemma status_map_entries: "(k, st) \<in> set (status_map n) \<Longrightarrow> st \<in> set (nmc_status n)"
proof -
  have "(k, st) \<in> set (fold (\<lambda>st m. AList.update (module_key (status_nsn st)) st m) sts l) \<Longrightarrow> st \<in> set sts \<or> (k, st) \<in> set l" for sts l
  proof (induction sts arbitrary: l)
    case (Cons s sts)
    have "(k, st) \<in> set (AList.update a s l) \<Longrightarrow> st = s \<or> (k, st) \<in> set l" for a l by (induction l) (auto split: if_splits)
    with Cons show ?case by fastforce
  qed simp
  then show "(k, st) \<in> set (status_map n) \<Longrightarrow> st \<in> set (nmc_status n)" by (force simp: status_map_def)
qed

lemma process_specs_statuses:
  "x \<in> set (fst (fst (run_state (process_specs wpm lib srv n node ms sm errs rm) h))) \<Longrightarrow> x \<in> set sm"
proof (induction ms arbitrary: sm errs rm h)
  case (Cons m ms)
  have "x \<in> set (AList.delete (module_key (spec_nsn m)) sm)"
    using Cons by (fastforce simp: Let_def case_prod_beta split: if_splits)
  then show ?case by (simp add: AList.delete_eq)
qed simp

lemma does_process_specs:
  "nmc_name n = node_name (w_node w) \<Longrightarrow>
     does (benign w) (\<lambda>q. set (fst q) \<subseteq> set sm) (process_specs wpm lib srv n node ms sm errs rm)"
  using emits_process_specs process_specs_statuses by (fastforce simp: does_def)

lemma emits_after_sync:
  assumes n: "same_current w n" and node: "node_boot_id node = node_boot_id (w_node w)"
  shows "emits (benign w) (after_sync wpm lib srv node n)"
proof -
  have st: "\<not> current w (status_nsn st)" if "st \<in> set (nmc_status n)" "nst_boot_id st \<noteq> node_boot_id node" for st
  proof -
    have "find_status (nmc_status n) (status_nsn st) = Some st"
      using that(1) n find_distinct [of status_nsn] by (simp add: same_current_def FindModuleStatus_find)
    with that(2) n node show ?thesis by (auto simp: same_current_def recorded_iff dest!: fun_cong [of _ _ "status_nsn st"])
  qed
  have "does (benign w) (\<lambda>_. True) (after_sync wpm lib srv node n)"
    unfolding after_sync_def
  proof (rule does_bind [OF does_process_specs])
    show "nmc_name n = node_name (w_node w)" using n by (simp add: same_current_def)
    fix q :: "(string \<times> node_module_status) list \<times> go_err option list \<times> labels"
    assume "set (fst q) \<subseteq> set (status_map n)"
    then have "does (benign w) (\<lambda>r. same_current w (fst r)) (process_orphans wpm lib srv n node (fst q) (fst (snd q)))"
      using st status_map_entries by (intro does_process_orphans [OF n node]) blast
    then show "does (benign w) (\<lambda>_. True) (process_orphans wpm lib srv n node (fst q) (fst (snd q)) \<bind> (\<lambda>o'.
        if snd (snd q) \<noteq> [] then UpdateLabels srv node [] (snd (snd q)) \<bind>
           (\<lambda>u. State_Monad.return (errorf_opt ''could remove node labels'' (fst u)))
        else reconcile_tail srv (fst o') node (snd o')))"
      by (rule does_bind) (auto simp: benign_def intro!: emits_does emits_intros emits_reconcile_tail)
  qed
  then show ?thesis by (rule does_emits)
qed

section \<open>A pass keeps the invariant at every request\<close>

lemma live_simps:
  "s_pods (live w) h q = Inr (filter (selected q) (w_pods (after h w)))"
  "s_nmc (live w) h n = (if n = nmc_name (w_nmc w) then Inr (w_nmc (after h w)) else Inl (ApiErr NotFound))"
  "s_node (live w) h n = (if n = node_name (w_node w) then Inr (w_node (after h w)) else Inl (ApiErr NotFound))"
  by (simp_all add: live_def)

lemma own_pods_listed:
  "world_ok w \<Longrightarrow> filter (selected (worker_pods_query (w_nmc w))) (w_pods w) = w_pods w"
  by (rule filter_True) (auto simp: world_ok_def list_all_iff own_pod_def selected_def worker_pods_query_def)

text \<open>The status patch of the synchronisation, with and without errors.\<close>

lemma status_patch_truthful:
  assumes w: "truthful w" and s: "sync_pods lib specs (w_node w) (w_pods w) (nmc_status (w_nmc w), [], []) = Inr (sts, errs, dels)"
  shows "truthful (w\<lparr>w_nmc := (w_nmc w)\<lparr>nmc_status := sts\<rparr>\<rparr>)"
    and "errs = [] \<Longrightarrow> in_step (w\<lparr>w_nmc := (w_nmc w)\<lparr>nmc_status := sts\<rparr>\<rparr>)"
proof -
  let ?w = "w\<lparr>w_nmc := (w_nmc w)\<lparr>nmc_status := sts\<rparr>\<rparr>"
  have ok: "world_ok ?w" "pods_truthful ?w"
    using w sync_pods_frame [OF s] by (simp_all add: truthful_def world_ok_def pods_truthful_def)
  have out: "v = (k \<in> w_loaded w)" if "outcome_of (w_pods w) k v" for k v
    using that w by (auto simp: outcome_of_def truthful_def pods_truthful_def list_all_iff tells_def)
  have cur: "current ?w k = current w k \<or> current ?w k = (k \<in> w_loaded w)" for k
    using sync_pods_recorded [OF s, of k] out [of k] by auto
  have "awaited ?w = awaited w" by (simp add: awaited_def fun_eq_iff)
  with ok w cur show "truthful ?w" by (auto simp: truthful_def)
  assume e: "errs = []"
  have "current ?w k = (k \<in> w_loaded w)" for k
  proof (cases "awaited w k")
    case True
    then show ?thesis using sync_pods_recorded [OF s, of k] out [of k] e by (auto simp: awaited_def list_ex_iff)
  next
    case False
    then show ?thesis using w cur [of k] by (auto simp: truthful_def simp del: split_paired_All)
  qed
  with ok show "in_step ?w" by (auto simp: in_step_def)
qed

text \<open>
  The requests of a pass: two reads and the list of the pods, then nothing, or the status patch and nothing, or the status patch (when there are
  pods) and requests that keep the status in step.
\<close>

lemma emits_DeletePods: "emits (benign w) (collect_errors (DeletePod srv) dels)"
  by (intro emits_intros) (auto simp: benign_def)

lemma run_NMC_Reconcile:
  assumes "world_ok w"
  shows "let h0 = [Get_NMC (nmc_name (w_nmc w)), Get_Node (nmc_name (w_nmc w))];
             r = run_state (SyncStatus lib (live w) (w_nmc w) (w_node w)) h0 in
    snd (run_state (NMC_Reconcile wpm lib (live w) (nmc_name (w_nmc w))) []) =
      (if fst (fst r) = None then snd (run_state (after_sync wpm lib (live w) (w_node w) (snd (fst r))) (snd r)) else snd r)"
proof -
  have "nmc_name (w_nmc w) = node_name (w_node w)" using assms by (simp add: world_ok_def)
  then show ?thesis
    by (simp add: NMC_Reconcile_def after_sync_def get_nmc_def get_node_def live_simps Let_def case_prod_beta split: option.splits)
qed

definition keeps :: "world \<Rightarrow> call list \<Rightarrow> bool" where
  "keeps w cs \<longleftrightarrow> (\<forall>ds. prefix ds cs \<longrightarrow> truthful (after ds w))"

lemma keeps_simps [simp]: "keeps w [] = truthful w" "keeps w (c # cs) = (truthful w \<and> keeps (apply_call c w) cs)"
  by (auto simp: keeps_def prefix_Cons)

lemma keeps_benign: "in_step w \<Longrightarrow> list_all (benign w) cs \<Longrightarrow> keeps w cs"
proof (induction cs arbitrary: w)
  case (Cons c cs)
  then show ?case using benign_keeps [of w c] benign_view [of "apply_call c w" w] in_step_truthful [of w] by simp
qed (simp add: in_step_truthful)

lemma keeps_append: "keeps w (cs @ ds) = (keeps w cs \<and> keeps (after cs w) ds)"
proof (induction cs arbitrary: w)
  case Nil
  have "keeps w ds \<Longrightarrow> truthful w" by (auto simp: keeps_def dest!: spec [of _ "[]"])
  then show ?case by auto
qed simp

lemma keeps_run:
  assumes "emits (benign (after h w)) m" "in_step (after h w)" "keeps w h"
  shows "keeps w (snd (run_state m h)) \<and> in_step (after (snd (run_state m h)) w) \<and>
    view (after (snd (run_state m h)) w) = view (after h w)"
proof -
  have "list_all (benign (after h w)) (calls m h)" using emits_calls [OF assms(1)] by (auto simp: list_all_iff)
  with assms show ?thesis by (simp add: emits_history [OF assms(1)] keeps_append keeps_benign benign_run)
qed

lemma same_current_self: "world_ok w \<Longrightarrow> same_current w (w_nmc w)"
  by (simp add: world_ok_def same_current_def)

lemma same_current_view: "view w = view w' \<Longrightarrow> same_current w = same_current w'"
proof -
  have "same_current w n = (nmc_name n = fst (view w) \<and> recorded (fst (snd (view w))) (nmc_status n) = snd (snd (view w)) \<and>
      distinct (map status_nsn (nmc_status n)))" for w n by (simp add: view_def same_current_def)
  then show "view w = view w' \<Longrightarrow> same_current w = same_current w'" by (simp add: fun_eq_iff)
qed

text \<open>The synchronisation: the status is in step before the first pod is touched.\<close>

lemma sync_keeps_truthful:
  assumes w: "truthful w" and h: "after h w = w" "keeps w h"
    and r: "run_state (SyncStatus lib (live w) (w_nmc w) (w_node w)) h = ((e, n'), h')"
  shows "keeps w h'" and "e = None \<Longrightarrow> in_step (after h' w) \<and> same_current (after h' w) n' \<and>
    node_boot_id (w_node (after h' w)) = node_boot_id (w_node w)"
proof -
  let ?n = "w_nmc w" and ?srv = "live w" and ?q = "List_Pods (worker_pods_query (w_nmc w))"
  let ?s = "sync_pods lib (map spec_nsn (nmc_spec ?n)) (w_node w) (w_pods w) (nmc_status ?n, [], [])"
  have ok: "world_ok w" using w by (simp add: truthful_def)
  note self = same_current_self [OF ok]
  have l: "s_pods ?srv h (worker_pods_query ?n) = Inr (w_pods w)" using own_pods_listed [OF ok] h(1) by (simp add: live_simps)
  have q: "keeps w (h @ [?q])" "after (h @ [?q]) w = w" using h by (simp_all add: keeps_append w)
  have "keeps w h' \<and> (e = None \<longrightarrow> in_step (after h' w) \<and> same_current (after h' w) n' \<and>
      node_boot_id (w_node (after h' w)) = node_boot_id (w_node w))"
  proof (cases "w_pods w = [] \<or> (\<exists>e. ?s = Inl e)")
    case True
    have "in_step w" if "w_pods w = []" using w that by (auto simp: truthful_def in_step_def awaited_def simp del: split_paired_All)
    moreover have "h' = h @ [?q]" "e = None \<Longrightarrow> n' = ?n" "e = None \<Longrightarrow> w_pods w = []"
      using r True by (auto simp: SyncStatus_run l Let_def split: if_splits)
    ultimately show ?thesis using q self by auto
  next
    case False
    then obtain sts errs dels where s: "?s = Inr (sts, errs, dels)" by (cases ?s) auto
    let ?n' = "?n\<lparr>nmc_status := sts\<rparr>"
    let ?c = "Patch_NMC_Status ?n ?n'"
    let ?h2 = "h @ [?q, ?c]"
    note T = status_patch_truthful [OF w s]
    have h2: "keeps w ?h2" "after ?h2 w = w\<lparr>w_nmc := ?n'\<rparr>" using h w T(1) by (simp_all add: keeps_append)
    have wr: "s_write ?srv (h @ [?q]) ?c = None" by (simp add: live_def)
    show ?thesis
    proof (cases "errs = []")
      case False': False
      with sync_pods_recorded [OF s] have "\<not> (\<forall>e\<in>set errs. e = None)" by (cases errs) auto
      then have "h' = ?h2" "e \<noteq> None"
        using r False s by (auto simp: SyncStatus_run l Let_def wr join_errors_None split: option.splits)
      with h2 show ?thesis by auto
    next
      case True
      let ?d = "run_state (collect_errors (DeletePod ?srv) dels) ?h2"
      have je: "join_errors [None] = None" by simp
      have "h' = snd ?d" "n' = ?n'"
        using r False s True by (auto simp: SyncStatus_run l Let_def wr je simp del: join_errors_None collect_errors.simps)
      moreover have "keeps w (snd ?d)" "in_step (after (snd ?d) w)" and v: "view (after (snd ?d) w) = view (w\<lparr>w_nmc := ?n'\<rparr>)"
        using keeps_run [of ?h2 w, unfolded h2(2), OF emits_DeletePods T(2) [OF True] h2(1), of ?srv dels] by blast+
      moreover have "same_current (after (snd ?d) w) ?n'"
        unfolding same_current_view [OF v] using same_current_self [of "w\<lparr>w_nmc := ?n'\<rparr>"] T(1) by (simp add: truthful_def)
      ultimately show ?thesis by (simp add: view_def)
    qed
  qed
  then show "keeps w h'" and "e = None \<Longrightarrow> in_step (after h' w) \<and> same_current (after h' w) n' \<and>
    node_boot_id (w_node (after h' w)) = node_boot_id (w_node w)" by simp_all
qed

lemma pass_keeps_truthful:
  assumes "truthful w"
  shows "keeps w (pass_calls wpm lib w)"
proof -
  have ok: "world_ok w" using assms by (simp add: truthful_def)
  let ?n = "w_nmc w" and ?h0 = "[Get_NMC (nmc_name (w_nmc w)), Get_Node (nmc_name (w_nmc w))]"
  obtain e n' h' where r: "run_state (SyncStatus lib (live w) ?n (w_node w)) ?h0 = ((e, n'), h')" by (metis prod.collapse)
  note S = sync_keeps_truthful [OF assms _ _ r]
  have "keeps w (snd (run_state (NMC_Reconcile wpm lib (live w) (nmc_name ?n)) []))"
  proof (cases e)
    case None
    with S assms have "in_step (after h' w) \<and> same_current (after h' w) n' \<and> node_boot_id (w_node (after h' w)) = node_boot_id (w_node w)"
      "keeps w h'" by simp_all
    then have "keeps w (snd (run_state (after_sync wpm lib (live w) (w_node w) n') h'))"
      using keeps_run [of h' w "after_sync wpm lib (live w) (w_node w) n'"] emits_after_sync by simp
    then show ?thesis using run_NMC_Reconcile [OF ok, of lib wpm] r None by (simp add: Let_def)
  next
    case (Some x)
    then show ?thesis using run_NMC_Reconcile [OF ok, of lib wpm] r S(1) assms by (simp add: Let_def)
  qed
  then show ?thesis by (simp add: pass_calls_def calls_def)
qed

section \<open>The other steps\<close>

lemma pod_unique:
  assumes "world_ok w" "p \<in> set (w_pods w)" "q \<in> set (w_pods w)" "pod_nsn p = pod_nsn q \<or> pod_module p = pod_module q"
  shows "p = q"
proof -
  have "pod_nsn p = pod_nsn q"
    using assms by (auto simp: world_ok_def list_all_iff own_pod_def)
  with assms(1-3) show ?thesis by (auto simp: world_ok_def distinct_map dest: inj_onD)
qed

lemma set_edit_one:
  assumes "world_ok w" "p \<in> set (w_pods w)"
  shows "set (edit_pod (pod_nsn p) f (w_pods w)) = insert (f p) (set (w_pods w) - {p})"
proof -
  have "pod_nsn q = pod_nsn p \<longleftrightarrow> q = p" if "q \<in> set (w_pods w)" for q
    using pod_unique [OF assms(1) that assms(2)] by blast
  then have "set (edit_pod (pod_nsn p) f (w_pods w)) = (\<lambda>q. if q = p then f q else q) ` set (w_pods w)"
    unfolding edit_pod_def set_map by (intro image_cong) auto
  also have "\<dots> = insert (f p) (set (w_pods w) - {p})" using assms(2) by auto
  finally show ?thesis .
qed

text \<open>The kubelet moves one pod on: the kernel may change, but only for the module of the pod.\<close>

lemma truthful_edit:
  assumes w: "truthful w" and p: "p \<in> set (w_pods w)" "\<not> finished p"
    and f: "\<And>x. pod_nsn (f x) = pod_nsn x" "\<And>n x. own_pod n (f x) = own_pod n x" "pod_module (f p) = pod_module p"
    and l: "\<And>k. k \<noteq> pod_module p \<Longrightarrow> (k \<in> l) = (k \<in> w_loaded w)"
    and fin: "finished (f p) \<Longrightarrow> pod_finalizers (f p) \<noteq> [] \<and> tells l (f p)" "\<not> finished (f p) \<Longrightarrow> l = w_loaded w"
  shows "truthful (w\<lparr>w_pods := edit_pod (pod_nsn p) f (w_pods w), w_loaded := l\<rparr>)"
proof -
  let ?w = "w\<lparr>w_pods := edit_pod (pod_nsn p) f (w_pods w), w_loaded := l\<rparr>"
  have ok: "world_ok w" using w by (simp add: truthful_def)
  note ps = set_edit_one [OF ok p(1), of f]
  have "world_ok ?w"
    using ok f distinct_pods(1) [of "w_pods w" f "pod_nsn p"] list_all_edit [of "own_pod (node_name (w_node w))" "w_pods w" f]
    by (simp add: world_ok_def)
  moreover have "pods_truthful ?w"
    unfolding pods_truthful_def list_all_iff
  proof
    fix q assume "q \<in> set (w_pods ?w)"
    then consider "q = f p" | "q \<in> set (w_pods w)" "pod_module q \<noteq> pod_module p"
      using ps pod_unique [OF ok _ p(1)] by auto
    then show "tells (w_loaded ?w) q"
      using fin l w by cases (auto simp: tells_def truthful_def pods_truthful_def list_all_iff)
  qed
  moreover have "(k \<in> l) = current w k" if "\<not> awaited ?w k" for k
  proof (cases "k = pod_module p \<and> finished (f p)")
    case False
    have "awaited w k \<Longrightarrow> awaited ?w k" using ps p(2) by (auto simp: awaited_def)
    with that w have "(k \<in> w_loaded w) = current w k" by (auto simp: truthful_def simp del: split_paired_All)
    with False l [of k] fin(2) show ?thesis by auto
  qed (use that fin(1) f(3) ps in \<open>auto simp: awaited_def\<close>)
  ultimately show ?thesis by (simp add: truthful_def)
qed

lemma truthful_evict:
  assumes "truthful w"
  shows "truthful (apply_call (Delete_Pod p) w)"
proof -
  let ?f = "\<lambda>x. x\<lparr>pod_deleting := True\<rparr>"
  let ?ps = "reap (edit_pod (pod_nsn p) ?f (w_pods w))" let ?w = "w\<lparr>w_pods := ?ps\<rparr>"
  have "tells l (?f x) = tells l x" for l x by (simp add: tells_def)
  then have "pods_truthful ?w" using assms list_all_edit [of "tells (w_loaded w)" "w_pods w" ?f]
    by (simp add: truthful_def pods_truthful_def)
  moreover have "world_ok ?w"
    using assms distinct_pods(2) [of "w_pods w" ?f "pod_nsn p"] list_all_edit [of "own_pod (node_name (w_node w))" "w_pods w" ?f]
    by (simp add: world_ok_def truthful_def)
  moreover have "awaited ?w k" if "awaited w k" for k
  proof -
    from that obtain q where q: "q \<in> set (w_pods w)" "finished q" "pod_finalizers q \<noteq> []" "pod_module q = k"
      by (auto simp: awaited_def)
    let ?q = "if pod_nsn q = pod_nsn p then ?f q else q"
    have "?q \<in> set ?ps" using q by (auto simp: set_reap set_edit_pod)
    with q(2-4) show ?thesis unfolding awaited_def by (intro bexI [of _ ?q]) auto
  qed
  ultimately show ?thesis using assms by (auto simp: truthful_def simp del: split_paired_All)
qed

lemma lifecycle_keeps_truthful: "lifecycle wpm lib w w' \<Longrightarrow> truthful w \<Longrightarrow> truthful w'"
proof (induction rule: lifecycle.induct)
  case (reconcile cs w)
  then show ?case using pass_keeps_truthful [of w wpm lib] by (simp add: keeps_def)
next
  case (configure w sp ls)
  then show ?case by (simp add: truthful_def world_ok_def pods_truthful_def awaited_def)
next
  case (run_pod p w ph cs)
  then show ?case using truthful_edit [of w p "\<lambda>x. x\<lparr>pod_phase := ph, pod_container_statuses := cs\<rparr>" "w_loaded w"]
    by (auto simp: finished_def)
next
  case (load_done p w)
  then show ?case by (intro truthful_edit) (auto simp: finished_def tells_def)
next
  case (unload_done p w)
  then show ?case by (intro truthful_edit) (auto simp: finished_def tells_def)
next
  case (evict w p)
  then show ?case by (rule truthful_evict)
next
  case (node_change nd w)
  then show ?case by (simp add: truthful_def world_ok_def pods_truthful_def awaited_def)
next
  case (reboot b w)
  have "\<not> recorded b (nmc_status (w_nmc w)) k" for k
    using reboot.hyps(1) by (auto simp: recorded_iff FindModuleStatus_find find_Some_iff dest: nth_mem)
  with reboot show ?case
    by (auto simp: truthful_def world_ok_def pods_truthful_def tells_def list_all_iff)
qed

interpretation status_truth: step_invariant "lifecycle wpm lib" truthful
  by unfold_locales (rule lifecycle_keeps_truthful)

lemma reachable_truthful:
  assumes "(lifecycle wpm lib)\<^sup>*\<^sup>* w0 w" "world_ok w0" "w_pods w0 = []" "{k. current w0 k} = w_loaded w0"
  shows "truthful w"
proof (rule status_truth.reachable [OF assms(1)])
  show "truthful w0" using assms(2-4) by (intro in_step_truthful) (simp add: in_step_def pods_truthful_def)
qed

section \<open>Properties\<close>

text \<open>
  The node of the examples with nothing loaded, the loader pod of its module once it has succeeded, and the same after a reboot.
\<close>

definition idle_world :: world where
  "idle_world = \<lparr>w_node = node1, w_nmc = fresh_nmc, w_pods = [], w_loaded = {}\<rparr>"

definition rebooted_world :: world where
  "rebooted_world = \<lparr>w_node = node1\<lparr>node_boot_id := ''b2''\<rparr>, w_nmc = fresh_nmc, w_pods = [loader1\<lparr>pod_phase := PodSucceeded\<rparr>], w_loaded = {}\<rparr>"

text \<open>The first worker pod succeeds.\<close>

definition kubelet :: "world \<Rightarrow> world" where
  "kubelet w = (case w_pods w of [] \<Rightarrow> w
     | p # _ \<Rightarrow> w\<lparr>w_pods := edit_pod (pod_nsn p) (\<lambda>x. x\<lparr>pod_phase := PodSucceeded\<rparr>) (w_pods w),
         w_loaded := (if IsUnloaderPod (Some p) then w_loaded w - {pod_module p} else insert (pod_module p) (w_loaded w))\<rparr>)"



text \<open>
  A reboot between the success of a loader pod and its recording is missed: the boot id recorded is that of the node at the time of the
  synchronisation, so the module counts as loaded, although the reboot removed it, and later passes ask for no change.
\<close>

lemma reboot_before_recording_is_missed:
  "let w = after (pass_calls sample_mgr plain_library rebooted_world) rebooted_world in
   current w (''kmm'', ''mymod'') \<and> (''kmm'', ''mymod'') \<notin> w_loaded w \<and> w_pods w = [] \<and>
   list_all is_read (pass_calls sample_mgr plain_library w)"
  by code_simp

end
