(* ===== verification/Worker_Convergence.thy ===== *)
theory Worker_Convergence
  imports Worker_Lifecycle
begin

text \<open>
  Progress of the loop of operator and kubelet on the cluster of \<open>Worker_Lifecycle\<close>: after two passes of the reconciler a new module is loaded,
  recorded and announced on the node, and a module that is no longer wanted is unloaded and forgotten; later passes leave the node alone.
\<close>

section \<open>The end of a pass\<close>

text \<open>Requests that touch neither pods nor the status nor the wanted modules.\<close>

definition calm :: "node_module_spec list \<Rightarrow> call \<Rightarrow> bool" where
  "calm sp c \<longleftrightarrow> (case c of Create_Pod _ \<Rightarrow> False | Patch_Pod _ _ \<Rightarrow> False | Delete_Pod _ \<Rightarrow> False | Patch_NMC_Status _ _ \<Rightarrow> False
     | Patch_NMC n n' \<Rightarrow> nmc_spec n' = sp | _ \<Rightarrow> True)"

definition but_labels :: "world \<Rightarrow> world \<Rightarrow> bool" where
  "but_labels w w' \<longleftrightarrow> (\<exists>ls ms. w' = w\<lparr>w_nmc := (w_nmc w)\<lparr>nmc_labels := ls\<rparr>, w_node := (w_node w)\<lparr>node_labels := ms\<rparr>\<rparr>)"

lemma but_labels_refl [simp]: "but_labels w w"
proof -
  have "w = w\<lparr>w_nmc := (w_nmc w)\<lparr>nmc_labels := nmc_labels (w_nmc w)\<rparr>, w_node := (w_node w)\<lparr>node_labels := node_labels (w_node w)\<rparr>\<rparr>" by simp
  then show ?thesis unfolding but_labels_def by blast
qed

lemma but_labels_trans: "but_labels u v \<Longrightarrow> but_labels v w \<Longrightarrow> but_labels u w"
  by (auto simp: but_labels_def) (rule exI, rule exI, rule refl)

lemma calm_step: "calm (nmc_spec (w_nmc w)) c \<Longrightarrow> but_labels w (apply_call c w)"
proof (cases c)
  case (Patch_NMC n n')
  assume "calm (nmc_spec (w_nmc w)) c"
  then show ?thesis unfolding Patch_NMC
    by (auto simp: calm_def but_labels_def) (rule exI, rule exI [of _ "node_labels (w_node w)"], simp)
next
  case (Patch_Node n n')
  show ?thesis unfolding Patch_Node but_labels_def
    by (rule exI [of _ "nmc_labels (w_nmc w)"], rule exI) simp
qed (simp_all add: calm_def)

lemma but_labels_frame:
  assumes "but_labels w w'"
  shows "w_pods w' = w_pods w" "nmc_spec (w_nmc w') = nmc_spec (w_nmc w)" "nmc_status (w_nmc w') = nmc_status (w_nmc w)"
    "nmc_name (w_nmc w') = nmc_name (w_nmc w)" "node_name (w_node w') = node_name (w_node w)"
    "node_boot_id (w_node w') = node_boot_id (w_node w)" "node_taints (w_node w') = node_taints (w_node w)"
    "w_loaded w' = w_loaded w"
  using assms by (auto simp: but_labels_def)

lemma calm_run: "list_all (calm (nmc_spec (w_nmc w))) cs \<Longrightarrow> but_labels w (after cs w)"
proof (induction cs arbitrary: w)
  case (Cons c cs)
  from Cons.prems have "but_labels w (apply_call c w)" by (auto intro: calm_step)
  moreover have "but_labels (apply_call c w) (after cs (apply_call c w))"
    using Cons.prems by (intro Cons.IH) (simp add: but_labels_frame [OF calculation])
  ultimately show ?case by (auto intro: but_labels_trans)
qed simp

lemma emits_gc_in_use: "emits (calm (nmc_spec n)) (GarbageCollectInUseLabels srv n)"
  unfolding GarbageCollectInUseLabels_def Let_def by (intro emits_intros) (auto simp: calm_def)

lemma emits_UpdateNodeLabels: "emits (calm sp) (UpdateNodeLabels srv n node)"
  unfolding UpdateNodeLabels_def Let_def by (intro emits_intros) (auto simp: calm_def)

lemma emits_RecordEvents: "emits (calm sp) (RecordEvents node a b)"
  unfolding RecordEvents_def by (intro emits_intros) (auto simp: calm_def)

lemma gc_in_use_copy: "\<exists>ls. snd (fst (run_state (GarbageCollectInUseLabels srv n) h)) = n\<lparr>nmc_labels := ls\<rparr>"
proof -
  have "\<exists>ls. n = n\<lparr>nmc_labels := ls\<rparr>" by (rule exI [of _ "nmc_labels n"]) simp
  then show ?thesis
    by (auto simp: GarbageCollectInUseLabels_def run_ListWorkerPodsOnNode do_write_def Let_def split: sum.split)
qed

text \<open>The collection of worker pods spares the pods of modules that have an entry.\<close>

definition known :: "nmc \<Rightarrow> pod \<Rightarrow> bool" where
  "known n p \<longleftrightarrow> label_of (pod_labels p) ModuleNameLabel \<in>
     set (map (mi_name \<circ> nms_item) (nmc_spec n) @ map (mi_name \<circ> nst_item) (nmc_status n))"

lemma gc_worker_pods_known:
  assumes "s_pods srv h (worker_pods_query n) = Inr pods" "list_all (known n) pods"
  shows "snd (run_state (GarbageCollectWorkerPods srv n) h) = h @ [List_Pods (worker_pods_query n)]"
proof -
  have "filter (\<lambda>p. label_of (pod_labels p) ModuleNameLabel \<notin>
      set (map (mi_name \<circ> nms_item) (nmc_spec n) @ map (mi_name \<circ> nst_item) (nmc_status n))) pods = []"
    using assms(2) by (auto simp: filter_empty_conv list_all_iff known_def)
  then show ?thesis
    using assms(1) by (simp add: GarbageCollectWorkerPods_def run_ListWorkerPodsOnNode worker_pods_query_def Let_def del: set_append)
qed

lemma UpdateLabels_world:
  assumes "w_node (after h w) = node"
  shows "map_of (node_labels (w_node (after (snd (run_state (UpdateLabels srv node add rm) h)) w))) =
    map_of (node_labels (snd (fst (run_state (UpdateLabels srv node add rm) h))))"
  using assms by (simp add: UpdateLabels_def do_write_def Let_def maps_Equal_iff)

lemma UpdateNodeLabels_history:
  "snd (run_state (UpdateNodeLabels srv n node) h) =
     snd (run_state (UpdateLabels srv node
       (loaded_labels (getStatusVersions n) (addEqualLabels (getNodeKernelModuleReadyLabels node)
          (getSpecLabelsAndTheirConfigs n) (getStatusLabelsAndTheirConfigs n)))
       (unloaded_labels (getDeprecatedKernelModuleReadyLabels node)
          (removeOrphanedLabels (getNodeKernelModuleReadyLabels node)
             (getSpecLabelsAndTheirConfigs n) (getStatusLabelsAndTheirConfigs n)))) h)"
  by (simp add: UpdateNodeLabels_def Let_def case_prod_beta)

lemma UpdateNodeLabels_world:
  assumes "w_node (after h w) = node"
  shows "map_of (node_labels (w_node (after (snd (run_state (UpdateNodeLabels srv n node) h)) w))) =
    map_of (node_labels (snd (fst (run_state (UpdateNodeLabels srv n node) h))))"
  unfolding UpdateNodeLabels_history node_after_UpdateNodeLabels by (rule UpdateLabels_world [OF assms])

lemma run_reconcile_tail:
  "snd (run_state (reconcile_tail srv n node errs) h) =
    (let r1 = run_state (GarbageCollectInUseLabels srv n) h;
         r2 = run_state (GarbageCollectWorkerPods srv (snd (fst r1))) (snd r1);
         r3 = run_state (UpdateNodeLabels srv (snd (fst r1)) node) (snd r2)
     in case fst (fst r3) of Inl _ \<Rightarrow> snd r3 | Inr lu \<Rightarrow> snd (run_state (RecordEvents (snd (fst r3)) (fst lu) (snd lu)) (snd r3)))"
  by (simp add: reconcile_tail_def Let_def case_prod_beta split: sum.split)

text \<open>The end of a pass changes labels only, and the ready labels of the node are those of \<open>UpdateNodeLabels\<close>.\<close>

definition off_node :: "call \<Rightarrow> bool" where
  "off_node c \<longleftrightarrow> (case c of Patch_Node _ _ \<Rightarrow> False | _ \<Rightarrow> True)"

lemma off_node_run: "list_all off_node cs \<Longrightarrow> w_node (after cs w) = w_node w"
proof (induction cs arbitrary: w)
  case (Cons c cs)
  have "w_node (apply_call c w) = w_node w" using Cons.prems by (cases c) (simp_all add: off_node_def)
  with Cons show ?case by simp
qed simp

lemma emits_off_node:
  assumes "emits off_node m"
  shows "w_node (after (snd (run_state m h)) w) = w_node (after h w)"
proof -
  have "list_all off_node (calls m h)" using emits_calls [OF assms] by (auto simp: list_all_iff)
  then show ?thesis by (simp add: emits_history [OF assms] off_node_run)
qed

lemma off_node_parts:
  "emits off_node (RecordEvents nd a b)" "emits off_node (GarbageCollectInUseLabels srv n)"
  unfolding RecordEvents_def GarbageCollectInUseLabels_def Let_def by (intro emits_intros; auto simp: off_node_def)+

lemma calm_calls:
  assumes "emits (calm sp) m"
  shows "\<exists>cs. snd (run_state m h) = h @ cs \<and> list_all (calm sp) cs"
  using emits_history [OF assms] emits_calls [OF assms, of _ h] by (auto simp: list_all_iff)

lemma tail_world:
  assumes n: "w_nmc (after h w) = n" "w_node (after h w) = node" and known: "list_all (known n) (w_pods (after h w))"
  shows "\<exists>cs ls h3. snd (run_state (reconcile_tail (live w) n node errs) h) = h @ cs \<and> list_all (calm (nmc_spec n)) cs \<and>
    map_of (node_labels (w_node (after (h @ cs) w))) =
      map_of (node_labels (snd (fst (run_state (UpdateNodeLabels (live w) (n\<lparr>nmc_labels := ls\<rparr>) node) h3))))"
proof -
  let ?sp = "nmc_spec n" and ?srv = "live w"
  define r1 where "r1 = run_state (GarbageCollectInUseLabels ?srv n) h"
  obtain ls where ls: "snd (fst r1) = n\<lparr>nmc_labels := ls\<rparr>" using gc_in_use_copy r1_def by blast
  let ?n1 = "n\<lparr>nmc_labels := ls\<rparr>"
  obtain c1 where c1: "snd r1 = h @ c1" "list_all (calm ?sp) c1" using calm_calls [OF emits_gc_in_use] r1_def by blast
  have node1: "w_node (after (h @ c1) w) = node"
    using emits_off_node [OF off_node_parts(2), of ?srv n h w] c1(1) n(2) by (simp add: r1_def)
  let ?l = "List_Pods (worker_pods_query ?n1)"
  have "w_pods (after (h @ c1) w) = w_pods (after h w)"
    using but_labels_frame(1) [OF calm_run [of "after h w" c1]] c1(2) n(1) by simp
  with known have k: "list_all (known ?n1) (filter (selected (worker_pods_query ?n1)) (w_pods (after (h @ c1) w)))"
    by (simp add: list_all_iff known_def)
  have r2: "snd (run_state (GarbageCollectWorkerPods ?srv ?n1) (h @ c1)) = h @ c1 @ [?l]"
    using gc_worker_pods_known [of ?srv "h @ c1" ?n1] k by (simp add: live_simps)
  define r3 where "r3 = run_state (UpdateNodeLabels ?srv ?n1 node) (h @ c1 @ [?l])"
  obtain c3 where c3: "snd r3 = (h @ c1 @ [?l]) @ c3" "list_all (calm ?sp) c3"
    using calm_calls [OF emits_UpdateNodeLabels] r3_def by blast
  have m: "map_of (node_labels (w_node (after (snd r3) w))) = map_of (node_labels (snd (fst r3)))"
    unfolding r3_def by (rule UpdateNodeLabels_world) (use node1 in simp)
  have "\<exists>c4. snd (run_state (reconcile_tail ?srv n node errs) h) = snd r3 @ c4 \<and> list_all (calm ?sp) c4 \<and>
      w_node (after (snd r3 @ c4) w) = w_node (after (snd r3) w)"
  proof (cases "fst (fst r3)")
    case (Inl e)
    then show ?thesis using r2 c1(1) by (intro exI [of _ "[]"]) (simp add: run_reconcile_tail Let_def r1_def [symmetric] ls r3_def [symmetric])
  next
    case (Inr lu)
    let ?e = "RecordEvents (snd (fst r3)) (fst lu) (snd lu)"
    obtain c4 where c4: "snd (run_state ?e (snd r3)) = snd r3 @ c4" "list_all (calm ?sp) c4"
      using calm_calls [OF emits_RecordEvents] by blast
    moreover have "snd (run_state (reconcile_tail ?srv n node errs) h) = snd (run_state ?e (snd r3))"
      using r2 c1(1) Inr by (simp add: run_reconcile_tail Let_def r1_def [symmetric] ls r3_def [symmetric])
    ultimately show ?thesis using emits_off_node [OF off_node_parts(1), of "snd (fst r3)" "fst lu" "snd lu" "snd r3" w] by auto
  qed
  then obtain c4 where c4: "snd (run_state (reconcile_tail ?srv n node errs) h) = snd r3 @ c4" "list_all (calm ?sp) c4"
      "w_node (after (snd r3 @ c4) w) = w_node (after (snd r3) w)" by blast
  have "list_all (calm ?sp) (c1 @ [?l] @ c3 @ c4)" using c1 c3 c4 by (simp add: calm_def)
  moreover have "snd (run_state (reconcile_tail ?srv n node errs) h) = h @ (c1 @ [?l] @ c3 @ c4)" using c3 c4 by simp
  moreover have "map_of (node_labels (w_node (after (h @ (c1 @ [?l] @ c3 @ c4)) w))) = map_of (node_labels (snd (fst r3)))"
    using m c3(1) c4(3) by simp
  ultimately show ?thesis unfolding r3_def by blast
qed

section \<open>A node with one module\<close>

definition pass :: "worker_mgr \<Rightarrow> library \<Rightarrow> world \<Rightarrow> world" where
  "pass wpm lib w = after (pass_calls wpm lib w) w"

text \<open>The status of the module and of nothing else.\<close>

definition only_status :: "node_module_spec \<Rightarrow> nmc \<Rightarrow> node_module_status option \<Rightarrow> bool" where
  "only_status spec n s \<longleftrightarrow> nmc_status n = (case s of None \<Rightarrow> [] | Some st \<Rightarrow> [st]) \<and> (\<forall>st. s = Some st \<longrightarrow> status_nsn st = spec_nsn spec)"

lemma only_status_map:
  assumes "only_status spec n s"
  shows "map_of (status_map n) (module_key (spec_nsn spec)) = s" "AList.delete (module_key (spec_nsn spec)) (status_map n) = []"
  using assms by (auto simp: only_status_def status_map_def split: option.splits)

lemma finish_pass:
  assumes spec: "nmc_spec n = [spec]" "only_status spec n s" "IsNodeSchedulable lib node (mi_tolerations (nms_item spec))"
    and h': "snd (run_state (ProcessModuleSpec wpm lib (live w) n spec s node) h) = h'"
    and v: "w_nmc (after h' w) = n" "w_node (after h' w) = node" "list_all (known n) (w_pods (after h' w))"
  shows "\<exists>cs ls h3. snd (run_state (after_sync wpm lib (live w) node n) h) = h' @ cs \<and> list_all (calm [spec]) cs \<and>
    map_of (node_labels (w_node (after (h' @ cs) w))) =
      map_of (node_labels (snd (fst (run_state (UpdateNodeLabels (live w) (n\<lparr>nmc_labels := ls\<rparr>) node) h3))))"
proof -
  have "\<exists>errs. snd (run_state (after_sync wpm lib (live w) node n) h) = snd (run_state (reconcile_tail (live w) n node errs) h')"
    using spec(1,3) h' only_status_map [OF spec(2)] by (simp add: after_sync_def Let_def case_prod_beta) blast
  then show ?thesis using tail_world [OF v] spec(1) by metis
qed

lemma shown_absent: "w_pods (after h w) = [] \<Longrightarrow> worker_pod_shown (live w) h n item = Inl (ApiErr NotFound)"
  by (simp add: worker_pod_shown_def live_def)

abbreviation pass_reads :: "nmc \<Rightarrow> call list" where
  "pass_reads n \<equiv> [Get_NMC (nmc_name n), Get_Node (nmc_name n), List_Pods (worker_pods_query n)]"

text \<open>A pass over a node without worker pods synchronises nothing.\<close>

lemma pass_without_pods:
  assumes "world_ok w" "w_pods w = []"
  shows "pass_calls wpm lib w = snd (run_state (after_sync wpm lib (live w) (w_node w) (w_nmc w)) (pass_reads (w_nmc w)))"
proof -
  have "s_pods (live w) [Get_NMC (nmc_name (w_nmc w)), Get_Node (nmc_name (w_nmc w))] (worker_pods_query (w_nmc w)) = Inr []"
    using assms(2) by (simp add: live_simps)
  then show ?thesis using run_NMC_Reconcile [OF assms(1), of lib wpm] by (simp add: pass_calls_def calls_def SyncStatus_run Let_def)
qed

text \<open>A pass over a node without worker pods, from the end of the processing of its module.\<close>

lemma idle_pass:
  assumes w: "world_ok w" "w_pods w = []" and spec: "nmc_spec (w_nmc w) = [spec]" "only_status spec (w_nmc w) s"
      "IsNodeSchedulable lib (w_node w) (mi_tolerations (nms_item spec))"
    and h': "snd (run_state (ProcessModuleSpec wpm lib (live w) (w_nmc w) spec s (w_node w)) (pass_reads (w_nmc w))) = h'"
    and v: "w_nmc (after h' w) = w_nmc w" "w_node (after h' w) = w_node w" "list_all (known (w_nmc w)) (w_pods (after h' w))"
  shows "\<exists>cs. pass_calls wpm lib w = h' @ cs \<and> list_all (calm [spec]) cs"
proof -
  show ?thesis unfolding pass_without_pods [OF w] using finish_pass [OF spec h' v] by auto
qed

text \<open>The first pass creates the loader pod.\<close>

definition fresh_pod :: "pod \<Rightarrow> pod" where
  "fresh_pod p = p\<lparr>pod_phase := PodPending, pod_deleting := False\<rparr>"

lemma loading_pass:
  assumes w: "world_ok w" "w_pods w = []" and spec: "nmc_spec (w_nmc w) = [spec]" "nmc_status (w_nmc w) = []"
      "IsNodeSchedulable lib (w_node w) (mi_tolerations (nms_item spec))"
    and p: "LoaderPodTemplate wpm lib (w_nmc w) spec = Inr p"
  shows "but_labels (w\<lparr>w_pods := [fresh_pod p]\<rparr>) (pass wpm lib w)"
proof -
  let ?n = "w_nmc w" let ?g = "Get_Pod (mi_namespace (nms_item spec), WorkerPodName (nmc_name ?n) (mi_name (nms_item spec)))"
  let ?h = "pass_reads ?n @ [?g, Create_Pod p]"
  have a: "worker_pod_shown (live w) (pass_reads ?n) ?n (nms_item spec) = Inl (ApiErr NotFound)" "IsNotFound (ApiErr NotFound)"
    using w(2) by (auto intro: shown_absent simp: IsNotFound_def)
  have run: "snd (run_state (ProcessModuleSpec wpm lib (live w) ?n spec None (w_node w)) (pass_reads ?n)) = ?h"
    using ProcessModuleSpec_absent [OF a, of wpm lib None "w_node w"] by (simp add: Let_def run_CreateLoaderPod [OF p])
  have v: "after ?h w = w\<lparr>w_pods := [fresh_pod p]\<rparr>" using w(2) by (simp add: fresh_pod_def)
  have "known ?n (fresh_pod p)" using loader_template [OF p] spec(1) by (simp add: known_def fresh_pod_def worker_pod_for_def)
  then obtain cs where "pass_calls wpm lib w = ?h @ cs" "list_all (calm [spec]) cs"
    using idle_pass [OF w spec(1) _ spec(3) run] v spec(2) by (auto simp: only_status_def)
  then show ?thesis using calm_run [of "after ?h w" cs] v spec(1) by (simp add: pass_def)
qed

text \<open>The pass that finds the loader finished records it, removes the pod and labels the node.\<close>

definition loaded_pod :: "library \<Rightarrow> node_module_spec \<Rightarrow> pod \<Rightarrow> bool" where
  "loaded_pod lib spec q \<longleftrightarrow> finished q \<and> \<not> IsUnloaderPod (Some q) \<and> pod_module q = spec_nsn spec \<and> \<not> pod_deleting q \<and>
     pod_finalizers q = [NodeModulesConfigFinalizer] \<and> pod_pull_secrets q \<noteq> Some [] \<and>
     l_UnmarshalStrict_config lib (GetConfigAnnotation (Some q)) empty_config = (None, nms_config spec) \<and>
     fst (l_UnmarshalStrict_tolerations lib (GetTolerationsAnnotation (Some q)) []) = None"

definition status_of :: "node_module_spec \<Rightarrow> node \<Rightarrow> node_module_status \<Rightarrow> bool" where
  "status_of spec node st \<longleftrightarrow> status_nsn st = spec_nsn spec \<and> nst_config st = nms_config spec \<and> nst_boot_id st = node_boot_id node"

lemma sync_loaded_pod:
  assumes "loaded_pod lib spec q"
  shows "\<exists>st. sync_pods lib specs node [q] ([], [], []) = Inr ([st], [], [q]) \<and> status_of spec node st"
proof -
  from assms obtain ts where "l_UnmarshalStrict_tolerations lib (GetTolerationsAnnotation (Some q)) [] = (None, ts)"
    by (metis loaded_pod_def prod.collapse)
  with assms show ?thesis
    by (auto simp: loaded_pod_def finished_def sync_pod_def sync_succeeded_loader_def status_for_def empty_item_def
        write_back_def SetModuleStatus_def status_of_def Let_def split: option.splits list.splits)
qed

lemma status_settled: "status_of spec node st \<Longrightarrow> settled spec (Some st) node"
  by (simp add: status_of_def settled_def)

lemma settled_processing:
  assumes "settled spec (Some st) node" "w_pods (after h w) = []"
  shows "snd (run_state (ProcessModuleSpec wpm lib (live w) n spec (Some st) node) h) =
    h @ [Get_Pod (mi_namespace (nms_item spec), WorkerPodName (nmc_name n) (mi_name (nms_item spec)))]"
  using ProcessModuleSpec_absent [OF shown_absent [OF assms(2)], where status = "Some st" and node = node and n = n and spec = spec] assms(1)
  by (simp add: settled_def Let_def IsNotFound_def)

text \<open>A pass that finds one finished pod records it and removes the pod before it goes on.\<close>

definition released :: "pod \<Rightarrow> bool" where
  "released q \<longleftrightarrow> \<not> pod_deleting q \<and> pod_finalizers q = [NodeModulesConfigFinalizer]"

abbreviation sync_requests :: "nmc \<Rightarrow> nmc \<Rightarrow> pod \<Rightarrow> call list" where
  "sync_requests n n' q \<equiv> pass_reads n @
     [Patch_NMC_Status n n', Patch_Pod q (without_nmc_finalizer q), Delete_Pod (without_nmc_finalizer q)]"

lemma pass_with_finished_pod:
  assumes w: "world_ok w" "w_pods w = [q]" and q: "released q"
    and s: "sync_pods lib (map spec_nsn (nmc_spec (w_nmc w))) (w_node w) [q] (nmc_status (w_nmc w), [], []) = Inr (sts, [], [q])"
  shows "let n' = (w_nmc w)\<lparr>nmc_status := sts\<rparr>; h = sync_requests (w_nmc w) n' q in
    after h w = w\<lparr>w_pods := [], w_nmc := n'\<rparr> \<and> pass_calls wpm lib w = snd (run_state (after_sync wpm lib (live w) (w_node w) n') h)"
proof -
  let ?n = "w_nmc w" and ?srv = "live w" and ?q' = "without_nmc_finalizer q"
  let ?n' = "?n\<lparr>nmc_status := sts\<rparr>"
  have q': "pod_nsn ?q' = pod_nsn q" "pod_finalizers ?q' = []" "\<not> pod_deleting q"
    using q by (simp_all add: without_nmc_finalizer_def released_def RemoveFinalizer_def)
  have "after (sync_requests ?n ?n' q) w = w\<lparr>w_pods := [], w_nmc := ?n'\<rparr>" using w(2) q' by (simp add: edit_pod_def reap_def)
  moreover have l: "s_pods ?srv h (worker_pods_query ?n) = Inr [q]" if "after h w = w" for h
    using own_pods_listed [OF w(1)] w(2) that by (simp add: live_simps)
  have "run_state (DeletePod ?srv q) h = (None, h @ [Patch_Pod q ?q', Delete_Pod ?q'])" for h
    using q'(3) by (simp add: DeletePod_run Let_def live_def IgnoreNotFound_def)
  moreover have "s_write ?srv h (Patch_NMC_Status a b) = None" for h a b by (simp add: live_def)
  moreover have "join_errors [None] = None" by simp
  ultimately have "run_state (SyncStatus lib ?srv ?n (w_node w)) [Get_NMC (nmc_name ?n), Get_Node (nmc_name ?n)] =
      ((None, ?n'), sync_requests ?n ?n' q)"
    using s l by (simp add: SyncStatus_run Let_def del: join_errors_None)
  then have "pass_calls wpm lib w = snd (run_state (after_sync wpm lib ?srv (w_node w) ?n') (sync_requests ?n ?n' q))"
    using run_NMC_Reconcile [OF w(1), of lib wpm] by (simp add: pass_calls_def calls_def Let_def)
  with \<open>after (sync_requests ?n ?n' q) w = w\<lparr>w_pods := [], w_nmc := ?n'\<rparr>\<close> show ?thesis by (simp add: Let_def)
qed

lemma recording_pass:
  assumes w: "world_ok w" "w_pods w = [q]" and spec: "nmc_spec (w_nmc w) = [spec]" "nmc_status (w_nmc w) = []"
      "IsNodeSchedulable lib (w_node w) (mi_tolerations (nms_item spec))"
    and q: "loaded_pod lib spec q" and name: "ready_nsn (mi_namespace (nms_item spec)) (mi_name (nms_item spec))"
  shows "\<exists>st. status_of spec (w_node w) st \<and>
    but_labels (w\<lparr>w_pods := [], w_nmc := (w_nmc w)\<lparr>nmc_status := [st]\<rparr>\<rparr>) (pass wpm lib w) \<and>
    has_key (node_labels (w_node (pass wpm lib w))) (GetKernelModuleReadyNodeLabel (mi_namespace (nms_item spec)) (mi_name (nms_item spec)))"
proof -
  let ?n = "w_nmc w" and ?srv = "live w"
  have rel: "released q" using q by (simp add: loaded_pod_def released_def)
  obtain st where st: "sync_pods lib (map spec_nsn (nmc_spec ?n)) (w_node w) [q] (nmc_status ?n, [], []) = Inr ([st], [], [q])"
    "status_of spec (w_node w) st"
    unfolding spec(2) using sync_loaded_pod [OF q, of "map spec_nsn (nmc_spec ?n)" "w_node w"] by blast
  let ?n' = "?n\<lparr>nmc_status := [st]\<rparr>" let ?v = "w\<lparr>w_pods := [], w_nmc := ?n'\<rparr>"
  let ?h2 = "sync_requests ?n ?n' q"
  let ?g = "Get_Pod (mi_namespace (nms_item spec), WorkerPodName (nmc_name ?n') (mi_name (nms_item spec)))"
  note sync = pass_with_finished_pod [OF w rel st(1), of wpm, unfolded Let_def]
  then have v: "after ?h2 w = ?v" by (rule conjunct1)
  have run: "snd (run_state (ProcessModuleSpec wpm lib ?srv ?n' spec (Some st) (w_node w)) ?h2) = ?h2 @ [?g]"
    by (rule settled_processing [OF status_settled [OF st(2)]]) (use v in simp)
  have vg: "w_nmc (after (?h2 @ [?g]) w) = ?n'" "w_node (after (?h2 @ [?g]) w) = w_node w" "list_all (known ?n') (w_pods (after (?h2 @ [?g]) w))"
    "nmc_spec ?n' = [spec]" "only_status spec ?n' (Some st)"
    using v spec(1) st(2) by (simp_all add: only_status_def status_of_def)
  obtain cs ls h3 where cs: "snd (run_state (after_sync wpm lib ?srv (w_node w) ?n') ?h2) = (?h2 @ [?g]) @ cs" "list_all (calm [spec]) cs"
    "map_of (node_labels (w_node (after ((?h2 @ [?g]) @ cs) w))) =
       map_of (node_labels (snd (fst (run_state (UpdateNodeLabels ?srv (?n'\<lparr>nmc_labels := ls\<rparr>) (w_node w)) h3))))"
    using finish_pass [OF vg(4,5) spec(3) run vg(1-3)] by blast
  have world: "pass wpm lib w = after cs ?v" "pass wpm lib w = after ((?h2 @ [?g]) @ cs) w"
    using sync cs(1) v by (simp_all add: pass_def)
  have "but_labels ?v (pass wpm lib w)" using calm_run [of ?v cs] cs(2) spec(1) world(1) by simp
  moreover have "has_key (node_labels (w_node (pass wpm lib w))) (GetKernelModuleReadyNodeLabel (mi_namespace (nms_item spec)) (mi_name (nms_item spec)))"
  proof -
    let ?m = "?n'\<lparr>nmc_labels := ls\<rparr>"
    have wf: "nmc_wf ?m" and sp: "\<forall>m\<in>set (nmc_spec ?m). valid_nsn (mi_namespace (nms_item m)) (mi_name (nms_item m))"
      using spec(1) name by (simp_all add: nmc_wf_def ready_nsn_def)
    show ?thesis
      using ready_label_after_update [OF wf name sp, of ?srv "w_node w" h3] cs(3) world(2) spec(1) st(2)
      by (auto simp: has_key_def GetModuleSpecEntry_find FindModuleStatus_find status_of_def)
  qed
  ultimately show ?thesis using st(2) by blast
qed

text \<open>Once settled, a pass only looks after labels.\<close>

lemma settled_pass:
  assumes w: "world_ok w" "w_pods w = []" and spec: "nmc_spec (w_nmc w) = [spec]" "nmc_status (w_nmc w) = [st]" "status_of spec (w_node w) st"
      "IsNodeSchedulable lib (w_node w) (mi_tolerations (nms_item spec))"
  shows "list_all (calm [spec]) (pass_calls wpm lib w)"
proof -
  let ?n = "w_nmc w" let ?g = "Get_Pod (mi_namespace (nms_item spec), WorkerPodName (nmc_name ?n) (mi_name (nms_item spec)))"
  let ?h = "pass_reads ?n @ [?g]"
  have run: "snd (run_state (ProcessModuleSpec wpm lib (live w) ?n spec (Some st) (w_node w)) (pass_reads ?n)) = ?h"
    by (rule settled_processing [OF status_settled [OF spec(3)]]) (use w(2) in simp)
  have "only_status spec ?n (Some st)" using spec(2,3) by (simp add: only_status_def status_of_def)
  then obtain cs where "pass_calls wpm lib w = ?h @ cs" "list_all (calm [spec]) cs"
    using idle_pass [OF w spec(1) _ spec(4) run] w(2) by auto
  then show ?thesis by (simp add: calm_def)
qed

lemma schedulable_taints: "node_taints a = node_taints b \<Longrightarrow> IsNodeSchedulable lib a = IsNodeSchedulable lib b"
  by (rule ext) (simp add: IsNodeSchedulable_def)

section \<open>A module that is no longer wanted\<close>

lemma finish_orphan_pass:
  assumes spec: "nmc_spec n = []" "nmc_status n = [st]"
    and r: "run_state (ProcessUnconfiguredModuleStatus wpm lib (live w) n st node) h = ((e, n), h')"
    and v: "w_nmc (after h' w) = n" "w_node (after h' w) = node" "list_all (known n) (w_pods (after h' w))"
  shows "\<exists>cs ls h3. snd (run_state (after_sync wpm lib (live w) node n) h) = h' @ cs \<and> list_all (calm []) cs \<and>
    map_of (node_labels (w_node (after (h' @ cs) w))) =
      map_of (node_labels (snd (fst (run_state (UpdateNodeLabels (live w) (n\<lparr>nmc_labels := ls\<rparr>) node) h3))))"
proof -
  have "\<exists>errs. snd (run_state (after_sync wpm lib (live w) node n) h) = snd (run_state (reconcile_tail (live w) n node errs) h')"
    using spec r by (simp add: after_sync_def status_map_def Let_def case_prod_beta) blast
  then show ?thesis using tail_world [OF v] spec(1) by metis
qed

lemma finish_empty_pass:
  assumes spec: "nmc_spec n = []" "nmc_status n = []"
    and v: "w_nmc (after h w) = n" "w_node (after h w) = node" "w_pods (after h w) = []"
  shows "\<exists>cs ls h3. snd (run_state (after_sync wpm lib (live w) node n) h) = h @ cs \<and> list_all (calm []) cs \<and>
    map_of (node_labels (w_node (after (h @ cs) w))) =
      map_of (node_labels (snd (fst (run_state (UpdateNodeLabels (live w) (n\<lparr>nmc_labels := ls\<rparr>) node) h3))))"
proof -
  have "\<exists>errs. snd (run_state (after_sync wpm lib (live w) node n) h) = snd (run_state (reconcile_tail (live w) n node errs) h)"
    using spec by (simp add: after_sync_def status_map_def Let_def case_prod_beta) blast
  then show ?thesis using tail_world [OF v(1,2)] v(3) spec(1) by (metis list.pred_inject(1))
qed

lemma unloading_pass:
  assumes w: "world_ok w" "w_pods w = []" and spec: "nmc_spec (w_nmc w) = []" "nmc_status (w_nmc w) = [st]"
      "nst_boot_id st = node_boot_id (w_node w)"
    and p: "UnloaderPodTemplate wpm lib (w_nmc w) st = Inr p"
  shows "but_labels (w\<lparr>w_pods := [fresh_pod p]\<rparr>) (pass wpm lib w)"
proof -
  let ?n = "w_nmc w" let ?g = "Get_Pod (mi_namespace (nst_item st), WorkerPodName (nmc_name ?n) (mi_name (nst_item st)))"
  let ?h = "pass_reads ?n @ [?g, Create_Pod p]"
  have r: "s_pod (live w) (pass_reads ?n) k = Inl (ApiErr NotFound)" for k using w(2) by (simp add: live_def)
  have run: "\<exists>e. run_state (ProcessUnconfiguredModuleStatus wpm lib (live w) ?n st (w_node w)) (pass_reads ?n) = ((e, ?n), ?h)"
    using r spec(3) run_CreateUnloaderPod [OF p]
    by (simp add: ProcessUnconfiguredModuleStatus_def run_GetWorkerPod IsNotFound_def Let_def case_prod_beta)
  have v: "after ?h w = w\<lparr>w_pods := [fresh_pod p]\<rparr>" using w(2) by (simp add: fresh_pod_def)
  have "known ?n (fresh_pod p)" using unloader_template [OF p] spec(2) by (simp add: known_def fresh_pod_def worker_pod_for_def)
  then have v': "w_nmc (after ?h w) = ?n" "w_node (after ?h w) = w_node w" "list_all (known ?n) (w_pods (after ?h w))"
    using v by simp_all
  obtain cs where "pass_calls wpm lib w = ?h @ cs" "list_all (calm []) cs"
    using run finish_orphan_pass [OF spec(1,2) _ v'] pass_without_pods [OF w] by metis
  then show ?thesis using calm_run [of "after ?h w" cs] v spec(1) by (simp add: pass_def)
qed

lemma forgetting_pass:
  assumes w: "world_ok w" "w_pods w = [q]" and spec: "nmc_spec (w_nmc w) = []" "nmc_status (w_nmc w) = [st]"
    and q: "released q" "finished q" "IsUnloaderPod (Some q)" "pod_module q = status_nsn st"
    and name: "ready_nsn (mi_namespace (nst_item st)) (mi_name (nst_item st))"
  shows "but_labels (w\<lparr>w_pods := [], w_nmc := (w_nmc w)\<lparr>nmc_status := []\<rparr>\<rparr>) (pass wpm lib w) \<and>
    \<not> has_key (node_labels (w_node (pass wpm lib w))) (GetKernelModuleReadyNodeLabel (mi_namespace (nst_item st)) (mi_name (nst_item st)))"
proof -
  let ?n = "w_nmc w" and ?srv = "live w"
  let ?n' = "?n\<lparr>nmc_status := []\<rparr>" let ?v = "w\<lparr>w_pods := [], w_nmc := ?n'\<rparr>" let ?h = "sync_requests ?n ?n' q"
  have "sync_pods lib (map spec_nsn (nmc_spec ?n)) (w_node w) [q] (nmc_status ?n, [], []) = Inr ([], [], [q])"
    using q(2-4) spec(2) by (simp add: sync_pod_def finished_def RemoveModuleStatus_def Let_def)
  note sync = pass_with_finished_pod [OF w q(1) this, of wpm, unfolded Let_def]
  then have v: "after ?h w = ?v" by (rule conjunct1)
  then have vs: "w_nmc (after ?h w) = ?n'" "w_node (after ?h w) = w_node w" "w_pods (after ?h w) = []" by simp_all
  have e: "nmc_spec ?n' = []" "nmc_status ?n' = []" using spec(1) by simp_all
  obtain cs ls h3 where cs: "snd (run_state (after_sync wpm lib ?srv (w_node w) ?n') ?h) = ?h @ cs" "list_all (calm []) cs"
    "map_of (node_labels (w_node (after (?h @ cs) w))) =
       map_of (node_labels (snd (fst (run_state (UpdateNodeLabels ?srv (?n'\<lparr>nmc_labels := ls\<rparr>) (w_node w)) h3))))"
    using finish_empty_pass [OF e vs] by blast
  have world: "pass wpm lib w = after cs ?v" "pass wpm lib w = after (?h @ cs) w" using sync cs(1) v by (simp_all add: pass_def)
  have "but_labels ?v (pass wpm lib w)" using calm_run [of ?v cs] cs(2) spec(1) world(1) by simp
  moreover have "\<not> has_key (node_labels (w_node (pass wpm lib w))) (GetKernelModuleReadyNodeLabel (mi_namespace (nst_item st)) (mi_name (nst_item st)))"
    using ready_label_after_update [of "?n'\<lparr>nmc_labels := ls\<rparr>", OF _ name, of ?srv "w_node w" h3] cs(3) world(2) spec(1)
    by (simp add: has_key_def GetModuleSpecEntry_find FindModuleStatus_find nmc_wf_def)
  ultimately show ?thesis by blast
qed

lemma empty_pass:
  assumes "world_ok w" "w_pods w = []" "nmc_spec (w_nmc w) = []" "nmc_status (w_nmc w) = []"
  shows "list_all (calm []) (pass_calls wpm lib w)"
proof -
  obtain cs where "pass_calls wpm lib w = pass_reads (w_nmc w) @ cs" "list_all (calm []) cs"
    using finish_empty_pass [OF assms(3,4), of "pass_reads (w_nmc w)" w "w_node w" wpm lib] pass_without_pods [OF assms(1,2), of wpm lib] assms(2) by auto
  then show ?thesis by (simp add: calm_def)
qed

section \<open>Properties\<close>

text \<open>
  C2: a new module is loaded after two passes. Suppose a node has one wanted module, no worker pods and no status, the
  node can be scheduled and the loader pod of the module can be made. Then the pass of the reconciler creates exactly this pod; when the pod succeeded,
  the next pass records a status with the wanted configuration and the boot id of the node, removes the pod and puts the ready label of the module
  on the node; and from then on a pass touches neither pods nor status.
\<close>

theorem new_module_converges:
  assumes w: "world_ok w" "w_pods w = []" "nmc_spec (w_nmc w) = [spec]" "nmc_status (w_nmc w) = []"
      "IsNodeSchedulable lib (w_node w) (mi_tolerations (nms_item spec))"
    and p: "LoaderPodTemplate wpm lib (w_nmc w) spec = Inr p" and name: "ready_nsn (mi_namespace (nms_item spec)) (mi_name (nms_item spec))"
    and yaml: "l_UnmarshalStrict_config lib (GetConfigAnnotation (Some p)) empty_config = (None, nms_config spec)"
    and tols: "fst (l_UnmarshalStrict_tolerations lib (GetTolerationsAnnotation (Some p)) []) = None"
  shows "let w1 = pass wpm lib w; w2 = kubelet w1; w3 = pass wpm lib w2 in
    w_pods w1 = [fresh_pod p] \<and> w_pods w3 = [] \<and> spec_nsn spec \<in> w_loaded w3 \<and>
    (\<exists>st. nmc_status (w_nmc w3) = [st] \<and> status_of spec (w_node w3) st \<and> settled spec (Some st) (w_node w3)) \<and>
    has_key (node_labels (w_node w3)) (GetKernelModuleReadyNodeLabel (mi_namespace (nms_item spec)) (mi_name (nms_item spec))) \<and>
    list_all (calm [spec]) (pass_calls wpm lib w3)"
proof -
  let ?w1 = "pass wpm lib w" let ?w2 = "kubelet ?w1" let ?w3 = "pass wpm lib ?w2" let ?q = "(fresh_pod p)\<lparr>pod_phase := PodSucceeded\<rparr>"
  note L = loading_pass [OF w p]
  note F1 = but_labels_frame [OF L, simplified]
  have tmpl: "worker_pod_for lib (w_nmc w) (nms_item spec) (nms_config spec) workerActionLoad p" using loader_template [OF p] by blast
  have w2: "?w2 = ?w1\<lparr>w_pods := [?q], w_loaded := insert (pod_module p) (w_loaded ?w1)\<rparr>"
    using F1(1) worker_pod_for_kind(1) [OF tmpl] by (simp add: kubelet_def edit_pod_def fresh_pod_def)
  have ok2: "world_ok ?w2"
    using w(1) F1 template_own(1) [OF p] w(4) by (simp add: w2 world_ok_def fresh_pod_def)
  have ann: "GetConfigAnnotation (Some ?q) = GetConfigAnnotation (Some p)" "GetTolerationsAnnotation (Some ?q) = GetTolerationsAnnotation (Some p)"
    by (simp_all add: GetConfigAnnotation_def GetTolerationsAnnotation_def annotation_def fresh_pod_def)
  have q: "loaded_pod lib spec ?q"
    using tmpl yaml tols worker_pod_for_kind(1) [OF tmpl] unfolding loaded_pod_def ann
    by (auto simp: fresh_pod_def worker_pod_for_def)
  have sched: "IsNodeSchedulable lib (w_node ?w2) (mi_tolerations (nms_item spec))"
    using w(5) schedulable_taints [of "w_node ?w2" "w_node w" lib] F1 by (simp add: w2)
  obtain st where st: "status_of spec (w_node ?w2) st" "but_labels (?w2\<lparr>w_pods := [], w_nmc := (w_nmc ?w2)\<lparr>nmc_status := [st]\<rparr>\<rparr>) ?w3"
    "has_key (node_labels (w_node ?w3)) (GetKernelModuleReadyNodeLabel (mi_namespace (nms_item spec)) (mi_name (nms_item spec)))"
    using recording_pass [OF ok2 _ _ _ sched q name] F1 w(3,4) by (auto simp: w2)
  note F3 = but_labels_frame [OF st(2), simplified]
  have st3: "status_of spec (w_node ?w3) st" using st(1) F3 by (simp add: status_of_def)
  moreover have "world_ok ?w3" using ok2 F3 by (simp add: world_ok_def)
  moreover have "IsNodeSchedulable lib (w_node ?w3) (mi_tolerations (nms_item spec))"
    using sched schedulable_taints [of "w_node ?w3" "w_node ?w2" lib] F3 by simp
  moreover have "nmc_spec (w_nmc ?w3) = [spec]" using F3 F1 w(3) by (simp add: w2)
  ultimately have "list_all (calm [spec]) (pass_calls wpm lib ?w3)" using F3 by (intro settled_pass) simp_all
  moreover have "spec_nsn spec \<in> w_loaded ?w3" using F3 tmpl by (simp add: w2 worker_pod_for_def)
  ultimately show ?thesis using st3 st F1 F3 by (simp add: Let_def status_settled)
qed

theorem new_module_converges_witness:
  "let w3 = pass sample_mgr plain_library (kubelet (pass sample_mgr plain_library idle_world)) in
   w_pods w3 = [] \<and> has_key (node_labels (w_node w3)) (GetKernelModuleReadyNodeLabel ''kmm'' ''mymod'') \<and>
   list_all (calm [spec1]) (pass_calls sample_mgr plain_library w3)"
proof -
  have id: "mi_namespace (nms_item spec1) = ''kmm''" "mi_name (nms_item spec1) = ''mymod''" by (simp_all add: spec1_def empty_item_def)
  have w: "world_ok idle_world" "w_pods idle_world = []" "nmc_spec (w_nmc idle_world) = [spec1]" "nmc_status (w_nmc idle_world) = []"
    "IsNodeSchedulable plain_library (w_node idle_world) (mi_tolerations (nms_item spec1))"
    by (simp_all add: idle_world_def world_ok_def fresh_nmc_def one_module_nmc_def node1_def IsNodeSchedulable_def Let_def)
  have p: "LoaderPodTemplate sample_mgr plain_library (w_nmc idle_world) spec1 = Inr loader1"
    using loader1_template by (simp add: idle_world_def)
  have r: "ready_nsn (mi_namespace (nms_item spec1)) (mi_name (nms_item spec1))" unfolding id by code_simp
  have "l_UnmarshalStrict_config plain_library (GetConfigAnnotation (Some loader1)) empty_config = (None, nms_config spec1)"
    "fst (l_UnmarshalStrict_tolerations plain_library (GetTolerationsAnnotation (Some loader1)) []) = None"
    by (simp_all add: loader1_facts plain_library_def spec1_def)
  from new_module_converges [OF w p r this] show ?thesis by (simp add: Let_def id)
qed

text \<open>
  C14: a module that is no longer wanted is gone after two passes. Suppose the only status entry of a node without worker pods was recorded since the
  node booted, no module is wanted and the unloader pod of the entry can be made. Then the pass of the reconciler creates exactly this pod; when the pod
  succeeded, the next pass removes the status entry, the pod and the ready label of the module, which is not loaded any more; and from then on a
  pass touches neither pods nor status.
\<close>

theorem unwanted_module_disappears:
  assumes w: "world_ok w" "w_pods w = []" "nmc_spec (w_nmc w) = []" "nmc_status (w_nmc w) = [st]" "nst_boot_id st = node_boot_id (w_node w)"
    and p: "UnloaderPodTemplate wpm lib (w_nmc w) st = Inr p" and name: "ready_nsn (mi_namespace (nst_item st)) (mi_name (nst_item st))"
  shows "let w1 = pass wpm lib w; w2 = kubelet w1; w3 = pass wpm lib w2 in
    w_pods w1 = [fresh_pod p] \<and> w_pods w3 = [] \<and> nmc_status (w_nmc w3) = [] \<and> status_nsn st \<notin> w_loaded w3 \<and>
    \<not> has_key (node_labels (w_node w3)) (GetKernelModuleReadyNodeLabel (mi_namespace (nst_item st)) (mi_name (nst_item st))) \<and>
    list_all (calm []) (pass_calls wpm lib w3)"
proof -
  let ?w1 = "pass wpm lib w" let ?w2 = "kubelet ?w1" let ?w3 = "pass wpm lib ?w2" let ?q = "(fresh_pod p)\<lparr>pod_phase := PodSucceeded\<rparr>"
  note F1 = but_labels_frame [OF unloading_pass [OF w p], simplified]
  have tmpl: "worker_pod_for lib (w_nmc w) (nst_item st) (nst_config st) workerActionUnload p" using unloader_template [OF p] by blast
  note kind = worker_pod_for_kind(2) [OF tmpl]
  have w2: "?w2 = ?w1\<lparr>w_pods := [?q], w_loaded := w_loaded ?w1 - {pod_module p}\<rparr>"
    using F1(1) kind by (simp add: kubelet_def edit_pod_def fresh_pod_def)
  have ok2: "world_ok ?w2"
    using w(1,4) F1 template_own(2) [OF p] by (simp add: w2 world_ok_def fresh_pod_def)
  have q: "released ?q" "finished ?q" "IsUnloaderPod (Some ?q)" "pod_module ?q = status_nsn st"
    using tmpl kind by (simp_all add: released_def fresh_pod_def worker_pod_for_def)
  have s2: "w_pods ?w2 = [?q]" "nmc_spec (w_nmc ?w2) = []" "nmc_status (w_nmc ?w2) = [st]" using F1 w(3,4) by (simp_all add: w2)
  note R = forgetting_pass [OF ok2 s2 q name, of wpm lib]
  note F3 = but_labels_frame [OF R [THEN conjunct1], simplified]
  have "world_ok ?w3" using ok2 F3 by (simp add: world_ok_def)
  then have "list_all (calm []) (pass_calls wpm lib ?w3)" using F3 s2 by (intro empty_pass) simp_all
  moreover have "status_nsn st \<notin> w_loaded ?w3" using F3 tmpl by (simp add: w2 worker_pod_for_def)
  ultimately show ?thesis using R F1 F3 by (simp add: Let_def)
qed

definition orphan_world :: world where
  "orphan_world = \<lparr>w_node = node1, w_nmc = one_module_nmc\<lparr>nmc_spec := [], nmc_status := [(hd (nmc_status one_module_nmc))\<lparr>nst_boot_id := ''b1''\<rparr>]\<rparr>,
     w_pods = [], w_loaded = {(''kmm'', ''mymod'')}\<rparr>"

theorem unwanted_module_disappears_witness:
  "let w3 = pass sample_mgr plain_library (kubelet (pass sample_mgr plain_library orphan_world)) in
   w_pods w3 = [] \<and> nmc_status (w_nmc w3) = [] \<and> (''kmm'', ''mymod'') \<notin> w_loaded w3 \<and>
   \<not> has_key (node_labels (w_node w3)) (GetKernelModuleReadyNodeLabel ''kmm'' ''mymod'')"
proof -
  let ?st = "(hd (nmc_status one_module_nmc))\<lparr>nst_boot_id := ''b1''\<rparr>"
  have id: "mi_namespace (nst_item ?st) = ''kmm''" "mi_name (nst_item ?st) = ''mymod''" by (simp_all add: one_module_nmc_def empty_item_def)
  have w: "world_ok orphan_world" "w_pods orphan_world = []" "nmc_spec (w_nmc orphan_world) = []" "nmc_status (w_nmc orphan_world) = [?st]"
    "nst_boot_id ?st = node_boot_id (w_node orphan_world)"
    by (simp_all add: orphan_world_def world_ok_def one_module_nmc_def node1_def)
  have "case UnloaderPodTemplate sample_mgr plain_library (w_nmc orphan_world) ?st of Inl _ \<Rightarrow> False | Inr _ \<Rightarrow> True" by code_simp
  then obtain p where p: "UnloaderPodTemplate sample_mgr plain_library (w_nmc orphan_world) ?st = Inr p" by (auto split: sum.splits)
  have r: "ready_nsn (mi_namespace (nst_item ?st)) (mi_name (nst_item ?st))" unfolding id by code_simp
  from unwanted_module_disappears [OF w p r, unfolded id Let_def] show ?thesis by (simp add: Let_def)
qed

end
