(* ===== verification/Pull_Secrets.thy ===== *)
theory Pull_Secrets
  imports Worker
begin

text \<open>
  The pull secrets mounted into a worker pod, \<^verbatim>\<open>internal/worker/pullsecrets.go\<close>: the files with the names Kubernetes gives to registry
  credentials are collected, in the order of the walk, and given to the keychain of the registry library, which is a parameter. The paths of the
  walk are below the root.
\<close>

section \<open>Operations\<close>

definition DockerConfigKey :: string where "DockerConfigKey = ''.dockercfg''"
definition DockerConfigJsonKey :: string where "DockerConfigJsonKey = ''.dockerconfigjson''"

record pull_secret =
  ps_type :: string
  ps_data :: "(string \<times> string) list"

text \<open>The type of the secret for the name of a file; other names are ignored.\<close>

definition secret_type :: "string \<Rightarrow> string option" where
  "secret_type sKey =
     (if sKey = DockerConfigKey then Some ''kubernetes.io/dockercfg''
      else if sKey = DockerConfigJsonKey then Some ''kubernetes.io/dockerconfigjson''
      else None)"

text \<open>The function of the walk, on the entries it visits.\<close>

fun collect_secrets :: "host \<Rightarrow> string \<Rightarrow> (string \<times> bool) list \<Rightarrow> pull_secret list \<Rightarrow> (go_err + pull_secret list) hio" where
  "collect_secrets ho rootDir [] secrets = State_Monad.return (Inr secrets)"
| "collect_secrets ho rootDir ((path, isDir) # es) secrets =
     (if isDir then collect_secrets ho rootDir es secrets
      else case secret_type (path_Base path) of
        None \<Rightarrow> collect_secrets ho rootDir es secrets
      | Some sType \<Rightarrow> do {
          r \<leftarrow> os_ReadFile ho (path_Join [rootDir, path]);
          case r of
            Inl e \<Rightarrow> State_Monad.return (Inl (Errorf ''could not read'' e))
          | Inr b \<Rightarrow> collect_secrets ho rootDir es (secrets @ [\<lparr>ps_type = sType, ps_data = [(path_Base path, b)]\<rparr>])
        })"

definition ReadKubernetesSecrets :: "(pull_secret list \<Rightarrow> go_err + 'k) \<Rightarrow> host \<Rightarrow> string \<Rightarrow> (go_err + 'k) hio" where
  "ReadKubernetesSecrets NewFromPullSecrets ho rootDir = do {
     w \<leftarrow> walk ho rootDir;
     r \<leftarrow> collect_secrets ho rootDir (fst w) [];
     State_Monad.return (case r of
       Inl e \<Rightarrow> Inl (Errorf ''error while walking'' e)
     | Inr secrets \<Rightarrow> (case snd w of
         Some e \<Rightarrow> Inl (Errorf ''error while walking'' e)
       | None \<Rightarrow> NewFromPullSecrets secrets))
   }"

section \<open>What is collected\<close>

text \<open>The files that count, and the secret of each when the files do not change while they are read.\<close>

definition secret_files :: "(string \<times> bool) list \<Rightarrow> string list" where
  "secret_files es = map fst (filter (\<lambda>(path, isDir). \<not> isDir \<and> secret_type (path_Base path) \<noteq> None) es)"

definition secret_of :: "(string \<Rightarrow> string) \<Rightarrow> string \<Rightarrow> string \<Rightarrow> pull_secret" where
  "secret_of content rootDir path =
     \<lparr>ps_type = the (secret_type (path_Base path)), ps_data = [(path_Base path, content (path_Join [rootDir, path]))]\<rparr>"

lemma secret_files_Cons:
  "secret_files ((path, isDir) # es) = (if \<not> isDir \<and> secret_type (path_Base path) \<noteq> None then path # secret_files es else secret_files es)"
  by (simp add: secret_files_def)

lemma collect_secrets_all:
  assumes "\<And>h p. p \<in> set (secret_files es) \<Longrightarrow> h_read_file ho h (path_Join [root, p]) = Inr (content (path_Join [root, p]))"
  shows "run_state (collect_secrets ho root es acc) h =
    (Inr (acc @ map (secret_of content root) (secret_files es)), h @ map (\<lambda>p. Read_File (path_Join [root, p])) (secret_files es))"
  using assms
proof (induction es arbitrary: acc h)
  case Nil
  then show ?case by (simp add: secret_files_def)
next
  case (Cons e es)
  obtain path d where e: "e = (path, d)" by force
  show ?case
  proof (cases "\<not> d \<and> secret_type (path_Base path) \<noteq> None")
    case True
    then obtain t where t: "secret_type (path_Base path) = Some t" "\<not> d" by blast
    then have "h_read_file ho h (path_Join [root, path]) = Inr (content (path_Join [root, path]))"
      using Cons.prems by (simp add: e secret_files_Cons)
    then show ?thesis using Cons t by (simp add: e secret_files_Cons os_ReadFile_def secret_of_def)
  next
    case False
    then show ?thesis using Cons by (auto simp: e secret_files_Cons split: option.splits)
  qed
qed

lemma collect_secrets_error:
  assumes "p \<in> set (secret_files es)" "\<And>h. h_read_file ho h (path_Join [root, p]) = Inl er"
  shows "\<exists>e. fst (run_state (collect_secrets ho root es acc) h) = Inl e"
  using assms(1)
proof (induction es arbitrary: acc h)
  case Nil
  then show ?case by (simp add: secret_files_def)
next
  case (Cons e es)
  obtain path d where e: "e = (path, d)" by force
  show ?case
  proof (cases "p \<in> set (secret_files es)")
    case True
    then show ?thesis using Cons.IH
      by (auto simp: e os_ReadFile_def split: option.split sum.split)
  next
    case False
    with Cons.prems have "path = p" "\<not> d" "secret_type (path_Base path) \<noteq> None" by (auto simp: e secret_files_Cons split: if_splits)
    then show ?thesis using assms(2) by (auto simp: e os_ReadFile_def)
  qed
qed

section \<open>Properties\<close>

text \<open>
  When the walk ends without an error and every file of credentials can be read, the keychain is made of exactly these files, in the order
  of the walk, each under its own name and with the type of its name, and nothing else is read.
\<close>

theorem keychain_from_credential_files:
  assumes "h_walk ho h root = (es, None)"
    and "\<And>h p. p \<in> set (secret_files es) \<Longrightarrow> h_read_file ho h (path_Join [root, p]) = Inr (content (path_Join [root, p]))"
  shows "run_state (ReadKubernetesSecrets mk ho root) h =
    (mk (map (secret_of content root) (secret_files es)),
     h @ Walk root # map (\<lambda>p. Read_File (path_Join [root, p])) (secret_files es))"
  using assms collect_secrets_all [of es ho root content "[]"]
  by (simp add: ReadKubernetesSecrets_def walk_def)

text \<open>A walk that fails, or a file of credentials that cannot be read, is an error and no keychain is made.\<close>

theorem no_keychain_from_part_of_the_files:
  assumes "h_walk ho h root = (es, we)"
    and "we \<noteq> None \<or> (\<exists>p er. p \<in> set (secret_files es) \<and> (\<forall>h. h_read_file ho h (path_Join [root, p]) = Inl er))"
  shows "\<exists>e. fst (run_state (ReadKubernetesSecrets mk ho root) h) = Inl (Errorf ''error while walking'' e)"
proof -
  let ?r = "fst (run_state (collect_secrets ho root es []) (h @ [Walk root]))"
  have "fst (run_state (ReadKubernetesSecrets mk ho root) h) = (case ?r of Inl e \<Rightarrow> Inl (Errorf ''error while walking'' e)
     | Inr secrets \<Rightarrow> (case we of Some e \<Rightarrow> Inl (Errorf ''error while walking'' e) | None \<Rightarrow> mk secrets))"
    using assms(1) by (simp add: ReadKubernetesSecrets_def walk_def case_prod_beta split: sum.split option.split)
  moreover have "we = None \<Longrightarrow> \<exists>e. ?r = Inl e" using assms(2) collect_secrets_error by blast
  ultimately show ?thesis by (cases ?r; cases we) auto
qed

end
