(* ===== verification/Image_Pipeline.thy ===== *)
theory Image_Pipeline
  imports Mic_Reconciler Mbsc_Reconciler
begin

text \<open>
  How an image comes into being: the ModuleImagesConfig controller asks for an action, the ModuleBuildSignConfig controller runs it in a
  pod and records how the pod ended, and the first controller takes the next step from the record.
\<close>

section \<open>Recording the outcome of a pod\<close>

abbreviation bss_image :: "build_sign_spec \<Rightarrow> string" where
  "bss_image img \<equiv> is_image (bss_spec img)"

lemma lookup_SetImageStatus: "lookup_outcome (SetImageStatus m i a st) k = (if k = i then Some (a, st) else lookup_outcome m k)"
  using outcomes.get_put_if [of m "(i, a, st)" k] by simp

lemma update_images_other:
  "i \<notin> bss_image ` set imgs \<Longrightarrow> lookup_outcome (fst (fst (run_state (update_images srv imgs (m, errs)) h))) i = lookup_outcome m i"
proof (induction imgs arbitrary: m errs h)
  case (Cons img imgs)
  then show ?case by (auto simp: split_beta lookup_SetImageStatus split: sum.split)
qed simp

text \<open>The outcome of the pod the object controls, at any point in time.\<close>

definition pod_outcome :: "server \<Rightarrow> mbsc \<Rightarrow> build_sign_spec \<Rightarrow> action_status \<Rightarrow> bool" where
  "pod_outcome srv m img st \<longleftrightarrow> (\<forall>h. fst (run_state (GetStatus srv (mbsc_name m) (mbsc_namespace m)
     (is_kernel_version (bss_spec img)) (bss_action img) (mbsc_owner_of m)) h) = Inr st)"

lemma pod_outcomeI:
  assumes "\<And>h. s_pods srv h (image_pods_query m img) = Inr pods" "filterResourcesByOwner pods (mbsc_owner_of m) = [p]"
  shows "pod_phase p = PodSucceeded \<Longrightarrow> pod_outcome srv m img ActionSuccess"
    and "pod_phase p = PodFailed \<Longrightarrow> pod_outcome srv m img ActionFailure"
  using assms by (simp_all add: pod_outcome_def GetStatus_def run_GetResourceByKernel image_pods_query_def Let_def GetResourceStatus_def)

lemma update_images_records:
  assumes "distinct (map bss_image imgs)" "img \<in> set imgs" "pod_outcome srv m img st" "st \<noteq> ActionUnset"
  shows "lookup_outcome (fst (fst (run_state (update_images srv imgs (m, errs)) h))) (bss_image img) = Some (bss_action img, st)"
  using assms
proof (induction imgs arbitrary: m errs h)
  case (Cons i imgs)
  have keep: "pod_outcome srv (SetImageStatus m a b c) img st" for a b c using Cons.prems(3) by (simp add: pod_outcome_def)
  show ?case
  proof (cases "i = img")
    case True
    with Cons.prems have "bss_image img \<notin> bss_image ` set imgs" by auto
    with Cons.prems(3,4) True show ?thesis
      by (simp add: pod_outcome_def split_beta update_images_other lookup_SetImageStatus)
  next
    case False
    with Cons.prems have "img \<in> set imgs" "distinct (map bss_image imgs)" by auto
    then show ?thesis using Cons.IH Cons.prems(3,4) keep by (simp add: split_beta split: sum.split)
  qed
qed simp

lemma updateStatus_object:
  "snd (fst (run_state (Mbsc_Reconciler.updateStatus srv m) h)) = fst (fst (run_state (update_images srv (mbsc_images m) (m, [])) h))"
  by (simp add: Mbsc_Reconciler.updateStatus_def split_beta do_write_def)

lemma updateStatus_keeps:
  assumes "mbsc_wf m"
  shows "mbsc_wf (snd (fst (run_state (Mbsc_Reconciler.updateStatus srv m) h))) \<and>
    mbsc_images (snd (fst (run_state (Mbsc_Reconciler.updateStatus srv m) h))) = mbsc_images m"
  using does_result [OF does_updateStatus [where P = "\<lambda>_. True" and srv = srv and m = m], of h] assms by simp

lemma find_distinct_key: "distinct (map key xs) \<Longrightarrow> x \<in> set xs \<Longrightarrow> find (\<lambda>y. key y = key x) xs = Some x"
  by (induction xs) auto

section \<open>Properties\<close>

text \<open>
  C6: a finished pod moves its image on by one step. Suppose the pod of a requested action has ended, and the image controller reads the
  object as the build and sign controller recorded it. Then the outcome of the pod is recorded for the image; a failure makes the
  image count as missing, a successful build of an image that is also to be signed makes it wait for its signature, and
  any other success makes it exist; and in the second case the image controller asks for the signature in one write.
\<close>

theorem finished_pod_advances_image:
  assumes wf: "mbsc_wf b" and img: "img \<in> set (mbsc_images b)" "bss_spec img = spec"
    and pod: "\<And>h. s_pods srv h (image_pods_query b img) = Inr pods" "filterResourcesByOwner pods (mbsc_owner_of b) = [p]"
      "pod_phase p = PodSucceeded \<or> pod_phase p = PodFailed"
    and b': "b' = snd (fst (run_state (Mbsc_Reconciler.updateStatus srv b) h))"
    and shown: "\<And>h. s_mbsc srv' h (mic_namespace m, mic_name m) = Inr b'"
    and spec: "GetModuleImageSpec m (is_image spec) = Some spec"
    and own: "\<And>o'. \<exists>ow. l_SetControllerReference lib (mic_owner_of m) o' = Inr ow"
    and pull: "list_all pull_pod_ok pulls"
  shows "let st = (if pod_phase p = PodSucceeded then ActionSuccess else ActionFailure);
             m' = snd (fst (run_state (updateStatusByMBSC srv' m) h'));
             sign = (bss_action img = BuildImage \<and> is_sign spec \<noteq> None)
    in lookup_outcome b' (is_image spec) = Some (bss_action img, st) \<and>
       GetImageState m' (is_image spec) =
         (if st = ActionFailure then ImageDoesNotExist else if sign then ImageNeedsSigning else ImageExists) \<and>
       (st = ActionSuccess \<and> sign \<longrightarrow> (\<exists>c. writes (process_image lib srv' m' pulls spec) h'' = [c] \<and> asks_for m' spec SignImage c))"
proof -
  define st where "st = (if pod_phase p = PodSucceeded then ActionSuccess else ActionFailure)"
  define m' where "m' = snd (fst (run_state (updateStatusByMBSC srv' m) h'))"
  have st: "pod_outcome srv b img st" "st \<noteq> ActionUnset"
    using pod_outcomeI [OF pod(1,2)] pod(3) by (auto simp: st_def)
  have out: "lookup_outcome b' (is_image spec) = Some (bss_action img, st)"
    using update_images_records [OF _ img(1) st, of "[]" h] wf img by (simp add: b' updateStatus_object mbsc_wf_def)
  have wf': "mbsc_wf b'" and imgs: "mbsc_images b' = mbsc_images b" using updateStatus_keeps [OF wf] by (simp_all add: b')
  have state: "GetImageState m' (is_image spec) = (if st = ActionFailure then ImageDoesNotExist
      else if bss_action img = BuildImage \<and> is_sign spec \<noteq> None then ImageNeedsSigning else ImageExists)"
    using updateStatusByMBSC_state [OF shown wf' spec, of h'] out by (auto simp: m'_def st_def)
  have owner: "mic_owner_of m' = mic_owner_of m" unfolding m'_def by (rule updateStatusByMBSC_owner)
  then have frame: "mic_name m' = mic_name m" "mic_namespace m' = mic_namespace m" by (simp_all add: mic_owner_of_def)
  have "\<exists>c. writes (process_image lib srv' m' pulls spec) h'' = [c] \<and> asks_for m' spec SignImage c"
    if s: "st = ActionSuccess" "bss_action img = BuildImage" "is_sign spec \<noteq> None"
  proof -
    have "needed_action m' spec = Some SignImage" using state s by (simp add: needed_action_def)
    moreover have "GetImageSpec b' (is_image spec) = Some img"
      using find_distinct_key [of bss_image, OF _ img(1)] wf img(2) imgs by (simp add: GetImageSpec_def mbsc_wf_def)
    then have "GetImageSpec b' (is_image spec) \<noteq> Some \<lparr>bss_spec = spec, bss_action = SignImage\<rparr>" using s(2) by auto
    ultimately show ?thesis
      using process_image_progress [OF pull, of lib m' srv' h'' b' spec] own owner shown frame by auto
  qed
  with out state show ?thesis unfolding Let_def st_def [symmetric] m'_def [symmetric] by blast
qed

text \<open>An image that was built and is to be signed.\<close>

definition half_done :: mbsc where
  "half_done = (new_mbsc ''mymod'' ''kmm'')\<lparr>mbsc_images := [\<lparr>bss_spec = built_image, bss_action = BuildImage\<rparr>]\<rparr>"

definition finished_build :: pod where
  "finished_build = empty_pod\<lparr>pod_owner := Some (mbsc_owner_of half_done), pod_phase := PodSucceeded\<rparr>"

definition build_cluster :: server where
  "build_cluster = empty_cluster\<lparr>s_pods := \<lambda>h q. Inr [finished_build]\<rparr>"

definition recorded :: mbsc where
  "recorded = snd (fst (run_state (Mbsc_Reconciler.updateStatus build_cluster half_done) []))"

theorem finished_pod_advances_image_witness:
  "\<exists>m' c. GetImageState m' ''reg/built'' = ImageNeedsSigning \<and>
     writes (process_image plain_library (empty_cluster\<lparr>s_mbsc := \<lambda>h k. Inr recorded\<rparr>) m' [] built_image) [] = [c] \<and>
     asks_for m' built_image SignImage c"
proof -
  let ?img = "\<lparr>bss_spec = built_image, bss_action = BuildImage\<rparr>"
  let ?srv = "empty_cluster\<lparr>s_mbsc := \<lambda>h k. Inr recorded\<rparr>"
  have wf: "mbsc_wf half_done" "?img \<in> set (mbsc_images half_done)" by (simp_all add: half_done_def mbsc_wf_def new_mbsc_def)
  have pod: "s_pods build_cluster h q = Inr [finished_build]" for h q by (simp add: build_cluster_def)
  have own: "filterResourcesByOwner [finished_build] (mbsc_owner_of half_done) = [finished_build]" by code_simp
  have ph: "pod_phase finished_build = PodSucceeded" by (simp add: finished_build_def)
  have spec: "GetModuleImageSpec sample_mic (is_image built_image) = Some built_image" by code_simp
  have img: "is_image built_image = ''reg/built''" "is_sign built_image \<noteq> None" by (simp_all add: built_image_def)
  have ctl: "\<exists>ow. l_SetControllerReference plain_library (mic_owner_of sample_mic) o' = Inr ow" for o'
    by (simp add: plain_library_def)
  have shown: "s_mbsc ?srv h (mic_namespace sample_mic, mic_name sample_mic) = Inr recorded" for h by simp
  show ?thesis
    using finished_pod_advances_image [OF wf _ pod own disjI1 [OF ph] recorded_def shown spec ctl, of "[]" "[]" "[]"] ph img
    unfolding Let_def by auto
qed

end
