(* ===== verification/Config.thy ===== *)
theory Config
  imports Worker_Pod
begin

text \<open>
  The configuration of the managers: \<^verbatim>\<open>internal/config/config.go\<close> and the way \<^verbatim>\<open>cmd/manager/main.go\<close>
  and \<^verbatim>\<open>cmd/manager-hub/main.go\<close> use it when they start. Creating a client and decoding YAML into a configuration are
  parameters: \<open>decode data cfg\<close> is what \<open>Decode\<close> returns and what it left in the value it decodes into, which on an error
  may be partly overwritten.
\<close>

section \<open>Definitions\<close>

record leader_election =
  le_enabled :: bool
  le_resource_id :: string

record metrics_cfg =
  mtc_bind_address :: string
  mtc_authn_authz :: bool
  mtc_secure_serving :: bool

record config =
  cf_health_probe_address :: string
  cf_gc_delay :: int
  cf_leader_election :: leader_election
  cf_metrics :: metrics_cfg
  cf_webhook_port :: int
  cf_worker :: worker_cfg

record manager_options =
  mo_health_probe_address :: string
  mo_leader_election :: bool
  mo_leader_election_id :: string
  mo_metrics_address :: string
  mo_metrics_secure :: bool
  mo_metrics_authenticated :: bool
  mo_webhook_port :: int

type_synonym config_decoder = "string \<Rightarrow> config \<Rightarrow> go_err option \<times> config"

definition ErrCannotUseCustomConfig :: go_err where
  "ErrCannotUseCustomConfig = NewErr ''cannot use custom config on top of the default config; using default configs''"

definition configKey :: string where "configKey = ''controller_config.yaml''"

definition newDefaultConfig :: "bool \<Rightarrow> config" where
  "newDefaultConfig isHubConfig =
     \<lparr>cf_health_probe_address = '':8081'', cf_gc_delay = 0,
      cf_leader_election = \<lparr>le_enabled = True,
        le_resource_id = (if isHubConfig then ''kmm-hub.sigs.x-k8s.io'' else ''kmm.sigs.x-k8s.io'')\<rparr>,
      cf_metrics = \<lparr>mtc_bind_address = ''0.0.0.0:8443'', mtc_authn_authz = True, mtc_secure_serving = True\<rparr>,
      cf_webhook_port = 9443,
      cf_worker = \<lparr>wc_run_as_user = Some 0, wc_selinux_type = ''spc_t'', wc_firmware_host_path = Some ''/lib/firmware''\<rparr>\<rparr>"

definition decodeStrictYAMLIntoConfig :: "config_decoder \<Rightarrow> string \<Rightarrow> config \<Rightarrow> go_err option \<times> config" where
  "decodeStrictYAMLIntoConfig decode yamlData cfg =
     (case decode yamlData cfg of (e, cfg') \<Rightarrow> (map_option (Errorf ''error unmarshaling YAML'') e, cfg'))"

definition overrideConfigFromCM :: "config_decoder \<Rightarrow> labels option \<Rightarrow> config \<Rightarrow> go_err option \<times> config" where
  "overrideConfigFromCM decode cm cfg =
     (case cm of
        None \<Rightarrow> (Some (NewErr ''cm can not be nil''), cfg)
      | Some data \<Rightarrow>
          (case map_of data configKey of
             None \<Rightarrow> (Some (NewErr ''key controller_config.yaml not found in ConfigMap''), cfg)
           | Some rawConfig \<Rightarrow> decodeStrictYAMLIntoConfig decode rawConfig cfg))"

text \<open>The result is the pair Go returns: a configuration or nil, and an error or nil.\<close>

definition GetConfig ::
  "config_decoder \<Rightarrow> go_err option \<Rightarrow> server \<Rightarrow> string \<Rightarrow> string \<Rightarrow> bool \<Rightarrow> (config option \<times> go_err option) cio" where
  "GetConfig decode clientErr srv userConfigMapName userConfigMapNamespace isHubConfig =
     (let defaultCfg = newDefaultConfig isHubConfig
      in case clientErr of
           Some e \<Rightarrow> State_Monad.return (None, Some (Errorf ''failed to get client'' (Errorf ''failed to create new client'' e)))
         | None \<Rightarrow> do {
             r \<leftarrow> get_configmap srv (userConfigMapNamespace, userConfigMapName);
             State_Monad.return (case r of
               Inl e \<Rightarrow>
                 if IsNotFound e then (Some defaultCfg, None) else (None, Some (Errorf ''failed to get ConfigMap'' e))
             | Inr managerConfig \<Rightarrow>
                 (case overrideConfigFromCM decode (Some managerConfig) (newDefaultConfig isHubConfig) of
                    (Some e, _) \<Rightarrow> (Some defaultCfg, Some (Wrapf ''unable to load KMM config from ConfigMap'' ErrCannotUseCustomConfig))
                  | (None, cfg) \<Rightarrow> (Some cfg, None)))
           })"

definition GetManagerOptionsFromConfig :: "config \<Rightarrow> manager_options" where
  "GetManagerOptionsFromConfig conf =
     \<lparr>mo_health_probe_address = cf_health_probe_address conf, mo_leader_election = le_enabled (cf_leader_election conf),
      mo_leader_election_id = le_resource_id (cf_leader_election conf), mo_metrics_address = mtc_bind_address (cf_metrics conf),
      mo_metrics_secure = mtc_secure_serving (cf_metrics conf), mo_metrics_authenticated = mtc_authn_authz (cf_metrics conf),
      mo_webhook_port = cf_webhook_port conf\<rparr>"

text \<open>
  The start of a manager: it ends the process on an error that is not \<open>ErrCannotUseCustomConfig\<close>, and goes on with the
  configuration otherwise; a nil configuration there would be dereferenced.
\<close>

datatype startup = Exits go_err | Runs config manager_options | Crashes

definition manager_start :: "config_decoder \<Rightarrow> go_err option \<Rightarrow> server \<Rightarrow> string \<Rightarrow> string \<Rightarrow> bool \<Rightarrow> startup cio" where
  "manager_start decode clientErr srv userConfigMapName operatorNamespace isHubConfig = do {
     r \<leftarrow> GetConfig decode clientErr srv userConfigMapName operatorNamespace isHubConfig;
     State_Monad.return
       (let goes_on = (case fst r of None \<Rightarrow> Crashes | Some cfg \<Rightarrow> Runs cfg (GetManagerOptionsFromConfig cfg))
        in case snd r of
             None \<Rightarrow> goes_on
           | Some e \<Rightarrow> if errors_Is e ErrCannotUseCustomConfig then goes_on else Exits e)
   }"

section \<open>Properties\<close>

text \<open>What the manager runs with when the ConfigMap reads as \<open>r\<close>.\<close>

definition config_in_force :: "config_decoder \<Rightarrow> bool \<Rightarrow> go_err + labels \<Rightarrow> config option" where
  "config_in_force decode hub r =
     (case r of
        Inl e \<Rightarrow> if IsNotFound e then Some (newDefaultConfig hub) else None
      | Inr data \<Rightarrow>
          (case map_of data configKey of
             None \<Rightarrow> Some (newDefaultConfig hub)
           | Some raw \<Rightarrow>
               (case decode raw (newDefaultConfig hub) of (None, cfg) \<Rightarrow> Some cfg | (Some _, _) \<Rightarrow> Some (newDefaultConfig hub))))"

text \<open>
  A manager never runs with half a configuration. With a client, it starts exactly when the ConfigMap was read or does not
  exist, and runs either with the ConfigMap decoded over the defaults without an error, or with the defaults themselves: a
  missing ConfigMap, a missing key and text that does not decode all give the defaults, whatever the decoder had already
  written. It never goes on without a configuration.
\<close>

theorem manager_config_all_or_nothing:
  "case fst (run_state (manager_start decode clientErr srv name ns hub) h) of
     Crashes \<Rightarrow> False
   | Exits e \<Rightarrow> clientErr \<noteq> None \<or> config_in_force decode hub (s_configmap srv h (ns, name)) = None
   | Runs cfg opts \<Rightarrow> clientErr = None \<and> config_in_force decode hub (s_configmap srv h (ns, name)) = Some cfg \<and>
       opts = GetManagerOptionsFromConfig cfg"
  by (auto simp: manager_start_def GetConfig_def config_in_force_def overrideConfigFromCM_def decodeStrictYAMLIntoConfig_def
      get_configmap_def Let_def ErrCannotUseCustomConfig_def newDefaultConfig_def GetManagerOptionsFromConfig_def
      split: option.splits sum.splits prod.splits)

text \<open>A decoder that fails after it has set the port.\<close>

theorem manager_config_all_or_nothing_witness:
  "let srv = empty_cluster\<lparr>s_configmap := (\<lambda>h n. Inr [(''controller_config.yaml'', ''webhookPort: 1'')])\<rparr>;
       decode = (\<lambda>raw cfg. (Some (NewErr ''field not found''), cfg\<lparr>cf_webhook_port := 1\<rparr>))
   in fst (run_state (manager_start decode None srv ''cm'' ''kmm'' False) []) =
        Runs (newDefaultConfig False) (GetManagerOptionsFromConfig (newDefaultConfig False))"
proof -
  let ?srv = "empty_cluster\<lparr>s_configmap := (\<lambda>h n. Inr [(''controller_config.yaml'', ''webhookPort: 1'')])\<rparr>"
  let ?d = "\<lambda>raw cfg. (Some (NewErr ''field not found''), cfg\<lparr>cf_webhook_port := 1\<rparr>)"
  have f: "config_in_force ?d False (s_configmap ?srv [] (''kmm'', ''cm'')) = Some (newDefaultConfig False)"
    by (simp add: config_in_force_def configKey_def)
  show ?thesis
    using manager_config_all_or_nothing [where decode = ?d and clientErr = None and srv = ?srv and name = "''cm''" and ns = "''kmm''" and hub = False and h = "[]"] f
    unfolding Let_def by (simp split: startup.splits)
qed

end
