(* ===== verification/Preflight_Conversion.thy ===== *)
theory Preflight_Conversion
  imports Api_Types "HOL-Library.Multiset"
begin

text \<open>
  The deprecated version of PreflightValidation and its conversion from and to the stored version:
  \<^verbatim>\<open>api/v1beta1/preflightvalidation_types.go\<close>. The statuses of the old version are a Go map from text to pointers; here it is
  the list of its entries in the order an iteration visits them, which Go leaves open: what is said about a conversion of a
  map is said about every or about some order of its entries.
\<close>

section \<open>Definitions\<close>

record cr_status =
  crs_status :: string
  crs_reason :: string
  crs_stage :: string
  crs_transition :: int

type_synonym cr_statuses = "(string \<times> cr_status option) list"

record preflight_v1beta1 =
  p1_name :: string
  p1_namespace :: string
  p1_uid :: string
  p1_deleting :: bool
  p1_kernel_version :: string
  p1_push :: bool
  p1_statuses :: cr_statuses

definition module_status :: "string \<Rightarrow> string \<Rightarrow> cr_status \<Rightarrow> pv_module_status" where
  "module_status namespace name v = \<lparr>pvs_name = name, pvs_namespace = namespace, pvs_status = crs_status v, pvs_reason = crs_reason v,
     pvs_stage = crs_stage v, pvs_transition = crs_transition v\<rparr>"

definition base_status :: "pv_module_status \<Rightarrow> cr_status" where
  "base_status v = \<lparr>crs_status = pvs_status v, crs_reason = pvs_reason v, crs_stage = pvs_stage v, crs_transition = pvs_transition v\<rparr>"

text \<open>The loop of \<open>ConvertTo\<close>; \<open>strings.Cut\<close> takes the text before and after the first separator.\<close>

fun convert_statuses :: "cr_statuses \<Rightarrow> pv_module_status list" where
  "convert_statuses [] = []"
| "convert_statuses ((k, v) # es) =
     (case (break_at (CHR ''/'') k, v) of
        (Some (namespace, name), Some st) \<Rightarrow> module_status namespace name st # convert_statuses es
      | _ \<Rightarrow> [])"

definition ConvertTo :: "preflight_v1beta1 \<Rightarrow> preflight_validation" where
  "ConvertTo p = \<lparr>pv_name = p1_name p, pv_namespace = p1_namespace p, pv_uid = p1_uid p, pv_deleting = p1_deleting p,
     pv_kernel_version = p1_kernel_version p, pv_push = p1_push p, pv_modules = convert_statuses (p1_statuses p)\<rparr>"

definition full_key :: "pv_module_status \<Rightarrow> string" where
  "full_key v = pvs_namespace v @ CHR ''/'' # pvs_name v"

definition add_status :: "pv_module_status \<Rightarrow> cr_statuses \<Rightarrow> cr_statuses" where
  "add_status v m = AList.update (pvs_name v) (Some (base_status v)) (AList.update (full_key v) (Some (base_status v)) m)"

definition ConvertFrom :: "preflight_validation \<Rightarrow> preflight_v1beta1" where
  "ConvertFrom src = \<lparr>p1_name = pv_name src, p1_namespace = pv_namespace src, p1_uid = pv_uid src, p1_deleting = pv_deleting src,
     p1_kernel_version = pv_kernel_version src, p1_push = pv_push src, p1_statuses = fold add_status (pv_modules src) []\<rparr>"

section \<open>The map that \<open>ConvertFrom\<close> makes\<close>

text \<open>Names and namespaces of Kubernetes objects hold no slash.\<close>

definition plain_name :: "pv_module_status \<Rightarrow> bool" where
  "plain_name v \<longleftrightarrow> CHR ''/'' \<notin> set (pvs_namespace v) \<and> CHR ''/'' \<notin> set (pvs_name v)"

definition slash :: "string \<times> 'a \<Rightarrow> bool" where
  "slash e \<longleftrightarrow> CHR ''/'' \<in> set (fst e)"

lemma full_key_cut: "plain_name v \<Longrightarrow> break_at (CHR ''/'') (full_key v) = Some (pvs_namespace v, pvs_name v)"
  by (simp add: plain_name_def full_key_def break_at_append)

lemma full_key_eq:
  assumes "plain_name v" "plain_name w"
  shows "full_key v = full_key w \<longleftrightarrow> pvs_namespace v = pvs_namespace w \<and> pvs_name v = pvs_name w"
proof
  assume "full_key v = full_key w"
  with full_key_cut [OF assms(1)] full_key_cut [OF assms(2)] show "pvs_namespace v = pvs_namespace w \<and> pvs_name v = pvs_name w" by simp
qed (simp add: full_key_def)

lemma module_status_base: "module_status (pvs_namespace v) (pvs_name v) (base_status v) = v"
  by (simp add: module_status_def base_status_def)

lemma cut_slash: "break_at (CHR ''/'') k = None \<longleftrightarrow> CHR ''/'' \<notin> set k"
proof -
  have "break_at (CHR ''/'') k = None \<longleftrightarrow> dropWhile (\<lambda>x. x \<noteq> CHR ''/'') k = []"
    by (cases "dropWhile (\<lambda>x. x \<noteq> CHR ''/'') k") (simp_all add: break_at_def del: dropWhile_eq_Nil_conv)
  then show ?thesis by (auto simp: dropWhile_eq_Nil_conv)
qed

lemma keys_fold: "fst ` set (fold add_status vs m) = fst ` set m \<union> full_key ` set vs \<union> pvs_name ` set vs"
  by (induction vs arbitrary: m) (auto simp: add_status_def dom_update)

lemma distinct_fold: "distinct (map fst m) \<Longrightarrow> distinct (map fst (fold add_status vs m))"
  by (induction vs arbitrary: m) (simp_all add: add_status_def distinct_update)

lemma fold_full_notin:
  "\<forall>v\<in>set vs. plain_name v \<Longrightarrow> CHR ''/'' \<in> set k \<Longrightarrow> k \<notin> full_key ` set vs \<Longrightarrow> map_of (fold add_status vs m) k = map_of m k"
  by (induction vs arbitrary: m) (auto simp: add_status_def update_conv' plain_name_def)

lemma fold_full:
  assumes "\<forall>v\<in>set vs. plain_name v" "distinct (map (\<lambda>v. (pvs_namespace v, pvs_name v)) vs)" "v \<in> set vs"
  shows "map_of (fold add_status vs m) (full_key v) = Some (Some (base_status v))"
  using assms
proof (induction vs arbitrary: m)
  case (Cons w vs)
  show ?case
  proof (cases "v \<in> set vs")
    case False
    with Cons.prems have w: "v = w" "plain_name w" by simp_all
    have "full_key w \<notin> full_key ` set vs" using Cons.prems full_key_eq by force
    moreover have "CHR ''/'' \<in> set (full_key w)" by (simp add: full_key_def)
    ultimately have "map_of (fold add_status vs (add_status w m)) (full_key w) = map_of (add_status w m) (full_key w)"
      using Cons.prems(1) by (intro fold_full_notin) auto
    moreover have "pvs_name w \<noteq> full_key w" by (auto simp: full_key_def dest: arg_cong [of _ _ length])
    then have "map_of (add_status w m) (full_key w) = Some (Some (base_status w))" by (simp add: add_status_def update_conv')
    ultimately show ?thesis by (simp add: w)
  qed (use Cons in auto)
qed simp

lemma convert_append_full:
  "list_all (\<lambda>e. break_at (CHR ''/'') (fst e) \<noteq> None \<and> snd e \<noteq> None) es \<Longrightarrow>
     convert_statuses (es @ es') = convert_statuses es @ convert_statuses es'"
  by (induction es rule: convert_statuses.induct) (auto split: option.splits)

lemma convert_bare: "\<forall>e\<in>set es. \<not> slash e \<Longrightarrow> convert_statuses es = []"
  by (cases es) (auto simp: slash_def cut_slash [symmetric])

abbreviation entry :: "pv_module_status \<Rightarrow> string \<times> cr_status option" where
  "entry v \<equiv> (full_key v, Some (base_status v))"

lemma entry_inj:
  assumes "plain_name v" "plain_name w" "entry v = entry w"
  shows "v = w"
proof -
  from assms full_key_eq [of v w] have "pvs_namespace v = pvs_namespace w" "pvs_name v = pvs_name w" "base_status v = base_status w"
    by simp_all
  then show ?thesis by (metis module_status_base)
qed

lemma convert_full:
  "\<forall>e\<in>set es. \<exists>v. plain_name v \<and> e = entry v \<Longrightarrow> set (convert_statuses es) = {v. plain_name v \<and> entry v \<in> set es}"
proof (induction es)
  case (Cons e es)
  then obtain v where v: "plain_name v" "e = entry v" by auto
  with Cons have "set (convert_statuses (e # es)) = insert v {v. plain_name v \<and> entry v \<in> set es}"
    using full_key_cut [OF v(1)] by (simp add: module_status_base)
  also have "\<dots> = {w. plain_name w \<and> (entry w = e \<or> entry w \<in> set es)}"
    unfolding v(2) using v(1) entry_inj [OF _ v(1)] by blast
  finally show ?case by simp
qed simp

text \<open>The entries with a slash are the verdicts themselves.\<close>

lemma full_entries:
  assumes "\<forall>v\<in>set vs. plain_name v" "distinct (map (\<lambda>v. (pvs_namespace v, pvs_name v)) vs)"
  shows "set (filter slash (fold add_status vs [])) = entry ` set vs"
proof -
  let ?S = "fold add_status vs []"
  have d: "distinct (map fst ?S)" by (rule distinct_fold) simp
  have get: "map_of ?S (full_key v) = Some (Some (base_status v))" if "v \<in> set vs" for v
    by (rule fold_full [OF assms that])
  have "(k, x) \<in> entry ` set vs" if S: "(k, x) \<in> set ?S" and K: "CHR ''/'' \<in> set k" for k x
  proof -
    have "k \<in> fst ` set ?S" using S by force
    then obtain v where v: "v \<in> set vs" "k = full_key v"
      using K assms(1) unfolding keys_fold by (auto simp: plain_name_def)
    from map_of_is_SomeI [OF d S] get [OF v(1)] v have "(k, x) = entry v" by simp
    with v(1) show ?thesis by blast
  qed
  moreover have "(full_key v, Some (base_status v)) \<in> set ?S" "CHR ''/'' \<in> set (full_key v)" if "v \<in> set vs" for v
    using get [OF that] by (auto simp: full_key_def dest: map_of_SomeD)
  ultimately show ?thesis by (auto simp: slash_def)
qed

section \<open>Properties\<close>

text \<open>
  C31: the old version shows every verdict under the full name of its module, and converting the old version back keeps the verdicts or
  loses them depending on the order in which Go visits the map: the map also holds every verdict under the bare name of the module,
  and the conversion ends at the first such entry. With at least one verdict there is an order that gives no verdict at all, and
  one that gives all of them.
\<close>

theorem old_version_roundtrip_depends_on_map_order:
  assumes "\<forall>v\<in>set (pv_modules pv). plain_name v" "distinct (map (\<lambda>v. (pvs_namespace v, pvs_name v)) (pv_modules pv))"
    and "pv_modules pv \<noteq> []"
  shows "let old = ConvertFrom pv in
    (\<forall>v\<in>set (pv_modules pv). map_of (p1_statuses old) (full_key v) = Some (Some (base_status v))) \<and>
    (\<exists>es. mset es = mset (p1_statuses old) \<and> pv_modules (ConvertTo (old\<lparr>p1_statuses := es\<rparr>)) = []) \<and>
    (\<exists>es. mset es = mset (p1_statuses old) \<and> set (pv_modules (ConvertTo (old\<lparr>p1_statuses := es\<rparr>))) = set (pv_modules pv))"
proof -
  let ?vs = "pv_modules pv"
  let ?S = "fold add_status ?vs []"
  have "hd ?vs \<in> set ?vs" using assms(3) by simp
  then have "pvs_name (hd ?vs) \<in> fst ` set ?S" unfolding keys_fold by blast
  then obtain x where x: "(pvs_name (hd ?vs), x) \<in> set ?S" by auto
  let ?e = "(pvs_name (hd ?vs), x)"
  have "break_at (CHR ''/'') (pvs_name (hd ?vs)) = None"
    using assms(1) \<open>hd ?vs \<in> set ?vs\<close> by (simp add: cut_slash plain_name_def)
  then have "convert_statuses (?e # remove1 ?e ?S) = []" by (simp split: option.split)
  moreover have "mset (?e # remove1 ?e ?S) = mset ?S" using x by simp
  ultimately have none: "\<exists>es. mset es = mset ?S \<and> convert_statuses es = []" by blast
  let ?full = "filter slash ?S" and ?bare = "filter (\<lambda>e. \<not> slash e) ?S"
  have full: "set ?full = entry ` set ?vs" by (rule full_entries [OF assms(1,2)])
  then have "list_all (\<lambda>e. break_at (CHR ''/'') (fst e) \<noteq> None \<and> snd e \<noteq> None) ?full"
    unfolding list_all_iff using assms(1) full_key_cut by auto
  moreover have "convert_statuses ?bare = []" by (rule convert_bare) simp
  moreover have "set (convert_statuses ?full) = set ?vs"
    using convert_full [of ?full] assms(1) entry_inj unfolding full by blast
  ultimately have "set (convert_statuses (?full @ ?bare)) = set ?vs" by (simp add: convert_append_full)
  moreover have "mset (?full @ ?bare) = mset ?S" by (simp add: multiset_partition [symmetric])
  ultimately have all: "\<exists>es. mset es = mset ?S \<and> set (convert_statuses es) = set ?vs" by blast
  show ?thesis
    using none all fold_full [OF assms(1,2)] by (simp add: ConvertFrom_def ConvertTo_def)
qed

definition one_verdict :: preflight_validation where
  "one_verdict = \<lparr>pv_name = ''pv'', pv_namespace = [], pv_uid = [], pv_deleting = False, pv_kernel_version = ''6.1'', pv_push = False,
     pv_modules = [\<lparr>pvs_name = ''mymod'', pvs_namespace = ''kmm'', pvs_status = ''Success'', pvs_reason = [], pvs_stage = ''Done'', pvs_transition = 7\<rparr>]\<rparr>"

theorem old_version_roundtrip_depends_on_map_order_witness:
  "p1_statuses (ConvertFrom one_verdict) =
     [(''kmm/mymod'', Some \<lparr>crs_status = ''Success'', crs_reason = [], crs_stage = ''Done'', crs_transition = 7\<rparr>),
      (''mymod'', Some \<lparr>crs_status = ''Success'', crs_reason = [], crs_stage = ''Done'', crs_transition = 7\<rparr>)] \<and>
   (\<exists>es. mset es = mset (p1_statuses (ConvertFrom one_verdict)) \<and>
      pv_modules (ConvertTo ((ConvertFrom one_verdict)\<lparr>p1_statuses := es\<rparr>)) = [])"
proof -
  have "list_all plain_name (pv_modules one_verdict)" "distinct (map (\<lambda>v. (pvs_namespace v, pvs_name v)) (pv_modules one_verdict))"
    "pv_modules one_verdict \<noteq> []" by code_simp+
  with old_version_roundtrip_depends_on_map_order [of one_verdict] have
    "\<exists>es. mset es = mset (p1_statuses (ConvertFrom one_verdict)) \<and>
      pv_modules (ConvertTo ((ConvertFrom one_verdict)\<lparr>p1_statuses := es\<rparr>)) = []"
    unfolding list_all_iff Let_def by blast
  moreover have "p1_statuses (ConvertFrom one_verdict) =
     [(''kmm/mymod'', Some \<lparr>crs_status = ''Success'', crs_reason = [], crs_stage = ''Done'', crs_transition = 7\<rparr>),
      (''mymod'', Some \<lparr>crs_status = ''Success'', crs_reason = [], crs_stage = ''Done'', crs_transition = 7\<rparr>)]" by code_simp
  ultimately show ?thesis by blast
qed

end
