(* ===== verification/Command_Logger.thy ===== *)
theory Command_Logger
  imports Prelude
begin

text \<open>
  Running modprobe: \<^verbatim>\<open>internal/worker/modprobe.go\<close> and the concurrent logger of the
  command's output, \<^verbatim>\<open>internal/worker/cmdlog.go\<close>.

  One run is a step relation over three kinds of components that move independently: the modprobe
  process, which writes bytes to two kernel pipes of bounded capacity and then exits; one goroutine
  for each pipe, which scans it line by line into the log and sends a scan error to a channel; and
  the goroutine that runs \<open>Run\<close>, which waits for the other two and then for the process. A step
  moves one component and leaves the others where they are. The process (its output and its exit
  status), the capacity of the pipes and how many bytes a read returns are arbitrary. A read
  from a pipe does not fail: it blocks, returns bytes, or reports the end of the file once the process
  has exited and the pipe is drained. The cancellation of the context, which kills the process, is
  added at the end (\<open>cl_step_ctx\<close>).
\<close>

section \<open>Lines\<close>

text \<open>
  \<open>bufio.ScanLines\<close>: how many bytes to advance and the token, when there is one. A carriage
  return before the newline is dropped.
\<close>

abbreviation newline :: char where
  "newline \<equiv> CHR 0x0A"

definition dropCR :: "string \<Rightarrow> string" where
  "dropCR l = TrimSuffix l [CHR 0x0D]"

definition ScanLines :: "string \<Rightarrow> bool \<Rightarrow> (string \<times> string) option" where
  "ScanLines data atEOF =
     (case break_at newline data of
        Some (l, rest) \<Rightarrow> Some (dropCR l, rest)
      | None \<Rightarrow> if atEOF \<and> data \<noteq> [] then Some (dropCR data, []) else None)"

text \<open>
  \<open>bufio.MaxScanTokenSize\<close>: the scanner gives up with \<open>bufio.ErrTooLong\<close> when its buffer
  has reached this size and holds no newline.
\<close>

definition MaxScanTokenSize :: nat where
  "MaxScanTokenSize = 65536"

definition ErrTooLong :: go_err where
  "ErrTooLong = NewErr ''bufio.Scanner: token too long''"

text \<open>The reference: the lines of a complete output, the last one with or without a newline.\<close>

definition log_lines :: "string \<Rightarrow> string list" where
  "log_lines out =
     (let ps = split_by (\<lambda>c. c = newline) out
      in map dropCR (if last ps = [] then butlast ps else ps))"

definition short_lines :: "nat \<Rightarrow> string \<Rightarrow> bool" where
  "short_lines lim out = (\<forall>l\<in>set (split_by (\<lambda>c. c = newline) out). length l < lim)"

lemma break_at_None: "break_at c s = None \<longleftrightarrow> c \<notin> set s"
proof
  assume "break_at c s = None"
  then show "c \<notin> set s" by (auto simp: break_at_def dropWhile_eq_Nil_conv split: list.splits)
next
  assume "c \<notin> set s"
  then have "dropWhile (\<lambda>x. x \<noteq> c) s = []" by (auto simp: dropWhile_eq_Nil_conv)
  then show "break_at c s = None" unfolding break_at_def by (simp only: list.case)
qed

lemma split_one_line: "newline \<notin> set l \<Longrightarrow> split_by (\<lambda>c. c = newline) l = [l]"
  by (rule split_by_no_sep) auto

lemma log_lines_Nil [simp]: "log_lines [] = []"
  by (simp add: log_lines_def)

lemma log_lines_line:
  "newline \<notin> set l \<Longrightarrow> log_lines (l @ newline # rest) = dropCR l # log_lines rest"
  by (simp add: log_lines_def Let_def split_by_append_sep split_one_line)

lemma log_lines_last:
  "newline \<notin> set l \<Longrightarrow> l \<noteq> [] \<Longrightarrow> log_lines l = [dropCR l]"
  by (simp add: log_lines_def Let_def split_one_line)

lemma short_lines_rest:
  "short_lines lim (l @ newline # rest) \<Longrightarrow> short_lines lim rest"
  by (simp add: short_lines_def split_by_append_sep)

lemma split_by_prefix:
  assumes "\<forall>c\<in>set l. \<not> P c"
  shows "\<exists>w ws. split_by P (l @ t) = (l @ w) # ws"
  using assms
proof (induction l)
  case Nil
  show ?case using split_by_neq_Nil [of P t] by (metis append_Nil neq_Nil_conv)
next
  case (Cons c l)
  then obtain w ws where "split_by P (l @ t) = (l @ w) # ws" by auto
  with Cons.prems show ?case by auto
qed

text \<open>What the scanner holds without a newline is part of one line.\<close>

lemma short_lines_buffer:
  assumes "short_lines lim (l @ t)" and "newline \<notin> set l"
  shows "length l < lim"
proof -
  obtain w ws where "split_by (\<lambda>c. c = newline) (l @ t) = (l @ w) # ws"
    using split_by_prefix [of l "\<lambda>c. c = newline" t] assms(2) by metis
  then have "length (l @ w) < lim" using assms(1) by (simp add: short_lines_def)
  then show ?thesis by simp
qed

section \<open>The state of a run\<close>

datatype stream = Stderr | Stdout

text \<open>
  Where a \<open>write\<close> goroutine stands: in the scan loop (before or after the end of the file), about
  to send the scan error, before its deferred \<open>wg.Done\<close>, or finished. Where \<open>Run\<close> stands:
  in \<open>cl.Wait\<close>, in \<open>cmd.Wait\<close>, or returned.
\<close>

datatype goroutine = Scanning | AtEOF | Sending go_err | Leaving | Finished

datatype run_state_pc = InLoggerWait | InCmdWait | Returned "go_err option"

record cl_state =
  cl_script :: "(stream \<times> char) list"  \<comment> \<open>what the process has still to write\<close>
  cl_exited :: bool
  cl_pipe :: "stream \<Rightarrow> string"  \<comment> \<open>written and not yet read\<close>
  cl_buf :: "stream \<Rightarrow> string"  \<comment> \<open>read and not yet split into lines\<close>
  cl_go :: "stream \<Rightarrow> goroutine"
  cl_wg :: nat
  cl_errs :: "go_err list"
  cl_log :: "(stream \<times> string) list"
  cl_pc :: run_state_pc

definition output_of :: "stream \<Rightarrow> (stream \<times> 'a) list \<Rightarrow> 'a list" where
  "output_of s xs = map snd (filter (\<lambda>x. fst x = s) xs)"

lemma output_of_simps [simp]:
  "output_of s [] = []"
  "output_of s (x # xs) = (if fst x = s then snd x # output_of s xs else output_of s xs)"
  "output_of s (xs @ ys) = output_of s xs @ output_of s ys"
  by (simp_all add: output_of_def)

abbreviation logged :: "stream \<Rightarrow> cl_state \<Rightarrow> string list" where
  "logged s st \<equiv> output_of s (cl_log st)"

text \<open>\<open>Wait\<close> makes the channel with one place for each goroutine, and adds both to the group.\<close>

definition goroutines :: nat where
  "goroutines = 2"

definition CommandLogger_Wait_start :: "(stream \<times> char) list \<Rightarrow> cl_state" where
  "CommandLogger_Wait_start script =
     \<lparr>cl_script = script, cl_exited = False, cl_pipe = (\<lambda>_. []), cl_buf = (\<lambda>_. []), cl_go = (\<lambda>_. Scanning),
      cl_wg = goroutines, cl_errs = [], cl_log = [], cl_pc = InLoggerWait\<rparr>"

text \<open>
  \<open>Run\<close> up to the wait: \<open>NewCommandLogger\<close> asks for the two pipes, then the command is
  started. The errors of the three calls are those of \<open>os/exec\<close>.
\<close>

definition NewCommandLogger :: "go_err option \<Rightarrow> go_err option \<Rightarrow> go_err option" where
  "NewCommandLogger stderrPipe stdoutPipe =
     (if stderrPipe \<noteq> None then Some (NewErr ''could not obtain a pipe to stderr'')
      else if stdoutPipe \<noteq> None then Some (NewErr ''could not obtain a pipe to stdout'') else None)"

definition Run_start ::
  "go_err option \<Rightarrow> go_err option \<Rightarrow> go_err option \<Rightarrow> (stream \<times> char) list \<Rightarrow> go_err + cl_state" where
  "Run_start stderrPipe stdoutPipe start script =
     (case NewCommandLogger stderrPipe stdoutPipe of
        Some e \<Rightarrow> Inl (Errorf ''could not create a command logger'' e)
      | None \<Rightarrow>
          (case start of
             Some e \<Rightarrow> Inl (Errorf ''could not start modprobe'' e)
           | None \<Rightarrow> Inr (CommandLogger_Wait_start script)))"

text \<open>What \<open>Run\<close> does with the results of its two waits.\<close>

definition after_logger :: "go_err option \<Rightarrow> run_state_pc" where
  "after_logger e =
     (case e of None \<Rightarrow> InCmdWait | Some e' \<Rightarrow> Returned (Some (Errorf ''error while waiting on the command logger'' e')))"

definition after_command :: "go_err option \<Rightarrow> run_state_pc" where
  "after_command e = Returned (map_option (Errorf ''error while waiting on the command'') e)"

section \<open>The steps\<close>

text \<open>
  \<open>lim\<close> is the token limit of the scanner, \<open>cap\<close> the capacity of a pipe and \<open>status\<close> what
  \<open>cmd.Wait\<close> reports of the exited process. The scanner first tries to split what it holds and
  reads only when it cannot.
\<close>

inductive cl_step :: "nat \<Rightarrow> nat \<Rightarrow> go_err option \<Rightarrow> cl_state \<Rightarrow> cl_state \<Rightarrow> bool" for lim cap status where
  process_writes:
    "cl_script st = (s, c) # script \<Longrightarrow> length (cl_pipe st s) < cap \<Longrightarrow>
     cl_step lim cap status st (st\<lparr>cl_script := script, cl_pipe := (cl_pipe st)(s := cl_pipe st s @ [c])\<rparr>)"
| process_exits:
    "cl_script st = [] \<Longrightarrow> \<not> cl_exited st \<Longrightarrow> cl_step lim cap status st (st\<lparr>cl_exited := True\<rparr>)"
| scan_token:
    "cl_go st s = go \<Longrightarrow> go = Scanning \<or> go = AtEOF \<Longrightarrow> ScanLines (cl_buf st s) (go = AtEOF) = Some (tok, rest) \<Longrightarrow>
     cl_step lim cap status st (st\<lparr>cl_buf := (cl_buf st)(s := rest), cl_log := cl_log st @ [(s, tok)]\<rparr>)"
| scan_read:
    "cl_go st s = Scanning \<Longrightarrow> ScanLines (cl_buf st s) False = None \<Longrightarrow> cl_pipe st s = got @ left \<Longrightarrow> got \<noteq> [] \<Longrightarrow>
     length (cl_buf st s @ got) \<le> lim \<Longrightarrow>
     cl_step lim cap status st (st\<lparr>cl_pipe := (cl_pipe st)(s := left), cl_buf := (cl_buf st)(s := cl_buf st s @ got)\<rparr>)"
| scan_too_long:
    "cl_go st s = Scanning \<Longrightarrow> ScanLines (cl_buf st s) False = None \<Longrightarrow> length (cl_buf st s) \<ge> lim \<Longrightarrow>
     cl_step lim cap status st (st\<lparr>cl_go := (cl_go st)(s := Sending ErrTooLong)\<rparr>)"
| scan_eof:
    "cl_go st s = Scanning \<Longrightarrow> ScanLines (cl_buf st s) False = None \<Longrightarrow> length (cl_buf st s) < lim \<Longrightarrow>
     cl_pipe st s = [] \<Longrightarrow> cl_exited st \<Longrightarrow>
     cl_step lim cap status st (st\<lparr>cl_go := (cl_go st)(s := AtEOF)\<rparr>)"
| scan_ends:
    "cl_go st s = AtEOF \<Longrightarrow> ScanLines (cl_buf st s) True = None \<Longrightarrow>
     cl_step lim cap status st (st\<lparr>cl_go := (cl_go st)(s := Leaving)\<rparr>)"
| send_error:
    "cl_go st s = Sending e \<Longrightarrow> length (cl_errs st) < goroutines \<Longrightarrow>
     cl_step lim cap status st (st\<lparr>cl_errs := cl_errs st @ [e], cl_go := (cl_go st)(s := Leaving)\<rparr>)"
| wg_done:
    "cl_go st s = Leaving \<Longrightarrow>
     cl_step lim cap status st (st\<lparr>cl_wg := cl_wg st - 1, cl_go := (cl_go st)(s := Finished)\<rparr>)"
| logger_returns:
    "cl_pc st = InLoggerWait \<Longrightarrow> cl_wg st = 0 \<Longrightarrow>
     cl_step lim cap status st (st\<lparr>cl_pc := after_logger (errors_Join (map Some (cl_errs st)))\<rparr>)"
| command_returns:
    "cl_pc st = InCmdWait \<Longrightarrow> cl_exited st \<Longrightarrow> cl_step lim cap status st (st\<lparr>cl_pc := after_command status\<rparr>)"

inductive_cases cl_stepE: "cl_step lim cap status st st'"

abbreviation cl_reaches :: "nat \<Rightarrow> nat \<Rightarrow> go_err option \<Rightarrow> cl_state \<Rightarrow> cl_state \<Rightarrow> bool" where
  "cl_reaches lim cap status \<equiv> (cl_step lim cap status)\<^sup>*\<^sup>*"

lemma cl_step_then:
  "cl_step lim cap status a b \<Longrightarrow> cl_reaches lim cap status b c \<Longrightarrow> cl_reaches lim cap status a c"
  by (rule converse_rtranclp_into_rtranclp)

lemma cl_reaches_trans:
  "cl_reaches lim cap status a b \<Longrightarrow> cl_reaches lim cap status b c \<Longrightarrow> cl_reaches lim cap status a c"
  by (rule rtranclp_trans)

section \<open>Every run ends\<close>

text \<open>
  A byte is written, read and consumed once; every other step moves a goroutine, the process or
  \<open>Run\<close> forward.
\<close>

fun go_rank :: "goroutine \<Rightarrow> nat" where
  "go_rank Scanning = 4" | "go_rank AtEOF = 3" | "go_rank (Sending _) = 2" | "go_rank Leaving = 1" | "go_rank Finished = 0"

fun pc_rank :: "run_state_pc \<Rightarrow> nat" where
  "pc_rank InLoggerWait = 2" | "pc_rank InCmdWait = 1" | "pc_rank (Returned _) = 0"

definition stream_work :: "cl_state \<Rightarrow> stream \<Rightarrow> nat" where
  "stream_work st s = 2 * length (cl_pipe st s) + length (cl_buf st s) + go_rank (cl_go st s)"

definition work_left :: "cl_state \<Rightarrow> nat" where
  "work_left st = 3 * length (cl_script st) + (if cl_exited st then 0 else 1) + stream_work st Stderr + stream_work st Stdout +
     pc_rank (cl_pc st)"

lemmas work_defs = work_left_def stream_work_def

lemma ScanLines_shrinks: "ScanLines data eof = Some (tok, rest) \<Longrightarrow> length rest < length data"
  by (auto simp: ScanLines_def split: option.splits if_splits dest!: break_at_SomeD)

lemma pc_rank_after [simp]: "pc_rank (after_logger e) < 2" "pc_rank (after_command e) = 0"
  by (simp_all add: after_logger_def after_command_def split: option.splits)

lemma cl_step_decreases: "cl_step lim cap status st st' \<Longrightarrow> work_left st' < work_left st"
proof (induction rule: cl_step.induct)
  case (scan_token st s go tok rest)
  then show ?case using ScanLines_shrinks [OF scan_token(3)] by (cases s) (auto simp: work_defs)
next
  case (scan_read st s got left)
  then show ?case by (cases s; cases got) (auto simp: work_defs)
next
  case (logger_returns st)
  then show ?case using pc_rank_after(1) [of "errors_Join (map Some (cl_errs st))"] by (simp add: work_defs)
next
  case (process_writes st s c script)
  then show ?case by (cases s) (auto simp: work_defs)
next
  case (scan_too_long st s)
  then show ?case by (cases s) (auto simp: work_defs)
next
  case (scan_eof st s)
  then show ?case by (cases s) (auto simp: work_defs)
next
  case (scan_ends st s)
  then show ?case by (cases s) (auto simp: work_defs)
next
  case (send_error st s e)
  then show ?case by (cases s) (auto simp: work_defs)
next
  case (wg_done st s)
  then show ?case by (cases s) (auto simp: work_defs)
qed (auto simp: work_defs)

definition cl_stuck :: "nat \<Rightarrow> nat \<Rightarrow> go_err option \<Rightarrow> cl_state \<Rightarrow> bool" where
  "cl_stuck lim cap status st = (\<forall>st'. \<not> cl_step lim cap status st st')"

section \<open>The invariant of a run\<close>

text \<open>What of a stream is not in the log yet.\<close>

definition remaining :: "cl_state \<Rightarrow> stream \<Rightarrow> string" where
  "remaining st s = cl_buf st s @ cl_pipe st s @ output_of s (cl_script st)"

text \<open>
  Nothing is lost, repeated or reordered: what is logged of a stream and the lines of what is still
  to come are the lines of the process's output. A goroutine that is past its loop has logged
  everything, unless the scanner gave up on a line.
\<close>

definition stream_ok :: "nat \<Rightarrow> (stream \<times> char) list \<Rightarrow> cl_state \<Rightarrow> stream \<Rightarrow> bool" where
  "stream_ok lim script st s \<longleftrightarrow>
     logged s st @ log_lines (remaining st s) = log_lines (output_of s script) \<and>
     short_lines lim (remaining st s) \<and>
     (case cl_go st s of
        Scanning \<Rightarrow> True
      | Sending _ \<Rightarrow> False
      | AtEOF \<Rightarrow> cl_exited st \<and> cl_pipe st s = []
      | _ \<Rightarrow> cl_exited st \<and> remaining st s = [])"

definition unfinished :: "cl_state \<Rightarrow> nat" where
  "unfinished st = (if cl_go st Stderr = Finished then 0 else 1) + (if cl_go st Stdout = Finished then 0 else 1)"

definition pc_ok :: "go_err option \<Rightarrow> cl_state \<Rightarrow> bool" where
  "pc_ok status st \<longleftrightarrow>
     cl_wg st = unfinished st \<and> cl_errs st = [] \<and> (cl_exited st \<longrightarrow> cl_script st = []) \<and>
     (case cl_pc st of
        InLoggerWait \<Rightarrow> True
      | InCmdWait \<Rightarrow> cl_wg st = 0
      | Returned e \<Rightarrow> cl_wg st = 0 \<and> cl_exited st \<and> e = map_option (Errorf ''error while waiting on the command'') status)"

definition cl_inv :: "nat \<Rightarrow> go_err option \<Rightarrow> (stream \<times> char) list \<Rightarrow> cl_state \<Rightarrow> bool" where
  "cl_inv lim status script st \<longleftrightarrow> (\<forall>s. stream_ok lim script st s) \<and> pc_ok status st"

lemmas inv_defs = stream_ok_def remaining_def pc_ok_def unfinished_def

lemma cl_inv_start:
  "\<forall>s. short_lines lim (output_of s script) \<Longrightarrow> cl_inv lim status script (CommandLogger_Wait_start script)"
  by (simp add: cl_inv_def inv_defs CommandLogger_Wait_start_def goroutines_def)

text \<open>A token moves one line from what remains to the log.\<close>

lemma ScanLines_line:
  assumes "ScanLines buf eof = Some (tok, rest)" and "eof \<Longrightarrow> coming = []"
  shows "log_lines (buf @ coming) = tok # log_lines (rest @ coming)"
    and "short_lines lim (buf @ coming) \<Longrightarrow> short_lines lim (rest @ coming)"
proof -
  consider l where "buf = l @ newline # rest" "newline \<notin> set l" "tok = dropCR l"
    | "newline \<notin> set buf" "eof" "buf \<noteq> []" "tok = dropCR buf" "rest = []"
    using assms(1) by (auto simp: ScanLines_def break_at_None split: option.splits if_splits dest: break_at_SomeD)
  note cs = this
  from cs show "log_lines (buf @ coming) = tok # log_lines (rest @ coming)"
    using assms(2) by cases (simp_all add: log_lines_line log_lines_last)
  from cs show "short_lines lim (buf @ coming) \<Longrightarrow> short_lines lim (rest @ coming)"
  proof cases
    case 1
    then show "short_lines lim (buf @ coming) \<Longrightarrow> short_lines lim (rest @ coming)" by (auto dest: short_lines_rest)
  next
    case 2
    then show "short_lines lim (buf @ coming) \<Longrightarrow> short_lines lim (rest @ coming)"
      using assms(2) by (simp add: short_lines_def split_one_line)
  qed
qed

lemma ScanLines_None: "ScanLines buf eof = None \<longleftrightarrow> newline \<notin> set buf \<and> (eof \<longrightarrow> buf = [])"
  by (cases "break_at newline buf")
    (auto simp: ScanLines_def break_at_None [symmetric] split: prod.splits)

text \<open>With every line short enough the scanner never gives up.\<close>

lemma never_too_long:
  assumes "stream_ok lim script st s" and "ScanLines (cl_buf st s) False = None"
  shows "length (cl_buf st s) < lim"
  using assms short_lines_buffer [of lim "cl_buf st s"] by (auto simp: inv_defs ScanLines_None)

text \<open>A step of one goroutine leaves the other stream alone.\<close>

lemma cl_inv_frame:
  assumes "cl_inv lim status script st" and "stream_ok lim script st' s" and "pc_ok status st'"
    and "\<And>s'. s' \<noteq> s \<Longrightarrow> cl_buf st' s' = cl_buf st s' \<and> cl_pipe st' s' = cl_pipe st s' \<and> cl_go st' s' = cl_go st s' \<and>
           logged s' st' = logged s' st \<and> output_of s' (cl_script st') = output_of s' (cl_script st)"
    and "cl_exited st' = cl_exited st"
  shows "cl_inv lim status script st'"
proof -
  have "stream_ok lim script st' s'" for s'
  proof (cases "s' = s")
    case False
    then have "stream_ok lim script st' s' = stream_ok lim script st s'"
      using assms(4) [OF False] assms(5) by (simp add: stream_ok_def remaining_def split: goroutine.splits)
    then show ?thesis using assms(1) by (simp add: cl_inv_def)
  qed (use assms(2) in simp)
  with assms(3) show ?thesis by (simp add: cl_inv_def)
qed

lemma pc_ok_frame:
  assumes "pc_ok status st" and "cl_wg st' = cl_wg st" "cl_go st' = (cl_go st)(s := go)" "cl_go st s \<noteq> Finished" "go \<noteq> Finished"
    and "cl_errs st' = cl_errs st" "cl_exited st' = cl_exited st" "cl_pc st' = cl_pc st" "cl_script st = [] \<Longrightarrow> cl_script st' = []"
  shows "pc_ok status st'"
  using assms by (cases s; cases "cl_pc st") (auto simp: pc_ok_def unfinished_def)

lemma cl_inv_step:
  assumes "cl_step lim cap status st st'" and "cl_inv lim status script st"
  shows "cl_inv lim status script st'"
  using assms
proof (induction rule: cl_step.induct)
  case (process_writes st s c rest)
  then have ok: "stream_ok lim script st s" and pc: "pc_ok status st" by (simp_all add: cl_inv_def)
  then have "cl_go st s = Scanning" using process_writes(1)
    by (cases "cl_go st s") (auto simp: stream_ok_def pc_ok_def)
  then show ?case using ok process_writes(1)
    by (intro cl_inv_frame [OF process_writes(3), of _ s] pc_ok_frame [OF pc, of _ s Scanning]) (auto simp: stream_ok_def remaining_def)
next
  case (process_exits st)
  then show ?case
    by (cases "cl_pc st") (auto simp: cl_inv_def stream_ok_def pc_ok_def unfinished_def remaining_def split: goroutine.splits)
next
  case (scan_token st s go tok rest)
  then have ok: "stream_ok lim script st s" and pc: "pc_ok status st" by (simp_all add: cl_inv_def)
  have "go = AtEOF \<Longrightarrow> cl_pipe st s @ output_of s (cl_script st) = []"
    using ok pc scan_token(1) by (auto simp: stream_ok_def pc_ok_def)
  note line = ScanLines_line [OF scan_token(3) this, unfolded append_assoc]
  show ?case using ok scan_token(1,2) line(1) line(2) [of lim]
    by (intro cl_inv_frame [OF scan_token(4), of _ s] pc_ok_frame [OF pc, of _ s go]) (auto simp: stream_ok_def remaining_def)
next
  case (scan_read st s got left)
  then have ok: "stream_ok lim script st s" and pc: "pc_ok status st" by (simp_all add: cl_inv_def)
  show ?case using ok scan_read(1,3)
    by (intro cl_inv_frame [OF scan_read(6), of _ s] pc_ok_frame [OF pc, of _ s Scanning]) (auto simp: stream_ok_def remaining_def)
next
  case (scan_too_long st s)
  then show ?case using never_too_long [of lim script st s] by (auto simp: cl_inv_def)
next
  case (scan_eof st s)
  then have ok: "stream_ok lim script st s" and pc: "pc_ok status st" by (simp_all add: cl_inv_def)
  show ?case using ok scan_eof(1,4,5)
    by (intro cl_inv_frame [OF scan_eof(6), of _ s] pc_ok_frame [OF pc, of _ s AtEOF]) (auto simp: stream_ok_def remaining_def)
next
  case (scan_ends st s)
  then have ok: "stream_ok lim script st s" and pc: "pc_ok status st" by (simp_all add: cl_inv_def)
  show ?case using ok pc scan_ends(1,2)
    by (intro cl_inv_frame [OF scan_ends(3), of _ s] pc_ok_frame [OF pc, of _ s Leaving])
      (auto simp: stream_ok_def remaining_def ScanLines_None pc_ok_def)
next
  case (send_error st s e)
  then have "stream_ok lim script st s" by (simp add: cl_inv_def)
  with send_error show ?case by (simp add: stream_ok_def)
next
  case (wg_done st s)
  then have ok: "stream_ok lim script st s" and pc: "pc_ok status st" by (simp_all add: cl_inv_def)
  have "pc_ok status (st\<lparr>cl_wg := cl_wg st - 1, cl_go := (cl_go st)(s := Finished)\<rparr>)"
    using pc wg_done(1) by (cases s; cases "cl_pc st") (auto simp: pc_ok_def unfinished_def)
  then show ?case using ok wg_done(1)
    by (intro cl_inv_frame [OF wg_done(2), of _ s]) (auto simp: stream_ok_def remaining_def)
next
  case (logger_returns st)
  then show ?case
    by (auto simp: cl_inv_def stream_ok_def remaining_def pc_ok_def unfinished_def after_logger_def split: goroutine.splits)
next
  case (command_returns st)
  then show ?case
    by (auto simp: cl_inv_def stream_ok_def remaining_def pc_ok_def unfinished_def after_command_def split: goroutine.splits)
qed

text \<open>
  Why no run gets stuck: a pipe that blocks the process is full, so its own goroutine can read
  from it, whatever the other one is doing.
\<close>

lemma token_moves:
  assumes "ScanLines (cl_buf st s) (cl_go st s = AtEOF) = Some t" and "cl_go st s = Scanning \<or> cl_go st s = AtEOF"
  shows "\<exists>st'. cl_step lim cap status st st'"
proof -
  obtain tok rest where "t = (tok, rest)" by (cases t)
  then show ?thesis using scan_token [OF refl assms(2)] assms(1) by blast
qed

lemma scanner_moves:
  assumes "stream_ok lim script st s" and "cl_go st s = Scanning" and "cl_pipe st s \<noteq> []"
  shows "\<exists>st'. cl_step lim cap status st st'"
proof (cases "ScanLines (cl_buf st s) False")
  case None
  with never_too_long [OF assms(1)] have "length (cl_buf st s @ [hd (cl_pipe st s)]) \<le> lim" by simp
  moreover have "cl_pipe st s = [hd (cl_pipe st s)] @ tl (cl_pipe st s)" using assms(3) by simp
  ultimately show ?thesis using scan_read [OF assms(2) None] by blast
next
  case (Some t)
  then show ?thesis using token_moves [of st s t] assms(2) by simp
qed

lemma goroutine_moves:
  assumes inv: "cl_inv lim status script st" and s: "cl_go st s \<noteq> Finished" and cap: "0 < cap"
  shows "\<exists>st'. cl_step lim cap status st st'"
proof -
  have ok: "\<And>s. stream_ok lim script st s" using inv by (simp add: cl_inv_def)
  consider "cl_go st s = Scanning" | "cl_go st s = AtEOF" | "cl_go st s = Leaving"
    using s ok [of s] by (cases "cl_go st s") (auto simp: stream_ok_def)
  then show ?thesis
  proof cases
    case 1
    show ?thesis
    proof (cases "cl_pipe st s = [] \<and> ScanLines (cl_buf st s) False = None")
      case blocked: True
      show ?thesis
      proof (cases "cl_script st")
        case Nil
        then show ?thesis
          using blocked 1 never_too_long [OF ok, of s] process_exits [of st] scan_eof [of st s] by (cases "cl_exited st") auto
      next
        case (Cons x rest)
        obtain s' c where x: "x = (s', c)" by (cases x)
        have "\<not> cl_exited st" using inv Cons by (auto simp: cl_inv_def pc_ok_def)
        then have "cl_go st s' = Scanning"
          using ok [of s'] by (cases "cl_go st s'") (auto simp: stream_ok_def)
        then show ?thesis
          using process_writes [of st s' c rest cap] scanner_moves [OF ok, of s'] Cons x cap
          by (cases "cl_pipe st s' = []") auto
      qed
    next
      case False
      then show ?thesis using scanner_moves [OF ok 1] token_moves [of st s] 1 by auto
    qed
  next
    case 2
    then show ?thesis using token_moves [of st s] scan_ends [OF 2] by (cases "ScanLines (cl_buf st s) True") auto
  next
    case 3
    then show ?thesis using wg_done by blast
  qed
qed

text \<open>Where a run is to end: with the exit status, and everything logged.\<close>

definition cl_finished :: "go_err option \<Rightarrow> (stream \<times> char) list \<Rightarrow> cl_state \<Rightarrow> bool" where
  "cl_finished status script st \<longleftrightarrow> cl_pc st = Returned (map_option (Errorf ''error while waiting on the command'') status) \<and>
     (\<forall>s. logged s st = log_lines (output_of s script))"

lemma stuck_finished:
  assumes inv: "cl_inv lim status script st" and stuck: "\<And>st'. \<not> cl_step lim cap status st st'" and "0 < cap"
  shows "cl_finished status script st"
proof -
  have fin: "cl_go st s = Finished" for s using goroutine_moves [OF inv _ assms(3)] stuck by blast
  then have "cl_wg st = 0" "cl_exited st"
    using inv by (auto simp: cl_inv_def pc_ok_def unfinished_def stream_ok_def)
  then have "\<exists>e. cl_pc st = Returned e"
    using stuck logger_returns [of st] command_returns [of st] by (cases "cl_pc st") auto
  moreover have "logged s st = log_lines (output_of s script)" for s
    using inv fin [of s] by (auto simp: cl_inv_def stream_ok_def dest: spec [of _ s])
  ultimately show ?thesis using inv by (auto simp: cl_finished_def cl_inv_def pc_ok_def)
qed

interpretation logger: converging_steps "cl_step lim (Suc c) status" "cl_inv lim status script" work_left "cl_finished status script"
  for lim c status script
proof
  show "cl_step lim (Suc c) status st st' \<Longrightarrow> cl_inv lim status script st \<Longrightarrow> cl_inv lim status script st'" for st st'
    by (rule cl_inv_step)
  show "cl_step lim (Suc c) status st st' \<Longrightarrow> work_left st' < work_left st" for st st' by (rule cl_step_decreases)
  show "cl_inv lim status script st \<Longrightarrow> (\<And>st'. \<not> cl_step lim (Suc c) status st st') \<Longrightarrow> cl_finished status script st" for st
    by (rule stuck_finished [OF _ _ zero_less_Suc])
qed

section \<open>What a run of modprobe guarantees\<close>

text \<open>
  C11: Running modprobe neither hangs nor loses output. Whatever modprobe writes to its two output
  streams, in whatever order, with pipes of any capacity, and however its writes, the reads of the
  two logging goroutines and the waits interleave: as long as no line of the output reaches the
  scanner's limit, no execution goes on forever, and from every state an execution can be in, it
  goes on to (and can only come to rest in) a state where \<open>Run\<close> has returned exactly the exit
  status of the process and the log holds every line of each stream, once and in order.
\<close>

theorem modprobe_run_ends_and_logs_everything:
  assumes "Run_start stderrPipe stdoutPipe start script = Inr st0"
    and "\<forall>s. short_lines MaxScanTokenSize (output_of s script)" and "0 < cap"
    and "cl_reaches MaxScanTokenSize cap status st0 st"
  shows "wf {(st2, st1). cl_step MaxScanTokenSize cap status st1 st2} \<and>
    (\<exists>st'. cl_reaches MaxScanTokenSize cap status st st' \<and> cl_finished status script st') \<and>
    (cl_stuck MaxScanTokenSize cap status st \<longrightarrow> cl_finished status script st)"
proof -
  obtain c where cap: "cap = Suc c" using assms(3) gr0_conv_Suc by blast
  have "st0 = CommandLogger_Wait_start script"
    using assms(1) by (auto simp: Run_start_def split: option.splits)
  with logger.reachable [OF assms(4) [unfolded cap]] have inv: "cl_inv MaxScanTokenSize status script st"
    using cl_inv_start [OF assms(2)] by blast
  have "wf {(st2, st1). cl_step MaxScanTokenSize cap status st1 st2}" unfolding cap by (rule logger.no_endless_run)
  moreover have "\<exists>st'. cl_reaches MaxScanTokenSize cap status st st' \<and> cl_finished status script st'"
    unfolding cap by (rule logger.reaches_goal [OF inv])
  moreover have "cl_stuck MaxScanTokenSize cap status st \<Longrightarrow> cl_finished status script st"
    unfolding cap cl_stuck_def by (rule logger.rests_only_at_goal [OF inv]) blast
  ultimately show ?thesis by blast
qed

theorem modprobe_run_ends_and_logs_everything_witness:
  "\<exists>st. cl_reaches MaxScanTokenSize 2 None
          (CommandLogger_Wait_start [(Stderr, CHR ''a''), (Stdout, CHR ''b''), (Stderr, newline), (Stderr, CHR ''c'')]) st \<and>
        cl_pc st = Returned None \<and> logged Stderr st = [''a'', ''c''] \<and> logged Stdout st = [''b'']"
proof -
  define script where "script = [(Stderr, CHR ''a''), (Stdout, CHR ''b''), (Stderr, newline), (Stderr, CHR ''c'')]"
  have out: "output_of Stderr script = [CHR ''a'', newline, CHR ''c'']" "output_of Stdout script = ''b''"
    by (simp_all add: script_def)
  have short: "short_lines MaxScanTokenSize (output_of s script)" for s
    by (cases s) (simp_all add: out short_lines_def MaxScanTokenSize_def)
  have "Run_start None None None script = Inr (CommandLogger_Wait_start script)"
    by (simp add: Run_start_def NewCommandLogger_def)
  from modprobe_run_ends_and_logs_everything [OF this _ _ rtranclp.rtrancl_refl, of 2 None] short
  obtain st where "cl_reaches MaxScanTokenSize 2 None (CommandLogger_Wait_start script) st" "cl_pc st = Returned None"
    and "\<And>s. logged s st = log_lines (output_of s script)" by (auto simp: cl_finished_def)
  moreover from this(3) have "logged Stderr st = [''a'', ''c'']" "logged Stdout st = [''b'']"
    by (simp_all add: out log_lines_def dropCR_def go_str)
  ultimately show ?thesis unfolding script_def by blast
qed

section \<open>A line that is too long\<close>

text \<open>
  The hypothesis on the lines is needed. When the scanner of a stream gives up, its goroutine stops
  reading the pipe, so a process that goes on writing to that stream blocks as soon as the pipe is
  full; it never exits, the other goroutine never sees the end of its stream, and \<open>Run\<close> waits
  forever (until the context is cancelled).
\<close>

lemma writes_and_reads:
  assumes "cl_script st = replicate n (Stderr, CHR ''x'') @ script" and "cl_go st Stderr = Scanning" and "0 < cap"
    and "cl_pipe st Stderr = []" and "newline \<notin> set (cl_buf st Stderr)" and "length (cl_buf st Stderr) + n \<le> lim"
  shows "cl_reaches lim cap status st
           (st\<lparr>cl_script := script, cl_buf := (cl_buf st)(Stderr := cl_buf st Stderr @ replicate n CHR ''x'')\<rparr>)"
  using assms
proof (induction n arbitrary: st)
  case 0
  then have "st\<lparr>cl_script := script\<rparr> = st" by (cases st) simp
  then show ?case by simp
next
  case (Suc n)
  let ?st1 = "st\<lparr>cl_script := replicate n (Stderr, CHR ''x'') @ script, cl_pipe := (cl_pipe st)(Stderr := ''x'')\<rparr>"
  let ?st2 = "?st1\<lparr>cl_pipe := (cl_pipe ?st1)(Stderr := []), cl_buf := (cl_buf ?st1)(Stderr := cl_buf ?st1 Stderr @ ''x'')\<rparr>"
  have 1: "cl_step lim cap status st ?st1"
    using process_writes [of st Stderr "CHR ''x''" "replicate n (Stderr, CHR ''x'') @ script" cap lim status] Suc.prems by simp
  have 2: "cl_step lim cap status ?st1 ?st2"
    by (rule scan_read [of ?st1 Stderr "''x''" "[]"]) (use Suc.prems in \<open>auto simp: ScanLines_None\<close>)
  have 3: "cl_reaches lim cap status ?st2
      (?st2\<lparr>cl_script := script, cl_buf := (cl_buf ?st2)(Stderr := cl_buf ?st2 Stderr @ replicate n CHR ''x'')\<rparr>)"
    by (rule Suc.IH) (use Suc.prems in auto)
  have "(?st2\<lparr>cl_script := script, cl_buf := (cl_buf ?st2)(Stderr := cl_buf ?st2 Stderr @ replicate n CHR ''x'')\<rparr>) =
      st\<lparr>cl_script := script, cl_buf := (cl_buf st)(Stderr := cl_buf st Stderr @ replicate (Suc n) CHR ''x'')\<rparr>"
    using Suc.prems by (simp add: fun_upd_idem)
  note 3 = 3 [unfolded this]
  show ?case by (rule cl_step_then [OF 1 cl_step_then [OF 2 3]])
qed

lemma fills_the_pipe:
  assumes "cl_script st = replicate n (Stderr, CHR ''x'') @ script" and "length (cl_pipe st Stderr) + n \<le> cap"
  shows "cl_reaches lim cap status st
           (st\<lparr>cl_script := script, cl_pipe := (cl_pipe st)(Stderr := cl_pipe st Stderr @ replicate n CHR ''x'')\<rparr>)"
  using assms
proof (induction n arbitrary: st)
  case 0
  then have "st\<lparr>cl_script := script\<rparr> = st" by (cases st) simp
  then show ?case by simp
next
  case (Suc n)
  let ?st1 = "st\<lparr>cl_script := replicate n (Stderr, CHR ''x'') @ script, cl_pipe := (cl_pipe st)(Stderr := cl_pipe st Stderr @ ''x'')\<rparr>"
  have 1: "cl_step lim cap status st ?st1"
    using process_writes [of st Stderr "CHR ''x''" "replicate n (Stderr, CHR ''x'') @ script" cap lim status] Suc.prems by simp
  have "cl_reaches lim cap status ?st1
      (?st1\<lparr>cl_script := script, cl_pipe := (cl_pipe ?st1)(Stderr := cl_pipe ?st1 Stderr @ replicate n CHR ''x'')\<rparr>)"
    by (rule Suc.IH) (use Suc.prems in auto)
  then have "cl_reaches lim cap status ?st1
      (st\<lparr>cl_script := script, cl_pipe := (cl_pipe st)(Stderr := cl_pipe st Stderr @ replicate (Suc n) CHR ''x'')\<rparr>)"
    by simp
  with 1 show ?case by (rule cl_step_then)
qed

theorem long_line_blocks_modprobe:
  assumes "0 < cap" and "0 < lim"
  shows "\<exists>st. cl_reaches lim cap status (CommandLogger_Wait_start (replicate (lim + cap + 1) (Stderr, CHR ''x''))) st \<and>
              cl_stuck lim cap status st \<and> cl_pc st = InLoggerWait \<and> \<not> cl_exited st"
proof -
  let ?st0 = "CommandLogger_Wait_start (replicate (lim + cap + 1) (Stderr, CHR ''x''))"
  let ?st1 = "?st0\<lparr>cl_script := replicate (cap + 1) (Stderr, CHR ''x''), cl_buf := (cl_buf ?st0)(Stderr := replicate lim CHR ''x'')\<rparr>"
  let ?st4 = "?st1\<lparr>cl_errs := [ErrTooLong], cl_wg := 1, cl_go := (cl_go ?st1)(Stderr := Finished)\<rparr>"
  let ?st5 = "?st4\<lparr>cl_script := [(Stderr, CHR ''x'')], cl_pipe := (cl_pipe ?st4)(Stderr := replicate cap CHR ''x'')\<rparr>"
  have "cl_script ?st0 = replicate lim (Stderr, CHR ''x'') @ replicate (cap + 1) (Stderr, CHR ''x'')"
    by (simp only: CommandLogger_Wait_start_def cl_state.simps replicate_add [symmetric] add.assoc)
  then have "cl_reaches lim cap status ?st0
      (?st0\<lparr>cl_script := replicate (cap + 1) (Stderr, CHR ''x''),
            cl_buf := (cl_buf ?st0)(Stderr := cl_buf ?st0 Stderr @ replicate lim CHR ''x'')\<rparr>)"
    by (rule writes_and_reads) (use assms in \<open>simp_all add: CommandLogger_Wait_start_def\<close>)
  then have 1: "cl_reaches lim cap status ?st0 ?st1" by (simp add: CommandLogger_Wait_start_def)
  have 2: "cl_reaches lim cap status ?st1 ?st4"
  proof -
    let ?st2 = "?st1\<lparr>cl_go := (cl_go ?st1)(Stderr := Sending ErrTooLong)\<rparr>"
    let ?st3 = "?st2\<lparr>cl_errs := cl_errs ?st2 @ [ErrTooLong], cl_go := (cl_go ?st2)(Stderr := Leaving)\<rparr>"
    have 1: "cl_step lim cap status ?st1 ?st2"
      by (rule scan_too_long) (auto simp: CommandLogger_Wait_start_def ScanLines_None)
    have 2: "cl_step lim cap status ?st2 ?st3"
      by (rule send_error) (auto simp: CommandLogger_Wait_start_def goroutines_def)
    have 3: "cl_step lim cap status ?st3 (?st3\<lparr>cl_wg := cl_wg ?st3 - 1, cl_go := (cl_go ?st3)(Stderr := Finished)\<rparr>)"
      by (rule wg_done) simp
    have "?st3\<lparr>cl_wg := cl_wg ?st3 - 1, cl_go := (cl_go ?st3)(Stderr := Finished)\<rparr> = ?st4"
      by (simp add: CommandLogger_Wait_start_def goroutines_def)
    note 3 = 3 [unfolded this]
    show ?thesis
      by (rule cl_step_then [OF 1 cl_step_then [OF 2 cl_step_then [OF 3 rtranclp.rtrancl_refl]]])
  qed
  have 3: "cl_reaches lim cap status ?st4 ?st5"
    using fills_the_pipe [of ?st4 cap "[(Stderr, CHR ''x'')]" cap lim status]
    by (simp add: CommandLogger_Wait_start_def replicate_append_same)
  have "cl_reaches lim cap status ?st0 ?st5" by (rule cl_reaches_trans [OF 1 cl_reaches_trans [OF 2 3]])
  moreover have "cl_stuck lim cap status ?st5"
    unfolding cl_stuck_def
  proof (intro allI notI)
    fix st'
    assume "cl_step lim cap status ?st5 st'"
    then show False using assms(2)
      by (cases rule: cl_stepE) (auto simp: CommandLogger_Wait_start_def ScanLines_def break_at_def split: if_splits)
  qed
  ultimately show ?thesis by (intro exI [of _ ?st5]) (simp add: CommandLogger_Wait_start_def)
qed

section \<open>Cancellation\<close>

text \<open>
  \<open>exec.CommandContext\<close> kills the process when the context is done, which for the worker is when its pod is
  terminated. The process may be killed at any moment; what \<open>cmd.Wait\<close> reports then is part of \<open>status\<close>.
\<close>

inductive cl_step_ctx :: "nat \<Rightarrow> nat \<Rightarrow> go_err option \<Rightarrow> cl_state \<Rightarrow> cl_state \<Rightarrow> bool" for lim cap status where
  ctx_runs: "cl_step lim cap status st st' \<Longrightarrow> cl_step_ctx lim cap status st st'"
| ctx_killed: "\<not> cl_exited st \<Longrightarrow> cl_step_ctx lim cap status st (st\<lparr>cl_script := [], cl_exited := True\<rparr>)"

text \<open>
  Without any assumption on the output: the group counts the goroutines that have not finished, and each has sent at
  most one error, so there is always room in the channel.
\<close>

definition past_sending :: "cl_state \<Rightarrow> nat" where
  "past_sending st = (if cl_go st Stderr \<in> {Leaving, Finished} then 1 else 0) + (if cl_go st Stdout \<in> {Leaving, Finished} then 1 else 0)"

definition group_ok :: "cl_state \<Rightarrow> bool" where
  "group_ok st \<longleftrightarrow> cl_wg st = unfinished st \<and> length (cl_errs st) \<le> past_sending st"

lemmas group_defs = group_ok_def past_sending_def unfinished_def

lemma group_ok_step: "cl_step lim cap status st st' \<Longrightarrow> group_ok st \<Longrightarrow> group_ok st'"
proof (induction rule: cl_step.induct)
  case (scan_too_long st s)
  then show ?case by (cases s) (auto simp: group_defs split: if_splits)
next
  case (scan_eof st s)
  then show ?case by (cases s) (auto simp: group_defs split: if_splits)
next
  case (scan_ends st s)
  then show ?case by (cases s) (auto simp: group_defs split: if_splits)
next
  case (send_error st s e)
  then show ?case by (cases s) (auto simp: group_defs split: if_splits)
next
  case (wg_done st s)
  then show ?case by (cases s) (auto simp: group_defs split: if_splits)
qed (simp_all add: group_defs)

lemma sender_has_room: "group_ok st \<Longrightarrow> cl_go st s = Sending e \<Longrightarrow> length (cl_errs st) < goroutines"
  by (cases s) (auto simp: group_defs goroutines_def split: if_splits)

lemma exited_goroutine_moves:
  assumes "group_ok st" and "cl_exited st" and "cl_go st s \<noteq> Finished"
  shows "\<exists>st'. cl_step lim cap status st st'"
proof (cases "cl_go st s")
  case Scanning
  show ?thesis
  proof (cases "ScanLines (cl_buf st s) False")
    case None
    show ?thesis
    proof (cases "length (cl_buf st s) < lim \<and> cl_pipe st s \<noteq> []")
      case True
      then have "cl_pipe st s = [hd (cl_pipe st s)] @ tl (cl_pipe st s)" "length (cl_buf st s @ [hd (cl_pipe st s)]) \<le> lim" by simp_all
      then show ?thesis using scan_read [OF Scanning None] by blast
    next
      case False
      then show ?thesis using scan_eof [OF Scanning None] scan_too_long [OF Scanning None] assms(2) by (metis not_le)
    qed
  qed (use token_moves [of st s] Scanning in auto)
next
  case AtEOF
  then show ?thesis using token_moves [of st s] scan_ends [OF AtEOF] by (cases "ScanLines (cl_buf st s) True") auto
next
  case (Sending e)
  then show ?thesis using send_error sender_has_room [OF assms(1)] by blast
next
  case Leaving
  then show ?thesis using wg_done by blast
qed (use assms(3) in simp)

interpretation cancelled: converging_steps "cl_step_ctx lim cap status" group_ok work_left "\<lambda>st. \<exists>e. cl_pc st = Returned e"
  for lim cap status
proof
  show "cl_step_ctx lim cap status st st' \<Longrightarrow> group_ok st \<Longrightarrow> group_ok st'" for st st'
    by (induction rule: cl_step_ctx.induct) (rule group_ok_step, assumption+, simp add: group_defs)
  show "cl_step_ctx lim cap status st st' \<Longrightarrow> work_left st' < work_left st" for st st'
    by (induction rule: cl_step_ctx.induct) (rule cl_step_decreases, assumption, simp add: work_defs)
  show "\<exists>e. cl_pc st = Returned e" if ok: "group_ok st" and rest: "\<And>st'. \<not> cl_step_ctx lim cap status st st'" for st
  proof -
    have ex: "cl_exited st" using rest ctx_killed by blast
    have no: "\<not> cl_step lim cap status st st'" for st' using rest ctx_runs by blast
    then have "cl_go st s = Finished" for s using exited_goroutine_moves [OF ok ex] by blast
    then have "cl_wg st = 0" using ok by (simp add: group_defs)
    then show ?thesis using ex no logger_returns [of st] command_returns [of st] by (cases "cl_pc st") auto
  qed
qed

text \<open>
  So a cancelled run ends whatever the process writes: from every state a run can be in, long lines or not, \<open>Run\<close> returns
  once the process may be killed, and no execution goes on forever.
\<close>

theorem cancelled_run_returns:
  assumes "Run_start stderrPipe stdoutPipe start script = Inr st0"
    and "(cl_step_ctx MaxScanTokenSize cap status)\<^sup>*\<^sup>* st0 st"
  shows "\<exists>st' e. (cl_step_ctx MaxScanTokenSize cap status)\<^sup>*\<^sup>* st st' \<and> cl_pc st' = Returned e"
    and "wf {(st2, st1). cl_step_ctx MaxScanTokenSize cap status st1 st2}"
    and "length (cl_errs st) \<le> goroutines"
proof -
  have "group_ok st0"
    using assms(1) by (auto simp: Run_start_def CommandLogger_Wait_start_def group_defs goroutines_def split: option.splits)
  then have ok: "group_ok st" by (rule cancelled.reachable [OF assms(2)])
  show "\<exists>st' e. (cl_step_ctx MaxScanTokenSize cap status)\<^sup>*\<^sup>* st st' \<and> cl_pc st' = Returned e"
    using cancelled.reaches_goal [OF ok] by blast
  show "wf {(st2, st1). cl_step_ctx MaxScanTokenSize cap status st1 st2}" by (rule cancelled.no_endless_run)
  show "length (cl_errs st) \<le> goroutines" using ok by (auto simp: group_defs goroutines_def split: if_splits)
qed

end
