(* ===== verification/Wiring.thy ===== *)
theory Wiring
  imports Event_Filter Jobs Worker_Pod Mic Mbsc Image_Puller Build_Sign
begin

text \<open>
  How the controllers are wired to the objects of the cluster: the \<open>SetupWithManager\<close> methods of
  \<^verbatim>\<open>internal/controllers/\<close> and \<^verbatim>\<open>internal/controllers/hub/\<close>, as data. A controller watches the
  objects of its own kind (\<open>For\<close>), the objects it controls (\<open>Owns\<close>), and other objects through a
  function to the requests they stand for (\<open>Watches\<close>); predicates choose the events.

  What controller-runtime does with such a description is modelled from its documentation: a watch
  handles the events of its kind that all its predicates and the controller's event filters accept;
  the handler of \<open>For\<close> asks for the object itself, the handler of \<open>Owns\<close> for the controller of
  the object when it is of the \<open>For\<close> kind (in the namespace of the object when that kind is
  namespaced), and the handler of \<open>Watches\<close> for what the function gives; the last two look at the
  old and the new object of an update. The queue keeps one copy of a request.
\<close>

section \<open>Objects and events\<close>

datatype kind = Module_Kind | MIC_Kind | MBSC_Kind | NMC_Kind | Preflight_Kind | Pod_Kind | Node_Kind | DaemonSet_Kind |
  DeviceClass_Kind | ClusterClaim_Kind | MCM_Kind | ManifestWork_Kind | ManagedCluster_Kind

fun kind_name :: "kind \<Rightarrow> string" where
  "kind_name Module_Kind = ''Module''"
| "kind_name MIC_Kind = ''ModuleImagesConfig''"
| "kind_name MBSC_Kind = ''ModuleBuildSignConfig''"
| "kind_name NMC_Kind = ''NodeModulesConfig''"
| "kind_name Preflight_Kind = ''PreflightValidation''"
| "kind_name Pod_Kind = ''Pod''"
| "kind_name Node_Kind = ''Node''"
| "kind_name DaemonSet_Kind = ''DaemonSet''"
| "kind_name DeviceClass_Kind = ''DeviceClass''"
| "kind_name ClusterClaim_Kind = ''ClusterClaim''"
| "kind_name MCM_Kind = ''ManagedClusterModule''"
| "kind_name ManifestWork_Kind = ''ManifestWork''"
| "kind_name ManagedCluster_Kind = ''ManagedCluster''"

lemma kind_name_inject [simp]: "kind_name k = kind_name k' \<longleftrightarrow> k = k'"
  by (cases k; cases k') simp_all

definition namespaced :: "kind \<Rightarrow> bool" where
  "namespaced k \<longleftrightarrow> k \<in> {Module_Kind, MIC_Kind, MBSC_Kind, Pod_Kind, DaemonSet_Kind, ManifestWork_Kind}"

text \<open>An object as the watches see it: its kind and name, its controller, and what the predicates inspect.\<close>

record resource =
  res_kind :: kind
  res_nsn :: nsn
  res_owner :: "owner_ref option"
  res_obj :: obj

datatype res_event = Created resource | Updated resource resource | Deleted resource | Generic resource

fun obj_event :: "res_event \<Rightarrow> event" where
  "obj_event (Created r) = CreateEvent (res_obj r)"
| "obj_event (Updated old new) = UpdateEvent (res_obj old) (res_obj new)"
| "obj_event (Deleted r) = DeleteEvent (res_obj r)"
| "obj_event (Generic r) = GenericEvent (res_obj r)"

fun subject :: "res_event \<Rightarrow> resource" where
  "subject (Created r) = r"
| "subject (Updated old new) = new"
| "subject (Deleted r) = r"
| "subject (Generic r) = r"

fun involved :: "res_event \<Rightarrow> resource list" where
  "involved (Updated old new) = [old, new]"
| "involved ev = [subject ev]"

lemma subject_involved [simp]: "subject ev \<in> set (involved ev)"
  by (cases ev) simp_all

type_synonym res_predicate = "res_event \<Rightarrow> bool"

definition on_obj :: "predicate \<Rightarrow> res_predicate" where
  "on_obj p ev = p (obj_event ev)"

definition accepted :: "res_predicate list \<Rightarrow> res_event \<Rightarrow> bool" where
  "accepted ps ev = list_all (\<lambda>p. p ev) ps"

section \<open>Controllers\<close>

record controller =
  ctl_name :: string
  ctl_for :: kind
  ctl_for_preds :: "res_predicate list"
  ctl_owns :: "(kind \<times> res_predicate list) list"
  ctl_watches :: "(kind \<times> (resource \<Rightarrow> (nsn list) cio) \<times> res_predicate list) list"
  ctl_filters :: "res_predicate list"
  ctl_indexes :: "(kind \<times> string) list"  \<comment> \<open>the field indexes it adds to the cache\<close>

definition controller_for :: "string \<Rightarrow> kind \<Rightarrow> controller" where
  "controller_for name k = \<lparr>ctl_name = name, ctl_for = k, ctl_for_preds = [], ctl_owns = [], ctl_watches = [], ctl_filters = [],
     ctl_indexes = []\<rparr>"

definition owner_request :: "kind \<Rightarrow> resource \<Rightarrow> nsn list" where
  "owner_request k r =
     (case res_owner r of
        None \<Rightarrow> []
      | Some ow \<Rightarrow> if own_kind ow = kind_name k then [(if namespaced k then fst (res_nsn r) else [], own_name ow)] else [])"

definition for_requests :: "controller \<Rightarrow> res_event \<Rightarrow> nsn list" where
  "for_requests c ev =
     (if res_kind (subject ev) = ctl_for c \<and> accepted (ctl_for_preds c) ev then [res_nsn (subject ev)] else [])"

definition owns_requests :: "controller \<Rightarrow> res_event \<Rightarrow> nsn list" where
  "owns_requests c ev =
     concat (map (\<lambda>(k, ps). if res_kind (subject ev) = k \<and> accepted ps ev then concat (map (owner_request (ctl_for c)) (involved ev)) else [])
       (ctl_owns c))"

definition watch_requests :: "res_event \<Rightarrow> kind \<times> (resource \<Rightarrow> (nsn list) cio) \<times> res_predicate list \<Rightarrow> (nsn list) cio" where
  "watch_requests ev w =
     (case w of (k, f, ps) \<Rightarrow>
        if res_kind (subject ev) = k \<and> accepted ps ev then do {
          rs \<leftarrow> State_Monad.traverse_list f (involved ev);
          State_Monad.return (concat rs)
        } else State_Monad.return [])"

definition requests :: "controller \<Rightarrow> res_event \<Rightarrow> (nsn list) cio" where
  "requests c ev =
     (if accepted (ctl_filters c) ev then do {
        ws \<leftarrow> State_Monad.traverse_list (watch_requests ev) (ctl_watches c);
        State_Monad.return (remdups (for_requests c ev @ owns_requests c ev @ concat ws))
      } else State_Monad.return [])"

section \<open>The set-ups\<close>

definition nodeToNMCMapFunc :: "resource \<Rightarrow> (nsn list) cio" where
  "nodeToNMCMapFunc r = State_Monad.return [([], snd (res_nsn r))]"

definition NMCReconciler_SetupWithManager :: controller where
  "NMCReconciler_SetupWithManager = (controller_for ''NodeModulesConfig'' NMC_Kind)\<lparr>
     ctl_owns := [(Pod_Kind, [])],
     ctl_watches := [(Node_Kind, nodeToNMCMapFunc, [on_obj NMCReconcilerNodePredicate])],
     ctl_indexes := [(Pod_Kind, ''.spec.nodeName'')]\<rparr>"

definition DevicePluginReconciler_SetupWithManager :: "library \<Rightarrow> server \<Rightarrow> controller" where
  "DevicePluginReconciler_SetupWithManager lib srv = (controller_for ''DevicePluginReconciler'' Module_Kind)\<lparr>
     ctl_owns := [(DaemonSet_Kind, [])],
     ctl_watches := [(Node_Kind, \<lambda>r. FindModulesForNode lib srv (res_obj r), [on_obj DevicePluginReconcilerNodePredicate])]\<rparr>"

definition DRAReconciler_SetupWithManager :: "predicate \<Rightarrow> library \<Rightarrow> server \<Rightarrow> controller" where
  "DRAReconciler_SetupWithManager LabelChanged lib srv = (controller_for ''DRAReconciler'' Module_Kind)\<lparr>
     ctl_owns := [(DaemonSet_Kind, [])],
     ctl_watches :=
       [(DeviceClass_Kind, \<lambda>r. State_Monad.return (DeviceClassToModuleReconcileRequest (res_obj r)), [on_obj (HasLabel_pred ModuleNameLabel)]),
        (Node_Kind, \<lambda>r. FindModulesForNode lib srv (res_obj r), [on_obj (ModuleReconcilerNodePredicate LabelChanged)])]\<rparr>"

text \<open>The watch is on nodes, so the map function only ever gets nodes.\<close>

definition modules_of_node_change :: "library \<Rightarrow> server \<Rightarrow> resource \<Rightarrow> (nsn list) cio" where
  "modules_of_node_change lib srv r =
     (case res_obj r of Node_Obj n \<Rightarrow> FindModulesForNMCNodeChange lib srv n | _ \<Rightarrow> State_Monad.return [])"

definition ModuleReconciler_SetupWithManager :: "predicate \<Rightarrow> library \<Rightarrow> server \<Rightarrow> controller" where
  "ModuleReconciler_SetupWithManager LabelChanged lib srv = (controller_for ''ModuleReconciler'' Module_Kind)\<lparr>
     ctl_owns := [(Pod_Kind, [on_obj ModuleReconcilePodPredicate]), (MIC_Kind, [on_obj ModuleReconcileMICPredicate])],
     ctl_watches :=
       [(Node_Kind, modules_of_node_change lib srv, [on_obj (ModuleReconcilerNodePredicate LabelChanged)]),
        (NMC_Kind, \<lambda>r. State_Monad.return (ListModulesForNMC (res_obj r)), [])]\<rparr>"

definition Preflight_SetupWithManager :: "predicate \<Rightarrow> server \<Rightarrow> controller" where
  "Preflight_SetupWithManager GenerationChanged srv = (controller_for ''PreflightValidation'' Preflight_Kind)\<lparr>
     ctl_for_preds := [on_obj (PreflightReconcilerUpdatePredicate GenerationChanged)],
     ctl_owns := [(MIC_Kind, [])],
     ctl_watches := [(Module_Kind, \<lambda>r. EnqueueAllPreflightValidations srv, [on_obj (PreflightReconcilerUpdatePredicate GenerationChanged)])]\<rparr>"

definition MICReconciler_SetupWithManager :: controller where
  "MICReconciler_SetupWithManager = (controller_for ''MICReconciler'' MIC_Kind)\<lparr>
     ctl_owns := [(Pod_Kind, []), (MBSC_Kind, [])]\<rparr>"

definition MBSCReconciler_SetupWithManager :: controller where
  "MBSCReconciler_SetupWithManager = (controller_for ''MBSCReconciler'' MBSC_Kind)\<lparr>
     ctl_owns := [(Pod_Kind, [])]\<rparr>"

definition NodeLabelModuleVersion_SetupWithManager :: controller where
  "NodeLabelModuleVersion_SetupWithManager = (controller_for ''NodeLabelModuleVersion'' Node_Kind)\<lparr>
     ctl_filters := [on_obj NodeLabelModuleVersionUpdatePredicate]\<rparr>"

definition on_pods :: "(pod \<Rightarrow> bool) \<Rightarrow> predicate" where
  "on_pods f = NewPredicateFuncs (\<lambda>x. case x of Pod_Obj p \<Rightarrow> f p | _ \<Rightarrow> False)"

definition BuildSignEvents_SetupWithManager :: controller where
  "BuildSignEvents_SetupWithManager = (controller_for ''BuildSignEvents'' Pod_Kind)\<lparr>
     ctl_for_preds := [on_obj (on_pods jobEventPredicate)]\<rparr>"

definition JobGC_SetupWithManager :: controller where
  "JobGC_SetupWithManager = (controller_for ''JobGCReconciler'' Pod_Kind)\<lparr>
     ctl_for_preds := [on_obj (on_pods jobGCPredicate)]\<rparr>"

definition isDaemonSetPod :: "pod \<Rightarrow> bool" where
  "isDaemonSetPod p = list_ex (\<lambda>ow. own_kind ow = ''DaemonSet'') (pod_owners p)"

definition PodNodeLabel_SetupWithManager :: "library \<Rightarrow> controller" where
  "PodNodeLabel_SetupWithManager lib = (controller_for ''PodNodeLabel'' Pod_Kind)\<lparr>
     ctl_filters := [on_obj (p_and (p_or (PodReadinessChangedPredicate lib) DeletingPredicate)
       (p_and (HasLabel_pred ModuleNameLabel) (on_pods isDaemonSetPod)))],
     ctl_indexes := [(Pod_Kind, ''spec.nodeName'')]\<rparr>"

text \<open>The watch of the claim sends the empty request.\<close>

definition NodeKernelClusterClaim_SetupWithManager :: controller where
  "NodeKernelClusterClaim_SetupWithManager = (controller_for ''NodeKernelClusterClaim'' Node_Kind)\<lparr>
     ctl_for_preds := [on_obj NodeUpdateKernelChangedPredicate],
     ctl_watches := [(ClusterClaim_Kind, \<lambda>r. State_Monad.return [([], [])],
       [\<lambda>ev. snd (res_nsn (subject ev)) = KernelVersionsClusterClaimName])]\<rparr>"

definition ManagedClusterModule_SetupWithManager :: "predicate \<Rightarrow> library \<Rightarrow> server \<Rightarrow> controller" where
  "ManagedClusterModule_SetupWithManager LabelChanged lib srv = (controller_for ''ManagedClusterModule'' MCM_Kind)\<lparr>
     ctl_owns := [(ManifestWork_Kind, []), (MIC_Kind, [on_obj ModuleReconcileMICPredicate])],
     ctl_watches := [(ManagedCluster_Kind, \<lambda>r. FindManagedClusterModulesForCluster lib srv (res_obj r),
       [on_obj (ManagedClusterModuleReconcilerManagedClusterPredicate LabelChanged)])]\<rparr>"

lemmas setup_defs = NMCReconciler_SetupWithManager_def DevicePluginReconciler_SetupWithManager_def
  DRAReconciler_SetupWithManager_def ModuleReconciler_SetupWithManager_def Preflight_SetupWithManager_def
  MICReconciler_SetupWithManager_def MBSCReconciler_SetupWithManager_def NodeLabelModuleVersion_SetupWithManager_def
  BuildSignEvents_SetupWithManager_def JobGC_SetupWithManager_def PodNodeLabel_SetupWithManager_def
  NodeKernelClusterClaim_SetupWithManager_def ManagedClusterModule_SetupWithManager_def controller_for_def

definition all_controllers :: "predicate \<Rightarrow> predicate \<Rightarrow> library \<Rightarrow> server \<Rightarrow> controller list" where
  "all_controllers LabelChanged GenerationChanged lib srv =
     [NMCReconciler_SetupWithManager, DevicePluginReconciler_SetupWithManager lib srv, DRAReconciler_SetupWithManager LabelChanged lib srv,
      ModuleReconciler_SetupWithManager LabelChanged lib srv, Preflight_SetupWithManager GenerationChanged srv,
      MICReconciler_SetupWithManager, MBSCReconciler_SetupWithManager, NodeLabelModuleVersion_SetupWithManager,
      BuildSignEvents_SetupWithManager, JobGC_SetupWithManager, PodNodeLabel_SetupWithManager lib,
      NodeKernelClusterClaim_SetupWithManager, ManagedClusterModule_SetupWithManager LabelChanged lib srv]"

text \<open>The objects of the operator as the watches see them.\<close>

definition pod_resource :: "pod \<Rightarrow> resource" where
  "pod_resource p = \<lparr>res_kind = Pod_Kind, res_nsn = pod_nsn p, res_owner = pod_owner p, res_obj = Pod_Obj p\<rparr>"

definition mic_resource :: "mic \<Rightarrow> resource" where
  "mic_resource m = \<lparr>res_kind = MIC_Kind, res_nsn = (mic_namespace m, mic_name m), res_owner = mic_owner m,
     res_obj = Other_Obj [] (mic_deleting m)\<rparr>"

definition mbsc_resource :: "mbsc \<Rightarrow> resource" where
  "mbsc_resource m = \<lparr>res_kind = MBSC_Kind, res_nsn = (mbsc_namespace m, mbsc_name m), res_owner = mbsc_owner m,
     res_obj = Other_Obj [] (mbsc_deleting m)\<rparr>"

definition nmc_resource :: "nmc \<Rightarrow> resource" where
  "nmc_resource n = \<lparr>res_kind = NMC_Kind, res_nsn = ([], nmc_name n), res_owner = None, res_obj = NMC_Obj n\<rparr>"

definition node_resource :: "node \<Rightarrow> resource" where
  "node_resource n = \<lparr>res_kind = Node_Kind, res_nsn = ([], node_name n), res_owner = None, res_obj = Node_Obj n\<rparr>"

lemmas resource_defs = pod_resource_def mic_resource_def mbsc_resource_def nmc_resource_def node_resource_def

section \<open>Who is woken\<close>

definition wakes :: "controller list \<Rightarrow> res_event \<Rightarrow> call list \<Rightarrow> (string \<times> nsn list) list" where
  "wakes cs ev h = filter (\<lambda>w. snd w \<noteq> []) (map (\<lambda>c. (ctl_name c, result (requests c ev) h)) cs)"

definition every :: "(resource \<Rightarrow> bool) \<Rightarrow> res_event \<Rightarrow> bool" where
  "every P ev = list_all P (involved ev)"

lemma every_subject: "every P ev \<Longrightarrow> P (subject ev)"
  by (cases ev) (simp_all add: every_def)

text \<open>The requests of a controller without map functions over the objects of an event of another kind.\<close>

lemma result_return [simp]: "result (State_Monad.return x) h = x"
  by (simp add: result_def)

lemma other_kind_watch [simp]: "res_kind (subject ev) \<noteq> k \<Longrightarrow> watch_requests ev (k, f, ps) = State_Monad.return []"
  by (simp add: watch_requests_def)

lemma traverse_nothing:
  assumes "\<And>w. w \<in> set ws \<Longrightarrow> res_kind (subject ev) \<noteq> fst w"
  shows "State_Monad.traverse_list (watch_requests ev) ws = State_Monad.return (map (\<lambda>_. []) ws)"
  using assms
proof (induction ws)
  case (Cons w ws)
  obtain k f ps where w: "w = (k, f, ps)" by (cases w)
  with Cons.prems [of w] have "watch_requests ev w = State_Monad.return []" by simp
  with Cons show ?case by simp
qed simp

lemma concat_map_Nil [simp]: "concat (map (\<lambda>_. []) xs) = []"
  by (induction xs) auto

lemma requests_no_watch:
  assumes "\<And>w. w \<in> set (ctl_watches c) \<Longrightarrow> res_kind (subject ev) \<noteq> fst w"
  shows "result (requests c ev) h =
    (if accepted (ctl_filters c) ev then remdups (for_requests c ev @ owns_requests c ev) else [])"
  using traverse_nothing [OF assms] by (simp add: requests_def del: concat_eq_Nil_conv)

lemma owner_requests_of_owned:
  assumes "every (\<lambda>r. res_owner r = Some ow \<and> fst (res_nsn r) = ns) ev"
  shows "remdups (concat (map (owner_request k) (involved ev))) =
    (if own_kind ow = kind_name k then [(if namespaced k then ns else [], own_name ow)] else [])"
  using assms by (cases ev) (auto simp: every_def owner_request_def)

lemma owner_requests_Nil:
  assumes "every (\<lambda>r. res_owner r = Some ow \<and> fst (res_nsn r) = ns) ev" and "own_kind ow \<noteq> kind_name k"
  shows "concat (map (owner_request k) (involved ev)) = []"
  using assms by (cases ev) (auto simp: every_def owner_request_def)

text \<open>
  A pod of the operator: controlled by an object of a given kind and by nothing else. The pods of a
  daemon set are the only ones the node labels follow.
\<close>

definition controlled_pod :: "string \<Rightarrow> owner_ref \<Rightarrow> resource \<Rightarrow> bool" where
  "controlled_pod ns ow r \<longleftrightarrow>
     (case res_obj r of Pod_Obj p \<Rightarrow> r = pod_resource p \<and> pod_namespace p = ns \<and> pod_owner p = Some ow \<and> pod_other_owners p = []
      | _ \<Rightarrow> False)"

lemma controlled_podD:
  assumes "every (controlled_pod ns ow) ev"
  shows "every (\<lambda>r. res_owner r = Some ow \<and> fst (res_nsn r) = ns) ev"
    and "\<exists>p. subject ev = pod_resource p \<and> pod_owner p = Some ow \<and> pod_other_owners p = [] \<and> pod_namespace p = ns"
proof -
  have c: "\<exists>p. r = pod_resource p \<and> pod_owner p = Some ow \<and> pod_other_owners p = [] \<and> pod_namespace p = ns"
    if "controlled_pod ns ow r" for r using that by (auto simp: controlled_pod_def split: obj.splits)
  then have "res_owner r = Some ow \<and> fst (res_nsn r) = ns" if "controlled_pod ns ow r" for r
    using that by (fastforce simp: pod_resource_def)
  then show "every (\<lambda>r. res_owner r = Some ow \<and> fst (res_nsn r) = ns) ev"
    using assms by (auto simp: every_def list_all_iff)
  show "\<exists>p. subject ev = pod_resource p \<and> pod_owner p = Some ow \<and> pod_other_owners p = [] \<and> pod_namespace p = ns"
    using c every_subject [OF assms] by blast
qed

lemma NewPredicateFuncs_subject: "NewPredicateFuncs f (obj_event ev) = f (res_obj (subject ev))"
  by (cases ev) simp_all

lemma pod_event_requests:
  assumes ev: "every (controlled_pod ns ow) ev" and p: "subject ev = pod_resource p"
    and w: "\<And>w. w \<in> set (ctl_watches c) \<Longrightarrow> fst w \<noteq> Pod_Kind"
  shows "result (requests c ev) h =
    (if accepted (ctl_filters c) ev
     then remdups ((if ctl_for c = Pod_Kind \<and> accepted (ctl_for_preds c) ev then [pod_nsn p] else []) @ owns_requests c ev)
     else [])"
proof -
  have k: "res_kind (subject ev) = Pod_Kind" "res_nsn (subject ev) = pod_nsn p" using p by (simp_all add: pod_resource_def)
  from w have "\<And>w. w \<in> set (ctl_watches c) \<Longrightarrow> res_kind (subject ev) \<noteq> fst w" by (metis k(1))
  from requests_no_watch [OF this] k show ?thesis by (auto simp: for_requests_def)
qed

lemma owned_pod_requests:
  assumes ev: "every (controlled_pod ns ow) ev" and k: "own_kind ow = kind_name k"
    and c: "ctl_owns c = (Pod_Kind, []) # rest" "\<And>o'. o' \<in> set rest \<Longrightarrow> fst o' \<noteq> Pod_Kind"
  shows "remdups (owns_requests c ev) =
    (if k = ctl_for c then [(if namespaced k then ns else [], own_name ow)] else [])"
proof -
  obtain p where p: "subject ev = pod_resource p" using controlled_podD(2) [OF ev] by blast
  then have kind: "res_kind (subject ev) = Pod_Kind" by (simp add: pod_resource_def)
  have "concat (map (\<lambda>(k, ps). if res_kind (subject ev) = k \<and> accepted ps ev
      then concat (map (owner_request (ctl_for c)) (involved ev)) else []) rest) = []"
    using c(2) kind by (force split: prod.splits if_splits)
  then have "owns_requests c ev = concat (map (owner_request (ctl_for c)) (involved ev))"
    unfolding owns_requests_def c(1) by (simp only: list.map concat.simps) (simp add: kind accepted_def)
  then show ?thesis
    using owner_requests_of_owned [OF controlled_podD(1) [OF ev]] k by auto
qed

lemma unowned_requests:
  assumes "every (controlled_pod ns ow) ev" and "own_kind ow \<noteq> kind_name (ctl_for c)"
  shows "owns_requests c ev = []"
  using owner_requests_Nil [OF controlled_podD(1) [OF assms(1)] assms(2)]
  by (auto simp: owns_requests_def split: prod.splits)

lemma pod_wakes:
  assumes ev: "every (controlled_pod ns ow) ev" and p: "subject ev = pod_resource p"
    and k: "own_kind ow = kind_name k" "k \<in> {NMC_Kind, MIC_Kind, MBSC_Kind}"
  shows "wakes (all_controllers LabelChanged GenerationChanged lib srv) ev h =
    (if k = NMC_Kind then [(''NodeModulesConfig'', [([], own_name ow)])] else []) @
    (if k = MIC_Kind then [(''MICReconciler'', [(ns, own_name ow)])] else []) @
    (if k = MBSC_Kind then [(''MBSCReconciler'', [(ns, own_name ow)])] else []) @
    (if jobEventPredicate p then [(''BuildSignEvents'', [pod_nsn p])] else []) @
    (if jobGCPredicate p then [(''JobGCReconciler'', [pod_nsn p])] else [])"
proof -
  note R = pod_event_requests [OF ev p, where h = h]
  have nds: "\<not> isDaemonSetPod p" using controlled_podD(2) [OF ev] p k
    by (auto simp: isDaemonSetPod_def pod_owners_def pod_resource_def)
  have un: "owns_requests c ev = []" if "ctl_for c \<notin> {NMC_Kind, MIC_Kind, MBSC_Kind}" for c
    using unowned_requests [OF ev] k that by (metis kind_name_inject)
  have nmc: "result (requests NMCReconciler_SetupWithManager ev) h = (if k = NMC_Kind then [([], own_name ow)] else [])"
    using owned_pod_requests [OF ev k(1), of NMCReconciler_SetupWithManager "[]"]
    by (subst R) (auto simp: setup_defs accepted_def namespaced_def)
  have mic: "result (requests MICReconciler_SetupWithManager ev) h = (if k = MIC_Kind then [(ns, own_name ow)] else [])"
    using owned_pod_requests [OF ev k(1), of MICReconciler_SetupWithManager "[(MBSC_Kind, [])]"]
    by (subst R) (auto simp: setup_defs accepted_def namespaced_def)
  have mbsc: "result (requests MBSCReconciler_SetupWithManager ev) h = (if k = MBSC_Kind then [(ns, own_name ow)] else [])"
    using owned_pod_requests [OF ev k(1), of MBSCReconciler_SetupWithManager "[]"]
    by (subst R) (auto simp: setup_defs accepted_def namespaced_def)
  have ev1: "result (requests BuildSignEvents_SetupWithManager ev) h = (if jobEventPredicate p then [pod_nsn p] else [])"
    using p by (subst R) (auto simp: setup_defs accepted_def on_obj_def on_pods_def NewPredicateFuncs_subject owns_requests_def pod_resource_def)
  have ev2: "result (requests JobGC_SetupWithManager ev) h = (if jobGCPredicate p then [pod_nsn p] else [])"
    using p by (subst R) (auto simp: setup_defs accepted_def on_obj_def on_pods_def NewPredicateFuncs_subject owns_requests_def pod_resource_def)
  have pnl: "result (requests (PodNodeLabel_SetupWithManager lib) ev) h = []"
    using p nds by (subst R) (auto simp: setup_defs accepted_def on_obj_def on_pods_def NewPredicateFuncs_subject owns_requests_def pod_resource_def)
  have rest: "result (requests c ev) h = []"
    if "c \<in> {DevicePluginReconciler_SetupWithManager lib srv, DRAReconciler_SetupWithManager LabelChanged lib srv,
      ModuleReconciler_SetupWithManager LabelChanged lib srv, Preflight_SetupWithManager GenerationChanged srv,
      NodeLabelModuleVersion_SetupWithManager, NodeKernelClusterClaim_SetupWithManager,
      ManagedClusterModule_SetupWithManager LabelChanged lib srv}" for c
  proof -
    have "ctl_for c \<notin> {NMC_Kind, MIC_Kind, MBSC_Kind, Pod_Kind}" and w: "\<And>w. w \<in> set (ctl_watches c) \<Longrightarrow> fst w \<noteq> Pod_Kind"
      using that by (auto simp: setup_defs)
    with un [of c] show ?thesis by (subst R) auto
  qed
  show ?thesis using k(2)
    by (simp add: wakes_def all_controllers_def nmc mic mbsc ev1 ev2 pnl rest) (auto simp: setup_defs)
qed

section \<open>Properties\<close>

text \<open>The pod an object of the cluster stands for: its namespace, owner and labels are those it was created with.\<close>

definition same_pod :: "pod \<Rightarrow> resource \<Rightarrow> bool" where
  "same_pod p r \<longleftrightarrow>
     (case res_obj r of
        Pod_Obj q \<Rightarrow> r = pod_resource q \<and> pod_namespace q = pod_namespace p \<and> pod_owner q = pod_owner p \<and>
          pod_other_owners q = [] \<and> pod_labels q = pod_labels p
      | _ \<Rightarrow> False)"

lemma same_pod_controlled:
  assumes "every (same_pod p) ev" and "pod_owner p = Some ow"
  obtains q where "every (controlled_pod (pod_namespace p) ow) ev" "subject ev = pod_resource q" "pod_labels q = pod_labels p"
proof -
  have "controlled_pod (pod_namespace p) ow r" if "same_pod p r" for r
    using that assms(2) by (auto simp: same_pod_def controlled_pod_def split: obj.splits)
  then have "every (controlled_pod (pod_namespace p) ow) ev" using assms(1) by (auto simp: every_def list_all_iff)
  moreover obtain q where "subject ev = pod_resource q" "pod_labels q = pod_labels p"
    using every_subject [OF assms(1)] by (auto simp: same_pod_def split: obj.splits)
  ultimately show thesis using that by blast
qed

lemma not_job_pod:
  assumes "label_of (pod_labels q) ResourceType = []"
  shows "\<not> jobEventPredicate q" "\<not> jobGCPredicate q"
  using assms by (auto simp: jobEventPredicate_def jobGCPredicate_def)

lemma worker_template_owner:
  assumes "LoaderPodTemplate wpm lib n nms = Inr p \<or> UnloaderPodTemplate wpm lib n nst = Inr p"
    and "l_SetControllerReference lib (nmc_owner n) None = Inr (Some (nmc_owner n))"
  shows "pod_owner p = Some (nmc_owner n) \<and> label_of (pod_labels p) ResourceType = []"
  using assms loader_template [of wpm lib n nms p] unloader_template [of wpm lib n nst p] by (auto simp: worker_pod_for_def)

text \<open>
  C15: Whatever happens to a worker pod (it is created, changes state, is being deleted or is gone) wakes the
  NodeModulesConfig controller for the NodeModulesConfig of its node, once, and no other of the operator's controllers:
  not the controllers that also own or watch pods, and not the one that watches pods with module labels. So the status of
  the module on the node is recomputed from the pod, and only there.
\<close>

theorem worker_pod_wakes_exactly_its_nmc:
  assumes "LoaderPodTemplate wpm lib n nms = Inr p \<or> UnloaderPodTemplate wpm lib n nst = Inr p"
    and "l_SetControllerReference lib (nmc_owner n) None = Inr (Some (nmc_owner n))"
    and "every (same_pod p) ev"
  shows "wakes (all_controllers LabelChanged GenerationChanged lib srv) ev h = [(''NodeModulesConfig'', [([], nmc_name n)])]"
proof -
  note P = worker_template_owner [OF assms(1,2)]
  then obtain q where q: "every (controlled_pod (pod_namespace p) (nmc_owner n)) ev" "subject ev = pod_resource q"
    "pod_labels q = pod_labels p" using same_pod_controlled [OF assms(3)] by blast
  have "own_kind (nmc_owner n) = kind_name NMC_Kind" "own_name (nmc_owner n) = nmc_name n" by (simp_all add: nmc_owner_def)
  with pod_wakes [OF q(1,2), of NMC_Kind] P q(3) not_job_pod [of q] show ?thesis by simp
qed

theorem worker_pod_wakes_exactly_its_nmc_witness:
  "\<exists>p. LoaderPodTemplate sample_mgr plain_library one_module_nmc sample_spec = Inr p \<and>
     wakes (all_controllers (\<lambda>_. True) (\<lambda>_. True) plain_library empty_cluster)
       (Updated (pod_resource p) (pod_resource (p\<lparr>pod_phase := PodSucceeded\<rparr>))) [] =
       [(''NodeModulesConfig'', [([], nmc_name one_module_nmc)])]"
proof -
  have "case LoaderPodTemplate sample_mgr plain_library one_module_nmc sample_spec of
          Inl _ \<Rightarrow> False | Inr p \<Rightarrow> pod_other_owners p = []" by code_simp
  then obtain p where p: "LoaderPodTemplate sample_mgr plain_library one_module_nmc sample_spec = Inr p" "pod_other_owners p = []"
    by (auto split: sum.splits)
  have "l_SetControllerReference plain_library (nmc_owner one_module_nmc) None = Inr (Some (nmc_owner one_module_nmc))"
    by (simp add: plain_library_def)
  moreover have "every (same_pod p) (Updated (pod_resource p) (pod_resource (p\<lparr>pod_phase := PodSucceeded\<rparr>)))"
    using p(2) by (simp add: every_def same_pod_def pod_resource_def)
  ultimately show ?thesis
    using worker_pod_wakes_exactly_its_nmc [of sample_mgr plain_library one_module_nmc sample_spec p undefined] p(1) by blast
qed

text \<open>
  A pull pod wakes the controller of its ModuleImagesConfig only.
\<close>

theorem pull_pod_wakes_exactly_its_mic:
  assumes "every (same_pod ((pull_pod name (mic_namespace m) img once sec pol tols)\<lparr>pod_owner := Some (mic_owner_of m)\<rparr>)) ev"
  shows "wakes (all_controllers LabelChanged GenerationChanged lib srv) ev h = [(''MICReconciler'', [(mic_namespace m, mic_name m)])]"
proof -
  let ?p = "(pull_pod name (mic_namespace m) img once sec pol tols)\<lparr>pod_owner := Some (mic_owner_of m)\<rparr>"
  have P: "pod_owner ?p = Some (mic_owner_of m)" "pod_namespace ?p = mic_namespace m" "label_of (pod_labels ?p) ResourceType = []"
    by (simp_all add: pull_pod_def lookup_default_def puller_consts ResourceType_def)
  obtain q where q: "every (controlled_pod (pod_namespace ?p) (mic_owner_of m)) ev" "subject ev = pod_resource q" "pod_labels q = pod_labels ?p"
    using same_pod_controlled [OF assms P(1)] by blast
  have "own_kind (mic_owner_of m) = kind_name MIC_Kind" "own_name (mic_owner_of m) = mic_name m" by (simp_all add: mic_owner_of_def)
  with pod_wakes [OF q(1,2), of MIC_Kind] P q(3) not_job_pod [of q] show ?thesis by simp
qed

lemma build_pod_wakes:
  assumes "fst (run_state (MakeResourceTemplate lib srv getenv d (mbsc_owner_of b) push act) h0) = Inr p"
    and "l_SetControllerReference lib (mbsc_owner_of b) None = Inr (Some (mbsc_owner_of b))"
    and "mld_namespace d = mbsc_namespace b" and "every (same_pod p) ev"
  shows "(''MBSCReconciler'', [(mbsc_namespace b, mbsc_name b)]) \<in> set (wakes (all_controllers LabelChanged GenerationChanged lib srv') ev h)"
proof -
  have P: "pod_owner p = Some (mbsc_owner_of b)" "pod_namespace p = mbsc_namespace b"
    using template_for_MakeResourceTemplate [OF assms(1)] assms(2,3) by (simp_all add: template_for_def)
  obtain q where q: "every (controlled_pod (pod_namespace p) (mbsc_owner_of b)) ev" "subject ev = pod_resource q"
    using same_pod_controlled [OF assms(4) P(1)] by blast
  have "own_kind (mbsc_owner_of b) = kind_name MBSC_Kind" "own_name (mbsc_owner_of b) = mbsc_name b" by (simp_all add: mbsc_owner_of_def)
  with pod_wakes [OF q, of MBSC_Kind] P show ?thesis by simp
qed

text \<open>An object with a controller wakes that controller through its \<open>Owns\<close> watch.\<close>

lemma owner_request_involved:
  "owner_request k (subject ev) = [r] \<Longrightarrow> r \<in> set (concat (map (owner_request k) (involved ev)))"
  by (cases ev) auto

lemma owns_requestsI:
  assumes "(k, ps) \<in> set (ctl_owns c)" and "res_kind (subject ev) = k" and "accepted ps ev"
    and "r \<in> set (concat (map (owner_request (ctl_for c)) (involved ev)))"
  shows "r \<in> set (owns_requests c ev)"
proof -
  let ?f = "\<lambda>(k, ps). if res_kind (subject ev) = k \<and> accepted ps ev then concat (map (owner_request (ctl_for c)) (involved ev)) else []"
  have "r \<in> set (?f (k, ps))" using assms(2-4) by simp
  with assms(1) have "r \<in> (\<Union>x\<in>set (ctl_owns c). set (?f x))" by blast
  then show ?thesis by (simp only: owns_requests_def set_concat set_map UN_simps image_image)
qed

lemma owned_object_wakes:
  assumes "c \<in> set cs" and "(k, ps) \<in> set (ctl_owns c)" and "ctl_filters c = []"
    and "\<forall>w\<in>set (ctl_watches c). fst w \<noteq> k"
    and "res_kind (subject ev) = k" and "accepted ps ev" and "ctl_for c \<noteq> k"
    and "res_owner (subject ev) = Some ow" and "own_kind ow = kind_name (ctl_for c)"
  shows "\<exists>rs. (ctl_name c, rs) \<in> set (wakes cs ev h) \<and>
    (if namespaced (ctl_for c) then fst (res_nsn (subject ev)) else [], own_name ow) \<in> set rs"
proof -
  let ?req = "(if namespaced (ctl_for c) then fst (res_nsn (subject ev)) else [], own_name ow)"
  have "owner_request (ctl_for c) (subject ev) = [?req]" using assms by (simp add: owner_request_def)
  then have "?req \<in> set (owns_requests c ev)" by (intro owns_requestsI [OF assms(2,5,6)] owner_request_involved)
  moreover have "result (requests c ev) h = remdups (for_requests c ev @ owns_requests c ev)"
    by (subst requests_no_watch) (use assms(3,4,5) in \<open>auto simp: accepted_def\<close>)
  ultimately have r: "?req \<in> set (result (requests c ev) h)" by simp
  then have "(ctl_name c, result (requests c ev) h) \<in> set (wakes cs ev h)"
    using assms(1) by (auto simp: wakes_def)
  with r show ?thesis by blast
qed

lemma mbsc_update_wakes_mic:
  assumes "mutate_mbsc lib m spec act b0 = Inr b"
    and "mbsc_owner b0 \<in> {None, Some (mic_owner_of m)}" and "mbsc_namespace b0 = mic_namespace m"
    and "\<And>cur. cur \<in> {None, Some (mic_owner_of m)} \<Longrightarrow> l_SetControllerReference lib (mic_owner_of m) cur = Inr (Some (mic_owner_of m))"
  shows "\<exists>rs. (''MICReconciler'', rs) \<in> set (wakes (all_controllers LabelChanged GenerationChanged lib srv)
      (Updated (mbsc_resource b) (mbsc_resource (b\<lparr>mbsc_status := sts\<rparr>))) h) \<and> (mic_namespace m, mic_name m) \<in> set rs"
proof -
  have b: "mbsc_owner b = Some (mic_owner_of m)" "mbsc_namespace b = mic_namespace m"
    using assms by (auto simp: mutate_mbsc_def Let_def and_then_Inr setModuleImageSpec_def)
  show ?thesis
    using owned_object_wakes [of MICReconciler_SetupWithManager "all_controllers LabelChanged GenerationChanged lib srv" MBSC_Kind "[]"
        "Updated (mbsc_resource b) (mbsc_resource (b\<lparr>mbsc_status := sts\<rparr>))" "mic_owner_of m" h] b
    by (simp add: all_controllers_def setup_defs mbsc_resource_def accepted_def namespaced_def mic_owner_of_def)
qed

lemma mic_update_wakes_module:
  assumes "mutate_mic lib spec (module_owner modu) m0 = Inr m"
    and "mic_owner m0 \<in> {None, Some (module_owner modu)}" and "mic_namespace m0 = mod_namespace modu"
    and "\<And>cur. cur \<in> {None, Some (module_owner modu)} \<Longrightarrow> l_SetControllerReference lib (module_owner modu) cur = Inr (Some (module_owner modu))"
  shows "\<exists>rs. (''ModuleReconciler'', rs) \<in> set (wakes (all_controllers LabelChanged GenerationChanged lib srv)
      (Updated (mic_resource m) (mic_resource (m\<lparr>mic_states := sts\<rparr>))) h) \<and> (mod_namespace modu, mod_name modu) \<in> set rs"
proof -
  have m: "mic_owner m = Some (module_owner modu)" "mic_namespace m = mod_namespace modu"
    using assms by (auto simp: mutate_mic_def and_then_Inr)
  show ?thesis
    using owned_object_wakes [of "ModuleReconciler_SetupWithManager LabelChanged lib srv"
        "all_controllers LabelChanged GenerationChanged lib srv" MIC_Kind "[on_obj ModuleReconcileMICPredicate]"
        "Updated (mic_resource m) (mic_resource (m\<lparr>mic_states := sts\<rparr>))" "module_owner modu" h] m
    by (simp add: all_controllers_def setup_defs mic_resource_def accepted_def namespaced_def module_owner_def on_obj_def
        ModuleReconcileMICPredicate_def)
qed

text \<open>
  C7: The outcome of a build travels up to the module without anyone polling. Whatever happens to a build or sign pod made
  for a ModuleBuildSignConfig wakes the controller of that object; the outcome that controller records wakes the controller of
  the ModuleImagesConfig that asked for the build; and the image state that one records wakes the module controller for the
  module. Each object carries the owner its creator set, whether it was created or patched.
\<close>

theorem build_outcome_travels_to_module:
  assumes mic: "mutate_mic lib ispec (module_owner modu) m0 = Inr m"
    "mic_owner m0 \<in> {None, Some (module_owner modu)}" "mic_namespace m0 = mod_namespace modu"
    and mbsc: "mutate_mbsc lib m imgspec act b0 = Inr b"
    "mbsc_owner b0 \<in> {None, Some (mic_owner_of m)}" "mbsc_namespace b0 = mic_namespace m"
    and pod: "fst (run_state (MakeResourceTemplate lib srv getenv d (mbsc_owner_of b) push act) h0) = Inr p"
    "mld_namespace d = mbsc_namespace b" "every (same_pod p) ev"
    and own: "\<And>ow cur. ow \<in> {module_owner modu, mic_owner_of m, mbsc_owner_of b} \<Longrightarrow> cur \<in> {None, Some ow} \<Longrightarrow>
      l_SetControllerReference lib ow cur = Inr (Some ow)"
  shows "(''MBSCReconciler'', [(mbsc_namespace b, mbsc_name b)]) \<in> set (wakes (all_controllers LabelChanged GenerationChanged lib srv) ev h) \<and>
    (\<exists>rs. (''MICReconciler'', rs) \<in> set (wakes (all_controllers LabelChanged GenerationChanged lib srv)
      (Updated (mbsc_resource b) (mbsc_resource (b\<lparr>mbsc_status := outcomes\<rparr>))) h) \<and> (mic_namespace m, mic_name m) \<in> set rs) \<and>
    (\<exists>rs. (''ModuleReconciler'', rs) \<in> set (wakes (all_controllers LabelChanged GenerationChanged lib srv)
      (Updated (mic_resource m) (mic_resource (m\<lparr>mic_states := states\<rparr>))) h) \<and> (mod_namespace modu, mod_name modu) \<in> set rs)"
  using build_pod_wakes [OF pod(1) _ pod(2,3)] mbsc_update_wakes_mic [OF mbsc] mic_update_wakes_module [OF mic] own by simp

definition wired_module :: kmodule where
  "wired_module = new_module ''kmm'' ''mymod'' empty_module_spec"

definition wired_mic :: mic where
  "wired_mic = (new_mic ''mymod'' ''kmm'')\<lparr>mic_owner := Some (module_owner wired_module)\<rparr>"

definition wired_image :: image_spec where
  "wired_image = \<lparr>is_image = ''reg/img'', is_kernel_version = ''6.1.7'', is_build = None, is_sign = None, is_skip_wait = False,
     is_registry_tls = None, is_dir_name = []\<rparr>"

definition wired_mbsc :: mbsc where
  "wired_mbsc = (case mutate_mbsc plain_library wired_mic wired_image BuildImage (new_mbsc ''mymod'' ''kmm'') of
     Inl _ \<Rightarrow> new_mbsc ''mymod'' ''kmm'' | Inr b \<Rightarrow> b)"

theorem build_outcome_travels_to_module_witness:
  "\<exists>p rs. fst (run_state (MakeResourceTemplate plain_library dockerfile_cluster (\<lambda>_. ''kaniko'') sample_mld (mbsc_owner_of wired_mbsc) True BuildImage) []) = Inr p \<and>
     (''MBSCReconciler'', [(mbsc_namespace wired_mbsc, mbsc_name wired_mbsc)]) \<in>
       set (wakes (all_controllers (\<lambda>_. True) (\<lambda>_. True) plain_library dockerfile_cluster) (Deleted (pod_resource p)) []) \<and>
     (''MICReconciler'', rs) \<in> set (wakes (all_controllers (\<lambda>_. True) (\<lambda>_. True) plain_library dockerfile_cluster)
       (Updated (mbsc_resource wired_mbsc) (mbsc_resource (wired_mbsc\<lparr>mbsc_status := []\<rparr>))) []) \<and> (mic_namespace wired_mic, mic_name wired_mic) \<in> set rs"
proof -
  let ?t = "fst (run_state (MakeResourceTemplate plain_library dockerfile_cluster (\<lambda>_. ''kaniko'') sample_mld (mbsc_owner_of wired_mbsc) True BuildImage) [])"
  have "case ?t of Inl _ \<Rightarrow> False | Inr p \<Rightarrow> pod_other_owners p = []" by code_simp
  then obtain p where p: "?t = Inr p" "pod_other_owners p = []" by (auto split: sum.splits)
  have m: "mutate_mic plain_library (mic_spec (new_mic ''mymod'' ''kmm'')) (module_owner wired_module) (new_mic ''mymod'' ''kmm'') = Inr wired_mic"
    by (simp add: mutate_mic_def plain_library_def wired_mic_def and_then_Inr new_mic_def)
  have b: "mutate_mbsc plain_library wired_mic wired_image BuildImage (new_mbsc ''mymod'' ''kmm'') = Inr wired_mbsc"
    by code_simp
  have ns: "mic_namespace (new_mic ''mymod'' ''kmm'') = mod_namespace wired_module" "mic_owner (new_mic ''mymod'' ''kmm'') = None"
    "mbsc_namespace (new_mbsc ''mymod'' ''kmm'') = mic_namespace wired_mic" "mbsc_owner (new_mbsc ''mymod'' ''kmm'') = None"
    "mld_namespace sample_mld = mbsc_namespace wired_mbsc" by code_simp+
  have e: "every (same_pod p) (Deleted (pod_resource p))" using p(2) by (simp add: every_def same_pod_def pod_resource_def)
  have own: "l_SetControllerReference plain_library ow cur = Inr (Some ow)" for ow cur by (simp add: plain_library_def)
  show ?thesis
    using build_outcome_travels_to_module [OF m _ ns(1) b _ ns(3) p(1) ns(5) e own, where h = "[]"] ns p(1) by blast
qed

text \<open>
  A change of a NodeModulesConfig wakes the module controller for every module that a configured or in-use label
  names before or after the change, and for no other; so a label that disappears is noticed too.
\<close>

theorem nmc_change_wakes_modules:
  "set (result (requests (ModuleReconciler_SetupWithManager LabelChanged lib srv) (Updated (nmc_resource old) (nmc_resource new))) h) =
     {(ns, name). valid_nsn ns name \<and> (\<exists>x\<in>{old, new}.
        has_key (nmc_labels x) (ModuleConfiguredLabel ns name) \<or> has_key (nmc_labels x) (ModuleInUseLabel ns name))}"
  by (auto simp: result_def requests_def setup_defs accepted_def nmc_resource_def watch_requests_def for_requests_def owns_requests_def
      ListModulesForNMC_spec)

text \<open>
  A DeviceClass that loses its module label does not wake the DRA controller: the predicate looks at the new object
  only, although the map function would still find the module in the old one.
\<close>

theorem unlabelled_deviceclass_wakes_nobody:
  assumes "res_kind new = DeviceClass_Kind" and "label_of (obj_labels (res_obj new)) ModuleNameLabel = []"
  shows "result (requests (DRAReconciler_SetupWithManager LabelChanged lib srv) (Updated old new)) h = []"
  using assms by (auto simp: result_def requests_def setup_defs accepted_def watch_requests_def for_requests_def owns_requests_def
      on_obj_def HasLabel_pred_def)

end
