(* ===== verification/Programs.thy ===== *)
theory Programs
  imports Wiring Config Webhook
begin

text \<open>
  The programs of the operator: \<^verbatim>\<open>cmd/manager/main.go\<close>, \<^verbatim>\<open>cmd/manager-hub/main.go\<close>,
  \<^verbatim>\<open>cmd/webhook-server/main.go\<close> and the helpers of \<^verbatim>\<open>internal/cmd/cmdutils.go\<close>, up to the point
  where controller-runtime takes over (\<open>mgr.Start\<close>). A program is a sequence of fallible steps against the
  run-time environment, recorded in order; what each step answers is a parameter. \<open>FatalError\<close>,
  \<open>GetConfigOrDie\<close> and \<open>utilruntime.Must\<close> end the process, so nothing follows a failed step.
\<close>

section \<open>The environment of a process\<close>

record host_env =
  os_Getenv :: "string \<Rightarrow> string"  \<comment> \<open>empty when not set\<close>
  build_settings :: "labels option"  \<comment> \<open>the settings of \<open>debug.ReadBuildInfo\<close>\<close>
  userConfigMapName :: string
  decode_config :: config_decoder
  client_error :: "go_err option"
  api_server :: server
  discovery_error :: "go_err option"
  server_version :: "go_err + string"

text \<open>\<open>api_group\<close> names what a call adds to the scheme.\<close>

datatype api_group = ClientGo | KMM_v1beta1 | KMM_v1beta2 | Resource_v1 | Hub_v1beta1 | Cluster_v1 | Cluster_v1alpha1 | Work_v1

datatype controller_id = DevicePlugin | ModuleController | NMC string worker_cfg | PodNodeLabel | DRA | NodeLabelModuleVersion | MIC |
  NodeKernelClusterClaim | MBSC | BuildSignEvents | JobGC int | PreflightController | ManagedClusterModule

datatype webhook_id = ModuleValidator kube_version | ManagedClusterModuleValidator | NamespaceValidator |
  PreflightConversion | PreflightValidator

datatype boot = AddToScheme api_group | CreatingManager string | RestConfig | NewManager manager_options | RegisterMetrics |
  Setup controller_id | SetupWebhook webhook_id | Healthz | Readyz | Start

type_synonym boot_answers = "boot list \<Rightarrow> boot \<Rightarrow> go_err option"

text \<open>How a process ends: with status 1 and a reason, or because the manager was told to stop.\<close>

datatype outcome = Exited go_err | Stopped

type_synonym program = "(boot, outcome) io"

definition FatalError :: "go_err \<Rightarrow> string \<Rightarrow> program" where
  "FatalError err msg = State_Monad.return (Exited (Errorf msg err))"

definition must :: "boot_answers \<Rightarrow> boot \<Rightarrow> string \<Rightarrow> program \<Rightarrow> program" where
  "must ans b msg k = do {
     e \<leftarrow> issue b (\<lambda>h. ans h b);
     case e of Some err \<Rightarrow> FatalError err msg | None \<Rightarrow> k
   }"

text \<open>A step that is only logged.\<close>

definition info :: "boot \<Rightarrow> program \<Rightarrow> program" where
  "info b k = do { _ \<leftarrow> issue b (\<lambda>h. ()); k }"

definition GetEnvOrFatalError :: "host_env \<Rightarrow> string \<Rightarrow> (string \<Rightarrow> program) \<Rightarrow> program" where
  "GetEnvOrFatalError env name k =
     (let val = os_Getenv env name
      in if val = [] then FatalError (NewErr ''empty value'') ''Could not get the environment variable'' else k val)"

definition GitCommit :: "host_env \<Rightarrow> go_err + string" where
  "GitCommit env =
     (case build_settings env of
        None \<Rightarrow> Inl (NewErr ''build info is not available'')
      | Some settings \<Rightarrow>
          (case map_of settings ''vcs.revision'' of
             None \<Rightarrow> Inl (NewErr ''vcs.revision not found in build info settings'')
           | Some v \<Rightarrow> Inr v))"

definition commit_or_undefined :: "host_env \<Rightarrow> string" where
  "commit_or_undefined env = (case GitCommit env of Inl e \<Rightarrow> ''<undefined>'' | Inr commit \<Rightarrow> commit)"

text \<open>\<open>strconv.ParseBool\<close>.\<close>

definition ParseBool :: "string \<Rightarrow> go_err + bool" where
  "ParseBool s =
     (if s \<in> {''1'', ''t'', ''T'', ''true'', ''TRUE'', ''True''} then Inr True
      else if s \<in> {''0'', ''f'', ''F'', ''false'', ''FALSE'', ''False''} then Inr False
      else Inl (NewErr ''invalid syntax''))"

definition GetBoolEnv :: "host_env \<Rightarrow> string \<Rightarrow> go_err + bool" where
  "GetBoolEnv env s =
     (let envValue = os_Getenv env s
      in if envValue = [] then Inr False
         else case ParseBool envValue of Inl e \<Rightarrow> Inl (NewErr ''invalid value'') | Inr managed \<Rightarrow> Inr managed)"

definition DiscoverKubeVersion :: "host_env \<Rightarrow> go_err + kube_version" where
  "DiscoverKubeVersion env =
     (case discovery_error env of
        Some e \<Rightarrow> Inl (Errorf ''failed to create discovery client'' e)
      | None \<Rightarrow>
          (case server_version env of
             Inl e \<Rightarrow> Inl (Errorf ''failed to query Kubernetes server version'' e)
           | Inr gitVersion \<Rightarrow> ParseKubeVersion gitVersion))"

definition OperatorNamespaceEnvVar :: string where
  "OperatorNamespaceEnvVar = ''OPERATOR_NAMESPACE''"

section \<open>The manager\<close>

definition manager_init :: "boot_answers \<Rightarrow> program \<Rightarrow> program" where
  "manager_init ans k =
     must ans (AddToScheme ClientGo) ''panic'' (must ans (AddToScheme KMM_v1beta1) ''panic''
       (must ans (AddToScheme KMM_v1beta2) ''panic'' (must ans (AddToScheme Resource_v1) ''panic'' k)))"

definition run_manager :: "boot_answers \<Rightarrow> program" where
  "run_manager ans =
     must ans Healthz ''unable to set up health check''
       (must ans Readyz ''unable to set up ready check''
         (must ans Start ''problem running manager'' (State_Monad.return Stopped)))"

definition setup_controller :: "boot_answers \<Rightarrow> controller_id \<Rightarrow> program \<Rightarrow> program" where
  "setup_controller ans c k = must ans (Setup c) ''unable to create controller'' k"

definition manager_mode_controllers :: "boot_answers \<Rightarrow> bool \<Rightarrow> config \<Rightarrow> program \<Rightarrow> program" where
  "manager_mode_controllers ans managed cfg k =
     (if managed then
        must ans (AddToScheme Cluster_v1alpha1) ''could not add the Cluster API to the scheme''
          (setup_controller ans NodeKernelClusterClaim k)
      else
        setup_controller ans MBSC (setup_controller ans BuildSignEvents
          (setup_controller ans (JobGC (cf_gc_delay cfg)) (setup_controller ans PreflightController k))))"

definition manager_controllers :: "boot_answers \<Rightarrow> string \<Rightarrow> config \<Rightarrow> kube_version \<Rightarrow> program \<Rightarrow> program" where
  "manager_controllers ans workerImage cfg kubeVersion k =
     setup_controller ans DevicePlugin (setup_controller ans ModuleController
       (setup_controller ans (NMC workerImage (cf_worker cfg)) (setup_controller ans PodNodeLabel
         (let rest = setup_controller ans NodeLabelModuleVersion (setup_controller ans MIC k)
          in if AtLeast kubeVersion MinKubeMajorForDRA MinKubeMinorForDRA then setup_controller ans DRA rest else rest))))"

definition manager_main :: "host_env \<Rightarrow> boot_answers \<Rightarrow> program" where
  "manager_main env ans = manager_init ans
     (GetEnvOrFatalError env OperatorNamespaceEnvVar (\<lambda>operatorNamespace.
      GetEnvOrFatalError env ''RELATED_IMAGE_WORKER'' (\<lambda>workerImage.
        let managed = (case GetBoolEnv env ''KMM_MANAGED'' of Inl e \<Rightarrow> False | Inr b \<Rightarrow> b)
        in info (CreatingManager (commit_or_undefined env))
          (case fst (run_state (manager_start (decode_config env) (client_error env) (api_server env) (userConfigMapName env) operatorNamespace False) []) of
             Exits e \<Rightarrow> FatalError e ''failed to get kmm config''
           | Crashes \<Rightarrow> FatalError (Panic ''nil pointer dereference'') []
           | Runs cfg options \<Rightarrow>
               must ans RestConfig ''unable to get kubeconfig''
                 (case DiscoverKubeVersion env of
                    Inl e \<Rightarrow> FatalError e ''unable to discover Kubernetes version''
                  | Inr kubeVersion \<Rightarrow>
                      must ans (NewManager options) ''unable to create manager''
                        (must ans RegisterMetrics ''panic''
                          (manager_controllers ans workerImage cfg kubeVersion
                            (manager_mode_controllers ans managed cfg (run_manager ans)))))))))"

section \<open>The hub manager\<close>

definition hub_init :: "boot_answers \<Rightarrow> program \<Rightarrow> program" where
  "hub_init ans k =
     must ans (AddToScheme ClientGo) ''panic'' (must ans (AddToScheme Hub_v1beta1) ''panic''
       (must ans (AddToScheme KMM_v1beta1) ''panic'' (must ans (AddToScheme Cluster_v1) ''panic''
         (must ans (AddToScheme Work_v1) ''panic'' k))))"

definition hub_main :: "host_env \<Rightarrow> boot_answers \<Rightarrow> program" where
  "hub_main env ans = hub_init ans
     (GetEnvOrFatalError env OperatorNamespaceEnvVar (\<lambda>operatorNamespace.
       info (CreatingManager (commit_or_undefined env))
         (case fst (run_state (manager_start (decode_config env) (client_error env) (api_server env) (userConfigMapName env) operatorNamespace True) []) of
            Exits e \<Rightarrow> FatalError e ''failed to get kmm config''
          | Crashes \<Rightarrow> FatalError (Panic ''nil pointer dereference'') []
          | Runs cfg options \<Rightarrow>
              must ans RestConfig ''unable to get kubeconfig''
                (must ans (NewManager options) ''unable to create manager''
                  (must ans RegisterMetrics ''panic''
                    (setup_controller ans MIC (setup_controller ans MBSC (setup_controller ans ManagedClusterModule
                      (setup_controller ans BuildSignEvents (setup_controller ans (JobGC (cf_gc_delay cfg)) (run_manager ans)))))))))))"

section \<open>The webhook server\<close>

record webhook_flags =
  enableModule :: bool
  enableManagedClusterModule :: bool
  enableNamespaceDeletion :: bool
  enablePreflightValidation :: bool

definition webhook_init :: "boot_answers \<Rightarrow> program \<Rightarrow> program" where
  "webhook_init ans k =
     must ans (AddToScheme ClientGo) ''panic'' (must ans (AddToScheme KMM_v1beta1) ''panic''
       (must ans (AddToScheme KMM_v1beta2) ''panic'' (must ans (AddToScheme Hub_v1beta1) ''panic'' k)))"

definition webhook_setups :: "host_env \<Rightarrow> webhook_flags \<Rightarrow> boot_answers \<Rightarrow> program \<Rightarrow> program" where
  "webhook_setups env fl ans k =
     (let preflight = (if enablePreflightValidation fl
            then must ans (SetupWebhook PreflightConversion) ''unable to create conversion webhook''
                   (must ans (SetupWebhook PreflightValidator) ''unable to create webhook'' k)
            else k);
          namespace = (if enableNamespaceDeletion fl then must ans (SetupWebhook NamespaceValidator) ''unable to create webhook'' preflight else preflight);
          mcm = (if enableManagedClusterModule fl then must ans (SetupWebhook ManagedClusterModuleValidator) ''unable to create webhook'' namespace else namespace)
      in if enableModule fl
         then (case DiscoverKubeVersion env of
                 Inl e \<Rightarrow> FatalError e ''unable to discover Kubernetes version''
               | Inr kubeVersion \<Rightarrow> must ans (SetupWebhook (ModuleValidator kubeVersion)) ''unable to create webhook'' mcm)
         else mcm)"

definition webhook_main :: "host_env \<Rightarrow> webhook_flags \<Rightarrow> boot_answers \<Rightarrow> program" where
  "webhook_main env fl ans = webhook_init ans
     (info (CreatingManager (commit_or_undefined env))
       (GetEnvOrFatalError env OperatorNamespaceEnvVar (\<lambda>operatorNamespace.
         (case fst (run_state (GetConfig (decode_config env) (client_error env) (api_server env) (userConfigMapName env) operatorNamespace False) []) of
            (_, Some e) \<Rightarrow> FatalError e ''failed to get kmm config''
          | (None, None) \<Rightarrow> FatalError (Panic ''nil pointer dereference'') []
          | (Some cfg, None) \<Rightarrow>
              must ans RestConfig ''unable to get kubeconfig''
                (must ans (NewManager ((GetManagerOptionsFromConfig cfg)\<lparr>mo_leader_election := False\<rparr>)) ''unable to create manager''
                  (webhook_setups env fl ans (run_manager ans)))))))"

section \<open>Plans\<close>

text \<open>
  The reference a program is compared with: a list of steps, of which a run executes the longest prefix the environment
  accepts and the first refused step.
\<close>

definition accepts :: "boot_answers \<Rightarrow> boot list \<Rightarrow> boot \<Rightarrow> bool" where
  "accepts ans h b = (case b of CreatingManager _ \<Rightarrow> True | _ \<Rightarrow> ans h b = None)"

fun executed :: "boot_answers \<Rightarrow> boot list \<Rightarrow> boot list \<Rightarrow> boot list" where
  "executed ans h [] = []"
| "executed ans h (b # bs) = b # (if accepts ans h b then executed ans (h @ [b]) bs else [])"

definition follows :: "boot_answers \<Rightarrow> boot list \<Rightarrow> program \<Rightarrow> bool" where
  "follows ans plan m \<longleftrightarrow> (\<forall>h. snd (run_state m h) = h @ executed ans h plan)"

named_theorems follows_intros \<open>which plan a program follows\<close>

lemma follows_FatalError [follows_intros]: "follows ans [] (FatalError e msg)"
  by (simp add: follows_def FatalError_def)

lemma follows_Stopped [follows_intros]: "follows ans [] (State_Monad.return Stopped)"
  by (simp add: follows_def)

lemma follows_must [follows_intros]:
  "follows ans plan k \<Longrightarrow> (\<And>c. b \<noteq> CreatingManager c) \<Longrightarrow> follows ans (b # plan) (must ans b msg k)"
  by (auto simp: follows_def must_def FatalError_def accepts_def split: option.split boot.splits)

lemma follows_info [follows_intros]: "follows ans plan k \<Longrightarrow> follows ans (CreatingManager c # plan) (info (CreatingManager c) k)"
  by (simp add: follows_def info_def accepts_def)

lemma follows_setup [follows_intros]: "follows ans plan k \<Longrightarrow> follows ans (Setup c # plan) (setup_controller ans c k)"
  unfolding setup_controller_def by (rule follows_must) auto

lemma follows_GetEnv [follows_intros]:
  "(os_Getenv env n \<noteq> [] \<Longrightarrow> follows ans plan (k (os_Getenv env n))) \<Longrightarrow>
     follows ans (if os_Getenv env n = [] then [] else plan) (GetEnvOrFatalError env n k)"
  by (auto simp: GetEnvOrFatalError_def Let_def intro: follows_intros)

lemma follows_if [follows_intros]:
  "(c \<Longrightarrow> follows ans p m) \<Longrightarrow> (\<not> c \<Longrightarrow> follows ans q n) \<Longrightarrow> follows ans (if c then p else q) (if c then m else n)"
  by simp

lemma follows_startup [follows_intros]:
  "(\<And>e. follows ans (pe e) (me e)) \<Longrightarrow> (\<And>c opts. follows ans (pr c opts) (mr c opts)) \<Longrightarrow> follows ans pc mc \<Longrightarrow>
     follows ans (case st of Exits e \<Rightarrow> pe e | Runs c opts \<Rightarrow> pr c opts | Crashes \<Rightarrow> pc)
       (case st of Exits e \<Rightarrow> me e | Runs c opts \<Rightarrow> mr c opts | Crashes \<Rightarrow> mc)"
  by (simp split: startup.split)

lemma follows_sum [follows_intros]:
  "(\<And>e. follows ans (pl e) (ml e)) \<Longrightarrow> (\<And>x. follows ans (pr x) (mr x)) \<Longrightarrow>
     follows ans (case r of Inl e \<Rightarrow> pl e | Inr x \<Rightarrow> pr x) (case r of Inl e \<Rightarrow> ml e | Inr x \<Rightarrow> mr x)"
  by (simp split: sum.split)

text \<open>A plan is executed to its last step only when every step before it was accepted.\<close>

lemma executed_complete:
  assumes "b \<in> set (executed ans h plan)" and "plan = pre @ [b]" and "b \<notin> set pre"
  shows "executed ans h plan = plan \<and> (\<forall>i<length pre. accepts ans (h @ take i pre) (pre ! i))"
  using assms
proof (induction pre arbitrary: h plan)
  case Nil
  then show ?case by simp
next
  case (Cons a pre)
  let ?plan = "pre @ [b]"
  have acc: "accepts ans h a" and "b \<in> set (executed ans (h @ [a]) ?plan)"
    using Cons.prems by (auto split: if_splits)
  then have IH: "executed ans (h @ [a]) ?plan = ?plan" "\<forall>i<length pre. accepts ans ((h @ [a]) @ take i pre) (pre ! i)"
    using Cons.IH [of "h @ [a]" ?plan] Cons.prems by auto
  have "accepts ans (h @ take i (a # pre)) ((a # pre) ! i)" if "i < length (a # pre)" for i
    using that acc IH(2) by (cases i) auto
  with IH(1) acc Cons.prems(2) show ?case by simp
qed

lemma executed_prefix: "prefix (executed ans h plan) plan"
  by (induction plan arbitrary: h) auto

lemma executed_all: "(\<And>h b. ans h b = None) \<Longrightarrow> executed ans h plan = plan"
  by (induction plan arbitrary: h) (simp_all add: accepts_def split: boot.split)

lemma calls_follow: "follows ans plan m \<Longrightarrow> calls m [] = executed ans [] plan"
  by (simp add: follows_def calls_def)

lemma started_in_plan: "follows ans plan m \<Longrightarrow> b \<in> set (calls m []) \<Longrightarrow> b \<in> set plan"
  using executed_prefix [of ans "[]" plan] set_mono_prefix [of "executed ans [] plan" plan] by (auto simp: calls_follow)

section \<open>The plans of the managers\<close>

definition manager_setups :: "bool \<Rightarrow> string \<Rightarrow> config \<Rightarrow> kube_version \<Rightarrow> controller_id list" where
  "manager_setups managed workerImage cfg kv =
     [DevicePlugin, ModuleController, NMC workerImage (cf_worker cfg), PodNodeLabel] @
     (if AtLeast kv MinKubeMajorForDRA MinKubeMinorForDRA then [DRA] else []) @ [NodeLabelModuleVersion, MIC] @
     (if managed then [NodeKernelClusterClaim] else [MBSC, BuildSignEvents, JobGC (cf_gc_delay cfg), PreflightController])"

definition managed_mode :: "host_env \<Rightarrow> bool" where
  "managed_mode env = (case GetBoolEnv env ''KMM_MANAGED'' of Inl e \<Rightarrow> False | Inr b \<Rightarrow> b)"

definition running_plan :: "bool \<Rightarrow> string \<Rightarrow> config \<Rightarrow> kube_version \<Rightarrow> boot list" where
  "running_plan managed workerImage cfg kv =
     map Setup [DevicePlugin, ModuleController, NMC workerImage (cf_worker cfg), PodNodeLabel] @
     (if AtLeast kv MinKubeMajorForDRA MinKubeMinorForDRA then [Setup DRA] else []) @
     map Setup [NodeLabelModuleVersion, MIC] @
     (if managed then [AddToScheme Cluster_v1alpha1, Setup NodeKernelClusterClaim]
      else map Setup [MBSC, BuildSignEvents, JobGC (cf_gc_delay cfg), PreflightController]) @
     [Healthz, Readyz, Start]"

definition manager_plan :: "host_env \<Rightarrow> boot list" where
  "manager_plan env =
     map AddToScheme [ClientGo, KMM_v1beta1, KMM_v1beta2, Resource_v1] @
     (let ns = os_Getenv env OperatorNamespaceEnvVar; workerImage = os_Getenv env ''RELATED_IMAGE_WORKER'' in
      if ns = [] then [] else if workerImage = [] then []
      else CreatingManager (commit_or_undefined env) #
        (case fst (run_state (manager_start (decode_config env) (client_error env) (api_server env) (userConfigMapName env) ns False) []) of
           Runs cfg options \<Rightarrow> RestConfig #
             (case DiscoverKubeVersion env of
                Inl e \<Rightarrow> []
              | Inr kv \<Rightarrow> NewManager options # RegisterMetrics # running_plan (managed_mode env) workerImage cfg kv)
         | _ \<Rightarrow> []))"

lemma follows_run_manager [follows_intros]: "follows ans [Healthz, Readyz, Start] (run_manager ans)"
  unfolding run_manager_def by (intro follows_intros) auto

lemma follows_controllers:
  "follows ans (running_plan managed workerImage cfg kv)
     (manager_controllers ans workerImage cfg kv (manager_mode_controllers ans managed cfg (run_manager ans)))"
proof -
  have mode: "follows ans ((if managed then [AddToScheme Cluster_v1alpha1, Setup NodeKernelClusterClaim]
      else map Setup [MBSC, BuildSignEvents, JobGC (cf_gc_delay cfg), PreflightController]) @ [Healthz, Readyz, Start])
      (manager_mode_controllers ans managed cfg (run_manager ans))"
    unfolding manager_mode_controllers_def by (auto intro!: follows_intros)
  show ?thesis
    unfolding manager_controllers_def running_plan_def Let_def using mode by (auto intro!: follows_setup)
qed

lemma manager_follows_plan: "follows ans (manager_plan env) (manager_main env ans)"
  unfolding manager_main_def manager_init_def manager_plan_def managed_mode_def [symmetric] Let_def list.map append_Cons append_Nil
  by (intro follows_intros follows_controllers) simp_all

lemma manager_plan_running:
  assumes "Start \<in> set (manager_plan env)"
  obtains cfg kv where "config_in_force (decode_config env) False (s_configmap (api_server env) [] (os_Getenv env OperatorNamespaceEnvVar, userConfigMapName env)) = Some cfg"
    "DiscoverKubeVersion env = Inr kv" "os_Getenv env OperatorNamespaceEnvVar \<noteq> []" "os_Getenv env ''RELATED_IMAGE_WORKER'' \<noteq> []"
    "manager_plan env = map AddToScheme [ClientGo, KMM_v1beta1, KMM_v1beta2, Resource_v1] @
       [CreatingManager (commit_or_undefined env), RestConfig, NewManager (GetManagerOptionsFromConfig cfg), RegisterMetrics] @
       running_plan (managed_mode env) (os_Getenv env ''RELATED_IMAGE_WORKER'') cfg kv"
proof -
  note config = manager_config_all_or_nothing [where decode = "decode_config env" and clientErr = "client_error env" and srv = "api_server env"
      and name = "userConfigMapName env" and ns = "os_Getenv env OperatorNamespaceEnvVar" and hub = False and h = "[]"]
  let ?st = "fst (run_state (manager_start (decode_config env) (client_error env) (api_server env) (userConfigMapName env)
       (os_Getenv env OperatorNamespaceEnvVar) False) [])"
  from assms obtain cfg opts kv where st: "os_Getenv env OperatorNamespaceEnvVar \<noteq> []" "os_Getenv env ''RELATED_IMAGE_WORKER'' \<noteq> []"
    "?st = Runs cfg opts" "DiscoverKubeVersion env = Inr kv"
    by (cases ?st; cases "DiscoverKubeVersion env") (auto simp: manager_plan_def Let_def split: if_splits)
  with config show thesis by (intro that [of cfg kv]) (simp_all add: manager_plan_def Let_def)
qed

section \<open>What the controllers of a program need\<close>

definition controller_of :: "predicate \<Rightarrow> predicate \<Rightarrow> library \<Rightarrow> server \<Rightarrow> controller_id \<Rightarrow> controller" where
  "controller_of LabelChanged GenerationChanged lib srv c =
     (case c of
        DevicePlugin \<Rightarrow> DevicePluginReconciler_SetupWithManager lib srv
      | ModuleController \<Rightarrow> ModuleReconciler_SetupWithManager LabelChanged lib srv
      | NMC img cfg \<Rightarrow> NMCReconciler_SetupWithManager
      | PodNodeLabel \<Rightarrow> PodNodeLabel_SetupWithManager lib
      | DRA \<Rightarrow> DRAReconciler_SetupWithManager LabelChanged lib srv
      | NodeLabelModuleVersion \<Rightarrow> NodeLabelModuleVersion_SetupWithManager
      | MIC \<Rightarrow> MICReconciler_SetupWithManager
      | NodeKernelClusterClaim \<Rightarrow> NodeKernelClusterClaim_SetupWithManager
      | MBSC \<Rightarrow> MBSCReconciler_SetupWithManager
      | BuildSignEvents \<Rightarrow> BuildSignEvents_SetupWithManager
      | JobGC delay \<Rightarrow> JobGC_SetupWithManager
      | PreflightController \<Rightarrow> Preflight_SetupWithManager GenerationChanged srv
      | ManagedClusterModule \<Rightarrow> ManagedClusterModule_SetupWithManager LabelChanged lib srv)"

definition ctl_kinds :: "controller \<Rightarrow> kind list" where
  "ctl_kinds c = ctl_for c # map fst (ctl_owns c) @ map fst (ctl_watches c)"

text \<open>The group that holds a kind.\<close>

fun kind_group :: "kind \<Rightarrow> api_group" where
  "kind_group Preflight_Kind = KMM_v1beta2"
| "kind_group DeviceClass_Kind = Resource_v1"
| "kind_group ClusterClaim_Kind = Cluster_v1alpha1"
| "kind_group MCM_Kind = Hub_v1beta1"
| "kind_group ManifestWork_Kind = Work_v1"
| "kind_group ManagedCluster_Kind = Cluster_v1"
| "kind_group Pod_Kind = ClientGo"
| "kind_group Node_Kind = ClientGo"
| "kind_group DaemonSet_Kind = ClientGo"
| "kind_group _ = KMM_v1beta1"

text \<open>
  The field indexes by which a controller lists pods: a listing by a field without an index fails. The module version
  controller uses the index of the pod label controller.
\<close>

fun listed_fields :: "controller_id \<Rightarrow> string list" where
  "listed_fields (NMC _ _) = [''.spec.nodeName'']"
| "listed_fields PodNodeLabel = [''spec.nodeName'']"
| "listed_fields NodeLabelModuleVersion = [''spec.nodeName'']"
| "listed_fields _ = []"

fun setups_of :: "boot list \<Rightarrow> controller_id list" where
  "setups_of [] = []"
| "setups_of (Setup c # bs) = c # setups_of bs"
| "setups_of (_ # bs) = setups_of bs"

lemma setups_of_append [simp]: "setups_of (xs @ ys) = setups_of xs @ setups_of ys"
  by (induction xs rule: setups_of.induct) simp_all

fun scheme_complete :: "(controller_id \<Rightarrow> controller) \<Rightarrow> boot list \<Rightarrow> boot list \<Rightarrow> bool" where
  "scheme_complete ctl done [] = True"
| "scheme_complete ctl done (b # bs) =
     ((case b of Setup c \<Rightarrow> list_all (\<lambda>k. AddToScheme (kind_group k) \<in> set done) (ctl_kinds (ctl c)) | _ \<Rightarrow> True) \<and>
      scheme_complete ctl (b # done) bs)"

definition well_wired :: "(controller_id \<Rightarrow> controller) \<Rightarrow> boot list \<Rightarrow> bool" where
  "well_wired ctl steps \<longleftrightarrow>
     scheme_complete ctl [] steps \<and> distinct (map (\<lambda>c. ctl_name (ctl c)) (setups_of steps)) \<and>
     list_all (\<lambda>c. list_all (\<lambda>f. list_ex (\<lambda>c'. (Pod_Kind, f) \<in> set (ctl_indexes (ctl c'))) (setups_of steps)) (listed_fields c)) (setups_of steps)"

lemmas wired_defs = well_wired_def controller_of_def ctl_kinds_def setup_defs

section \<open>Properties\<close>

lemma plan_ends_with_Start:
  assumes "manager_plan env = xs @ running_plan managed img cfg kv" and "Start \<notin> set xs"
  shows "manager_plan env = butlast (manager_plan env) @ [Start] \<and> Start \<notin> set (butlast (manager_plan env))"
  using assms(2) unfolding assms(1) by (auto simp: running_plan_def butlast_append)

text \<open>
  C34: The manager starts only when it is complete. If the controllers are started at all, the process had its namespace and
  worker image, a configuration in force and the version of the cluster; it executed exactly the steps of its plan, each of
  which succeeded; and the controllers it set up are those of its mode: the common ones, DRA exactly when the cluster is recent
  enough, the cluster claim controller when it is managed by a hub, and the build, event, collection and preflight controllers
  (with the configured delay) otherwise. By the time a controller was set up, every kind it watches was in the scheme; no two
  controllers share a name; and every field by which one of them lists pods has an index.
\<close>

theorem manager_starts_only_complete:
  assumes "Start \<in> set (calls (manager_main env ans) [])"
  shows "\<exists>cfg kv steps. calls (manager_main env ans) [] = steps @ [Start] \<and>
    (\<forall>i<length steps. accepts ans (take i steps) (steps ! i)) \<and>
    os_Getenv env OperatorNamespaceEnvVar \<noteq> [] \<and> os_Getenv env ''RELATED_IMAGE_WORKER'' \<noteq> [] \<and>
    config_in_force (decode_config env) False
      (s_configmap (api_server env) [] (os_Getenv env OperatorNamespaceEnvVar, userConfigMapName env)) = Some cfg \<and>
    DiscoverKubeVersion env = Inr kv \<and>
    setups_of steps = manager_setups (managed_mode env) (os_Getenv env ''RELATED_IMAGE_WORKER'') cfg kv \<and>
    well_wired (controller_of LabelChanged GenerationChanged lib srv) steps"
proof -
  note ex = calls_follow [OF manager_follows_plan]
  from started_in_plan [OF manager_follows_plan assms] obtain cfg kv where c: "config_in_force (decode_config env) False (s_configmap (api_server env) [] (os_Getenv env OperatorNamespaceEnvVar, userConfigMapName env)) = Some cfg"
    "DiscoverKubeVersion env = Inr kv" "os_Getenv env OperatorNamespaceEnvVar \<noteq> []" "os_Getenv env ''RELATED_IMAGE_WORKER'' \<noteq> []"
    and plan: "manager_plan env = map AddToScheme [ClientGo, KMM_v1beta1, KMM_v1beta2, Resource_v1] @
       [CreatingManager (commit_or_undefined env), RestConfig, NewManager (GetManagerOptionsFromConfig cfg), RegisterMetrics] @
       running_plan (managed_mode env) (os_Getenv env ''RELATED_IMAGE_WORKER'') cfg kv"
    by (rule manager_plan_running)
  define steps where "steps = butlast (manager_plan env)"
  have p: "manager_plan env = steps @ [Start]" "Start \<notin> set steps"
    using plan_ends_with_Start [of env, OF plan [unfolded append_assoc [symmetric]]] by (auto simp: steps_def)
  from executed_complete [OF assms [unfolded ex] p] have run: "executed ans [] (manager_plan env) = manager_plan env"
    "\<forall>i<length steps. accepts ans (take i steps) (steps ! i)" by auto
  have "setups_of steps = manager_setups (managed_mode env) (os_Getenv env ''RELATED_IMAGE_WORKER'') cfg kv"
    unfolding steps_def plan by (auto simp: running_plan_def manager_setups_def butlast_append)
  moreover have "well_wired (controller_of LabelChanged GenerationChanged lib srv) steps"
    unfolding steps_def plan by (auto simp: running_plan_def butlast_append wired_defs)
  ultimately show ?thesis using c run p(1) ex by auto
qed

text \<open>And it does start when it has all of that and no step fails.\<close>

theorem manager_starts_when_nothing_fails:
  assumes "os_Getenv env OperatorNamespaceEnvVar \<noteq> []" and "os_Getenv env ''RELATED_IMAGE_WORKER'' \<noteq> []"
    and "client_error env = None" and "config_in_force (decode_config env) False
      (s_configmap (api_server env) [] (os_Getenv env OperatorNamespaceEnvVar, userConfigMapName env)) = Some cfg"
    and "DiscoverKubeVersion env = Inr kv" and "\<And>h b. ans h b = None"
  shows "Start \<in> set (calls (manager_main env ans) [])"
proof -
  let ?st = "fst (run_state (manager_start (decode_config env) (client_error env) (api_server env) (userConfigMapName env)
       (os_Getenv env OperatorNamespaceEnvVar) False) [])"
  obtain cfg opts where "?st = Runs cfg opts"
    using manager_config_all_or_nothing [where decode = "decode_config env" and clientErr = "client_error env" and srv = "api_server env"
      and name = "userConfigMapName env" and ns = "os_Getenv env OperatorNamespaceEnvVar" and hub = False and h = "[]"] assms(3,4)
    by (cases ?st) auto
  then have "Start \<in> set (manager_plan env)" using assms(1,2,5) by (simp add: manager_plan_def Let_def running_plan_def)
  then show ?thesis by (simp add: calls_follow [OF manager_follows_plan] executed_all [of ans, OF assms(6)])
qed

definition good_env :: host_env where
  "good_env = \<lparr>os_Getenv = (\<lambda>n. if n = ''KMM_MANAGED'' then ''1'' else ''value''), build_settings = None, userConfigMapName = ''cm'',
     decode_config = (\<lambda>raw cfg. (None, cfg)), client_error = None, api_server = empty_cluster, discovery_error = None,
     server_version = Inr (''v'' @ fmt_d 1 @ ''.'' @ fmt_d 34 @ ''.2+k3s1'')\<rparr>"

lemma good_version: "DiscoverKubeVersion good_env = Inr \<lparr>kv_major = 1, kv_minor = 34\<rparr>"
  using kube_version_roundtrip [of 1 34 "''.2+k3s1''"] by (simp add: DiscoverKubeVersion_def good_env_def is_digit_def)

lemma good_env_starts: "Start \<in> set (calls (manager_main good_env (\<lambda>h b. None)) [])"
proof (rule manager_starts_when_nothing_fails [OF _ _ _ _ good_version])
  show "config_in_force (decode_config good_env) False
      (s_configmap (api_server good_env) [] (os_Getenv good_env OperatorNamespaceEnvVar, userConfigMapName good_env)) = Some (newDefaultConfig False)"
    by (simp add: config_in_force_def good_env_def empty_cluster_def IsNotFound_def)
qed (simp_all add: good_env_def OperatorNamespaceEnvVar_def)

theorem manager_starts_only_complete_witness:
  "\<exists>cfg kv steps. calls (manager_main good_env (\<lambda>h b. None)) [] = steps @ [Start] \<and>
     setups_of steps = manager_setups (managed_mode good_env) ''value'' cfg kv"
proof -
  have "Start \<in> set (calls (manager_main good_env (\<lambda>h b. None)) [])" by (rule good_env_starts)
  moreover have "os_Getenv good_env ''RELATED_IMAGE_WORKER'' = ''value''" by (simp add: good_env_def)
  ultimately show ?thesis
    using manager_starts_only_complete [of good_env "\<lambda>h b. None" "\<lambda>_. True" "\<lambda>_. True" plain_library empty_cluster] by metis
qed

text \<open>The same of the hub manager, whose plan does not depend on the cluster.\<close>

definition hub_plan :: "host_env \<Rightarrow> boot list" where
  "hub_plan env =
     map AddToScheme [ClientGo, Hub_v1beta1, KMM_v1beta1, Cluster_v1, Work_v1] @
     (if os_Getenv env OperatorNamespaceEnvVar = [] then []
      else CreatingManager (commit_or_undefined env) #
        (case fst (run_state (manager_start (decode_config env) (client_error env) (api_server env) (userConfigMapName env)
             (os_Getenv env OperatorNamespaceEnvVar) True) []) of
           Runs cfg options \<Rightarrow> [RestConfig, NewManager options, RegisterMetrics] @
             map Setup [MIC, MBSC, ManagedClusterModule, BuildSignEvents, JobGC (cf_gc_delay cfg)] @ [Healthz, Readyz, Start]
         | _ \<Rightarrow> []))"

lemma hub_follows_plan: "follows ans (hub_plan env) (hub_main env ans)"
  unfolding hub_main_def hub_init_def hub_plan_def Let_def list.map append_Cons append_Nil
  by (intro follows_intros) simp_all

theorem hub_starts_only_complete:
  assumes "Start \<in> set (calls (hub_main env ans) [])"
  shows "\<exists>cfg steps. calls (hub_main env ans) [] = steps @ [Start] \<and>
    (\<forall>i<length steps. accepts ans (take i steps) (steps ! i)) \<and>
    config_in_force (decode_config env) True
      (s_configmap (api_server env) [] (os_Getenv env OperatorNamespaceEnvVar, userConfigMapName env)) = Some cfg \<and>
    setups_of steps = [MIC, MBSC, ManagedClusterModule, BuildSignEvents, JobGC (cf_gc_delay cfg)] \<and>
    well_wired (controller_of LabelChanged GenerationChanged lib srv) steps"
proof -
  note ex = calls_follow [OF hub_follows_plan]
  let ?st = "fst (run_state (manager_start (decode_config env) (client_error env) (api_server env) (userConfigMapName env)
       (os_Getenv env OperatorNamespaceEnvVar) True) [])"
  from started_in_plan [OF hub_follows_plan assms] obtain cfg opts where st: "?st = Runs cfg opts" "os_Getenv env OperatorNamespaceEnvVar \<noteq> []"
    by (cases ?st) (auto simp: hub_plan_def split: if_splits)
  have c: "config_in_force (decode_config env) True
      (s_configmap (api_server env) [] (os_Getenv env OperatorNamespaceEnvVar, userConfigMapName env)) = Some cfg"
    using manager_config_all_or_nothing [where decode = "decode_config env" and clientErr = "client_error env" and srv = "api_server env"
      and name = "userConfigMapName env" and ns = "os_Getenv env OperatorNamespaceEnvVar" and hub = True and h = "[]"] st by simp
  define steps where "steps = butlast (hub_plan env)"
  have p: "hub_plan env = steps @ [Start]" "Start \<notin> set steps"
    using st unfolding steps_def by (auto simp: hub_plan_def)
  from executed_complete [OF assms [unfolded ex] p] have run: "executed ans [] (hub_plan env) = hub_plan env"
    "\<forall>i<length steps. accepts ans (take i steps) (steps ! i)" by auto
  have "setups_of steps = [MIC, MBSC, ManagedClusterModule, BuildSignEvents, JobGC (cf_gc_delay cfg)]"
    using st unfolding steps_def by (simp add: hub_plan_def)
  moreover have "well_wired (controller_of LabelChanged GenerationChanged lib srv) steps"
    using st unfolding steps_def by (simp add: hub_plan_def wired_defs)
  ultimately show ?thesis using c run p(1) ex by auto
qed

text \<open>The webhook server: which validators it installs, and with which version.\<close>

definition webhook_plan :: "host_env \<Rightarrow> webhook_flags \<Rightarrow> boot list" where
  "webhook_plan env fl =
     (let tail = (if enableManagedClusterModule fl then [SetupWebhook ManagedClusterModuleValidator] else []) @
            (if enableNamespaceDeletion fl then [SetupWebhook NamespaceValidator] else []) @
            (if enablePreflightValidation fl then [SetupWebhook PreflightConversion, SetupWebhook PreflightValidator] else []) @
            [Healthz, Readyz, Start]
      in if enableModule fl
         then (case DiscoverKubeVersion env of Inl e \<Rightarrow> [] | Inr kv \<Rightarrow> SetupWebhook (ModuleValidator kv) # tail)
         else tail)"

lemma follows_webhook_setups [follows_intros]: "follows ans (webhook_plan env fl) (webhook_setups env fl ans (run_manager ans))"
  unfolding webhook_plan_def webhook_setups_def Let_def
  by (cases "DiscoverKubeVersion env") (auto intro!: follows_intros)

lemma webhook_installs:
  assumes "SetupWebhook w \<in> set (calls (webhook_main env fl ans) [])"
  shows "SetupWebhook w \<in> set (webhook_plan env fl)"
proof -
  let ?gc = "fst (run_state (GetConfig (decode_config env) (client_error env) (api_server env) (userConfigMapName env)
      (os_Getenv env OperatorNamespaceEnvVar) False) [])"
  let ?init = "map AddToScheme [ClientGo, KMM_v1beta1, KMM_v1beta2, Hub_v1beta1] @ [CreatingManager (commit_or_undefined env)]"
  have "\<exists>plan. follows ans (?init @ plan) (webhook_main env fl ans) \<and> (SetupWebhook w \<in> set plan \<longrightarrow> SetupWebhook w \<in> set (webhook_plan env fl))"
  proof (cases "os_Getenv env OperatorNamespaceEnvVar = [] \<or> snd ?gc \<noteq> None \<or> fst ?gc = None")
    case True
    then have "follows ans (?init @ []) (webhook_main env fl ans)"
      unfolding webhook_main_def webhook_init_def GetEnvOrFatalError_def Let_def
      by (cases ?gc) (auto intro!: follows_intros split: option.splits)
    then show ?thesis by (intro exI [of _ "[]"]) simp
  next
    case False
    then obtain cfg where "?gc = (Some cfg, None)" by (cases ?gc) auto
    with False have "follows ans (?init @ [RestConfig, NewManager ((GetManagerOptionsFromConfig cfg)\<lparr>mo_leader_election := False\<rparr>)] @
        webhook_plan env fl) (webhook_main env fl ans)"
      unfolding webhook_main_def webhook_init_def GetEnvOrFatalError_def Let_def
      by (auto intro!: follows_intros)
    then show ?thesis by (rule_tac exI, rule_tac conjI) (assumption, simp)
  qed
  then obtain plan where f: "follows ans (?init @ plan) (webhook_main env fl ans)"
    "SetupWebhook w \<in> set plan \<longrightarrow> SetupWebhook w \<in> set (webhook_plan env fl)" by blast
  from started_in_plan [OF f(1) assms] show ?thesis using f(2) by auto
qed

text \<open>
  C28: Modules with a DRA driver are only admitted where the DRA controller runs. When the webhook server installs its Module
  validator and the manager starts, both on the same cluster, a Module that the validator accepts and that has DRA settings is
  one whose DRA controller the manager set up: the two programs decide by the same test of the same version.
\<close>

theorem dra_admitted_only_where_it_runs:
  assumes "SetupWebhook (ModuleValidator kv) \<in> set (calls (webhook_main wenv fl wans) [])"
    and "discovery_error menv = discovery_error wenv" and "server_version menv = server_version wenv"
    and "Start \<in> set (calls (manager_main menv mans) [])"
    and "ValidateCreate va (Some kv) modu = None" and "ms_dra (mod_spec modu) \<noteq> None"
  shows "Setup DRA \<in> set (calls (manager_main menv mans) [])"
proof -
  have "DiscoverKubeVersion wenv = Inr kv"
    using webhook_installs [OF assms(1)] by (cases "DiscoverKubeVersion wenv") (auto simp: webhook_plan_def Let_def split: if_splits)
  then have m: "DiscoverKubeVersion menv = Inr kv" using assms(2,3) by (simp add: DiscoverKubeVersion_def split: option.splits sum.splits)
  have "AtLeast kv MinKubeMajorForDRA MinKubeMinorForDRA"
    using assms(5,6) by (auto simp: ValidateCreate_def validateModule_def validateDRA_def)
  moreover obtain cfg kv' where k: "DiscoverKubeVersion menv = Inr kv'"
    and plan: "manager_plan menv = map AddToScheme [ClientGo, KMM_v1beta1, KMM_v1beta2, Resource_v1] @
       [CreatingManager (commit_or_undefined menv), RestConfig, NewManager (GetManagerOptionsFromConfig cfg), RegisterMetrics] @
       running_plan (managed_mode menv) (os_Getenv menv ''RELATED_IMAGE_WORKER'') cfg kv'"
    using manager_plan_running [OF started_in_plan [OF manager_follows_plan assms(4)]] by blast
  ultimately have "Setup DRA \<in> set (manager_plan menv)" using m unfolding plan by (auto simp: running_plan_def)
  moreover have "calls (manager_main menv mans) [] = manager_plan menv"
  proof -
    note e = plan_ends_with_Start [of menv, OF plan [unfolded append_assoc [symmetric]]]
    have "\<And>xs. Start \<in> set xs \<Longrightarrow> xs = executed mans [] (manager_plan menv) \<Longrightarrow> xs = manager_plan menv"
      using executed_complete [OF _ conjunct1 [OF e] conjunct2 [OF e], of mans "[]"] by simp
    then show ?thesis using assms(4) calls_follow [OF manager_follows_plan] by blast
  qed
  ultimately show ?thesis by simp
qed

definition dra_module :: kmodule where
  "dra_module = accepted_module\<lparr>mod_spec := (mod_spec accepted_module)\<lparr>ms_dra :=
     Some \<lparr>dra_container = dp_container (the (ms_device_plugin (mod_spec accepted_module))), dra_init = None, dra_service_account = [],
       dra_volumes = [], dra_automount = None, dra_driver_name = ''gpu.example.com'', dra_classes = []\<rparr>\<rparr>\<rparr>"

definition module_webhook :: webhook_flags where
  "module_webhook = \<lparr>enableModule = True, enableManagedClusterModule = False, enableNamespaceDeletion = False, enablePreflightValidation = False\<rparr>"

lemma good_webhook_installs:
  "SetupWebhook (ModuleValidator \<lparr>kv_major = 1, kv_minor = 34\<rparr>) \<in> set (calls (webhook_main good_env module_webhook (\<lambda>h b. None)) [])"
proof -
  have "os_Getenv good_env OperatorNamespaceEnvVar = ''value''" "client_error good_env = None"
    "s_configmap (api_server good_env) h n = Inl (ApiErr NotFound)" for h n
    by (simp_all add: good_env_def OperatorNamespaceEnvVar_def empty_cluster_def)
  then show ?thesis
    by (simp add: calls_def webhook_main_def webhook_init_def must_def info_def GetEnvOrFatalError_def Let_def GetConfig_def get_configmap_def
        IsNotFound_def webhook_setups_def module_webhook_def good_version run_manager_def)
qed

theorem dra_admitted_only_where_it_runs_witness:
  "Setup DRA \<in> set (calls (manager_main good_env (\<lambda>h b. None)) [])"
proof -
  have v: "ValidateCreate lenient (Some \<lparr>kv_major = 1, kv_minor = 34\<rparr>) dra_module = None" by code_simp
  have d: "ms_dra (mod_spec dra_module) \<noteq> None" by (simp add: dra_module_def)
  show ?thesis
    using dra_admitted_only_where_it_runs [OF good_webhook_installs refl refl good_env_starts v d] .
qed

text \<open>
  The three programs do not agree on a configuration that cannot be decoded: the managers log the error and run with the
  defaults, as the error's text says; the webhook server ends.
\<close>

theorem webhook_server_refuses_undecodable_config:
  assumes "os_Getenv env OperatorNamespaceEnvVar \<noteq> []" and "client_error env = None"
    and "s_configmap (api_server env) [] (os_Getenv env OperatorNamespaceEnvVar, userConfigMapName env) = Inr data"
    and "map_of data configKey = Some raw" and "fst (decode_config env raw (newDefaultConfig False)) \<noteq> None"
    and "\<And>h b. ans h b = None"
  shows "\<exists>e. fst (run_state (webhook_main env fl ans) []) = Exited e" and "Start \<notin> set (calls (webhook_main env fl ans) [])"
    and "fst (run_state (manager_start (decode_config env) (client_error env) (api_server env) (userConfigMapName env)
      (os_Getenv env OperatorNamespaceEnvVar) False) []) = Runs (newDefaultConfig False) (GetManagerOptionsFromConfig (newDefaultConfig False))"
  using assms
  by (auto simp: calls_def webhook_main_def webhook_init_def must_def info_def GetEnvOrFatalError_def Let_def GetConfig_def get_configmap_def
      FatalError_def manager_start_def overrideConfigFromCM_def decodeStrictYAMLIntoConfig_def ErrCannotUseCustomConfig_def
      split: prod.splits option.splits)

end
