(* ===== verification/Kmm_Metrics.thy ===== *)
theory Kmm_Metrics
  imports Device_Plugin
begin

text \<open>
  The gauges of the operator, \<^verbatim>\<open>internal/metrics/metrics.go\<close>. A gauge has a name and label names and keeps a
  value for each combination of label values it was given; a scrape exports the gauges of the registry. The
  conversion of a count to \<open>float64\<close> is exact for the counts that occur and left out. The controllers reach the gauges
  through the requests \<open>Metric\<close> of \<open>Client\<close>.
\<close>

section \<open>Gauges\<close>

record gauge =
  g_name :: string
  g_help :: string
  g_labels :: "string list"

record metrics =
  kmmModuleResourcesNum :: gauge
  kmmInClusterBuildNum :: gauge
  kmmInClusterSignNum :: gauge
  kmmDevicePluginResourcesNum :: gauge
  kmmPreflightResourceNum :: gauge
  kmmModprobeArgs :: gauge
  kmmModprobeRawArgs :: gauge

definition NewGauge :: "string \<Rightarrow> string \<Rightarrow> gauge" where
  "NewGauge name help = \<lparr>g_name = name, g_help = help, g_labels = []\<rparr>"

definition NewGaugeVec :: "string \<Rightarrow> string \<Rightarrow> string list \<Rightarrow> gauge" where
  "NewGaugeVec name help ls = \<lparr>g_name = name, g_help = help, g_labels = ls\<rparr>"

definition New_metrics :: metrics where
  "New_metrics =
     \<lparr>kmmModuleResourcesNum = NewGauge ''kmm_module_num'' ''Number of existing KMMO Modules'',
      kmmInClusterBuildNum = NewGauge ''kmm_in_cluster_build_num'' ''Number of existing KMMO Modules with in-cluster Build defined'',
      kmmInClusterSignNum = NewGauge ''kmm_in_cluster_sign_num'' ''Number of existing KMMO Modules with in-cluster Sign defined'',
      kmmDevicePluginResourcesNum = NewGauge ''kmm_device_plugin_num'' ''Number of existing KMMO Modules with DevicePlugin defined'',
      kmmPreflightResourceNum = NewGauge ''kmm_preflight_num'' ''Number of existing KMMO Preflights'',
      kmmModprobeArgs = NewGaugeVec ''kmm_modprobe_args''
        ''for a given kernel version, describe which modprobe args used (if at all)'' [''name'', ''namespace'', ''modprobeArgs''],
      kmmModprobeRawArgs = NewGaugeVec ''kmm_modprobe_raw_args''
        ''for a given kernel version, describe which modprobe raw args used (if at all)'' [''name'', ''namespace'', ''modprobeRawArgs'']\<rparr>"

text \<open>
  The registry and the values, with \<open>MustRegister\<close> (which panics on a name that is taken) and \<open>Set\<close> of a gauge
  for label values (which panics when their number is not that of the label names).
\<close>

record metrics_state =
  registry :: "gauge list"
  values_of :: "((string \<times> string list) \<times> int) list"

definition MustRegister :: "gauge list \<Rightarrow> metrics_state \<Rightarrow> go_err + metrics_state" where
  "MustRegister gs st =
     (if distinct (map g_name (registry st @ gs)) then Inr (st\<lparr>registry := registry st @ gs\<rparr>)
      else Inl (Panic ''duplicate metrics collector registration attempted''))"

definition gauge_set :: "gauge \<Rightarrow> string list \<Rightarrow> int \<Rightarrow> metrics_state \<Rightarrow> go_err + metrics_state" where
  "gauge_set g vals v st =
     (if length vals = length (g_labels g) then Inr (st\<lparr>values_of := AList.update (g_name g, vals) v (values_of st)\<rparr>)
      else Inl (Panic ''inconsistent label cardinality''))"

definition Register :: "metrics \<Rightarrow> metrics_state \<Rightarrow> go_err + metrics_state" where
  "Register m st =
     MustRegister [kmmModuleResourcesNum m, kmmInClusterBuildNum m, kmmInClusterSignNum m, kmmDevicePluginResourcesNum m,
       kmmPreflightResourceNum m, kmmModprobeArgs m] st"

definition SetKMMModulesNum :: "metrics \<Rightarrow> int \<Rightarrow> metrics_state \<Rightarrow> go_err + metrics_state" where
  "SetKMMModulesNum m value = gauge_set (kmmModuleResourcesNum m) [] value"

definition SetKMMInClusterBuildNum :: "metrics \<Rightarrow> int \<Rightarrow> metrics_state \<Rightarrow> go_err + metrics_state" where
  "SetKMMInClusterBuildNum m value = gauge_set (kmmInClusterBuildNum m) [] value"

definition SetKMMInClusterSignNum :: "metrics \<Rightarrow> int \<Rightarrow> metrics_state \<Rightarrow> go_err + metrics_state" where
  "SetKMMInClusterSignNum m value = gauge_set (kmmInClusterSignNum m) [] value"

definition SetKMMDevicePluginNum :: "metrics \<Rightarrow> int \<Rightarrow> metrics_state \<Rightarrow> go_err + metrics_state" where
  "SetKMMDevicePluginNum m value = gauge_set (kmmDevicePluginResourcesNum m) [] value"

definition SetKMMPreflightsNum :: "metrics \<Rightarrow> int \<Rightarrow> metrics_state \<Rightarrow> go_err + metrics_state" where
  "SetKMMPreflightsNum m value = gauge_set (kmmPreflightResourceNum m) [] value"

definition SetKMMModprobeArgs :: "metrics \<Rightarrow> string \<Rightarrow> string \<Rightarrow> string \<Rightarrow> metrics_state \<Rightarrow> go_err + metrics_state" where
  "SetKMMModprobeArgs m modName namespace modprobeArgs = gauge_set (kmmModprobeArgs m) [modName, namespace, modprobeArgs] 1"

definition SetKMMModprobeRawArgs :: "metrics \<Rightarrow> string \<Rightarrow> string \<Rightarrow> string \<Rightarrow> metrics_state \<Rightarrow> go_err + metrics_state" where
  "SetKMMModprobeRawArgs m modName namespace modprobeRawArgs = gauge_set (kmmModprobeRawArgs m) [modName, namespace, modprobeRawArgs] 1"

lemmas gauge_defs = gauge_set_def New_metrics_def NewGauge_def NewGaugeVec_def SetKMMModulesNum_def SetKMMInClusterBuildNum_def
  SetKMMInClusterSignNum_def SetKMMDevicePluginNum_def SetKMMPreflightsNum_def SetKMMModprobeArgs_def SetKMMModprobeRawArgs_def

section \<open>What is exported\<close>

text \<open>A request of a controller, as the call of the method that serves it.\<close>

definition serve_metric :: "metrics \<Rightarrow> call \<Rightarrow> metrics_state \<Rightarrow> go_err + metrics_state" where
  "serve_metric m c st =
     (case c of
        Other (Metric name vals v) \<Rightarrow>
          (case vals of
             [] \<Rightarrow>
               if name = ''kmm_module_num'' then SetKMMModulesNum m v st
               else if name = ''kmm_in_cluster_build_num'' then SetKMMInClusterBuildNum m v st
               else if name = ''kmm_in_cluster_sign_num'' then SetKMMInClusterSignNum m v st
               else if name = ''kmm_device_plugin_num'' then SetKMMDevicePluginNum m v st
               else SetKMMPreflightsNum m v st
           | [n, ns, args] \<Rightarrow>
               if name = ''kmm_modprobe_args'' then SetKMMModprobeArgs m n ns args st else SetKMMModprobeRawArgs m n ns args st
           | _ \<Rightarrow> Inr st)
      | _ \<Rightarrow> Inr st)"

fun serve_all :: "metrics \<Rightarrow> call list \<Rightarrow> metrics_state \<Rightarrow> go_err + metrics_state" where
  "serve_all m [] st = Inr st"
| "serve_all m (c # cs) st = and_then (serve_metric m c st) (serve_all m cs)"

definition scrape :: "metrics_state \<Rightarrow> string \<times> string list \<Rightarrow> int option" where
  "scrape st series = (if fst series \<in> g_name ` set (registry st) then map_of (values_of st) series else None)"

definition empty_metrics :: metrics_state where
  "empty_metrics = \<lparr>registry = [], values_of = []\<rparr>"

definition registered_metrics :: metrics_state where
  "registered_metrics = (case Register New_metrics empty_metrics of Inr st \<Rightarrow> st | Inl _ \<Rightarrow> empty_metrics)"

text \<open>Registering the gauges once succeeds.\<close>

lemma registered:
  "Register New_metrics empty_metrics = Inr registered_metrics"
  "g_name ` set (registry registered_metrics) = {''kmm_module_num'', ''kmm_in_cluster_build_num'', ''kmm_in_cluster_sign_num'',
     ''kmm_device_plugin_num'', ''kmm_preflight_num'', ''kmm_modprobe_args''}"
  by (simp_all add: registered_metrics_def Register_def MustRegister_def empty_metrics_def New_metrics_def NewGauge_def NewGaugeVec_def)

section \<open>Properties\<close>

text \<open>Serving a request never panics, keeps the registry, and only adds or overwrites a series.\<close>

definition grows :: "metrics_state \<Rightarrow> go_err + metrics_state \<Rightarrow> bool" where
  "grows st r \<longleftrightarrow> (\<exists>st'. r = Inr st' \<and> registry st' = registry st \<and>
     (\<forall>s. map_of (values_of st) s \<noteq> None \<longrightarrow> map_of (values_of st') s \<noteq> None))"

lemma grows_refl: "grows st (Inr st)"
  by (simp add: grows_def)

lemma grows_set: "length vals = length (g_labels g) \<Longrightarrow> grows st (gauge_set g vals v st)"
  by (auto simp: grows_def gauge_set_def update_conv')

lemma gauge_labels [simp]:
  "g_labels (kmmModuleResourcesNum New_metrics) = []" "g_labels (kmmInClusterBuildNum New_metrics) = []"
  "g_labels (kmmInClusterSignNum New_metrics) = []" "g_labels (kmmDevicePluginResourcesNum New_metrics) = []"
  "g_labels (kmmPreflightResourceNum New_metrics) = []" "length (g_labels (kmmModprobeArgs New_metrics)) = 3"
  "length (g_labels (kmmModprobeRawArgs New_metrics)) = 3"
  by (simp_all add: New_metrics_def NewGauge_def NewGaugeVec_def)

lemmas setter_defs = SetKMMModulesNum_def SetKMMInClusterBuildNum_def SetKMMInClusterSignNum_def SetKMMDevicePluginNum_def
  SetKMMPreflightsNum_def SetKMMModprobeArgs_def SetKMMModprobeRawArgs_def

lemma serve_metric_grows: "grows st (serve_metric New_metrics c st)"
  unfolding serve_metric_def setter_defs
  by (intro grows_refl grows_set | simp split: call.split other_call.split list.split add: grows_refl grows_set)+

lemma serve_all_grows: "grows st (serve_all New_metrics cs st)"
proof (induction cs arbitrary: st)
  case (Cons c cs)
  obtain st1 where 1: "serve_metric New_metrics c st = Inr st1" "registry st1 = registry st"
    "\<forall>s. map_of (values_of st) s \<noteq> None \<longrightarrow> map_of (values_of st1) s \<noteq> None"
    using serve_metric_grows [of st c] by (auto simp: grows_def)
  with Cons [of st1] show ?case by (auto simp: grows_def and_then_def)
qed (simp add: grows_refl)

lemma serve_all_append: "serve_all m (xs @ ys) st = and_then (serve_all m xs st) (serve_all m ys)"
  by (induction xs arbitrary: st) (simp_all add: and_then_def split: sum.split)

text \<open>
  After the device plugin controller has set the metrics, a scrape reports the number of modules, of those with a
  device plugin and of those with in-cluster builds and signing, whatever was set before.
\<close>

theorem scrape_counts_modules:
  assumes "s_modules srv h None = Inr mods" and "registry st = registry registered_metrics"
  shows "\<exists>st'. serve_all New_metrics (calls (setKMMOMetrics srv) h) st = Inr st' \<and>
    scrape st' (''kmm_module_num'', []) = Some (int (length mods)) \<and>
    scrape st' (''kmm_device_plugin_num'', []) = Some (int (length (filter (\<lambda>m. ms_device_plugin (mod_spec m) \<noteq> None) mods))) \<and>
    scrape st' (''kmm_in_cluster_build_num'', []) = Some (count_modules (\<lambda>c. fst (isModuleBuildAndSignCapable c)) mods) \<and>
    scrape st' (''kmm_in_cluster_sign_num'', []) = Some (count_modules (\<lambda>c. snd (isModuleBuildAndSignCapable c)) mods)"
proof -
  have trav: "snd (run_state (State_Monad.traverse_list record_event cs) h) = h @ cs" for cs h
    by (induction cs arbitrary: h) (simp_all add: record_event_def split_def)
  let ?args = "concat (map arg_metrics mods)"
  let ?nums = "[Other (Metric ''kmm_module_num'' [] (int (length mods))),
            Other (Metric ''kmm_in_cluster_build_num'' [] (count_modules (\<lambda>c. fst (isModuleBuildAndSignCapable c)) mods)),
            Other (Metric ''kmm_in_cluster_sign_num'' [] (count_modules (\<lambda>c. snd (isModuleBuildAndSignCapable c)) mods)),
            Other (Metric ''kmm_device_plugin_num'' [] (int (length (filter (\<lambda>m. ms_device_plugin (mod_spec m) \<noteq> None) mods))))]"
  have calls: "calls (setKMMOMetrics srv) h = (List_Modules None # ?args) @ ?nums"
    using assms(1) trav [of "?args @ ?nums" "h @ [List_Modules None]"]
    by (simp add: setKMMOMetrics_def calls_def list_modules_def split_def)
  obtain st1 where "serve_all New_metrics (List_Modules None # ?args) st = Inr st1" "registry st1 = registry st"
    using serve_all_grows [of st "List_Modules None # ?args"] by (auto simp: grows_def simp del: serve_all.simps)
  moreover from this(2) assms(2) have "g_name ` set (registry st1) = {''kmm_module_num'', ''kmm_in_cluster_build_num'', ''kmm_in_cluster_sign_num'',
     ''kmm_device_plugin_num'', ''kmm_preflight_num'', ''kmm_modprobe_args''}" using registered(2) by simp
  ultimately show ?thesis
    unfolding calls serve_all_append by (simp add: and_then_def serve_metric_def gauge_defs scrape_def update_conv')
qed

text \<open>The gauge of the raw arguments is never exported, whatever the controllers set: it is not registered.\<close>

theorem raw_args_never_exported:
  assumes "serve_all New_metrics cs registered_metrics = Inr st"
  shows "scrape st (''kmm_modprobe_raw_args'', vals) = None"
  using assms serve_all_grows [of registered_metrics cs] registered(2) by (auto simp: scrape_def grows_def)

text \<open>
  A series is never removed: once the arguments of a module were exported, they stay exported after the module uses
  other arguments, or none.
\<close>

theorem old_args_stay_exported:
  assumes "scrape st (''kmm_modprobe_args'', [name, ns, old]) \<noteq> None" and "serve_all New_metrics cs st = Inr st'"
  shows "scrape st' (''kmm_modprobe_args'', [name, ns, old]) \<noteq> None"
  using assms serve_all_grows [of st cs] by (auto simp: scrape_def grows_def split: if_splits)

end
