(* ===== verification/Public_Labels.thy ===== *)
theory Public_Labels
  imports Labels
begin

text \<open>
  The label names other programs may use, \<^verbatim>\<open>pkg/labels/labels.go\<close>: the functions of
  \<^verbatim>\<open>internal/utils/kmmlabels.go\<close> under a public package.
\<close>

definition labels_GetKernelModuleReadyNodeLabel :: "string \<Rightarrow> string \<Rightarrow> string" where
  "labels_GetKernelModuleReadyNodeLabel namespace moduleName = GetKernelModuleReadyNodeLabel namespace moduleName"

definition labels_GetDevicePluginNodeLabel :: "string \<Rightarrow> string \<Rightarrow> string" where
  "labels_GetDevicePluginNodeLabel namespace moduleName = GetDevicePluginNodeLabel namespace moduleName"

definition labels_GetDRANodeLabel :: "string \<Rightarrow> string \<Rightarrow> string" where
  "labels_GetDRANodeLabel namespace moduleName = GetDRANodeLabel namespace moduleName"

definition labels_GetModuleVersionLabelName :: "string \<Rightarrow> string \<Rightarrow> string" where
  "labels_GetModuleVersionLabelName namespace name = GetModuleVersionLabelName namespace name"

definition labels_GetKernelModuleVersionReadyNodeLabel :: "string \<Rightarrow> string \<Rightarrow> string" where
  "labels_GetKernelModuleVersionReadyNodeLabel namespace moduleName = GetKernelModuleVersionReadyNodeLabel namespace moduleName"

lemmas public_label_defs = labels_GetKernelModuleReadyNodeLabel_def labels_GetDevicePluginNodeLabel_def labels_GetDRANodeLabel_def
  labels_GetModuleVersionLabelName_def labels_GetKernelModuleVersionReadyNodeLabel_def GetKernelModuleReadyNodeLabel_def
  GetDevicePluginNodeLabel_def GetDRANodeLabel_def GetModuleVersionLabelName_def GetKernelModuleVersionReadyNodeLabel_def

text \<open>
  The five labels of one module never stand for one another, whatever its name: a client that reads one of them does not
  see the state another one reports.
\<close>

theorem public_labels_distinct:
  "distinct [labels_GetKernelModuleReadyNodeLabel ns name, labels_GetDevicePluginNodeLabel ns name, labels_GetDRANodeLabel ns name,
     labels_GetModuleVersionLabelName ns name, labels_GetKernelModuleVersionReadyNodeLabel ns name]"
proof -
  have "distinct (map length [labels_GetKernelModuleReadyNodeLabel ns name, labels_GetDevicePluginNodeLabel ns name, labels_GetDRANodeLabel ns name,
     labels_GetModuleVersionLabelName ns name, labels_GetKernelModuleVersionReadyNodeLabel ns name])"
    by (simp add: public_label_defs label_consts)
  then show ?thesis unfolding distinct_map by blast
qed

end
