(* ===== verification/Spec2Isabelle.thy ===== *)
theory Spec2Isabelle
  imports Prelude Api_Types Kernel_Version Labels Client Kernel_Mapper Nmc Node_Api Paths Worker_Pod
    Nmc_Reconciler Mic Mbsc Image_Puller Mic_Reconciler Build_Sign Mbsc_Reconciler Module_Reconciler Version_Labels
    Webhook Event_Filter Device_Plugin Dra Preflight Pod_Node_Label Cluster_Claim Hub Jobs Worker
    Worker_Protocol Worker_Lifecycle Worker_Convergence Pull_Secrets Image_Pipeline Config Preflight_Conversion
    Command_Logger Wiring Programs Kmm_Metrics Public_Labels
begin

text \<open>
  Kernel Module Management (KMM) loads out-of-tree kernel modules on the nodes of a Kubernetes cluster. This library models the
  operator, its admission webhooks, the worker program it runs on nodes and the hub that drives several clusters, and proves what
  makes them correct. File names are below \<^verbatim>\<open>src/\<close>.

  \<^bold>\<open>The program.\<close> A user writes a Module. The module reconciler decides for every node whether the module belongs there, asks for
  its images in a ModuleImagesConfig (MIC) and enters it into the NodeModulesConfig (NMC) of the node once the image exists. The
  MIC reconciler finds out with pull pods whether an image exists and otherwise asks for a build or a signature in a
  ModuleBuildSignConfig (MBSC), which the MBSC reconciler works off with pods. The NMC reconciler runs a worker pod per module and
  node that loads or unloads it, records the outcome in the status of the NMC and labels the node. Device plugins and DRA drivers
  run as DaemonSets where the module is ready; further controllers upgrade versions node by node, check modules for a kernel to
  come (preflight), report on builds and publish the kernels of a cluster. The hub turns a ManagedClusterModule into
  Modules on other clusters.

  \<^bold>\<open>How it is modelled.\<close> Custom resources and Kubernetes objects are records with the fields the code reads or writes, a nil pointer
  or slice is \<open>None\<close>, Go errors are values of \<open>go_err\<close> that keep what \<open>errors.Is\<close> can see (\<open>%w\<close>) apart from what it cannot (\<open>%v\<close>), and
  a nil dereference is the error \<open>Panic\<close>. A handler is a program in the state monad whose state is the list of the requests issued
  so far (\<open>Prelude.io\<close>): every read and write of the API server is a request (\<open>Client.call\<close>), and the server is a
  parameter that answers each from the history, so it may change its mind, fail or lose writes at any point. The theorems about
  requests hold for every such server. Third-party functions (\<open>Client.library\<close>: regular expressions, templates, YAML, hashing,
  owner references, label requirements), the node (\<open>Worker.host\<close>), name validation (\<open>Webhook\<close>), title casing (\<open>Jobs\<close>) and YAML decoding of
  the configuration (\<open>Config\<close>) are parameters; what a theorem needs of them is a hypothesis, and a witness shows that it can hold.
  Go maps are association lists: the order of the list is the order of iteration, and what depends on it is stated for every
  or for some order. A merge patch is the pair of the object it was computed from and the changed object. All functions are total; no fuel is used. Concurrent parts are step relations.

  \<^bold>\<open>The theories.\<close>
  \<^item> \<open>Prelude\<close>: slices, maps, errors, strings, \<open>keyed_store\<close> (the interface of lists that are used as maps), requests and the rules
    \<open>emits\<close> and \<open>does\<close> for what a program requests and returns. \<open>Paths\<close>: cleaning and joining of paths.
  \<^item> \<open>Api_Types\<close> (\<^verbatim>\<open>api/\<close>, \<^verbatim>\<open>api-hub/\<close>, \<^verbatim>\<open>internal/api\<close>), \<open>Client\<close> (requests, \<^verbatim>\<open>internal/meta\<close>, \<open>CreateOrPatch\<close>), \<open>Config\<close>
    (\<^verbatim>\<open>internal/config\<close>): a manager runs with a whole configuration or with the defaults.
  \<^item> \<open>Kernel_Version\<close> (\<^verbatim>\<open>internal/kernel\<close>, templates), \<open>Labels\<close> (\<^verbatim>\<open>internal/constants\<close>, label names and their recognisers, which read back what
    was made except where names hold dots), \<open>Kernel_Mapper\<close> (\<^verbatim>\<open>internal/module\<close>): the first matching mapping decides, its
    settings are merged, and the error says exactly when none matches.
  \<^item> \<open>Nmc\<close>, \<open>Mic\<close>, \<open>Mbsc\<close>: the helpers on the three resources; their lists behave as maps (interpretations of \<open>keyed_store\<close>).
    \<open>Node_Api\<close>, \<open>Image_Puller\<close>, \<open>Worker_Pod\<close> (\<^verbatim>\<open>internal/pod\<close>): nodes, pull pods and the templates of worker pods.
  \<^item> \<open>Nmc_Reconciler\<close>: the protocol of worker pods: status before deletion, what may be created when, labels that follow the status, and
    that loading and unloading settle. \<open>Worker_Lifecycle\<close> closes the loop: a cluster that stores what the reconciler writes (\<open>live\<close>), with users, kubelet,
    evictions, reboots and an operator that may stop after any request as the step relation \<open>lifecycle\<close>; its invariant (\<open>step_invariant\<close> of \<open>Prelude\<close>) is that
    the status tells what is loaded. \<open>Worker_Convergence\<close>: on this cluster a new module is settled, and an unwanted one gone, after two passes. \<open>Mic_Reconciler\<close>, \<open>Build_Sign\<close>, \<open>Mbsc_Reconciler\<close>: an image counts as existing only after a successful
    pull or build, and builds are recorded only from their own pods; \<open>Image_Pipeline\<close> puts the
    two controllers together: a finished pod moves its image on by one step. \<open>Module_Reconciler\<close>: scheduling decisions, a module is enabled only
    with an image, and its finalizer is removed last.
  \<^item> \<open>Version_Labels\<close>: ordered upgrades, a table of label actions, refined to a small state machine that terminates.
    \<open>Device_Plugin\<close> and \<open>Dra\<close>: two instances of \<open>versioned_daemonset\<close>, the contract of a DaemonSet per module version, and
    their finalizers and labels. \<open>Pod_Node_Label\<close>: node labels that follow the running pods.
  \<^item> \<open>Webhook\<close>: what an accepted Module and every sequence of accepted updates guarantee. \<open>Event_Filter\<close>: which events wake which controller, and that
    dropped events do not matter. \<open>Preflight\<close>, \<open>Preflight_Conversion\<close>: verdicts on modules, and the conversion of the deprecated version.
    \<open>Jobs\<close>: events of builds and the delay before their pods go.
  \<^item> \<open>Cluster_Claim\<close>, \<open>Hub\<close>: publication of kernels and the hub; the pointer that copies of a ManagedClusterModule share is explicit there.
  \<^item> \<open>Worker\<close> (\<^verbatim>\<open>internal/worker\<close>, \<^verbatim>\<open>cmd/worker\<close>): the program in the worker pods, with the node as a parameter in the same way; \<open>step_ok\<close> says that a
    step that succeeds was accepted by the node. \<open>Worker_Protocol\<close>: a pod made by \<open>Worker_Pod\<close>, run by \<open>Worker\<close>, loads what was asked for. \<open>Pull_Secrets\<close>:
    registry credentials from files.
    \<open>Command_Logger\<close> (\<^verbatim>\<open>modprobe.go\<close>, \<^verbatim>\<open>cmdlog.go\<close>): the process, the two goroutines that log its output and the waits as a step relation
    \<open>cl_step\<close> over all interleavings; every run ends, and logs every line, unless a line is too long; with cancellation it ends in any case (interpretations of \<open>converging_steps\<close> of \<open>Prelude\<close>). The token limit is that of \<open>bufio.Scanner\<close>, the
    capacity of a pipe is arbitrary.
  \<^item> \<open>Wiring\<close>: the \<open>SetupWithManager\<close> methods as data (\<open>controller\<close>), what controller-runtime makes of an event (\<open>requests\<close>), and who is woken by
    the objects the operator makes. \<open>Programs\<close> (\<^verbatim>\<open>cmd/manager\<close>, \<^verbatim>\<open>cmd/manager-hub\<close>, \<^verbatim>\<open>cmd/webhook-server\<close>, \<^verbatim>\<open>internal/cmd\<close>): the steps
    of the programs, compared with a plan (\<open>follows\<close>): a manager starts only with all it needs. \<open>Kmm_Metrics\<close> (\<^verbatim>\<open>internal/metrics\<close>): what a scrape reports.
    \<open>Public_Labels\<close> (\<^verbatim>\<open>pkg/labels\<close>).
  \<^item> This theory: from the decision of the module reconciler to the loaded module and its recorded status, and a crash that two controllers bring about together.

  \<^bold>\<open>Not modelled.\<close> Mocks, generated deep copies and the registration of Go types (no behaviour); what controller-runtime, Prometheus and the
  Kubernetes client do inside (third-party code: the event handlers and the registry follow their documentation, the rest are parameters); logging, and the
  parsing of flags. The object an API call returns is not
  fed back into later steps of the same handler, as the code goes on with its own copy. Durations are integers without bound.
\<close>

section \<open>Properties that span components\<close>

definition failed_sign :: mbsc where
  "failed_sign = (new_mbsc ''mymod'' ''kmm'')\<lparr>mbsc_images := [\<lparr>bss_spec = signed_image, bss_action = SignImage\<rparr>],
     mbsc_status := [\<lparr>bst_image = ''reg/signed'', bst_status = ActionFailure, bst_action = SignImage\<rparr>]\<rparr>"

text \<open>
  C35: an image that is only signed cannot be retried. When its signing failed, the image controller records it as
  missing and asks for a build of the image, in one write; and the build and sign controller panics on every
  object that holds this request as its first image, as long as no pod exists for it.
\<close>

theorem failed_sign_crashes_controller:
  assumes spec: "is_build spec = None" "is_sign spec \<noteq> None" "GetModuleImageSpec m (is_image spec) = Some spec"
    and b: "\<And>h. s_mbsc srv h (mic_namespace m, mic_name m) = Inr b" "mbsc_wf b"
      "lookup_outcome b (is_image spec) = Some (SignImage, ActionFailure)"
      "GetImageSpec b (is_image spec) = Some \<lparr>bss_spec = spec, bss_action = SignImage\<rparr>"
    and own: "\<And>o'. \<exists>ow. l_SetControllerReference lib (mic_owner_of m) o' = Inr ow"
    and pods: "list_all pull_pod_ok pods"
  shows "let m' = snd (fst (run_state (updateStatusByMBSC srv m) h)) in
    GetImageState m' (is_image spec) = ImageDoesNotExist \<and>
    (\<exists>c. writes (process_image lib srv m' pods spec) h' = [c] \<and> asks_for m' spec BuildImage c) \<and>
    (\<forall>b' imgs srv' h''. mbsc_images b' = \<lparr>bss_spec = spec, bss_action = BuildImage\<rparr> # imgs \<longrightarrow> \<not> mbsc_deleting b' \<longrightarrow>
       mbsc_status b' = mbsc_status b \<longrightarrow> (\<forall>h q. s_pods srv' h q = Inr []) \<longrightarrow> (\<forall>h c. s_write srv' h c = None) \<longrightarrow>
       (\<exists>e. fst (run_state (MBSC_Reconcile lib srv' getenv b') h'') = Some e \<and> is_panic e))"
proof -
  let ?m = "snd (fst (run_state (updateStatusByMBSC srv m) h))"
  have owner: "mic_owner_of ?m = mic_owner_of m" by (rule updateStatusByMBSC_owner)
  then have frame: "mic_name ?m = mic_name m" "mic_namespace ?m = mic_namespace m" by (simp_all add: mic_owner_of_def)
  have st: "GetImageState ?m (is_image spec) = ImageDoesNotExist"
    using updateStatusByMBSC_state [OF b(1,2) spec(3)] b(3) by simp
  then have act: "needed_action ?m spec = Some BuildImage" using spec by (simp add: needed_action_def)
  have "\<exists>c. writes (process_image lib srv ?m pods spec) h' = [c] \<and> asks_for ?m spec BuildImage c"
    using process_image_progress [OF pods, of lib ?m srv h' b spec] own act b(1,4) frame owner by auto
  moreover have "\<exists>e. fst (run_state (MBSC_Reconcile lib srv' getenv b') h'') = Some e \<and> is_panic e"
    if b': "mbsc_images b' = \<lparr>bss_spec = spec, bss_action = BuildImage\<rparr> # imgs" "\<not> mbsc_deleting b'" "mbsc_status b' = mbsc_status b"
      "\<forall>h q. s_pods srv' h q = Inr []" "\<forall>h c. s_write srv' h c = None" for b' imgs srv' h''
  proof -
    obtain h1 where up: "run_state (Mbsc_Reconciler.updateStatus srv' b') h'' = ((None, b'), h1)"
      using updateStatus_no_pods [OF b'(4,5)] by blast
    have "find (\<lambda>s. bst_image s = is_image spec \<and> bst_action s = BuildImage) (mbsc_status b) = None"
      using b(2,3) by (auto simp: mbsc_wf_def find_key_unique lookup_outcome_def)
    then have "GetImageStatus b' (is_image spec) BuildImage \<noteq> ActionSuccess" using b'(3) by (simp add: GetImageStatus_def)
    with b' spec up show ?thesis by (intro build_without_settings_panic [OF b'(2,1) _ _ up]) simp_all
  qed
  ultimately show ?thesis using st by (simp add: Let_def)
qed

theorem failed_sign_crashes_controller_witness:
  "GetImageState (snd (fst (run_state (updateStatusByMBSC (empty_cluster\<lparr>s_mbsc := (\<lambda>h k. Inr failed_sign)\<rparr>) sample_mic) [])))
     ''reg/signed'' = ImageDoesNotExist \<and>
   (\<exists>e. fst (run_state (MBSC_Reconcile plain_library empty_cluster (\<lambda>_. [])
      (failed_sign\<lparr>mbsc_images := [\<lparr>bss_spec = signed_image, bss_action = BuildImage\<rparr>]\<rparr>)) []) = Some e \<and> is_panic e)"
proof -
  let ?srv = "empty_cluster\<lparr>s_mbsc := (\<lambda>h k. Inr failed_sign)\<rparr>"
  let ?b = "failed_sign\<lparr>mbsc_images := [\<lparr>bss_spec = signed_image, bss_action = BuildImage\<rparr>]\<rparr>"
  have img: "is_build signed_image = None" "is_sign signed_image \<noteq> None" "is_image signed_image = ''reg/signed''"
    by (simp_all add: signed_image_def built_image_def)
  have b: "mbsc_wf failed_sign" "lookup_outcome failed_sign ''reg/signed'' = Some (SignImage, ActionFailure)"
    "GetImageSpec failed_sign ''reg/signed'' = Some \<lparr>bss_spec = signed_image, bss_action = SignImage\<rparr>"
    "mbsc_images ?b = [\<lparr>bss_spec = signed_image, bss_action = BuildImage\<rparr>]" "\<not> mbsc_deleting ?b" "mbsc_status ?b = mbsc_status failed_sign"
    by (simp_all add: failed_sign_def mbsc_wf_def lookup_outcome_def GetImageSpec_def img new_mbsc_def)
  have own: "\<exists>ow. l_SetControllerReference plain_library (mic_owner_of sample_mic) o' = Inr ow" for o'
    by (simp add: plain_library_def)
  have srv: "\<forall>h q. s_pods empty_cluster h q = Inr []" "\<forall>h c. s_write empty_cluster h c = None"
    by (simp_all add: empty_cluster_def)
  show ?thesis
    using failed_sign_crashes_controller [of signed_image sample_mic ?srv failed_sign plain_library "[]" "[]" "[]" "\<lambda>_. []"] img b own srv
    by (simp add: Let_def)
qed


text \<open>A module for any node of kernel 6.1.7, on such a node.\<close>

definition e2e_node :: node where
  "e2e_node = plain_node ''n1'' ''6.1.7''"

definition e2e_data :: mld where
  "e2e_data = projr (kernel_data plain_library any_kernel e2e_node)"

definition e2e_library :: library where
  "e2e_library = plain_library\<lparr>l_UnmarshalStrict_config := \<lambda>s c. (None, config_of e2e_data)\<rparr>"

definition e2e_nmc :: nmc where
  "e2e_nmc = projr (enable_in e2e_library e2e_data e2e_node (new_nmc ''n1''))"

definition e2e_pod :: pod where
  "e2e_pod = projr (LoaderPodTemplate sample_mgr e2e_library e2e_nmc (spec_entry (e2e_data, config_of e2e_data)))"

definition e2e_cluster :: server where
  "e2e_cluster = empty_cluster\<lparr>s_pods := \<lambda>h q. Inr [e2e_pod\<lparr>pod_phase := PodSucceeded\<rparr>]\<rparr>"

definition e2e_host :: host where
  "e2e_host = willing_host\<lparr>h_read_file := \<lambda>h f. Inr (GetConfigAnnotation (Some e2e_pod))\<rparr>"


end
